(* ===== verification/Prelude.thy ===== *)
theory Prelude
  imports Complex_Main "HOL-Library.AList" "HOL-Library.Char_ord" "HOL-Library.List_Lexorder"
    "HOL-Library.Product_Lexorder" "HOL-Library.Sublist"
begin

text \<open>
  The shared vocabulary of the development: identifiers and time stamps, the Python exceptions
  the services raise and the plumbing of results that carry them, the string methods and truth
  tests the code uses, rows of a table addressed by their primary key, and the \<open>row_store\<close>
  interface with the laws every table offers.
\<close>

section \<open>Collections of facts\<close>

named_theorems result_simps \<open>how a result of a sequence of steps is decomposed\<close>
named_theorems row_simps \<open>lookups in tables after insertions, updates and deletions\<close>

section \<open>Identifiers, time and exceptions\<close>

text \<open>
  Primary keys are strings (\<open>String(64)\<close> columns); a time stamp is the number of microseconds of
  a naive UTC \<open>datetime\<close>.
\<close>

type_synonym id = string
type_synonym time = int

abbreviation seconds :: "int \<Rightarrow> time" where "seconds n \<equiv> n * 1000000"
abbreviation minutes :: "int \<Rightarrow> time" where "minutes n \<equiv> n * 60000000"
abbreviation hours :: "int \<Rightarrow> time" where "hours n \<equiv> n * 3600000000"

datatype py_exc =
    HTTPException nat string
  | ValueError string
  | TypeError string
  | KeyError string
  | IntegrityError string
  | AttributeError string
  | RuntimeActionAbortedError string
  | OtherException string

type_synonym 'a result = "py_exc + 'a"

text \<open>Sequencing: the first exception ends the computation.\<close>

definition bind_r :: "'a result \<Rightarrow> ('a \<Rightarrow> 'b result) \<Rightarrow> 'b result" where
  "bind_r m f = (case m of Inl e \<Rightarrow> Inl e | Inr x \<Rightarrow> f x)"

lemma bind_r_Inl [simp]: "bind_r (Inl e) f = Inl e"
  by (simp add: bind_r_def)

lemma bind_r_Inr [simp]: "bind_r (Inr x) f = f x"
  by (simp add: bind_r_def)

lemma bind_r_eq_Inr [result_simps]: "bind_r m f = Inr y \<longleftrightarrow> (\<exists>x. m = Inr x \<and> f x = Inr y)"
  by (cases m) auto

lemma bind_r_eq_Inl [result_simps]:
  "bind_r m f = Inl e \<longleftrightarrow> m = Inl e \<or> (\<exists>x. m = Inr x \<and> f x = Inl e)"
  by (cases m) auto

lemma bind_r_cong [fundef_cong]:
  "m = m' \<Longrightarrow> (\<And>x. m' = Inr x \<Longrightarrow> f x = f' x) \<Longrightarrow> bind_r m f = bind_r m' f'"
  by (cases m') auto

lemma if_Inl_eq_Inr [result_simps]: "(if b then Inl e else r) = Inr y \<longleftrightarrow> \<not> b \<and> r = Inr y"
  by simp

lemma if_Inr_Inl_eq_Inr [result_simps]: "(if b then r else Inl e) = Inr y \<longleftrightarrow> b \<and> r = Inr y"
  by simp

section \<open>Python's truth test and string methods\<close>

text \<open>
  An optional string is true when it is neither \<open>None\<close> nor empty; \<open>a or b\<close> yields \<open>a\<close> when
  \<open>a\<close> is true and \<open>b\<close> otherwise. Characters are code points; the whitespace test lists Python's
  whitespace among the first 256, and case mapping covers the ASCII letters.
\<close>

definition truthy :: "string option \<Rightarrow> bool" where
  "truthy x = (case x of None \<Rightarrow> False | Some v \<Rightarrow> v \<noteq> [])"

definition str_of :: "string option \<Rightarrow> string" where
  "str_of x = (case x of None \<Rightarrow> [] | Some v \<Rightarrow> v)"

definition or_else :: "string option \<Rightarrow> string \<Rightarrow> string" where
  "or_else x d = (if truthy x then str_of x else d)"

definition or_opt :: "string option \<Rightarrow> string option \<Rightarrow> string option" where
  "or_opt x y = (if truthy x then x else y)"

definition py_isspace :: "char \<Rightarrow> bool" where
  "py_isspace c = ((of_char c :: nat) \<in> {9, 10, 11, 12, 13, 28, 29, 30, 31, 32, 133, 160})"

definition py_strip :: "string \<Rightarrow> string" where
  "py_strip s = rev (dropWhile py_isspace (rev (dropWhile py_isspace s)))"

definition is_ascii_lower :: "char \<Rightarrow> bool" where
  "is_ascii_lower c = (97 \<le> (of_char c :: nat) \<and> (of_char c :: nat) \<le> 122)"

definition is_ascii_upper :: "char \<Rightarrow> bool" where
  "is_ascii_upper c = (65 \<le> (of_char c :: nat) \<and> (of_char c :: nat) \<le> 90)"

definition is_digit :: "char \<Rightarrow> bool" where
  "is_digit c = (48 \<le> (of_char c :: nat) \<and> (of_char c :: nat) \<le> 57)"

definition py_upper :: "string \<Rightarrow> string" where
  "py_upper = map (\<lambda>c. if is_ascii_lower c then char_of ((of_char c :: nat) - 32) else c)"

definition py_lower :: "string \<Rightarrow> string" where
  "py_lower = map (\<lambda>c. if is_ascii_upper c then char_of ((of_char c :: nat) + 32) else c)"

text \<open>\<open>sep.join(parts)\<close>.\<close>

fun py_join :: "string \<Rightarrow> string list \<Rightarrow> string" where
  "py_join sep [] = []"
| "py_join sep [x] = x"
| "py_join sep (x # y # xs) = x @ sep @ py_join sep (y # xs)"

text \<open>The decimal digits of a number, as \<open>str\<close> prints an integer.\<close>

fun nat_digits :: "nat \<Rightarrow> string" where
  "nat_digits n = (if n < 10 then [char_of (48 + n)] else nat_digits (n div 10) @ [char_of (48 + n mod 10)])"

declare nat_digits.simps [simp del]

definition int_str :: "int \<Rightarrow> string" where
  "int_str i = (if i < 0 then CHR ''-'' # nat_digits (nat (- i)) else nat_digits (nat i))"

lemma truthy_simps [simp]: "truthy None = False" "truthy (Some v) = (v \<noteq> [])"
  by (simp_all add: truthy_def)

lemma str_of_simps [simp]: "str_of None = []" "str_of (Some v) = v"
  by (simp_all add: str_of_def)

lemma truthy_iff: "truthy x \<longleftrightarrow> (\<exists>v. x = Some v \<and> v \<noteq> [])"
  by (cases x) auto

lemma or_else_simps [simp]:
  "or_else None d = d"
  "v \<noteq> [] \<Longrightarrow> or_else (Some v) d = v"
  "or_else (Some []) d = d"
  by (simp_all add: or_else_def)

lemma or_else_nonempty: "d \<noteq> [] \<Longrightarrow> or_else x d \<noteq> []"
  by (auto simp: or_else_def truthy_iff)

lemma or_opt_simps [simp]:
  "or_opt None y = y"
  "v \<noteq> [] \<Longrightarrow> or_opt (Some v) y = Some v"
  "or_opt (Some []) y = y"
  by (simp_all add: or_opt_def)

lemma length_py_upper [simp]: "length (py_upper s) = length s"
  by (simp add: py_upper_def)

lemma set_py_strip: "set (py_strip s) \<subseteq> set s"
proof -
  have "set (dropWhile py_isspace s) \<subseteq> set s" for s by (auto dest: set_dropWhileD)
  then show ?thesis unfolding py_strip_def by (metis set_rev subset_trans)
qed

lemma py_strip_Nil [simp]: "py_strip [] = []"
  by (simp add: py_strip_def)

lemma dropWhile_idem [simp]: "dropWhile P (dropWhile P xs) = dropWhile P xs"
  by (induction xs) auto

lemma dropWhile_stop: "xs = [] \<or> \<not> P (hd xs) \<Longrightarrow> dropWhile P xs = xs"
  by (cases xs) auto

lemma hd_rev_dropWhile:
  assumes "ys = rev (dropWhile P (rev xs))" "ys \<noteq> []"
  shows "hd ys = hd xs"
proof -
  have "prefix ys xs" using assms(1)
    by (metis rev_rev_ident suffix_dropWhile suffix_to_prefix)
  with assms(2) show ?thesis by (auto simp: prefix_def)
qed

lemma py_strip_idem [simp]: "py_strip (py_strip s) = py_strip s"
proof -
  let ?l = "dropWhile py_isspace s"
  let ?r = "rev (dropWhile py_isspace (rev ?l))"
  have "?r = [] \<or> \<not> py_isspace (hd ?r)"
  proof (cases "?r = []")
    case False
    then have "hd ?r = hd ?l" using hd_rev_dropWhile by blast
    moreover have "?l \<noteq> []" using False by (metis dropWhile.simps(1) rev.simps(1))
    ultimately show ?thesis by (metis hd_dropWhile)
  qed simp
  then have "dropWhile py_isspace ?r = ?r" by (rule dropWhile_stop)
  then show ?thesis by (simp add: py_strip_def)
qed

section \<open>Tables\<close>

text \<open>
  A table is the list of its rows in the order they were inserted. The operations of the
  SQLAlchemy session the code uses are: \<open>session.get\<close> by primary key, the first row of a
  \<open>select\<close> (\<open>List.find\<close>), all rows of a \<open>select\<close> (\<open>filter\<close>), \<open>session.add\<close> (append),
  writing attributes of a loaded row (\<open>row_put\<close>), \<open>session.delete\<close> (\<open>row_del\<close>) and the bulk
  delete of a query (\<open>filter\<close> of the complement).
\<close>

definition row_get :: "('r \<Rightarrow> id) \<Rightarrow> id \<Rightarrow> 'r list \<Rightarrow> 'r option" where
  "row_get key i rows = List.find (\<lambda>r. key r = i) rows"

definition row_get_opt :: "('r \<Rightarrow> id) \<Rightarrow> id option \<Rightarrow> 'r list \<Rightarrow> 'r option" where
  "row_get_opt key i rows = (case i of None \<Rightarrow> None | Some k \<Rightarrow> row_get key k rows)"

definition row_put :: "('r \<Rightarrow> id) \<Rightarrow> id \<Rightarrow> ('r \<Rightarrow> 'r) \<Rightarrow> 'r list \<Rightarrow> 'r list" where
  "row_put key i f rows = map (\<lambda>r. if key r = i then f r else r) rows"

definition row_add :: "'r \<Rightarrow> 'r list \<Rightarrow> 'r list" where
  "row_add r rows = rows @ [r]"

definition row_del :: "('r \<Rightarrow> id) \<Rightarrow> id \<Rightarrow> 'r list \<Rightarrow> 'r list" where
  "row_del key i rows = filter (\<lambda>r. key r \<noteq> i) rows"

definition row_del_where :: "('r \<Rightarrow> bool) \<Rightarrow> 'r list \<Rightarrow> 'r list" where
  "row_del_where P rows = filter (\<lambda>r. \<not> P r) rows"

definition row_ids :: "('r \<Rightarrow> id) \<Rightarrow> 'r list \<Rightarrow> id set" where
  "row_ids key rows = key ` set rows"

lemma find_append: "List.find P (xs @ ys) = (case List.find P xs of None \<Rightarrow> List.find P ys | Some x \<Rightarrow> Some x)"
  by (induction xs) auto

lemma find_SomeD: "List.find P xs = Some x \<Longrightarrow> x \<in> set xs \<and> P x"
  by (induction xs) (auto split: if_splits)

lemma find_None: "List.find P xs = None \<longleftrightarrow> (\<forall>x\<in>set xs. \<not> P x)"
  by (induction xs) auto

lemma find_map: "List.find P (map f xs) = map_option f (List.find (P \<circ> f) xs)"
  by (induction xs) auto

lemma find_filter: "List.find P (filter Q xs) = List.find (\<lambda>x. Q x \<and> P x) xs"
  by (induction xs) auto

lemma find_cong: "(\<And>x. x \<in> set xs \<Longrightarrow> P x = Q x) \<Longrightarrow> List.find P xs = List.find Q xs"
  by (induction xs) auto

lemma find_Some_iff_ex: "(\<exists>x. List.find P xs = Some x) \<longleftrightarrow> (\<exists>x\<in>set xs. P x)"
  by (metis find_None option.exhaust option.distinct(1))

lemma row_get_SomeD: "row_get key i rows = Some r \<Longrightarrow> r \<in> set rows \<and> key r = i"
  unfolding row_get_def by (rule find_SomeD)

lemma row_get_opt_SomeD: "row_get_opt key i rows = Some r \<Longrightarrow> r \<in> set rows \<and> i = Some (key r)"
  by (auto simp: row_get_opt_def split: option.splits dest: row_get_SomeD)

lemma row_get_opt_simps [simp]:
  "row_get_opt key None rows = None"
  "row_get_opt key (Some i) rows = row_get key i rows"
  by (simp_all add: row_get_opt_def)

lemma row_get_None: "row_get key i rows = None \<longleftrightarrow> i \<notin> row_ids key rows"
  by (auto simp: row_get_def find_None row_ids_def)

lemma row_get_mem:
  "distinct (map key rows) \<Longrightarrow> r \<in> set rows \<Longrightarrow> row_get key (key r) rows = Some r"
  by (induction rows) (auto simp: row_get_def rev_image_eqI)

lemma row_get_add [row_simps]:
  "row_get key i (row_add r rows) =
     (case row_get key i rows of Some r' \<Rightarrow> Some r' | None \<Rightarrow> if key r = i then Some r else None)"
  by (auto simp: row_get_def row_add_def find_append split: option.splits)

lemma row_get_put [row_simps]:
  assumes "\<And>r. key (f r) = key r"
  shows "row_get key i (row_put key j f rows) =
           (if i = j then map_option f (row_get key i rows) else row_get key i rows)"
  using assms by (induction rows) (auto simp: row_get_def row_put_def)

lemma row_get_del [row_simps]:
  "row_get key i (row_del key j rows) = (if i = j then None else row_get key i rows)"
  by (induction rows) (auto simp: row_get_def row_del_def)

lemma row_ids_add [simp]: "row_ids key (row_add r rows) = insert (key r) (row_ids key rows)"
  by (auto simp: row_ids_def row_add_def)

lemma row_ids_put [simp]:
  "(\<And>r. key (f r) = key r) \<Longrightarrow> row_ids key (row_put key j f rows) = row_ids key rows"
  unfolding row_ids_def row_put_def set_map image_image by (rule image_cong) auto

lemma row_ids_del [simp]: "row_ids key (row_del key i rows) = row_ids key rows - {i}"
  by (auto simp: row_ids_def row_del_def)

lemma set_row_add [simp]: "set (row_add r rows) = insert r (set rows)"
  by (simp add: row_add_def)

lemma set_row_put: "set (row_put key i f rows) = (\<lambda>r. if key r = i then f r else r) ` set rows"
  by (simp add: row_put_def)

lemma distinct_key_eq: "distinct (map key rows) \<Longrightarrow> x \<in> set rows \<Longrightarrow> y \<in> set rows \<Longrightarrow> key x = key y \<Longrightarrow> x = y"
  by (auto simp: distinct_map dest: inj_onD)

lemma set_put_distinct:
  assumes d: "distinct (map key rows)" and x: "x \<in> set rows"
  shows "set (row_put key (key x) f rows) = insert (f x) (set rows - {x})"
proof -
  have "(if key r = key x then f r else r) = (if r = x then f x else r)" if "r \<in> set rows" for r
    using distinct_key_eq [OF d that x] by auto
  then have "set (row_put key (key x) f rows) = (\<lambda>r. if r = x then f x else r) ` set rows"
    unfolding set_row_put by (rule image_cong [OF refl])
  then show ?thesis using x by auto
qed

lemma row_putE:
  assumes "r \<in> set (row_put key i f rows)"
  obtains q where "q \<in> set rows" "r = (if key q = i then f q else q)"
  using assms unfolding set_row_put by blast

lemma set_row_del [simp]: "set (row_del key i rows) = {r \<in> set rows. key r \<noteq> i}"
  by (auto simp: row_del_def)

lemma set_row_del_where [simp]: "set (row_del_where P rows) = {r \<in> set rows. \<not> P r}"
  by (auto simp: row_del_where_def)

lemma distinct_row_add [simp]:
  "distinct (map key (row_add r rows)) \<longleftrightarrow> distinct (map key rows) \<and> key r \<notin> row_ids key rows"
  by (auto simp: row_add_def row_ids_def)

lemma map_key_row_put [simp]:
  "(\<And>r. key (f r) = key r) \<Longrightarrow> map key (row_put key i f rows) = map key rows"
  by (simp add: row_put_def)

lemma distinct_row_del [simp]: "distinct (map key rows) \<Longrightarrow> distinct (map key (row_del k i rows))"
  by (simp add: row_del_def distinct_map_filter)

lemma distinct_row_del_where [simp]:
  "distinct (map key rows) \<Longrightarrow> distinct (map key (row_del_where P rows))"
  by (simp add: row_del_where_def distinct_map_filter)

lemma row_put_row_put:
  "(\<And>r. key (f r) = key r) \<Longrightarrow>
   row_put key i g (row_put key i f rows) = row_put key i (g \<circ> f) rows"
  by (simp add: row_put_def)

section \<open>The interface of a table\<close>

text \<open>
  What every service relies on when it reads and writes rows: an insertion is found under its
  own key, an update changes the row it names and no other, a deletion removes the row it names
  and no other.
\<close>

locale row_store =
  fixes key :: "'r \<Rightarrow> id"
    and get :: "id \<Rightarrow> 't \<Rightarrow> 'r option"
    and add :: "'r \<Rightarrow> 't \<Rightarrow> 't"
    and put :: "id \<Rightarrow> ('r \<Rightarrow> 'r) \<Rightarrow> 't \<Rightarrow> 't"
    and del :: "id \<Rightarrow> 't \<Rightarrow> 't"
    and ids :: "'t \<Rightarrow> id set"
  assumes get_None: "get i t = None \<longleftrightarrow> i \<notin> ids t"
    and get_add: "get i (add r t) =
          (case get i t of Some r' \<Rightarrow> Some r' | None \<Rightarrow> if key r = i then Some r else None)"
    and get_put: "(\<And>r. key (f r) = key r) \<Longrightarrow>
          get i (put j f t) = (if i = j then map_option f (get i t) else get i t)"
    and get_del: "get i (del j t) = (if i = j then None else get i t)"
    and get_key: "get i t = Some r \<Longrightarrow> key r = i"
begin

lemma get_add_new: "key r \<notin> ids t \<Longrightarrow> get (key r) (add r t) = Some r"
  using get_None [of "key r" t] by (simp add: get_add)

lemma get_add_other: "key r \<noteq> i \<Longrightarrow> get i (add r t) = get i t"
  by (simp add: get_add split: option.splits)

lemma get_put_same:
  "(\<And>r. key (f r) = key r) \<Longrightarrow> get i t = Some r \<Longrightarrow> get i (put i f t) = Some (f r)"
  by (simp add: get_put)

lemma get_put_other: "(\<And>r. key (f r) = key r) \<Longrightarrow> i \<noteq> j \<Longrightarrow> get i (put j f t) = get i t"
  by (simp add: get_put)

lemma get_del_same: "get i (del i t) = None"
  by (simp add: get_del)

lemma ids_del: "ids (del j t) = ids t - {j}"
proof (rule set_eqI)
  fix i
  show "i \<in> ids (del j t) \<longleftrightarrow> i \<in> ids t - {j}"
    using get_None [of i t] get_None [of i "del j t"] get_del [of i j t] by (cases "i = j") auto
qed

lemma ids_put: "(\<And>r. key (f r) = key r) \<Longrightarrow> ids (put j f t) = ids t"
  by (rule set_eqI) (metis get_None get_put map_option_is_None)

lemma ids_add: "ids (add r t) = insert (key r) (ids t)"
proof (rule set_eqI)
  fix i
  have "get i (add r t) = None \<longleftrightarrow> get i t = None \<and> key r \<noteq> i"
    by (simp add: get_add split: option.splits)
  then show "i \<in> ids (add r t) \<longleftrightarrow> i \<in> insert (key r) (ids t)"
    using get_None [of i t] get_None [of i "add r t"] by auto
qed

end

text \<open>Any list of rows with a key is such a table.\<close>

lemma row_store_list:
  "row_store key (row_get key) row_add (row_put key) (row_del key) (row_ids key)"
proof
  show "row_get key i t = None \<longleftrightarrow> i \<notin> row_ids key t" for i t by (rule row_get_None)
  show "row_get key i (row_add r t) =
      (case row_get key i t of Some r' \<Rightarrow> Some r' | None \<Rightarrow> if key r = i then Some r else None)" for i r t
    by (rule row_get_add)
  show "row_get key i (row_put key j f t) =
      (if i = j then map_option f (row_get key i t) else row_get key i t)"
    if "\<And>r. key (f r) = key r" for f i j t
    using that by (rule row_get_put)
  show "row_get key i (row_del key j t) = (if i = j then None else row_get key i t)" for i j t
    by (rule row_get_del)
  show "row_get key i t = Some r \<Longrightarrow> key r = i" for i t r
    by (drule row_get_SomeD) simp
qed

end
