(* ===== verification/Json.thy ===== *)
theory Json
  imports Prelude
begin

text \<open>
  JSON values and Python dictionaries. The JSON columns and the queue payloads hold values of
  type \<open>json\<close>; a \<open>dict\<close> is an association list in insertion order, and writing a key keeps
  the position the key already has, as Python does. Numbers with a fraction are exact rationals.
\<close>

datatype json =
    JNull
  | JBool bool
  | JInt int
  | JNum rat
  | JStr string
  | JList "json list"
  | JObj "(string \<times> json) list"

type_synonym dict = "(string \<times> json) list"

section \<open>Dictionaries\<close>

definition dict_get :: "string \<Rightarrow> (string \<times> 'v) list \<Rightarrow> 'v option" where
  "dict_get k d = map_of d k"

definition dict_set :: "string \<Rightarrow> 'v \<Rightarrow> (string \<times> 'v) list \<Rightarrow> (string \<times> 'v) list" where
  "dict_set k v d = AList.update k v d"

text \<open>\<open>{**a, **b}\<close>, also written \<open>a | b\<close> and \<open>a.update(b)\<close>.\<close>

fun dict_merge :: "(string \<times> 'v) list \<Rightarrow> (string \<times> 'v) list \<Rightarrow> (string \<times> 'v) list" where
  "dict_merge a [] = a"
| "dict_merge a ((k, v) # b) = dict_merge (dict_set k v a) b"

definition dict_setdefault :: "string \<Rightarrow> 'v \<Rightarrow> (string \<times> 'v) list \<Rightarrow> (string \<times> 'v) list" where
  "dict_setdefault k v d = (if dict_get k d = None then dict_set k v d else d)"

definition dict_keys :: "(string \<times> 'v) list \<Rightarrow> string list" where
  "dict_keys d = map fst d"

lemma dict_get_set [simp]: "dict_get k (dict_set k' v d) = (if k = k' then Some v else dict_get k d)"
  by (simp add: dict_get_def dict_set_def update_conv)

lemma dict_get_Nil [simp]: "dict_get k [] = None"
  by (simp add: dict_get_def)

lemma dict_get_Cons [simp]: "dict_get k ((k', v) # d) = (if k = k' then Some v else dict_get k d)"
  by (simp add: dict_get_def)

lemma dict_set_same [simp]: "dict_set k v (dict_set k v d) = dict_set k v d"
  unfolding dict_set_def by (induction d) auto

lemma set_dict_set: "fst ` set (dict_set k v d) = insert k (fst ` set d)"
  by (simp add: dict_set_def dom_update)

lemma distinct_dict_set: "distinct (map fst d) \<Longrightarrow> distinct (map fst (dict_set k v d))"
  by (simp add: dict_set_def distinct_update)

lemma dict_get_merge:
  "distinct (map fst b) \<Longrightarrow>
   dict_get k (dict_merge a b) = (case dict_get k b of Some v \<Rightarrow> Some v | None \<Rightarrow> dict_get k a)"
proof (induction a b rule: dict_merge.induct)
  case (1 a)
  then show ?case by simp
next
  case (2 a k' v b)
  have "dict_get k' b = None"
    using 2(2) by (simp add: dict_get_def map_of_eq_None_iff)
  then show ?case using 2 by (auto split: option.splits)
qed

lemma distinct_dict_merge: "distinct (map fst a) \<Longrightarrow> distinct (map fst (dict_merge a b))"
  by (induction a b rule: dict_merge.induct) (auto simp: distinct_dict_set)

lemma dict_get_setdefault [simp]:
  "dict_get k (dict_setdefault k' v d) =
     (if k = k' \<and> dict_get k d = None then Some v else dict_get k d)"
  by (auto simp: dict_setdefault_def)

section \<open>Truth, text and integers of JSON values\<close>

fun json_truthy :: "json \<Rightarrow> bool" where
  "json_truthy JNull = False"
| "json_truthy (JBool b) = b"
| "json_truthy (JInt i) = (i \<noteq> 0)"
| "json_truthy (JNum r) = (r \<noteq> 0)"
| "json_truthy (JStr s) = (s \<noteq> [])"
| "json_truthy (JList xs) = (xs \<noteq> [])"
| "json_truthy (JObj kvs) = (kvs \<noteq> [])"

definition dict_truthy :: "string \<Rightarrow> dict \<Rightarrow> bool" where
  "dict_truthy k d = (case dict_get k d of None \<Rightarrow> False | Some v \<Rightarrow> json_truthy v)"

text \<open>
  \<open>str(d.get(k) or "")\<close> for keys whose values are strings or absent, and the optional string
  \<open>d.get(k)\<close>.
\<close>

definition dict_str :: "string \<Rightarrow> dict \<Rightarrow> string" where
  "dict_str k d = (case dict_get k d of Some (JStr s) \<Rightarrow> s | Some (JInt i) \<Rightarrow> (if i = 0 then [] else int_str i) | _ \<Rightarrow> [])"

definition dict_str_opt :: "string \<Rightarrow> dict \<Rightarrow> string option" where
  "dict_str_opt k d = (case dict_get k d of Some (JStr s) \<Rightarrow> Some s | _ \<Rightarrow> None)"

definition json_opt_str :: "string option \<Rightarrow> json" where
  "json_opt_str x = (case x of None \<Rightarrow> JNull | Some s \<Rightarrow> JStr s)"

definition json_opt_int :: "int option \<Rightarrow> json" where
  "json_opt_int x = (case x of None \<Rightarrow> JNull | Some i \<Rightarrow> JInt i)"

text \<open>
  \<open>int(text)\<close>: optional surrounding whitespace, an optional sign, decimal digits with single
  underscores between digits.
\<close>

fun parse_digits :: "bool \<Rightarrow> nat \<Rightarrow> string \<Rightarrow> nat option" where
  "parse_digits seen acc [] = (if seen then Some acc else None)"
| "parse_digits seen acc (c # cs) =
     (if is_digit c then parse_digits True (acc * 10 + (of_char c - 48)) cs
      else if c = CHR ''_'' \<and> seen then parse_digits False acc cs
      else None)"

definition int_of_str :: "string \<Rightarrow> int result" where
  "int_of_str s =
     (let t = py_strip s;
          (sign, body) = (case t of
              [] \<Rightarrow> (1, [])
            | c # cs \<Rightarrow> if c = CHR ''-'' then (-1, cs) else if c = CHR ''+'' then (1, cs) else (1, t))
      in case parse_digits False 0 body of
           None \<Rightarrow> Inl (ValueError ''invalid literal for int()'')
         | Some n \<Rightarrow> Inr (sign * int n))"

text \<open>\<open>int(value)\<close>; a fractional number is truncated towards zero.\<close>

fun json_int :: "json \<Rightarrow> int result" where
  "json_int (JInt i) = Inr i"
| "json_int (JBool b) = Inr (if b then 1 else 0)"
| "json_int (JNum r) = Inr (if 0 \<le> r then \<lfloor>r\<rfloor> else \<lceil>r\<rceil>)"
| "json_int (JStr s) = int_of_str s"
| "json_int _ = Inl (TypeError ''int() argument must be a string or a number'')"

text \<open>\<open>int(d.get(k) or default)\<close>.\<close>

definition dict_int_or :: "string \<Rightarrow> int \<Rightarrow> dict \<Rightarrow> int result" where
  "dict_int_or k dflt d =
     (case dict_get k d of
        None \<Rightarrow> Inr dflt
      | Some v \<Rightarrow> if json_truthy v then json_int v else Inr dflt)"

lemma dict_int_or_JInt [simp]:
  "dict_get k d = Some (JInt i) \<Longrightarrow> i \<noteq> 0 \<Longrightarrow> dict_int_or k n d = Inr i"
  "dict_get k d = None \<Longrightarrow> dict_int_or k n d = Inr n"
  by (simp_all add: dict_int_or_def)

end
