(* ===== verification/Models.thy ===== *)
theory Models
  imports Json
begin

text \<open>
  The data model of \<open>backend/app/models\<close>: one record per mapped class and one record for the
  database session, grouped as the modules are (access, catalog, workspace, jobs, audit,
  prompts, plugins). A session also holds the clock that \<open>datetime.now(UTC)\<close> reads and the
  supply from which \<open>new_id\<close> (a \<open>uuid4\<close>) draws. \<open>created_at\<close> is kept for every row;
  \<open>updated_at\<close> only where the code reads it. Columns with floating-point values that the
  modelled code only copies are rationals.
\<close>

section \<open>Enumerations\<close>

datatype action_status = ActQueued | ActRunning | ActCompleted | ActFailed

datatype job_status = JobQueued | JobRunning | JobCompleted | JobFailed | JobCancelled

datatype job_type =
    JobPull | JobMerge | JobWakeup | JobPluginImDelivery | JobRollback | JobCompaction
  | JobMemoryReorganize | JobMemoryMaintenance | JobArtifactCleanup

section \<open>Access\<close>

record role_row =
  r_id :: id
  r_name :: string
  r_permissions :: "(string \<times> bool) list"
  r_created_at :: time

record user_row =
  u_id :: id
  u_username :: string
  u_email :: "string option"
  u_password_hash :: string
  u_role_id :: "id option"
  u_primary_group_id :: "id option"
  u_permissions :: "(string \<times> bool) list"
  u_timezone :: string
  u_is_active :: bool
  u_created_at :: time

record auth_session_row =
  as_id :: id
  as_user_id :: id
  as_refresh_token_hash :: string
  as_expires_at :: time
  as_revoked_at :: "time option"

record im_token_row =
  it_id :: id
  it_user_id :: id
  it_token_hash :: string
  it_expires_at :: time
  it_revoked_at :: "time option"
  it_last_validated_at :: "time option"
  it_created_at :: time
  it_updated_at :: time

record invite_row =
  iv_id :: id
  iv_code :: string
  iv_created_by :: "id option"
  iv_created_for :: "id option"
  iv_source_type :: string
  iv_source_id :: "id option"
  iv_registration_group_id :: "id option"
  iv_quota_total :: int
  iv_quota_used :: int
  iv_expires_at :: "time option"
  iv_revoked_at :: "time option"
  iv_created_at :: time

record quota_grant_row =
  qg_id :: id
  qg_invite_code_id :: "id option"
  qg_granted_by :: "id option"
  qg_user_id :: "id option"
  qg_source_type :: string
  qg_source_id :: "id option"
  qg_target_type :: string
  qg_target_id :: id
  qg_quota :: int
  qg_is_unlimited :: bool
  qg_note :: "string option"
  qg_revoked_at :: "time option"
  qg_created_at :: time

record quota_account_row =
  qa_id :: id
  qa_target_type :: string
  qa_target_id :: id
  qa_remaining_quota :: int
  qa_is_unlimited :: bool
  qa_updated_at :: time

record group_row =
  g_id :: id
  g_name :: string
  g_owner_user_id :: "id option"
  g_parent_group_id :: "id option"
  g_description :: "string option"
  g_created_at :: time

record group_member_row =
  gm_id :: id
  gm_group_id :: id
  gm_user_id :: id
  gm_member_role :: string
  gm_created_at :: time

record management_grant_row =
  mg_id :: id
  mg_user_id :: id
  mg_group_id :: id
  mg_created_at :: time

section \<open>Catalog\<close>

record character_row =
  ch_id :: id
  ch_name :: string
  ch_prompt_summary :: string
  ch_settings :: dict
  ch_created_by :: "id option"
  ch_created_at :: time

record character_acl_row =
  ca_id :: id
  ca_character_id :: id
  ca_subject_type :: string
  ca_subject_id :: string
  ca_can_read :: bool
  ca_can_use :: bool
  ca_created_at :: time

record available_model_row =
  am_id :: id
  am_provider_id :: id
  am_model_name :: string
  am_model_kind :: string
  am_is_default :: bool
  am_config :: dict
  am_created_at :: time

record model_provider_row =
  mp_id :: id
  mp_name :: string
  mp_kind :: string
  mp_base_url :: "string option"
  mp_is_enabled :: bool
  mp_capabilities :: dict
  mp_created_at :: time

record provider_credential_row =
  pc_id :: id
  pc_provider_id :: id
  pc_secret_encrypted :: string
  pc_metadata :: dict

record embedding_provider_row =
  ep_id :: id
  ep_name :: string
  ep_kind :: string
  ep_provider_id :: "id option"
  ep_model_name :: string
  ep_config :: dict
  ep_secret_encrypted :: "string option"
  ep_is_enabled :: bool
  ep_created_at :: time

record tag_row =
  t_id :: id
  t_owner_user_id :: id
  t_tag_id :: string
  t_brief :: string
  t_visibility :: string
  t_is_isolated :: bool
  t_is_system :: bool
  t_is_hidden :: bool
  t_meta :: dict
  t_created_at :: time

record tag_visibility_row =
  tv_id :: id
  tv_tag_id :: id
  tv_chat_group_id :: id
  tv_is_visible :: bool

record system_settings_row =
  ss_id :: id
  ss_allow_registration :: bool
  ss_max_chat_turns :: int
  ss_allowed_model_ids :: "id list"
  ss_default_cocoon_temperature :: rat
  ss_default_max_context_messages :: int
  ss_default_auto_compaction_enabled :: bool
  ss_private_chat_debounce_seconds :: int
  ss_group_chat_debounce_seconds :: int
  ss_rollback_retention_days :: int
  ss_rollback_cleanup_interval_hours :: int
  ss_default_memory_profile :: string
  ss_memory_profiles :: dict

section \<open>Workspace\<close>

record cocoon_row =
  c_id :: id
  c_parent_id :: "id option"
  c_name :: string
  c_owner_user_id :: id
  c_character_id :: id
  c_selected_model_id :: id
  c_summary_model_id :: "id option"
  c_default_temperature :: rat
  c_max_context_messages :: int
  c_auto_compaction_enabled :: bool
  c_memory_profile :: string
  c_context_start_message_id :: "id option"
  c_rollback_anchor_msg_id :: "id option"

record room_row =
  rm_id :: id
  rm_name :: string
  rm_owner_user_id :: id
  rm_character_id :: id
  rm_selected_model_id :: id
  rm_default_temperature :: rat
  rm_max_context_messages :: int
  rm_auto_compaction_enabled :: bool
  rm_memory_profile :: string
  rm_external_platform :: "string option"
  rm_external_group_id :: "string option"
  rm_external_account_id :: "string option"
  rm_created_at :: time

record room_member_row =
  mb_id :: id
  mb_room_id :: id
  mb_user_id :: id
  mb_member_role :: string
  mb_created_at :: time

record cocoon_tag_row =
  ct_id :: id
  ct_cocoon_id :: id
  ct_tag_id :: id
  ct_created_at :: time

record room_tag_row =
  rt_id :: id
  rt_chat_group_id :: id
  rt_tag_id :: id
  rt_created_at :: time

record state_row =
  st_id :: id
  st_cocoon_id :: "id option"
  st_chat_group_id :: "id option"
  st_relation_score :: int
  st_persona :: dict
  st_active_tags :: "id list"
  st_current_wakeup_task_id :: "id option"

record message_row =
  m_id :: id
  m_cocoon_id :: "id option"
  m_chat_group_id :: "id option"
  m_action_id :: "id option"
  m_client_request_id :: "string option"
  m_sender_user_id :: "id option"
  m_external_sender_id :: "string option"
  m_external_sender_display_name :: "string option"
  m_role :: string
  m_content :: string
  m_is_thought :: bool
  m_is_retracted :: bool
  m_retracted_at :: "time option"
  m_retracted_by_user_id :: "id option"
  m_retraction_note :: "string option"
  m_tags :: "id list"
  m_created_at :: time

record message_tag_row =
  mt_id :: id
  mt_message_id :: id
  mt_tag_id :: id

record memory_row =
  mem_id :: id
  mem_cocoon_id :: "id option"
  mem_chat_group_id :: "id option"
  mem_owner_user_id :: "id option"
  mem_character_id :: "id option"
  mem_source_message_id :: "id option"
  mem_memory_pool :: string
  mem_memory_type :: string
  mem_scope :: string
  mem_content :: string
  mem_summary :: "string option"
  mem_tags :: "id list"
  mem_importance :: int
  mem_confidence :: int
  mem_status :: string
  mem_valid_until :: "time option"
  mem_last_accessed_at :: "time option"
  mem_access_count :: int
  mem_source_kind :: string
  mem_meta :: dict
  mem_embedding_ref :: "string option"
  mem_created_at :: time
  mem_updated_at :: time

record embedding_row =
  em_id :: id
  em_memory_chunk_id :: id
  em_embedding_provider_id :: "id option"
  em_model_name :: "string option"
  em_dimensions :: "int option"
  em_embedding :: "rat list option"
  em_keywords :: "json list"
  em_usage :: dict
  em_meta :: dict

record memory_tag_row =
  mmt_id :: id
  mmt_memory_chunk_id :: id
  mmt_tag_id :: id

record memory_candidate_row =
  mc_id :: id
  mc_cocoon_id :: "id option"
  mc_chat_group_id :: "id option"
  mc_owner_user_id :: "id option"
  mc_character_id :: "id option"
  mc_memory_pool :: string
  mc_memory_type :: string
  mc_summary :: "string option"
  mc_content :: string
  mc_tags :: "id list"
  mc_importance :: int
  mc_confidence :: int
  mc_hit_count :: int
  mc_first_seen_at :: time
  mc_last_seen_at :: time
  mc_valid_until :: "time option"
  mc_meta :: dict

record fact_row =
  f_id :: id
  f_cocoon_id :: "id option"
  f_chat_group_id :: "id option"
  f_cache_key :: string
  f_content :: string
  f_summary :: "string option"
  f_meta :: dict
  f_valid_until :: "time option"
  f_last_accessed_at :: "time option"
  f_updated_at :: time

record task_state_row =
  ts_id :: id
  ts_cocoon_id :: "id option"
  ts_chat_group_id :: "id option"
  ts_task_name :: "string option"
  ts_goal :: "string option"
  ts_progress :: "string option"
  ts_status :: string
  ts_meta :: dict
  ts_expires_at :: "time option"
  ts_completed_at :: "time option"

record failed_round_row =
  fr_id :: id
  fr_cocoon_id :: "id option"
  fr_chat_group_id :: "id option"
  fr_action_id :: "id option"
  fr_event_type :: string
  fr_reason :: string

section \<open>Jobs\<close>

record action_row =
  a_id :: id
  a_cocoon_id :: "id option"
  a_chat_group_id :: "id option"
  a_event_type :: string
  a_status :: action_status
  a_client_request_id :: "string option"
  a_debounce_until :: "time option"
  a_payload :: dict
  a_error_text :: "string option"
  a_queued_at :: time
  a_started_at :: "time option"
  a_finished_at :: "time option"

record job_row =
  j_id :: id
  j_cocoon_id :: "id option"
  j_chat_group_id :: "id option"
  j_job_type :: job_type
  j_status :: job_status
  j_lock_key :: string
  j_payload :: dict
  j_available_at :: time
  j_started_at :: "time option"
  j_finished_at :: "time option"
  j_worker_name :: "string option"
  j_error_text :: "string option"
  j_created_at :: time

record wakeup_row =
  w_id :: id
  w_cocoon_id :: "id option"
  w_chat_group_id :: "id option"
  w_run_at :: time
  w_reason :: "string option"
  w_payload :: dict
  w_status :: job_status
  w_cancelled_at :: "time option"
  w_superseded_by_task_id :: "id option"
  w_created_at :: time

record pull_job_row =
  pj_id :: id
  pj_durable_job_id :: id
  pj_source_cocoon_id :: id
  pj_target_cocoon_id :: id
  pj_status :: job_status
  pj_summary :: dict

record merge_job_row =
  gj_id :: id
  gj_durable_job_id :: id
  gj_source_cocoon_id :: id
  gj_target_cocoon_id :: id
  gj_status :: job_status
  gj_summary :: dict

record checkpoint_row =
  cp_id :: id
  cp_cocoon_id :: id
  cp_anchor_message_id :: id
  cp_label :: string
  cp_is_active :: bool

section \<open>Audit\<close>

record audit_run_row =
  ar_id :: id
  ar_cocoon_id :: "id option"
  ar_chat_group_id :: "id option"
  ar_action_id :: "id option"
  ar_operation_type :: string
  ar_status :: action_status
  ar_trigger_event_uid :: "string option"
  ar_started_at :: time
  ar_finished_at :: "time option"

record audit_step_row =
  au_id :: id
  au_run_id :: id
  au_step_name :: string
  au_status :: action_status
  au_started_at :: time
  au_finished_at :: "time option"
  au_meta :: dict

record audit_artifact_row =
  aa_id :: id
  aa_run_id :: id
  aa_step_id :: "id option"
  aa_kind :: string
  aa_storage_backend :: string
  aa_storage_path :: "string option"
  aa_summary :: "string option"
  aa_metadata :: dict
  aa_expires_at :: "time option"
  aa_deleted_at :: "time option"

record audit_link_row =
  al_id :: id
  al_run_id :: id
  al_source_artifact_id :: "id option"
  al_source_step_id :: "id option"
  al_target_artifact_id :: "id option"
  al_target_step_id :: "id option"
  al_relation :: string

section \<open>Prompts\<close>

record prompt_template_row =
  pt_id :: id
  pt_template_type :: string
  pt_name :: string
  pt_description :: string
  pt_active_revision_id :: "id option"

record prompt_revision_row =
  pr_id :: id
  pr_template_id :: id
  pr_version :: int
  pr_content :: string
  pr_variables :: "string list"
  pr_checksum :: string
  pr_created_by_user_id :: "id option"

record prompt_variable_row =
  pv_id :: id
  pv_template_type :: string
  pv_variable_name :: string
  pv_description :: string
  pv_is_required :: bool

section \<open>Plugins\<close>

record plugin_row =
  p_id :: id
  p_name :: string
  p_display_name :: string
  p_plugin_type :: string
  p_entry_module :: string
  p_status :: string
  p_data_dir :: string
  p_config_schema :: dict
  p_default_config :: dict
  p_config :: dict
  p_user_config_schema :: dict
  p_user_default_config :: dict
  p_settings_validation_function_name :: "string option"
  p_is_globally_visible :: bool
  p_active_version_id :: "id option"
  p_created_at :: time

record plugin_version_row =
  plv_id :: id
  plv_plugin_id :: id
  plv_version :: string
  plv_manifest_path :: string
  plv_created_at :: time

record plugin_event_row =
  pev_id :: id
  pev_plugin_id :: id
  pev_plugin_version_id :: id
  pev_name :: string
  pev_mode :: string
  pev_function_name :: string
  pev_title :: string
  pev_description :: string
  pev_config_schema :: dict
  pev_default_config :: dict

record plugin_event_config_row =
  pe_id :: id
  pe_plugin_id :: id
  pe_event_name :: string
  pe_is_enabled :: bool
  pe_config :: dict

record plugin_run_state_row =
  rs_id :: id
  rs_plugin_id :: id
  rs_current_version_id :: "id option"
  rs_status :: string
  rs_error_text :: "string option"

record plugin_dispatch_row =
  pd_id :: id
  pd_plugin_id :: id
  pd_plugin_version_id :: id
  pd_event_name :: string
  pd_target_type :: string
  pd_target_id :: id
  pd_wakeup_task_id :: "id option"
  pd_payload :: dict

record im_outbox_row =
  ob_id :: id
  ob_plugin_id :: id
  ob_action_id :: "id option"
  ob_message_id :: "id option"
  ob_status :: string
  ob_payload :: dict
  ob_attempt_count :: int
  ob_next_attempt_at :: "time option"
  ob_delivered_at :: "time option"
  ob_last_error_text :: "string option"
  ob_created_at :: time

record im_route_row =
  ir_id :: id
  ir_plugin_id :: id
  ir_target_type :: string
  ir_target_id :: id
  ir_external_platform :: string
  ir_conversation_kind :: string
  ir_external_account_id :: string
  ir_external_conversation_id :: string
  ir_route_metadata :: dict
  ir_created_at :: time

record plugin_user_config_row =
  pu_id :: id
  pu_plugin_id :: id
  pu_user_id :: id
  pu_is_enabled :: bool
  pu_config :: dict
  pu_validation_error_text :: "string option"
  pu_validation_error_at :: "time option"
  pu_runtime_error_text :: "string option"
  pu_runtime_error_at :: "time option"

record plugin_user_event_row =
  ue_id :: id
  ue_plugin_id :: id
  ue_user_id :: id
  ue_event_name :: string
  ue_schedule_mode :: string
  ue_schedule_interval_seconds :: "int option"
  ue_schedule_cron :: "string option"

record plugin_group_config_row =
  pg_id :: id
  pg_plugin_id :: id
  pg_chat_group_id :: id
  pg_is_enabled :: bool
  pg_config :: dict
  pg_validation_error_text :: "string option"
  pg_validation_error_at :: "time option"
  pg_runtime_error_text :: "string option"
  pg_runtime_error_at :: "time option"

record plugin_group_visibility_row =
  gv_id :: id
  gv_plugin_id :: id
  gv_group_id :: id
  gv_is_visible :: bool
  gv_created_at :: time

record plugin_binding_row =
  pb_id :: id
  pb_plugin_id :: id
  pb_scope_type :: string
  pb_scope_id :: id
  pb_target_type :: string
  pb_target_id :: id
  pb_created_at :: time

section \<open>The database session\<close>

record session_base =
  clock :: time
  id_supply :: "nat \<Rightarrow> id"
  id_next :: nat

record access_session = session_base +
  roles :: "role_row list"
  users :: "user_row list"
  auth_sessions :: "auth_session_row list"
  im_tokens :: "im_token_row list"
  invites :: "invite_row list"
  quota_grants :: "quota_grant_row list"
  quota_accounts :: "quota_account_row list"
  groups :: "group_row list"
  group_members :: "group_member_row list"
  management_grants :: "management_grant_row list"

record catalog_session = access_session +
  characters :: "character_row list"
  character_acls :: "character_acl_row list"
  available_models :: "available_model_row list"
  model_providers :: "model_provider_row list"
  provider_credentials :: "provider_credential_row list"
  embedding_providers :: "embedding_provider_row list"
  tags :: "tag_row list"
  tag_visibilities :: "tag_visibility_row list"
  system_settings :: "system_settings_row list"

record workspace_session = catalog_session +
  cocoons :: "cocoon_row list"
  rooms :: "room_row list"
  room_members :: "room_member_row list"
  cocoon_tags :: "cocoon_tag_row list"
  room_tags :: "room_tag_row list"
  states :: "state_row list"
  messages :: "message_row list"
  message_tags :: "message_tag_row list"
  memories :: "memory_row list"
  memory_tags :: "memory_tag_row list"
  memory_candidates :: "memory_candidate_row list"
  facts :: "fact_row list"
  task_states :: "task_state_row list"
  failed_rounds :: "failed_round_row list"
  embeddings :: "embedding_row list"

record jobs_session = workspace_session +
  actions :: "action_row list"
  jobs :: "job_row list"
  wakeups :: "wakeup_row list"
  pull_jobs :: "pull_job_row list"
  merge_jobs :: "merge_job_row list"
  checkpoints :: "checkpoint_row list"

record audit_session = jobs_session +
  audit_runs :: "audit_run_row list"
  audit_steps :: "audit_step_row list"
  audit_artifacts :: "audit_artifact_row list"
  audit_links :: "audit_link_row list"

record session = audit_session +
  prompt_templates :: "prompt_template_row list"
  prompt_revisions :: "prompt_revision_row list"
  prompt_variables :: "prompt_variable_row list"
  plugins :: "plugin_row list"
  plugin_versions :: "plugin_version_row list"
  plugin_event_defs :: "plugin_event_row list"
  plugin_event_configs :: "plugin_event_config_row list"
  plugin_run_states :: "plugin_run_state_row list"
  plugin_user_events :: "plugin_user_event_row list"
  plugin_dispatches :: "plugin_dispatch_row list"
  im_outbox :: "im_outbox_row list"
  im_routes :: "im_route_row list"
  plugin_user_configs :: "plugin_user_config_row list"
  plugin_group_configs :: "plugin_group_config_row list"
  plugin_group_visibilities :: "plugin_group_visibility_row list"
  plugin_bindings :: "plugin_binding_row list"

text \<open>\<open>utcnow()\<close> and \<open>new_id()\<close>: each call takes the next identifier of the supply.\<close>

definition utcnow :: "session \<Rightarrow> time" where
  "utcnow s = clock s"

definition new_id :: "session \<Rightarrow> id" where
  "new_id s = id_supply s (id_next s)"

definition take_id :: "session \<Rightarrow> session" where
  "take_id s = s\<lparr>id_next := Suc (id_next s)\<rparr>"

text \<open>
  The supply never repeats an identifier, and none it will still deliver is the key of a row:
  what \<open>uuid4\<close> promises.
\<close>

definition supply_fresh :: "session \<Rightarrow> id set \<Rightarrow> bool" where
  "supply_fresh s used \<longleftrightarrow> inj (id_supply s) \<and> (\<forall>n \<ge> id_next s. id_supply s n \<notin> used)"

definition id_literal :: "nat \<Rightarrow> id" where
  "id_literal n = CHR ''i'' # replicate n CHR ''d''"

text \<open>The empty database at a given time.\<close>

definition empty_session :: "time \<Rightarrow> session" where
  "empty_session t =
     \<lparr>clock = t, id_supply = id_literal, id_next = 0,
      roles = [], users = [], auth_sessions = [], im_tokens = [], invites = [], quota_grants = [],
      quota_accounts = [], groups = [], group_members = [], management_grants = [],
      characters = [], character_acls = [], available_models = [], model_providers = [], provider_credentials = [], embedding_providers = [],
      tags = [], tag_visibilities = [], system_settings = [],
      cocoons = [], rooms = [], room_members = [], cocoon_tags = [], room_tags = [], states = [],
      messages = [], message_tags = [], memories = [], memory_tags = [], memory_candidates = [],
      facts = [], task_states = [], failed_rounds = [], embeddings = [],
      actions = [], jobs = [], wakeups = [], pull_jobs = [], merge_jobs = [], checkpoints = [],
      audit_runs = [], audit_steps = [], audit_artifacts = [], audit_links = [],
      prompt_templates = [], prompt_revisions = [], prompt_variables = [],
      plugins = [], plugin_versions = [], plugin_event_defs = [], plugin_event_configs = [], plugin_run_states = [], plugin_user_events = [], plugin_dispatches = [],
      im_outbox = [], im_routes = [], plugin_user_configs = [], plugin_group_configs = [],
      plugin_group_visibilities = [], plugin_bindings = []\<rparr>"

lemma id_literal_inj: "inj id_literal"
  by (auto simp: inj_def id_literal_def)

lemma id_literal_text [simp]: "id_literal n \<noteq> []" "py_strip (id_literal n) = id_literal n"
proof -
  have 1: "dropWhile py_isspace (id_literal n) = id_literal n"
    by (simp add: id_literal_def py_isspace_def)
  have "rev (id_literal n) = replicate n CHR ''d'' @ [CHR ''i'']" by (simp add: id_literal_def)
  also have "dropWhile py_isspace \<dots> = \<dots>"
    by (rule dropWhile_stop) (cases n; simp add: py_isspace_def)
  finally show "py_strip (id_literal n) = id_literal n" unfolding py_strip_def 1
    by (metis \<open>rev (id_literal n) = replicate n CHR ''d'' @ [CHR ''i'']\<close> rev_rev_ident)
qed (simp add: id_literal_def)

lemma new_id_fresh: "supply_fresh s used \<Longrightarrow> new_id s \<notin> used"
  by (simp add: supply_fresh_def new_id_def)

lemma supply_fresh_take_id: "supply_fresh s used \<Longrightarrow> supply_fresh (take_id s) (insert (new_id s) used)"
  unfolding supply_fresh_def take_id_def new_id_def
  by (auto simp: inj_def) (metis Suc_n_not_le_n)

lemma supply_fresh_mono: "supply_fresh s used \<Longrightarrow> used' \<subseteq> used \<Longrightarrow> supply_fresh s used'"
  by (auto simp: supply_fresh_def)

section \<open>The tables as row stores\<close>

interpretation role_tbl: row_store r_id "row_get r_id" row_add "row_put r_id" "row_del r_id" "row_ids r_id"
  by (rule row_store_list)

interpretation user_tbl: row_store u_id "row_get u_id" row_add "row_put u_id" "row_del u_id" "row_ids u_id"
  by (rule row_store_list)

interpretation group_tbl: row_store g_id "row_get g_id" row_add "row_put g_id" "row_del g_id" "row_ids g_id"
  by (rule row_store_list)

interpretation tag_tbl: row_store t_id "row_get t_id" row_add "row_put t_id" "row_del t_id" "row_ids t_id"
  by (rule row_store_list)

interpretation cocoon_tbl: row_store c_id "row_get c_id" row_add "row_put c_id" "row_del c_id" "row_ids c_id"
  by (rule row_store_list)

interpretation room_tbl: row_store rm_id "row_get rm_id" row_add "row_put rm_id" "row_del rm_id" "row_ids rm_id"
  by (rule row_store_list)

interpretation state_tbl: row_store st_id "row_get st_id" row_add "row_put st_id" "row_del st_id" "row_ids st_id"
  by (rule row_store_list)

interpretation message_tbl: row_store m_id "row_get m_id" row_add "row_put m_id" "row_del m_id" "row_ids m_id"
  by (rule row_store_list)

interpretation memory_tbl:
  row_store mem_id "row_get mem_id" row_add "row_put mem_id" "row_del mem_id" "row_ids mem_id"
  by (rule row_store_list)

interpretation action_tbl: row_store a_id "row_get a_id" row_add "row_put a_id" "row_del a_id" "row_ids a_id"
  by (rule row_store_list)

interpretation job_tbl: row_store j_id "row_get j_id" row_add "row_put j_id" "row_del j_id" "row_ids j_id"
  by (rule row_store_list)

interpretation wakeup_tbl: row_store w_id "row_get w_id" row_add "row_put w_id" "row_del w_id" "row_ids w_id"
  by (rule row_store_list)

interpretation outbox_tbl: row_store ob_id "row_get ob_id" row_add "row_put ob_id" "row_del ob_id" "row_ids ob_id"
  by (rule row_store_list)

end
