(* ===== verification/Rbac.thy ===== *)
theory Rbac
  imports Models
begin

text \<open>
  Permissions of a user (\<open>services/security/rbac.py\<close>): the permissions of the role overlaid with
  the user's own. A permission map is the association list of a JSON object, so its names are
  distinct.
\<close>

definition get_role_for_user :: "session \<Rightarrow> user_row \<Rightarrow> role_row option" where
  "get_role_for_user s u =
     (if \<not> truthy (u_role_id u) then None else row_get_opt r_id (u_role_id u) (roles s))"

fun update_permissions :: "(string \<times> bool) list \<Rightarrow> (string \<times> bool) list \<Rightarrow> (string \<times> bool) list" where
  "update_permissions perms [] = perms"
| "update_permissions perms ((name, allowed) # rest) =
     update_permissions (AList.update name allowed perms) rest"

definition get_effective_permission_map :: "session \<Rightarrow> user_row \<Rightarrow> (string \<times> bool) list" where
  "get_effective_permission_map s u =
     (let permissions = (case get_role_for_user s u of
                           None \<Rightarrow> []
                         | Some role \<Rightarrow> update_permissions [] (r_permissions role))
      in update_permissions permissions (u_permissions u))"

definition list_permissions_for_user :: "session \<Rightarrow> user_row \<Rightarrow> string list" where
  "list_permissions_for_user s u = map fst (filter snd (get_effective_permission_map s u))"

definition require_permission :: "session \<Rightarrow> user_row \<Rightarrow> string \<Rightarrow> unit result" where
  "require_permission s u permission =
     (if permission \<notin> set (list_permissions_for_user s u)
      then Inl (HTTPException 403 (''Missing permission: '' @ permission))
      else Inr ())"

definition has_permission :: "session \<Rightarrow> user_row \<Rightarrow> string \<Rightarrow> bool" where
  "has_permission s u permission = (map_of (get_effective_permission_map s u) permission = Some True)"

lemma distinct_update_permissions:
  "distinct (map fst perms) \<Longrightarrow> distinct (map fst (update_permissions perms new))"
  by (induction perms new rule: update_permissions.induct) (auto simp: distinct_update)

lemma map_of_update_permissions:
  "distinct (map fst new) \<Longrightarrow>
   map_of (update_permissions perms new) p =
     (case map_of new p of Some b \<Rightarrow> Some b | None \<Rightarrow> map_of perms p)"
proof (induction perms new rule: update_permissions.induct)
  case (2 perms name allowed rest)
  have "map_of rest name = None" using 2(2) by (simp add: map_of_eq_None_iff)
  with 2 show ?case by (auto simp: update_conv split: option.splits)
qed simp

lemma distinct_effective [simp]: "distinct (map fst (get_effective_permission_map s u))"
  by (auto simp: get_effective_permission_map_def Let_def intro!: distinct_update_permissions
           split: option.splits)

lemma list_permissions_iff: "p \<in> set (list_permissions_for_user s u) \<longleftrightarrow> has_permission s u p"
proof -
  have "(p, True) \<in> set (get_effective_permission_map s u) \<longleftrightarrow>
        map_of (get_effective_permission_map s u) p = Some True"
    by (metis distinct_effective map_of_eq_Some_iff)
  then show ?thesis
    by (auto simp: list_permissions_for_user_def has_permission_def image_iff)
qed

text \<open>
  C7. A user has a permission exactly when the user's own map grants it, or says nothing about it
  and the map of the user's role grants it; \<open>require_permission\<close> raises 403 in every other case.
\<close>

theorem require_permission_exact:
  assumes "distinct (map fst (u_permissions u))"
    and "\<And>role. role \<in> set (roles s) \<Longrightarrow> distinct (map fst (r_permissions role))"
  shows "require_permission s u p =
    (if (case map_of (u_permissions u) p of
           Some allowed \<Rightarrow> allowed
         | None \<Rightarrow> (case get_role_for_user s u of
                     None \<Rightarrow> False
                   | Some role \<Rightarrow> map_of (r_permissions role) p = Some True))
     then Inr () else Inl (HTTPException 403 (''Missing permission: '' @ p)))"
proof -
  have role: "distinct (map fst (r_permissions role))" if "get_role_for_user s u = Some role" for role
    using that assms(2) by (auto simp: get_role_for_user_def split: if_splits dest: row_get_opt_SomeD)
  have "has_permission s u p \<longleftrightarrow>
    (case map_of (u_permissions u) p of
       Some allowed \<Rightarrow> allowed
     | None \<Rightarrow> (case get_role_for_user s u of
                 None \<Rightarrow> False
               | Some role \<Rightarrow> map_of (r_permissions role) p = Some True))"
    by (auto simp: has_permission_def get_effective_permission_map_def Let_def role
                   map_of_update_permissions [OF assms(1)] map_of_update_permissions [OF role]
             split: option.splits)
  then show ?thesis by (simp add: require_permission_def list_permissions_iff)
qed

definition rbac_example_user :: user_row where
  "rbac_example_user =
     \<lparr>u_id = ''u1'', u_username = ''bob'', u_email = None, u_password_hash = ''h'',
      u_role_id = Some ''r1'', u_primary_group_id = Some ''root-group'',
      u_permissions = [(''users:write'', False)], u_timezone = ''UTC'', u_is_active = True,
      u_created_at = 0\<rparr>"

definition rbac_example :: session where
  "rbac_example = (empty_session 0)
     \<lparr>roles := [\<lparr>r_id = ''r1'', r_name = ''operator'',
                 r_permissions = [(''users:read'', True), (''users:write'', True)], r_created_at = 0\<rparr>],
      users := [rbac_example_user]\<rparr>"

theorem require_permission_exact_witness:
  "require_permission rbac_example rbac_example_user ''users:read'' = Inr () \<and>
   require_permission rbac_example rbac_example_user ''users:write'' =
     Inl (HTTPException 403 (''Missing permission: '' @ ''users:write''))"
  by (intro conjI; subst require_permission_exact;
      simp add: rbac_example_def rbac_example_user_def get_role_for_user_def row_get_def)

end
