(* ===== verification/Chains.thy ===== *)
theory Chains
  imports Prelude
begin

text \<open>
  Walks along parent pointers. Several services follow a \<open>parent\<close> column until it is empty, with
  a guard that ends the walk after a fixed number of rows (64 for the ancestors of a group and
  its cycle check, 32 for its path, 128 for the lineage of a cocoon). A walk is complete when
  it stopped before the guard did; the interface \<open>parent_table\<close> states what a complete walk
  says about reachability.
\<close>

text \<open>The identifiers the walk visits, in order: it ends at an absent or empty parent.\<close>

fun parent_walk :: "(id \<Rightarrow> id option) \<Rightarrow> nat \<Rightarrow> id option \<Rightarrow> id list" where
  "parent_walk up 0 cur = []"
| "parent_walk up (Suc n) cur =
     (case cur of
        None \<Rightarrow> []
      | Some x \<Rightarrow> if x = [] then [] else x # parent_walk up n (up x))"

text \<open>One parent step, its closure, and the guard: the walk from \<open>x\<close> ends within \<open>n\<close> rows.\<close>

definition up_rel :: "(id \<Rightarrow> id option) \<Rightarrow> (id \<times> id) set" where
  "up_rel up = {(x, y). up x = Some y \<and> y \<noteq> []}"

fun walk_ends :: "(id \<Rightarrow> id option) \<Rightarrow> nat \<Rightarrow> id option \<Rightarrow> bool" where
  "walk_ends up n cur =
     (case cur of
        None \<Rightarrow> True
      | Some x \<Rightarrow> x = [] \<or> (case n of 0 \<Rightarrow> False | Suc m \<Rightarrow> walk_ends up m (up x)))"

declare walk_ends.simps [simp del]

lemma walk_ends_simps [simp]:
  "walk_ends up n None" "walk_ends up n (Some [])"
  "x \<noteq> [] \<Longrightarrow> \<not> walk_ends up 0 (Some x)"
  "x \<noteq> [] \<Longrightarrow> walk_ends up (Suc n) (Some x) = walk_ends up n (up x)"
  by (simp_all add: walk_ends.simps)

lemma parent_walk_None [simp]: "parent_walk up n None = []"
  by (cases n) auto

lemma parent_walk_empty [simp]: "parent_walk up n (Some []) = []"
  by (cases n) auto

lemma length_parent_walk: "length (parent_walk up n cur) \<le> n"
  by (induction n arbitrary: cur) (auto split: option.splits)

lemma parent_walk_reaches:
  "y \<in> set (parent_walk up n (Some x)) \<Longrightarrow> (x, y) \<in> (up_rel up)\<^sup>*"
proof (induction n arbitrary: x)
  case (Suc n)
  show ?case
  proof (cases "y = x")
    case False
    then have y: "y \<in> set (parent_walk up n (up x))" using Suc.prems by (auto split: if_splits)
    then obtain z where z: "up x = Some z" "z \<noteq> []"
      by (cases "up x") (auto, cases "the (up x) = []", auto)
    then have "(x, z) \<in> up_rel up" by (simp add: up_rel_def)
    moreover have "(z, y) \<in> (up_rel up)\<^sup>*" using Suc.IH y z by simp
    ultimately show ?thesis by (rule converse_rtrancl_into_rtrancl)
  qed simp
qed simp

lemma parent_walk_complete:
  assumes "walk_ends up n (Some x)" "x \<noteq> []" "(x, y) \<in> (up_rel up)\<^sup>*"
  shows "y \<in> set (parent_walk up n (Some x))"
  using assms
proof (induction n arbitrary: x)
  case (Suc n)
  from Suc.prems(3) show ?case
  proof (cases rule: converse_rtranclE)
    case base
    then show ?thesis using Suc.prems by simp
  next
    case (step z)
    then have z: "up x = Some z" "z \<noteq> []" by (auto simp: up_rel_def)
    then have "walk_ends up n (Some z)" using Suc.prems by simp
    then have "y \<in> set (parent_walk up n (Some z))" using Suc.IH step z by blast
    then show ?thesis using Suc.prems z by simp
  qed
qed auto

lemma acyclic_empty [simp]: "acyclic {}"
  by (simp add: acyclic_def)

lemma walk_ends_mono: "walk_ends up n cur \<Longrightarrow> n \<le> m \<Longrightarrow> walk_ends up m cur"
proof (induction n arbitrary: m cur)
  case 0
  then show ?case by (cases cur) (auto simp: walk_ends.simps)
next
  case (Suc n)
  then show ?case
    by (cases cur; cases m) (auto, metis walk_ends_simps(2,4))
qed

text \<open>An acyclic parent relation over at most \<open>n\<close> rows is left within \<open>n + 1\<close> rows.\<close>

locale parent_table =
  fixes up :: "id \<Rightarrow> id option" and nodes :: "id set"
  assumes nodes_finite: "finite nodes"
    and up_nodes: "up x \<noteq> None \<Longrightarrow> x \<in> nodes"
begin

lemma up_dom: "(x, y) \<in> up_rel up \<Longrightarrow> x \<in> nodes"
  by (rule up_nodes) (auto simp: up_rel_def)

lemma unended_walk:
  assumes "\<not> walk_ends up n (Some x)" "acyclic (up_rel up)"
  shows "\<exists>vs. distinct vs \<and> length vs = n \<and> set vs \<subseteq> nodes \<and>
              (\<forall>v\<in>set vs. (x, v) \<in> (up_rel up)\<^sup>*)"
  using assms(1)
proof (induction n arbitrary: x)
  case (Suc n)
  then have "x \<noteq> []" by auto
  then have ne: "\<not> walk_ends up n (up x)" using Suc.prems by simp
  then obtain z where z: "up x = Some z" "z \<noteq> []" by (cases "up x") (auto, metis walk_ends_simps(2))
  then have xz: "(x, z) \<in> up_rel up" by (simp add: up_rel_def)
  obtain vs where vs: "distinct vs" "length vs = n" "set vs \<subseteq> nodes"
    "\<forall>v\<in>set vs. (z, v) \<in> (up_rel up)\<^sup>*" using Suc.IH [of z] ne z(1) by auto
  have "x \<notin> set vs"
  proof
    assume "x \<in> set vs"
    then have "(x, x) \<in> (up_rel up)\<^sup>+" using xz vs(4) by (meson rtrancl_into_trancl2)
    then show False using assms(2) by (simp add: acyclic_def)
  qed
  moreover have "\<forall>v\<in>set vs. (x, v) \<in> (up_rel up)\<^sup>*"
    using xz vs(4) by (meson converse_rtrancl_into_rtrancl)
  moreover have "x \<in> nodes" using xz by (rule up_dom)
  ultimately have "distinct (x # vs) \<and> length (x # vs) = Suc n \<and> set (x # vs) \<subseteq> nodes \<and>
      (\<forall>v\<in>set (x # vs). (x, v) \<in> (up_rel up)\<^sup>*)" using vs by simp
  then show ?case by blast
qed (simp add: exI [of _ "[]"])

lemma acyclic_walk_ends:
  assumes "acyclic (up_rel up)" "card nodes < n"
  shows "walk_ends up n cur"
proof (cases cur)
  case (Some x)
  show ?thesis
  proof (rule ccontr)
    assume "\<not> walk_ends up n cur"
    then obtain vs where "distinct vs" "length vs = n" "set vs \<subseteq> nodes"
      using unended_walk [of n x] assms(1) Some by blast
    then have "n \<le> card nodes" using card_mono [OF nodes_finite] distinct_card by metis
    then show False using assms(2) by simp
  qed
qed simp

lemma acyclic_walk_set:
  assumes "acyclic (up_rel up)" "card nodes < n" "x \<noteq> []"
  shows "set (parent_walk up n (Some x)) = {y. (x, y) \<in> (up_rel up)\<^sup>*}"
  using parent_walk_reaches parent_walk_complete [OF acyclic_walk_ends [OF assms(1,2)] assms(3)] by blast

lemma walk_distinct:
  assumes "acyclic (up_rel up)"
  shows "distinct (parent_walk up n cur)"
proof (induction n arbitrary: cur)
  case (Suc n)
  show ?case
  proof (cases cur)
    case (Some x)
    have "x \<notin> set (parent_walk up n (up x))"
    proof
      assume x: "x \<in> set (parent_walk up n (up x))"
      then obtain z where z: "up x = Some z" "z \<noteq> []"
        by (cases "up x") (auto, cases "the (up x) = []", auto)
      then have "(x, z) \<in> up_rel up" "(z, x) \<in> (up_rel up)\<^sup>*"
        using x parent_walk_reaches by (auto simp: up_rel_def)
      then have "(x, x) \<in> (up_rel up)\<^sup>+" by (meson rtrancl_into_trancl2)
      then show False using assms by (simp add: acyclic_def)
    qed
    then show ?thesis using Suc.IH Some by simp
  qed simp
qed simp

end

text \<open>Redirecting the parent of one row to a row from which it is not reachable keeps acyclicity.\<close>

lemma acyclic_redirect:
  assumes "acyclic (up_rel up)" "(p, g) \<notin> (up_rel up)\<^sup>*"
  shows "acyclic (up_rel (up(g := Some p)))"
proof -
  have "up_rel (up(g := Some p)) \<subseteq> insert (g, p) (up_rel up)"
    by (auto simp: up_rel_def split: if_splits)
  moreover have "acyclic (insert (g, p) (up_rel up))" using assms by (simp add: acyclic_insert)
  ultimately show ?thesis by (rule acyclic_subset [rotated])
qed

text \<open>So does redirecting any number of rows to a row that has no parent, or removing parents.\<close>

lemma acyclic_to_sink:
  assumes "acyclic (up_rel up)" "up' r = None" "\<And>x. up' x \<in> {None, up x, Some r}"
  shows "acyclic (up_rel up')"
proof -
  have step: "(x, y) \<in> up_rel up \<or> y = r" if "(x, y) \<in> up_rel up'" for x y
    using that assms(3) [of x] by (auto simp: up_rel_def)
  have "(x, y) \<in> (up_rel up)\<^sup>+ \<or> y = r" if "(x, y) \<in> (up_rel up')\<^sup>+" for x y
    using that
  proof (induction rule: trancl_induct)
    case (base y)
    then show ?case using step by blast
  next
    case (step y z)
    have "y \<noteq> r" using step(2) assms(2) by (auto simp: up_rel_def)
    moreover have "(y, z) \<in> up_rel up \<or> z = r" by (rule \<open>\<And>y x. (x, y) \<in> up_rel up' \<Longrightarrow> (x, y) \<in> up_rel up \<or> y = r\<close>) (rule step(2))
    ultimately show ?case using step(3) by (auto intro: trancl_into_trancl)
  qed
  moreover have "(r, r) \<notin> (up_rel up')\<^sup>+"
    using assms(2) by (auto simp: up_rel_def dest: tranclD)
  ultimately show ?thesis using assms(1) unfolding acyclic_def by metis
qed

end
