(* ===== verification/UserGroups.thy ===== *)
theory UserGroups
  imports Models Chains
begin

text \<open>
  User groups (\<open>services/access/group_service.py\<close>): the tree of groups under the root group, the
  breadth-first list of descendants, the guarded walk over ancestors and the cycle check, the
  operations on groups, members and management grants.
\<close>

definition ROOT_GROUP_ID :: id where "ROOT_GROUP_ID = ''root-group''"
definition ROOT_GROUP_NAME :: string where "ROOT_GROUP_NAME = ''Root Group''"
definition ROOT_GROUP_DESCRIPTION :: string where
  "ROOT_GROUP_DESCRIPTION = ''Fallback group for new registrations and orphaned memberships.''"

definition ensure_root_group :: "session \<Rightarrow> group_row \<times> session" where
  "ensure_root_group s =
     (case row_get g_id ROOT_GROUP_ID (groups s) of
        Some g \<Rightarrow> (g, s)
      | None \<Rightarrow>
          let g = \<lparr>g_id = ROOT_GROUP_ID, g_name = ROOT_GROUP_NAME, g_owner_user_id = None,
                   g_parent_group_id = None, g_description = Some ROOT_GROUP_DESCRIPTION,
                   g_created_at = clock s\<rparr>
          in (g, s\<lparr>groups := row_add g (groups s)\<rparr>))"

definition list_groups :: "session \<Rightarrow> group_row list \<times> session" where
  "list_groups s =
     (let (_, s1) = ensure_root_group s
      in (sort_key (\<lambda>g. (if g_id g = ROOT_GROUP_ID then 0 else 1 :: nat, - g_created_at g)) (groups s1), s1))"

text \<open>
  \<open>children_by_parent.get(current, [])\<close>: the identifiers of the groups whose parent is \<open>current\<close>,
  in the order of the list the dictionary was filled from.
\<close>

definition children_of :: "group_row list \<Rightarrow> id \<Rightarrow> id list" where
  "children_of gs current = map g_id (filter (\<lambda>g. g_parent_group_id g = Some current) gs)"

function descend :: "group_row list \<Rightarrow> id list \<Rightarrow> id list \<Rightarrow> id list" where
  "descend gs [] ordered = ordered"
| "descend gs (current # queue) ordered =
     (if current \<in> set ordered then descend gs queue ordered
      else descend gs (queue @ children_of gs current) (ordered @ [current]))"
  by pat_completeness auto

termination
proof (relation "measures [\<lambda>(gs, queue, ordered). card ((set queue \<union> g_id ` set gs) - set ordered),
                           \<lambda>(gs, queue, ordered). length queue]", goal_cases)
  case 1
  show ?case by simp
next
  case (2 gs current queue ordered)
  then have "(set queue \<union> g_id ` set gs) - set ordered = (set (current # queue) \<union> g_id ` set gs) - set ordered"
    by auto
  then show ?case by simp
next
  case (3 gs current queue ordered)
  let ?U = "(set (current # queue) \<union> g_id ` set gs) - set ordered"
  let ?V = "(set (queue @ children_of gs current) \<union> g_id ` set gs) - set (ordered @ [current])"
  have "?V \<subseteq> ?U - {current}" by (auto simp: children_of_def)
  moreover have "?U - {current} \<subset> ?U" using 3 by auto
  ultimately have "card ?V < card ?U" by (intro psubset_card_mono) auto
  then show ?case by simp
qed

definition list_descendant_group_ids :: "session \<Rightarrow> id list \<Rightarrow> id list \<times> session" where
  "list_descendant_group_ids s root_group_ids =
     (let roots = filter (\<lambda>i. i \<noteq> []) root_group_ids
      in if roots = [] then ([], s)
         else let (gs, s1) = list_groups s in (descend gs roots [], s1))"

fun ancestor_loop :: "group_row list \<Rightarrow> nat \<Rightarrow> id option \<Rightarrow> id list \<Rightarrow> id list" where
  "ancestor_loop gs 0 cur ordered = ordered"
| "ancestor_loop gs (Suc guard) cur ordered =
     (if \<not> truthy cur then ordered
      else case row_get g_id (str_of cur) gs of
             None \<Rightarrow> ordered @ [str_of cur]
           | Some g \<Rightarrow> ancestor_loop gs guard (g_parent_group_id g) (ordered @ [str_of cur]))"

definition list_ancestor_group_ids :: "session \<Rightarrow> id option \<Rightarrow> id list" where
  "list_ancestor_group_ids s group_id =
     (if \<not> truthy group_id then [] else ancestor_loop (groups s) 64 group_id [])"

definition require_group :: "session \<Rightarrow> id \<Rightarrow> group_row result" where
  "require_group s group_id =
     (case row_get g_id group_id (groups s) of
        None \<Rightarrow> Inl (HTTPException 404 ''Group not found'')
      | Some g \<Rightarrow> Inr g)"

fun cycle_loop :: "group_row list \<Rightarrow> id \<Rightarrow> nat \<Rightarrow> id option \<Rightarrow> unit result" where
  "cycle_loop gs group_id 0 cur = Inr ()"
| "cycle_loop gs group_id (Suc guard) cur =
     (if \<not> truthy cur then Inr ()
      else if str_of cur = group_id
        then Inl (HTTPException 400 ''Group parent would create a cycle'')
      else case row_get g_id (str_of cur) gs of
             None \<Rightarrow> Inr ()
           | Some parent \<Rightarrow> cycle_loop gs group_id guard (g_parent_group_id parent))"

definition ensure_no_cycle :: "session \<Rightarrow> group_row \<Rightarrow> id \<Rightarrow> unit result" where
  "ensure_no_cycle s g parent_group_id = cycle_loop (groups s) (g_id g) 64 (Some parent_group_id)"

record group_create =
  gc_name :: string
  gc_parent_group_id :: "id option"
  gc_description :: "string option"

text \<open>A field of an update is \<open>None\<close> when it is not in \<open>model_fields_set\<close>.\<close>

record group_update =
  gu_name :: "string option option"
  gu_description :: "string option option"
  gu_parent_group_id :: "id option option"

definition create_group :: "session \<Rightarrow> group_create \<Rightarrow> id option \<Rightarrow> (group_row \<times> session) result" where
  "create_group s payload user_id =
     (let (root, s1) = ensure_root_group s;
          parent = or_else (gc_parent_group_id payload) (g_id root)
      in bind_r (if parent \<noteq> g_id root then bind_r (require_group s1 parent) (\<lambda>_. Inr ()) else Inr ()) (\<lambda>_.
         let g = \<lparr>g_id = new_id s1, g_name = gc_name payload, g_owner_user_id = user_id,
                  g_parent_group_id = Some parent, g_description = gc_description payload,
                  g_created_at = clock s1\<rparr>
         in Inr (g, (take_id s1)\<lparr>groups := row_add g (groups s1)\<rparr>)))"

definition set_group_fields :: "group_update \<Rightarrow> group_row \<Rightarrow> group_row" where
  "set_group_fields payload g =
     (let g1 = (case gu_name payload of Some (Some n) \<Rightarrow> g\<lparr>g_name := n\<rparr> | _ \<Rightarrow> g)
      in case gu_description payload of Some d \<Rightarrow> g1\<lparr>g_description := d\<rparr> | None \<Rightarrow> g1)"

definition update_group :: "session \<Rightarrow> id \<Rightarrow> group_update \<Rightarrow> (group_row \<times> session) result" where
  "update_group s group_id payload =
     bind_r (require_group s group_id) (\<lambda>g.
     let (root, s1) = ensure_root_group s;
         s2 = s1\<lparr>groups := row_put g_id group_id (set_group_fields payload) (groups s1)\<rparr>;
         g2 = set_group_fields payload g
     in case gu_parent_group_id payload of
          None \<Rightarrow> Inr (g2, s2)
        | Some requested \<Rightarrow>
            let next_parent = or_else requested (g_id root)
            in if g_id g = ROOT_GROUP_ID then Inl (HTTPException 400 ''Root group cannot have a parent'')
               else if next_parent = g_id g then Inl (HTTPException 400 ''Group cannot be its own parent'')
               else bind_r (require_group s2 next_parent) (\<lambda>parent.
                    bind_r (ensure_no_cycle s2 g2 (g_id parent)) (\<lambda>_.
                    let move = (\<lambda>r. r\<lparr>g_parent_group_id := Some (g_id parent)\<rparr>)
                    in Inr (move g2, s2\<lparr>groups := row_put g_id group_id move (groups s2)\<rparr>))))"

definition delete_group :: "session \<Rightarrow> id \<Rightarrow> (group_row \<times> session) result" where
  "delete_group s group_id =
     bind_r (require_group s group_id) (\<lambda>g.
     if g_id g = ROOT_GROUP_ID then Inl (HTTPException 400 ''Root group cannot be deleted'')
     else let (root, s1) = ensure_root_group s;
              reparented = map (\<lambda>c. if g_parent_group_id c = Some group_id
                                    then c\<lparr>g_parent_group_id := Some (g_id root)\<rparr> else c) (groups s1)
          in Inr (g, s1\<lparr>groups := row_del g_id group_id reparented,
                       group_members := row_del_where (\<lambda>m. gm_group_id m = group_id) (group_members s1)\<rparr>))"

definition list_group_members :: "session \<Rightarrow> id \<Rightarrow> group_member_row list result" where
  "list_group_members s group_id =
     bind_r (require_group s group_id) (\<lambda>_.
     Inr (sort_key gm_created_at (filter (\<lambda>m. gm_group_id m = group_id) (group_members s))))"

definition find_group_member :: "session \<Rightarrow> id \<Rightarrow> id \<Rightarrow> group_member_row option" where
  "find_group_member s group_id user_id =
     List.find (\<lambda>m. gm_group_id m = group_id \<and> gm_user_id m = user_id) (group_members s)"

definition add_group_member :: "session \<Rightarrow> id \<Rightarrow> id \<Rightarrow> string \<Rightarrow> (group_member_row \<times> session) result" where
  "add_group_member s group_id user_id member_role =
     bind_r (require_group s group_id) (\<lambda>_.
     if row_get u_id user_id (users s) = None then Inl (HTTPException 404 ''User not found'')
     else case find_group_member s group_id user_id of
            Some m \<Rightarrow> Inr (m, s)
          | None \<Rightarrow>
              let m = \<lparr>gm_id = new_id s, gm_group_id = group_id, gm_user_id = user_id,
                       gm_member_role = member_role, gm_created_at = clock s\<rparr>
              in Inr (m, (take_id s)\<lparr>group_members := row_add m (group_members s)\<rparr>))"

definition remove_group_member :: "session \<Rightarrow> id \<Rightarrow> id \<Rightarrow> (group_member_row \<times> session) result" where
  "remove_group_member s group_id user_id =
     (case find_group_member s group_id user_id of
        None \<Rightarrow> Inl (HTTPException 404 ''Group member not found'')
      | Some m \<Rightarrow> Inr (m, s\<lparr>group_members := row_del gm_id (gm_id m) (group_members s)\<rparr>))"

definition resolve_registration_group :: "session \<Rightarrow> id option \<Rightarrow> group_row \<times> session" where
  "resolve_registration_group s requested =
     (let (root, s1) = ensure_root_group s
      in if \<not> truthy requested then (root, s1)
         else case row_get g_id (str_of requested) (groups s1) of
                Some g \<Rightarrow> (g, s1) | None \<Rightarrow> (root, s1))"

definition list_management_grants :: "session \<Rightarrow> management_grant_row list" where
  "list_management_grants s = sort_key mg_created_at (management_grants s)"

definition create_management_grant :: "session \<Rightarrow> id \<Rightarrow> id \<Rightarrow> (management_grant_row \<times> session) result" where
  "create_management_grant s user_id group_id =
     (if row_get u_id user_id (users s) = None then Inl (HTTPException 404 ''User not found'')
      else bind_r (require_group s group_id) (\<lambda>_.
        case List.find (\<lambda>g. mg_user_id g = user_id \<and> mg_group_id g = group_id) (management_grants s) of
          Some g \<Rightarrow> Inr (g, s)
        | None \<Rightarrow>
            let g = \<lparr>mg_id = new_id s, mg_user_id = user_id, mg_group_id = group_id, mg_created_at = clock s\<rparr>
            in Inr (g, (take_id s)\<lparr>management_grants := row_add g (management_grants s)\<rparr>)))"

definition delete_management_grant :: "session \<Rightarrow> id \<Rightarrow> (management_grant_row \<times> session) result" where
  "delete_management_grant s grant_id =
     (case row_get mg_id grant_id (management_grants s) of
        None \<Rightarrow> Inl (HTTPException 404 ''Management grant not found'')
      | Some g \<Rightarrow> Inr (g, s\<lparr>management_grants := row_del mg_id grant_id (management_grants s)\<rparr>))"

definition management_grant_group_ids_for_user :: "session \<Rightarrow> id \<Rightarrow> id list" where
  "management_grant_group_ids_for_user s user_id =
     map mg_group_id (filter (\<lambda>g. mg_user_id g = user_id) (management_grants s))"

fun path_loop :: "group_row list \<Rightarrow> nat \<Rightarrow> id option \<Rightarrow> string list \<Rightarrow> string list" where
  "path_loop gs 0 cur parts = parts"
| "path_loop gs (Suc guard) cur parts =
     (if \<not> truthy cur then parts
      else case row_get g_id (str_of cur) gs of
             None \<Rightarrow> parts
           | Some parent \<Rightarrow> path_loop gs guard (g_parent_group_id parent) (parts @ [g_name parent]))"

definition group_path :: "session \<Rightarrow> group_row \<Rightarrow> string" where
  "group_path s g = py_join '' / '' (rev (path_loop (groups s) 32 (g_parent_group_id g) [g_name g]))"

record group_view =
  gview_id :: id
  gview_name :: string
  gview_owner_user_id :: "id option"
  gview_parent_group_id :: "id option"
  gview_group_path :: string
  gview_description :: "string option"
  gview_created_at :: time

definition build_group_view :: "session \<Rightarrow> group_row \<Rightarrow> group_view" where
  "build_group_view s g =
     \<lparr>gview_id = g_id g, gview_name = g_name g, gview_owner_user_id = g_owner_user_id g,
      gview_parent_group_id = g_parent_group_id g, gview_group_path = group_path s g,
      gview_description = g_description g, gview_created_at = g_created_at g\<rparr>"

definition group_path_by_id :: "session \<Rightarrow> id option \<Rightarrow> string option" where
  "group_path_by_id s group_id =
     (if \<not> truthy group_id then None
      else map_option (group_path s) (row_get g_id (str_of group_id) (groups s)))"

section \<open>Descendants\<close>

definition child_rel :: "group_row list \<Rightarrow> (id \<times> id) set" where
  "child_rel gs = {(p, c). \<exists>g\<in>set gs. g_parent_group_id g = Some p \<and> g_id g = c}"

lemma set_children_of: "set (children_of gs p) = child_rel gs `` {p}"
  by (auto simp: children_of_def child_rel_def)

lemma child_rel_cong: "set gs = set gs' \<Longrightarrow> child_rel gs = child_rel gs'"
  by (simp add: child_rel_def)

lemma descend_distinct: "distinct ordered \<Longrightarrow> distinct (descend gs queue ordered)"
  by (induction gs queue ordered rule: descend.induct) auto

lemma descend_mono: "set ordered \<union> set queue \<subseteq> set (descend gs queue ordered)"
  by (induction gs queue ordered rule: descend.induct) auto

lemma descend_sound:
  "set ordered \<subseteq> R \<Longrightarrow> set queue \<subseteq> R \<Longrightarrow> child_rel gs `` R \<subseteq> R \<Longrightarrow> set (descend gs queue ordered) \<subseteq> R"
proof (induction gs queue ordered rule: descend.induct)
  case (2 gs current queue ordered)
  then have "set (children_of gs current) \<subseteq> R" by (auto simp: set_children_of)
  with 2 show ?case by simp
qed simp

lemma descend_closed:
  "(\<And>x y. x \<in> set ordered \<Longrightarrow> (x, y) \<in> child_rel gs \<Longrightarrow> y \<in> set ordered \<union> set queue) \<Longrightarrow>
   x \<in> set (descend gs queue ordered) \<Longrightarrow> (x, y) \<in> child_rel gs \<Longrightarrow>
   y \<in> set (descend gs queue ordered)"
proof (induction gs queue ordered arbitrary: x y rule: descend.induct)
  case (1 gs ordered)
  then show ?case by fastforce
next
  case (2 gs current queue ordered)
  show ?case
  proof (cases "current \<in> set ordered")
    case True
    have "b \<in> set ordered \<union> set queue" if "a \<in> set ordered" "(a, b) \<in> child_rel gs" for a b
      using 2(3) [OF that] True by auto
    then show ?thesis using 2(1) [OF True] 2(4,5) True by simp
  next
    case False
    have "b \<in> set (ordered @ [current]) \<union> set (queue @ children_of gs current)"
      if "a \<in> set (ordered @ [current])" "(a, b) \<in> child_rel gs" for a b
      using that 2(3) [of a b] by (auto simp: set_children_of)
    then show ?thesis using 2(2) [OF False] 2(4,5) False by simp
  qed
qed

lemma descend_reachable: "set (descend gs roots []) = (child_rel gs)\<^sup>* `` set roots"
proof
  show "set (descend gs roots []) \<subseteq> (child_rel gs)\<^sup>* `` set roots"
    by (rule descend_sound) (auto intro: rtrancl_into_rtrancl)
  have "y \<in> set (descend gs roots [])" if "(x, y) \<in> (child_rel gs)\<^sup>*" "x \<in> set roots" for x y
    using that
  proof (induction rule: rtrancl_induct)
    case base
    then show ?case using descend_mono [of "[]" roots gs] by auto
  next
    case (step y z)
    then show ?case using descend_closed [of "[]" gs roots y z] by simp
  qed
  then show "(child_rel gs)\<^sup>* `` set roots \<subseteq> set (descend gs roots [])" by auto
qed

text \<open>Creating the root group adds a row without a parent, so it changes no walk.\<close>

definition with_root :: "session \<Rightarrow> session" where
  "with_root s = snd (ensure_root_group s)"

lemma ensure_root_group_cases:
  obtains g where "ensure_root_group s = (g, s)" "row_get g_id ROOT_GROUP_ID (groups s) = Some g"
  | g where "ensure_root_group s = (g, s\<lparr>groups := row_add g (groups s)\<rparr>)"
      "row_get g_id ROOT_GROUP_ID (groups s) = None" "g_id g = ROOT_GROUP_ID" "g_parent_group_id g = None"
proof (cases "row_get g_id ROOT_GROUP_ID (groups s)")
  case None
  then show thesis by (intro that(2)) (simp add: ensure_root_group_def Let_def, simp_all)
next
  case (Some g)
  then show thesis by (intro that(1) [of g]) (simp_all add: ensure_root_group_def)
qed

lemma ensure_root_group_id: "g_id (fst (ensure_root_group s)) = ROOT_GROUP_ID"
  by (rule ensure_root_group_cases [of s]) (auto dest: row_get_SomeD)

lemma with_root_groups: "\<exists>new. groups (with_root s) = groups s @ new \<and> (\<forall>g\<in>set new. g_parent_group_id g = None)"
  unfolding with_root_def by (rule ensure_root_group_cases [of s]) (auto simp: row_add_def)

lemma with_root_more: "with_root s = s\<lparr>groups := groups (with_root s)\<rparr>"
  unfolding with_root_def by (rule ensure_root_group_cases [of s]) auto

lemma with_root_frame [simp]:
  "users (with_root s) = users s" "roles (with_root s) = roles s"
  "management_grants (with_root s) = management_grants s" "clock (with_root s) = clock s"
  "group_members (with_root s) = group_members s" "characters (with_root s) = characters s"
  "character_acls (with_root s) = character_acls s" "cocoons (with_root s) = cocoons s"
  "rooms (with_root s) = rooms s" "room_members (with_root s) = room_members s"
  "invites (with_root s) = invites s" "quota_accounts (with_root s) = quota_accounts s"
  "quota_grants (with_root s) = quota_grants s" "auth_sessions (with_root s) = auth_sessions s"
  "tags (with_root s) = tags s" "system_settings (with_root s) = system_settings s"
proof -
  obtain gs where "with_root s = s\<lparr>groups := gs\<rparr>" using with_root_more by blast
  then show "users (with_root s) = users s" "roles (with_root s) = roles s"
    "management_grants (with_root s) = management_grants s" "clock (with_root s) = clock s"
    "group_members (with_root s) = group_members s" "characters (with_root s) = characters s"
    "character_acls (with_root s) = character_acls s" "cocoons (with_root s) = cocoons s"
    "rooms (with_root s) = rooms s" "room_members (with_root s) = room_members s"
    "invites (with_root s) = invites s" "quota_accounts (with_root s) = quota_accounts s"
    "quota_grants (with_root s) = quota_grants s" "auth_sessions (with_root s) = auth_sessions s"
    "tags (with_root s) = tags s" "system_settings (with_root s) = system_settings s" by simp_all
qed

lemma child_rel_with_root [simp]: "child_rel (groups (with_root s)) = child_rel (groups s)"
proof -
  obtain new where "groups (with_root s) = groups s @ new" "\<forall>g\<in>set new. g_parent_group_id g = None"
    using with_root_groups by blast
  then show ?thesis by (auto simp: child_rel_def)
qed

lemma list_groups_simps:
  "snd (list_groups s) = with_root s" "set (fst (list_groups s)) = set (groups (with_root s))"
  by (simp_all add: list_groups_def with_root_def split: prod.split)

lemma with_root_has_root: "row_get g_id ROOT_GROUP_ID (groups (with_root s)) \<noteq> None"
  unfolding with_root_def
  by (rule ensure_root_group_cases [of s]) (simp_all add: row_get_add)

lemma with_root_same: "row_get g_id ROOT_GROUP_ID (groups s) \<noteq> None \<Longrightarrow> with_root s = s"
  unfolding with_root_def by (rule ensure_root_group_cases [of s]) simp_all

lemma with_root_idem [simp]: "with_root (with_root s) = with_root s"
  by (rule with_root_same, rule with_root_has_root)

lemma list_descendant_group_ids_reach:
  "distinct (fst (list_descendant_group_ids s root_ids)) \<and>
   set (fst (list_descendant_group_ids s root_ids)) =
     (child_rel (groups s))\<^sup>* `` {r \<in> set root_ids. r \<noteq> []}"
proof (cases "filter (\<lambda>i. i \<noteq> []) root_ids = []")
  case True
  then show ?thesis by (auto simp: list_descendant_group_ids_def filter_empty_conv)
next
  case False
  then have "fst (list_descendant_group_ids s root_ids) =
      descend (fst (list_groups s)) (filter (\<lambda>i. i \<noteq> []) root_ids) []"
    by (auto simp: list_descendant_group_ids_def Let_def split: prod.splits)
  moreover have "child_rel (fst (list_groups s)) = child_rel (groups s)"
    using child_rel_cong [OF list_groups_simps(2)] by simp
  ultimately show ?thesis by (simp add: descend_distinct descend_reachable)
qed

text \<open>
  The descendants of a list of groups are listed without repetition, and they are exactly the
  groups reachable from a non-empty root by following child links, each root included; the walk
  ends on every group table, cyclic ones included.
\<close>

theorem list_descendant_group_ids_reachable:
  "distinct (fst (list_descendant_group_ids s root_ids)) \<and>
   set (fst (list_descendant_group_ids s root_ids)) =
     (child_rel (groups s))\<^sup>* `` {r \<in> set root_ids. r \<noteq> []}"
  by (rule list_descendant_group_ids_reach)

section \<open>The group tree\<close>

definition group_up :: "group_row list \<Rightarrow> id \<Rightarrow> id option" where
  "group_up gs i = (case row_get g_id i gs of None \<Rightarrow> None | Some g \<Rightarrow> g_parent_group_id g)"

definition parented :: "group_row list \<Rightarrow> id set" where
  "parented gs = {i. group_up gs i \<noteq> None}"

lemma parented_subset: "parented gs \<subseteq> row_ids g_id gs"
  by (auto simp: parented_def group_up_def row_ids_def split: option.splits dest!: row_get_SomeD)

lemma finite_row_ids [simp]: "finite (row_ids key rows)"
  by (simp add: row_ids_def)

lemma card_parented: "card (parented gs) \<le> length gs"
proof -
  have "card (parented gs) \<le> card (row_ids g_id gs)"
    by (rule card_mono) (auto intro: parented_subset [THEN subsetD])
  also have "\<dots> \<le> length gs" unfolding row_ids_def
    by (rule le_trans [OF card_image_le card_length]) simp
  finally show ?thesis .
qed

interpretation group_chain: parent_table "group_up gs" "parented gs" for gs
  by unfold_locales (rule finite_subset [OF parented_subset], simp, simp add: parented_def)

lemma ancestor_loop_walk: "ancestor_loop gs n cur ordered = ordered @ parent_walk (group_up gs) n cur"
  by (induction gs n cur ordered rule: ancestor_loop.induct)
     (auto simp: truthy_iff group_up_def split: option.splits)

lemma cycle_loop_walk:
  "cycle_loop gs g n cur =
     (if g \<in> set (parent_walk (group_up gs) n cur)
      then Inl (HTTPException 400 ''Group parent would create a cycle'') else Inr ())"
  by (induction gs g n cur rule: cycle_loop.induct)
     (auto simp: truthy_iff group_up_def split: option.splits)

lemma ensure_no_cycle_walk:
  "ensure_no_cycle s g p = Inr () \<longleftrightarrow> g_id g \<notin> set (parent_walk (group_up (groups s)) 64 (Some p))"
  by (simp add: ensure_no_cycle_def cycle_loop_walk)

lemma group_up_add:
  "group_up (row_add r gs) i = (case row_get g_id i gs of Some g \<Rightarrow> g_parent_group_id g
     | None \<Rightarrow> if g_id r = i then g_parent_group_id r else None)"
  by (simp add: group_up_def row_get_add split: option.split)

lemma group_up_put_other:
  "(\<And>r. g_id (f r) = g_id r) \<Longrightarrow> (\<And>r. g_parent_group_id (f r) = g_parent_group_id r) \<Longrightarrow>
   group_up (row_put g_id j f gs) = group_up gs"
  by (rule ext) (simp add: group_up_def row_get_put split: option.split)

lemma group_up_put_parent:
  "row_get g_id j gs \<noteq> None \<Longrightarrow>
   group_up (row_put g_id j (\<lambda>r. r\<lparr>g_parent_group_id := p\<rparr>) gs) = (group_up gs)(j := p)"
  by (rule ext) (auto simp: group_up_def row_get_put split: option.split)

lemma group_up_with_root [simp]: "group_up (groups (with_root s)) = group_up (groups s)"
proof -
  have "group_up (row_add g (groups s)) = group_up (groups s)"
    if "row_get g_id ROOT_GROUP_ID (groups s) = None" "g_id g = ROOT_GROUP_ID" "g_parent_group_id g = None" for g
    by (rule ext) (use that in \<open>auto simp: row_get_add group_up_def split: option.splits\<close>)
  then show ?thesis unfolding with_root_def by (cases s rule: ensure_root_group_cases) simp_all
qed

lemma set_group_fields_keeps [simp]:
  "g_id (set_group_fields payload g) = g_id g"
  "g_parent_group_id (set_group_fields payload g) = g_parent_group_id g"
  by (auto simp: set_group_fields_def Let_def split: option.splits)

text \<open>The forest invariant: no group is its own ancestor and the root group has no parent.\<close>

definition group_forest :: "session \<Rightarrow> bool" where
  "group_forest s \<longleftrightarrow>
     acyclic (up_rel (group_up (groups s))) \<and> group_up (groups s) ROOT_GROUP_ID = None"

lemma group_forest_with_root [simp]: "group_forest (with_root s) = group_forest s"
  by (simp add: group_forest_def)

lemma ensure_root_group_split:
  "ensure_root_group s = (fst (ensure_root_group s), with_root s)"
  by (simp add: with_root_def)

lemma require_group_eq_Inr [result_simps]:
  "require_group s i = Inr g \<longleftrightarrow> row_get g_id i (groups s) = Some g"
  by (simp add: require_group_def split: option.split)

lemma update_group_forest:
  assumes ok: "update_group s i payload = Inr (g, s')"
    and forest: "group_forest s" and small: "length (groups (with_root s)) < 64"
  shows "group_forest s'"
proof -
  obtain root where root: "ensure_root_group s = (root, with_root s)" by (metis ensure_root_group_split)
  define s2 where "s2 = (with_root s)\<lparr>groups := row_put g_id i (set_group_fields payload) (groups (with_root s))\<rparr>"
  have up2: "group_up (groups s2) = group_up (groups s)"
    by (simp add: s2_def group_up_put_other)
  have small2: "length (groups s2) < 64" using small by (simp add: s2_def row_put_def)
  obtain g0 where g0: "row_get g_id i (groups s) = Some g0"
    using ok by (auto simp: update_group_def result_simps)
  then have gid: "g_id g0 = i" by (auto dest: row_get_SomeD)
  have "row_get g_id i (groups (with_root s)) \<noteq> None"
    using g0 with_root_groups [of s] by (auto simp: row_get_def find_append)
  then have i2: "row_get g_id i (groups s2) \<noteq> None"
    by (auto simp: s2_def row_get_put)
  show ?thesis
  proof (cases "gu_parent_group_id payload")
    case None
    then have "s' = s2" using ok by (simp add: update_group_def root s2_def g0 require_group_def)
    then show ?thesis using forest up2 by (simp add: group_forest_def)
  next
    case (Some requested)
    define p where "p = or_else requested (g_id root)"
    have p: "i \<noteq> ROOT_GROUP_ID" "row_get g_id p (groups s2) \<noteq> None"
        "i \<notin> set (parent_walk (group_up (groups s2)) 64 (Some p))"
        "groups s' = row_put g_id i (\<lambda>r. r\<lparr>g_parent_group_id := Some p\<rparr>) (groups s2)"
      using ok gid Some
      by (auto simp: update_group_def root s2_def [symmetric] g0 require_group_def [of s] result_simps
                     p_def [symmetric] ensure_no_cycle_walk Let_def split: if_splits dest: row_get_SomeD)
    have "p \<noteq> []"
      using ensure_root_group_id [of s] root by (simp add: p_def or_else_nonempty ROOT_GROUP_ID_def)
    moreover have ac: "acyclic (up_rel (group_up (groups s2)))" using forest up2 by (simp add: group_forest_def)
    moreover have "card (parented (groups s2)) < 64" using card_parented small2 by (rule le_less_trans)
    ultimately have "(p, i) \<notin> (up_rel (group_up (groups s2)))\<^sup>*"
      using p(3) group_chain.acyclic_walk_set by blast
    then have "acyclic (up_rel ((group_up (groups s2))(i := Some p)))" by (rule acyclic_redirect [OF ac])
    then show ?thesis using forest p(1,4) i2 up2 by (simp add: group_forest_def group_up_put_parent)
  qed
qed

definition group_refs :: "session \<Rightarrow> id set" where
  "group_refs s = row_ids g_id (groups s) \<union> {p. \<exists>g\<in>set (groups s). g_parent_group_id g = Some p}"

lemma up_rel_refs: "(x, y) \<in> up_rel (group_up (groups s)) \<Longrightarrow> x \<in> group_refs s \<and> y \<in> group_refs s"
  by (auto simp: up_rel_def group_up_def group_refs_def row_ids_def split: option.splits
           dest!: row_get_SomeD)

lemma with_root_take: "id_supply (with_root s) = id_supply s" "id_next (with_root s) = id_next s"
proof -
  obtain gs where "with_root s = s\<lparr>groups := gs\<rparr>" using with_root_more by blast
  then show "id_supply (with_root s) = id_supply s" "id_next (with_root s) = id_next s" by simp_all
qed

lemma new_id_with_root [simp]: "new_id (with_root s) = new_id s"
  by (simp add: new_id_def with_root_take)

lemma create_group_forest:
  assumes ok: "create_group s payload user_id = Inr (g, s')"
    and forest: "group_forest s" and fresh: "new_id s \<notin> group_refs (with_root s)"
  shows "group_forest s'"
proof -
  let ?up = "group_up (groups s)"
  let ?n = "new_id s"
  obtain root where root: "ensure_root_group s = (root, with_root s)" "g_id root = ROOT_GROUP_ID"
    by (metis ensure_root_group_split ensure_root_group_id fst_conv)
  define p where "p = or_else (gc_parent_group_id payload) (g_id root)"
  have g: "g_id g = ?n" "g_parent_group_id g = Some p"
    and s': "groups s' = row_add g (groups (with_root s))"
    and p: "p = ROOT_GROUP_ID \<or> row_get g_id p (groups (with_root s)) \<noteq> None"
    using ok by (auto simp: create_group_def root Let_def p_def result_simps split: if_splits)
  then have "p \<in> group_refs (with_root s)"
    using with_root_has_root [of s] by (auto simp: group_refs_def row_get_None)
  then have pn: "p \<noteq> ?n" using fresh by auto
  have "row_get g_id ?n (groups (with_root s)) = None"
    using fresh by (simp add: row_get_None group_refs_def)
  then have up: "group_up (groups s') = ?up(?n := Some p)"
    using g by (auto simp: fun_eq_iff s' group_up_add group_up_with_root [of s, symmetric]
                           group_up_def [of "groups (with_root s)"] simp del: group_up_with_root
                     split: option.split)
  have "(p, ?n) \<notin> (up_rel ?up)\<^sup>*"
  proof
    assume "(p, ?n) \<in> (up_rel ?up)\<^sup>*"
    with pn obtain z where "(z, ?n) \<in> up_rel ?up" by (metis rtranclE)
    then have "(z, ?n) \<in> up_rel (group_up (groups (with_root s)))" by simp
    then show False using fresh up_rel_refs by blast
  qed
  moreover have "?n \<noteq> ROOT_GROUP_ID"
    using fresh with_root_has_root [of s] by (auto simp: row_get_None group_refs_def)
  ultimately show ?thesis
    using forest acyclic_redirect up by (auto simp: group_forest_def)
qed

lemma delete_group_up:
  assumes ok: "delete_group s i = Inr (g, s')"
  shows "i \<noteq> ROOT_GROUP_ID"
    and "group_up (groups s') x =
      (if x = i then None
       else if group_up (groups s) x = Some i then Some ROOT_GROUP_ID else group_up (groups s) x)"
proof -
  obtain root where root: "ensure_root_group s = (root, with_root s)" "g_id root = ROOT_GROUP_ID"
    by (metis ensure_root_group_split ensure_root_group_id fst_conv)
  define move :: "group_row \<Rightarrow> group_row" where "move = (\<lambda>c. if g_parent_group_id c = Some i
                                 then c\<lparr>g_parent_group_id := Some (g_id root)\<rparr> else c)"
  have key: "g_id (move c) = g_id c" for c by (simp add: move_def)
  show "i \<noteq> ROOT_GROUP_ID"
    using ok by (auto simp: delete_group_def result_simps split: if_splits dest: row_get_SomeD)
  have "groups s' = row_del g_id i (map move (groups (with_root s)))"
    using ok root by (auto simp: delete_group_def result_simps move_def Let_def split: if_splits)
  moreover have "row_get g_id x (map move gs) = map_option move (row_get g_id x gs)" for gs
    by (simp add: row_get_def find_map key comp_def)
  moreover have "group_up (groups s) x = group_up (groups (with_root s)) x" by simp
  ultimately show "group_up (groups s') x =
      (if x = i then None
       else if group_up (groups s) x = Some i then Some ROOT_GROUP_ID else group_up (groups s) x)"
    by (auto simp: group_up_def row_get_del move_def root(2) simp del: group_up_with_root split: option.splits)
qed

lemma delete_group_forest:
  assumes ok: "delete_group s i = Inr (g, s')" and forest: "group_forest s"
  shows "group_forest s'"
  unfolding group_forest_def
proof
  note up = delete_group_up [OF ok]
  show root: "group_up (groups s') ROOT_GROUP_ID = None"
    using forest up(1) by (auto simp: up(2) group_forest_def)
  show "acyclic (up_rel (group_up (groups s')))"
    by (rule acyclic_to_sink [where up = "group_up (groups s)" and r = ROOT_GROUP_ID])
       (use forest root in \<open>auto simp: up(2) group_forest_def\<close>)
qed

text \<open>One committed operation of the service.\<close>

inductive group_step :: "session \<Rightarrow> session \<Rightarrow> bool" where
  list_step: "list_groups s = (gs, s') \<Longrightarrow> group_step s s'"
| create_step: "create_group s c user_id = Inr (g, s') \<Longrightarrow> group_step s s'"
| update_step: "update_group s i u = Inr (g, s') \<Longrightarrow> group_step s s'"
| delete_step: "delete_group s i = Inr (g, s') \<Longrightarrow> group_step s s'"
| add_member_step: "add_group_member s i user_id member_role = Inr (m, s') \<Longrightarrow> group_step s s'"
| remove_member_step: "remove_group_member s i user_id = Inr (m, s') \<Longrightarrow> group_step s s'"
| grant_step: "create_management_grant s user_id i = Inr (mg, s') \<Longrightarrow> group_step s s'"
| revoke_step: "delete_management_grant s mid = Inr (mg, s') \<Longrightarrow> group_step s s'"
| registration_step: "resolve_registration_group s requested = (g, s') \<Longrightarrow> group_step s s'"

inductive_cases group_stepE: "group_step s s'"

lemma member_ops_keep_groups:
  "add_group_member s i user_id member_role = Inr (m, s') \<Longrightarrow> groups s' = groups s"
  "remove_group_member s i user_id = Inr (m, s') \<Longrightarrow> groups s' = groups s"
  "create_management_grant s user_id i = Inr (mg, s') \<Longrightarrow> groups s' = groups s"
  "delete_management_grant s mid = Inr (mg, s') \<Longrightarrow> groups s' = groups s"
  by (auto simp: add_group_member_def remove_group_member_def create_management_grant_def
        delete_management_grant_def take_id_def Let_def result_simps split: option.splits if_splits)

lemma registration_keeps_groups: "resolve_registration_group s requested = (g, s') \<Longrightarrow> s' = with_root s"
  by (auto simp: resolve_registration_group_def with_root_def split: prod.splits option.splits if_splits)

lemma group_forest_cong: "groups s' = groups s \<Longrightarrow> group_forest s' = group_forest s"
  by (simp add: group_forest_def)


text \<open>
  Deleting a group removes it and its memberships, moves each of its children under the root
  group and leaves the parent of every other group as it was; the root group cannot be deleted.
\<close>

theorem delete_group_effect:
  assumes "delete_group s i = Inr (g, s')"
  shows "i \<noteq> ROOT_GROUP_ID \<and> row_get g_id i (groups s') = None \<and>
    (\<forall>m \<in> set (group_members s'). gm_group_id m \<noteq> i) \<and>
    {m \<in> set (group_members s). gm_group_id m \<noteq> i} \<subseteq> set (group_members s') \<and>
    (\<forall>x. x \<noteq> i \<longrightarrow> group_up (groups s') x =
       (if group_up (groups s) x = Some i then Some ROOT_GROUP_ID else group_up (groups s) x))"
proof -
  obtain root where "ensure_root_group s = (root, with_root s)" by (metis ensure_root_group_split)
  then have s': "group_members s' = row_del_where (\<lambda>m. gm_group_id m = i) (group_members s)"
    "\<exists>gs. groups s' = row_del g_id i gs"
    using assms by (auto simp: delete_group_def result_simps Let_def split: if_splits)
  then have "row_get g_id i (groups s') = None" by (auto simp: row_get_del)
  then show ?thesis using s'(1) delete_group_up [OF assms] by simp
qed

definition sample_group :: "id \<Rightarrow> id option \<Rightarrow> time \<Rightarrow> group_row" where
  "sample_group i parent t =
     \<lparr>g_id = i, g_name = i, g_owner_user_id = None, g_parent_group_id = parent,
      g_description = None, g_created_at = t\<rparr>"

definition sample_groups :: session where
  "sample_groups = (empty_session 10)
     \<lparr>groups := [sample_group ''root-group'' None 0, sample_group ''a'' (Some ''root-group'') 1,
                 sample_group ''b'' (Some ''a'') 2, sample_group ''c'' (Some ''a'') 3],
      group_members := [\<lparr>gm_id = ''m1'', gm_group_id = ''a'', gm_user_id = ''u'', gm_member_role = ''member'',
                         gm_created_at = 4\<rparr>]\<rparr>"

lemma sample_groups_up:
  "group_up (groups sample_groups) =
     [''a'' \<mapsto> ''root-group'', ''b'' \<mapsto> ''a'', ''c'' \<mapsto> ''a'']"
  by (rule ext) (simp add: group_up_def row_get_def sample_groups_def sample_group_def)

lemma sample_groups_forest: "group_forest sample_groups"
proof -
  have "up_rel (group_up (groups sample_groups)) =
      {(''a'', ''root-group''), (''b'', ''a''), (''c'', ''a'')}"
    by (auto simp: up_rel_def sample_groups_up split: if_splits)
  also have "acyclic \<dots>"
    by (auto simp: acyclic_insert elim: converse_rtranclE)
  finally show ?thesis by (simp add: group_forest_def sample_groups_up ROOT_GROUP_ID_def)
qed

lemma sample_groups_root: "with_root sample_groups = sample_groups"
  by (rule with_root_same) (simp add: row_get_def sample_groups_def sample_group_def ROOT_GROUP_ID_def)

lemma sample_delete_ok: "\<exists>g s'. delete_group sample_groups ''a'' = Inr (g, s')"
  by (simp add: delete_group_def require_group_def row_get_def sample_groups_def sample_group_def
                ROOT_GROUP_ID_def split: prod.split)


theorem delete_group_effect_witness:
  "\<exists>g s'. delete_group sample_groups ''a'' = Inr (g, s') \<and>
     group_up (groups s') ''b'' = Some ROOT_GROUP_ID"
proof -
  obtain g s' where ok: "delete_group sample_groups ''a'' = Inr (g, s')" using sample_delete_ok by blast
  show ?thesis using ok delete_group_effect [OF ok] by (auto simp: sample_groups_up)
qed

section \<open>A chain deeper than the guard\<close>

text \<open>
  With more than 64 groups in one chain the cycle check gives up before it meets the group that is
  moved: the top of the chain can be moved under its end.
\<close>

definition chain_id :: "nat \<Rightarrow> id" where
  "chain_id k = [char_of (k + 40)]"

definition chain_group :: "nat \<Rightarrow> group_row" where
  "chain_group k = sample_group (chain_id k) (Some (if k = 0 then ROOT_GROUP_ID else chain_id (k - 1))) 0"

definition deep_groups :: session where
  "deep_groups = (empty_session 10)
     \<lparr>groups := sample_group ROOT_GROUP_ID None 0 # map chain_group [0..<66]\<rparr>"

definition move_top :: group_update where
  "move_top = \<lparr>gu_name = None, gu_description = None, gu_parent_group_id = Some (Some (chain_id 65))\<rparr>"

definition deep_move_cycles :: bool where
  "deep_move_cycles = (case update_group deep_groups (chain_id 0) move_top of
      Inl e \<Rightarrow> False
    | Inr (g, s') \<Rightarrow> g_parent_group_id g = Some (chain_id 65) \<and>
        group_up (groups s') (chain_id 0) = Some (chain_id 65) \<and>
        chain_id 0 \<in> set (parent_walk (group_up (groups s')) 67 (Some (chain_id 65))))"

lemma deep_move_cycles: "deep_move_cycles"
  by code_simp

text \<open>
  The guard of 64 rows is a real limit: on a chain of 66 groups under the root group the
  service accepts moving the first group under the last one, and the groups then contain a cycle.
\<close>

theorem deep_move_breaks_forest:
  "\<exists>g s'. update_group deep_groups (chain_id 0) move_top = Inr (g, s') \<and> \<not> group_forest s'"
proof -
  obtain g s' where ok: "update_group deep_groups (chain_id 0) move_top = Inr (g, s')"
    and up: "group_up (groups s') (chain_id 0) = Some (chain_id 65)"
    and walk: "chain_id 0 \<in> set (parent_walk (group_up (groups s')) 67 (Some (chain_id 65)))"
    using deep_move_cycles by (auto simp: deep_move_cycles_def split: sum.splits)
  have "(chain_id 0, chain_id 65) \<in> up_rel (group_up (groups s'))"
    using up by (simp add: up_rel_def chain_id_def)
  moreover have "(chain_id 65, chain_id 0) \<in> (up_rel (group_up (groups s')))\<^sup>*"
    using walk by (rule parent_walk_reaches)
  ultimately have "\<not> acyclic (up_rel (group_up (groups s')))"
    unfolding acyclic_def by (meson rtrancl_into_trancl2)
  then show ?thesis using ok by (auto simp: group_forest_def)
qed

end
