(* ===== verification/Authorization.thy ===== *)
theory Authorization
  imports Rbac UserGroups
begin

text \<open>
  Object-level access rules (\<open>services/security/authorization_service.py\<close>). The parameter
  \<open>admin\<close> is the setting \<open>default_admin_username\<close>. A check that lists groups may create the
  root group on the way, so it returns the session with its verdict; the lemmas show that this
  never changes a verdict.
\<close>

section \<open>Roles, groups and the management scope\<close>

definition is_bootstrap_admin :: "string \<Rightarrow> user_row \<Rightarrow> bool" where
  "is_bootstrap_admin admin u = (u_username u = admin)"

definition is_admin :: "string \<Rightarrow> session \<Rightarrow> user_row \<Rightarrow> bool" where
  "is_admin admin s u =
     (if is_bootstrap_admin admin u then True
      else if \<not> truthy (u_role_id u) then False
      else case row_get_opt r_id (u_role_id u) (roles s) of
             None \<Rightarrow> False | Some role \<Rightarrow> r_name role = ''admin'')"

definition group_ids_for_user :: "session \<Rightarrow> id \<Rightarrow> id list" where
  "group_ids_for_user s user_id = map gm_group_id (filter (\<lambda>m. gm_user_id m = user_id) (group_members s))"

definition primary_group_ancestor_ids :: "session \<Rightarrow> user_row \<Rightarrow> id list" where
  "primary_group_ancestor_ids s u = list_ancestor_group_ids s (u_primary_group_id u)"

definition normalize_subject_type :: "string option \<Rightarrow> string" where
  "normalize_subject_type t = py_upper (py_strip (or_else t ''''))"

definition iter_character_acl :: "session \<Rightarrow> id \<Rightarrow> character_acl_row list" where
  "iter_character_acl s character_id = filter (\<lambda>a. ca_character_id a = character_id) (character_acls s)"

definition character_acl_matches :: "session \<Rightarrow> user_row \<Rightarrow> character_acl_row \<Rightarrow> bool \<Rightarrow> bool" where
  "character_acl_matches s u acl inherited =
     (let subject_type = normalize_subject_type (Some (ca_subject_type acl))
      in if subject_type = ''AUTHENTICATED_ALL'' then True
         else if subject_type = ''USER'' then ca_subject_id acl = u_id u
         else if subject_type = ''ROLE'' then truthy (u_role_id u) \<and> Some (ca_subject_id acl) = u_role_id u
         else if subject_type = ''GROUP'' then ca_subject_id acl \<in> set (group_ids_for_user s (u_id u))
         else if subject_type = ''SUBTREE'' \<and> inherited
           then ca_subject_id acl \<in> set (primary_group_ancestor_ids s u)
         else False)"

definition has_management_permission :: "string \<Rightarrow> session \<Rightarrow> user_row \<Rightarrow> bool" where
  "has_management_permission admin s u =
     (if is_bootstrap_admin admin u then True
      else map_of (get_effective_permission_map s u) ''management:access'' = Some True)"

definition manageable_group_ids :: "string \<Rightarrow> session \<Rightarrow> user_row \<Rightarrow> id list \<times> session" where
  "manageable_group_ids admin s u =
     (if is_bootstrap_admin admin u then (map g_id (groups s), s)
      else if \<not> has_management_permission admin s u then ([], s)
      else list_descendant_group_ids s (management_grant_group_ids_for_user s (u_id u)))"

definition has_management_console :: "string \<Rightarrow> session \<Rightarrow> user_row \<Rightarrow> bool" where
  "has_management_console admin s u =
     (if is_bootstrap_admin admin u then True
      else if \<not> has_management_permission admin s u then False
      else case List.find (\<lambda>g. mg_user_id g = u_id u) (management_grants s) of
             None \<Rightarrow> False | Some g \<Rightarrow> mg_id g \<noteq> [])"

text \<open>
  For the bootstrap administrator the comprehension reads the attribute \<open>id\<close> of the strings that
  \<open>select(User.id)\<close> yields.
\<close>

definition list_manageable_user_ids :: "string \<Rightarrow> session \<Rightarrow> user_row \<Rightarrow> (id list \<times> session) result" where
  "list_manageable_user_ids admin s u =
     (if is_bootstrap_admin admin u
      then (case map u_id (users s) of
              [] \<Rightarrow> Inr ([], s)
            | _ # _ \<Rightarrow> Inl (AttributeError ''str object has no attribute id''))
      else let (manageable, s1) = manageable_group_ids admin s u
           in if manageable = [] then Inr ([u_id u], s1)
              else let ids = map u_id (filter (\<lambda>t. case u_primary_group_id t of
                                None \<Rightarrow> False | Some g \<Rightarrow> g \<in> set manageable) (users s1))
                   in Inr (if u_id u \<in> set ids then ids else ids @ [u_id u], s1))"

definition can_manage_user_scope :: "string \<Rightarrow> session \<Rightarrow> user_row \<Rightarrow> id option \<Rightarrow> bool \<times> session" where
  "can_manage_user_scope admin s u target_user_id =
     (if \<not> truthy target_user_id then (False, s)
      else if is_admin admin s u then (True, s)
      else if str_of target_user_id = u_id u then (True, s)
      else if \<not> has_management_console admin s u then (False, s)
      else case row_get u_id (str_of target_user_id) (users s) of
             None \<Rightarrow> (False, s)
           | Some target \<Rightarrow>
               let (manageable, s1) = manageable_group_ids admin s u
               in (case u_primary_group_id target of None \<Rightarrow> False | Some g \<Rightarrow> g \<in> set manageable, s1))"

section \<open>Characters\<close>

definition can_read_character :: "string \<Rightarrow> session \<Rightarrow> user_row \<Rightarrow> character_row \<Rightarrow> bool \<Rightarrow> bool" where
  "can_read_character admin s u c inherited =
     (if is_admin admin s u then True
      else if ch_created_by c = Some (u_id u) then True
      else list_ex (\<lambda>acl. ca_can_read acl \<and> character_acl_matches s u acl inherited)
             (iter_character_acl s (ch_id c)))"

definition can_use_character :: "string \<Rightarrow> session \<Rightarrow> user_row \<Rightarrow> character_row \<Rightarrow> bool" where
  "can_use_character admin s u c =
     (if is_admin admin s u then True
      else if ch_created_by c = Some (u_id u) then True
      else list_ex (\<lambda>acl. ca_can_use acl \<and> character_acl_matches s u acl True)
             (iter_character_acl s (ch_id c)))"

definition can_manage_character :: "string \<Rightarrow> session \<Rightarrow> user_row \<Rightarrow> character_row \<Rightarrow> bool \<times> session" where
  "can_manage_character admin s u c =
     (if is_admin admin s u then (True, s)
      else if ch_created_by c = Some (u_id u) then (True, s)
      else can_manage_user_scope admin s u (ch_created_by c))"

definition get_character :: "session \<Rightarrow> id \<Rightarrow> character_row option" where
  "get_character s i = row_get ch_id i (characters s)"

definition require_character_read ::
  "string \<Rightarrow> session \<Rightarrow> user_row \<Rightarrow> id \<Rightarrow> bool \<Rightarrow> bool \<Rightarrow> (character_row \<times> session) result" where
  "require_character_read admin s u character_id inherited allow_manage =
     (case get_character s character_id of
        None \<Rightarrow> Inl (HTTPException 404 ''Character not found'')
      | Some c \<Rightarrow>
          let (managed, s1) = (if allow_manage then can_manage_character admin s u c else (False, s))
          in if managed then Inr (c, s1)
             else if \<not> can_read_character admin s1 u c inherited
               then Inl (HTTPException 403 ''Character access denied'')
             else Inr (c, s1))"

definition require_character_use :: "string \<Rightarrow> session \<Rightarrow> user_row \<Rightarrow> id \<Rightarrow> character_row result" where
  "require_character_use admin s u character_id =
     (case get_character s character_id of
        None \<Rightarrow> Inl (HTTPException 404 ''Character not found'')
      | Some c \<Rightarrow> if \<not> can_use_character admin s u c
                  then Inl (HTTPException 403 ''Character access denied'') else Inr c)"

definition require_character_manage ::
  "string \<Rightarrow> session \<Rightarrow> user_row \<Rightarrow> id \<Rightarrow> (character_row \<times> session) result" where
  "require_character_manage admin s u character_id =
     (case get_character s character_id of
        None \<Rightarrow> Inl (HTTPException 404 ''Character not found'')
      | Some c \<Rightarrow> let (ok, s1) = can_manage_character admin s u c
                  in if \<not> ok then Inl (HTTPException 403 ''Character management denied'')
                     else Inr (c, s1))"

text \<open>A list comprehension whose condition may change the session.\<close>

fun filter_s :: "('s \<Rightarrow> 'a \<Rightarrow> bool \<times> 's) \<Rightarrow> 's \<Rightarrow> 'a list \<Rightarrow> 'a list \<times> 's" where
  "filter_s f s [] = ([], s)"
| "filter_s f s (x # xs) =
     (let (keep, s1) = f s x; (ys, s2) = filter_s f s1 xs in (if keep then x # ys else ys, s2))"

definition filter_visible_characters ::
  "string \<Rightarrow> session \<Rightarrow> user_row \<Rightarrow> character_row list \<Rightarrow> string \<Rightarrow> character_row list \<times> session" where
  "filter_visible_characters admin s u cs scope =
     (if scope = ''basic_visible'' then (filter (\<lambda>c. can_read_character admin s u c False) cs, s)
      else if scope = ''manageable'' then filter_s (\<lambda>s c. can_manage_character admin s u c) s cs
      else (filter (\<lambda>c. can_read_character admin s u c True) cs, s))"

section \<open>Cocoons\<close>

definition can_manage_cocoon :: "string \<Rightarrow> session \<Rightarrow> user_row \<Rightarrow> cocoon_row \<Rightarrow> bool \<times> session" where
  "can_manage_cocoon admin s u c =
     (if is_admin admin s u then (True, s)
      else if c_owner_user_id c = u_id u then (True, s)
      else can_manage_user_scope admin s u (Some (c_owner_user_id c)))"

definition can_access_cocoon ::
  "string \<Rightarrow> session \<Rightarrow> user_row \<Rightarrow> cocoon_row \<Rightarrow> bool \<Rightarrow> bool \<Rightarrow> bool \<times> session" where
  "can_access_cocoon admin s u c wr allow_manage =
     (if is_admin admin s u then (True, s)
      else if c_owner_user_id c = u_id u then (True, s)
      else let (managed, s1) = (if allow_manage then can_manage_cocoon admin s u c else (False, s))
           in if managed then (True, s1)
              else case get_character s1 (c_character_id c) of
                     None \<Rightarrow> (False, s1)
                   | Some ch \<Rightarrow> (if wr then can_use_character admin s1 u ch
                                else can_read_character admin s1 u ch True, s1))"

definition require_cocoon_access ::
  "string \<Rightarrow> session \<Rightarrow> user_row \<Rightarrow> id \<Rightarrow> bool \<Rightarrow> bool \<Rightarrow> (cocoon_row \<times> session) result" where
  "require_cocoon_access admin s u cocoon_id wr allow_manage =
     (case row_get c_id cocoon_id (cocoons s) of
        None \<Rightarrow> Inl (HTTPException 404 ''Cocoon not found'')
      | Some c \<Rightarrow> let (ok, s1) = can_access_cocoon admin s u c wr allow_manage
                  in if \<not> ok then Inl (HTTPException 403 ''Cocoon access denied'') else Inr (c, s1))"

definition require_cocoon_manage ::
  "string \<Rightarrow> session \<Rightarrow> user_row \<Rightarrow> id \<Rightarrow> (cocoon_row \<times> session) result" where
  "require_cocoon_manage admin s u cocoon_id =
     (case row_get c_id cocoon_id (cocoons s) of
        None \<Rightarrow> Inl (HTTPException 404 ''Cocoon not found'')
      | Some c \<Rightarrow> let (ok, s1) = can_manage_cocoon admin s u c
                  in if \<not> ok then Inl (HTTPException 403 ''Cocoon management denied'') else Inr (c, s1))"

definition filter_visible_cocoons ::
  "string \<Rightarrow> session \<Rightarrow> user_row \<Rightarrow> cocoon_row list \<Rightarrow> bool \<Rightarrow> string \<Rightarrow> cocoon_row list \<times> session" where
  "filter_visible_cocoons admin s u cs wr scope =
     (if scope = ''own'' then (filter (\<lambda>c. c_owner_user_id c = u_id u) cs, s)
      else if scope = ''manageable'' then filter_s (\<lambda>s c. can_manage_cocoon admin s u c) s cs
      else filter_s (\<lambda>s c. can_access_cocoon admin s u c wr False) s cs)"

definition require_pull_merge_access ::
  "string \<Rightarrow> session \<Rightarrow> user_row \<Rightarrow> id \<Rightarrow> id \<Rightarrow> ((cocoon_row \<times> cocoon_row) \<times> session) result" where
  "require_pull_merge_access admin s u source_id target_id =
     bind_r (require_cocoon_access admin s u source_id False False) (\<lambda>(source, s1).
     bind_r (require_cocoon_access admin s1 u target_id True False) (\<lambda>(target, s2).
     Inr ((source, target), s2)))"

section \<open>Chat groups and audit runs\<close>

definition get_chat_group_membership :: "session \<Rightarrow> id \<Rightarrow> id \<Rightarrow> room_member_row option" where
  "get_chat_group_membership s user_id room_id =
     List.find (\<lambda>m. mb_room_id m = room_id \<and> mb_user_id m = user_id) (room_members s)"

definition can_read_chat_group :: "string \<Rightarrow> session \<Rightarrow> user_row \<Rightarrow> room_row \<Rightarrow> bool" where
  "can_read_chat_group admin s u room =
     (if is_admin admin s u then True
      else if rm_owner_user_id room = u_id u then True
      else get_chat_group_membership s (u_id u) (rm_id room) \<noteq> None)"

definition can_chat_in_chat_group :: "string \<Rightarrow> session \<Rightarrow> user_row \<Rightarrow> room_row \<Rightarrow> bool" where
  "can_chat_in_chat_group admin s u room = can_read_chat_group admin s u room"

definition can_manage_chat_group :: "string \<Rightarrow> session \<Rightarrow> user_row \<Rightarrow> room_row \<Rightarrow> bool" where
  "can_manage_chat_group admin s u room =
     (if is_admin admin s u then True
      else if rm_owner_user_id room = u_id u then True
      else case get_chat_group_membership s (u_id u) (rm_id room) of
             None \<Rightarrow> False | Some m \<Rightarrow> mb_member_role m = ''admin'')"

definition require_chat_group_access ::
  "string \<Rightarrow> session \<Rightarrow> user_row \<Rightarrow> id \<Rightarrow> bool \<Rightarrow> bool \<Rightarrow> bool \<Rightarrow> room_row result" where
  "require_chat_group_access admin s u room_id wr manage owner =
     (case row_get rm_id room_id (rooms s) of
        None \<Rightarrow> Inl (HTTPException 404 ''Chat group room not found'')
      | Some room \<Rightarrow>
          if owner then
            (if is_admin admin s u \<or> rm_owner_user_id room = u_id u then Inr room
             else Inl (HTTPException 403 ''Chat group owner access denied''))
          else if manage then
            (if can_manage_chat_group admin s u room then Inr room
             else Inl (HTTPException 403 ''Chat group management denied''))
          else if wr then
            (if can_chat_in_chat_group admin s u room then Inr room
             else Inl (HTTPException 403 ''Chat group chat access denied''))
          else if can_read_chat_group admin s u room then Inr room
          else Inl (HTTPException 403 ''Chat group access denied''))"

definition filter_visible_chat_groups :: "string \<Rightarrow> session \<Rightarrow> user_row \<Rightarrow> room_row list \<Rightarrow> room_row list" where
  "filter_visible_chat_groups admin s u rs = filter (can_read_chat_group admin s u) rs"

definition can_view_audit_run :: "string \<Rightarrow> session \<Rightarrow> user_row \<Rightarrow> audit_run_row \<Rightarrow> bool" where
  "can_view_audit_run admin s u run =
     (case ar_cocoon_id run of
        Some i \<Rightarrow> (case row_get c_id i (cocoons s) of
                     None \<Rightarrow> False | Some c \<Rightarrow> fst (can_access_cocoon admin s u c False False))
      | None \<Rightarrow>
          (case ar_chat_group_id run of
             Some i \<Rightarrow> (case row_get rm_id i (rooms s) of
                          None \<Rightarrow> False | Some room \<Rightarrow> can_read_chat_group admin s u room)
           | None \<Rightarrow> is_admin admin s u))"

definition filter_visible_audit_runs :: "string \<Rightarrow> session \<Rightarrow> user_row \<Rightarrow> audit_run_row list \<Rightarrow> audit_run_row list" where
  "filter_visible_audit_runs admin s u runs = filter (can_view_audit_run admin s u) runs"

section \<open>What the management scope is\<close>

text \<open>
  The scope of a manager, stated without the traversal: the groups reachable from the manager's
  grants, and a user is in scope when the user's primary group is.
\<close>

definition grant_roots :: "session \<Rightarrow> user_row \<Rightarrow> id set" where
  "grant_roots s u = {mg_group_id g | g. g \<in> set (management_grants s) \<and> mg_user_id g = u_id u \<and> mg_group_id g \<noteq> []}"

definition in_scope :: "string \<Rightarrow> session \<Rightarrow> user_row \<Rightarrow> id option \<Rightarrow> bool" where
  "in_scope admin s u target \<longleftrightarrow>
     truthy target \<and>
     (is_admin admin s u \<or> target = Some (u_id u) \<or>
      (has_management_console admin s u \<and>
       (\<exists>t g. row_get_opt u_id target (users s) = Some t \<and> u_primary_group_id t = Some g \<and>
              g \<in> (child_rel (groups s))\<^sup>* `` grant_roots s u)))"

lemma is_admin_bootstrap: "is_bootstrap_admin admin u \<Longrightarrow> is_admin admin s u"
  by (simp add: is_admin_def)

lemma list_descendant_state: "snd (list_descendant_group_ids s r) \<in> {s, with_root s}"
  using list_groups_simps(1) [of s]
  by (auto simp: list_descendant_group_ids_def Let_def split: prod.splits)

lemma manageable_group_ids_state: "snd (manageable_group_ids admin s u) \<in> {s, with_root s}"
  using list_descendant_state [of s] by (simp add: manageable_group_ids_def)

lemma manageable_group_ids_set:
  assumes "\<not> is_bootstrap_admin admin u" "has_management_permission admin s u"
  shows "set (fst (manageable_group_ids admin s u)) = (child_rel (groups s))\<^sup>* `` grant_roots s u"
proof -
  have "{r \<in> set (management_grant_group_ids_for_user s (u_id u)). r \<noteq> []} = grant_roots s u"
    by (auto simp: management_grant_group_ids_for_user_def grant_roots_def)
  then show ?thesis
    using assms list_descendant_group_ids_reach [of s] by (simp add: manageable_group_ids_def)
qed

lemma console_permission: "has_management_console admin s u \<Longrightarrow> has_management_permission admin s u"
  by (simp add: has_management_console_def has_management_permission_def split: if_splits)

lemma can_manage_user_scope_state: "snd (can_manage_user_scope admin s u t) \<in> {s, with_root s}"
  using manageable_group_ids_state [of admin s u]
  by (auto simp: can_manage_user_scope_def Let_def split: option.splits prod.splits)

lemma can_manage_user_scope_iff: "fst (can_manage_user_scope admin s u t) \<longleftrightarrow> in_scope admin s u t"
proof (cases "is_admin admin s u \<or> \<not> truthy t \<or> str_of t = u_id u \<or> \<not> has_management_console admin s u")
  case True
  then show ?thesis by (auto simp: can_manage_user_scope_def in_scope_def truthy_iff)
next
  case False
  then have "set (fst (manageable_group_ids admin s u)) = (child_rel (groups s))\<^sup>* `` grant_roots s u"
    using is_admin_bootstrap console_permission by (intro manageable_group_ids_set) blast+
  with False show ?thesis
    by (auto simp: can_manage_user_scope_def in_scope_def truthy_iff Let_def
             split: option.splits prod.splits)
qed

lemma permission_map_with_root [simp]:
  "get_effective_permission_map (with_root s) u = get_effective_permission_map s u"
  by (simp add: get_effective_permission_map_def get_role_for_user_def)

lemma verdicts_with_root [simp]:
  "is_admin admin (with_root s) u = is_admin admin s u"
  "has_management_console admin (with_root s) u = has_management_console admin s u"
  "in_scope admin (with_root s) u t = in_scope admin s u t"
  by (simp_all add: is_admin_def has_management_console_def has_management_permission_def in_scope_def
                    grant_roots_def)

lemma ancestors_with_root [simp]:
  "list_ancestor_group_ids (with_root s) i = list_ancestor_group_ids s i"
  by (simp add: list_ancestor_group_ids_def ancestor_loop_walk)

lemma acl_matches_with_root [simp]:
  "character_acl_matches (with_root s) u acl inh = character_acl_matches s u acl inh"
  by (simp add: character_acl_matches_def group_ids_for_user_def primary_group_ancestor_ids_def)

lemma character_verdicts_with_root [simp]:
  "can_read_character admin (with_root s) u c inh = can_read_character admin s u c inh"
  "can_use_character admin (with_root s) u c = can_use_character admin s u c"
  "get_character (with_root s) i = get_character s i"
  by (simp_all add: can_read_character_def can_use_character_def iter_character_acl_def get_character_def)

lemma can_manage_character_iff:
  "fst (can_manage_character admin s u c) \<longleftrightarrow>
     is_admin admin s u \<or> ch_created_by c = Some (u_id u) \<or> in_scope admin s u (ch_created_by c)"
  by (simp add: can_manage_character_def can_manage_user_scope_iff)

lemma can_manage_cocoon_iff:
  "fst (can_manage_cocoon admin s u c) \<longleftrightarrow>
     is_admin admin s u \<or> c_owner_user_id c = u_id u \<or> in_scope admin s u (Some (c_owner_user_id c))"
  by (simp add: can_manage_cocoon_def can_manage_user_scope_iff)

lemma manage_state:
  "snd (can_manage_character admin s u ch) \<in> {s, with_root s}"
  "snd (can_manage_cocoon admin s u c) \<in> {s, with_root s}"
  using can_manage_user_scope_state [of admin s u]
  by (simp_all add: can_manage_character_def can_manage_cocoon_def)

definition cocoon_access :: "string \<Rightarrow> session \<Rightarrow> user_row \<Rightarrow> cocoon_row \<Rightarrow> bool \<Rightarrow> bool \<Rightarrow> bool" where
  "cocoon_access admin s u c wr allow_manage \<longleftrightarrow>
     is_admin admin s u \<or> c_owner_user_id c = u_id u \<or>
     (allow_manage \<and> in_scope admin s u (Some (c_owner_user_id c))) \<or>
     (\<exists>ch. get_character s (c_character_id c) = Some ch \<and>
           (if wr then can_use_character admin s u ch else can_read_character admin s u ch True))"

lemma can_access_cocoon_state: "snd (can_access_cocoon admin s u c wr am) \<in> {s, with_root s}"
  using manage_state(2) [of admin s u c]
  by (auto simp: can_access_cocoon_def Let_def split: prod.splits option.splits if_splits)

lemma can_access_cocoon_iff: "fst (can_access_cocoon admin s u c wr am) \<longleftrightarrow> cocoon_access admin s u c wr am"
proof (cases "am \<and> \<not> (is_admin admin s u \<or> c_owner_user_id c = u_id u)")
  case True
  obtain ok s1 where m: "can_manage_cocoon admin s u c = (ok, s1)" by fastforce
  then have "s1 = s \<or> s1 = with_root s" "ok \<longleftrightarrow> in_scope admin s u (Some (c_owner_user_id c))"
    using manage_state(2) [of admin s u c] can_manage_cocoon_iff [of admin s u c] True by auto
  with True m show ?thesis
    by (auto simp: can_access_cocoon_def cocoon_access_def split: option.splits)
next
  case False
  then show ?thesis
    by (auto simp: can_access_cocoon_def cocoon_access_def split: option.splits)
qed

section \<open>The interface of an access gate\<close>

text \<open>
  Routes reach an object only through a gate: it looks the object up, answers \<open>missing\<close> when there is
  none and \<open>denied\<close> when the check refuses; a check never changes the verdict of another one.
\<close>

locale access_gate =
  fixes look :: "'s \<Rightarrow> id \<Rightarrow> 'r option"
    and can :: "'s \<Rightarrow> 'r \<Rightarrow> bool \<times> 's"
    and req :: "'s \<Rightarrow> id \<Rightarrow> ('r \<times> 's) result"
    and missing denied :: py_exc
  assumes req_law: "req s i = (case look s i of None \<Rightarrow> Inl missing
                     | Some r \<Rightarrow> if fst (can s r) then Inr (r, snd (can s r)) else Inl denied)"
    and can_stable: "fst (can (snd (can s r)) r') = fst (can s r')"
    and errors: "missing \<noteq> denied"
begin

lemma req_granted: "req s i = Inr (r, s') \<longleftrightarrow> look s i = Some r \<and> can s r = (True, s')"
  by (cases "can s r") (auto simp: req_law split: option.splits if_splits)

lemma req_missing: "req s i = Inl missing \<longleftrightarrow> look s i = None"
  using errors by (auto simp: req_law split: option.splits)

lemma req_denied: "req s i = Inl denied \<longleftrightarrow> (\<exists>r. look s i = Some r \<and> \<not> fst (can s r))"
  using errors by (auto simp: req_law split: option.splits)

lemma req_cases:
  "req s i = Inl missing \<or> req s i = Inl denied \<or> (\<exists>r s'. req s i = Inr (r, s') \<and> look s i = Some r)"
  by (auto simp: req_law split: option.splits)

lemma filter_can: "fst (filter_s can s rs) = filter (\<lambda>r. fst (can s r)) rs"
proof (induction rs arbitrary: s)
  case (Cons r rs)
  have "filter (\<lambda>x. fst (can (snd (can s r)) x)) rs = filter (\<lambda>x. fst (can s x)) rs"
    by (simp add: can_stable)
  with Cons [of "snd (can s r)"] show ?case by (simp add: split_beta)
qed simp

text \<open>A listing shows exactly the objects that the gate lets through.\<close>

lemma listed_iff_granted:
  "look s i = Some r \<Longrightarrow> r \<in> set rs \<Longrightarrow>
   r \<in> set (fst (filter_s can s rs)) \<longleftrightarrow> (\<exists>s'. req s i = Inr (r, s'))"
  by (cases "can s r") (auto simp: filter_can req_granted)

end

lemma state_stable:
  assumes "snd (can s r) \<in> {s, with_root s}" "\<And>r'. fst (can (with_root s) r') = fst (can s r')"
  shows "fst (can (snd (can s r)) r') = fst (can s r')"
  using assms by auto

lemma cocoon_access_with_root [simp]:
  "cocoon_access admin (with_root s) u c wr am = cocoon_access admin s u c wr am"
  by (simp add: cocoon_access_def)

interpretation cocoon_gate: access_gate
  "\<lambda>s i. row_get c_id i (cocoons s)"
  "\<lambda>s c. can_access_cocoon admin s u c wr am"
  "\<lambda>s i. require_cocoon_access admin s u i wr am"
  "HTTPException 404 ''Cocoon not found''" "HTTPException 403 ''Cocoon access denied''"
  for admin u wr am
proof
  show "fst (can_access_cocoon admin (snd (can_access_cocoon admin s u r wr am)) u r' wr am) =
        fst (can_access_cocoon admin s u r' wr am)" for s r r'
    by (rule state_stable [where can = "\<lambda>s c. can_access_cocoon admin s u c wr am"])
       (rule can_access_cocoon_state, simp add: can_access_cocoon_iff)
qed (auto simp: require_cocoon_access_def split: option.split prod.split)

interpretation cocoon_manage_gate: access_gate
  "\<lambda>s i. row_get c_id i (cocoons s)"
  "\<lambda>s c. can_manage_cocoon admin s u c"
  "\<lambda>s i. require_cocoon_manage admin s u i"
  "HTTPException 404 ''Cocoon not found''" "HTTPException 403 ''Cocoon management denied''"
  for admin u
proof
  show "fst (can_manage_cocoon admin (snd (can_manage_cocoon admin s u r)) u r') =
        fst (can_manage_cocoon admin s u r')" for s r r'
    by (rule state_stable [where can = "\<lambda>s c. can_manage_cocoon admin s u c"])
       (rule manage_state, simp add: can_manage_cocoon_iff)
qed (auto simp: require_cocoon_manage_def split: option.split prod.split)

interpretation character_manage_gate: access_gate
  "get_character"
  "\<lambda>s c. can_manage_character admin s u c"
  "\<lambda>s i. require_character_manage admin s u i"
  "HTTPException 404 ''Character not found''" "HTTPException 403 ''Character management denied''"
  for admin u
proof
  show "fst (can_manage_character admin (snd (can_manage_character admin s u r)) u r') =
        fst (can_manage_character admin s u r')" for s r r'
    by (rule state_stable [where can = "\<lambda>s c. can_manage_character admin s u c"])
       (rule manage_state, simp add: can_manage_character_iff)
qed (auto simp: require_character_manage_def split: option.split prod.split)

text \<open>The use of a character and the access to a chat group never change the session.\<close>

definition keep_session :: "'s \<Rightarrow> 'r result \<Rightarrow> ('r \<times> 's) result" where
  "keep_session s m = map_sum id (\<lambda>r. (r, s)) m"

lemma keep_session_simps [simp]:
  "keep_session s (Inl e) = Inl e" "keep_session s (Inr r) = Inr (r, s)"
  by (simp_all add: keep_session_def)

interpretation character_use_gate: access_gate
  "get_character"
  "\<lambda>s c. (can_use_character admin s u c, s)"
  "\<lambda>s i. keep_session s (require_character_use admin s u i)"
  "HTTPException 404 ''Character not found''" "HTTPException 403 ''Character access denied''"
  for admin u
  by unfold_locales (auto simp: require_character_use_def split: option.split)

interpretation character_read_gate: access_gate
  "get_character"
  "\<lambda>s c. (can_read_character admin s u c inherited, s)"
  "\<lambda>s i. require_character_read admin s u i inherited False"
  "HTTPException 404 ''Character not found''" "HTTPException 403 ''Character access denied''"
  for admin u inherited
  by unfold_locales (auto simp: require_character_read_def split: option.split)

interpretation room_read_gate: access_gate
  "\<lambda>s i. row_get rm_id i (rooms s)"
  "\<lambda>s r. (can_read_chat_group admin s u r, s)"
  "\<lambda>s i. keep_session s (require_chat_group_access admin s u i False False False)"
  "HTTPException 404 ''Chat group room not found''" "HTTPException 403 ''Chat group access denied''"
  for admin u
  by unfold_locales (auto simp: require_chat_group_access_def split: option.split)

interpretation room_manage_gate: access_gate
  "\<lambda>s i. row_get rm_id i (rooms s)"
  "\<lambda>s r. (can_manage_chat_group admin s u r, s)"
  "\<lambda>s i. keep_session s (require_chat_group_access admin s u i wr True False)"
  "HTTPException 404 ''Chat group room not found''" "HTTPException 403 ''Chat group management denied''"
  for admin u wr
  by unfold_locales (auto simp: require_chat_group_access_def split: option.split)

text \<open>
  C9. A user may act on another user's resources exactly when the target is named and the user is an
  administrator, is the target, or has the management console and the target's primary group is
  reachable from one of the user's management grants. The check at most creates the root group.
\<close>

theorem can_manage_user_scope_exact:
  "fst (can_manage_user_scope admin s u target) = in_scope admin s u target \<and>
   snd (can_manage_user_scope admin s u target) \<in> {s, with_root s}"
  using can_manage_user_scope_iff can_manage_user_scope_state by blast

text \<open>
  C29. \<open>require_cocoon_access\<close> answers 404 exactly when the cocoon does not exist, 403 exactly when
  it exists and the user is neither administrator nor owner, nor (where management counts) has the
  owner in scope, nor may use or read the cocoon's character for a write or a read; otherwise it
  returns the stored cocoon.
\<close>

theorem require_cocoon_access_exact:
  "case row_get c_id i (cocoons s) of
     None \<Rightarrow> require_cocoon_access admin s u i wr am = Inl (HTTPException 404 ''Cocoon not found'')
   | Some c \<Rightarrow>
       if cocoon_access admin s u c wr am
       then \<exists>s'. require_cocoon_access admin s u i wr am = Inr (c, s') \<and> s' \<in> {s, with_root s}
       else require_cocoon_access admin s u i wr am = Inl (HTTPException 403 ''Cocoon access denied'')"
proof (cases "row_get c_id i (cocoons s)")
  case (Some c)
  obtain ok s' where can: "can_access_cocoon admin s u c wr am = (ok, s')" by fastforce
  then have "s' \<in> {s, with_root s}" "ok = cocoon_access admin s u c wr am"
    using can_access_cocoon_state [of admin s u c wr am] can_access_cocoon_iff [of admin s u c wr am] by auto
  then show ?thesis
    using Some can cocoon_gate.req_granted [of admin s u i wr am c s'] cocoon_gate.req_denied [of admin s u i wr am]
    by auto
qed (simp add: cocoon_gate.req_missing)

text \<open>
  The list of visible cocoons is exactly the sublist of those that the access gate lets through,
  whatever the listed scope: owned, manageable or accessible ones.
\<close>

theorem filter_visible_cocoons_exact:
  "fst (filter_visible_cocoons admin s u cs wr scope) =
     filter (\<lambda>c. if scope = ''own'' then c_owner_user_id c = u_id u
                 else if scope = ''manageable'' then
                   is_admin admin s u \<or> c_owner_user_id c = u_id u \<or>
                   in_scope admin s u (Some (c_owner_user_id c))
                 else cocoon_access admin s u c wr False) cs"
  by (simp add: filter_visible_cocoons_def cocoon_gate.filter_can cocoon_manage_gate.filter_can
                can_access_cocoon_iff can_manage_cocoon_iff)

text \<open>
  A user gets at a chat group only as administrator, owner or member: whoever may manage it may
  read it, an owner-only request is granted exactly to administrators and the owner, and a
  request of someone else than these and the members is refused with 403 in every mode.
\<close>

theorem require_chat_group_access_exact:
  "require_chat_group_access admin s u i wr manage owner = Inr room \<longleftrightarrow>
     row_get rm_id i (rooms s) = Some room \<and>
     (is_admin admin s u \<or> rm_owner_user_id room = u_id u \<or>
      (\<not> owner \<and> (\<exists>m. get_chat_group_membership s (u_id u) (rm_id room) = Some m \<and>
                       (if manage then mb_member_role m = ''admin'' else True))))"
  by (auto simp: require_chat_group_access_def can_manage_chat_group_def can_chat_in_chat_group_def
                 can_read_chat_group_def split: option.splits)

text \<open>
  The listing of manageable users fails with an attribute error for the bootstrap
  administrator as soon as any user is stored, although the administrator manages every user.
\<close>

theorem bootstrap_admin_listing_fails:
  "users s \<noteq> [] \<Longrightarrow> u_username u = admin \<Longrightarrow>
   list_manageable_user_ids admin s u = Inl (AttributeError ''str object has no attribute id'') \<and>
   (\<forall>t \<in> set (users s). u_id t \<noteq> [] \<longrightarrow> fst (can_manage_user_scope admin s u (Some (u_id t))))"
  by (auto simp: list_manageable_user_ids_def is_bootstrap_admin_def can_manage_user_scope_iff in_scope_def
                 is_admin_def neq_Nil_conv)

theorem bootstrap_admin_listing_fails_witness:
  "list_manageable_user_ids ''bob'' rbac_example rbac_example_user =
     Inl (AttributeError ''str object has no attribute id'')"
  using bootstrap_admin_listing_fails [of rbac_example rbac_example_user "''bob''"]
  by (simp add: rbac_example_def rbac_example_user_def)

end
