(* ===== verification/TagPolicy.thy ===== *)
theory TagPolicy
  imports Models
begin

text \<open>
  Private tags and the default boundary of a target (\<open>services/catalog/tag_policy.py\<close>). A reference
  to a tag is its identifier or, for a known owner, its name. The branches of the source for
  session stand-ins without \<open>get\<close> or \<open>scalars\<close> are not modelled: every session here has them.
\<close>

definition SYSTEM_TAG_SLUG :: string where "SYSTEM_TAG_SLUG = ''default''"
definition SYSTEM_TAG_BRIEF :: string where
  "SYSTEM_TAG_BRIEF = ''Default memory boundary automatically applied to every target.''"
definition TAG_VISIBILITY_PRIVATE :: string where "TAG_VISIBILITY_PRIVATE = ''private''"
definition VALID_TAG_VISIBILITIES :: "string list" where
  "VALID_TAG_VISIBILITIES = [TAG_VISIBILITY_PRIVATE]"

definition is_system_tag :: "tag_row option \<Rightarrow> bool" where
  "is_system_tag t = (case t of None \<Rightarrow> False | Some r \<Rightarrow> t_is_system r)"

definition require_valid_visibility :: "string \<Rightarrow> string result" where
  "require_valid_visibility visibility =
     (let normalized = (if py_strip visibility = [] then TAG_VISIBILITY_PRIVATE else py_strip visibility)
      in if normalized \<notin> set VALID_TAG_VISIBILITIES
         then Inl (HTTPException 400 ''Tags are private and cannot be shared or published'')
         else Inr normalized)"

definition reset_system_tag :: "tag_row \<Rightarrow> tag_row" where
  "reset_system_tag t = t\<lparr>t_tag_id := SYSTEM_TAG_SLUG, t_brief := SYSTEM_TAG_BRIEF,
     t_visibility := TAG_VISIBILITY_PRIVATE, t_is_isolated := True, t_is_hidden := True,
     t_meta := dict_set ''system'' (JBool True) (t_meta t)\<rparr>"

definition new_system_tag :: "session \<Rightarrow> id \<Rightarrow> tag_row" where
  "new_system_tag s user_id =
     \<lparr>t_id = new_id s, t_owner_user_id = user_id, t_tag_id = SYSTEM_TAG_SLUG, t_brief = SYSTEM_TAG_BRIEF,
      t_visibility = TAG_VISIBILITY_PRIVATE, t_is_isolated = True, t_is_system = True, t_is_hidden = True,
      t_meta = [(''system'', JBool True)], t_created_at = clock s\<rparr>"

definition find_system_tag :: "session \<Rightarrow> id \<Rightarrow> tag_row option" where
  "find_system_tag s user_id = List.find (\<lambda>t. t_owner_user_id t = user_id \<and> t_is_system t) (tags s)"

definition ensure_user_system_tag :: "session \<Rightarrow> id \<Rightarrow> tag_row \<times> session" where
  "ensure_user_system_tag s user_id =
     (case find_system_tag s user_id of
        Some t \<Rightarrow> (reset_system_tag t, s\<lparr>tags := row_put t_id (t_id t) reset_system_tag (tags s)\<rparr>)
      | None \<Rightarrow> let t = new_system_tag s user_id in (t, (take_id s)\<lparr>tags := row_add t (tags s)\<rparr>))"

definition ensure_all_users_system_tags :: "session \<Rightarrow> session" where
  "ensure_all_users_system_tags s = fold (\<lambda>i s. snd (ensure_user_system_tag s i)) (map u_id (users s)) s"

definition list_tags_for_user :: "session \<Rightarrow> id \<Rightarrow> tag_row list" where
  "list_tags_for_user s user_id =
     sort_key (\<lambda>t. (\<not> t_is_system t, t_tag_id t)) (filter (\<lambda>t. t_owner_user_id t = user_id) (tags s))"

definition resolve_tag_owner_user_id_for_target :: "session \<Rightarrow> id option \<Rightarrow> id option \<Rightarrow> id option" where
  "resolve_tag_owner_user_id_for_target s cocoon_id chat_group_id =
     (if truthy cocoon_id then map_option c_owner_user_id (row_get c_id (str_of cocoon_id) (cocoons s))
      else if truthy chat_group_id
        then map_option rm_owner_user_id (row_get rm_id (str_of chat_group_id) (rooms s))
      else None)"

definition resolve_tag_owner_user_id_for_state :: "session \<Rightarrow> state_row \<Rightarrow> id option" where
  "resolve_tag_owner_user_id_for_state s st =
     resolve_tag_owner_user_id_for_target s (st_cocoon_id st) (st_chat_group_id st)"

definition get_tag_by_canonical_id :: "session \<Rightarrow> string \<Rightarrow> id option \<Rightarrow> tag_row option" where
  "get_tag_by_canonical_id s tag_id owner =
     (let normalized = py_strip tag_id
      in if normalized = [] then None
         else case row_get t_id normalized (tags s) of
                None \<Rightarrow> None
              | Some t \<Rightarrow> if owner = None \<or> Some (t_owner_user_id t) = owner then Some t else None)"

definition get_tag_by_any_ref :: "session \<Rightarrow> string \<Rightarrow> id option \<Rightarrow> tag_row option" where
  "get_tag_by_any_ref s tag_ref owner =
     (let normalized = py_strip tag_ref
      in if normalized = [] then None
         else case get_tag_by_canonical_id s normalized owner of
                Some t \<Rightarrow> Some t
              | None \<Rightarrow>
                  if truthy owner
                  then List.find (\<lambda>t. t_owner_user_id t = str_of owner \<and> t_tag_id t = normalized) (tags s)
                  else None)"

definition require_canonical_tag :: "session \<Rightarrow> string \<Rightarrow> id option \<Rightarrow> tag_row result" where
  "require_canonical_tag s tag_id owner =
     (case get_tag_by_any_ref s tag_id owner of
        Some t \<Rightarrow> Inr t | None \<Rightarrow> Inl (HTTPException 404 ''Tag not found''))"

fun resolve_loop :: "session \<Rightarrow> id option \<Rightarrow> string list \<Rightarrow> id list \<Rightarrow> id list" where
  "resolve_loop s owner [] resolved = resolved"
| "resolve_loop s owner (raw # refs) resolved =
     (case get_tag_by_any_ref s raw owner of
        None \<Rightarrow> resolve_loop s owner refs resolved
      | Some t \<Rightarrow>
          if truthy owner \<and> t_owner_user_id t \<noteq> str_of owner then resolve_loop s owner refs resolved
          else if t_id t \<notin> set resolved then resolve_loop s owner refs (resolved @ [t_id t])
          else resolve_loop s owner refs resolved)"

definition canonicalize_tag_refs :: "session \<Rightarrow> string list \<Rightarrow> bool \<Rightarrow> id option \<Rightarrow> id list \<times> session" where
  "canonicalize_tag_refs s refs include_default owner =
     (let resolved = resolve_loop s owner refs []
      in if include_default \<and> truthy owner
         then let (dflt, s1) = ensure_user_system_tag s (str_of owner)
              in (t_id dflt # filter (\<lambda>i. i \<noteq> t_id dflt) resolved, s1)
         else (resolved, s))"

definition find_cocoon_binding :: "session \<Rightarrow> id \<Rightarrow> id \<Rightarrow> cocoon_tag_row option" where
  "find_cocoon_binding s cocoon_id tag_id =
     List.find (\<lambda>b. ct_cocoon_id b = cocoon_id \<and> ct_tag_id b = tag_id) (cocoon_tags s)"

definition find_room_binding :: "session \<Rightarrow> id \<Rightarrow> id \<Rightarrow> room_tag_row option" where
  "find_room_binding s chat_group_id tag_id =
     List.find (\<lambda>b. rt_chat_group_id b = chat_group_id \<and> rt_tag_id b = tag_id) (room_tags s)"

definition add_cocoon_binding :: "session \<Rightarrow> id \<Rightarrow> id \<Rightarrow> cocoon_tag_row \<times> session" where
  "add_cocoon_binding s cocoon_id tag_id =
     (let b = \<lparr>ct_id = new_id s, ct_cocoon_id = cocoon_id, ct_tag_id = tag_id, ct_created_at = clock s\<rparr>
      in (b, (take_id s)\<lparr>cocoon_tags := row_add b (cocoon_tags s)\<rparr>))"

definition add_room_binding :: "session \<Rightarrow> id \<Rightarrow> id \<Rightarrow> room_tag_row \<times> session" where
  "add_room_binding s chat_group_id tag_id =
     (let b = \<lparr>rt_id = new_id s, rt_chat_group_id = chat_group_id, rt_tag_id = tag_id, rt_created_at = clock s\<rparr>
      in (b, (take_id s)\<lparr>room_tags := row_add b (room_tags s)\<rparr>))"

definition ensure_target_default_binding :: "session \<Rightarrow> id option \<Rightarrow> id option \<Rightarrow> id \<times> session" where
  "ensure_target_default_binding s cocoon_id chat_group_id =
     (let owner = resolve_tag_owner_user_id_for_target s cocoon_id chat_group_id
      in if \<not> truthy owner then (SYSTEM_TAG_SLUG, s)
         else let (dflt, s1) = ensure_user_system_tag s (str_of owner);
                  s2 = (if truthy cocoon_id \<and> find_cocoon_binding s1 (str_of cocoon_id) (t_id dflt) = None
                        then snd (add_cocoon_binding s1 (str_of cocoon_id) (t_id dflt)) else s1);
                  s3 = (if truthy chat_group_id \<and> find_room_binding s2 (str_of chat_group_id) (t_id dflt) = None
                        then snd (add_room_binding s2 (str_of chat_group_id) (t_id dflt)) else s2)
              in (t_id dflt, s3))"

definition set_active_tags :: "session \<Rightarrow> state_row \<Rightarrow> id list \<Rightarrow> state_row \<times> session" where
  "set_active_tags s st active =
     (st\<lparr>st_active_tags := active\<rparr>,
      s\<lparr>states := row_put st_id (st_id st) (\<lambda>r. r\<lparr>st_active_tags := active\<rparr>) (states s)\<rparr>)"

definition ensure_state_default_tag :: "session \<Rightarrow> state_row \<Rightarrow> state_row \<times> session" where
  "ensure_state_default_tag s st =
     (let (active, s1) = canonicalize_tag_refs s (st_active_tags st) True (resolve_tag_owner_user_id_for_state s st)
      in if st_active_tags st \<noteq> active then set_active_tags s1 st active else (st, s1))"

definition list_target_bound_tag_ids :: "session \<Rightarrow> id option \<Rightarrow> id option \<Rightarrow> id list \<times> session" where
  "list_target_bound_tag_ids s cocoon_id chat_group_id =
     (let (_, s1) = ensure_target_default_binding s cocoon_id chat_group_id
      in (if truthy cocoon_id
          then map ct_tag_id (sort_key ct_created_at
                 (filter (\<lambda>b. ct_cocoon_id b = str_of cocoon_id) (cocoon_tags s1)))
          else if truthy chat_group_id
          then map rt_tag_id (sort_key rt_created_at
                 (filter (\<lambda>b. rt_chat_group_id b = str_of chat_group_id) (room_tags s1)))
          else [], s1))"

definition ensure_state_bound_tags :: "session \<Rightarrow> state_row \<Rightarrow> state_row \<times> session" where
  "ensure_state_bound_tags s st =
     (let owner = resolve_tag_owner_user_id_for_state s st;
          (bound, s1) = list_target_bound_tag_ids s (st_cocoon_id st) (st_chat_group_id st);
          (active, s2) = canonicalize_tag_refs s1 (st_active_tags st @ bound) True owner
      in if st_active_tags st \<noteq> active then set_active_tags s2 st active else (st, s2))"

definition target_ids :: "string \<Rightarrow> id \<Rightarrow> id option \<times> id option" where
  "target_ids target_type target_id =
     (if target_type = ''cocoon'' then Some target_id else None,
      if target_type = ''chat_group'' then Some target_id else None)"

definition is_tag_visible_in_target :: "session \<Rightarrow> tag_row \<Rightarrow> string \<Rightarrow> id \<Rightarrow> bool" where
  "is_tag_visible_in_target s t target_type target_id =
     (let (c, g) = target_ids target_type target_id;
          owner = resolve_tag_owner_user_id_for_target s c g
      in truthy owner \<and> Some (t_owner_user_id t) = owner)"

definition list_visible_bound_tags :: "session \<Rightarrow> string \<Rightarrow> id \<Rightarrow> bool \<Rightarrow> tag_row list \<times> session" where
  "list_visible_bound_tags s target_type target_id include_system =
     (let (c, g) = target_ids target_type target_id;
          owner = resolve_tag_owner_user_id_for_target s c g
      in if \<not> truthy owner then ([], s)
         else let (bound, s1) = list_target_bound_tag_ids s c g
              in if bound = [] then ([], s1)
                 else let found = filter (\<lambda>t. t_id t \<in> set bound \<and> Some (t_owner_user_id t) = owner) (tags s1);
                          ordered = sort_key (\<lambda>t. (\<not> t_is_system t, t_tag_id t, t_id t)) found
                      in (filter (\<lambda>t. (include_system \<or> \<not> is_system_tag (Some t)) \<and>
                                      is_tag_visible_in_target s1 t target_type target_id) ordered, s1))"

record catalog_item =
  ci_index :: nat
  ci_id :: id
  ci_tag_id :: string
  ci_brief :: string

definition serialize_prompt_tag_catalog ::
  "session \<Rightarrow> string \<Rightarrow> id \<Rightarrow> (catalog_item list \<times> (nat \<times> id \<times> string) list) \<times> session" where
  "serialize_prompt_tag_catalog s target_type target_id =
     (let (visible, s1) = list_visible_bound_tags s target_type target_id True;
          indexed = zip [1..<length visible + 1] visible
      in ((map (\<lambda>(i, t). \<lparr>ci_index = i, ci_id = t_id t, ci_tag_id = t_tag_id t, ci_brief = t_brief t\<rparr>) indexed,
           map (\<lambda>(i, t). (i, t_id t, t_tag_id t)) indexed), s1))"

definition replace_tag_visibility_groups :: "session \<Rightarrow> tag_row \<Rightarrow> string list \<Rightarrow> (id list \<times> session) result" where
  "replace_tag_visibility_groups s t chat_group_ids =
     (if filter (\<lambda>i. i \<noteq> []) (map py_strip chat_group_ids) \<noteq> []
      then Inl (HTTPException 400 ''Tags are private and cannot be shared with chat groups'')
      else Inr ([], s\<lparr>tag_visibilities := row_del_where (\<lambda>v. tv_tag_id v = t_id t) (tag_visibilities s)\<rparr>))"

definition list_visible_chat_group_ids :: "session \<Rightarrow> id \<Rightarrow> id list" where
  "list_visible_chat_group_ids s tag_id = []"

section \<open>Start-up reconciliation\<close>

definition reconcile_message :: "session \<Rightarrow> message_row \<Rightarrow> message_row" where
  "reconcile_message s m =
     m\<lparr>m_tags := fst (canonicalize_tag_refs s (m_tags m) False
         (resolve_tag_owner_user_id_for_target s (m_cocoon_id m) (m_chat_group_id m)))\<rparr>"

definition memory_tag_owner :: "session \<Rightarrow> memory_row \<Rightarrow> id option" where
  "memory_tag_owner s m =
     or_opt (mem_owner_user_id m)
       (resolve_tag_owner_user_id_for_target s (mem_cocoon_id m) (mem_chat_group_id m))"

definition reconcile_memory :: "session \<Rightarrow> memory_row \<Rightarrow> memory_row" where
  "reconcile_memory s m =
     m\<lparr>mem_tags := fst (canonicalize_tag_refs s (mem_tags m) False (memory_tag_owner s m))\<rparr>"

definition reconcile_message_tag :: "session \<Rightarrow> message_tag_row \<Rightarrow> message_tag_row" where
  "reconcile_message_tag s mt =
     (let owner = (case row_get m_id (mt_message_id mt) (messages s) of
                     None \<Rightarrow> None
                   | Some m \<Rightarrow> resolve_tag_owner_user_id_for_target s (m_cocoon_id m) (m_chat_group_id m))
      in case get_tag_by_any_ref s (mt_tag_id mt) owner of
           None \<Rightarrow> mt | Some t \<Rightarrow> mt\<lparr>mt_tag_id := t_id t\<rparr>)"

definition reconcile_memory_tag :: "session \<Rightarrow> memory_tag_row \<Rightarrow> memory_tag_row" where
  "reconcile_memory_tag s mt =
     (let owner = (case row_get mem_id (mmt_memory_chunk_id mt) (memories s) of
                     None \<Rightarrow> None | Some m \<Rightarrow> memory_tag_owner s m)
      in case get_tag_by_any_ref s (mmt_tag_id mt) owner of
           None \<Rightarrow> mt | Some t \<Rightarrow> mt\<lparr>mmt_tag_id := t_id t\<rparr>)"

definition reconcile_tag_storage :: "session \<Rightarrow> session" where
  "reconcile_tag_storage s0 =
     (let s1 = ensure_all_users_system_tags s0;
          s2 = s1\<lparr>tag_visibilities := []\<rparr>;
          s3 = fold (\<lambda>c s. snd (ensure_target_default_binding s (Some (c_id c)) None)) (cocoons s2) s2;
          s4 = fold (\<lambda>r s. snd (ensure_target_default_binding s None (Some (rm_id r)))) (rooms s3) s3;
          s5 = fold (\<lambda>st s. snd (ensure_state_bound_tags s st)) (states s4) s4;
          s6 = s5\<lparr>messages := map (reconcile_message s5) (messages s5)\<rparr>;
          s7 = s6\<lparr>memories := map (reconcile_memory s6) (memories s6)\<rparr>;
          s8 = s7\<lparr>message_tags := map (reconcile_message_tag s7) (message_tags s7)\<rparr>
      in s8\<lparr>memory_tags := map (reconcile_memory_tag s8) (memory_tags s8)\<rparr>)"

section \<open>Well-formed tags\<close>

text \<open>
  Identifiers are distinct and carry no surrounding blanks, an owner has one tag of a name (the
  unique constraint of the table), and the system tags are those with the reserved name.
\<close>

definition tags_wf :: "session \<Rightarrow> bool" where
  "tags_wf s \<longleftrightarrow> distinct (map t_id (tags s)) \<and>
     distinct (map (\<lambda>t. (t_owner_user_id t, t_tag_id t)) (tags s)) \<and>
     (\<forall>t\<in>set (tags s). t_id t \<noteq> [] \<and> py_strip (t_id t) = t_id t \<and>
        (t_is_system t \<longleftrightarrow> t_tag_id t = SYSTEM_TAG_SLUG))"

definition fresh_tag_id :: "session \<Rightarrow> bool" where
  "fresh_tag_id s \<longleftrightarrow> new_id s \<notin> row_ids t_id (tags s) \<and> new_id s \<noteq> [] \<and> py_strip (new_id s) = new_id s"

lemma reset_system_tag_simps [simp]:
  "t_id (reset_system_tag t) = t_id t" "t_owner_user_id (reset_system_tag t) = t_owner_user_id t"
  "t_is_system (reset_system_tag t) = t_is_system t" "t_tag_id (reset_system_tag t) = SYSTEM_TAG_SLUG"
  "reset_system_tag (reset_system_tag t) = reset_system_tag t"
  by (simp_all add: reset_system_tag_def)

lemma find_system_tag_SomeD:
  "find_system_tag s u = Some t \<Longrightarrow> t \<in> set (tags s) \<and> t_owner_user_id t = u \<and> t_is_system t"
  unfolding find_system_tag_def by (drule find_SomeD) simp

lemma ensure_user_system_tag_cases:
  obtains (found) t where "find_system_tag s u = Some t"
      "ensure_user_system_tag s u = (reset_system_tag t, s\<lparr>tags := row_put t_id (t_id t) reset_system_tag (tags s)\<rparr>)"
  | (new) "find_system_tag s u = None"
      "ensure_user_system_tag s u =
         (new_system_tag s u, (take_id s)\<lparr>tags := row_add (new_system_tag s u) (tags s)\<rparr>)"
  by (cases "find_system_tag s u") (simp_all add: ensure_user_system_tag_def Let_def)

lemma new_system_tag_simps [simp]:
  "t_id (new_system_tag s u) = new_id s" "t_owner_user_id (new_system_tag s u) = u"
  "t_tag_id (new_system_tag s u) = SYSTEM_TAG_SLUG" "t_is_system (new_system_tag s u)"
  "reset_system_tag (new_system_tag s u) = new_system_tag s u"
  by (simp_all add: new_system_tag_def reset_system_tag_def dict_set_def)

text \<open>Resetting a system tag does not change what is looked up.\<close>

lemma map_row_put_id: "(\<And>r. r \<in> set rows \<Longrightarrow> key r = i \<Longrightarrow> h (f r) = h r) \<Longrightarrow> map h (row_put key i f rows) = map h rows"
  by (induction rows) (auto simp: row_put_def)

lemma ensure_user_system_tag_wf:
  assumes "tags_wf s" "fresh_tag_id s" "ensure_user_system_tag s u = (d, s1)"
  shows "tags_wf s1"
proof (cases rule: ensure_user_system_tag_cases [where s = s and u = u])
  case (found t)
  have t: "t \<in> set (tags s)" "t_is_system t" using found(1) find_system_tag_SomeD by blast+
  have same: "r = t" if "r \<in> set (tags s)" "t_id r = t_id t" for r
    using assms(1) t(1) that unfolding tags_wf_def distinct_map by (auto dest: inj_onD)
  have s1: "tags s1 = row_put t_id (t_id t) reset_system_tag (tags s)" using found(2) assms(3) by auto
  have "map (\<lambda>t. (t_owner_user_id t, t_tag_id t)) (tags s1) = map (\<lambda>t. (t_owner_user_id t, t_tag_id t)) (tags s)"
    unfolding s1 by (rule map_row_put_id, drule (1) same) (use t assms(1) in \<open>simp add: tags_wf_def\<close>)
  then show ?thesis
    using assms(1) t by (auto simp: tags_wf_def s1 set_row_put dest: same)
next
  case new
  let ?name = "\<lambda>t. (t_owner_user_id t, t_tag_id t)"
  have s1: "tags s1 = tags s @ [new_system_tag s u]" using new(2) assms(3) by (simp add: row_add_def)
  have "(u, SYSTEM_TAG_SLUG) \<notin> ?name ` set (tags s)"
    using new(1) assms(1) by (auto simp: find_system_tag_def find_None tags_wf_def)
  moreover have "new_id s \<notin> t_id ` set (tags s)" using assms(2) by (simp add: fresh_tag_id_def row_ids_def)
  ultimately show ?thesis
    using assms(1,2) by (simp add: tags_wf_def fresh_tag_id_def s1 ball_Un)
qed

lemma row_put_keeps:
  assumes "r \<in> set rows"
  shows "\<exists>r'\<in>set (row_put t_id i reset_system_tag rows). t_id r' = t_id r \<and> t_owner_user_id r' = t_owner_user_id r"
proof
  show "(if t_id r = i then reset_system_tag r else r) \<in> set (row_put t_id i reset_system_tag rows)"
    using assms by (auto simp: set_row_put)
qed simp

lemma ensure_user_system_tag_result:
  assumes "ensure_user_system_tag s u = (d, s1)"
  shows "d \<in> set (tags s1)" "t_owner_user_id d = u" "t_is_system d" "t_tag_id d = SYSTEM_TAG_SLUG"
proof -
  have "d \<in> set (tags s1) \<and> t_owner_user_id d = u \<and> t_is_system d \<and> t_tag_id d = SYSTEM_TAG_SLUG"
  proof (cases rule: ensure_user_system_tag_cases [where s = s and u = u])
    case (found t)
    then have "d = reset_system_tag t" "tags s1 = row_put t_id (t_id t) reset_system_tag (tags s)"
      using assms by simp_all
    then show ?thesis using find_system_tag_SomeD [OF found(1)] by (auto simp: set_row_put)
  qed (use assms in auto)
  then show "d \<in> set (tags s1)" "t_owner_user_id d = u" "t_is_system d" "t_tag_id d = SYSTEM_TAG_SLUG"
    by simp_all
qed

lemma ensure_user_system_tag_keeps:
  assumes "ensure_user_system_tag s u = (d, s1)" "t \<in> set (tags s)"
  shows "\<exists>t'\<in>set (tags s1). t_id t' = t_id t \<and> t_owner_user_id t' = t_owner_user_id t"
proof (cases rule: ensure_user_system_tag_cases [where s = s and u = u])
  case (found t0)
  then have "tags s1 = row_put t_id (t_id t0) reset_system_tag (tags s)" using assms by simp
  then show ?thesis using row_put_keeps [OF assms(2)] by simp
qed (use assms in auto)

lemma find_row_put_reset:
  assumes "List.find (\<lambda>t. t_owner_user_id t = u \<and> t_is_system t) rows = Some t"
  shows "List.find (\<lambda>t. t_owner_user_id t = u \<and> t_is_system t) (row_put t_id (t_id t) reset_system_tag rows) =
         Some (reset_system_tag t)"
  using assms by (induction rows) (auto simp: row_put_def split: if_splits)

lemma ensure_user_system_tag_idem:
  assumes "fresh_tag_id s" "ensure_user_system_tag s u = (d, s1)"
  shows "ensure_user_system_tag s1 u = (d, s1)"
proof (cases rule: ensure_user_system_tag_cases [where s = s and u = u])
  case (found t)
  have d: "d = reset_system_tag t"
    and s1: "s1 = s\<lparr>tags := row_put t_id (t_id t) reset_system_tag (tags s)\<rparr>"
    using found(2) assms(2) by simp_all
  have "find_system_tag s1 u = Some d"
    using found(1) find_row_put_reset [of u "tags s" t] by (simp add: find_system_tag_def s1 d)
  moreover have "row_put t_id (t_id t) reset_system_tag (tags s1) = tags s1"
    by (simp add: s1 row_put_def)
  ultimately show ?thesis by (simp add: ensure_user_system_tag_def d)
next
  case new
  then have s1: "tags s1 = row_add (new_system_tag s u) (tags s)" and d: "d = new_system_tag s u"
    using assms(2) by auto
  then have "find_system_tag s1 u = Some d"
    using new(1) by (simp add: find_system_tag_def row_add_def find_append)
  moreover have "row_put t_id (t_id d) reset_system_tag (tags s1) = tags s1"
    using assms(1) unfolding s1 d row_put_def
    by (intro map_idI) (auto simp: row_add_def fresh_tag_id_def row_ids_def image_iff)
  ultimately show ?thesis
    by (simp add: ensure_user_system_tag_def) (simp add: d)
qed

section \<open>Canonical lists of tags\<close>

lemma canonical_id_self:
  assumes "tags_wf s" "t \<in> set (tags s)" "owner = None \<or> owner = Some (t_owner_user_id t)"
  shows "get_tag_by_any_ref s (t_id t) owner = Some t"
proof -
  have "row_get t_id (t_id t) (tags s) = Some t"
    using assms by (intro row_get_mem) (auto simp: tags_wf_def)
  then show ?thesis
    using assms by (auto simp: get_tag_by_any_ref_def get_tag_by_canonical_id_def tags_wf_def)
qed

lemma any_ref_owned:
  "get_tag_by_any_ref s r owner = Some t \<Longrightarrow>
     t \<in> set (tags s) \<and> (owner = None \<or> owner = Some (t_owner_user_id t))"
  by (auto simp: get_tag_by_any_ref_def get_tag_by_canonical_id_def Let_def truthy_iff
           split: if_splits option.splits dest!: row_get_SomeD find_SomeD)

definition resolved_ids :: "session \<Rightarrow> id option \<Rightarrow> string list \<Rightarrow> id set" where
  "resolved_ids s owner refs = {t_id t | t r. r \<in> set refs \<and> get_tag_by_any_ref s r owner = Some t}"

lemma resolve_loop_set:
  "set (resolve_loop s owner refs resolved) = set resolved \<union> resolved_ids s owner refs"
proof (induction s owner refs resolved rule: resolve_loop.induct)
  case (2 s owner raw refs resolved)
  show ?case
  proof (cases "get_tag_by_any_ref s raw owner")
    case (Some t)
    then have "\<not> (truthy owner \<and> t_owner_user_id t \<noteq> str_of owner)"
      using any_ref_owned [OF Some] by auto
    then show ?thesis using 2 Some by (auto simp: resolved_ids_def)
  qed (use 2 in \<open>auto simp: resolved_ids_def\<close>)
qed (simp add: resolved_ids_def)

lemma resolve_loop_distinct: "distinct resolved \<Longrightarrow> distinct (resolve_loop s owner refs resolved)"
  by (induction s owner refs resolved rule: resolve_loop.induct) (auto split: option.splits)

lemma resolve_loop_self:
  "\<lbrakk>\<And>i. i \<in> set ids \<Longrightarrow> \<exists>t. get_tag_by_any_ref s i owner = Some t \<and> t_id t = i; distinct (resolved @ ids)\<rbrakk> \<Longrightarrow>
   resolve_loop s owner ids resolved = resolved @ ids"
proof (induction ids arbitrary: resolved)
  case (Cons i ids)
  then obtain t where t: "get_tag_by_any_ref s i owner = Some t" "t_id t = i" by (meson list.set_intros(1))
  moreover have "\<not> (truthy owner \<and> t_owner_user_id t \<noteq> str_of owner)" using any_ref_owned [OF t(1)] by auto
  moreover have "resolve_loop s owner ids (resolved @ [i]) = (resolved @ [i]) @ ids"
    using Cons.prems by (intro Cons.IH) auto
  ultimately show ?case using Cons.prems by auto
qed simp

lemma resolved_in_tags:
  "i \<in> resolved_ids s owner refs \<Longrightarrow>
   \<exists>t\<in>set (tags s). t_id t = i \<and> (owner = None \<or> owner = Some (t_owner_user_id t))"
  by (auto simp: resolved_ids_def dest!: any_ref_owned)

lemma resolve_stable:
  assumes "tags_wf s" "distinct ids"
    and "\<And>i. i \<in> set ids \<Longrightarrow> \<exists>t\<in>set (tags s). t_id t = i \<and> (owner = None \<or> owner = Some (t_owner_user_id t))"
  shows "resolve_loop s owner ids [] = ids"
proof -
  have "\<exists>t. get_tag_by_any_ref s i owner = Some t \<and> t_id t = i" if "i \<in> set ids" for i
    using assms(3) [OF that] canonical_id_self [OF assms(1)] by metis
  then show ?thesis using resolve_loop_self [of ids s owner "[]"] assms(2) by simp
qed

lemma canonicalize_facts:
  assumes wf: "tags_wf s" and fresh: "fresh_tag_id s"
    and c: "canonicalize_tag_refs s refs inc owner = (ids, s1)"
  shows "distinct ids \<and> tags_wf s1 \<and> resolved_ids s owner refs \<subseteq> set ids \<and>
    (\<forall>i\<in>set ids. \<exists>t\<in>set (tags s1). t_id t = i \<and> (owner = None \<or> owner = Some (t_owner_user_id t))) \<and>
    (inc \<and> truthy owner \<longrightarrow>
       (\<exists>d\<in>set (tags s1). t_is_system d \<and> t_owner_user_id d = str_of owner \<and> ids \<noteq> [] \<and> hd ids = t_id d)) \<and>
    canonicalize_tag_refs s1 ids inc owner = (ids, s1)"
proof (cases "inc \<and> truthy owner")
  case False
  then have ids: "ids = resolve_loop s owner refs []" and s1: "s1 = s"
    using c by (auto simp: canonicalize_tag_refs_def Let_def split: prod.splits if_splits)
  have "distinct ids" by (simp add: ids resolve_loop_distinct)
  moreover have mem: "\<exists>t\<in>set (tags s). t_id t = i \<and> (owner = None \<or> owner = Some (t_owner_user_id t))"
    if "i \<in> set ids" for i
    using that resolved_in_tags by (simp add: ids resolve_loop_set)
  moreover have "resolve_loop s owner ids [] = ids"
    by (rule resolve_stable [OF wf]) (use \<open>distinct ids\<close> mem in auto)
  moreover have "resolved_ids s owner refs \<subseteq> set ids" by (simp add: ids resolve_loop_set)
  ultimately show ?thesis
    using False wf by (auto simp: canonicalize_tag_refs_def s1)
next
  case True
  obtain u where owner: "owner = Some u" "u \<noteq> []" using True by (auto simp: truthy_iff)
  obtain d where d: "ensure_user_system_tag s u = (d, s1)"
    and ids: "ids = t_id d # filter (\<lambda>i. i \<noteq> t_id d) (resolve_loop s owner refs [])"
    using c True owner by (auto simp: canonicalize_tag_refs_def Let_def split: prod.splits)
  note dr = ensure_user_system_tag_result [OF d]
  have wf1: "tags_wf s1" by (rule ensure_user_system_tag_wf [OF wf fresh d])
  have dist: "distinct ids" by (simp add: ids resolve_loop_distinct)
  have sub: "resolved_ids s owner refs \<subseteq> set ids" by (auto simp: ids resolve_loop_set)
  have mem: "\<exists>t\<in>set (tags s1). t_id t = i \<and> (owner = None \<or> owner = Some (t_owner_user_id t))"
    if "i \<in> set ids" for i
  proof (cases "i = t_id d")
    case True
    then show ?thesis using dr owner by auto
  next
    case False
    then have "i \<in> resolved_ids s owner refs" using that by (auto simp: ids resolve_loop_set)
    from resolved_in_tags [OF this] ensure_user_system_tag_keeps [OF d] show ?thesis by metis
  qed
  have "resolve_loop s1 owner ids [] = ids" by (rule resolve_stable [OF wf1 dist mem])
  then have "canonicalize_tag_refs s1 ids inc owner = (ids, s1)"
    using ensure_user_system_tag_idem [OF fresh d] True owner ids
    by (simp add: canonicalize_tag_refs_def)
  moreover have "\<exists>d\<in>set (tags s1). t_is_system d \<and> t_owner_user_id d = str_of owner \<and> ids \<noteq> [] \<and> hd ids = t_id d"
    using dr owner by (auto simp: ids)
  ultimately show ?thesis
    using dist wf1 sub mem by blast
qed

text \<open>
  C33. Canonicalising a list of tag references yields distinct identifiers of stored tags of the
  owner, keeps every tag a reference resolves to, puts the owner's default tag first when it is
  asked for, leaves the tags well-formed, and a second pass changes neither the list nor the
  stored tags.
\<close>

theorem canonicalize_tag_refs_correct:
  assumes "tags_wf s" "fresh_tag_id s" "canonicalize_tag_refs s refs inc owner = (ids, s1)"
  shows "distinct ids \<and> tags_wf s1 \<and> resolved_ids s owner refs \<subseteq> set ids \<and>
    (\<forall>i\<in>set ids. \<exists>t\<in>set (tags s1). t_id t = i \<and> (owner = None \<or> owner = Some (t_owner_user_id t))) \<and>
    (inc \<and> truthy owner \<longrightarrow>
       (\<exists>d\<in>set (tags s1). t_is_system d \<and> t_owner_user_id d = str_of owner \<and> ids \<noteq> [] \<and> hd ids = t_id d)) \<and>
    canonicalize_tag_refs s1 ids inc owner = (ids, s1)"
  by (rule canonicalize_facts [OF assms])

definition sample_tag :: "id \<Rightarrow> id \<Rightarrow> string \<Rightarrow> bool \<Rightarrow> tag_row" where
  "sample_tag i owner name sys =
     \<lparr>t_id = i, t_owner_user_id = owner, t_tag_id = name, t_brief = name, t_visibility = ''private'',
      t_is_isolated = True, t_is_system = sys, t_is_hidden = sys, t_meta = [], t_created_at = 0\<rparr>"

definition sample_tags :: session where
  "sample_tags = (empty_session 5)\<lparr>tags := [sample_tag ''t1'' ''u1'' ''work'' False,
     sample_tag ''t2'' ''u2'' ''work'' False, sample_tag ''t3'' ''u1'' ''default'' True]\<rparr>"

lemma sample_tags_ok: "tags_wf sample_tags" "fresh_tag_id sample_tags"
  by (auto simp: tags_wf_def fresh_tag_id_def sample_tags_def sample_tag_def SYSTEM_TAG_SLUG_def new_id_def
        empty_session_def id_literal_def row_ids_def py_strip_def py_isspace_def)

theorem canonicalize_tag_refs_correct_witness:
  "\<exists>s1. canonicalize_tag_refs sample_tags ['' work '', ''t1'', ''t2''] True (Some ''u1'') = ([''t3'', ''t1''], s1) \<and>
     canonicalize_tag_refs s1 [''t3'', ''t1''] True (Some ''u1'') = ([''t3'', ''t1''], s1)"
proof -
  have "fst (canonicalize_tag_refs sample_tags ['' work '', ''t1'', ''t2''] True (Some ''u1'')) = [''t3'', ''t1'']"
    by code_simp
  then obtain s1 where
    "canonicalize_tag_refs sample_tags ['' work '', ''t1'', ''t2''] True (Some ''u1'') = ([''t3'', ''t1''], s1)"
    by (metis prod.collapse)
  with canonicalize_tag_refs_correct [OF sample_tags_ok this] show ?thesis by blast
qed

end
