(* ===== verification/Targets.thy ===== *)
theory Targets
  imports TagPolicy Chains
begin

text \<open>
  Conversation targets (\<open>services/workspace/targets.py\<close>): a target is a cocoon or a chat group, never
  both; its session state carries the active tags; a cocoon has a lineage of ancestors.
\<close>

definition DEFAULT_RELATION_SCORE :: int where "DEFAULT_RELATION_SCORE = 50"

definition resolve_target_type :: "id option \<Rightarrow> id option \<Rightarrow> (string \<times> id) result" where
  "resolve_target_type cocoon_id chat_group_id =
     (if truthy cocoon_id \<and> \<not> truthy chat_group_id then Inr (''cocoon'', str_of cocoon_id)
      else if truthy chat_group_id \<and> \<not> truthy cocoon_id then Inr (''chat_group'', str_of chat_group_id)
      else Inl (ValueError ''Exactly one of cocoon_id or chat_group_id must be provided''))"

definition target_channel_key :: "id option \<Rightarrow> id option \<Rightarrow> string result" where
  "target_channel_key cocoon_id chat_group_id =
     bind_r (resolve_target_type cocoon_id chat_group_id) (\<lambda>(target_type, target_id).
     Inr (target_type @ '':'' @ target_id))"

text \<open>The condition that \<open>build_target_filter\<close> puts on the two target columns of a row.\<close>

definition build_target_filter ::
  "id option \<Rightarrow> id option \<Rightarrow> (id option \<Rightarrow> id option \<Rightarrow> bool) result" where
  "build_target_filter cocoon_id chat_group_id =
     bind_r (resolve_target_type cocoon_id chat_group_id) (\<lambda>(target_type, target_id).
     Inr (if target_type = ''cocoon'' then (\<lambda>c g. c = Some target_id \<and> g = None)
          else (\<lambda>c g. g = Some target_id \<and> c = None)))"

fun lineage_loop :: "cocoon_row list \<Rightarrow> nat \<Rightarrow> id option \<Rightarrow> cocoon_row list \<Rightarrow> cocoon_row list" where
  "lineage_loop cs 0 current lineage = lineage"
| "lineage_loop cs (Suc guard) current lineage =
     (if \<not> truthy current then lineage
      else if str_of current \<in> c_id ` set lineage then lineage
      else case row_get c_id (str_of current) cs of
             None \<Rightarrow> lineage
           | Some c \<Rightarrow> lineage_loop cs guard (c_parent_id c) (lineage @ [c]))"

definition list_cocoon_lineage :: "session \<Rightarrow> id \<Rightarrow> cocoon_row list" where
  "list_cocoon_lineage s cocoon_id = rev (lineage_loop (cocoons s) 128 (Some cocoon_id) [])"

definition list_cocoon_lineage_ids :: "session \<Rightarrow> id \<Rightarrow> id list" where
  "list_cocoon_lineage_ids s cocoon_id = map c_id (list_cocoon_lineage s cocoon_id)"

definition get_session_state :: "session \<Rightarrow> id option \<Rightarrow> id option \<Rightarrow> (state_row option \<times> session) result" where
  "get_session_state s cocoon_id chat_group_id =
     bind_r (build_target_filter cocoon_id chat_group_id) (\<lambda>matches.
     case List.find (\<lambda>st. matches (st_cocoon_id st) (st_chat_group_id st)) (states s) of
       None \<Rightarrow> Inr (None, s)
     | Some st \<Rightarrow> let (st', s') = ensure_state_bound_tags s st in Inr (Some st', s'))"

definition ensure_session_state :: "session \<Rightarrow> id option \<Rightarrow> id option \<Rightarrow> (state_row \<times> session) result" where
  "ensure_session_state s cocoon_id chat_group_id =
     bind_r (get_session_state s cocoon_id chat_group_id) (\<lambda>(found, s1).
     case found of
       Some st \<Rightarrow> Inr (st, s1)
     | None \<Rightarrow>
         let (_, s2) = ensure_target_default_binding s1 cocoon_id chat_group_id;
             st = \<lparr>st_id = new_id s2, st_cocoon_id = cocoon_id, st_chat_group_id = chat_group_id,
                   st_relation_score = DEFAULT_RELATION_SCORE, st_persona = [], st_active_tags = [],
                   st_current_wakeup_task_id = None\<rparr>
         in Inr (ensure_state_bound_tags ((take_id s2)\<lparr>states := row_add st (states s2)\<rparr>) st))"

definition get_target_task_state :: "session \<Rightarrow> id option \<Rightarrow> id option \<Rightarrow> task_state_row option result" where
  "get_target_task_state s cocoon_id chat_group_id =
     bind_r (build_target_filter cocoon_id chat_group_id) (\<lambda>matches.
     Inr (List.find (\<lambda>t. matches (ts_cocoon_id t) (ts_chat_group_id t)) (task_states s)))"

definition ensure_target_task_state :: "session \<Rightarrow> id option \<Rightarrow> id option \<Rightarrow> (task_state_row \<times> session) result" where
  "ensure_target_task_state s cocoon_id chat_group_id =
     bind_r (get_target_task_state s cocoon_id chat_group_id) (\<lambda>found.
     case found of
       Some t \<Rightarrow> Inr (t, s)
     | None \<Rightarrow>
         let t = \<lparr>ts_id = new_id s, ts_cocoon_id = cocoon_id, ts_chat_group_id = chat_group_id,
                  ts_task_name = None, ts_goal = None, ts_progress = None, ts_status = ''active'',
                  ts_meta = [], ts_expires_at = None, ts_completed_at = None\<rparr>
         in Inr (t, (take_id s)\<lparr>task_states := row_add t (task_states s)\<rparr>))"

lemma resolve_target_type_ok:
  "resolve_target_type c g = Inr (k, i) \<longleftrightarrow>
     (k = ''cocoon'' \<and> c = Some i \<and> i \<noteq> [] \<and> \<not> truthy g) \<or> (k = ''chat_group'' \<and> g = Some i \<and> i \<noteq> [] \<and> \<not> truthy c)"
  by (auto simp: resolve_target_type_def truthy_iff)

lemma build_target_filter_cocoon [simp]:
  "i \<noteq> [] \<Longrightarrow> build_target_filter (Some i) None = Inr (\<lambda>c g. c = Some i \<and> g = None)"
  by (simp add: build_target_filter_def resolve_target_type_def)

lemma build_target_filter_room [simp]:
  "i \<noteq> [] \<Longrightarrow> build_target_filter None (Some i) = Inr (\<lambda>c g. g = Some i \<and> c = None)"
  by (simp add: build_target_filter_def resolve_target_type_def)

section \<open>The lineage of a cocoon\<close>

definition cocoon_up :: "cocoon_row list \<Rightarrow> id \<Rightarrow> id option" where
  "cocoon_up cs i = (case row_get c_id i cs of None \<Rightarrow> None | Some c \<Rightarrow> c_parent_id c)"

interpretation cocoon_chain: parent_table "cocoon_up cs" "row_ids c_id cs" for cs
  by unfold_locales (auto simp: cocoon_up_def row_ids_def split: option.splits dest!: row_get_SomeD)

text \<open>A list of rows from a cocoon upwards: each row is followed by its parent.\<close>

fun up_chain :: "cocoon_row list \<Rightarrow> cocoon_row list \<Rightarrow> bool" where
  "up_chain cs [] = True"
| "up_chain cs [c] = (row_get c_id (c_id c) cs = Some c)"
| "up_chain cs (c # p # rest) =
     (row_get c_id (c_id c) cs = Some c \<and> c_parent_id c = Some (c_id p) \<and> up_chain cs (p # rest))"

lemma up_chain_snoc:
  "up_chain cs (xs @ [c]) \<Longrightarrow> row_get c_id (c_id p) cs = Some p \<Longrightarrow> c_parent_id c = Some (c_id p) \<Longrightarrow>
   up_chain cs (xs @ [c, p])"
  by (induction cs xs rule: up_chain.induct) auto

lemma lineage_loop_chain:
  assumes "up_chain cs lineage" "distinct (map c_id lineage)"
    and "lineage \<noteq> [] \<Longrightarrow> c_parent_id (last lineage) = current"
  shows "up_chain cs (lineage_loop cs n current lineage) \<and> distinct (map c_id (lineage_loop cs n current lineage)) \<and>
         (lineage \<noteq> [] \<longrightarrow> hd (lineage_loop cs n current lineage) = hd lineage)"
  using assms
proof (induction cs n current lineage rule: lineage_loop.induct)
  case (2 cs n current lineage)
  show ?case
  proof (cases "truthy current \<and> str_of current \<notin> c_id ` set lineage \<and> row_get c_id (str_of current) cs \<noteq> None")
    case True
    then obtain i c where c: "current = Some i" "i \<noteq> []" "i \<notin> c_id ` set lineage" "row_get c_id i cs = Some c"
      by (auto simp: truthy_iff)
    then have i: "c_id c = i" by (auto dest: row_get_SomeD)
    have "up_chain cs (lineage @ [c])"
    proof (cases lineage rule: rev_cases)
      case (snoc xs p)
      then show ?thesis using 2(2,4) c i up_chain_snoc [of cs xs p c] by auto
    qed (use c i in simp)
    moreover have "distinct (map c_id (lineage @ [c]))" using 2(3) c i by auto
    ultimately have "up_chain cs (lineage_loop cs n (c_parent_id c) (lineage @ [c])) \<and>
        distinct (map c_id (lineage_loop cs n (c_parent_id c) (lineage @ [c]))) \<and>
        hd (lineage_loop cs n (c_parent_id c) (lineage @ [c])) = hd (lineage @ [c])"
      using 2(1) [of c] c by auto
    then show ?thesis using c by (auto simp: hd_append)
  qed (use 2 in \<open>auto split: option.splits\<close>)
qed simp

lemma lineage_loop_nonempty: "lineage \<noteq> [] \<Longrightarrow> lineage_loop cs n current lineage \<noteq> []"
  by (induction cs n current lineage rule: lineage_loop.induct) (auto split: option.splits)

lemma lineage_loop_walk:
  assumes "acyclic (up_rel (cocoon_up cs))" "\<And>x y. (x, y) \<in> up_rel (cocoon_up cs) \<Longrightarrow> row_get c_id y cs \<noteq> None"
    and "truthy current \<Longrightarrow> row_get c_id (str_of current) cs \<noteq> None"
    and "\<And>c. c \<in> set lineage \<Longrightarrow> truthy current \<Longrightarrow> (c_id c, str_of current) \<in> (up_rel (cocoon_up cs))\<^sup>+"
  shows "map c_id (lineage_loop cs n current lineage) = map c_id lineage @ parent_walk (cocoon_up cs) n current"
  using assms
proof (induction cs n current lineage rule: lineage_loop.induct)
  case (2 cs n current lineage)
  show ?case
  proof (cases "truthy current")
    case True
    then obtain i where i: "current = Some i" "i \<noteq> []" by (auto simp: truthy_iff)
    then obtain c where c: "row_get c_id i cs = Some c" using 2(4) by auto
    then have ci: "c_id c = i" by (auto dest: row_get_SomeD)
    have notin: "i \<notin> c_id ` set lineage"
      using 2(2,5) True i by (auto simp: acyclic_def)
    have up: "cocoon_up cs i = c_parent_id c" by (simp add: cocoon_up_def c)
    have step: "(i, str_of (c_parent_id c)) \<in> up_rel (cocoon_up cs)" if "truthy (c_parent_id c)"
      using that up by (auto simp: up_rel_def truthy_iff)
    have "map c_id (lineage_loop cs n (c_parent_id c) (lineage @ [c])) =
        map c_id (lineage @ [c]) @ parent_walk (cocoon_up cs) n (c_parent_id c)"
    proof (rule 2(1))
      show "\<not> \<not> truthy current" "str_of current \<notin> c_id ` set lineage" "row_get c_id (str_of current) cs = Some c"
        using True notin c i by simp_all
      show "row_get c_id (str_of (c_parent_id c)) cs \<noteq> None" if "truthy (c_parent_id c)"
        using 2(3) step that by blast
      show "(c_id x, str_of (c_parent_id c)) \<in> (up_rel (cocoon_up cs))\<^sup>+"
        if "x \<in> set (lineage @ [c])" "truthy (c_parent_id c)" for x
        using that 2(5) [of x] True i ci step by (auto intro: trancl_into_trancl)
    qed (use 2 in auto)
    then show ?thesis using i c ci notin up by simp
  qed (auto simp: truthy_def split: option.splits list.splits)
qed simp

text \<open>
  The lineage of a stored cocoon ends with the cocoon itself, lists each row once, and each row
  is followed by a child of it; on every table, cyclic parent links included. When the parent
  links are acyclic, all parents exist and there are fewer than 128 cocoons, it lists exactly the
  cocoon and all its ancestors.
\<close>

theorem list_cocoon_lineage_correct:
  assumes "row_get c_id i (cocoons s) = Some c" "i \<noteq> []"
  shows "up_chain (cocoons s) (rev (list_cocoon_lineage s i)) \<and> distinct (list_cocoon_lineage_ids s i) \<and>
    list_cocoon_lineage s i \<noteq> [] \<and> last (list_cocoon_lineage s i) = c \<and>
    (acyclic (up_rel (cocoon_up (cocoons s))) \<and> card (row_ids c_id (cocoons s)) < 128 \<and>
     (\<forall>x y. (x, y) \<in> up_rel (cocoon_up (cocoons s)) \<longrightarrow> row_get c_id y (cocoons s) \<noteq> None) \<longrightarrow>
       set (list_cocoon_lineage_ids s i) = {y. (i, y) \<in> (up_rel (cocoon_up (cocoons s)))\<^sup>*})"
proof -
  let ?l = "lineage_loop (cocoons s) 128 (Some i) []"
  have ci: "c_id c = i" using assms(1) by (auto dest: row_get_SomeD)
  have "?l = lineage_loop (cocoons s) 127 (c_parent_id c) [c]"
    using assms by (simp add: numeral_eq_Suc)
  then have "up_chain (cocoons s) ?l \<and> distinct (map c_id ?l) \<and> hd ?l = c"
    using lineage_loop_chain [of "cocoons s" "[c]" "c_parent_id c" 127] assms(1) ci by simp
  moreover have "set (map c_id ?l) = {y. (i, y) \<in> (up_rel (cocoon_up (cocoons s)))\<^sup>*}"
    if "acyclic (up_rel (cocoon_up (cocoons s)))" "card (row_ids c_id (cocoons s)) < 128"
       "\<And>x y. (x, y) \<in> up_rel (cocoon_up (cocoons s)) \<Longrightarrow> row_get c_id y (cocoons s) \<noteq> None"
    using lineage_loop_walk [of "cocoons s" "Some i" "[]" 128] that assms
      cocoon_chain.acyclic_walk_set [of "cocoons s" 128 i]
    by (simp del: set_map)
  moreover have "?l \<noteq> []" using \<open>?l = _\<close> lineage_loop_nonempty by simp
  ultimately show ?thesis
    by (auto simp: list_cocoon_lineage_def list_cocoon_lineage_ids_def last_rev rev_map [symmetric])
qed

definition sample_cocoon :: "id \<Rightarrow> id option \<Rightarrow> id \<Rightarrow> cocoon_row" where
  "sample_cocoon i parent owner =
     \<lparr>c_id = i, c_parent_id = parent, c_name = i, c_owner_user_id = owner, c_character_id = ''ch'',
      c_selected_model_id = ''m'', c_summary_model_id = None, c_default_temperature = 7 / 10,
      c_max_context_messages = 24, c_auto_compaction_enabled = True, c_memory_profile = ''meta_reply'',
      c_context_start_message_id = None, c_rollback_anchor_msg_id = None\<rparr>"

definition sample_cocoons :: session where
  "sample_cocoons = sample_tags\<lparr>cocoons := [sample_cocoon ''a'' None ''u1'', sample_cocoon ''b'' (Some ''a'') ''u1'']\<rparr>"

theorem list_cocoon_lineage_correct_witness:
  "last (list_cocoon_lineage sample_cocoons ''b'') = sample_cocoon ''b'' (Some ''a'') ''u1''"
  using list_cocoon_lineage_correct [of "''b''" sample_cocoons]
  by (simp add: sample_cocoons_def sample_cocoon_def row_get_def)

section \<open>Active tags of a session state\<close>

text \<open>
  Every identifier still to be drawn is new, non-empty and free of blanks, as those of \<open>uuid4\<close> are.
\<close>

definition supply_ok :: "session \<Rightarrow> bool" where
  "supply_ok s \<longleftrightarrow> supply_fresh s (row_ids t_id (tags s)) \<and>
     (\<forall>n \<ge> id_next s. id_supply s n \<noteq> [] \<and> py_strip (id_supply s n) = id_supply s n)"

lemma supply_ok_fresh: "supply_ok s \<Longrightarrow> fresh_tag_id s"
  by (auto simp: supply_ok_def supply_fresh_def fresh_tag_id_def new_id_def)

lemma supply_ok_take:
  "supply_ok s \<Longrightarrow> id_supply s' = id_supply s \<Longrightarrow> id_next s' = Suc (id_next s) \<Longrightarrow>
   row_ids t_id (tags s') \<subseteq> insert (new_id s) (row_ids t_id (tags s)) \<Longrightarrow> supply_ok s'"
  unfolding supply_ok_def supply_fresh_def new_id_def
  by (auto simp: inj_def) (metis Suc_n_not_le_n insertE subsetD Suc_leD)

lemma supply_ok_ensure:
  assumes "supply_ok s" "ensure_user_system_tag s u = (d, s1)" shows "supply_ok s1"
proof (cases rule: ensure_user_system_tag_cases [where s = s and u = u])
  case (found t)
  then have "s1 = s\<lparr>tags := row_put t_id (t_id t) reset_system_tag (tags s)\<rparr>" using assms(2) by simp
  then show ?thesis using assms(1) by (simp add: supply_ok_def supply_fresh_def)
next
  case new
  then show ?thesis using assms by (intro supply_ok_take [OF assms(1)]) (auto simp: take_id_def)
qed

lemma add_binding_simps [simp]:
  "tags (snd (add_cocoon_binding s c t)) = tags s" "tags (snd (add_room_binding s g t)) = tags s"
  "cocoons (snd (add_cocoon_binding s c t)) = cocoons s" "cocoons (snd (add_room_binding s g t)) = cocoons s"
  "states (snd (add_cocoon_binding s c t)) = states s" "states (snd (add_room_binding s g t)) = states s"
  "rooms (snd (add_cocoon_binding s c t)) = rooms s" "rooms (snd (add_room_binding s g t)) = rooms s"
  by (simp_all add: add_cocoon_binding_def add_room_binding_def take_id_def Let_def)

lemma supply_ok_binding [simp]:
  assumes "supply_ok s"
  shows "supply_ok (snd (add_cocoon_binding s c t))" "supply_ok (snd (add_room_binding s g t))"
  by (rule supply_ok_take [OF assms]; auto simp: add_cocoon_binding_def add_room_binding_def take_id_def Let_def)+

lemma tags_wf_cong: "tags s' = tags s \<Longrightarrow> tags_wf s' = tags_wf s"
  by (simp add: tags_wf_def)

lemma ensure_user_system_tag_frame:
  assumes "ensure_user_system_tag s u = (d, s1)"
  shows "cocoons s1 = cocoons s" "rooms s1 = rooms s" "cocoon_tags s1 = cocoon_tags s" "room_tags s1 = room_tags s"
    "states s1 = states s"
  using assms by (cases rule: ensure_user_system_tag_cases [where s = s and u = u]; auto simp: take_id_def)+

lemma ensure_target_default_binding_facts:
  assumes "tags_wf s" "supply_ok s" "ensure_target_default_binding s c g = (d, s1)"
  shows "tags_wf s1" "supply_ok s1" "cocoons s1 = cocoons s" "rooms s1 = rooms s" "states s1 = states s"
proof -
  have "tags_wf s1 \<and> supply_ok s1 \<and> cocoons s1 = cocoons s \<and> rooms s1 = rooms s \<and> states s1 = states s"
  proof (cases "truthy (resolve_tag_owner_user_id_for_target s c g)")
    case False
    then show ?thesis using assms by (simp add: ensure_target_default_binding_def)
  next
    case True
    obtain t s2 where e: "ensure_user_system_tag s (str_of (resolve_tag_owner_user_id_for_target s c g)) = (t, s2)"
      by fastforce
    have "tags_wf s2" "supply_ok s2" "cocoons s2 = cocoons s" "rooms s2 = rooms s" "states s2 = states s"
      using ensure_user_system_tag_wf [OF assms(1) supply_ok_fresh [OF assms(2)] e]
        supply_ok_ensure [OF assms(2) e] ensure_user_system_tag_frame [OF e] by simp_all
    moreover define s3 where "s3 = (if truthy c \<and> find_cocoon_binding s2 (str_of c) (t_id t) = None
        then snd (add_cocoon_binding s2 (str_of c) (t_id t)) else s2)"
    ultimately have s3: "tags_wf s3" "supply_ok s3" "cocoons s3 = cocoons s" "rooms s3 = rooms s" "states s3 = states s"
      by (simp_all add: tags_wf_cong [of "snd (add_cocoon_binding s2 (str_of c) (t_id t))" s2])
    have "s1 = (if truthy g \<and> find_room_binding s3 (str_of g) (t_id t) = None
        then snd (add_room_binding s3 (str_of g) (t_id t)) else s3)"
      using assms(3) True e
      by (auto simp: ensure_target_default_binding_def Let_def s3_def simp del: if_split)
    with s3 show ?thesis
      by (simp add: tags_wf_cong [of "snd (add_room_binding s3 (str_of g) (t_id t))" s3])
  qed
  then show "tags_wf s1" "supply_ok s1" "cocoons s1 = cocoons s" "rooms s1 = rooms s" "states s1 = states s"
    by simp_all
qed

lemma list_target_bound_tag_ids_state:
  "snd (list_target_bound_tag_ids s c g) = snd (ensure_target_default_binding s c g)"
  by (simp add: list_target_bound_tag_ids_def Let_def split: prod.split)

lemma set_list_target_bound_tag_ids:
  "list_target_bound_tag_ids s c g = (bound, s1) \<Longrightarrow>
   set bound = (if truthy c then {ct_tag_id b | b. b \<in> set (cocoon_tags s1) \<and> ct_cocoon_id b = str_of c}
                else if truthy g then {rt_tag_id b | b. b \<in> set (room_tags s1) \<and> rt_chat_group_id b = str_of g}
                else {})"
  by (auto simp: list_target_bound_tag_ids_def Let_def split: prod.splits if_splits)

lemma canonicalize_state:
  assumes "canonicalize_tag_refs s refs inc owner = (ids, s1)"
  shows "cocoon_tags s1 = cocoon_tags s" "room_tags s1 = room_tags s" "states s1 = states s"
    "cocoons s1 = cocoons s" "rooms s1 = rooms s"
  using assms ensure_user_system_tag_frame [of s "str_of owner"]
  by (auto simp: canonicalize_tag_refs_def Let_def split: if_splits prod.splits)

text \<open>
  C36. For a target with an owner, \<open>ensure_state_bound_tags\<close> gives the session state distinct active
  tags, all owned by the target's owner: the default tag first, every stored tag of the owner that
  is bound to the target, and every tag that was active and still resolves. The returned state is
  the stored one.
\<close>

theorem ensure_state_bound_tags_correct:
  assumes wf: "tags_wf s" and sup: "supply_ok s"
    and owner: "resolve_tag_owner_user_id_for_state s st = Some u" "u \<noteq> []"
    and result: "ensure_state_bound_tags s st = (st', s')"
  shows "distinct (st_active_tags st') \<and>
    (\<forall>i\<in>set (st_active_tags st'). \<exists>t\<in>set (tags s'). t_id t = i \<and> t_owner_user_id t = u) \<and>
    (\<exists>d\<in>set (tags s'). t_is_system d \<and> t_owner_user_id d = u \<and> st_active_tags st' \<noteq> [] \<and>
        hd (st_active_tags st') = t_id d) \<and>
    resolved_ids (snd (list_target_bound_tag_ids s (st_cocoon_id st) (st_chat_group_id st))) (Some u)
      (st_active_tags st @ fst (list_target_bound_tag_ids s (st_cocoon_id st) (st_chat_group_id st)))
      \<subseteq> set (st_active_tags st') \<and>
    (row_get st_id (st_id st) (states s) = Some st \<longrightarrow> row_get st_id (st_id st) (states s') = Some st')"
proof -
  obtain bound s1 where b: "list_target_bound_tag_ids s (st_cocoon_id st) (st_chat_group_id st) = (bound, s1)"
    by fastforce
  then have "ensure_target_default_binding s (st_cocoon_id st) (st_chat_group_id st) =
      (fst (ensure_target_default_binding s (st_cocoon_id st) (st_chat_group_id st)), s1)"
    using list_target_bound_tag_ids_state by (metis prod.collapse snd_conv)
  note s1 = ensure_target_default_binding_facts [OF wf sup this]
  obtain active s2 where c: "canonicalize_tag_refs s1 (st_active_tags st @ bound) True (Some u) = (active, s2)"
    by fastforce
  note canon = canonicalize_facts [OF s1(1) supply_ok_fresh [OF s1(2)] c]
  have act: "st_active_tags st' = active" and tags: "tags s' = tags s2"
    using result b c owner(1) by (auto simp: ensure_state_bound_tags_def set_active_tags_def split: if_splits)
  have "states s2 = states s" using s1(5) canonicalize_state(3) [OF c] by simp
  then have "row_get st_id (st_id st) (states s') = Some st'" if "row_get st_id (st_id st) (states s) = Some st"
    using that result b c owner(1)
    by (auto simp: ensure_state_bound_tags_def set_active_tags_def row_get_put split: if_splits)
  moreover have "truthy (Some u)" using owner(2) by simp
  moreover have "\<exists>t\<in>set (tags s2). t_id t = i \<and> t_owner_user_id t = u" if "i \<in> set active" for i
    using canon that by (metis option.distinct(1) option.inject)
  ultimately show ?thesis
    using canon unfolding act tags b by simp
qed

definition sample_state :: state_row where
  "sample_state = \<lparr>st_id = ''s1'', st_cocoon_id = Some ''a'', st_chat_group_id = None, st_relation_score = 50,
     st_persona = [], st_active_tags = [''t1''], st_current_wakeup_task_id = None\<rparr>"

lemma supply_ok_literal:
  "id_supply s = id_literal \<Longrightarrow> (\<And>t. t \<in> set (tags s) \<Longrightarrow> hd (t_id t) \<noteq> CHR ''i'') \<Longrightarrow> supply_ok s"
  by (auto simp: supply_ok_def supply_fresh_def id_literal_inj row_ids_def) (metis id_literal_def list.sel(1))

lemma sample_cocoons_ok: "tags_wf sample_cocoons" "supply_ok sample_cocoons"
proof -
  show "tags_wf sample_cocoons"
    using sample_tags_ok(1) by (simp add: tags_wf_def sample_cocoons_def)
  show "supply_ok sample_cocoons"
    by (rule supply_ok_literal) (auto simp: sample_cocoons_def sample_tags_def sample_tag_def empty_session_def)
qed

theorem ensure_state_bound_tags_correct_witness:
  "\<exists>st' s'. ensure_state_bound_tags sample_cocoons sample_state = (st', s') \<and>
     distinct (st_active_tags st') \<and> (\<exists>d\<in>set (tags s'). t_is_system d \<and> hd (st_active_tags st') = t_id d)"
proof -
  obtain st' s' where e: "ensure_state_bound_tags sample_cocoons sample_state = (st', s')" by fastforce
  have "resolve_tag_owner_user_id_for_state sample_cocoons sample_state = Some ''u1''" by code_simp
  from ensure_state_bound_tags_correct [OF sample_cocoons_ok this _ e] e show ?thesis by blast
qed

end
