(* ===== verification/Tags.thy ===== *)
theory Tags
  imports Targets
begin

text \<open>
  The tag catalog of a user (\<open>services/catalog/tag_service.py\<close>) and the bindings of tags to cocoons
  and chat groups (\<open>services/workspace/cocoon_tag_service.py\<close>, \<open>chat_group_tag_service.py\<close>).
\<close>

section \<open>The catalog\<close>

record tag_create =
  tc_tag_id :: string
  tc_brief :: string
  tc_visibility :: string
  tc_meta :: dict

record tag_update =
  tu_brief :: "string option"
  tu_visibility :: "string option"
  tu_meta :: "dict option"
  tu_visible_chat_group_ids :: "string list option"

definition get_tag :: "session \<Rightarrow> user_row \<Rightarrow> string \<Rightarrow> tag_row option result" where
  "get_tag s u tag_ref =
     bind_r (require_canonical_tag s tag_ref (Some (u_id u))) (\<lambda>t.
     Inr (if t_owner_user_id t = u_id u then Some t else None))"

definition list_tags :: "session \<Rightarrow> user_row \<Rightarrow> tag_row list" where
  "list_tags s u = list_tags_for_user s (u_id u)"

record tag_out =
  to_id :: id
  to_tag_id :: string
  to_brief :: string
  to_visibility :: string
  to_is_isolated :: bool
  to_is_system :: bool
  to_meta :: dict
  to_visible_chat_group_ids :: "id list"
  to_created_at :: time

definition serialize_tag :: "session \<Rightarrow> tag_row \<Rightarrow> tag_out result" where
  "serialize_tag s t =
     bind_r (require_valid_visibility (t_visibility t)) (\<lambda>visibility.
     Inr \<lparr>to_id = t_id t, to_tag_id = t_tag_id t, to_brief = t_brief t, to_visibility = visibility,
          to_is_isolated = t_is_isolated t, to_is_system = is_system_tag (Some t), to_meta = t_meta t,
          to_visible_chat_group_ids = list_visible_chat_group_ids s (t_id t), to_created_at = t_created_at t\<rparr>)"

definition create_tag :: "session \<Rightarrow> user_row \<Rightarrow> tag_create \<Rightarrow> (tag_row \<times> session) result" where
  "create_tag s u payload =
     (let normalized_tag_id = py_strip (tc_tag_id payload)
      in if normalized_tag_id = [] then Inl (HTTPException 400 ''Tag name is required'')
         else if normalized_tag_id = ''default'' then Inl (HTTPException 400 ''Reserved system tag name'')
         else bind_r (require_valid_visibility (tc_visibility payload)) (\<lambda>_.
           if List.find (\<lambda>t. t_owner_user_id t = u_id u \<and> t_tag_id t = normalized_tag_id) (tags s) \<noteq> None
           then Inl (HTTPException 400 ''Tag already exists'')
           else let t = \<lparr>t_id = new_id s, t_owner_user_id = u_id u, t_tag_id = normalized_tag_id,
                         t_brief = tc_brief payload, t_visibility = ''private'', t_is_isolated = True,
                         t_is_system = False, t_is_hidden = False, t_meta = tc_meta payload,
                         t_created_at = clock s\<rparr>;
                    s1 = (take_id s)\<lparr>tags := row_add t (tags s)\<rparr>
                in bind_r (replace_tag_visibility_groups s1 t []) (\<lambda>(_, s2). Inr (t, s2))))"

definition require_own_tag :: "session \<Rightarrow> user_row \<Rightarrow> string \<Rightarrow> string \<Rightarrow> tag_row result" where
  "require_own_tag s u tag_id system_detail =
     bind_r (get_tag s u tag_id) (\<lambda>found.
     case found of
       None \<Rightarrow> Inl (HTTPException 404 ''Tag not found'')
     | Some t \<Rightarrow> if is_system_tag (Some t) then Inl (HTTPException 400 system_detail) else Inr t)"

definition set_tag_fields :: "tag_update \<Rightarrow> tag_row \<Rightarrow> tag_row" where
  "set_tag_fields p t =
     t\<lparr>t_brief := (case tu_brief p of None \<Rightarrow> t_brief t | Some b \<Rightarrow> b),
       t_visibility := ''private'', t_is_isolated := True,
       t_meta := (case tu_meta p of None \<Rightarrow> t_meta t | Some m \<Rightarrow> m)\<rparr>"

definition update_tag :: "session \<Rightarrow> user_row \<Rightarrow> string \<Rightarrow> tag_update \<Rightarrow> (tag_row \<times> session) result" where
  "update_tag s u tag_id p =
     bind_r (require_own_tag s u tag_id ''System tag cannot be modified'') (\<lambda>t.
     bind_r (case tu_visibility p of None \<Rightarrow> Inr [] | Some v \<Rightarrow> require_valid_visibility v) (\<lambda>_.
     let s1 = s\<lparr>tags := row_put t_id (t_id t) (set_tag_fields p) (tags s)\<rparr>
     in bind_r (case tu_visible_chat_group_ids p of
                  None \<Rightarrow> Inr ([], s1)
                | Some ids \<Rightarrow> replace_tag_visibility_groups s1 t ids) (\<lambda>(_, s2).
        Inr (set_tag_fields p t, s2))))"

definition drop_tag :: "id \<Rightarrow> id list \<Rightarrow> id list" where
  "drop_tag i xs = filter (\<lambda>x. x \<noteq> i) xs"

text \<open>The loop over the session states; canonicalising may refresh the owner's default tag.\<close>

fun scrub_states :: "session \<Rightarrow> id \<Rightarrow> state_row list \<Rightarrow> session" where
  "scrub_states s i [] = s"
| "scrub_states s i (st # sts) =
     (if i \<in> set (st_active_tags st)
      then let (active, s1) = canonicalize_tag_refs s (drop_tag i (st_active_tags st)) True
                                (resolve_tag_owner_user_id_for_state s st)
           in scrub_states (snd (set_active_tags s1 st active)) i sts
      else scrub_states s i sts)"

definition scrub_message :: "id \<Rightarrow> message_row \<Rightarrow> message_row" where
  "scrub_message i m = (if i \<in> set (m_tags m) then m\<lparr>m_tags := drop_tag i (m_tags m)\<rparr> else m)"

definition scrub_memory :: "id \<Rightarrow> memory_row \<Rightarrow> memory_row" where
  "scrub_memory i m = (if i \<in> set (mem_tags m) then m\<lparr>mem_tags := drop_tag i (mem_tags m)\<rparr> else m)"

definition delete_tag :: "session \<Rightarrow> user_row \<Rightarrow> string \<Rightarrow> (tag_row \<times> session) result" where
  "delete_tag s u tag_id =
     bind_r (require_own_tag s u tag_id ''System tag cannot be deleted'') (\<lambda>t.
     let i = t_id t;
         s1 = s\<lparr>cocoon_tags := row_del_where (\<lambda>b. ct_tag_id b = i) (cocoon_tags s),
                room_tags := row_del_where (\<lambda>b. rt_tag_id b = i) (room_tags s),
                tag_visibilities := row_del_where (\<lambda>v. tv_tag_id v = i) (tag_visibilities s),
                message_tags := row_del_where (\<lambda>m. mt_tag_id m = i) (message_tags s),
                memory_tags := row_del_where (\<lambda>m. mmt_tag_id m = i) (memory_tags s)\<rparr>;
         s2 = scrub_states s1 i (states s1);
         s3 = s2\<lparr>messages := map (scrub_message i) (messages s2),
                 memories := map (scrub_memory i) (memories s2)\<rparr>
     in Inr (t, s3\<lparr>tags := row_del t_id i (tags s3)\<rparr>))"

section \<open>Bindings\<close>

definition bind_cocoon_tag :: "session \<Rightarrow> id \<Rightarrow> string \<Rightarrow> (cocoon_tag_row \<times> session) result" where
  "bind_cocoon_tag s cocoon_id tag_id =
     (let owner = resolve_tag_owner_user_id_for_target s (Some cocoon_id) None
      in bind_r (require_canonical_tag s tag_id owner) (\<lambda>t.
         let (_, s1) = ensure_target_default_binding s (Some cocoon_id) None
         in bind_r (get_session_state s1 (Some cocoon_id) None) (\<lambda>(state, s2).
            case find_cocoon_binding s2 cocoon_id (t_id t) of
              Some b \<Rightarrow> Inr (b, s2)
            | None \<Rightarrow>
                let (b, s3) = add_cocoon_binding s2 cocoon_id (t_id t)
                in Inr (b, case state of
                     None \<Rightarrow> s3
                   | Some st \<Rightarrow>
                       if t_id t \<in> set (st_active_tags st) then s3
                       else let (active, s4) = canonicalize_tag_refs s3 (st_active_tags st @ [t_id t]) True owner
                            in snd (set_active_tags s4 st active)))))"

definition unbind_cocoon_tag :: "session \<Rightarrow> id \<Rightarrow> string \<Rightarrow> (cocoon_tag_row \<times> session) result" where
  "unbind_cocoon_tag s cocoon_id tag_id =
     (let owner = resolve_tag_owner_user_id_for_target s (Some cocoon_id) None
      in bind_r (require_canonical_tag s tag_id owner) (\<lambda>t.
         if is_system_tag (Some t) then Inl (HTTPException 400 ''System tag cannot be unbound'')
         else case find_cocoon_binding s cocoon_id (t_id t) of
           None \<Rightarrow> Inl (HTTPException 404 ''Tag binding not found'')
         | Some b \<Rightarrow>
             bind_r (get_session_state s (Some cocoon_id) None) (\<lambda>(state, s1).
             let s2 = (case state of
                         None \<Rightarrow> s1
                       | Some st \<Rightarrow>
                           let (active, s2) = canonicalize_tag_refs s1 (drop_tag (t_id t) (st_active_tags st)) True owner
                           in snd (set_active_tags s2 st active))
             in Inr (b, s2\<lparr>cocoon_tags := row_del ct_id (ct_id b) (cocoon_tags s2)\<rparr>))))"

definition bind_room_tag :: "session \<Rightarrow> id \<Rightarrow> string \<Rightarrow> (room_tag_row \<times> session) result" where
  "bind_room_tag s chat_group_id tag_id =
     (let owner = resolve_tag_owner_user_id_for_target s None (Some chat_group_id)
      in bind_r (require_canonical_tag s tag_id owner) (\<lambda>t.
         let (_, s1) = ensure_target_default_binding s None (Some chat_group_id)
         in bind_r (get_session_state s1 None (Some chat_group_id)) (\<lambda>(state, s2).
            case find_room_binding s2 chat_group_id (t_id t) of
              Some b \<Rightarrow> Inr (b, s2)
            | None \<Rightarrow>
                let (b, s3) = add_room_binding s2 chat_group_id (t_id t)
                in Inr (b, case state of
                     None \<Rightarrow> s3
                   | Some st \<Rightarrow>
                       if t_id t \<in> set (st_active_tags st) then s3
                       else let (active, s4) = canonicalize_tag_refs s3 (st_active_tags st @ [t_id t]) True owner
                            in snd (set_active_tags s4 st active)))))"

definition unbind_room_tag :: "session \<Rightarrow> id \<Rightarrow> string \<Rightarrow> (room_tag_row \<times> session) result" where
  "unbind_room_tag s chat_group_id tag_id =
     (let owner = resolve_tag_owner_user_id_for_target s None (Some chat_group_id)
      in bind_r (require_canonical_tag s tag_id owner) (\<lambda>t.
         if is_system_tag (Some t) then Inl (HTTPException 400 ''System tag cannot be unbound'')
         else case find_room_binding s chat_group_id (t_id t) of
           None \<Rightarrow> Inl (HTTPException 404 ''Tag binding not found'')
         | Some b \<Rightarrow>
             bind_r (get_session_state s None (Some chat_group_id)) (\<lambda>(state, s1).
             let s2 = (case state of
                         None \<Rightarrow> s1
                       | Some st \<Rightarrow>
                           let (active, s2) = canonicalize_tag_refs s1 (drop_tag (t_id t) (st_active_tags st)) True owner
                           in snd (set_active_tags s2 st active))
             in Inr (b, s2\<lparr>room_tags := row_del rt_id (rt_id b) (room_tags s2)\<rparr>))))"

section \<open>What binding and unbinding do\<close>

definition cocoon_pairs :: "session \<Rightarrow> (id \<times> id) list" where
  "cocoon_pairs s = map (\<lambda>b. (ct_cocoon_id b, ct_tag_id b)) (cocoon_tags s)"

definition room_pairs :: "session \<Rightarrow> (id \<times> id) list" where
  "room_pairs s = map (\<lambda>b. (rt_chat_group_id b, rt_tag_id b)) (room_tags s)"

definition keys_ok :: "session \<Rightarrow> bool" where
  "keys_ok s \<longleftrightarrow> distinct (map ct_id (cocoon_tags s)) \<and> supply_fresh s (row_ids ct_id (cocoon_tags s)) \<and>
     distinct (map rt_id (room_tags s)) \<and> supply_fresh s (row_ids rt_id (room_tags s))"

definition bindings_ok :: "session \<Rightarrow> bool" where
  "bindings_ok s \<longleftrightarrow> tags_wf s \<and> supply_ok s \<and> keys_ok s \<and> distinct (cocoon_pairs s) \<and> distinct (room_pairs s)"

lemma keys_ok_mono:
  "keys_ok s \<Longrightarrow> cocoon_tags s' = cocoon_tags s \<Longrightarrow> room_tags s' = room_tags s \<Longrightarrow> id_supply s' = id_supply s \<Longrightarrow>
   id_next s \<le> id_next s' \<Longrightarrow> keys_ok s'"
  unfolding keys_ok_def supply_fresh_def by (simp add: order_trans)

lemma keys_ok_add_cocoon: "keys_ok s \<Longrightarrow> keys_ok (snd (add_cocoon_binding s c t))"
  using supply_fresh_take_id [of s "row_ids ct_id (cocoon_tags s)"]
    supply_fresh_mono [OF supply_fresh_take_id [of s "row_ids rt_id (room_tags s)"] subset_insertI] new_id_fresh [of s]
  unfolding keys_ok_def
  by (auto simp: add_cocoon_binding_def Let_def row_ids_def row_add_def take_id_def supply_fresh_def)

lemma keys_ok_add_room: "keys_ok s \<Longrightarrow> keys_ok (snd (add_room_binding s g t))"
  using supply_fresh_take_id [of s "row_ids rt_id (room_tags s)"]
    supply_fresh_mono [OF supply_fresh_take_id [of s "row_ids ct_id (cocoon_tags s)"] subset_insertI] new_id_fresh [of s]
  unfolding keys_ok_def
  by (auto simp: add_room_binding_def Let_def row_ids_def row_add_def take_id_def supply_fresh_def)

lemma keys_ok_ensure:
  assumes "keys_ok s" "ensure_user_system_tag s u = (d, s1)" shows "keys_ok s1"
proof (cases rule: ensure_user_system_tag_cases [where s = s and u = u])
  case (found t)
  then have "s1 = s\<lparr>tags := row_put t_id (t_id t) reset_system_tag (tags s)\<rparr>" using assms(2) by simp
  then show ?thesis using assms(1) by (intro keys_ok_mono [OF assms(1)]) auto
next
  case new
  then show ?thesis using assms by (intro keys_ok_mono [OF assms(1)]) (auto simp: take_id_def)
qed

definition system_ids :: "session \<Rightarrow> id set" where
  "system_ids s = {t_id t | t. t \<in> set (tags s) \<and> t_is_system t}"

text \<open>
  How a session may change when a target's default binding is ensured or its state refreshed: the
  ordinary tags stay, and only bindings to system tags are added.
\<close>

definition only_defaults :: "session \<Rightarrow> session \<Rightarrow> bool" where
  "only_defaults s s' \<longleftrightarrow>
     bindings_ok s' \<and> cocoons s' = cocoons s \<and> rooms s' = rooms s \<and>
     set (cocoon_pairs s) \<subseteq> set (cocoon_pairs s') \<and> snd ` (set (cocoon_pairs s') - set (cocoon_pairs s)) \<subseteq> system_ids s' \<and>
     set (room_pairs s) \<subseteq> set (room_pairs s') \<and> snd ` (set (room_pairs s') - set (room_pairs s)) \<subseteq> system_ids s' \<and>
     (\<forall>t\<in>set (tags s). \<exists>t'\<in>set (tags s'). t_id t' = t_id t \<and> t_owner_user_id t' = t_owner_user_id t \<and>
        t_is_system t' = t_is_system t) \<and>
     set (cocoon_tags s) \<subseteq> set (cocoon_tags s') \<and> set (room_tags s) \<subseteq> set (room_tags s')"

lemma system_idsI: "t \<in> set (tags s) \<Longrightarrow> t_is_system t \<Longrightarrow> t_id t \<in> system_ids s"
  by (auto simp: system_ids_def)

lemma find_cocoon_binding_None: "find_cocoon_binding s c t = None \<longleftrightarrow> (c, t) \<notin> set (cocoon_pairs s)"
  by (auto simp: find_cocoon_binding_def find_None cocoon_pairs_def)

lemma find_room_binding_None: "find_room_binding s g t = None \<longleftrightarrow> (g, t) \<notin> set (room_pairs s)"
  by (auto simp: find_room_binding_def find_None room_pairs_def)

lemma system_ids_kept:
  assumes "\<forall>t\<in>set (tags s). \<exists>t'\<in>set (tags s'). t_id t' = t_id t \<and> t_owner_user_id t' = t_owner_user_id t \<and> t_is_system t' = t_is_system t"
  shows "system_ids s \<subseteq> system_ids s'"
proof
  fix i assume "i \<in> system_ids s"
  then obtain t where t: "t \<in> set (tags s)" "t_is_system t" "i = t_id t" by (auto simp: system_ids_def)
  then obtain t' where "t' \<in> set (tags s')" "t_id t' = t_id t" "t_is_system t' = t_is_system t"
    using assms by blast
  then show "i \<in> system_ids s'" using t unfolding system_ids_def by (metis (mono_tags, lifting) mem_Collect_eq)
qed

lemma only_defaults_refl: "bindings_ok s \<Longrightarrow> only_defaults s s"
  by (auto simp: only_defaults_def)

lemma new_pairs_trans:
  assumes "snd ` (A1 - A) \<subseteq> S1" "snd ` (A2 - A1) \<subseteq> S2" "S1 \<subseteq> S2"
  shows "snd ` (A2 - A) \<subseteq> S2"
  using assms by (auto simp: image_subset_iff)

lemma kept_tags_trans:
  assumes "\<forall>t\<in>T. \<exists>t'\<in>T1. t_id t' = t_id t \<and> t_owner_user_id t' = t_owner_user_id t \<and> t_is_system t' = t_is_system t"
    and "\<forall>t\<in>T1. \<exists>t'\<in>T2. t_id t' = t_id t \<and> t_owner_user_id t' = t_owner_user_id t \<and> t_is_system t' = t_is_system t"
  shows "\<forall>t\<in>T. \<exists>t'\<in>T2. t_id t' = t_id t \<and> t_owner_user_id t' = t_owner_user_id t \<and> t_is_system t' = t_is_system t"
proof
  fix t assume "t \<in> T"
  then obtain t1 where t1: "t1 \<in> T1" "t_id t1 = t_id t" "t_owner_user_id t1 = t_owner_user_id t" "t_is_system t1 = t_is_system t"
    using assms(1) by blast
  then obtain t2 where "t2 \<in> T2" "t_id t2 = t_id t1" "t_owner_user_id t2 = t_owner_user_id t1" "t_is_system t2 = t_is_system t1"
    using assms(2) by blast
  then show "\<exists>t'\<in>T2. t_id t' = t_id t \<and> t_owner_user_id t' = t_owner_user_id t \<and> t_is_system t' = t_is_system t"
    using t1 by (intro bexI [of _ t2]) simp_all
qed

lemma only_defaultsD:
  assumes "only_defaults s s'"
  shows "bindings_ok s'" "cocoons s' = cocoons s" "rooms s' = rooms s"
    "set (cocoon_pairs s) \<subseteq> set (cocoon_pairs s')" "snd ` (set (cocoon_pairs s') - set (cocoon_pairs s)) \<subseteq> system_ids s'"
    "set (room_pairs s) \<subseteq> set (room_pairs s')" "snd ` (set (room_pairs s') - set (room_pairs s)) \<subseteq> system_ids s'"
    "\<forall>t\<in>set (tags s). \<exists>t'\<in>set (tags s'). t_id t' = t_id t \<and> t_owner_user_id t' = t_owner_user_id t \<and>
        t_is_system t' = t_is_system t"
    "system_ids s \<subseteq> system_ids s'"
    "set (cocoon_tags s) \<subseteq> set (cocoon_tags s')" "set (room_tags s) \<subseteq> set (room_tags s')"
  using assms system_ids_kept [of s s'] unfolding only_defaults_def by simp_all

lemma only_defaults_trans:
  assumes 1: "only_defaults s s1" and 2: "only_defaults s1 s2" shows "only_defaults s s2"
  unfolding only_defaults_def
proof (intro conjI)
  note f = only_defaultsD [OF 1] and g = only_defaultsD [OF 2]
  show "bindings_ok s2" "cocoons s2 = cocoons s" "rooms s2 = rooms s" using f g by simp_all
  show "set (cocoon_pairs s) \<subseteq> set (cocoon_pairs s2)" by (rule subset_trans [OF f(4) g(4)])
  show "set (room_pairs s) \<subseteq> set (room_pairs s2)" by (rule subset_trans [OF f(6) g(6)])
  show "snd ` (set (cocoon_pairs s2) - set (cocoon_pairs s)) \<subseteq> system_ids s2"
    by (rule new_pairs_trans [OF f(5) g(5) g(9)])
  show "snd ` (set (room_pairs s2) - set (room_pairs s)) \<subseteq> system_ids s2"
    by (rule new_pairs_trans [OF f(7) g(7) g(9)])
  show "\<forall>t\<in>set (tags s). \<exists>t'\<in>set (tags s2). t_id t' = t_id t \<and> t_owner_user_id t' = t_owner_user_id t \<and>
        t_is_system t' = t_is_system t" by (rule kept_tags_trans [OF f(8) g(8)])
  show "set (cocoon_tags s) \<subseteq> set (cocoon_tags s2)" by (rule subset_trans [OF f(10) g(10)])
  show "set (room_tags s) \<subseteq> set (room_tags s2)" by (rule subset_trans [OF f(11) g(11)])
qed

lemma ensure_user_system_tag_kept:
  assumes "ensure_user_system_tag s u = (d, s1)"
  shows "\<forall>t\<in>set (tags s). \<exists>t'\<in>set (tags s1). t_id t' = t_id t \<and> t_owner_user_id t' = t_owner_user_id t \<and> t_is_system t' = t_is_system t"
proof
  fix t assume t: "t \<in> set (tags s)"
  show "\<exists>t'\<in>set (tags s1). t_id t' = t_id t \<and> t_owner_user_id t' = t_owner_user_id t \<and> t_is_system t' = t_is_system t"
  proof (cases rule: ensure_user_system_tag_cases [where s = s and u = u])
    case (found t0)
    then have "tags s1 = row_put t_id (t_id t0) reset_system_tag (tags s)" using assms by simp
    then have "(if t_id t = t_id t0 then reset_system_tag t else t) \<in> set (tags s1)"
      using t by (auto simp: set_row_put)
    then show ?thesis by (rule rev_bexI) simp
  qed (use assms t in auto)
qed

lemma only_defaults_ensure:
  assumes "bindings_ok s" "ensure_user_system_tag s u = (d, s1)"
  shows "only_defaults s s1"
  using assms ensure_user_system_tag_wf [OF _ _ assms(2)] keys_ok_ensure [OF _ assms(2)] supply_ok_ensure [OF _ assms(2)] supply_ok_fresh
    ensure_user_system_tag_frame [OF assms(2)] ensure_user_system_tag_kept [OF assms(2)]
  by (auto simp: only_defaults_def bindings_ok_def cocoon_pairs_def room_pairs_def)

lemma only_defaults_add_cocoon:
  assumes ok: "bindings_ok s" and new: "find_cocoon_binding s c t = None" and sys: "t \<in> system_ids s"
  shows "only_defaults s (snd (add_cocoon_binding s c t))"
proof -
  have "cocoon_pairs (snd (add_cocoon_binding s c t)) = cocoon_pairs s @ [(c, t)]"
    "room_pairs (snd (add_cocoon_binding s c t)) = room_pairs s"
    by (simp_all add: add_cocoon_binding_def cocoon_pairs_def room_pairs_def row_add_def Let_def take_id_def)
  moreover have "set (cocoon_tags s) \<subseteq> set (cocoon_tags (snd (add_cocoon_binding s c t)))"
    "set (room_tags s) \<subseteq> set (room_tags (snd (add_cocoon_binding s c t)))"
    by (auto simp: add_cocoon_binding_def row_add_def Let_def take_id_def)
  ultimately show ?thesis
    using assms find_cocoon_binding_None [of s c t] tags_wf_cong [of "snd (add_cocoon_binding s c t)" s] keys_ok_add_cocoon [of s c t]
    by (auto simp: only_defaults_def bindings_ok_def system_ids_def)
qed

lemma only_defaults_add_room:
  assumes ok: "bindings_ok s" and new: "find_room_binding s g t = None" and sys: "t \<in> system_ids s"
  shows "only_defaults s (snd (add_room_binding s g t))"
proof -
  have "room_pairs (snd (add_room_binding s g t)) = room_pairs s @ [(g, t)]"
    "cocoon_pairs (snd (add_room_binding s g t)) = cocoon_pairs s"
    by (simp_all add: add_room_binding_def cocoon_pairs_def room_pairs_def row_add_def Let_def take_id_def)
  moreover have "set (cocoon_tags s) \<subseteq> set (cocoon_tags (snd (add_room_binding s g t)))"
    "set (room_tags s) \<subseteq> set (room_tags (snd (add_room_binding s g t)))"
    by (auto simp: add_room_binding_def row_add_def Let_def take_id_def)
  ultimately show ?thesis
    using assms find_room_binding_None [of s g t] tags_wf_cong [of "snd (add_room_binding s g t)" s] keys_ok_add_room [of s g t]
    by (auto simp: only_defaults_def bindings_ok_def system_ids_def)
qed

lemma only_defaults_binding:
  assumes ok: "bindings_ok s" and e: "ensure_target_default_binding s c g = (d, s1)"
  shows "only_defaults s s1"
proof (cases "truthy (resolve_tag_owner_user_id_for_target s c g)")
  case False
  then show ?thesis using e only_defaults_refl [OF ok] by (simp add: ensure_target_default_binding_def)
next
  case True
  obtain t s2 where t: "ensure_user_system_tag s (str_of (resolve_tag_owner_user_id_for_target s c g)) = (t, s2)"
    by (metis surj_pair)
  have o2: "only_defaults s s2" by (rule only_defaults_ensure [OF ok t])
  have sys2: "t_id t \<in> system_ids s2" using ensure_user_system_tag_result [OF t] by (auto simp: system_ids_def)
  define s3 where "s3 = (if truthy c \<and> find_cocoon_binding s2 (str_of c) (t_id t) = None
        then snd (add_cocoon_binding s2 (str_of c) (t_id t)) else s2)"
  have ok2: "bindings_ok s2" using o2 by (simp add: only_defaults_def)
  have o3: "only_defaults s2 s3"
    using only_defaults_add_cocoon [OF ok2 _ sys2] only_defaults_refl [OF ok2] by (simp add: s3_def)
  have s1: "s1 = (if truthy g \<and> find_room_binding s3 (str_of g) (t_id t) = None
        then snd (add_room_binding s3 (str_of g) (t_id t)) else s3)"
    using e True t by (auto simp: ensure_target_default_binding_def Let_def s3_def simp del: if_split)
  have ok3: "bindings_ok s3" using o3 by (simp add: only_defaults_def)
  have "system_ids s2 \<subseteq> system_ids s3" using o3 system_ids_kept by (simp add: only_defaults_def)
  then have o1: "only_defaults s3 s1"
    using only_defaults_add_room [OF ok3] only_defaults_refl [OF ok3] sys2 unfolding s1 by auto
  show ?thesis using only_defaults_trans [OF o2 only_defaults_trans [OF o3 o1]] .
qed

lemma only_defaults_canonicalize:
  assumes "bindings_ok s" "canonicalize_tag_refs s refs inc owner = (ids, s1)"
  shows "only_defaults s s1"
proof (cases "inc \<and> truthy owner")
  case True
  then obtain d where "ensure_user_system_tag s (str_of owner) = (d, s1)"
    using assms(2) by (auto simp: canonicalize_tag_refs_def Let_def split: prod.splits)
  then show ?thesis by (rule only_defaults_ensure [OF assms(1)])
next
  case False
  then have "s1 = s" using assms(2) by (auto simp: canonicalize_tag_refs_def)
  then show ?thesis using only_defaults_refl [OF assms(1)] by simp
qed

lemma only_defaults_states:
  assumes "only_defaults s s1" shows "only_defaults s (s1\<lparr>states := x\<rparr>)"
proof -
  have "bindings_ok (s1\<lparr>states := x\<rparr>) = bindings_ok s1"
    using tags_wf_cong [of "s1\<lparr>states := x\<rparr>" s1]
    by (simp add: bindings_ok_def cocoon_pairs_def room_pairs_def supply_ok_def keys_ok_def supply_fresh_def)
  moreover have "cocoon_pairs (s1\<lparr>states := x\<rparr>) = cocoon_pairs s1" "room_pairs (s1\<lparr>states := x\<rparr>) = room_pairs s1"
    "system_ids (s1\<lparr>states := x\<rparr>) = system_ids s1"
    by (simp_all add: cocoon_pairs_def room_pairs_def system_ids_def)
  ultimately show ?thesis using assms unfolding only_defaults_def by simp
qed

lemma only_defaults_bound_tags:
  assumes ok: "bindings_ok s" and e: "ensure_state_bound_tags s st = (st', s')"
  shows "only_defaults s s'"
proof -
  obtain bound s1 where b: "list_target_bound_tag_ids s (st_cocoon_id st) (st_chat_group_id st) = (bound, s1)"
    by (metis surj_pair)
  then have "ensure_target_default_binding s (st_cocoon_id st) (st_chat_group_id st) =
      (fst (ensure_target_default_binding s (st_cocoon_id st) (st_chat_group_id st)), s1)"
    using list_target_bound_tag_ids_state by (metis prod.collapse snd_conv)
  then have o1: "only_defaults s s1" by (rule only_defaults_binding [OF ok])
  obtain active s2 where c: "canonicalize_tag_refs s1 (st_active_tags st @ bound) True
      (resolve_tag_owner_user_id_for_state s st) = (active, s2)" by (metis surj_pair)
  have o2: "only_defaults s1 s2" by (rule only_defaults_canonicalize [OF _ c]) (use o1 in \<open>simp add: only_defaults_def\<close>)
  have "s' = s2 \<or> (\<exists>x. s' = s2\<lparr>states := x\<rparr>)"
    using e b c by (auto simp: ensure_state_bound_tags_def set_active_tags_def split: if_splits)
  then show ?thesis using only_defaults_trans [OF o1 o2] only_defaults_states by blast
qed

lemma only_defaults_session_state:
  assumes ok: "bindings_ok s" and e: "get_session_state s c g = Inr (found, s')"
  shows "only_defaults s s'"
proof (cases "build_target_filter c g")
  case (Inl x)
  then show ?thesis using e by (simp add: get_session_state_def result_simps)
next
  case (Inr f)
  show ?thesis
  proof (cases "List.find (\<lambda>st. f (st_cocoon_id st) (st_chat_group_id st)) (states s)")
    case None
    then show ?thesis using e Inr only_defaults_refl [OF ok] by (simp add: get_session_state_def result_simps)
  next
    case (Some st)
    obtain st' s1 where b: "ensure_state_bound_tags s st = (st', s1)" by (metis surj_pair)
    then have "s' = s1" using e Inr Some by (simp add: get_session_state_def result_simps)
    then show ?thesis using only_defaults_bound_tags [OF ok b] by simp
  qed
qed

section \<open>The two kinds of bindings\<close>

text \<open>
  What every binding operation keeps: the tables stay well-formed and a target that has a binding
  to a system tag keeps it.
\<close>

definition defaults_stay :: "session \<Rightarrow> session \<Rightarrow> bool" where
  "defaults_stay s s' \<longleftrightarrow> bindings_ok s' \<and> system_ids s \<subseteq> system_ids s' \<and>
     set (filter (\<lambda>(c, d). d \<in> system_ids s) (cocoon_pairs s)) \<subseteq> set (cocoon_pairs s') \<and>
     set (filter (\<lambda>(g, d). d \<in> system_ids s) (room_pairs s)) \<subseteq> set (room_pairs s')"

lemma defaults_stay_refl: "bindings_ok s \<Longrightarrow> defaults_stay s s"
  by (auto simp: defaults_stay_def)

lemma defaults_stay_trans: "defaults_stay s s1 \<Longrightarrow> defaults_stay s1 s2 \<Longrightarrow> defaults_stay s s2"
  unfolding defaults_stay_def by fastforce

lemma only_defaults_stay: "only_defaults s s' \<Longrightarrow> defaults_stay s s'"
  using only_defaultsD [of s s'] unfolding defaults_stay_def by auto

text \<open>A refused request is rolled back.\<close>

definition after_request :: "session \<Rightarrow> ('b \<times> session) result \<Rightarrow> session" where
  "after_request s res = (case res of Inl _ \<Rightarrow> s | Inr (_, s') \<Rightarrow> s')"

locale tag_binding =
  fixes bound :: "session \<Rightarrow> (id \<times> id) list"
    and bind :: "session \<Rightarrow> id \<Rightarrow> string \<Rightarrow> ('b \<times> session) result"
    and unbind :: "session \<Rightarrow> id \<Rightarrow> string \<Rightarrow> ('b \<times> session) result"
  assumes bind_stays: "bindings_ok s \<Longrightarrow> bind s x r = Inr (b, s') \<Longrightarrow> defaults_stay s s'"
    and bind_binds: "bindings_ok s \<Longrightarrow> bind s x r = Inr (b, s') \<Longrightarrow>
      \<exists>i. (x, i) \<in> set (bound s') \<and> set (bound s) \<subseteq> set (bound s') \<and>
        snd ` (set (bound s') - set (bound s)) \<subseteq> insert i (system_ids s')"
    and unbind_stays: "bindings_ok s \<Longrightarrow> unbind s x r = Inr (b, s') \<Longrightarrow> defaults_stay s s'"
    and unbind_unbinds: "bindings_ok s \<Longrightarrow> unbind s x r = Inr (b, s') \<Longrightarrow>
      \<exists>i. i \<notin> system_ids s \<and> (x, i) \<in> set (bound s) \<and> set (bound s) - {(x, i)} \<subseteq> set (bound s') \<and>
        (x, i) \<notin> set (bound s')"
begin

lemma request_stays:
  assumes "bindings_ok s"
  shows "defaults_stay s (after_request s (bind s x r))" "defaults_stay s (after_request s (unbind s x r))"
  using assms bind_stays unbind_stays defaults_stay_refl by (auto simp: after_request_def split: sum.splits)

lemma bind_unbind_kind:
  assumes "bindings_ok s" "bind s x r = Inr (b, s')" "unbind s' x r' = Inr (b', s'')"
  shows "\<exists>i. i \<notin> system_ids s' \<and> (x, i) \<in> set (bound s') \<and> (x, i) \<notin> set (bound s'')"
proof -
  have "bindings_ok s'" using bind_stays [OF assms(1,2)] by (simp add: defaults_stay_def)
  then show ?thesis using unbind_unbinds [OF _ assms(3)] by blast
qed

end

lemma add_cocoon_pairs:
  "cocoon_pairs (snd (add_cocoon_binding s c t)) = cocoon_pairs s @ [(c, t)]"
  "room_pairs (snd (add_cocoon_binding s c t)) = room_pairs s"
  "system_ids (snd (add_cocoon_binding s c t)) = system_ids s"
  by (simp_all add: add_cocoon_binding_def cocoon_pairs_def room_pairs_def row_add_def Let_def take_id_def system_ids_def)

lemma add_room_pairs:
  "room_pairs (snd (add_room_binding s c t)) = room_pairs s @ [(c, t)]"
  "cocoon_pairs (snd (add_room_binding s c t)) = cocoon_pairs s"
  "system_ids (snd (add_room_binding s c t)) = system_ids s"
  by (simp_all add: add_room_binding_def cocoon_pairs_def room_pairs_def row_add_def Let_def take_id_def system_ids_def)

lemma bindings_ok_add_cocoon:
  "bindings_ok s \<Longrightarrow> find_cocoon_binding s c t = None \<Longrightarrow> bindings_ok (snd (add_cocoon_binding s c t))"
  using find_cocoon_binding_None [of s c t] tags_wf_cong [of "snd (add_cocoon_binding s c t)" s] keys_ok_add_cocoon [of s c t]
  by (simp add: bindings_ok_def add_cocoon_pairs)

lemma bindings_ok_add_room:
  "bindings_ok s \<Longrightarrow> find_room_binding s c t = None \<Longrightarrow> bindings_ok (snd (add_room_binding s c t))"
  using find_room_binding_None [of s c t] tags_wf_cong [of "snd (add_room_binding s c t)" s] keys_ok_add_room [of s c t]
  by (simp add: bindings_ok_def add_room_pairs)

text \<open>Writing the active tags of a state after canonicalising adds default tags at most.\<close>

lemma only_defaults_activate:
  assumes ok: "bindings_ok s"
  shows "only_defaults s (case canonicalize_tag_refs s refs inc owner of (active, s1) \<Rightarrow> snd (set_active_tags s1 st active))"
proof -
  obtain active s1 where c: "canonicalize_tag_refs s refs inc owner = (active, s1)" by (metis surj_pair)
  have o1: "only_defaults s s1" by (rule only_defaults_canonicalize [OF ok c])
  have "snd (set_active_tags s1 st active) = s1 \<or> (\<exists>x. snd (set_active_tags s1 st active) = s1\<lparr>states := x\<rparr>)"
    by (auto simp: set_active_tags_def)
  then show ?thesis using only_defaults_states [OF o1] o1 c by auto
qed

lemma require_canonical_tagD:
  "require_canonical_tag s r owner = Inr t \<Longrightarrow> t \<in> set (tags s)"
  by (auto simp: require_canonical_tag_def get_tag_by_any_ref_def get_tag_by_canonical_id_def find_Some_iff Let_def row_get_def
      split: option.splits if_splits)

lemma not_system_id:
  assumes "bindings_ok s" "t \<in> set (tags s)" "\<not> is_system_tag (Some t)" shows "t_id t \<notin> system_ids s"
proof
  assume "t_id t \<in> system_ids s"
  then obtain t' where "t' \<in> set (tags s)" "t_id t' = t_id t" "t_is_system t'" by (auto simp: system_ids_def)
  moreover from this have "t' = t" using assms(1,2) distinct_key_eq [of t_id "tags s" t' t]
    by (simp add: bindings_ok_def tags_wf_def)
  ultimately show False using assms(3) by (simp add: is_system_tag_def)
qed

lemma bind_cocoon_facts:
  assumes ok: "bindings_ok s" and e: "bind_cocoon_tag s x r = Inr (b, s')"
  shows "defaults_stay s s' \<and> (\<exists>i. (x, i) \<in> set (cocoon_pairs s') \<and> set (cocoon_pairs s) \<subseteq> set (cocoon_pairs s') \<and>
        snd ` (set (cocoon_pairs s') - set (cocoon_pairs s)) \<subseteq> insert i (system_ids s'))"
proof -
  let ?o = "resolve_tag_owner_user_id_for_target s (Some x) None"
  obtain t where t: "require_canonical_tag s r ?o = Inr t"
    using e by (cases "require_canonical_tag s r ?o") (simp_all add: bind_cocoon_tag_def Let_def result_simps)
  obtain d s1 where d: "ensure_target_default_binding s (Some x) None = (d, s1)" by (metis surj_pair)
  obtain p where p: "get_session_state s1 (Some x) None = Inr p"
    using e t d by (cases "get_session_state s1 (Some x) None") (simp_all add: bind_cocoon_tag_def Let_def result_simps)
  obtain state s2 where ss: "p = (state, s2)" by (metis surj_pair)
  have o1: "only_defaults s s1" by (rule only_defaults_binding [OF ok d])
  have o2: "only_defaults s s2"
    using only_defaults_trans [OF o1 only_defaults_session_state] only_defaultsD(1) [OF o1] p ss by simp
  note ok2 = only_defaultsD(1) [OF o2]
  show ?thesis
  proof (cases "find_cocoon_binding s2 x (t_id t)")
    case (Some b')
    then have "s' = s2" using e t d p ss by (simp add: bind_cocoon_tag_def Let_def result_simps)
    moreover have "(x, t_id t) \<in> set (cocoon_pairs s2)" using Some find_cocoon_binding_None [of s2 x "t_id t"] by simp
    ultimately show ?thesis using only_defaults_stay [OF o2] only_defaultsD(4,5) [OF o2] by blast
  next
    case None
    define s3 where "s3 = snd (add_cocoon_binding s2 x (t_id t))"
    have ok3: "bindings_ok s3" using bindings_ok_add_cocoon [OF ok2 None] by (simp add: s3_def)
    have o4: "only_defaults s3 s'"
      using e t d p ss None only_defaults_refl [OF ok3] only_defaults_activate [OF ok3]
      by (auto simp: bind_cocoon_tag_def Let_def result_simps s3_def case_prod_beta split: option.splits if_splits)
    have pairs: "cocoon_pairs s3 = cocoon_pairs s2 @ [(x, t_id t)]" "room_pairs s3 = room_pairs s2" "system_ids s3 = system_ids s2"
      by (simp_all add: s3_def add_cocoon_pairs)
    have "defaults_stay s2 s3" using ok3 pairs by (auto simp: defaults_stay_def)
    then have "defaults_stay s s'"
      using only_defaults_stay [OF o2] only_defaults_stay [OF o4] defaults_stay_trans by blast
    moreover have "(x, t_id t) \<in> set (cocoon_pairs s')" using only_defaultsD(4) [OF o4] pairs by auto
    moreover have "set (cocoon_pairs s) \<subseteq> set (cocoon_pairs s')"
      using only_defaultsD(4) [OF o4] only_defaultsD(4) [OF o2] pairs by auto
    moreover have "snd ` (set (cocoon_pairs s') - set (cocoon_pairs s)) \<subseteq> insert (t_id t) (system_ids s')"
    proof -
      have "set (cocoon_pairs s') - set (cocoon_pairs s) \<subseteq>
          (set (cocoon_pairs s') - set (cocoon_pairs s3)) \<union> {(x, t_id t)} \<union> (set (cocoon_pairs s2) - set (cocoon_pairs s))"
        using pairs by auto
      then show ?thesis using only_defaultsD(5,9) [OF o4] only_defaultsD(5) [OF o2] pairs(3) by fastforce
    qed
    ultimately show ?thesis by blast
  qed
qed

lemma unbind_cocoon_facts:
  assumes ok: "bindings_ok s" and e: "unbind_cocoon_tag s x r = Inr (b, s')"
  shows "defaults_stay s s' \<and> (\<exists>i. i \<notin> system_ids s \<and> (x, i) \<in> set (cocoon_pairs s) \<and>
    set (cocoon_pairs s) - {(x, i)} \<subseteq> set (cocoon_pairs s') \<and> (x, i) \<notin> set (cocoon_pairs s'))"
proof -
  let ?o = "resolve_tag_owner_user_id_for_target s (Some x) None"
  obtain t where t: "require_canonical_tag s r ?o = Inr t"
    using e by (cases "require_canonical_tag s r ?o") (simp_all add: unbind_cocoon_tag_def Let_def result_simps)
  have ns: "\<not> is_system_tag (Some t)" using e t by (auto simp: unbind_cocoon_tag_def Let_def result_simps)
  obtain b' where b: "find_cocoon_binding s x (t_id t) = Some b'"
    using e t ns by (cases "find_cocoon_binding s x (t_id t)") (simp_all add: unbind_cocoon_tag_def Let_def result_simps)
  obtain p where p: "get_session_state s (Some x) None = Inr p"
    using e t ns b by (cases "get_session_state s (Some x) None") (simp_all add: unbind_cocoon_tag_def Let_def result_simps)
  obtain state s1 where ss: "p = (state, s1)" by (metis surj_pair)
  have o1: "only_defaults s s1" using only_defaults_session_state [OF ok] p ss by simp
  define s2 where "s2 = (case state of None \<Rightarrow> s1 | Some st \<Rightarrow>
      let (active, s2) = canonicalize_tag_refs s1 (drop_tag (t_id t) (st_active_tags st)) True ?o
      in snd (set_active_tags s2 st active))"
  have o2: "only_defaults s s2"
    using o1 only_defaults_trans [OF o1 only_defaults_activate [OF only_defaultsD(1) [OF o1]]]
    by (simp add: s2_def Let_def split: option.split)
  have s': "s' = s2\<lparr>cocoon_tags := row_del ct_id (ct_id b') (cocoon_tags s2)\<rparr>"
    using e t ns b p ss unfolding s2_def unbind_cocoon_tag_def Let_def by (cases state) (auto simp: result_simps)
  have sys: "t_id t \<notin> system_ids s" by (rule not_system_id [OF ok require_canonical_tagD [OF t] ns])
  have bm: "b' \<in> set (cocoon_tags s)" "ct_cocoon_id b' = x" "ct_tag_id b' = t_id t"
    using b by (auto simp: find_cocoon_binding_def find_Some_iff)
  note ok2 = only_defaultsD(1) [OF o2]
  have bm2: "b' \<in> set (cocoon_tags s2)" using bm(1) only_defaultsD(10) [OF o2] by blast
  have dist2: "distinct (map ct_id (cocoon_tags s2))" "distinct (cocoon_pairs s2)"
    using ok2 by (simp_all add: bindings_ok_def keys_ok_def)
  have pairs: "set (cocoon_pairs s') = set (cocoon_pairs s2) - {(x, t_id t)}"
  proof (rule set_eqI)
    fix q :: "id \<times> id"
    have "c \<in> set (cocoon_tags s2) \<and> ct_id c \<noteq> ct_id b' \<longleftrightarrow> c \<in> set (cocoon_tags s2) \<and> (ct_cocoon_id c, ct_tag_id c) \<noteq> (x, t_id t)" for c
      using distinct_key_eq [OF dist2(1) _ bm2, of c] distinct_key_eq [OF dist2(2) [unfolded cocoon_pairs_def] _ bm2, of c] bm by auto
    then show "q \<in> set (cocoon_pairs s') \<longleftrightarrow> q \<in> set (cocoon_pairs s2) - {(x, t_id t)}"
      by (auto simp: s' cocoon_pairs_def row_del_def image_iff)
  qed
  have sub: "set (cocoon_tags s') \<subseteq> set (cocoon_tags s2)" by (auto simp: s' row_del_def)
  have "bindings_ok s'"
    using ok2 tags_wf_cong [of s' s2]
    by (auto simp: s' bindings_ok_def keys_ok_def supply_ok_def supply_fresh_def cocoon_pairs_def room_pairs_def row_del_def row_ids_def
        distinct_map_filter)
  moreover have "system_ids s' = system_ids s2" "room_pairs s' = room_pairs s2"
    by (simp_all add: s' system_ids_def room_pairs_def)
  ultimately have "defaults_stay s s'"
    using only_defaultsD(4,6,9) [OF o2] pairs sys by (auto simp: defaults_stay_def)
  moreover have "(x, t_id t) \<in> set (cocoon_pairs s)" using bm by (force simp: cocoon_pairs_def)
  ultimately show ?thesis using sys pairs only_defaultsD(4) [OF o2] by blast
qed

lemma bind_room_facts:
  assumes ok: "bindings_ok s" and e: "bind_room_tag s x r = Inr (b, s')"
  shows "defaults_stay s s' \<and> (\<exists>i. (x, i) \<in> set (room_pairs s') \<and> set (room_pairs s) \<subseteq> set (room_pairs s') \<and>
        snd ` (set (room_pairs s') - set (room_pairs s)) \<subseteq> insert i (system_ids s'))"
proof -
  let ?o = "resolve_tag_owner_user_id_for_target s None (Some x)"
  obtain t where t: "require_canonical_tag s r ?o = Inr t"
    using e by (cases "require_canonical_tag s r ?o") (simp_all add: bind_room_tag_def Let_def result_simps)
  obtain d s1 where d: "ensure_target_default_binding s None (Some x) = (d, s1)" by (metis surj_pair)
  obtain p where p: "get_session_state s1 None (Some x) = Inr p"
    using e t d by (cases "get_session_state s1 None (Some x)") (simp_all add: bind_room_tag_def Let_def result_simps)
  obtain state s2 where ss: "p = (state, s2)" by (metis surj_pair)
  have o1: "only_defaults s s1" by (rule only_defaults_binding [OF ok d])
  have o2: "only_defaults s s2"
    using only_defaults_trans [OF o1 only_defaults_session_state] only_defaultsD(1) [OF o1] p ss by simp
  note ok2 = only_defaultsD(1) [OF o2]
  show ?thesis
  proof (cases "find_room_binding s2 x (t_id t)")
    case (Some b')
    then have "s' = s2" using e t d p ss by (simp add: bind_room_tag_def Let_def result_simps)
    moreover have "(x, t_id t) \<in> set (room_pairs s2)" using Some find_room_binding_None [of s2 x "t_id t"] by simp
    ultimately show ?thesis using only_defaults_stay [OF o2] only_defaultsD(6,7) [OF o2] by blast
  next
    case None
    define s3 where "s3 = snd (add_room_binding s2 x (t_id t))"
    have ok3: "bindings_ok s3" using bindings_ok_add_room [OF ok2 None] by (simp add: s3_def)
    have o4: "only_defaults s3 s'"
      using e t d p ss None only_defaults_refl [OF ok3] only_defaults_activate [OF ok3]
      by (auto simp: bind_room_tag_def Let_def result_simps s3_def case_prod_beta split: option.splits if_splits)
    have pairs: "room_pairs s3 = room_pairs s2 @ [(x, t_id t)]" "cocoon_pairs s3 = cocoon_pairs s2" "system_ids s3 = system_ids s2"
      by (simp_all add: s3_def add_room_pairs)
    have "defaults_stay s2 s3" using ok3 pairs by (auto simp: defaults_stay_def)
    then have "defaults_stay s s'"
      using only_defaults_stay [OF o2] only_defaults_stay [OF o4] defaults_stay_trans by blast
    moreover have "(x, t_id t) \<in> set (room_pairs s')" using only_defaultsD(6) [OF o4] pairs by auto
    moreover have "set (room_pairs s) \<subseteq> set (room_pairs s')"
      using only_defaultsD(6) [OF o4] only_defaultsD(6) [OF o2] pairs by auto
    moreover have "snd ` (set (room_pairs s') - set (room_pairs s)) \<subseteq> insert (t_id t) (system_ids s')"
    proof -
      have "set (room_pairs s') - set (room_pairs s) \<subseteq>
          (set (room_pairs s') - set (room_pairs s3)) \<union> {(x, t_id t)} \<union> (set (room_pairs s2) - set (room_pairs s))"
        using pairs by auto
      then show ?thesis using only_defaultsD(7,9) [OF o4] only_defaultsD(7) [OF o2] pairs(3) by fastforce
    qed
    ultimately show ?thesis by blast
  qed
qed

lemma unbind_room_facts:
  assumes ok: "bindings_ok s" and e: "unbind_room_tag s x r = Inr (b, s')"
  shows "defaults_stay s s' \<and> (\<exists>i. i \<notin> system_ids s \<and> (x, i) \<in> set (room_pairs s) \<and>
    set (room_pairs s) - {(x, i)} \<subseteq> set (room_pairs s') \<and> (x, i) \<notin> set (room_pairs s'))"
proof -
  let ?o = "resolve_tag_owner_user_id_for_target s None (Some x)"
  obtain t where t: "require_canonical_tag s r ?o = Inr t"
    using e by (cases "require_canonical_tag s r ?o") (simp_all add: unbind_room_tag_def Let_def result_simps)
  have ns: "\<not> is_system_tag (Some t)" using e t by (auto simp: unbind_room_tag_def Let_def result_simps)
  obtain b' where b: "find_room_binding s x (t_id t) = Some b'"
    using e t ns by (cases "find_room_binding s x (t_id t)") (simp_all add: unbind_room_tag_def Let_def result_simps)
  obtain p where p: "get_session_state s None (Some x) = Inr p"
    using e t ns b by (cases "get_session_state s None (Some x)") (simp_all add: unbind_room_tag_def Let_def result_simps)
  obtain state s1 where ss: "p = (state, s1)" by (metis surj_pair)
  have o1: "only_defaults s s1" using only_defaults_session_state [OF ok] p ss by simp
  define s2 where "s2 = (case state of None \<Rightarrow> s1 | Some st \<Rightarrow>
      let (active, s2) = canonicalize_tag_refs s1 (drop_tag (t_id t) (st_active_tags st)) True ?o
      in snd (set_active_tags s2 st active))"
  have o2: "only_defaults s s2"
    using o1 only_defaults_trans [OF o1 only_defaults_activate [OF only_defaultsD(1) [OF o1]]]
    by (simp add: s2_def Let_def split: option.split)
  have s': "s' = s2\<lparr>room_tags := row_del rt_id (rt_id b') (room_tags s2)\<rparr>"
    using e t ns b p ss unfolding s2_def unbind_room_tag_def Let_def by (cases state) (auto simp: result_simps)
  have sys: "t_id t \<notin> system_ids s" by (rule not_system_id [OF ok require_canonical_tagD [OF t] ns])
  have bm: "b' \<in> set (room_tags s)" "rt_chat_group_id b' = x" "rt_tag_id b' = t_id t"
    using b by (auto simp: find_room_binding_def find_Some_iff)
  note ok2 = only_defaultsD(1) [OF o2]
  have bm2: "b' \<in> set (room_tags s2)" using bm(1) only_defaultsD(11) [OF o2] by blast
  have dist2: "distinct (map rt_id (room_tags s2))" "distinct (room_pairs s2)"
    using ok2 by (simp_all add: bindings_ok_def keys_ok_def)
  have pairs: "set (room_pairs s') = set (room_pairs s2) - {(x, t_id t)}"
  proof (rule set_eqI)
    fix q :: "id \<times> id"
    have "c \<in> set (room_tags s2) \<and> rt_id c \<noteq> rt_id b' \<longleftrightarrow> c \<in> set (room_tags s2) \<and> (rt_chat_group_id c, rt_tag_id c) \<noteq> (x, t_id t)" for c
      using distinct_key_eq [OF dist2(1) _ bm2, of c] distinct_key_eq [OF dist2(2) [unfolded room_pairs_def] _ bm2, of c] bm by auto
    then show "q \<in> set (room_pairs s') \<longleftrightarrow> q \<in> set (room_pairs s2) - {(x, t_id t)}"
      by (auto simp: s' room_pairs_def row_del_def image_iff)
  qed
  have sub: "set (room_tags s') \<subseteq> set (room_tags s2)" by (auto simp: s' row_del_def)
  have "bindings_ok s'"
    using ok2 tags_wf_cong [of s' s2]
    by (auto simp: s' bindings_ok_def keys_ok_def supply_ok_def supply_fresh_def room_pairs_def cocoon_pairs_def row_del_def row_ids_def
        distinct_map_filter)
  moreover have "system_ids s' = system_ids s2" "cocoon_pairs s' = cocoon_pairs s2"
    by (simp_all add: s' system_ids_def cocoon_pairs_def)
  ultimately have "defaults_stay s s'"
    using only_defaultsD(4,6,9) [OF o2] pairs sys by (auto simp: defaults_stay_def)
  moreover have "(x, t_id t) \<in> set (room_pairs s)" using bm by (force simp: room_pairs_def)
  ultimately show ?thesis using sys pairs only_defaultsD(6) [OF o2] by blast
qed

interpretation cocoon_binding: tag_binding cocoon_pairs bind_cocoon_tag unbind_cocoon_tag
  by unfold_locales (use bind_cocoon_facts unbind_cocoon_facts in blast)+

interpretation room_binding: tag_binding room_pairs bind_room_tag unbind_room_tag
  by unfold_locales (use bind_room_facts unbind_room_facts in blast)+

datatype tag_request =
    BindCocoon id string
  | UnbindCocoon id string
  | BindRoom id string
  | UnbindRoom id string

fun tag_request_step :: "session \<Rightarrow> tag_request \<Rightarrow> session" where
  "tag_request_step s (BindCocoon c r) = after_request s (bind_cocoon_tag s c r)"
| "tag_request_step s (UnbindCocoon c r) = after_request s (unbind_cocoon_tag s c r)"
| "tag_request_step s (BindRoom g r) = after_request s (bind_room_tag s g r)"
| "tag_request_step s (UnbindRoom g r) = after_request s (unbind_room_tag s g r)"

lemma tag_request_stays: "bindings_ok s \<Longrightarrow> defaults_stay s (tag_request_step s q)"
  by (cases q) (simp_all add: cocoon_binding.request_stays room_binding.request_stays)

lemma tag_requests_stay: "bindings_ok s \<Longrightarrow> defaults_stay s (foldl tag_request_step s qs)"
proof (induction qs arbitrary: s)
  case Nil
  then show ?case by (simp add: defaults_stay_refl)
next
  case (Cons q qs)
  have 1: "defaults_stay s (tag_request_step s q)" by (rule tag_request_stays [OF Cons.prems])
  then have "bindings_ok (tag_request_step s q)" by (simp add: defaults_stay_def)
  from defaults_stay_trans [OF 1 Cons.IH [OF this]] show ?case by simp
qed

text \<open>
  C34. Whatever sequence of tag binding requests on cocoons and chat groups is served, refused ones
  included, the tables stay well-formed (in particular no target has the same tag bound twice) and
  a default tag bound to a target stays bound to it.
\<close>

theorem tag_requests_keep_defaults:
  assumes "bindings_ok s"
  shows "bindings_ok (foldl tag_request_step s qs) \<and>
    (\<forall>c d. (c, d) \<notin> set (cocoon_pairs s) \<or> d \<notin> system_ids s \<or> (c, d) \<in> set (cocoon_pairs (foldl tag_request_step s qs))) \<and>
    (\<forall>g d. (g, d) \<notin> set (room_pairs s) \<or> d \<notin> system_ids s \<or> (g, d) \<in> set (room_pairs (foldl tag_request_step s qs)))"
  using tag_requests_stay [OF assms, of qs] unfolding defaults_stay_def by auto

definition sample_bindings :: session where
  "sample_bindings = sample_cocoons\<lparr>
     cocoon_tags := [\<lparr>ct_id = ''b1'', ct_cocoon_id = ''a'', ct_tag_id = ''t3'', ct_created_at = 0\<rparr>]\<rparr>"

lemma sample_bindings_ok: "bindings_ok sample_bindings"
proof -
  have "tags_wf sample_bindings" using sample_cocoons_ok(1) tags_wf_cong [of sample_bindings sample_cocoons]
    by (simp add: sample_bindings_def)
  moreover have "supply_ok sample_bindings"
    using sample_cocoons_ok(2) by (simp add: sample_bindings_def supply_ok_def supply_fresh_def)
  moreover have "keys_ok sample_bindings"
    by (auto simp: keys_ok_def supply_fresh_def sample_bindings_def sample_cocoons_def sample_tags_def empty_session_def
        row_ids_def id_literal_inj id_literal_def)
  ultimately show ?thesis
    by (simp add: bindings_ok_def cocoon_pairs_def room_pairs_def sample_bindings_def sample_cocoons_def sample_tags_def
        empty_session_def)
qed

theorem tag_requests_keep_defaults_witness:
  "(''a'', ''t3'') \<in> set (cocoon_pairs (foldl tag_request_step sample_bindings
     [UnbindCocoon ''a'' ''default'', BindCocoon ''a'' ''t2'', BindRoom ''g'' ''t2'']))"
proof -
  have "(''a'', ''t3'') \<in> set (cocoon_pairs sample_bindings)"
    by (simp add: sample_bindings_def cocoon_pairs_def)
  moreover have "''t3'' \<in> system_ids sample_bindings"
    using system_idsI [of "sample_tag ''t3'' ''u1'' ''default'' True" sample_bindings]
    by (simp add: sample_bindings_def sample_cocoons_def sample_tags_def sample_tag_def)
  ultimately show ?thesis using tag_requests_keep_defaults [OF sample_bindings_ok] by blast
qed

end
