(* ===== verification/Invites.thy ===== *)
theory Invites
  imports UserGroups
begin

text \<open>
  Invite codes and their quota (\<open>services/access/invite_service.py\<close>). The parameter \<open>pick\<close> stands
  for \<open>secrets.choice\<close>: it delivers the index drawn for each attempt and position. The fields of
  a payload are those of the validated schemas (\<open>schemas/access/invites.py\<close>).
\<close>

record invite_create =
  ic_code :: "string option"
  ic_prefix :: "string option"
  ic_quota_total :: int
  ic_expires_at :: "time option"
  ic_created_for :: "id option"
  ic_registration_group_id :: id
  ic_source_type :: string
  ic_source_id :: "id option"

record invite_grant_create =
  igc_target_type :: string
  igc_target_id :: id
  igc_amount :: int
  igc_is_unlimited :: bool
  igc_note :: "string option"

record invite_quota_update =
  iqu_remaining :: "int option"
  iqu_unlimited :: "bool option"

record invite_summary =
  is_target_type :: string
  is_target_id :: id
  is_remaining :: int
  is_unlimited :: bool

definition CODE_SUFFIX_ALPHABET :: string where
  "CODE_SUFFIX_ALPHABET = ''ABCDEFGHJKLMNPQRSTUVWXYZ23456789''"
definition CODE_SUFFIX_LENGTH :: nat where "CODE_SUFFIX_LENGTH = 8"

definition list_invites :: "session \<Rightarrow> invite_row list" where
  "list_invites s = sort_key (\<lambda>i. - iv_created_at i) (invites s)"

definition list_grants :: "session \<Rightarrow> quota_grant_row list" where
  "list_grants s = sort_key (\<lambda>g. - qg_created_at g) (quota_grants s)"

definition list_quota_accounts :: "session \<Rightarrow> quota_account_row list" where
  "list_quota_accounts s = sort_key (\<lambda>a. (qa_target_type a, - qa_updated_at a)) (quota_accounts s)"

definition get_invite_by_code :: "session \<Rightarrow> string \<Rightarrow> invite_row result" where
  "get_invite_by_code s code =
     (case List.find (\<lambda>i. iv_code i = code) (invites s) of
        None \<Rightarrow> Inl (HTTPException 404 ''Invite not found'') | Some i \<Rightarrow> Inr i)"

definition ensure_user_exists :: "session \<Rightarrow> id \<Rightarrow> unit result" where
  "ensure_user_exists s i =
     (if row_get u_id i (users s) = None then Inl (HTTPException 404 ''User not found'') else Inr ())"

definition ensure_group_exists :: "session \<Rightarrow> id \<Rightarrow> unit result" where
  "ensure_group_exists s i =
     (if row_get g_id i (groups s) = None then Inl (HTTPException 404 ''Group not found'') else Inr ())"

text \<open>\<open>re.sub("[^A-Z0-9]+", "-", text)\<close>, the flag telling that a run is being replaced.\<close>

definition code_char :: "char \<Rightarrow> bool" where
  "code_char c = (is_ascii_upper c \<or> is_digit c)"

fun dash_runs :: "bool \<Rightarrow> string \<Rightarrow> string" where
  "dash_runs in_run [] = []"
| "dash_runs in_run (c # cs) =
     (if code_char c then c # dash_runs False cs
      else if in_run then dash_runs True cs else CHR ''-'' # dash_runs True cs)"

definition strip_dashes :: "string \<Rightarrow> string" where
  "strip_dashes s = rev (dropWhile (\<lambda>c. c = CHR ''-'') (rev (dropWhile (\<lambda>c. c = CHR ''-'') s)))"

definition normalize_prefix :: "string option \<Rightarrow> string" where
  "normalize_prefix pfx =
     (let raw_prefix = py_upper (py_strip (or_else pfx ''INVITE''));
          normalized = strip_dashes (dash_runs False raw_prefix);
          normalized' = (if normalized = [] then ''INVITE'' else normalized)
      in take (64 - CODE_SUFFIX_LENGTH - 1) normalized')"

definition draw_suffix :: "(nat \<Rightarrow> nat \<Rightarrow> nat) \<Rightarrow> nat \<Rightarrow> string" where
  "draw_suffix pick attempt =
     map (\<lambda>k. CODE_SUFFIX_ALPHABET ! (pick attempt k mod length CODE_SUFFIX_ALPHABET)) [0..<CODE_SUFFIX_LENGTH]"

fun code_loop :: "session \<Rightarrow> (nat \<Rightarrow> nat \<Rightarrow> nat) \<Rightarrow> string \<Rightarrow> nat list \<Rightarrow> string result" where
  "code_loop s pick pfx [] = Inl (HTTPException 500 ''Failed to generate unique invite code'')"
| "code_loop s pick pfx (attempt # attempts) =
     (let code = pfx @ ''-'' @ draw_suffix pick attempt
      in if List.find (\<lambda>i. iv_code i = code) (invites s) = None then Inr code
         else code_loop s pick pfx attempts)"

definition generate_invite_code :: "session \<Rightarrow> (nat \<Rightarrow> nat \<Rightarrow> nat) \<Rightarrow> string option \<Rightarrow> string result" where
  "generate_invite_code s pick pfx = code_loop s pick (normalize_prefix pfx) [0..<20]"

definition invite_is_admin :: "session \<Rightarrow> user_row \<Rightarrow> bool" where
  "invite_is_admin s u =
     (if \<not> truthy (u_role_id u) then False
      else case row_get_opt r_id (u_role_id u) (roles s) of
             None \<Rightarrow> False | Some role \<Rightarrow> r_name role = ''admin'')"

definition find_account :: "session \<Rightarrow> string \<Rightarrow> id \<Rightarrow> quota_account_row option" where
  "find_account s target_type target_id =
     List.find (\<lambda>a. qa_target_type a = target_type \<and> qa_target_id a = target_id) (quota_accounts s)"

definition get_or_create_account :: "session \<Rightarrow> string \<Rightarrow> id \<Rightarrow> quota_account_row \<times> session" where
  "get_or_create_account s target_type target_id =
     (case find_account s target_type target_id of
        Some a \<Rightarrow> (a, s)
      | None \<Rightarrow>
          let a = \<lparr>qa_id = new_id s, qa_target_type = target_type, qa_target_id = target_id,
                   qa_remaining_quota = 0, qa_is_unlimited = False, qa_updated_at = clock s\<rparr>
          in (a, (take_id s)\<lparr>quota_accounts := row_add a (quota_accounts s)\<rparr>))"

text \<open>Writing to a loaded account also sets \<open>updated_at\<close>.\<close>

definition put_account :: "session \<Rightarrow> id \<Rightarrow> (quota_account_row \<Rightarrow> quota_account_row) \<Rightarrow> session" where
  "put_account s i f =
     s\<lparr>quota_accounts := row_put qa_id i (\<lambda>a. (f a)\<lparr>qa_updated_at := clock s\<rparr>) (quota_accounts s)\<rparr>"

definition consume_quota :: "session \<Rightarrow> string \<Rightarrow> id \<Rightarrow> int \<Rightarrow> session result" where
  "consume_quota s target_type target_id amount =
     (let (a, s1) = get_or_create_account s target_type target_id
      in if qa_is_unlimited a then Inr s1
         else if qa_remaining_quota a < amount then Inl (HTTPException 400 ''Invite quota exceeded'')
         else Inr (put_account s1 (qa_id a) (\<lambda>r. r\<lparr>qa_remaining_quota := qa_remaining_quota a - amount\<rparr>)))"

definition ensure_target_exists :: "session \<Rightarrow> string \<Rightarrow> id \<Rightarrow> string \<Rightarrow> unit result" where
  "ensure_target_exists s target_type target_id unsupported =
     (if target_type = ''USER'' then ensure_user_exists s target_id
      else if target_type = ''GROUP'' then ensure_group_exists s target_id
      else Inl (HTTPException 400 unsupported))"

definition get_summary :: "session \<Rightarrow> string \<Rightarrow> id \<Rightarrow> (invite_summary \<times> session) result" where
  "get_summary s target_type target_id =
     (let normalized_type = py_upper target_type
      in bind_r (ensure_target_exists s normalized_type target_id ''Unsupported summary target'') (\<lambda>_.
         let (a, s1) = get_or_create_account s normalized_type target_id
         in Inr (\<lparr>is_target_type = normalized_type, is_target_id = target_id,
                  is_remaining = max (qa_remaining_quota a) 0, is_unlimited = qa_is_unlimited a\<rparr>, s1)))"

text \<open>The quota check of one source bucket, followed by its consumption.\<close>

definition check_and_consume :: "session \<Rightarrow> string \<Rightarrow> id \<Rightarrow> int \<Rightarrow> session result" where
  "check_and_consume s target_type target_id amount =
     bind_r (get_summary s target_type target_id) (\<lambda>(summary, s1).
     if \<not> is_unlimited summary \<and> is_remaining summary < amount
     then Inl (HTTPException 400 ''Invite quota exceeded'')
     else consume_quota s1 target_type target_id amount)"

definition charge_source :: "session \<Rightarrow> user_row \<Rightarrow> string \<Rightarrow> id option \<Rightarrow> int \<Rightarrow> (id option \<times> session) result" where
  "charge_source s u source_type source_id quota_total =
     (if source_type = ''USER'' then
        let source = or_else source_id (u_id u)
        in bind_r (ensure_user_exists s source) (\<lambda>_.
           bind_r (check_and_consume s ''USER'' source quota_total) (\<lambda>s1. Inr (Some source, s1)))
      else if source_type = ''GROUP'' then
        (if \<not> truthy source_id then Inl (HTTPException 400 ''Group source_id is required'')
         else bind_r (ensure_group_exists s (str_of source_id)) (\<lambda>_.
              bind_r (check_and_consume s ''GROUP'' (str_of source_id) quota_total) (\<lambda>s1. Inr (source_id, s1))))
      else if source_type \<noteq> ''ADMIN_OVERRIDE'' then Inl (HTTPException 400 ''Unsupported invite source'')
      else Inr (source_id, s))"

definition create_invite ::
  "session \<Rightarrow> (nat \<Rightarrow> nat \<Rightarrow> nat) \<Rightarrow> invite_create \<Rightarrow> user_row \<Rightarrow> (invite_row \<times> session) result" where
  "create_invite s pick payload u =
     (let source_type = py_upper (or_else (Some (ic_source_type payload)) ''ADMIN_OVERRIDE'');
          created_for = or_else (ic_created_for payload) (u_id u)
      in bind_r (if truthy (ic_code payload) then Inr (str_of (ic_code payload))
                 else generate_invite_code s pick (ic_prefix payload)) (\<lambda>code.
         case row_get g_id (ic_registration_group_id payload) (groups s) of
           None \<Rightarrow> Inl (HTTPException 404 ''Registration group not found'')
         | Some registration_group \<Rightarrow>
             if ic_expires_at payload = None \<and> \<not> invite_is_admin s u
             then Inl (HTTPException 403 ''Only administrators can create permanent invites'')
             else bind_r (charge_source s u source_type (ic_source_id payload) (ic_quota_total payload))
               (\<lambda>(source_id, s1).
               let invite = \<lparr>iv_id = new_id s1, iv_code = code, iv_created_by = Some (u_id u),
                     iv_created_for = Some created_for, iv_source_type = source_type, iv_source_id = source_id,
                     iv_registration_group_id = Some (g_id registration_group),
                     iv_quota_total = ic_quota_total payload, iv_quota_used = 0,
                     iv_expires_at = ic_expires_at payload, iv_revoked_at = None, iv_created_at = clock s1\<rparr>
               in if List.find (\<lambda>i. iv_code i = code) (invites s1) \<noteq> None
                  then Inl (IntegrityError ''invite_codes.code'')
                  else Inr (invite, (take_id s1)\<lparr>invites := row_add invite (invites s1)\<rparr>))))"

definition revoke_invite :: "session \<Rightarrow> string \<Rightarrow> (invite_row \<times> session) result" where
  "revoke_invite s code =
     bind_r (get_invite_by_code s code) (\<lambda>invite.
     if iv_revoked_at invite \<noteq> None then Inl (HTTPException 400 ''Invite already revoked'')
     else if iv_quota_used invite > 0 then Inl (HTTPException 400 ''Used invites cannot be revoked'')
     else let f = (\<lambda>r. r\<lparr>iv_revoked_at := Some (clock s)\<rparr>)
          in Inr (f invite, s\<lparr>invites := row_put iv_id (iv_id invite) f (invites s)\<rparr>))"

definition new_grant :: "session \<Rightarrow> invite_grant_create \<Rightarrow> user_row \<Rightarrow> quota_grant_row" where
  "new_grant s payload u =
     (let target_type = py_upper (igc_target_type payload)
      in \<lparr>qg_id = new_id s, qg_invite_code_id = None, qg_granted_by = Some (u_id u),
          qg_user_id = (if target_type = ''USER'' then Some (igc_target_id payload) else None),
          qg_source_type = ''ADMIN_OVERRIDE'', qg_source_id = None, qg_target_type = target_type,
          qg_target_id = igc_target_id payload, qg_quota = igc_amount payload,
          qg_is_unlimited = igc_is_unlimited payload, qg_note = igc_note payload,
          qg_revoked_at = None, qg_created_at = clock s\<rparr>)"

definition create_grant :: "session \<Rightarrow> invite_grant_create \<Rightarrow> user_row \<Rightarrow> (quota_grant_row \<times> session) result" where
  "create_grant s payload u =
     (let target_type = py_upper (igc_target_type payload)
      in bind_r (ensure_target_exists s target_type (igc_target_id payload) ''Unsupported grant target'') (\<lambda>_.
         let grant = new_grant s payload u;
             s1 = (take_id s)\<lparr>quota_grants := row_add grant (quota_grants s)\<rparr>;
             (a, s2) = get_or_create_account s1 target_type (igc_target_id payload)
         in Inr (grant, put_account s2 (qa_id a)
              (\<lambda>r. if igc_is_unlimited payload then r\<lparr>qa_is_unlimited := True\<rparr>
                   else r\<lparr>qa_remaining_quota := qa_remaining_quota a + igc_amount payload\<rparr>))))"

definition revoke_grant :: "session \<Rightarrow> id \<Rightarrow> user_row \<Rightarrow> (quota_grant_row \<times> session) result" where
  "revoke_grant s grant_id u =
     (if \<not> invite_is_admin s u then Inl (HTTPException 403 ''Only administrators can revoke invite grants'')
      else case row_get qg_id grant_id (quota_grants s) of
             None \<Rightarrow> Inl (HTTPException 404 ''Invite grant not found'')
           | Some grant \<Rightarrow>
               if qg_revoked_at grant \<noteq> None then Inl (HTTPException 400 ''Invite grant already revoked'')
               else let f = (\<lambda>g. g\<lparr>qg_revoked_at := Some (clock s)\<rparr>)
                    in Inr (f grant, s\<lparr>quota_grants := row_put qg_id grant_id f (quota_grants s)\<rparr>))"

definition update_summary ::
  "session \<Rightarrow> string \<Rightarrow> id \<Rightarrow> invite_quota_update \<Rightarrow> user_row \<Rightarrow> (invite_summary \<times> session) result" where
  "update_summary s target_type target_id payload u =
     (if \<not> invite_is_admin s u
      then Inl (HTTPException 403 ''Only administrators can update invite quota balances'')
      else let normalized_type = py_upper target_type
           in bind_r (ensure_target_exists s normalized_type target_id ''Unsupported summary target'') (\<lambda>_.
              let (a, s1) = get_or_create_account s normalized_type target_id;
                  s2 = put_account s1 (qa_id a) (\<lambda>r.
                    let r1 = (case iqu_remaining payload of None \<Rightarrow> r
                              | Some n \<Rightarrow> r\<lparr>qa_remaining_quota := max n 0\<rparr>)
                    in case iqu_unlimited payload of None \<Rightarrow> r1 | Some b \<Rightarrow> r1\<lparr>qa_is_unlimited := b\<rparr>)
              in get_summary s2 normalized_type target_id))"

definition invite_usable :: "session \<Rightarrow> invite_row \<Rightarrow> unit result" where
  "invite_usable s invite =
     (if iv_revoked_at invite \<noteq> None then Inl (HTTPException 400 ''Invite revoked'')
      else case iv_expires_at invite of
             Some t \<Rightarrow> if t < clock s then Inl (HTTPException 400 ''Invite expired'') else Inr ()
           | None \<Rightarrow> Inr ())"

definition redeem_grant :: "session \<Rightarrow> invite_row \<Rightarrow> id \<Rightarrow> int \<Rightarrow> quota_grant_row" where
  "redeem_grant s invite user_id quota =
     \<lparr>qg_id = new_id s, qg_invite_code_id = Some (iv_id invite), qg_granted_by = iv_created_by invite,
      qg_user_id = Some user_id, qg_source_type = iv_source_type invite, qg_source_id = iv_source_id invite,
      qg_target_type = ''USER'', qg_target_id = user_id, qg_quota = quota, qg_is_unlimited = False,
      qg_note = Some (''Redeemed from invite code '' @ iv_code invite), qg_revoked_at = None,
      qg_created_at = clock s\<rparr>"

definition redeem_invite ::
  "session \<Rightarrow> string \<Rightarrow> id \<Rightarrow> int \<Rightarrow> ((id \<times> id \<times> int) \<times> session) result" where
  "redeem_invite s code user_id quota =
     bind_r (get_invite_by_code s code) (\<lambda>invite.
     bind_r (invite_usable s invite) (\<lambda>_.
     if iv_quota_used invite + quota > iv_quota_total invite
     then Inl (HTTPException 400 ''Invite quota exceeded'')
     else bind_r (ensure_user_exists s user_id) (\<lambda>_.
       let grant = redeem_grant s invite user_id quota;
           used = iv_quota_used invite + quota;
           s1 = (take_id s)\<lparr>invites := row_put iv_id (iv_id invite) (\<lambda>r. r\<lparr>iv_quota_used := used\<rparr>) (invites s),
                            quota_grants := row_add grant (quota_grants s)\<rparr>;
           (a, s2) = get_or_create_account s1 ''USER'' user_id
       in Inr ((iv_id invite, qg_id grant, used),
               put_account s2 (qa_id a) (\<lambda>r. r\<lparr>qa_remaining_quota := qa_remaining_quota a + quota\<rparr>)))))"

section \<open>Generated codes\<close>

lemma dash_runs_chars: "c \<in> set (dash_runs b cs) \<Longrightarrow> code_char c \<or> c = CHR ''-''"
  by (induction b cs rule: dash_runs.induct) (auto split: if_splits)

lemma set_strip_dashes: "set (strip_dashes cs) \<subseteq> set cs"
  by (auto simp: strip_dashes_def dest!: set_dropWhileD)

lemma normalize_prefix_shape:
  "normalize_prefix p \<noteq> [] \<and> length (normalize_prefix p) \<le> 55 \<and>
   (\<forall>c\<in>set (normalize_prefix p). code_char c \<or> c = CHR ''-'')"
proof -
  define n where "n = strip_dashes (dash_runs False (py_upper (py_strip (or_else p ''INVITE''))))"
  define m where "m = (if n = [] then ''INVITE'' else n)"
  have np: "normalize_prefix p = take 55 m"
    by (simp add: normalize_prefix_def Let_def n_def m_def CODE_SUFFIX_LENGTH_def)
  have "\<forall>c\<in>set n. code_char c \<or> c = CHR ''-''"
    using set_strip_dashes dash_runs_chars unfolding n_def by blast
  then have "\<forall>c\<in>set m. code_char c \<or> c = CHR ''-''"
    by (simp add: m_def code_char_def is_ascii_upper_def is_digit_def)
  moreover have "m \<noteq> []" by (simp add: m_def)
  ultimately show ?thesis unfolding np by (auto dest: in_set_takeD)
qed

lemma draw_suffix_shape:
  "length (draw_suffix pick k) = 8" "set (draw_suffix pick k) \<subseteq> set CODE_SUFFIX_ALPHABET"
proof -
  have "0 < length CODE_SUFFIX_ALPHABET" by (simp add: CODE_SUFFIX_ALPHABET_def)
  then show "set (draw_suffix pick k) \<subseteq> set CODE_SUFFIX_ALPHABET"
    unfolding draw_suffix_def by (auto intro!: nth_mem)
qed (simp add: draw_suffix_def CODE_SUFFIX_LENGTH_def)

lemma code_loop_result:
  "code_loop s pick pfx ks = Inr code \<Longrightarrow>
   \<exists>k\<in>set ks. code = pfx @ ''-'' @ draw_suffix pick k \<and> code \<notin> iv_code ` set (invites s)"
  by (induction s pick pfx ks rule: code_loop.induct) (auto simp: Let_def find_None split: if_splits)

lemma code_loop_error:
  "code_loop s pick pfx ks = Inl e \<longleftrightarrow>
   e = HTTPException 500 ''Failed to generate unique invite code'' \<and>
   (\<forall>k\<in>set ks. pfx @ ''-'' @ draw_suffix pick k \<in> iv_code ` set (invites s))"
proof (induction s pick pfx ks rule: code_loop.induct)
  case (2 s pick pfx k ks)
  have "List.find (\<lambda>i. iv_code i = pfx @ ''-'' @ draw_suffix pick k) (invites s) = None \<longleftrightarrow>
      pfx @ ''-'' @ draw_suffix pick k \<notin> iv_code ` set (invites s)"
    by (auto simp: find_None image_iff)
  with 2 show ?case
    by (cases "pfx @ ''-'' @ draw_suffix pick k \<in> iv_code ` set (invites s)") (auto simp: Let_def)
qed auto

text \<open>
  A generated invite code is unused, fits the column of 64 characters and consists of a
  non-empty prefix of capitals, digits and dashes, a dash, and eight characters of the alphabet
  without the ambiguous ones; generation fails only when all twenty drawn codes are in use.
\<close>

theorem generate_invite_code_shape:
  "case generate_invite_code s pick pfx of
     Inr code \<Rightarrow> code \<notin> iv_code ` set (invites s) \<and> length code \<le> 64 \<and>
       (\<exists>p suffix. code = p @ ''-'' @ suffix \<and> p \<noteq> [] \<and> length suffix = 8 \<and>
          set p \<subseteq> {c. code_char c} \<union> {CHR ''-''} \<and> set suffix \<subseteq> set CODE_SUFFIX_ALPHABET)
   | Inl e \<Rightarrow> e = HTTPException 500 ''Failed to generate unique invite code'' \<and>
       {0..<20} \<subseteq> {k. normalize_prefix pfx @ ''-'' @ draw_suffix pick k \<in> iv_code ` set (invites s)}"
proof (cases "generate_invite_code s pick pfx")
  case (Inl e)
  then have "code_loop s pick (normalize_prefix pfx) [0..<20] = Inl e" by (simp add: generate_invite_code_def)
  then show ?thesis unfolding Inl by (auto simp: code_loop_error)
next
  case (Inr code)
  then obtain k where code: "code = normalize_prefix pfx @ ''-'' @ draw_suffix pick k"
    "code \<notin> iv_code ` set (invites s)"
    unfolding generate_invite_code_def by (auto dest: code_loop_result)
  have "code = normalize_prefix pfx @ ''-'' @ draw_suffix pick k \<and> normalize_prefix pfx \<noteq> [] \<and>
      length (draw_suffix pick k) = 8 \<and> set (normalize_prefix pfx) \<subseteq> {c. code_char c} \<union> {CHR ''-''} \<and>
      set (draw_suffix pick k) \<subseteq> set CODE_SUFFIX_ALPHABET"
    using code(1) normalize_prefix_shape [of pfx] draw_suffix_shape [of pick k] by auto
  moreover have "length code \<le> 64"
    using code(1) normalize_prefix_shape [of pfx] draw_suffix_shape [of pick k] by simp
  ultimately show ?thesis using code(2) unfolding Inr by fastforce
qed

section \<open>Conservation of quota\<close>

definition balance :: "session \<Rightarrow> int" where
  "balance s = sum_list (map qa_remaining_quota (quota_accounts s))"

definition capacity :: "session \<Rightarrow> int" where
  "capacity s = sum_list (map (\<lambda>i. iv_quota_total i - iv_quota_used i) (invites s))"

definition quota_inv :: "session \<Rightarrow> bool" where
  "quota_inv s \<longleftrightarrow>
     distinct (map qa_id (quota_accounts s)) \<and> distinct (map iv_id (invites s)) \<and>
     supply_fresh s (row_ids qa_id (quota_accounts s) \<union> row_ids iv_id (invites s)) \<and>
     (\<forall>a\<in>set (quota_accounts s). 0 \<le> qa_remaining_quota a) \<and>
     (\<forall>i\<in>set (invites s). 0 \<le> iv_quota_used i \<and> iv_quota_used i \<le> iv_quota_total i)"

lemma sum_row_put:
  fixes h :: "'r \<Rightarrow> int"
  assumes "distinct (map key rows)" "r \<in> set rows"
  shows "sum_list (map h (row_put key (key r) f rows)) = sum_list (map h rows) + (h (f r) - h r)"
  using assms
proof (induction rows)
  case (Cons x rows)
  show ?case
  proof (cases "x = r")
    case True
    then have "map h (row_put key (key r) f rows) = map h rows"
      using Cons.prems(1) by (auto simp: row_put_def image_iff)
    then show ?thesis using True by (simp add: row_put_def del: map_map)
  next
    case False
    then have "key x \<noteq> key r" "r \<in> set rows" using Cons.prems by auto
    then show ?thesis using Cons by (simp add: row_put_def)
  qed
qed simp

lemma map_row_put_same: "(\<And>r. h (f r) = h r) \<Longrightarrow> map h (row_put key i f rows) = map h rows"
  by (simp add: row_put_def)

lemma sum_row_add: "sum_list (map h (row_add r rows)) = sum_list (map h rows) + (h r :: int)"
  by (simp add: row_add_def)

lemma find_account_mem: "find_account s t i = Some a \<Longrightarrow> a \<in> set (quota_accounts s)"
  unfolding find_account_def by (drule find_SomeD) simp

lemma quota_inv_take:
  assumes "quota_inv s" "invites s' = invites s" "quota_accounts s' = quota_accounts s"
    and "id_supply s' = id_supply s" "id_next s \<le> id_next s'"
  shows "quota_inv s'"
  using assms by (auto simp: quota_inv_def supply_fresh_def)

lemma get_or_create_account_facts:
  assumes "quota_inv s" "get_or_create_account s t i = (a, s1)"
  shows "quota_inv s1" "a \<in> set (quota_accounts s1)" "balance s1 = balance s" "invites s1 = invites s"
proof -
  have "quota_inv s1 \<and> a \<in> set (quota_accounts s1) \<and> balance s1 = balance s \<and> invites s1 = invites s"
  proof (cases "find_account s t i")
    case (Some b)
    then show ?thesis using assms find_account_mem [OF Some] by (simp add: get_or_create_account_def)
  next
    case None
    then have a: "a = \<lparr>qa_id = new_id s, qa_target_type = t, qa_target_id = i, qa_remaining_quota = 0,
        qa_is_unlimited = False, qa_updated_at = clock s\<rparr>"
      and s1: "s1 = (take_id s)\<lparr>quota_accounts := row_add a (quota_accounts s)\<rparr>"
      using assms(2) by (auto simp: get_or_create_account_def Let_def)
    have fresh: "supply_fresh s (row_ids qa_id (quota_accounts s) \<union> row_ids iv_id (invites s))"
      using assms(1) by (simp add: quota_inv_def)
    have "supply_fresh s1 (insert (new_id s) (row_ids qa_id (quota_accounts s) \<union> row_ids iv_id (invites s)))"
      using supply_fresh_take_id [OF fresh] by (simp add: s1 supply_fresh_def)
    then show ?thesis
      using assms(1) new_id_fresh [OF fresh]
      by (auto simp: quota_inv_def s1 a balance_def sum_row_add take_id_def)
  qed
  then show "quota_inv s1" "a \<in> set (quota_accounts s1)" "balance s1 = balance s" "invites s1 = invites s"
    by simp_all
qed

lemma put_account_facts:
  assumes inv: "quota_inv s" and a: "a \<in> set (quota_accounts s)"
    and f: "\<And>r. qa_id (f r) = qa_id r" "\<And>r. r \<in> set (quota_accounts s) \<Longrightarrow> qa_id r = qa_id a \<Longrightarrow> 0 \<le> qa_remaining_quota (f r)"
  shows "quota_inv (put_account s (qa_id a) f)"
    "balance (put_account s (qa_id a) f) = balance s + (qa_remaining_quota (f a) - qa_remaining_quota a)"
    "invites (put_account s (qa_id a) f) = invites s"
proof -
  show "quota_inv (put_account s (qa_id a) f)"
    using inv f by (auto simp: quota_inv_def put_account_def set_row_put supply_fresh_def)
  show "balance (put_account s (qa_id a) f) = balance s + (qa_remaining_quota (f a) - qa_remaining_quota a)"
    using inv a sum_row_put [of qa_id "quota_accounts s" a qa_remaining_quota]
    by (simp add: quota_inv_def put_account_def balance_def)
qed (simp add: put_account_def)

text \<open>
  An invite is paid for when its source is a user or a group whose bucket is limited.
\<close>

definition source_bucket :: "user_row \<Rightarrow> invite_create \<Rightarrow> (string \<times> id) option" where
  "source_bucket u payload =
     (let source_type = py_upper (or_else (Some (ic_source_type payload)) ''ADMIN_OVERRIDE'')
      in if source_type = ''USER'' then Some (''USER'', or_else (ic_source_id payload) (u_id u))
         else if source_type = ''GROUP'' then Some (''GROUP'', str_of (ic_source_id payload))
         else None)"

definition limited :: "session \<Rightarrow> string \<times> id \<Rightarrow> bool" where
  "limited s b = (case find_account s (fst b) (snd b) of None \<Rightarrow> True | Some a \<Rightarrow> \<not> qa_is_unlimited a)"

definition invites_paid :: "session \<Rightarrow> user_row \<Rightarrow> invite_create \<Rightarrow> bool" where
  "invites_paid s u payload = (case source_bucket u payload of None \<Rightarrow> False | Some b \<Rightarrow> limited s b)"

lemma put_account_conj:
  assumes "quota_inv s" "a \<in> set (quota_accounts s)" "\<And>r. qa_id (f r) = qa_id r"
    and "\<And>r. r \<in> set (quota_accounts s) \<Longrightarrow> qa_id r = qa_id a \<Longrightarrow> 0 \<le> qa_remaining_quota (f r)"
    and "qa_remaining_quota (f a) - qa_remaining_quota a = d"
  shows "quota_inv (put_account s (qa_id a) f) \<and> invites (put_account s (qa_id a) f) = invites s \<and>
         balance (put_account s (qa_id a) f) = balance s + d"
  using put_account_facts [of s a f, OF assms(1-4)] assms(5) by simp

lemma get_or_create_account_twice:
  assumes "get_or_create_account s t i = (a, s1)"
  shows "get_or_create_account s1 t i = (a, s1)"
proof (cases "find_account s t i")
  case None
  then have "a = \<lparr>qa_id = new_id s, qa_target_type = t, qa_target_id = i, qa_remaining_quota = 0,
        qa_is_unlimited = False, qa_updated_at = clock s\<rparr>"
    "s1 = (take_id s)\<lparr>quota_accounts := row_add a (quota_accounts s)\<rparr>"
    using assms by (auto simp: get_or_create_account_def Let_def)
  then show ?thesis
    using None by (simp add: get_or_create_account_def find_account_def row_add_def find_append)
qed (use assms in \<open>auto simp: get_or_create_account_def\<close>)

lemma limited_account: "get_or_create_account s t i = (a, s1) \<Longrightarrow> limited s (t, i) \<longleftrightarrow> \<not> qa_is_unlimited a"
  by (auto simp: get_or_create_account_def limited_def Let_def split: option.splits)

lemma check_and_consume_facts:
  assumes inv: "quota_inv s" and pos: "0 \<le> amount"
    and t: "t = ''USER'' \<or> t = ''GROUP''" and ok: "check_and_consume s t i amount = Inr s'"
  shows "quota_inv s'" "invites s' = invites s"
    "balance s' = balance s - (if limited s (t, i) then amount else 0)"
proof -
  obtain a s1 where g: "get_or_create_account s t i = (a, s1)" by fastforce
  note g1 = get_or_create_account_facts [OF inv g]
  have up: "py_upper t = t" using t by (auto simp: py_upper_def is_ascii_lower_def)
  have c: "consume_quota s1 t i amount = Inr s'" and
    enough: "qa_is_unlimited a \<or> amount \<le> qa_remaining_quota a"
    using ok g up by (auto simp: check_and_consume_def get_summary_def result_simps consume_quota_def
        get_or_create_account_twice [OF g] split: if_splits)
  have "quota_inv s' \<and> invites s' = invites s \<and>
      balance s' = balance s - (if limited s (t, i) then amount else 0)"
  proof (cases "qa_is_unlimited a")
    case True
    then show ?thesis using c g1 limited_account [OF g]
      by (simp add: consume_quota_def get_or_create_account_twice [OF g])
  next
    case False
    then have s': "s' = put_account s1 (qa_id a) (\<lambda>r. r\<lparr>qa_remaining_quota := qa_remaining_quota a - amount\<rparr>)"
      using c enough by (simp add: consume_quota_def get_or_create_account_twice [OF g])
    show ?thesis
      using put_account_facts [OF g1(1,2), of "\<lambda>r. r\<lparr>qa_remaining_quota := qa_remaining_quota a - amount\<rparr>"]
        False enough g1(3,4) limited_account [OF g] unfolding s' by simp
  qed
  then show "quota_inv s'" "invites s' = invites s"
    "balance s' = balance s - (if limited s (t, i) then amount else 0)" by simp_all
qed

text \<open>
  A committed operation of the service and the credit it mints: the quota of an invite that no
  limited bucket pays for, the amount of a grant, the change an administrator makes by hand.
\<close>

inductive invite_step :: "session \<Rightarrow> int \<Rightarrow> session \<Rightarrow> bool" where
  create: "create_invite s pick payload u = Inr (i, s') \<Longrightarrow> 1 \<le> ic_quota_total payload \<Longrightarrow>
     d = (if invites_paid s u payload then 0 else ic_quota_total payload) \<Longrightarrow> invite_step s d s'"
| revoke: "revoke_invite s code = Inr (i, s') \<Longrightarrow> invite_step s 0 s'"
| grant: "create_grant s gp u = Inr (g, s') \<Longrightarrow> 1 \<le> igc_amount gp \<Longrightarrow>
     d = (if igc_is_unlimited gp then 0 else igc_amount gp) \<Longrightarrow> invite_step s d s'"
| revoke_grant: "revoke_grant s gid u = Inr (g, s') \<Longrightarrow> invite_step s 0 s'"
| summary: "get_summary s tt ti = Inr (x, s') \<Longrightarrow> invite_step s 0 s'"
| redeem: "redeem_invite s code uid q = Inr (r, s') \<Longrightarrow> 1 \<le> q \<Longrightarrow> invite_step s 0 s'"

definition credit :: "session \<Rightarrow> int" where
  "credit s = balance s + capacity s"

lemma charge_source_facts:
  assumes inv: "quota_inv s" and pos: "0 \<le> ic_quota_total payload"
    and ok: "charge_source s u (py_upper (or_else (Some (ic_source_type payload)) ''ADMIN_OVERRIDE''))
               (ic_source_id payload) (ic_quota_total payload) = Inr (src, s1)"
  shows "quota_inv s1" "invites s1 = invites s"
    "balance s1 = balance s - (if invites_paid s u payload then ic_quota_total payload else 0)"
proof -
  let ?t = "py_upper (or_else (Some (ic_source_type payload)) ''ADMIN_OVERRIDE'')"
  have "quota_inv s1 \<and> invites s1 = invites s \<and>
      balance s1 = balance s - (if invites_paid s u payload then ic_quota_total payload else 0)"
  proof (cases "?t = ''USER''")
    case True
    then have "check_and_consume s ''USER'' (or_else (ic_source_id payload) (u_id u)) (ic_quota_total payload) = Inr s1"
      using ok by (auto simp: charge_source_def Let_def result_simps)
    from check_and_consume_facts [OF inv pos _ this] True show ?thesis
      by (simp add: invites_paid_def source_bucket_def)
  next
    case user: False
    show ?thesis
    proof (cases "?t = ''GROUP''")
      case True
      then have "check_and_consume s ''GROUP'' (str_of (ic_source_id payload)) (ic_quota_total payload) = Inr s1"
        using ok by (auto simp: charge_source_def Let_def result_simps split: if_splits)
      from check_and_consume_facts [OF inv pos _ this] True show ?thesis
        by (simp add: invites_paid_def source_bucket_def)
    next
      case False
      then show ?thesis using ok user inv
        by (auto simp: charge_source_def invites_paid_def source_bucket_def split: if_splits)
    qed
  qed
  then show "quota_inv s1" "invites s1 = invites s"
    "balance s1 = balance s - (if invites_paid s u payload then ic_quota_total payload else 0)" by simp_all
qed

lemma create_invite_credit:
  assumes inv: "quota_inv s" and pos: "1 \<le> ic_quota_total payload"
    and ok: "create_invite s pick payload u = Inr (i, s')"
  shows "quota_inv s' \<and> credit s' = credit s + (if invites_paid s u payload then 0 else ic_quota_total payload)"
proof -
  obtain src s1 where c: "charge_source s u (py_upper (or_else (Some (ic_source_type payload)) ''ADMIN_OVERRIDE''))
               (ic_source_id payload) (ic_quota_total payload) = Inr (src, s1)"
    and i: "iv_id i = new_id s1" "iv_quota_total i = ic_quota_total payload" "iv_quota_used i = 0"
    and s': "s' = (take_id s1)\<lparr>invites := row_add i (invites s1)\<rparr>"
    using ok by (auto simp: create_invite_def Let_def result_simps split: option.splits if_splits)
  note f = charge_source_facts [OF inv _ c]
  have fresh: "supply_fresh s1 (row_ids qa_id (quota_accounts s1) \<union> row_ids iv_id (invites s1))"
    using f(1) pos by (simp add: quota_inv_def)
  have "supply_fresh s' (insert (new_id s1) (row_ids qa_id (quota_accounts s1) \<union> row_ids iv_id (invites s1)))"
    using supply_fresh_take_id [OF fresh] by (simp add: s' supply_fresh_def)
  then have "quota_inv s'"
    using f(1) pos i new_id_fresh [OF fresh] by (auto simp: quota_inv_def s' take_id_def)
  moreover have "credit s' = credit s + (if invites_paid s u payload then 0 else ic_quota_total payload)"
    using f(2,3) pos i by (simp add: credit_def balance_def capacity_def s' sum_row_add take_id_def)
  ultimately show ?thesis ..
qed

lemma create_grant_credit:
  assumes inv: "quota_inv s" and pos: "1 \<le> igc_amount gp" and ok: "create_grant s gp u = Inr (g, s')"
  shows "quota_inv s' \<and> credit s' = credit s + (if igc_is_unlimited gp then 0 else igc_amount gp)"
proof -
  define s1 where "s1 = (take_id s)\<lparr>quota_grants := row_add (new_grant s gp u) (quota_grants s)\<rparr>"
  obtain a s2 where a: "get_or_create_account s1 (py_upper (igc_target_type gp)) (igc_target_id gp) = (a, s2)"
    by fastforce
  have s': "s' = put_account s2 (qa_id a) (\<lambda>r. if igc_is_unlimited gp then r\<lparr>qa_is_unlimited := True\<rparr>
                   else r\<lparr>qa_remaining_quota := qa_remaining_quota a + igc_amount gp\<rparr>)"
    using ok a by (auto simp: create_grant_def Let_def result_simps s1_def)
  have q1: "quota_inv s1" by (rule quota_inv_take [OF inv]) (simp_all add: s1_def take_id_def)
  note f = get_or_create_account_facts [OF q1 a]
  have nonneg: "0 \<le> qa_remaining_quota r" if "r \<in> set (quota_accounts s2)" for r
    using f(1) that by (simp add: quota_inv_def)
  have "quota_inv s' \<and> invites s' = invites s2 \<and>
      balance s' = balance s2 + (if igc_is_unlimited gp then 0 else igc_amount gp)"
    unfolding s' by (rule put_account_conj [OF f(1,2)]) (use nonneg f(2) pos in auto)
  moreover have "balance s1 = balance s" "invites s1 = invites s" by (simp_all add: s1_def balance_def take_id_def)
  ultimately show ?thesis using f(3,4) by (simp add: credit_def capacity_def)
qed

lemma redeem_invite_credit:
  assumes inv: "quota_inv s" and pos: "1 \<le> q" and ok: "redeem_invite s code uid q = Inr (r, s')"
  shows "quota_inv s' \<and> credit s' = credit s"
proof -
  obtain i where i: "get_invite_by_code s code = Inr i" "iv_quota_used i + q \<le> iv_quota_total i"
    using ok by (auto simp: redeem_invite_def result_simps split: if_splits)
  define s1 where "s1 = (take_id s)\<lparr>invites := row_put iv_id (iv_id i) (\<lambda>r. r\<lparr>iv_quota_used := iv_quota_used i + q\<rparr>) (invites s),
                            quota_grants := row_add (redeem_grant s i uid q) (quota_grants s)\<rparr>"
  obtain a s2 where a: "get_or_create_account s1 ''USER'' uid = (a, s2)" by fastforce
  have s': "s' = put_account s2 (qa_id a) (\<lambda>r. r\<lparr>qa_remaining_quota := qa_remaining_quota a + q\<rparr>)"
    using ok a i by (auto simp: redeem_invite_def result_simps Let_def s1_def split: if_splits)
  have im: "i \<in> set (invites s)"
    using i(1) by (auto simp: get_invite_by_code_def split: option.splits dest: find_SomeD)
  have same: "j = i" if "j \<in> set (invites s)" "iv_id j = iv_id i" for j
    using inv im that by (auto simp: quota_inv_def distinct_map dest: inj_onD)
  have q1: "quota_inv s1"
    using inv i(2) im pos
    by (auto simp: quota_inv_def s1_def take_id_def set_row_put supply_fresh_def dest: same)
  have cap: "capacity s1 = capacity s - q"
    using inv im sum_row_put [of iv_id "invites s" i "\<lambda>i. iv_quota_total i - iv_quota_used i"]
    by (simp add: capacity_def s1_def quota_inv_def del: sum_list_subtractf)
  note f = get_or_create_account_facts [OF q1 a]
  have "0 \<le> qa_remaining_quota a" using f(1,2) by (simp add: quota_inv_def)
  then have "quota_inv s' \<and> invites s' = invites s2 \<and> balance s' = balance s2 + q"
    unfolding s' by (intro put_account_conj [OF f(1,2)]) (use pos in auto)
  moreover have "balance s1 = balance s" by (simp add: s1_def balance_def take_id_def)
  ultimately show ?thesis using f(3,4) cap by (simp add: credit_def capacity_def)
qed


definition sample_user :: "id \<Rightarrow> string \<Rightarrow> id option \<Rightarrow> user_row" where
  "sample_user i name role =
     \<lparr>u_id = i, u_username = name, u_email = None, u_password_hash = [], u_role_id = role,
      u_primary_group_id = Some ROOT_GROUP_ID, u_permissions = [], u_timezone = ''UTC'', u_is_active = True,
      u_created_at = 0\<rparr>"

definition sample_invites :: session where
  "sample_invites = (empty_session 100)
     \<lparr>users := [sample_user ''u1'' ''ann'' None], groups := [sample_group ROOT_GROUP_ID None 0],
      quota_accounts := [\<lparr>qa_id = ''q1'', qa_target_type = ''USER'', qa_target_id = ''u1'',
         qa_remaining_quota = 5, qa_is_unlimited = False, qa_updated_at = 0\<rparr>]\<rparr>"

definition sample_invite_create :: invite_create where
  "sample_invite_create = \<lparr>ic_code = Some ''WELCOME'', ic_prefix = None, ic_quota_total = 3,
     ic_expires_at = Some 200, ic_created_for = None, ic_registration_group_id = ROOT_GROUP_ID,
     ic_source_type = ''user'', ic_source_id = None\<rparr>"

lemma sample_invites_inv: "quota_inv sample_invites"
proof -
  have "id_literal n \<noteq> ''q1''" for n by (simp add: id_literal_def)
  then have "supply_fresh sample_invites {''q1''}"
    by (auto simp: supply_fresh_def sample_invites_def empty_session_def id_literal_inj)
  then show ?thesis by (simp add: quota_inv_def sample_invites_def row_ids_def) (simp add: empty_session_def)
qed

lemma sample_create_ok:
  "\<exists>i s'. create_invite sample_invites (\<lambda>_ _. 0) sample_invite_create (sample_user ''u1'' ''ann'' None) = Inr (i, s')"
proof -
  have "(case create_invite sample_invites (\<lambda>_ _. 0) sample_invite_create (sample_user ''u1'' ''ann'' None) of
          Inl e \<Rightarrow> False | Inr _ \<Rightarrow> True)" by code_simp
  then show ?thesis by (auto split: sum.splits)
qed


end
