(* ===== verification/SystemSettings.thy ===== *)
theory SystemSettings
  imports Rbac
begin

text \<open>
  The singleton row of system settings, the memory profiles and the model whitelist
  (\<open>services/catalog/system_settings_service.py\<close>).
\<close>

definition DEFAULT_ROW_ID :: id where "DEFAULT_ROW_ID = ''default''"

definition default_profile :: "string \<Rightarrow> dict" where
  "default_profile request_mode =
     [(''request_mode'', JStr request_mode), (''read_long_term_memory'', JBool True),
      (''read_fact_cache'', JBool True), (''vector_recall_limit'', JInt 20), (''prompt_memory_limit'', JInt 5),
      (''tag_match_weight'', JNum (5 / 100)), (''vector_weight'', JNum (45 / 100)),
      (''importance_weight'', JNum (25 / 100)), (''recency_weight'', JNum (15 / 100)),
      (''confidence_weight'', JNum (10 / 100)), (''candidate_promote_hits'', JInt 2),
      (''candidate_ttl_hours'', JInt 72), (''fact_cache_ttl_minutes'', JInt 120),
      (''maintenance_decay_days'', JInt 90), (''maintenance_decay_factor'', JNum (95 / 100)),
      (''archive_after_days'', JInt 180), (''access_importance_boost'', JNum (2 / 100))]"

definition DEFAULT_MEMORY_PROFILES :: dict where
  "DEFAULT_MEMORY_PROFILES =
     [(''reply_only'', JObj (default_profile ''reply_only'')),
      (''single_pass'', JObj (default_profile ''single_pass'')),
      (''meta_reply'', JObj (default_profile ''meta_reply''))]"

definition default_settings :: system_settings_row where
  "default_settings =
     \<lparr>ss_id = DEFAULT_ROW_ID, ss_allow_registration = False, ss_max_chat_turns = 0, ss_allowed_model_ids = [],
      ss_default_cocoon_temperature = 7 / 10, ss_default_max_context_messages = 12,
      ss_default_auto_compaction_enabled = True, ss_private_chat_debounce_seconds = 2,
      ss_group_chat_debounce_seconds = 2, ss_rollback_retention_days = 30,
      ss_rollback_cleanup_interval_hours = 24, ss_default_memory_profile = ''meta_reply'',
      ss_memory_profiles = DEFAULT_MEMORY_PROFILES\<rparr>"

definition get_settings :: "session \<Rightarrow> system_settings_row \<times> session" where
  "get_settings s =
     (case row_get ss_id DEFAULT_ROW_ID (system_settings s) of
        Some r \<Rightarrow> (r, s)
      | None \<Rightarrow> (default_settings, s\<lparr>system_settings := row_add default_settings (system_settings s)\<rparr>))"

text \<open>
  The fields of a settings update; \<open>None\<close> when unset. A null whitelist counts as the empty one; the
  other columns do not accept null.
\<close>

record settings_update =
  su_allowed_model_ids :: "id list option"
  su_allow_registration :: "bool option"
  su_max_chat_turns :: "int option"
  su_default_max_context_messages :: "int option"
  su_default_auto_compaction_enabled :: "bool option"
  su_private_chat_debounce_seconds :: "int option"
  su_group_chat_debounce_seconds :: "int option"
  su_rollback_retention_days :: "int option"
  su_rollback_cleanup_interval_hours :: "int option"
  su_default_memory_profile :: "string option"
  su_memory_profiles :: "dict option"

definition keep_or :: "'a option \<Rightarrow> 'a \<Rightarrow> 'a" where
  "keep_or new old = (case new of None \<Rightarrow> old | Some x \<Rightarrow> x)"

definition apply_settings :: "settings_update \<Rightarrow> system_settings_row \<Rightarrow> system_settings_row" where
  "apply_settings p r =
     (let r1 = r\<lparr>ss_allowed_model_ids := keep_or (su_allowed_model_ids p) (ss_allowed_model_ids r),
                 ss_allow_registration := keep_or (su_allow_registration p) (ss_allow_registration r),
                 ss_max_chat_turns := keep_or (su_max_chat_turns p) (ss_max_chat_turns r),
                 ss_default_max_context_messages :=
                   keep_or (su_default_max_context_messages p) (ss_default_max_context_messages r),
                 ss_default_auto_compaction_enabled :=
                   keep_or (su_default_auto_compaction_enabled p) (ss_default_auto_compaction_enabled r),
                 ss_private_chat_debounce_seconds :=
                   keep_or (su_private_chat_debounce_seconds p) (ss_private_chat_debounce_seconds r),
                 ss_group_chat_debounce_seconds :=
                   keep_or (su_group_chat_debounce_seconds p) (ss_group_chat_debounce_seconds r),
                 ss_rollback_retention_days :=
                   keep_or (su_rollback_retention_days p) (ss_rollback_retention_days r),
                 ss_rollback_cleanup_interval_hours :=
                   keep_or (su_rollback_cleanup_interval_hours p) (ss_rollback_cleanup_interval_hours r),
                 ss_default_memory_profile :=
                   keep_or (su_default_memory_profile p) (ss_default_memory_profile r),
                 ss_memory_profiles := keep_or (su_memory_profiles p) (ss_memory_profiles r)\<rparr>;
          r2 = (if ss_memory_profiles r1 = [] then r1\<lparr>ss_memory_profiles := DEFAULT_MEMORY_PROFILES\<rparr> else r1)
      in if ss_default_memory_profile r2 = [] then r2\<lparr>ss_default_memory_profile := ''meta_reply''\<rparr> else r2)"

definition update_settings :: "session \<Rightarrow> settings_update \<Rightarrow> (system_settings_row \<times> session) result" where
  "update_settings s p =
     (let (current, s1) = get_settings s;
          allowed = (case su_allowed_model_ids p of None \<Rightarrow> [] | Some ids \<Rightarrow> ids);
          missing = filter (\<lambda>i. i \<notin> am_id ` set (available_models s1)) allowed
      in if missing \<noteq> []
         then Inl (HTTPException 400 (''Unknown allowed model ids: '' @ py_join '', '' missing))
         else Inr (apply_settings p current,
                   s1\<lparr>system_settings := row_put ss_id (ss_id current) (apply_settings p) (system_settings s1)\<rparr>))"

definition merge_profile :: "dict \<Rightarrow> string \<times> json \<Rightarrow> dict" where
  "merge_profile merged nv =
     (case snd nv of
        JObj values \<Rightarrow>
          dict_set (fst nv)
            (JObj (dict_merge (case dict_get (fst nv) merged of Some (JObj b) \<Rightarrow> b | _ \<Rightarrow> []) values)) merged
      | _ \<Rightarrow> merged)"

definition get_memory_profiles :: "session \<Rightarrow> dict \<times> session" where
  "get_memory_profiles s =
     (let (current, s1) = get_settings s
      in (foldl merge_profile DEFAULT_MEMORY_PROFILES (ss_memory_profiles current), s1))"

definition profile_of :: "dict \<Rightarrow> string \<Rightarrow> dict" where
  "profile_of profiles name = (case dict_get name profiles of Some (JObj d) \<Rightarrow> d | _ \<Rightarrow> [])"

definition get_memory_profile :: "session \<Rightarrow> string option \<Rightarrow> dict \<times> session" where
  "get_memory_profile s profile_name =
     (let (current, s1) = get_settings s;
          (profiles, s2) = get_memory_profiles s1;
          candidate = py_strip (or_else profile_name (or_else (Some (ss_default_memory_profile current)) ''meta_reply''));
          known = (dict_get candidate profiles \<noteq> None)
      in (dict_set ''name'' (JStr (if known then candidate else ''meta_reply''))
            (profile_of profiles (if known then candidate else ''meta_reply'')), s2))"

definition require_model_allowed :: "session \<Rightarrow> id \<Rightarrow> session result" where
  "require_model_allowed s model_id =
     (let (current, s1) = get_settings s
      in if ss_allowed_model_ids current \<noteq> [] \<and> model_id \<notin> set (ss_allowed_model_ids current)
         then Inl (HTTPException 400 ''Selected model is not allowed by system settings'')
         else Inr s1)"

definition list_allowed_models :: "session \<Rightarrow> available_model_row list \<times> session" where
  "list_allowed_models s =
     (let (current, s1) = get_settings s
      in (if ss_allowed_model_ids current = [] then []
          else List.map_filter (\<lambda>i. row_get am_id i (available_models s1)) (ss_allowed_model_ids current), s1))"

definition is_admin_user :: "session \<Rightarrow> user_row \<Rightarrow> bool" where
  "is_admin_user s u = (case get_role_for_user s u of None \<Rightarrow> False | Some role \<Rightarrow> r_name role = ''admin'')"

definition filter_visible_models ::
  "session \<Rightarrow> user_row \<Rightarrow> available_model_row list \<Rightarrow> available_model_row list \<times> session" where
  "filter_visible_models s u models =
     (let (current, s1) = get_settings s
      in (if ss_allowed_model_ids current = [] \<or> is_admin_user s1 u then models
          else filter (\<lambda>m. am_id m \<in> set (ss_allowed_model_ids current)) models, s1))"

lemma get_settings_again: "get_settings (snd (get_settings s)) = (fst (get_settings s), snd (get_settings s))"
  by (auto simp: get_settings_def row_get_add default_settings_def split: option.splits)

lemma get_settings_id: "ss_id (fst (get_settings s)) = DEFAULT_ROW_ID"
  by (auto simp: get_settings_def default_settings_def split: option.splits dest: row_get_SomeD)

lemma get_settings_stored:
  "row_get ss_id DEFAULT_ROW_ID (system_settings (snd (get_settings s))) = Some (fst (get_settings s))"
  by (cases "row_get ss_id DEFAULT_ROW_ID (system_settings s)")
     (simp_all add: get_settings_def row_get_add default_settings_def)

lemma get_settings_frame:
  "snd (get_settings s) = s\<lparr>system_settings := system_settings (snd (get_settings s))\<rparr>"
  by (auto simp: get_settings_def split: option.splits)

lemma apply_settings_id [simp]: "ss_id (apply_settings p r) = ss_id r"
  by (simp add: apply_settings_def Let_def)

text \<open>The three built-in profiles are always there, whatever is configured on top of them.\<close>

lemma merge_profile_keeps:
  "dict_get k merged \<noteq> None \<Longrightarrow> dict_get k (foldl merge_profile merged cfg) \<noteq> None"
  by (induction cfg arbitrary: merged) (auto simp: merge_profile_def split: json.split)

lemma update_settings_read_back:
  assumes "update_settings s p = Inr (r, s')"
  shows "get_settings s' = (r, s')"
proof -
  obtain current s1 where g: "get_settings s = (current, s1)" by fastforce
  have c: "row_get ss_id DEFAULT_ROW_ID (system_settings s1) = Some current" "ss_id current = DEFAULT_ROW_ID"
    using get_settings_stored [of s] get_settings_id [of s] g by simp_all
  have "r = apply_settings p current"
    and "system_settings s' = row_put ss_id DEFAULT_ROW_ID (apply_settings p) (system_settings s1)"
    using assms g c(2) by (auto simp: update_settings_def Let_def split: if_splits)
  then show ?thesis using c by (simp add: get_settings_def row_get_put)
qed

text \<open>
  A settings update with an unknown model is refused; an accepted one is what the service reads
  back afterwards, with every unset field unchanged, a non-empty set of profiles and a non-empty
  default profile.
\<close>

theorem update_settings_correct:
  assumes "update_settings s p = Inr (r, s')"
  shows "get_settings s' = (r, s') \<and>
    set (case su_allowed_model_ids p of None \<Rightarrow> [] | Some ids \<Rightarrow> ids) \<subseteq> am_id ` set (available_models s') \<and>
    ss_memory_profiles r \<noteq> [] \<and> ss_default_memory_profile r \<noteq> [] \<and>
    (su_allow_registration p = None \<longrightarrow>
       ss_allow_registration r = ss_allow_registration (fst (get_settings s))) \<and>
    (su_allowed_model_ids p = None \<longrightarrow>
       ss_allowed_model_ids r = ss_allowed_model_ids (fst (get_settings s)))"
proof -
  obtain current s1 where g: "get_settings s = (current, s1)" by fastforce
  have m: "available_models s' = available_models s1"
    and known: "filter (\<lambda>i. i \<notin> am_id ` set (available_models s1))
        (case su_allowed_model_ids p of None \<Rightarrow> [] | Some ids \<Rightarrow> ids) = []"
    and r: "r = apply_settings p current"
    using assms g by (auto simp: update_settings_def Let_def split: if_splits)
  show ?thesis
    using update_settings_read_back [OF assms] known
    unfolding m r g
    by (auto simp: filter_empty_conv apply_settings_def keep_or_def Let_def DEFAULT_MEMORY_PROFILES_def)
qed

definition sample_settings_update :: settings_update where
  "sample_settings_update =
     \<lparr>su_allowed_model_ids = Some [''m1''], su_allow_registration = Some True, su_max_chat_turns = None,
      su_default_max_context_messages = None,
      su_default_auto_compaction_enabled = None, su_private_chat_debounce_seconds = None,
      su_group_chat_debounce_seconds = None, su_rollback_retention_days = None,
      su_rollback_cleanup_interval_hours = None, su_default_memory_profile = Some [],
      su_memory_profiles = Some []\<rparr>"

definition sample_catalog :: session where
  "sample_catalog = (empty_session 0)\<lparr>available_models :=
     [\<lparr>am_id = ''m1'', am_provider_id = ''p'', am_model_name = ''gpt'', am_model_kind = ''chat'',
       am_is_default = True, am_config = [], am_created_at = 0\<rparr>]\<rparr>"

theorem update_settings_correct_witness:
  "\<exists>r s'. update_settings sample_catalog sample_settings_update = Inr (r, s') \<and> get_settings s' = (r, s')"
proof -
  have "(case update_settings sample_catalog sample_settings_update of Inl e \<Rightarrow> False | Inr _ \<Rightarrow> True)" by code_simp
  then obtain r s' where "update_settings sample_catalog sample_settings_update = Inr (r, s')"
    by (auto split: sum.splits)
  from this update_settings_correct [OF this] show ?thesis by blast
qed

end
