(* ===== verification/Accounts.thy ===== *)
theory Accounts
  imports Authorization Invites SystemSettings TagPolicy
begin

text \<open>
  Accounts and authentication: users and roles (\<open>user_service.py\<close>, \<open>role_service.py\<close>), login,
  registration and refresh (\<open>auth_session_service.py\<close>), bearer tokens (\<open>token_service.py\<close>,
  \<open>token_authentication_service.py\<close>) and the one-time tokens that bind a chat account
  (\<open>im_bind_token_service.py\<close>). The hash and the JWT codec come from \<open>hashlib\<close> and PyJWT: they
  are parameters, with their documented behaviour as the hypothesis \<open>jwt_ok\<close>.
\<close>

section \<open>Settings, hashing and tokens\<close>

record auth_env =
  ae_admin :: string
  ae_access_minutes :: int
  ae_refresh_minutes :: int
  ae_hash :: "string \<Rightarrow> string"
  ae_encode :: "dict \<Rightarrow> string"
  ae_decode :: "time \<Rightarrow> string \<Rightarrow> dict result"

definition hash_secret :: "auth_env \<Rightarrow> string \<Rightarrow> string" where
  "hash_secret e secret = ae_hash e secret"

definition verify_secret :: "auth_env \<Rightarrow> string \<Rightarrow> string \<Rightarrow> bool" where
  "verify_secret e secret expected_hash = (hash_secret e secret = expected_hash)"

definition token_claims :: "bool \<Rightarrow> id \<Rightarrow> time \<Rightarrow> string \<Rightarrow> dict" where
  "token_claims is_refresh user_id expires jti =
     [(''sub'', JStr user_id)] @ (if is_refresh then [(''typ'', JStr ''refresh'')] else []) @
     [(''exp'', JInt expires), (''jti'', JStr jti)]"

definition access_claims :: "auth_env \<Rightarrow> session \<Rightarrow> id \<Rightarrow> dict" where
  "access_claims e s user_id = token_claims False user_id (clock s + minutes (ae_access_minutes e)) (new_id s)"

definition refresh_claims :: "auth_env \<Rightarrow> session \<Rightarrow> id \<Rightarrow> dict" where
  "refresh_claims e s user_id = token_claims True user_id (clock s + minutes (ae_refresh_minutes e)) (new_id s)"

definition create_access_token :: "auth_env \<Rightarrow> session \<Rightarrow> id \<Rightarrow> string \<times> session" where
  "create_access_token e s user_id = (ae_encode e (access_claims e s user_id), take_id s)"

definition create_refresh_token :: "auth_env \<Rightarrow> session \<Rightarrow> id \<Rightarrow> string \<times> session" where
  "create_refresh_token e s user_id = (ae_encode e (refresh_claims e s user_id), take_id s)"

definition decode_token :: "auth_env \<Rightarrow> session \<Rightarrow> string \<Rightarrow> dict result" where
  "decode_token e s token = ae_decode e (clock s) token"

text \<open>
  What PyJWT documents: decoding an encoded token before its expiry gives its claims back.
\<close>

definition jwt_ok :: "auth_env \<Rightarrow> bool" where
  "jwt_ok e \<longleftrightarrow> (\<forall>is_refresh user_id x jti t. t < x \<longrightarrow>
     ae_decode e t (ae_encode e (token_claims is_refresh user_id x jti)) =
       Inr (token_claims is_refresh user_id x jti))"

section \<open>Bearer tokens\<close>

definition resolve_active_user :: "auth_env \<Rightarrow> session \<Rightarrow> string \<Rightarrow> user_row result" where
  "resolve_active_user e s token =
     (case decode_token e s token of
        Inl _ \<Rightarrow> Inl (HTTPException 401 ''Invalid token'')
      | Inr payload \<Rightarrow>
          let user_id = dict_str_opt ''sub'' payload
          in if \<not> truthy user_id then Inl (HTTPException 401 ''Invalid token'')
             else case row_get u_id (str_of user_id) (users s) of
                    None \<Rightarrow> Inl (HTTPException 401 ''Inactive user'')
                  | Some u \<Rightarrow> if \<not> u_is_active u then Inl (HTTPException 401 ''Inactive user'') else Inr u)"

text \<open>The websocket variant turns the HTTP error into a policy violation (code 1008).\<close>

definition resolve_active_websocket_user :: "auth_env \<Rightarrow> session \<Rightarrow> string \<Rightarrow> user_row result" where
  "resolve_active_websocket_user e s token =
     (case resolve_active_user e s token of
        Inl (HTTPException _ detail) \<Rightarrow> Inl (OtherException (''WebSocketException 1008: '' @ detail))
      | Inl x \<Rightarrow> Inl x
      | Inr u \<Rightarrow> Inr u)"

definition require_user_permission :: "session \<Rightarrow> user_row \<Rightarrow> string \<Rightarrow> user_row result" where
  "require_user_permission s u permission = bind_r (require_permission s u permission) (\<lambda>_. Inr u)"

section \<open>Users\<close>

record user_create =
  uc_username :: string
  uc_email :: "string option"
  uc_password :: string
  uc_role_id :: "id option"
  uc_primary_group_id :: "id option"
  uc_permissions :: "(string \<times> bool) list"
  uc_timezone :: string
  uc_is_active :: bool

record user_update =
  uu_username :: "string option"
  uu_email :: "string option"
  uu_role_id :: "id option"
  uu_primary_group_id :: "id option"
  uu_permissions :: "(string \<times> bool) list option"
  uu_timezone :: "string option"
  uu_is_active :: "bool option"
  uu_password :: "string option"

definition list_users :: "session \<Rightarrow> user_row list" where
  "list_users s = sort_key u_created_at (users s)"

text \<open>The unique constraints of the table, checked when the row is flushed.\<close>

definition user_unique :: "session \<Rightarrow> user_row \<Rightarrow> bool" where
  "user_unique s u \<longleftrightarrow>
     (\<forall>v\<in>set (users s). u_id v \<noteq> u_id u \<longrightarrow>
        u_username v \<noteq> u_username u \<and> (u_email u = None \<or> u_email v \<noteq> u_email u))"

definition create_user :: "auth_env \<Rightarrow> session \<Rightarrow> user_create \<Rightarrow> (user_row \<times> session) result" where
  "create_user e s payload =
     (let (grp, s1) = resolve_registration_group s (uc_primary_group_id payload);
          u = \<lparr>u_id = new_id s1, u_username = uc_username payload, u_email = uc_email payload,
               u_password_hash = hash_secret e (uc_password payload), u_role_id = uc_role_id payload,
               u_primary_group_id = Some (g_id grp), u_permissions = uc_permissions payload,
               u_timezone = uc_timezone payload, u_is_active = uc_is_active payload,
               u_created_at = clock s1\<rparr>
      in if \<not> user_unique s1 u then Inl (IntegrityError ''users'')
         else let s2 = (take_id s1)\<lparr>users := row_add u (users s1)\<rparr>
              in Inr (u, snd (ensure_user_system_tag s2 (u_id u))))"

definition same_permissions :: "(string \<times> bool) list \<Rightarrow> (string \<times> bool) list \<Rightarrow> bool" where
  "same_permissions p q = (set p = set q)"

definition protected_change :: "user_row \<Rightarrow> user_update \<Rightarrow> bool" where
  "protected_change u p =
     ((uu_role_id p \<noteq> None \<and> uu_role_id p \<noteq> u_role_id u) \<or>
      (case uu_permissions p of None \<Rightarrow> False | Some q \<Rightarrow> \<not> same_permissions q (u_permissions u)) \<or>
      (case uu_is_active p of None \<Rightarrow> False | Some b \<Rightarrow> b \<noteq> u_is_active u))"

definition validate_update :: "auth_env \<Rightarrow> user_row \<Rightarrow> user_row \<Rightarrow> user_update \<Rightarrow> unit result" where
  "validate_update e actor u p =
     (if u_id actor = u_id u \<and> protected_change u p
      then Inl (HTTPException 403 ''Users cannot change their own role, permissions, or active status'')
      else if is_bootstrap_admin (ae_admin e) u \<and> protected_change u p
      then Inl (HTTPException 403
             ''Bootstrap admin role, permissions, and active status are managed by configuration'')
      else Inr ())"

definition set_user_fields :: "auth_env \<Rightarrow> user_update \<Rightarrow> id option \<Rightarrow> user_row \<Rightarrow> user_row" where
  "set_user_fields e p grp u =
     u\<lparr>u_username := keep_or (uu_username p) (u_username u),
       u_email := (if uu_email p = None then u_email u else uu_email p),
       u_role_id := (if uu_role_id p = None then u_role_id u else uu_role_id p),
       u_primary_group_id := (if grp = None then u_primary_group_id u else grp),
       u_permissions := keep_or (uu_permissions p) (u_permissions u),
       u_timezone := keep_or (uu_timezone p) (u_timezone u),
       u_is_active := keep_or (uu_is_active p) (u_is_active u),
       u_password_hash := (case uu_password p of None \<Rightarrow> u_password_hash u | Some w \<Rightarrow> hash_secret e w)\<rparr>"

text \<open>
  \<open>actor\<close> and the updated row may be the same object: the username is written before the actor is
  tested for a change of group, so the test sees the new name when users update themselves.
\<close>

definition update_user ::
  "auth_env \<Rightarrow> session \<Rightarrow> user_row \<Rightarrow> id \<Rightarrow> user_update \<Rightarrow> (user_row \<times> session) result" where
  "update_user e s actor user_id p =
     (case row_get u_id user_id (users s) of
        None \<Rightarrow> Inl (HTTPException 404 ''User not found'')
      | Some u \<Rightarrow>
          bind_r (validate_update e actor u p) (\<lambda>_.
          let actor_name = (if u_id actor = user_id then keep_or (uu_username p) (u_username actor)
                            else u_username actor)
          in bind_r (if uu_primary_group_id p \<noteq> None \<and> actor_name \<noteq> ae_admin e
                     then Inl (HTTPException 403 ''Only bootstrap admin can reassign primary groups'')
                     else Inr (if uu_primary_group_id p = None then (None, s)
                               else let (g, s1) = resolve_registration_group s (uu_primary_group_id p)
                                    in (Some (g_id g), s1))) (\<lambda>(grp, s1).
             let u' = set_user_fields e p grp u
             in if \<not> user_unique s1 u' then Inl (IntegrityError ''users'')
                else Inr (u', s1\<lparr>users := row_put u_id user_id (set_user_fields e p grp) (users s1)\<rparr>))))"

definition update_current_user_profile :: "session \<Rightarrow> user_row \<Rightarrow> string \<Rightarrow> user_row \<times> session" where
  "update_current_user_profile s u timezone =
     (u\<lparr>u_timezone := timezone\<rparr>,
      s\<lparr>users := row_put u_id (u_id u) (\<lambda>r. r\<lparr>u_timezone := timezone\<rparr>) (users s)\<rparr>)"

section \<open>Roles\<close>

definition list_roles :: "session \<Rightarrow> role_row list" where
  "list_roles s = sort_key r_created_at (roles s)"

definition role_unique :: "session \<Rightarrow> role_row \<Rightarrow> bool" where
  "role_unique s r \<longleftrightarrow> (\<forall>q\<in>set (roles s). r_id q \<noteq> r_id r \<longrightarrow> r_name q \<noteq> r_name r)"

definition create_role :: "session \<Rightarrow> string \<Rightarrow> (string \<times> bool) list \<Rightarrow> (role_row \<times> session) result" where
  "create_role s name permissions =
     (let r = \<lparr>r_id = new_id s, r_name = name, r_permissions = permissions, r_created_at = clock s\<rparr>
      in if \<not> role_unique s r then Inl (IntegrityError ''roles'')
         else Inr (r, (take_id s)\<lparr>roles := row_add r (roles s)\<rparr>))"

definition update_role ::
  "session \<Rightarrow> id \<Rightarrow> string option \<Rightarrow> (string \<times> bool) list option \<Rightarrow> (role_row \<times> session) result" where
  "update_role s role_id name permissions =
     (case row_get r_id role_id (roles s) of
        None \<Rightarrow> Inl (HTTPException 404 ''Role not found'')
      | Some r \<Rightarrow>
          let f = (\<lambda>r. r\<lparr>r_name := keep_or name (r_name r), r_permissions := keep_or permissions (r_permissions r)\<rparr>)
          in if \<not> role_unique s (f r) then Inl (IntegrityError ''roles'')
             else Inr (f r, s\<lparr>roles := row_put r_id role_id f (roles s)\<rparr>))"

section \<open>Login, registration and refresh\<close>

record token_pair =
  tp_access :: string
  tp_refresh :: string

definition issue_token_pair :: "auth_env \<Rightarrow> session \<Rightarrow> id \<Rightarrow> token_pair \<times> session" where
  "issue_token_pair e s user_id =
     (let (access, s1) = create_access_token e s user_id;
          (refresh, s2) = create_refresh_token e s1 user_id;
          row = \<lparr>as_id = new_id s2, as_user_id = user_id, as_refresh_token_hash = hash_secret e refresh,
                 as_expires_at = clock s2 + minutes (ae_refresh_minutes e), as_revoked_at = None\<rparr>
      in (\<lparr>tp_access = access, tp_refresh = refresh\<rparr>,
          (take_id s2)\<lparr>auth_sessions := row_add row (auth_sessions s2)\<rparr>))"

definition find_user_by_name :: "session \<Rightarrow> string \<Rightarrow> user_row option" where
  "find_user_by_name s username = List.find (\<lambda>u. u_username u = username) (users s)"

definition login :: "auth_env \<Rightarrow> session \<Rightarrow> string \<Rightarrow> string \<Rightarrow> (token_pair \<times> session) result" where
  "login e s username password =
     (case find_user_by_name s username of
        None \<Rightarrow> Inl (HTTPException 401 ''Invalid credentials'')
      | Some u \<Rightarrow>
          if \<not> verify_secret e password (u_password_hash u) then Inl (HTTPException 401 ''Invalid credentials'')
          else if \<not> u_is_active u then Inl (HTTPException 403 ''User account is inactive'')
          else Inr (issue_token_pair e s (u_id u)))"

record register_request =
  rr_username :: string
  rr_password :: string
  rr_email :: "string option"
  rr_invite_code :: string
  rr_timezone :: string

definition add_membership_unless :: "session \<Rightarrow> id \<Rightarrow> id \<Rightarrow> session" where
  "add_membership_unless s group_id user_id =
     (if find_group_member s group_id user_id \<noteq> None then s
      else let m = \<lparr>gm_id = new_id s, gm_group_id = group_id, gm_user_id = user_id,
                    gm_member_role = ''member'', gm_created_at = clock s\<rparr>
           in (take_id s)\<lparr>group_members := row_add m (group_members s)\<rparr>)"

text \<open>The checks of a registration, in the order of the source; \<open>None\<close> when all pass.\<close>

definition register_refusal :: "session \<Rightarrow> system_settings_row \<Rightarrow> register_request \<Rightarrow> py_exc option" where
  "register_refusal s current p =
     (if \<not> ss_allow_registration current then Some (HTTPException 403 ''Registration is disabled'')
      else if find_user_by_name s (rr_username p) \<noteq> None then Some (HTTPException 400 ''Username already exists'')
      else if truthy (rr_email p) \<and> List.find (\<lambda>u. u_email u = rr_email p) (users s) \<noteq> None
        then Some (HTTPException 400 ''Email already exists'')
      else case get_invite_by_code s (rr_invite_code p) of
             Inl x \<Rightarrow> Some x
           | Inr invite \<Rightarrow>
               (case invite_usable s invite of
                  Inl x \<Rightarrow> Some x
                | Inr _ \<Rightarrow>
                    if iv_quota_used invite \<ge> iv_quota_total invite
                    then Some (HTTPException 400 ''Invite quota exceeded'')
                    else if List.find (\<lambda>r. r_name r = ''user'') (roles s) = None
                    then Some (HTTPException 500 ''Default user role is not configured'')
                    else None))"

definition register :: "auth_env \<Rightarrow> session \<Rightarrow> register_request \<Rightarrow> (token_pair \<times> session) result" where
  "register e s p =
     (let (current, s1) = get_settings s
      in case register_refusal s1 current p of
           Some x \<Rightarrow> Inl x
         | None \<Rightarrow>
             bind_r (get_invite_by_code s1 (rr_invite_code p)) (\<lambda>invite.
             let role_id = map_option r_id (List.find (\<lambda>r. r_name r = ''user'') (roles s1));
                 (root, s2) = ensure_root_group s1;
                 u = \<lparr>u_id = new_id s2, u_username = rr_username p, u_email = rr_email p,
                      u_password_hash = hash_secret e (rr_password p), u_role_id = role_id,
                      u_primary_group_id = Some (g_id root), u_permissions = [], u_timezone = rr_timezone p,
                      u_is_active = True, u_created_at = clock s2\<rparr>;
                 s3 = (take_id s2)\<lparr>users := row_add u (users s2)\<rparr>;
                 (_, s4) = ensure_user_system_tag s3 (u_id u);
                 (grp, s5) = resolve_registration_group s4 (iv_registration_group_id invite);
                 s6 = s5\<lparr>users := row_put u_id (u_id u) (\<lambda>r. r\<lparr>u_primary_group_id := Some (g_id grp)\<rparr>) (users s5)\<rparr>;
                 s7 = add_membership_unless s6 (g_id grp) (u_id u);
                 s8 = s7\<lparr>invites := row_put iv_id (iv_id invite)
                            (\<lambda>i. i\<lparr>iv_quota_used := iv_quota_used i + 1\<rparr>) (invites s7)\<rparr>
             in Inr (issue_token_pair e s8 (u_id u))))"

definition refresh_session :: "auth_env \<Rightarrow> session \<Rightarrow> string \<Rightarrow> (token_pair \<times> session) result" where
  "refresh_session e s refresh_token =
     bind_r (decode_token e s refresh_token) (\<lambda>decoded.
     if dict_get ''typ'' decoded \<noteq> Some (JStr ''refresh'') then Inl (HTTPException 401 ''Invalid refresh token'')
     else case List.find (\<lambda>a. as_refresh_token_hash a = hash_secret e refresh_token \<and> as_revoked_at a = None)
                 (auth_sessions s) of
            None \<Rightarrow> Inl (HTTPException 401 ''Unknown refresh token'')
          | Some a \<Rightarrow>
              let (access, s1) = create_access_token e s (as_user_id a);
                  (next_refresh, s2) = create_refresh_token e s1 (as_user_id a)
              in Inr (\<lparr>tp_access = access, tp_refresh = next_refresh\<rparr>,
                      s2\<lparr>auth_sessions := row_put as_id (as_id a)
                          (\<lambda>r. r\<lparr>as_refresh_token_hash := hash_secret e next_refresh\<rparr>) (auth_sessions s2)\<rparr>))"

definition logout :: "auth_env \<Rightarrow> session \<Rightarrow> string \<Rightarrow> session" where
  "logout e s refresh_token =
     (case List.find (\<lambda>a. as_refresh_token_hash a = hash_secret e refresh_token) (auth_sessions s) of
        None \<Rightarrow> s
      | Some a \<Rightarrow> s\<lparr>auth_sessions := row_put as_id (as_id a)
                      (\<lambda>r. r\<lparr>as_revoked_at := Some (clock s)\<rparr>) (auth_sessions s)\<rparr>)"

section \<open>Tokens that bind a chat account\<close>

definition im_active :: "time \<Rightarrow> im_token_row \<Rightarrow> bool" where
  "im_active now t = (it_revoked_at t = None \<and> it_expires_at t > now)"

definition revoke_active_tokens :: "session \<Rightarrow> id \<Rightarrow> time \<Rightarrow> session" where
  "revoke_active_tokens s user_id now =
     s\<lparr>im_tokens := map (\<lambda>t. if it_user_id t = user_id \<and> im_active now t
                             then t\<lparr>it_revoked_at := Some now, it_updated_at := now\<rparr> else t) (im_tokens s)\<rparr>"

definition prune_expired_tokens :: "session \<Rightarrow> time \<Rightarrow> session" where
  "prune_expired_tokens s now =
     s\<lparr>im_tokens := map (\<lambda>t. if it_revoked_at t = None \<and> it_expires_at t \<le> now
                             then t\<lparr>it_revoked_at := Some now, it_updated_at := now\<rparr> else t) (im_tokens s)\<rparr>"

text \<open>The parameter \<open>token\<close> is what \<open>secrets.token_urlsafe(9)\<close> delivers.\<close>

definition issue_for_user ::
  "auth_env \<Rightarrow> int \<Rightarrow> session \<Rightarrow> user_row \<Rightarrow> string \<Rightarrow> (string \<times> im_token_row) \<times> session" where
  "issue_for_user e ttl_seconds s u token =
     (let now = clock s;
          s1 = prune_expired_tokens (revoke_active_tokens s (u_id u) now) now;
          row = \<lparr>it_id = new_id s1, it_user_id = u_id u, it_token_hash = hash_secret e token,
                 it_expires_at = now + seconds ttl_seconds, it_revoked_at = None,
                 it_last_validated_at = None, it_created_at = now, it_updated_at = now\<rparr>
      in ((token, row), (take_id s1)\<lparr>im_tokens := row_add row (im_tokens s1)\<rparr>))"

definition verify_user_token ::
  "auth_env \<Rightarrow> session \<Rightarrow> string \<Rightarrow> string \<Rightarrow> (user_row \<times> session) result" where
  "verify_user_token e s username token =
     (let name = py_strip username; tok = py_strip token
      in if name = [] \<or> tok = [] then Inl (ValueError ''username and token are required'')
         else case find_user_by_name s name of
                None \<Rightarrow> Inl (ValueError ''invalid username or token'')
              | Some u \<Rightarrow>
                  if \<not> u_is_active u then Inl (ValueError ''invalid username or token'')
                  else let now = clock s;
                           s1 = prune_expired_tokens s now;
                           candidates = sort_key (\<lambda>t. - it_created_at t)
                             (filter (\<lambda>t. it_user_id t = u_id u \<and> im_active now t) (im_tokens s1))
                       in case List.find (\<lambda>t. verify_secret e tok (it_token_hash t)) candidates of
                            None \<Rightarrow> Inl (ValueError ''invalid username or token'')
                          | Some t \<Rightarrow>
                              Inr (u, s1\<lparr>im_tokens := row_put it_id (it_id t)
                                 (\<lambda>r. r\<lparr>it_last_validated_at := Some now, it_updated_at := now\<rparr>) (im_tokens s1)\<rparr>))"

section \<open>Sessions and bearer tokens\<close>

lemma decode_fresh_refresh:
  "jwt_ok e \<Longrightarrow> 0 < ae_refresh_minutes e \<Longrightarrow> clock s' = clock s \<Longrightarrow>
   decode_token e s' (ae_encode e (refresh_claims e s u)) = Inr (refresh_claims e s u)"
  by (simp add: jwt_ok_def decode_token_def refresh_claims_def)

lemma decode_fresh_access:
  "jwt_ok e \<Longrightarrow> 0 < ae_access_minutes e \<Longrightarrow> clock s' = clock s \<Longrightarrow>
   decode_token e s' (ae_encode e (access_claims e s u)) = Inr (access_claims e s u)"
  by (simp add: jwt_ok_def decode_token_def access_claims_def)

lemma claims_simps [simp]:
  "dict_get ''sub'' (access_claims e s u) = Some (JStr u)" "dict_get ''sub'' (refresh_claims e s u) = Some (JStr u)"
  "dict_get ''typ'' (access_claims e s u) = None" "dict_get ''typ'' (refresh_claims e s u) = Some (JStr ''refresh'')"
  "dict_get ''jti'' (refresh_claims e s u) = Some (JStr (new_id s))"
  by (simp_all add: access_claims_def refresh_claims_def token_claims_def)

lemma issue_token_pair_simps:
  "tp_access (fst (issue_token_pair e s u)) = ae_encode e (access_claims e s u)"
  "tp_refresh (fst (issue_token_pair e s u)) = ae_encode e (refresh_claims e (take_id s) u)"
  "users (snd (issue_token_pair e s u)) = users s"
  "clock (snd (issue_token_pair e s u)) = clock s"
  "auth_sessions (snd (issue_token_pair e s u)) = row_add
     \<lparr>as_id = new_id (take_id (take_id s)), as_user_id = u,
      as_refresh_token_hash = hash_secret e (ae_encode e (refresh_claims e (take_id s) u)),
      as_expires_at = clock s + minutes (ae_refresh_minutes e), as_revoked_at = None\<rparr> (auth_sessions s)"
  "invites (snd (issue_token_pair e s u)) = invites s"
  "group_members (snd (issue_token_pair e s u)) = group_members s"
  by (simp_all add: issue_token_pair_def create_access_token_def create_refresh_token_def take_id_def)

lemma refresh_accepts:
  assumes "decode_token e s token = Inr claims" "dict_get ''typ'' claims = Some (JStr ''refresh'')"
    and "a \<in> set (auth_sessions s)" "as_refresh_token_hash a = hash_secret e token" "as_revoked_at a = None"
  shows "\<exists>r. refresh_session e s token = Inr r"
proof -
  have "List.find (\<lambda>a. as_refresh_token_hash a = hash_secret e token \<and> as_revoked_at a = None) (auth_sessions s) \<noteq> None"
    using assms(3-5) by (auto simp: find_None)
  then show ?thesis
    using assms(1,2) by (auto simp: refresh_session_def split: prod.splits)
qed


section \<open>A codec for the examples\<close>

definition toy_encode :: "dict \<Rightarrow> string" where
  "toy_encode claims =
     (case (dict_get ''sub'' claims, dict_get ''exp'' claims, dict_get ''jti'' claims) of
        (Some (JStr sub), Some (JInt x), Some (JStr jti)) \<Rightarrow>
          (if dict_get ''typ'' claims = None then CHR ''a'' else CHR ''r'') #
          (if x < 0 then CHR ''-'' else CHR ''+'') #
          replicate (nat \<bar>x\<bar>) CHR ''d'' @ CHR ''e'' # replicate (length sub) CHR ''d'' @ CHR ''e'' # sub @ jti
      | _ \<Rightarrow> [])"

definition toy_decode :: "time \<Rightarrow> string \<Rightarrow> dict result" where
  "toy_decode t token =
     (case token of
        kind # sign # rest \<Rightarrow>
          (let n = length (takeWhile (\<lambda>c. c = CHR ''d'') rest);
               rest1 = drop (Suc n) rest;
               k = length (takeWhile (\<lambda>c. c = CHR ''d'') rest1);
               rest2 = drop (Suc k) rest1;
               x = (if sign = CHR ''-'' then - int n else int n)
           in if t < x then Inr (token_claims (kind = CHR ''r'') (take k rest2) x (drop k rest2))
              else Inl (OtherException ''ExpiredSignatureError''))
      | _ \<Rightarrow> Inl (OtherException ''DecodeError''))"

definition toy_env :: auth_env where
  "toy_env = \<lparr>ae_admin = ''admin'', ae_access_minutes = 30, ae_refresh_minutes = 600,
     ae_hash = (\<lambda>x. CHR ''h'' # x), ae_encode = toy_encode, ae_decode = toy_decode\<rparr>"

lemma takeWhile_replicate: "takeWhile (\<lambda>c. c = a) (replicate n a @ b # xs) = replicate n a" if "b \<noteq> a"
  using that by (induction n) auto

lemma toy_jwt_ok: "jwt_ok toy_env"
  by (auto simp: jwt_ok_def toy_env_def toy_encode_def toy_decode_def token_claims_def takeWhile_replicate Let_def)

definition toy_session :: session where
  "toy_session = (empty_session 0)
     \<lparr>users := [(sample_user ''u1'' ''ann'' None)\<lparr>u_password_hash := ''hpw''\<rparr>,
                (sample_user ''u2'' ''admin'' None)\<lparr>u_password_hash := ''hroot''\<rparr>]\<rparr>"


text \<open>
  A refresh rotates the token: when stored hashes are unique, the hash does not collide and the
  presented token was issued before, the new token is accepted and the old one is not.
\<close>

theorem refresh_rotates:
  assumes jwt: "jwt_ok e" "0 < ae_refresh_minutes e" and hash: "inj (ae_hash e)"
    and rows: "distinct (map as_id (auth_sessions s))" "distinct (map as_refresh_token_hash (auth_sessions s))"
    and old: "\<And>claims. decode_token e s token = Inr claims \<Longrightarrow>
                 dict_get ''jti'' claims \<noteq> Some (JStr (new_id (take_id s)))"
    and ok: "refresh_session e s token = Inr (tp, s')"
  shows "refresh_session e s' token = Inl (HTTPException 401 ''Unknown refresh token'') \<and>
         (\<exists>r. refresh_session e s' (tp_refresh tp) = Inr r)"
proof -
  obtain claims a where c: "decode_token e s token = Inr claims" "dict_get ''typ'' claims = Some (JStr ''refresh'')"
    and a: "List.find (\<lambda>a. as_refresh_token_hash a = hash_secret e token \<and> as_revoked_at a = None) (auth_sessions s) = Some a"
    using ok by (auto simp: refresh_session_def result_simps split: if_splits option.splits)
  define new where "new = ae_encode e (refresh_claims e (take_id s) (as_user_id a))"
  define g where "g = (\<lambda>r :: auth_session_row. r\<lparr>as_refresh_token_hash := hash_secret e new\<rparr>)"
  have r: "tp_refresh tp = new" "clock s' = clock s" "auth_sessions s' = row_put as_id (as_id a) g (auth_sessions s)"
    using ok c a by (auto simp: refresh_session_def result_simps create_access_token_def create_refresh_token_def
        new_def g_def take_id_def)
  have am: "a \<in> set (auth_sessions s)" "as_refresh_token_hash a = hash_secret e token" "as_revoked_at a = None"
    using find_SomeD [OF a] by auto
  have dn: "decode_token e s (ae_encode e (refresh_claims e (take_id s) (as_user_id a))) =
      Inr (refresh_claims e (take_id s) (as_user_id a))"
    using decode_fresh_refresh [OF jwt, of s "take_id s"] by (simp add: take_id_def)
  have "token \<noteq> new" using old [OF c(1)] dn c(1) by (auto simp: new_def)
  then have hn: "hash_secret e token \<noteq> hash_secret e new" using hash by (simp add: hash_secret_def inj_eq)
  have "as_refresh_token_hash x \<noteq> hash_secret e token" if xm: "x \<in> set (auth_sessions s')" for x
  proof -
    obtain y where y: "y \<in> set (auth_sessions s)" "x = (if as_id y = as_id a then g y else y)"
      using row_putE [OF xm [unfolded r(3)]] by blast
    show ?thesis
    proof (cases "as_id y = as_id a")
      case False
      then show ?thesis using y am(1,2) distinct_key_eq [OF rows(2), of y a] by auto
    qed (use y hn in \<open>simp add: g_def\<close>)
  qed
  then have "List.find (\<lambda>a. as_refresh_token_hash a = hash_secret e token \<and> as_revoked_at a = None) (auth_sessions s') = None"
    by (simp add: find_None)
  then have "refresh_session e s' token = Inl (HTTPException 401 ''Unknown refresh token'')"
    using c r(2) by (simp add: refresh_session_def decode_token_def)
  moreover have "g a \<in> set (auth_sessions s')" using am(1) by (auto simp: r(3) set_row_put)
  then have "\<exists>r. refresh_session e s' (tp_refresh tp) = Inr r"
    using dn r(1,2) am(3)
    by (intro refresh_accepts [where a = "g a" and claims = "refresh_claims e (take_id s) (as_user_id a)"])
       (auto simp: g_def new_def decode_token_def)
  ultimately show ?thesis by blast
qed

definition toy_refresh_session :: session where
  "toy_refresh_session = toy_session\<lparr>auth_sessions :=
     [\<lparr>as_id = ''a1'', as_user_id = ''u1'',
       as_refresh_token_hash = hash_secret toy_env (toy_encode (token_claims True ''u1'' 5 ''j0'')),
       as_expires_at = 5, as_revoked_at = None\<rparr>]\<rparr>"

lemma toy_refresh_decode:
  "decode_token toy_env toy_refresh_session (toy_encode (token_claims True ''u1'' 5 ''j0'')) =
     Inr (token_claims True ''u1'' 5 ''j0'')"
  by code_simp

theorem refresh_rotates_witness:
  "\<exists>tp s'. refresh_session toy_env toy_refresh_session (toy_encode (token_claims True ''u1'' 5 ''j0'')) = Inr (tp, s') \<and>
     refresh_session toy_env s' (toy_encode (token_claims True ''u1'' 5 ''j0'')) =
       Inl (HTTPException 401 ''Unknown refresh token'')"
proof -
  let ?t = "toy_encode (token_claims True ''u1'' 5 ''j0'')"
  have "\<exists>r. refresh_session toy_env toy_refresh_session ?t = Inr r"
    by (rule refresh_accepts [OF toy_refresh_decode]) (auto simp: token_claims_def toy_refresh_session_def)
  then obtain tp s' where ok: "refresh_session toy_env toy_refresh_session ?t = Inr (tp, s')" by fastforce
  have "refresh_session toy_env s' ?t = Inl (HTTPException 401 ''Unknown refresh token'') \<and>
      (\<exists>r. refresh_session toy_env s' (tp_refresh tp) = Inr r)"
  proof (rule refresh_rotates [OF toy_jwt_ok _ _ _ _ _ ok])
    show "inj (ae_hash toy_env)" by (simp add: toy_env_def inj_def)
    show "dict_get ''jti'' claims \<noteq> Some (JStr (new_id (take_id toy_refresh_session)))"
      if "decode_token toy_env toy_refresh_session ?t = Inr claims" for claims
      using that unfolding toy_refresh_decode
      by (auto simp: token_claims_def new_id_def take_id_def toy_refresh_session_def toy_session_def
            empty_session_def id_literal_def)
  qed (simp_all add: toy_env_def toy_refresh_session_def)
  then show ?thesis using ok by blast
qed

text \<open>
  Logout revokes the stored session of a refresh token: with unique hashes a later refresh with
  it fails. The same token is still accepted as a bearer token of the API, which asks neither for
  the kind of the token nor for its session.
\<close>

theorem logout_revokes_refresh_not_bearer:
  assumes "distinct (map as_id (auth_sessions s))" "distinct (map as_refresh_token_hash (auth_sessions s))"
    and "decode_token e s token = Inr claims" "dict_get ''typ'' claims = Some (JStr ''refresh'')"
  shows "refresh_session e (logout e s token) token = Inl (HTTPException 401 ''Unknown refresh token'') \<and>
         resolve_active_user e (logout e s token) token = resolve_active_user e s token"
proof -
  have l: "clock (logout e s token) = clock s" "users (logout e s token) = users s"
    by (auto simp: logout_def split: option.splits)
  have "\<not> (as_refresh_token_hash x = hash_secret e token \<and> as_revoked_at x = None)"
    if "x \<in> set (auth_sessions (logout e s token))" for x
  proof (cases "List.find (\<lambda>a. as_refresh_token_hash a = hash_secret e token) (auth_sessions s)")
    case None
    then show ?thesis using that None [unfolded find_None] by (simp add: logout_def)
  next
    case (Some a)
    then have a: "a \<in> set (auth_sessions s)" "as_refresh_token_hash a = hash_secret e token"
      by (auto dest: find_SomeD)
    from Some that obtain y where y: "y \<in> set (auth_sessions s)"
      "x = (if as_id y = as_id a then y\<lparr>as_revoked_at := Some (clock s)\<rparr> else y)"
      by (auto simp: logout_def elim: row_putE)
    show ?thesis
    proof (cases "as_id y = as_id a")
      case False
      then show ?thesis using y a distinct_key_eq [OF assms(2), of y a] by auto
    qed (use y in simp)
  qed
  then have "List.find (\<lambda>a. as_refresh_token_hash a = hash_secret e token \<and> as_revoked_at a = None)
      (auth_sessions (logout e s token)) = None" by (auto simp: find_None)
  then show ?thesis
    using assms(3,4) l by (simp add: refresh_session_def decode_token_def resolve_active_user_def Let_def)
qed

theorem logout_revokes_refresh_not_bearer_witness:
  "\<exists>u. resolve_active_user toy_env (logout toy_env toy_refresh_session (toy_encode (token_claims True ''u1'' 5 ''j0'')))
     (toy_encode (token_claims True ''u1'' 5 ''j0'')) = Inr u"
proof -
  have "\<exists>u. resolve_active_user toy_env toy_refresh_session (toy_encode (token_claims True ''u1'' 5 ''j0'')) = Inr u"
    unfolding resolve_active_user_def toy_refresh_decode
    by (simp add: token_claims_def dict_str_opt_def toy_refresh_session_def toy_session_def row_get_def sample_user_def)
  then show ?thesis
    using logout_revokes_refresh_not_bearer [OF _ _ toy_refresh_decode]
    by (simp add: toy_refresh_session_def token_claims_def)
qed

section \<open>Changes to accounts\<close>

lemma update_user_cases:
  assumes "update_user e s actor i p = Inr (u', s')"
  obtains u grp s1 where "row_get u_id i (users s) = Some u" "validate_update e actor u p = Inr ()"
    "u' = set_user_fields e p grp u" "users s1 = users s" "user_unique s1 u'"
    "s' = s1\<lparr>users := row_put u_id i (set_user_fields e p grp) (users s1)\<rparr>"
proof -
  obtain u where u: "row_get u_id i (users s) = Some u" "validate_update e actor u p = Inr ()"
    using assms by (auto simp: update_user_def result_simps split: option.splits)
  have fr: "users (snd (resolve_registration_group s g)) = users s" for g
    using registration_keeps_groups [of s g "fst (resolve_registration_group s g)"] by (metis prod.collapse with_root_frame(1))
  show thesis
  proof (cases "uu_primary_group_id p")
    case None
    then show thesis using assms u that [of u None s]
      by (simp add: update_user_def Let_def split: if_splits)
  next
    case (Some g)
    then show thesis using assms u fr [of "Some g"]
        that [of u "Some (g_id (fst (resolve_registration_group s (Some g))))" "snd (resolve_registration_group s (Some g))"]
      by (simp add: update_user_def Let_def split: if_splits prod.splits)
  qed
qed

lemma set_user_fields_simps [simp]:
  "u_id (set_user_fields e p grp u) = u_id u"
  "u_username (set_user_fields e p grp u) = keep_or (uu_username p) (u_username u)"
  by (simp_all add: set_user_fields_def)

text \<open>
  Nobody changes their own role, permissions or active flag, and nobody changes those of the
  bootstrap administrator; user names stay unique.
\<close>

theorem update_user_protects:
  assumes "update_user e s actor i p = Inr (u', s')" "row_get u_id i (users s) = Some u"
  shows "(u_id actor = i \<or> u_username u = ae_admin e \<longrightarrow>
      u_role_id u' = u_role_id u \<and> set (u_permissions u') = set (u_permissions u) \<and>
      u_is_active u' = u_is_active u) \<and>
    row_get u_id i (users s') = Some u' \<and>
    (\<forall>v\<in>set (users s). u_id v \<noteq> i \<longrightarrow> u_username v \<noteq> u_username u')"
proof -
  obtain u0 grp s1 where c: "row_get u_id i (users s) = Some u0" "validate_update e actor u0 p = Inr ()"
    "u' = set_user_fields e p grp u0" "users s1 = users s" "user_unique s1 u'"
    "s' = s1\<lparr>users := row_put u_id i (set_user_fields e p grp) (users s1)\<rparr>"
    using update_user_cases [OF assms(1)] .
  then have u: "u0 = u" "u_id u = i" using assms(2) by (auto dest: row_get_SomeD)
  have "\<not> protected_change u p" if "u_id actor = i \<or> u_username u = ae_admin e"
    using that c(2) u by (auto simp: validate_update_def is_bootstrap_admin_def split: if_splits)
  then have "u_id actor = i \<or> u_username u = ae_admin e \<longrightarrow>
      u_role_id u' = u_role_id u \<and> set (u_permissions u') = set (u_permissions u) \<and>
      u_is_active u' = u_is_active u"
    using c(3) u by (auto simp: protected_change_def set_user_fields_def keep_or_def same_permissions_def
        split: option.splits)
  moreover have "row_get u_id i (users s') = Some u'"
    using c u by (simp add: row_get_put)
  moreover have "\<forall>v\<in>set (users s). u_id v \<noteq> i \<longrightarrow> u_username v \<noteq> u_username u'"
    using c u by (auto simp: user_unique_def)
  ultimately show ?thesis by blast
qed

definition password_update :: "string \<Rightarrow> user_update" where
  "password_update w = \<lparr>uu_username = None, uu_email = None, uu_role_id = None, uu_primary_group_id = None,
     uu_permissions = None, uu_timezone = None, uu_is_active = None, uu_password = Some w\<rparr>"

theorem update_user_protects_witness:
  "\<exists>u' s'. update_user toy_env toy_session (sample_user ''u1'' ''ann'' None) ''u1'' (password_update ''new'') = Inr (u', s') \<and>
     u_role_id u' = None"
proof -
  have "(case update_user toy_env toy_session (sample_user ''u1'' ''ann'' None) ''u1'' (password_update ''new'') of
      Inl x \<Rightarrow> False | Inr y \<Rightarrow> True)"
    by (simp add: update_user_def row_get_def toy_session_def sample_user_def validate_update_def protected_change_def
        password_update_def is_bootstrap_admin_def user_unique_def set_user_fields_def keep_or_def)
  then obtain u' s' where ok:
    "update_user toy_env toy_session (sample_user ''u1'' ''ann'' None) ''u1'' (password_update ''new'') = Inr (u', s')"
    by (auto split: sum.splits)
  have "row_get u_id ''u1'' (users toy_session) = Some ((sample_user ''u1'' ''ann'' None)\<lparr>u_password_hash := ''hpw''\<rparr>)"
    by (simp add: row_get_def toy_session_def sample_user_def)
  from update_user_protects [OF ok this] ok show ?thesis by (auto simp: sample_user_def)
qed

text \<open>
  The password of the bootstrap administrator is not protected: whoever may call the user
  update, whatever else their rights, can set it and then log in as the administrator.
\<close>

theorem update_user_takes_over_admin:
  assumes "row_get u_id i (users s) = Some u" "u_username u = ae_admin e" "u_is_active u"
    and "distinct (map u_id (users s))" "user_unique s u"
  shows "\<exists>u' s'. update_user e s actor i (password_update w) = Inr (u', s') \<and>
           is_bootstrap_admin (ae_admin e) u' \<and>
           login e s' (ae_admin e) w = Inr (issue_token_pair e s' i)"
proof -
  let ?f = "set_user_fields e (password_update w) None"
  let ?s = "s\<lparr>users := row_put u_id i ?f (users s)\<rparr>"
  have i: "u_id u = i" using assms(1) by (auto dest: row_get_SomeD)
  have "validate_update e actor u (password_update w) = Inr ()"
    by (simp add: validate_update_def protected_change_def password_update_def)
  moreover have "user_unique s (?f u)"
    using assms(5) i by (auto simp: user_unique_def set_user_fields_def password_update_def keep_or_def)
  ultimately have up: "update_user e s actor i (password_update w) = Inr (?f u, ?s)"
    using assms(1) by (simp add: update_user_def) (simp add: password_update_def)
  have keep: "u_username (?f v) = u_username v" for v by (simp add: password_update_def keep_or_def)
  have "find_user_by_name ?s (ae_admin e) = Some (?f u)"
  proof -
    have "List.find (\<lambda>v. u_username v = ae_admin e) (users s) = row_get u_id i (users s)"
      unfolding row_get_def
    proof (rule find_cong)
      fix v assume v: "v \<in> set (users s)"
      then have "u_id v = i \<Longrightarrow> v = u"
        using distinct_key_eq [OF assms(4), of v u] row_get_SomeD [OF assms(1)] by auto
      then show "(u_username v = ae_admin e) = (u_id v = i)"
        using v assms(2,5) i by (auto simp: user_unique_def)
    qed
    moreover have "(\<lambda>v. u_username v = ae_admin e) \<circ> (\<lambda>r. if u_id r = i then ?f r else r) = (\<lambda>v. u_username v = ae_admin e)"
      by (auto simp: fun_eq_iff keep simp del: set_user_fields_simps)
    ultimately show ?thesis
      using assms(1) i by (simp add: find_user_by_name_def row_put_def find_map)
  qed
  then have "login e ?s (ae_admin e) w = Inr (issue_token_pair e ?s i)"
    using assms(3) i by (simp add: login_def verify_secret_def set_user_fields_def password_update_def keep_or_def)
  moreover have "is_bootstrap_admin (ae_admin e) (?f u)"
    unfolding is_bootstrap_admin_def keep by (rule assms(2))
  ultimately show ?thesis using up by blast
qed

theorem update_user_takes_over_admin_witness:
  "\<exists>u' s'. update_user toy_env toy_session (sample_user ''u1'' ''ann'' None) ''u2'' (password_update ''mine'') = Inr (u', s') \<and>
     login toy_env s' ''admin'' ''mine'' = Inr (issue_token_pair toy_env s' ''u2'')"
  using update_user_takes_over_admin [of "''u2''" toy_session "(sample_user ''u2'' ''admin'' None)\<lparr>u_password_hash := ''hroot''\<rparr>"
      toy_env "sample_user ''u1'' ''ann'' None" "''mine''"]
  by (auto simp: row_get_def toy_session_def sample_user_def toy_env_def user_unique_def)

section \<open>Registration\<close>

lemma add_membership_unless_simps [simp]:
  "users (add_membership_unless s g u) = users s" "invites (add_membership_unless s g u) = invites s"
  "clock (add_membership_unless s g u) = clock s"
  by (simp_all add: add_membership_unless_def Let_def take_id_def)

lemma add_membership_unless_member:
  "\<exists>m\<in>set (group_members (add_membership_unless s g u)). gm_group_id m = g \<and> gm_user_id m = u"
proof (cases "find_group_member s g u")
  case (Some m)
  then show ?thesis
    using find_SomeD [OF Some [unfolded find_group_member_def]]
    by (auto simp: add_membership_unless_def find_group_member_def)
qed (simp add: add_membership_unless_def Let_def)

lemma resolve_registration_group_frame:
  "resolve_registration_group s g = (grp, s') \<Longrightarrow> users s' = users s \<and> invites s' = invites s \<and> clock s' = clock s"
  using registration_keeps_groups [of s g grp s'] by simp

lemma get_settings_other:
  "get_settings s = (c, s1) \<Longrightarrow> users s1 = users s \<and> invites s1 = invites s \<and> roles s1 = roles s \<and> clock s1 = clock s"
  by (auto simp: get_settings_def split: option.splits)

lemma ensure_user_system_tag_other:
  "ensure_user_system_tag s u = (d, s1) \<Longrightarrow> users s1 = users s \<and> invites s1 = invites s \<and> clock s1 = clock s"
  by (cases rule: ensure_user_system_tag_cases [where s = s and u = u]) (auto simp: take_id_def)

lemma register_refusal_None:
  assumes "register_refusal s current p = None"
  obtains invite where "get_invite_by_code s (rr_invite_code p) = Inr invite" "invite_usable s invite = Inr ()"
    "iv_quota_used invite < iv_quota_total invite" "find_user_by_name s (rr_username p) = None"
    "ss_allow_registration current" "List.find (\<lambda>r. r_name r = ''user'') (roles s) \<noteq> None"
  using assms that by (auto simp: register_refusal_def split: if_splits sum.splits)

lemma get_invite_by_code_mem: "get_invite_by_code s code = Inr i \<Longrightarrow> i \<in> set (invites s) \<and> iv_code i = code"
  by (auto simp: get_invite_by_code_def split: option.splits dest: find_SomeD)

lemma capacity_use_one:
  assumes "distinct (map iv_id (invites s))" "i \<in> set (invites s)"
    and "invites s' = row_put iv_id (iv_id i) (\<lambda>i. i\<lparr>iv_quota_used := iv_quota_used i + 1\<rparr>) (invites s)"
  shows "capacity s' = capacity s - 1"
  using sum_row_put [OF assms(1,2), of "\<lambda>i. iv_quota_total i - iv_quota_used i"]
  by (simp add: capacity_def assms(3) del: sum_list_subtractf)

text \<open>
  C37. A registration succeeds only when self-registration is on, with a new name and a code that is
  stored, not revoked, not expired and not used up; it takes exactly one from the unused quota of
  the invites and creates an active user with the role \<open>user\<close> in the group it resolved, of which
  the user is a member.
\<close>

theorem register_uses_one_invite:
  assumes "distinct (map iv_id (invites s))" "register e s p = Inr (tp, s')"
  shows "ss_allow_registration (fst (get_settings s)) \<and>
    (\<exists>i\<in>set (invites s). iv_code i = rr_invite_code p \<and> invite_usable s i = Inr () \<and>
        iv_quota_used i < iv_quota_total i) \<and>
    (\<forall>u\<in>set (users s). u_username u \<noteq> rr_username p) \<and>
    capacity s' = capacity s - 1 \<and>
    (\<exists>u\<in>set (users s'). u_username u = rr_username p \<and> u_is_active u \<and>
        (\<exists>r\<in>set (roles s). r_name r = ''user'' \<and> u_role_id u = Some (r_id r)) \<and>
        (\<exists>m\<in>set (group_members s'). gm_user_id m = u_id u \<and> Some (gm_group_id m) = u_primary_group_id u))"
proof -
  obtain current s1 where g: "get_settings s = (current, s1)" by fastforce
  note f1 = get_settings_other [OF g]
  have "register_refusal s1 current p = None" using assms(2) g by (auto simp: register_def split: option.splits)
  then obtain i where i: "get_invite_by_code s1 (rr_invite_code p) = Inr i" "invite_usable s1 i = Inr ()"
    "iv_quota_used i < iv_quota_total i" "find_user_by_name s1 (rr_username p) = None"
    "ss_allow_registration current" "List.find (\<lambda>r. r_name r = ''user'') (roles s1) \<noteq> None"
    by (rule register_refusal_None)
  obtain role where role: "List.find (\<lambda>r. r_name r = ''user'') (roles s1) = Some role" using i(6) by auto
  obtain root s2 where s2: "ensure_root_group s1 = (root, s2)" by fastforce
  then have s2f: "s2 = with_root s1" by (simp add: with_root_def)
  define u where "u = \<lparr>u_id = new_id s2, u_username = rr_username p, u_email = rr_email p,
                      u_password_hash = hash_secret e (rr_password p), u_role_id = Some (r_id role),
                      u_primary_group_id = Some (g_id root), u_permissions = [], u_timezone = rr_timezone p,
                      u_is_active = True, u_created_at = clock s2\<rparr>"
  have uid: "u_id u = new_id s2" by (simp add: u_def)
  define s3 where "s3 = (take_id s2)\<lparr>users := row_add u (users s2)\<rparr>"
  obtain d s4 where s4: "ensure_user_system_tag s3 (u_id u) = (d, s4)" by fastforce
  obtain grp s5 where s5: "resolve_registration_group s4 (iv_registration_group_id i) = (grp, s5)" by fastforce
  define s6 where "s6 = s5\<lparr>users := row_put u_id (u_id u) (\<lambda>r. r\<lparr>u_primary_group_id := Some (g_id grp)\<rparr>) (users s5)\<rparr>"
  define s7 where "s7 = add_membership_unless s6 (g_id grp) (u_id u)"
  define s8 where "s8 = s7\<lparr>invites := row_put iv_id (iv_id i) (\<lambda>i. i\<lparr>iv_quota_used := iv_quota_used i + 1\<rparr>) (invites s7)\<rparr>"
  have s': "(tp, s') = issue_token_pair e s8 (u_id u)"
    using assms(2) g i(1) \<open>register_refusal s1 current p = None\<close> role s2 s4 [unfolded uid] s5
    by (simp add: register_def u_def [symmetric] s3_def [symmetric] s6_def s7_def s8_def uid)
  note it = issue_token_pair_simps [of e s8 "u_id u", folded s', simplified]
  have inv5: "invites s5 = invites s" "users s5 = row_add u (users s)"
    using resolve_registration_group_frame [OF s5] ensure_user_system_tag_other [OF s4] f1
    by (simp_all add: s3_def take_id_def s2f)
  have "capacity s' = capacity s - 1"
  proof (rule capacity_use_one [OF assms(1)])
    show "i \<in> set (invites s)" using get_invite_by_code_mem [OF i(1)] f1 by simp
    show "invites s' = row_put iv_id (iv_id i) (\<lambda>i. i\<lparr>iv_quota_used := iv_quota_used i + 1\<rparr>) (invites s)"
      using it(6) inv5(1) by (simp add: s8_def s7_def s6_def)
  qed
  moreover have "u\<lparr>u_primary_group_id := Some (g_id grp)\<rparr> \<in> set (users s')"
    using it(3) inv5(2) by (auto simp: s8_def s7_def s6_def set_row_put image_iff)
  moreover have "role \<in> set (roles s)" "r_name role = ''user''" using find_SomeD [OF role] f1 by auto
  moreover have "\<exists>m\<in>set (group_members s'). gm_group_id m = g_id grp \<and> gm_user_id m = u_id u"
    using it(7) add_membership_unless_member [of s6 "g_id grp" "u_id u"] by (simp add: s8_def s7_def)
  moreover have "i \<in> set (invites s)" "iv_code i = rr_invite_code p" "invite_usable s i = Inr ()"
    using get_invite_by_code_mem [OF i(1)] i(2) f1 by (simp_all add: invite_usable_def cong: if_cong option.case_cong)
  moreover have "\<forall>u\<in>set (users s). u_username u \<noteq> rr_username p"
    using i(4) f1 by (auto simp: find_user_by_name_def find_None)
  ultimately show ?thesis using i(3,5) g
    by (auto simp: u_def intro!: bexI [of _ "u\<lparr>u_primary_group_id := Some (g_id grp)\<rparr>"])
qed

definition toy_register_session :: session where
  "toy_register_session = toy_session
     \<lparr>roles := [\<lparr>r_id = ''r1'', r_name = ''user'', r_permissions = [], r_created_at = 0\<rparr>],
      system_settings := [default_settings\<lparr>ss_allow_registration := True\<rparr>],
      invites := [\<lparr>iv_id = ''v1'', iv_code = ''WELCOME'', iv_created_by = None, iv_created_for = None,
         iv_source_type = ''ADMIN_OVERRIDE'', iv_source_id = None, iv_registration_group_id = None,
         iv_quota_total = 2, iv_quota_used = 1, iv_expires_at = None, iv_revoked_at = None, iv_created_at = 0\<rparr>]\<rparr>"

definition toy_registration :: register_request where
  "toy_registration = \<lparr>rr_username = ''eve'', rr_password = ''secret12'', rr_email = None,
     rr_invite_code = ''WELCOME'', rr_timezone = ''UTC''\<rparr>"

lemma register_accepts:
  assumes "register_refusal (snd (get_settings s)) (fst (get_settings s)) p = None"
  shows "\<exists>tp s'. register e s p = Inr (tp, s')"
proof -
  obtain c s1 where g: "get_settings s = (c, s1)" by (metis surj_pair)
  then have none: "register_refusal s1 c p = None" using assms by simp
  then obtain i where i: "get_invite_by_code s1 (rr_invite_code p) = Inr i" by (rule register_refusal_None)
  show ?thesis unfolding register_def g by (simp add: none i split_beta Let_def)
qed

theorem register_uses_one_invite_witness:
  "\<exists>tp s'. register toy_env toy_register_session toy_registration = Inr (tp, s') \<and>
     capacity s' = capacity toy_register_session - 1"
proof -
  have "register_refusal (snd (get_settings toy_register_session)) (fst (get_settings toy_register_session))
      toy_registration = None" by code_simp
  then obtain tp s' where ok: "register toy_env toy_register_session toy_registration = Inr (tp, s')"
    using register_accepts by blast
  show ?thesis
    using register_uses_one_invite [OF _ ok] ok by (simp add: toy_register_session_def)
qed

section \<open>One active bind token\<close>

text \<open>
  After a bind token has been issued, it is the user's only active one: no older token of the
  user is both unrevoked and unexpired. It is accepted together with the user's name (blanks
  around both are ignored) until it expires, and no verification accepts it afterwards.
\<close>

theorem issued_bind_token_is_the_only_one:
  assumes issue: "issue_for_user e ttl s u token = ((tok, row), s1)" and ttl: "0 < ttl"
    and user: "find_user_by_name s (u_username u) = Some u" "u_is_active u"
    and blank: "py_strip (u_username u) = u_username u" "u_username u \<noteq> []" "py_strip token = token" "token \<noteq> []"
  shows "filter (\<lambda>t. it_user_id t = u_id u \<and> im_active (clock s1) t) (im_tokens s1) = [row] \<and>
    (\<exists>s2. verify_user_token e s1 (u_username u) token = Inr (u, s2)) \<and>
    (\<forall>s3. im_tokens s3 = im_tokens s1 \<and> users s3 = users s1 \<and> clock s + seconds ttl \<le> clock s3 \<longrightarrow>
       verify_user_token e s3 (u_username u) token = Inl (ValueError ''invalid username or token''))"
proof -
  let ?act = "\<lambda>now t. it_user_id t = u_id u \<and> im_active now t"
  have row: "it_user_id row = u_id u" "it_revoked_at row = None" "it_expires_at row = clock s + seconds ttl"
      "it_token_hash row = hash_secret e token"
    and s1: "im_tokens s1 = im_tokens (prune_expired_tokens (revoke_active_tokens s (u_id u) (clock s)) (clock s)) @ [row]"
      "clock s1 = clock s" "users s1 = users s"
    using issue by (auto simp: issue_for_user_def Let_def prune_expired_tokens_def revoke_active_tokens_def
        take_id_def row_add_def)
  have old: "it_revoked_at t \<noteq> None"
    if "t \<in> set (im_tokens (prune_expired_tokens (revoke_active_tokens s (u_id u) (clock s)) (clock s)))" "it_user_id t = u_id u" for t
    using that by (auto simp: prune_expired_tokens_def revoke_active_tokens_def im_active_def split: if_splits)
  have act: "filter (?act now) (im_tokens s1) = (if now < clock s + seconds ttl then [row] else [])" for now
    using old row by (auto simp: s1(1) im_active_def filter_empty_conv)
  have prune: "filter (?act now) (im_tokens (prune_expired_tokens s' now)) = filter (?act now) (im_tokens s')" for now s'
  proof -
    have "filter (?act now) (map (\<lambda>t. if it_revoked_at t = None \<and> it_expires_at t \<le> now
             then t\<lparr>it_revoked_at := Some now, it_updated_at := now\<rparr> else t) ts) = filter (?act now) ts" for ts
      by (induction ts) (auto simp: im_active_def)
    then show ?thesis by (simp add: prune_expired_tokens_def)
  qed
  have find: "find_user_by_name s' (u_username u) = Some u" if "users s' = users s" for s'
    using user(1) that by (simp add: find_user_by_name_def)
  have "\<exists>s2. verify_user_token e s1 (u_username u) token = Inr (u, s2)"
    using blank user(2) find [of s1] s1(2,3) act [of "clock s"] ttl row(4)
    by (simp add: verify_user_token_def Let_def prune verify_secret_def)
  moreover have "verify_user_token e s3 (u_username u) token = Inl (ValueError ''invalid username or token'')"
    if "im_tokens s3 = im_tokens s1" "users s3 = users s1" "clock s + seconds ttl \<le> clock s3" for s3
    using blank user(2) find [of s3] that s1(3) act [of "clock s3"]
    by (simp add: verify_user_token_def Let_def prune)
  moreover have "filter (?act (clock s1)) (im_tokens s1) = [row]" using act [of "clock s"] ttl s1(2) by simp
  ultimately show ?thesis by blast
qed

theorem issued_bind_token_is_the_only_one_witness:
  "\<exists>row s1 s2. issue_for_user toy_env 60 toy_session ((sample_user ''u1'' ''ann'' None)\<lparr>u_password_hash := ''hpw''\<rparr>) ''abc'' =
       ((''abc'', row), s1) \<and>
     verify_user_token toy_env s1 ''ann'' ''abc'' = Inr ((sample_user ''u1'' ''ann'' None)\<lparr>u_password_hash := ''hpw''\<rparr>, s2)"
proof -
  let ?u = "(sample_user ''u1'' ''ann'' None)\<lparr>u_password_hash := ''hpw''\<rparr>"
  obtain tok row s1 where i: "issue_for_user toy_env 60 toy_session ?u ''abc'' = ((tok, row), s1)"
    by (metis surj_pair)
  then have tok: "tok = ''abc''" by (simp add: issue_for_user_def Let_def)
  have "\<exists>s2. verify_user_token toy_env s1 (u_username ?u) ''abc'' = Inr (?u, s2)"
    using issued_bind_token_is_the_only_one [OF i]
    by (simp add: find_user_by_name_def toy_session_def sample_user_def py_strip_def py_isspace_def)
  then show ?thesis using i tok by (simp add: sample_user_def)
qed

end
