(* ===== verification/Frames.thy ===== *)
theory Frames
  imports Targets
begin

text \<open>
  Resolving the session state of a target may refresh tags, bindings and states and draw
  identifiers; every other table stays as it is.
\<close>

lemma bind_rE:
  assumes "bind_r m f = Inr y" obtains x where "m = Inr x" "f x = Inr y"
  using assms by (cases m) auto

lemma bind_r_pairE:
  assumes "bind_r m f = Inr y" obtains a s where "m = Inr (a, s)" "f (a, s) = Inr y"
  using assms by (cases m) auto

lemma row_put_absent: "i \<notin> row_ids key rows \<Longrightarrow> row_put key i f rows = rows"
  unfolding row_put_def by (intro map_idI) (auto simp: row_ids_def image_iff)

lemma map_mem: "ys = map f xs \<Longrightarrow> x \<in> set xs \<Longrightarrow> f x \<in> set ys"
  by simp

lemma row_put_mem: "r \<in> set rows \<Longrightarrow> (if key r = i then f r else r) \<in> set (row_put key i f rows)"
  unfolding set_row_put by (rule imageI)

definition but_state :: "session \<Rightarrow> session" where
  "but_state s = s\<lparr>id_next := 0, tags := [], cocoon_tags := [], room_tags := [], states := []\<rparr>"

definition state_frame :: "session \<Rightarrow> session \<Rightarrow> bool" where
  "state_frame s s' \<longleftrightarrow> id_next s \<le> id_next s' \<and> but_state s' = but_state s"

lemma but_state_simps [simp]:
  "but_state (s\<lparr>tags := a\<rparr>) = but_state s" "but_state (s\<lparr>cocoon_tags := b\<rparr>) = but_state s"
  "but_state (s\<lparr>room_tags := c\<rparr>) = but_state s" "but_state (s\<lparr>states := d\<rparr>) = but_state s"
  "but_state (take_id s) = but_state s"
  by (simp_all add: but_state_def take_id_def)

lemma take_id_fields [simp]: "id_next (take_id s) = Suc (id_next s)" "states (take_id s) = states s" "tags (take_id s) = tags s"
  "cocoon_tags (take_id s) = cocoon_tags s" "room_tags (take_id s) = room_tags s" "clock (take_id s) = clock s"
  "id_supply (take_id s) = id_supply s"
  by (simp_all add: take_id_def)

lemma state_frame_refl [simp]: "state_frame s s"
  by (simp add: state_frame_def)

lemma state_frame_trans: "state_frame s s1 \<Longrightarrow> state_frame s1 s2 \<Longrightarrow> state_frame s s2"
  by (simp add: state_frame_def)

lemma state_frame_field:
  assumes "state_frame s s'" "\<And>s. f (but_state s) = f s" shows "f s' = f s"
  using assms unfolding state_frame_def by metis

lemma state_frameD:
  assumes f: "state_frame s s'"
  shows "clock s' = clock s" "id_supply s' = id_supply s" "id_next s \<le> id_next s'" "users s' = users s"
    "cocoons s' = cocoons s" "rooms s' = rooms s" "room_members s' = room_members s" "messages s' = messages s"
    "message_tags s' = message_tags s" "memories s' = memories s" "memory_tags s' = memory_tags s"
    "memory_candidates s' = memory_candidates s" "facts s' = facts s" "task_states s' = task_states s"
    "failed_rounds s' = failed_rounds s" "actions s' = actions s" "jobs s' = jobs s" "wakeups s' = wakeups s"
    "pull_jobs s' = pull_jobs s" "merge_jobs s' = merge_jobs s" "checkpoints s' = checkpoints s"
    "audit_runs s' = audit_runs s" "audit_steps s' = audit_steps s" "audit_artifacts s' = audit_artifacts s"
    "audit_links s' = audit_links s" "characters s' = characters s" "system_settings s' = system_settings s"
proof -
  show "id_next s \<le> id_next s'" using f by (simp add: state_frame_def)
qed (rule state_frame_field [OF f], simp add: but_state_def)+

lemma state_frame_ensure: "ensure_user_system_tag s u = (t, s') \<Longrightarrow> state_frame s s'"
  by (auto simp: ensure_user_system_tag_def state_frame_def Let_def split: option.splits)

lemma state_frame_add_binding:
  "state_frame s (snd (add_cocoon_binding s c t))" "state_frame s (snd (add_room_binding s g t))"
  by (simp_all add: add_cocoon_binding_def add_room_binding_def state_frame_def Let_def)

lemma state_frame_default_binding:
  assumes "ensure_target_default_binding s c g = (d, s')" shows "state_frame s s'"
proof (cases "truthy (resolve_tag_owner_user_id_for_target s c g)")
  case False
  then show ?thesis using assms by (simp add: ensure_target_default_binding_def)
next
  case True
  obtain t s1 where t: "ensure_user_system_tag s (str_of (resolve_tag_owner_user_id_for_target s c g)) = (t, s1)"
    by (metis surj_pair)
  define s2 where "s2 = (if truthy c \<and> find_cocoon_binding s1 (str_of c) (t_id t) = None
        then snd (add_cocoon_binding s1 (str_of c) (t_id t)) else s1)"
  have "state_frame s1 s2" by (simp add: s2_def state_frame_add_binding)
  moreover have "state_frame s2 s'"
    using assms True t state_frame_add_binding [of s2] by (auto simp: ensure_target_default_binding_def Let_def s2_def)
  ultimately show ?thesis using state_frame_ensure [OF t] state_frame_trans by blast
qed

lemma state_frame_canonicalize:
  "canonicalize_tag_refs s refs inc owner = (ids, s') \<Longrightarrow> state_frame s s'"
  by (auto simp: canonicalize_tag_refs_def Let_def split: prod.splits if_splits dest: state_frame_ensure)

lemma state_frame_active: "set_active_tags s st a = (st', s') \<Longrightarrow> state_frame s s'"
  by (auto simp: set_active_tags_def state_frame_def)

lemma state_frame_bound_ids:
  assumes "list_target_bound_tag_ids s c g = (ids, s')" shows "state_frame s s'"
proof -
  obtain d s1 where d: "ensure_target_default_binding s c g = (d, s1)" by (metis surj_pair)
  then have "s' = s1" using assms by (simp add: list_target_bound_tag_ids_def)
  then show ?thesis using state_frame_default_binding [OF d] by simp
qed

lemma state_frame_bound_tags:
  assumes "ensure_state_bound_tags s st = (st', s')" shows "state_frame s s'"
proof -
  obtain bound s1 where b: "list_target_bound_tag_ids s (st_cocoon_id st) (st_chat_group_id st) = (bound, s1)"
    by (metis surj_pair)
  obtain active s2 where c: "canonicalize_tag_refs s1 (st_active_tags st @ bound) True
      (resolve_tag_owner_user_id_for_state s st) = (active, s2)" by (metis surj_pair)
  have "state_frame s2 s'"
    using assms b c state_frame_active [of s2 st active st' s']
    by (auto simp: ensure_state_bound_tags_def Let_def split: if_splits)
  then show ?thesis
    using state_frame_bound_ids [OF b] state_frame_canonicalize [OF c] state_frame_trans by blast
qed

lemma state_frame_get_state:
  assumes "get_session_state s c g = Inr (found, s')" shows "state_frame s s'"
proof -
  obtain m where m: "build_target_filter c g = Inr m"
    using assms by (cases "build_target_filter c g") (simp_all add: get_session_state_def)
  show ?thesis
  proof (cases "List.find (\<lambda>st. m (st_cocoon_id st) (st_chat_group_id st)) (states s)")
    case None
    then show ?thesis using assms m by (simp add: get_session_state_def)
  next
    case (Some st)
    obtain st' s1 where b: "ensure_state_bound_tags s st = (st', s1)" by (metis surj_pair)
    then have "s' = s1" using assms m Some by (simp add: get_session_state_def)
    then show ?thesis using state_frame_bound_tags [OF b] by simp
  qed
qed

lemma state_frame_ensure_state:
  assumes "ensure_session_state s c g = Inr (st, s')" shows "state_frame s s'"
proof -
  obtain p where p: "get_session_state s c g = Inr p"
    using assms by (cases "get_session_state s c g") (simp_all add: ensure_session_state_def)
  obtain found s1 where q: "p = (found, s1)" by (metis surj_pair)
  have f1: "state_frame s s1" using state_frame_get_state p q by blast
  show ?thesis
  proof (cases found)
    case (Some x)
    then show ?thesis using assms p q f1 by (simp add: ensure_session_state_def)
  next
    case None
    obtain d s2 where d: "ensure_target_default_binding s1 c g = (d, s2)" by (metis surj_pair)
    have f2: "state_frame s2 ((take_id s2)\<lparr>states := x\<rparr>)" for x by (simp add: state_frame_def)
    obtain x y where "ensure_state_bound_tags ((take_id s2)\<lparr>states := x\<rparr>) y = (st, s')"
      using assms p q None d by (auto simp: ensure_session_state_def Let_def)
    then have "state_frame ((take_id s2)\<lparr>states := x\<rparr>) s'" by (rule state_frame_bound_tags)
    then show ?thesis using f1 f2 state_frame_default_binding [OF d] state_frame_trans by blast
  qed
qed

text \<open>The state that is returned is the stored one.\<close>

lemma find_row_put_fix:
  assumes "List.find P rows = Some r" "\<And>x. P (f x) = P x"
  shows "List.find P (row_put key (key r) f rows) = Some (f r)"
  using assms(1) by (induction rows) (auto simp: row_put_def assms(2) split: if_splits)

lemma states_ensure: "ensure_user_system_tag s u = (t, s') \<Longrightarrow> states s' = states s"
  by (auto simp: ensure_user_system_tag_def Let_def split: option.splits)

lemma states_default_binding:
  assumes "ensure_target_default_binding s c g = (d, s')" shows "states s' = states s"
proof (cases "truthy (resolve_tag_owner_user_id_for_target s c g)")
  case False
  then show ?thesis using assms by (simp add: ensure_target_default_binding_def)
next
  case True
  obtain t s1 where t: "ensure_user_system_tag s (str_of (resolve_tag_owner_user_id_for_target s c g)) = (t, s1)"
    by (metis surj_pair)
  show ?thesis using assms True t states_ensure [OF t] by (auto simp: ensure_target_default_binding_def Let_def)
qed

lemma states_canonicalize: "canonicalize_tag_refs s refs inc owner = (ids, s') \<Longrightarrow> states s' = states s"
  by (auto simp: canonicalize_tag_refs_def Let_def split: prod.splits if_splits dest: states_ensure)

lemma bound_tags_stored:
  assumes "ensure_state_bound_tags s st = (st', s')" "List.find P (states s) = Some st"
    and "\<And>x a. P (x\<lparr>st_active_tags := a\<rparr>) = P x"
  shows "List.find P (states s') = Some st'"
proof -
  obtain bound s1 where b: "list_target_bound_tag_ids s (st_cocoon_id st) (st_chat_group_id st) = (bound, s1)"
    by (metis surj_pair)
  obtain d where "ensure_target_default_binding s (st_cocoon_id st) (st_chat_group_id st) = (d, s1)"
    using b by (auto simp: list_target_bound_tag_ids_def split: prod.splits)
  then have 1: "states s1 = states s" by (rule states_default_binding)
  obtain active s2 where c: "canonicalize_tag_refs s1 (st_active_tags st @ bound) True
      (resolve_tag_owner_user_id_for_state s st) = (active, s2)" by (metis surj_pair)
  have 2: "states s2 = states s" using states_canonicalize [OF c] 1 by simp
  show ?thesis
  proof (cases "st_active_tags st \<noteq> active")
    case True
    then have "st' = st\<lparr>st_active_tags := active\<rparr>"
      "states s' = row_put st_id (st_id st) (\<lambda>r. r\<lparr>st_active_tags := active\<rparr>) (states s)"
      using assms(1) b c 2 by (auto simp: ensure_state_bound_tags_def set_active_tags_def)
    then show ?thesis using find_row_put_fix [of P "states s" st "\<lambda>r. r\<lparr>st_active_tags := active\<rparr>"] assms(2,3) by simp
  next
    case False
    then show ?thesis using assms b c 2 by (simp add: ensure_state_bound_tags_def)
  qed
qed

lemma session_state_stored:
  assumes "get_session_state s c g = Inr (Some st, s')" "build_target_filter c g = Inr m"
  shows "List.find (\<lambda>x. m (st_cocoon_id x) (st_chat_group_id x)) (states s') = Some st"
proof (cases "List.find (\<lambda>st. m (st_cocoon_id st) (st_chat_group_id st)) (states s)")
  case None
  then show ?thesis using assms by (simp add: get_session_state_def)
next
  case (Some x)
  obtain st' s1 where b: "ensure_state_bound_tags s x = (st', s1)" by (metis surj_pair)
  then have "s' = s1" "st' = st" using assms Some by (simp_all add: get_session_state_def)
  then show ?thesis using bound_tags_stored [OF b Some] by simp
qed

end
