(* ===== verification/Wakeups.thy ===== *)
theory Wakeups
  imports Frames
begin

text \<open>
  Durable jobs (\<open>services/jobs/durable_jobs.py\<close>), wakeup tasks
  (\<open>services/runtime/scheduling/wakeup_tasks.py\<close>) and the scheduling of a wakeup
  (\<open>SchedulerNode.schedule_wakeup\<close>). A wakeup task is tied to a durable job: the payload of each
  names the other. The state of a conversation points at its next pending task.
\<close>

section \<open>Durable jobs\<close>

definition enqueue_job ::
  "session \<Rightarrow> job_type \<Rightarrow> string \<Rightarrow> dict \<Rightarrow> id option \<Rightarrow> id option \<Rightarrow> time option \<Rightarrow> job_row \<times> session" where
  "enqueue_job s job_type lock_key payload cocoon_id chat_group_id available_at =
     (let job = \<lparr>j_id = new_id s, j_cocoon_id = cocoon_id, j_chat_group_id = chat_group_id, j_job_type = job_type,
                 j_status = JobQueued, j_lock_key = lock_key, j_payload = payload,
                 j_available_at = (case available_at of None \<Rightarrow> utcnow s | Some t \<Rightarrow> t),
                 j_started_at = None, j_finished_at = None, j_worker_name = None, j_error_text = None,
                 j_created_at = clock s\<rparr>
      in (job, (take_id s)\<lparr>jobs := row_add job (jobs s)\<rparr>))"

definition claimable :: "time \<Rightarrow> job_row \<Rightarrow> bool" where
  "claimable now j \<longleftrightarrow> j_status j = JobQueued \<and> j_available_at j \<le> now"

text \<open>
  \<open>claim_next\<close>; the row lock of \<open>with_for_update(skip_locked=True)\<close> has no effect within one session.
\<close>

definition claim_next :: "session \<Rightarrow> string \<Rightarrow> job_row option \<times> session" where
  "claim_next s worker_name =
     (case sort_key j_created_at (filter (claimable (utcnow s)) (jobs s)) of
        [] \<Rightarrow> (None, s)
      | job # _ \<Rightarrow>
          let start = (\<lambda>j. j\<lparr>j_status := JobRunning, j_started_at := Some (utcnow s), j_worker_name := Some worker_name\<rparr>)
          in (Some (start job), s\<lparr>jobs := row_put j_id (j_id job) start (jobs s)\<rparr>))"

definition finish_job :: "session \<Rightarrow> id \<Rightarrow> job_status \<Rightarrow> string option \<Rightarrow> session" where
  "finish_job s job_id status error_text =
     s\<lparr>jobs := row_put j_id job_id
         (\<lambda>j. j\<lparr>j_status := status, j_error_text := error_text, j_finished_at := Some (utcnow s)\<rparr>) (jobs s)\<rparr>"

section \<open>Pending tasks\<close>

definition wakeup_matches :: "id option \<Rightarrow> id option \<Rightarrow> wakeup_row \<Rightarrow> bool" where
  "wakeup_matches cocoon_id chat_group_id t \<longleftrightarrow>
     (truthy cocoon_id \<longrightarrow> w_cocoon_id t = cocoon_id \<and> w_chat_group_id t = None) \<and>
     (truthy chat_group_id \<longrightarrow> w_chat_group_id t = chat_group_id \<and> w_cocoon_id t = None)"

definition list_pending_wakeup_tasks :: "session \<Rightarrow> id option \<Rightarrow> id option \<Rightarrow> wakeup_row list" where
  "list_pending_wakeup_tasks s cocoon_id chat_group_id =
     sort_key (\<lambda>t. (w_run_at t, w_created_at t))
       (filter (\<lambda>t. w_status t = JobQueued \<and> wakeup_matches cocoon_id chat_group_id t) (wakeups s))"

definition is_ai_scheduled_wakeup :: "wakeup_row \<Rightarrow> bool" where
  "is_ai_scheduled_wakeup t \<longleftrightarrow> dict_str ''scheduled_by'' (w_payload t) = ''meta_node''"

definition list_wakeup_tasks ::
  "session \<Rightarrow> id option \<Rightarrow> id option \<Rightarrow> job_status option \<Rightarrow> bool \<Rightarrow> nat \<Rightarrow> wakeup_row list" where
  "list_wakeup_tasks s cocoon_id chat_group_id status only_ai limit =
     (let rows = filter (\<lambda>t. wakeup_matches cocoon_id chat_group_id t \<and>
                   (case status of None \<Rightarrow> True | Some st \<Rightarrow> w_status t = st)) (wakeups s);
          items = (if status = Some JobQueued then sort_key (\<lambda>t. (w_run_at t, w_created_at t)) rows
                   else sort_key (\<lambda>t. (- w_created_at t, - w_run_at t)) rows);
          chosen = (if only_ai then filter is_ai_scheduled_wakeup items else items)
      in take limit chosen)"

definition first_id :: "wakeup_row list \<Rightarrow> id option" where
  "first_id pending = (case pending of [] \<Rightarrow> None | t # _ \<Rightarrow> Some (w_id t))"

definition sync_current_wakeup_task_id ::
  "session \<Rightarrow> id option \<Rightarrow> id option \<Rightarrow> (state_row option \<times> session) result" where
  "sync_current_wakeup_task_id s cocoon_id chat_group_id =
     bind_r (get_session_state s cocoon_id chat_group_id) (\<lambda>(found, s1).
     case found of
       None \<Rightarrow> Inr (None, s1)
     | Some st \<Rightarrow>
         let point = (\<lambda>r. r\<lparr>st_current_wakeup_task_id :=
                        first_id (list_pending_wakeup_tasks s1 cocoon_id chat_group_id)\<rparr>)
         in Inr (Some (point st), s1\<lparr>states := row_put st_id (st_id st) point (states s1)\<rparr>))"

section \<open>Cancelling\<close>

definition job_cancelled :: "time \<Rightarrow> string option \<Rightarrow> job_row \<Rightarrow> job_row" where
  "job_cancelled now reason j = j\<lparr>j_status := JobCancelled, j_finished_at := Some now, j_error_text := reason\<rparr>"

definition task_cancelled :: "time \<Rightarrow> string option \<Rightarrow> wakeup_row \<Rightarrow> wakeup_row" where
  "task_cancelled now reason t =
     t\<lparr>w_status := JobCancelled, w_cancelled_at := Some now,
       w_payload := dict_set ''cancelled_reason'' (json_opt_str reason) (w_payload t)\<rparr>"

text \<open>The job of a cancelled task is cancelled only while it is still queued.\<close>

definition cancel_job :: "session \<Rightarrow> string option \<Rightarrow> id \<Rightarrow> session" where
  "cancel_job s reason job_id =
     (case row_get j_id job_id (jobs s) of
        None \<Rightarrow> s
      | Some job \<Rightarrow> if j_status job = JobQueued
                    then s\<lparr>jobs := row_put j_id job_id (job_cancelled (utcnow s) reason) (jobs s)\<rparr> else s)"

definition cancel_task :: "session \<Rightarrow> string option \<Rightarrow> wakeup_row \<Rightarrow> wakeup_row \<times> session" where
  "cancel_task s reason t =
     (let t' = task_cancelled (utcnow s) reason t;
          s1 = s\<lparr>wakeups := row_put w_id (w_id t) (task_cancelled (utcnow s) reason) (wakeups s)\<rparr>;
          durable_job_id = dict_str ''durable_job_id'' (w_payload t')
      in (t', if durable_job_id = [] then s1 else cancel_job s1 reason durable_job_id))"

definition cancel_wanted :: "id list option \<Rightarrow> string option \<Rightarrow> wakeup_row \<Rightarrow> bool" where
  "cancel_wanted wakeup_task_ids only_trigger_kind t \<longleftrightarrow>
     (case wakeup_task_ids of None \<Rightarrow> True | Some ids \<Rightarrow> w_id t \<in> set ids) \<and>
     (truthy only_trigger_kind \<longrightarrow> dict_str ''trigger_kind'' (w_payload t) = str_of only_trigger_kind)"

fun cancel_loop ::
  "session \<Rightarrow> id list option \<Rightarrow> string option \<Rightarrow> string option \<Rightarrow> wakeup_row list \<Rightarrow> wakeup_row list \<times> session" where
  "cancel_loop s ids kind reason [] = ([], s)"
| "cancel_loop s ids kind reason (t # ts) =
     (if cancel_wanted ids kind t
      then let (t', s1) = cancel_task s reason t;
               (cancelled, s2) = cancel_loop s1 ids kind reason ts
           in (t' # cancelled, s2)
      else cancel_loop s ids kind reason ts)"

definition cancel_wakeup_tasks ::
  "session \<Rightarrow> id option \<Rightarrow> id option \<Rightarrow> id list option \<Rightarrow> string option \<Rightarrow> string option \<Rightarrow>
     (wakeup_row list \<times> session) result" where
  "cancel_wakeup_tasks s cocoon_id chat_group_id ids only_trigger_kind reason =
     (let (cancelled, s1) = cancel_loop s ids only_trigger_kind reason
                              (list_pending_wakeup_tasks s cocoon_id chat_group_id)
      in bind_r (sync_current_wakeup_task_id s1 cocoon_id chat_group_id) (\<lambda>(_, s2). Inr (cancelled, s2)))"

section \<open>Scheduling\<close>

definition wakeup_lock_key :: "string \<Rightarrow> id \<Rightarrow> id \<Rightarrow> string" where
  "wakeup_lock_key target_type target_id task_id =
     (if target_type = ''chat_group'' then ''chat-group'' else ''cocoon'') @ '':'' @ target_id @ '':wakeup:'' @ task_id"

text \<open>
  \<open>schedule_wakeup\<close> with keyword arguments; the run time is a naive UTC time. The database refuses a task
  without exactly one target.
\<close>

definition one_target :: "id option \<Rightarrow> id option \<Rightarrow> bool" where
  "one_target cocoon_id chat_group_id \<longleftrightarrow> (cocoon_id = None) \<noteq> (chat_group_id = None)"

definition schedule_wakeup ::
  "session \<Rightarrow> time option \<Rightarrow> id option \<Rightarrow> id option \<Rightarrow> string option \<Rightarrow> dict \<Rightarrow>
     ((wakeup_row \<times> job_row) \<times> session) result" where
  "schedule_wakeup s run_at cocoon_id chat_group_id reason payload =
     (case run_at of
        None \<Rightarrow> Inl (TypeError ''schedule_wakeup() missing required run_at'')
      | Some run \<Rightarrow>
          if py_strip (str_of reason) = [] then Inl (ValueError ''schedule_wakeup() requires a non-empty reason'')
          else if \<not> one_target cocoon_id chat_group_id then Inl (IntegrityError ''ck_wakeup_tasks_target'')
          else
            let task = \<lparr>w_id = new_id s, w_cocoon_id = cocoon_id, w_chat_group_id = chat_group_id, w_run_at = run,
                        w_reason = Some (py_strip (str_of reason)), w_payload = [], w_status = JobQueued,
                        w_cancelled_at = None, w_superseded_by_task_id = None, w_created_at = clock s\<rparr>;
                s1 = (take_id s)\<lparr>wakeups := row_add task (wakeups s)\<rparr>
            in bind_r (resolve_target_type cocoon_id chat_group_id) (\<lambda>(target_type, target_id).
               let (job, s2) = enqueue_job s1 JobWakeup (wakeup_lock_key target_type target_id (w_id task))
                                 [(''wakeup_task_id'', JStr (w_id task))] cocoon_id chat_group_id (Some run);
                   fill = (\<lambda>t. t\<lparr>w_payload := dict_set ''durable_job_id'' (JStr (j_id job)) payload\<rparr>);
                   s3 = s2\<lparr>wakeups := row_put w_id (w_id task) fill (wakeups s2)\<rparr>
               in bind_r (sync_current_wakeup_task_id s3 cocoon_id chat_group_id) (\<lambda>(_, s4).
                  Inr ((fill task, job), s4))))"

section \<open>The claim of a job\<close>

lemma hd_sort_key:
  assumes "sort_key f xs = x # ys" shows "x \<in> set xs \<and> (\<forall>y\<in>set xs. f x \<le> f y)"
proof -
  have "sorted (map f (x # ys))" using sorted_sort_key [of f xs] assms by simp
  moreover have "set xs = set (x # ys)" using assms by (metis set_sort)
  ultimately show ?thesis by auto
qed

lemma claim_next_cases:
  assumes "claim_next s w = (r, s')"
  obtains (none) "r = None" "s' = s" "\<forall>j\<in>set (jobs s). \<not> claimable (clock s) j"
  | (claimed) j f where "j \<in> set (jobs s)" "claimable (clock s) j"
      "\<forall>k\<in>set (jobs s). claimable (clock s) k \<longrightarrow> j_created_at j \<le> j_created_at k"
      "f = (\<lambda>j. j\<lparr>j_status := JobRunning, j_started_at := Some (clock s), j_worker_name := Some w\<rparr>)"
      "r = Some (f j)" "s' = s\<lparr>jobs := row_put j_id (j_id j) f (jobs s)\<rparr>"
proof (cases "sort_key j_created_at (filter (claimable (clock s)) (jobs s))")
  case Nil
  then have "filter (claimable (clock s)) (jobs s) = []" by (metis set_empty set_sort)
  then have "\<forall>j\<in>set (jobs s). \<not> claimable (clock s) j" by (simp add: filter_empty_conv)
  then show thesis using none assms Nil by (simp add: claim_next_def utcnow_def)
next
  case (Cons j js)
  from hd_sort_key [OF Cons]
  have "j \<in> set (jobs s)" "claimable (clock s) j"
    "\<forall>k\<in>set (jobs s). claimable (clock s) k \<longrightarrow> j_created_at j \<le> j_created_at k" by auto
  then show thesis using claimed assms Cons by (simp add: claim_next_def utcnow_def)
qed

section \<open>Tasks and their jobs\<close>

text \<open>
  A pending task has its wakeup job; a queued wakeup job belongs to a pending task, so a cancelled
  task never fires.
\<close>

definition task_job :: "wakeup_row \<Rightarrow> job_row \<Rightarrow> bool" where
  "task_job t j \<longleftrightarrow> j_job_type j = JobWakeup \<and> dict_str ''durable_job_id'' (w_payload t) = j_id j \<and>
     dict_str ''wakeup_task_id'' (j_payload j) = w_id t"

definition wakeup_keys :: "session \<Rightarrow> bool" where
  "wakeup_keys s \<longleftrightarrow> distinct (map w_id (wakeups s)) \<and> distinct (map j_id (jobs s)) \<and>
     supply_fresh s (row_ids w_id (wakeups s) \<union> row_ids j_id (jobs s)) \<and> [] \<notin> row_ids j_id (jobs s) \<and>
     (\<forall>n. id_supply s n \<noteq> [])"

definition wakeups_linked :: "session \<Rightarrow> bool" where
  "wakeups_linked s \<longleftrightarrow>
     (\<forall>t\<in>set (wakeups s). w_status t = JobQueued \<longrightarrow> (\<exists>j\<in>set (jobs s). task_job t j)) \<and>
     (\<forall>j\<in>set (jobs s). j_job_type j = JobWakeup \<and> j_status j = JobQueued \<longrightarrow>
        (\<exists>t\<in>set (wakeups s). w_status t = JobQueued \<and> task_job t j))"

definition wakeup_inv :: "session \<Rightarrow> bool" where
  "wakeup_inv s \<longleftrightarrow> wakeup_keys s \<and> wakeups_linked s"

lemma wakeup_inv_frame:
  assumes "state_frame s s'" "wakeup_inv s" shows "wakeup_inv s'"
  using state_frameD(2,3,17,18) [OF assms(1)] assms(2)
  by (simp add: wakeup_inv_def wakeup_keys_def wakeups_linked_def supply_fresh_def)

lemma sync_frame:
  assumes "sync_current_wakeup_task_id s c g = Inr (found, s')" shows "state_frame s s'"
proof -
  obtain f0 s1 where g: "get_session_state s c g = Inr (f0, s1)"
    using assms unfolding sync_current_wakeup_task_id_def by (rule bind_r_pairE)
  have "s' = s1 \<or> (\<exists>x. s' = s1\<lparr>states := x\<rparr>)"
    using assms g by (auto simp: sync_current_wakeup_task_id_def Let_def split: option.splits)
  then have "state_frame s1 s'" by (auto simp: state_frame_def)
  then show ?thesis using state_frame_get_state [OF g] state_frame_trans by blast
qed

lemma wakeup_inv_sync:
  "wakeup_inv s \<Longrightarrow> sync_current_wakeup_task_id s c g = Inr (found, s') \<Longrightarrow> wakeup_inv s'"
  using wakeup_inv_frame sync_frame by blast

text \<open>After synchronising, the state of the target points at its earliest pending task.\<close>

lemma sync_points:
  assumes "sync_current_wakeup_task_id s c g = Inr (Some st, s')" "build_target_filter c g = Inr m"
  shows "List.find (\<lambda>x. m (st_cocoon_id x) (st_chat_group_id x)) (states s') = Some st \<and>
    st_current_wakeup_task_id st = first_id (list_pending_wakeup_tasks s' c g)"
proof -
  obtain f0 s1 where g: "get_session_state s c g = Inr (f0, s1)"
    using assms(1) unfolding sync_current_wakeup_task_id_def by (rule bind_r_pairE)
  obtain st0 where st0: "f0 = Some st0" using assms g by (cases f0) (simp_all add: sync_current_wakeup_task_id_def)
  define point :: "state_row \<Rightarrow> state_row" where "point = (\<lambda>r. r\<lparr>st_current_wakeup_task_id := first_id (list_pending_wakeup_tasks s1 c g)\<rparr>)"
  have s': "st = point st0" "s' = s1\<lparr>states := row_put st_id (st_id st0) point (states s1)\<rparr>"
    using assms(1) g st0 by (simp_all add: sync_current_wakeup_task_id_def point_def Let_def)
  have "List.find (\<lambda>x. m (st_cocoon_id x) (st_chat_group_id x)) (states s1) = Some st0"
    using session_state_stored [of s c g st0 s1 m] g st0 assms(2) by simp
  from find_row_put_fix [OF this, of point st_id] show ?thesis
    by (simp add: s' point_def list_pending_wakeup_tasks_def)
qed

lemma sync_none:
  assumes "sync_current_wakeup_task_id s c g = Inr (None, s')" "build_target_filter c g = Inr m"
  shows "List.find (\<lambda>x. m (st_cocoon_id x) (st_chat_group_id x)) (states s') = None"
proof -
  obtain f0 s1 where g: "get_session_state s c g = Inr (f0, s1)"
    using assms(1) unfolding sync_current_wakeup_task_id_def by (rule bind_r_pairE)
  have "f0 = None" "s' = s1" using assms(1) g by (auto simp: sync_current_wakeup_task_id_def Let_def split: option.splits)
  then show ?thesis using g assms(2) by (auto simp: get_session_state_def split: option.splits prod.splits)
qed

lemma sync_state_pointer:
  assumes y: "sync_current_wakeup_task_id s c g = Inr (found, s')" and m: "build_target_filter c g = Inr m"
    and st: "List.find (\<lambda>x. m (st_cocoon_id x) (st_chat_group_id x)) (states s') = Some st"
  shows "st_current_wakeup_task_id st = first_id (list_pending_wakeup_tasks s' c g)"
proof (cases found)
  case None
  then show ?thesis using sync_none [OF _ m] y st by simp
next
  case (Some x)
  then show ?thesis using sync_points [of s c g x s' m] y m st by simp
qed

section \<open>What cancelling does\<close>

lemma cancelled_fields [simp]:
  "w_id (task_cancelled now r t) = w_id t" "w_status (task_cancelled now r t) = JobCancelled"
  "dict_str ''durable_job_id'' (w_payload (task_cancelled now r t)) = dict_str ''durable_job_id'' (w_payload t)"
  "j_id (job_cancelled now r j) = j_id j" "j_status (job_cancelled now r j) = JobCancelled"
  "j_job_type (job_cancelled now r j) = j_job_type j" "j_payload (job_cancelled now r j) = j_payload j"
  by (simp_all add: task_cancelled_def job_cancelled_def dict_str_def)

definition job_of :: "wakeup_row \<Rightarrow> id" where
  "job_of t = dict_str ''durable_job_id'' (w_payload t)"

lemma cancel_task_rows:
  assumes "distinct (map j_id (jobs s))" "[] \<notin> row_ids j_id (jobs s)"
  shows "wakeups (snd (cancel_task s r t)) = row_put w_id (w_id t) (task_cancelled (clock s) r) (wakeups s)"
    "jobs (snd (cancel_task s r t)) =
       map (\<lambda>j. if j_id j = job_of t \<and> j_status j = JobQueued then job_cancelled (clock s) r j else j) (jobs s)"
    "clock (snd (cancel_task s r t)) = clock s" "id_supply (snd (cancel_task s r t)) = id_supply s"
    "id_next (snd (cancel_task s r t)) = id_next s"
proof -
  have 1: "row_put j_id i f (jobs s) = map (\<lambda>j. if j_id j = i \<and> j_status j = JobQueued then f j else j) (jobs s)"
    if "row_get j_id i (jobs s) = Some job" "j_status job = JobQueued" for i f job
    using that assms(1) by (auto simp: row_put_def dest: row_get_SomeD distinct_key_eq)
  have 2: "map (\<lambda>j. if j_id j = i \<and> j_status j = JobQueued then f j else j) (jobs s) = jobs s"
    if "\<forall>job. row_get j_id i (jobs s) = Some job \<longrightarrow> j_status job \<noteq> JobQueued" for i f
    using that row_get_mem [OF assms(1)] by (intro map_idI) auto
  have 3: "map (\<lambda>j. if j_id j = [] \<and> j_status j = JobQueued then f j else j) (jobs s) = jobs s" for f
    using assms(2) by (intro map_idI) (metis (mono_tags) row_ids_def image_eqI)
  show "wakeups (snd (cancel_task s r t)) = row_put w_id (w_id t) (task_cancelled (clock s) r) (wakeups s)"
    "clock (snd (cancel_task s r t)) = clock s" "id_supply (snd (cancel_task s r t)) = id_supply s"
    "id_next (snd (cancel_task s r t)) = id_next s"
    by (auto simp: cancel_task_def cancel_job_def utcnow_def Let_def split: option.splits)
  show "jobs (snd (cancel_task s r t)) =
       map (\<lambda>j. if j_id j = job_of t \<and> j_status j = JobQueued then job_cancelled (clock s) r j else j) (jobs s)"
    by (auto simp: cancel_task_def cancel_job_def utcnow_def Let_def job_of_def 1 2 3 split: option.splits)
qed

definition wanted_tasks :: "id list option \<Rightarrow> string option \<Rightarrow> wakeup_row list \<Rightarrow> wakeup_row list" where
  "wanted_tasks ids kind ts = filter (cancel_wanted ids kind) ts"

lemma cancel_loop_rows:
  assumes "distinct (map j_id (jobs s))" "[] \<notin> row_ids j_id (jobs s)" "cancel_loop s ids kind r ts = (cs, s')"
    "distinct (map w_id ts)"
  shows "cs = map (task_cancelled (clock s) r) (wanted_tasks ids kind ts) \<and>
    wakeups s' = map (\<lambda>t. if w_id t \<in> w_id ` set (wanted_tasks ids kind ts) then task_cancelled (clock s) r t else t) (wakeups s) \<and>
    jobs s' = map (\<lambda>j. if j_id j \<in> job_of ` set (wanted_tasks ids kind ts) \<and> j_status j = JobQueued
                       then job_cancelled (clock s) r j else j) (jobs s) \<and>
    clock s' = clock s \<and> id_supply s' = id_supply s \<and> id_next s' = id_next s"
  using assms
proof (induction ts arbitrary: s cs)
  case Nil
  then show ?case by (simp add: wanted_tasks_def)
next
  case (Cons t ts)
  show ?case
  proof (cases "cancel_wanted ids kind t")
    case False
    then show ?thesis using Cons by (simp add: wanted_tasks_def)
  next
    case True
    obtain t' s1 where c: "cancel_task s r t = (t', s1)" by (metis surj_pair)
    obtain cs1 where l: "cancel_loop s1 ids kind r ts = (cs1, s')" "cs = t' # cs1"
      using Cons.prems(3) True c by (auto split: prod.splits)
    note rows = cancel_task_rows [OF Cons.prems(1,2), of r t, unfolded c snd_conv]
    have ids: "map j_id (jobs s1) = map j_id (jobs s)" unfolding rows(2) by (simp add: o_def if_distrib cong: if_cong)
    then have "distinct (map j_id (jobs s1))" "[] \<notin> row_ids j_id (jobs s1)"
      using Cons.prems(1,2) unfolding row_ids_def set_map [symmetric] by simp_all
    from Cons.IH [OF this l(1)] Cons.prems(4)
    have IH: "cs1 = map (task_cancelled (clock s) r) (wanted_tasks ids kind ts)"
      "wakeups s' = map (\<lambda>t. if w_id t \<in> w_id ` set (wanted_tasks ids kind ts) then task_cancelled (clock s) r t else t) (wakeups s1)"
      "jobs s' = map (\<lambda>j. if j_id j \<in> job_of ` set (wanted_tasks ids kind ts) \<and> j_status j = JobQueued
                       then job_cancelled (clock s) r j else j) (jobs s1)"
      "clock s' = clock s" "id_supply s' = id_supply s" "id_next s' = id_next s"
      using rows by simp_all
    have t': "t' = task_cancelled (clock s) r t" using c by (simp add: cancel_task_def utcnow_def Let_def)
    have notin: "w_id t \<notin> w_id ` set (wanted_tasks ids kind ts)"
      using Cons.prems(4) by (auto simp: wanted_tasks_def)
    have "cs = map (task_cancelled (clock s) r) (wanted_tasks ids kind (t # ts))"
      using l t' IH True by (simp add: wanted_tasks_def)
    moreover have "wakeups s' = map (\<lambda>x. if w_id x \<in> w_id ` set (wanted_tasks ids kind (t # ts))
        then task_cancelled (clock s) r x else x) (wakeups s)"
      using IH(2) rows(1) True notin by (auto simp: wanted_tasks_def row_put_def)
    moreover have "jobs s' = map (\<lambda>j. if j_id j \<in> job_of ` set (wanted_tasks ids kind (t # ts)) \<and> j_status j = JobQueued
        then job_cancelled (clock s) r j else j) (jobs s)"
      using IH(3) rows(2) True by (auto simp: wanted_tasks_def)
    ultimately show ?thesis using IH by simp
  qed
qed

lemma pending_tasks:
  "set (list_pending_wakeup_tasks s c g) = {t \<in> set (wakeups s). w_status t = JobQueued \<and> wakeup_matches c g t}"
  by (auto simp: list_pending_wakeup_tasks_def)

lemma distinct_sort_key: "distinct (map g (sort_key f xs)) = distinct (map g xs)"
  by (simp add: distinct_map)

lemma distinct_pending:
  "distinct (map w_id (wakeups s)) \<Longrightarrow> distinct (map w_id (list_pending_wakeup_tasks s c g))"
  by (simp add: list_pending_wakeup_tasks_def distinct_sort_key distinct_map_filter)

text \<open>The session after cancelling a set of pending tasks, before the pointer is refreshed.\<close>

lemma wakeup_inv_cancelled:
  assumes inv: "wakeup_inv s" and sub: "\<forall>t\<in>set W. t \<in> set (wakeups s) \<and> w_status t = JobQueued"
    and w: "wakeups s' = map (\<lambda>t. if w_id t \<in> w_id ` set W then task_cancelled now r t else t) (wakeups s)"
    and j: "jobs s' = map (\<lambda>j. if j_id j \<in> job_of ` set W \<and> j_status j = JobQueued then job_cancelled now r j else j) (jobs s)"
    and ids: "id_supply s' = id_supply s" "id_next s' = id_next s"
  shows "wakeup_inv s'"
proof -
  have wi: "map w_id (wakeups s') = map w_id (wakeups s)" unfolding w by (simp add: o_def if_distrib cong: if_cong)
  have ji: "map j_id (jobs s') = map j_id (jobs s)" unfolding j by (simp add: o_def if_distrib cong: if_cong)
  have keys: "wakeup_keys s'"
    using inv wi ji ids unfolding wakeup_inv_def wakeup_keys_def supply_fresh_def row_ids_def set_map [symmetric] by simp
  have dist: "distinct (map w_id (wakeups s))" using inv by (simp add: wakeup_inv_def wakeup_keys_def)
  have linked: "wakeups_linked s" using inv by (simp add: wakeup_inv_def)
  have "\<exists>j\<in>set (jobs s'). task_job t j" if t: "t \<in> set (wakeups s')" "w_status t = JobQueued" for t
  proof -
    have "t \<in> set (wakeups s)" using t unfolding w by (auto split: if_splits)
    with linked t(2) obtain k where k: "k \<in> set (jobs s)" "task_job t k" unfolding wakeups_linked_def by blast
    have "task_job t (if j_id k \<in> job_of ` set W \<and> j_status k = JobQueued then job_cancelled now r k else k)"
      using k(2) by (simp add: task_job_def)
    then show ?thesis unfolding j set_map using k(1) by blast
  qed
  moreover have "\<exists>t\<in>set (wakeups s'). w_status t = JobQueued \<and> task_job t k"
    if k: "k \<in> set (jobs s')" "j_job_type k = JobWakeup" "j_status k = JobQueued" for k
  proof -
    have k0: "k \<in> set (jobs s)" "j_id k \<notin> job_of ` set W" using k unfolding j by (auto split: if_splits)
    with linked k obtain t where t: "t \<in> set (wakeups s)" "w_status t = JobQueued" "task_job t k"
      unfolding wakeups_linked_def by blast
    have "w_id t \<notin> w_id ` set W"
    proof
      assume "w_id t \<in> w_id ` set W"
      then obtain t' where "t' \<in> set W" "w_id t' = w_id t" by auto
      then have "t' = t" using distinct_key_eq [OF dist] sub t(1) by blast
      then show False using \<open>t' \<in> set W\<close> k0(2) t(3) by (metis task_job_def job_of_def imageI)
    qed
    then have "t \<in> set (wakeups s')" unfolding w using t(1) by (auto simp: image_iff)
    then show ?thesis using t by blast
  qed
  ultimately show ?thesis using keys by (simp add: wakeup_inv_def wakeups_linked_def)
qed

lemma cancel_facts:
  assumes inv: "wakeup_inv s" and e: "cancel_wakeup_tasks s c g ids kind r = Inr (cs, s')"
  defines "W \<equiv> wanted_tasks ids kind (list_pending_wakeup_tasks s c g)"
  shows "wakeup_inv s' \<and> cs = map (task_cancelled (clock s) r) W \<and>
    wakeups s' = map (\<lambda>t. if w_id t \<in> w_id ` set W then task_cancelled (clock s) r t else t) (wakeups s) \<and>
    jobs s' = map (\<lambda>j. if j_id j \<in> job_of ` set W \<and> j_status j = JobQueued then job_cancelled (clock s) r j else j) (jobs s)"
proof -
  obtain cs1 s1 where l: "cancel_loop s ids kind r (list_pending_wakeup_tasks s c g) = (cs1, s1)" by (metis surj_pair)
  obtain f0 where y: "sync_current_wakeup_task_id s1 c g = Inr (f0, s')" and cs: "cs = cs1"
    using e l by (auto simp: cancel_wakeup_tasks_def elim: bind_r_pairE)
  have keys: "distinct (map w_id (wakeups s))" "distinct (map j_id (jobs s))" "[] \<notin> row_ids j_id (jobs s)"
    using inv by (simp_all add: wakeup_inv_def wakeup_keys_def)
  note rows = cancel_loop_rows [OF keys(2,3) l distinct_pending [OF keys(1)], folded W_def]
  have "wakeup_inv s1"
    by (rule wakeup_inv_cancelled [OF inv, of W])
      (use rows in \<open>auto simp: W_def wanted_tasks_def pending_tasks\<close>)
  then have "wakeup_inv s'" using y by (rule wakeup_inv_sync)
  then show ?thesis using rows cs state_frameD(17,18) [OF sync_frame [OF y]] by simp
qed

lemma pending_after_cancel:
  assumes "distinct (map w_id (wakeups s))"
    and w: "wakeups s' = map (\<lambda>t. if w_id t \<in> w_id ` set (wanted_tasks ids kind (list_pending_wakeup_tasks s c g))
              then task_cancelled now r t else t) (wakeups s)"
  shows "list_pending_wakeup_tasks s' c g = filter (\<lambda>t. \<not> cancel_wanted ids kind t) (list_pending_wakeup_tasks s c g)"
proof -
  let ?P = "\<lambda>t. w_status t = JobQueued \<and> wakeup_matches c g t"
  let ?W = "set (wanted_tasks ids kind (list_pending_wakeup_tasks s c g))"
  have W: "w_id t \<in> w_id ` ?W \<longleftrightarrow> ?P t \<and> cancel_wanted ids kind t" if "t \<in> set (wakeups s)" for t
    using that distinct_key_eq [OF assms(1)] by (auto simp: wanted_tasks_def pending_tasks)
  have "filter ?P (map (\<lambda>t. if w_id t \<in> w_id ` ?W then task_cancelled now r t else t) rows) =
      filter (\<lambda>t. ?P t \<and> \<not> cancel_wanted ids kind t) rows" if "set rows \<subseteq> set (wakeups s)" for rows
    using that by (induction rows) (auto simp: W)
  then have "filter ?P (wakeups s') = filter (\<lambda>t. \<not> cancel_wanted ids kind t) (filter ?P (wakeups s))"
    unfolding w by (simp add: conj_commute)
  then show ?thesis by (simp add: list_pending_wakeup_tasks_def filter_sort)
qed

section \<open>What scheduling does\<close>

lemma wakeup_inv_schedule:
  assumes inv: "wakeup_inv s" and e: "schedule_wakeup s run c g reason payload = Inr ((t, j), s')"
  shows "wakeup_inv s' \<and> t \<in> set (wakeups s') \<and> j \<in> set (jobs s') \<and> task_job t j \<and> w_status t = JobQueued \<and>
    j_status j = JobQueued \<and> Some (w_run_at t) = run \<and> j_available_at j = w_run_at t \<and>
    (\<exists>f0 s4. sync_current_wakeup_task_id s4 c g = Inr (f0, s'))"
proof -
  obtain r where r: "run = Some r" using e by (cases run) (simp_all add: schedule_wakeup_def)
  have reason: "py_strip (str_of reason) \<noteq> []" "one_target c g"
    using e r by (auto simp: schedule_wakeup_def split: if_splits)
  define t0 where "t0 = \<lparr>w_id = new_id s, w_cocoon_id = c, w_chat_group_id = g, w_run_at = r,
      w_reason = Some (py_strip (str_of reason)), w_payload = [], w_status = JobQueued,
      w_cancelled_at = None, w_superseded_by_task_id = None, w_created_at = clock s\<rparr>"
  define s1 where "s1 = (take_id s)\<lparr>wakeups := row_add t0 (wakeups s)\<rparr>"
  obtain tt ti where tt: "resolve_target_type c g = Inr (tt, ti)"
    using e r reason by (cases "resolve_target_type c g") (auto simp: schedule_wakeup_def Let_def)
  obtain k s2 where k: "enqueue_job s1 JobWakeup (wakeup_lock_key tt ti (w_id t0))
      [(''wakeup_task_id'', JStr (w_id t0))] c g (Some r) = (k, s2)" by (metis surj_pair)
  define fill :: "wakeup_row \<Rightarrow> wakeup_row"
    where "fill = (\<lambda>t. t\<lparr>w_payload := dict_set ''durable_job_id'' (JStr (j_id k)) payload\<rparr>)"
  define s3 where "s3 = s2\<lparr>wakeups := row_put w_id (w_id t0) fill (wakeups s2)\<rparr>"
  have "bind_r (sync_current_wakeup_task_id s3 c g) (\<lambda>(_, s4). Inr ((fill t0, k), s4)) = Inr ((t, j), s')"
    using e r reason tt k unfolding s3_def fill_def s1_def t0_def by (simp add: schedule_wakeup_def Let_def)
  then obtain f0 where y: "sync_current_wakeup_task_id s3 c g = Inr (f0, s')" and tj: "t = fill t0" "j = k"
    by (rule bind_r_pairE) auto
  have keys: "wakeup_keys s" and linked: "wakeups_linked s" using inv by (simp_all add: wakeup_inv_def)
  have newt: "w_id t0 \<notin> row_ids w_id (wakeups s)" and newj: "j_id k \<notin> row_ids j_id (jobs s)" "j_id k \<noteq> []"
    using keys k by (auto simp: wakeup_keys_def supply_fresh_def t0_def s1_def enqueue_job_def Let_def new_id_def take_id_def)
  have w2: "wakeups s2 = wakeups s @ [t0]" "jobs s2 = jobs s @ [k]" "id_supply s2 = id_supply s" "id_next s2 = Suc (Suc (id_next s))"
    using k by (auto simp: enqueue_job_def Let_def s1_def row_add_def take_id_def)
  have kf: "j_id k = id_supply s (Suc (id_next s))" "j_job_type k = JobWakeup" "j_status k = JobQueued"
    "j_payload k = [(''wakeup_task_id'', JStr (w_id t0))]" "j_available_at k = r"
    using k by (auto simp: enqueue_job_def Let_def s1_def new_id_def take_id_def)
  have "row_put w_id (w_id t0) fill (wakeups s) = wakeups s"
    by (rule row_put_absent [OF newt])
  then have rows: "wakeups s3 = wakeups s @ [fill t0]" "jobs s3 = jobs s @ [k]"
    "id_supply s3 = id_supply s" "id_next s3 = Suc (Suc (id_next s))"
    by (simp_all add: s3_def w2 row_put_def)
  have tj3: "task_job (fill t0) k" "w_status (fill t0) = JobQueued" "w_id (fill t0) = w_id t0" "w_run_at (fill t0) = r"
    by (simp_all add: task_job_def fill_def kf dict_str_def t0_def)
  have "w_id t0 = id_supply s (id_next s)" by (simp add: t0_def new_id_def)
  moreover have inj: "id_supply s a = id_supply s b \<longleftrightarrow> a = b" for a b
    using keys by (auto simp: wakeup_keys_def supply_fresh_def dest: injD)
  ultimately have "wakeup_keys s3"
    using keys newt newj rows tj3(3) kf(1) unfolding wakeup_keys_def supply_fresh_def row_ids_def
    by (simp add: inj) (metis inj Suc_leD Suc_n_not_le_n)
  moreover have "wakeups_linked s3"
    using linked tj3 kf unfolding wakeups_linked_def rows by auto
  ultimately have "wakeup_inv s'" using wakeup_inv_sync [OF _ y] by (simp add: wakeup_inv_def)
  moreover have "wakeups s' = wakeups s3" "jobs s' = jobs s3" using state_frameD(17,18) [OF sync_frame [OF y]] by simp_all
  ultimately show ?thesis using y tj tj3 rows kf r by auto
qed

lemma wakeup_inv_claim:
  assumes inv: "wakeup_inv s" and e: "claim_next s w = (r, s')" shows "wakeup_inv s'"
  using e
proof (cases rule: claim_next_cases)
  case none
  then show ?thesis using inv by simp
next
  case (claimed j f)
  have fid: "j_id (f k) = j_id k" "j_status (f k) = JobRunning" "j_job_type (f k) = j_job_type k" "j_payload (f k) = j_payload k" for k
    using claimed(4) by simp_all
  have ji: "map j_id (jobs s') = map j_id (jobs s)" using claimed(6) fid by (simp add: row_put_def)
  then have "wakeup_keys s'"
    using inv claimed(6) unfolding wakeup_inv_def wakeup_keys_def supply_fresh_def row_ids_def set_map [symmetric] by simp
  moreover have "wakeups_linked s'"
  proof -
    have tj: "task_job t (if P then f k else k) = task_job t k" for t k P by (simp add: task_job_def fid)
    have "\<exists>k\<in>set (jobs s'). task_job t k" if "k0 \<in> set (jobs s)" "task_job t k0" for t k0
      using row_put_mem [OF that(1), of j_id "j_id j" f] that(2) tj claimed(6) by auto
    moreover have "k \<in> set (jobs s)" if "k \<in> set (jobs s')" "j_status k = JobQueued" for k
      using that claimed(6) fid by (auto simp: row_put_def split: if_splits)
    moreover have "wakeups s' = wakeups s" using claimed(6) by simp
    ultimately show ?thesis using inv unfolding wakeup_inv_def wakeups_linked_def by metis
  qed
  ultimately show ?thesis by (simp add: wakeup_inv_def)
qed

lemma wakeup_inv_finish:
  assumes inv: "wakeup_inv s" and st: "status \<noteq> JobQueued" shows "wakeup_inv (finish_job s i status err)"
proof -
  let ?f = "\<lambda>j. j\<lparr>j_status := status, j_error_text := err, j_finished_at := Some (utcnow s)\<rparr>"
  have jobs: "jobs (finish_job s i status err) = row_put j_id i ?f (jobs s)" by (simp add: finish_job_def)
  have ji: "map j_id (jobs (finish_job s i status err)) = map j_id (jobs s)" unfolding jobs by (simp add: row_put_def)
  then have keys: "wakeup_keys (finish_job s i status err)"
    using inv unfolding wakeup_inv_def wakeup_keys_def supply_fresh_def row_ids_def set_map [symmetric]
    by (simp add: finish_job_def)
  have w: "wakeups (finish_job s i status err) = wakeups s" by (simp add: finish_job_def)
  have "\<exists>k\<in>set (jobs (finish_job s i status err)). task_job t k" if "k0 \<in> set (jobs s)" "task_job t k0" for t k0
  proof -
    have "task_job t (if j_id k0 = i then ?f k0 else k0)" using that(2) by (simp add: task_job_def)
    then show ?thesis using row_put_mem [OF that(1), of j_id i ?f] unfolding jobs by blast
  qed
  moreover have "k \<in> set (jobs s)" if "k \<in> set (jobs (finish_job s i status err))" "j_status k = JobQueued" for k
    using that st unfolding jobs by (auto simp: row_put_def split: if_splits)
  ultimately have "wakeups_linked (finish_job s i status err)"
    using inv w unfolding wakeup_inv_def wakeups_linked_def by metis
  then show ?thesis using keys by (simp add: wakeup_inv_def)
qed

lemma wakeup_inv_enqueue:
  assumes inv: "wakeup_inv s" and ty: "ty \<noteq> JobWakeup" and e: "enqueue_job s ty key payload c g due = (j, s')"
  shows "wakeup_inv s'"
proof -
  have s': "jobs s' = jobs s @ [j]" "wakeups s' = wakeups s" "id_supply s' = id_supply s" "id_next s' = Suc (id_next s)"
    "j_id j = id_supply s (id_next s)" "j_job_type j = ty"
    using e by (auto simp: enqueue_job_def Let_def row_add_def take_id_def new_id_def)
  have keys: "wakeup_keys s" using inv by (simp add: wakeup_inv_def)
  moreover have ij: "id_supply s a = id_supply s b \<longleftrightarrow> a = b" for a b
    using keys by (auto simp: wakeup_keys_def supply_fresh_def dest: injD)
  ultimately have "wakeup_keys s'"
    unfolding wakeup_keys_def supply_fresh_def row_ids_def s' by (auto simp: s'(5) ij) (metis imageI order_refl)
  moreover have "wakeups_linked s'"
    using inv ty s'(6) unfolding wakeup_inv_def wakeups_linked_def s'(1,2) by auto
  ultimately show ?thesis by (simp add: wakeup_inv_def)
qed

text \<open>The operations on wakeups and jobs, in any order; the clock only moves forward.\<close>

inductive wakeup_step :: "session \<Rightarrow> session \<Rightarrow> bool" where
  schedule: "schedule_wakeup s run c g reason payload = Inr (p, s') \<Longrightarrow> wakeup_step s s'"
| cancel: "cancel_wakeup_tasks s c g ids kind reason = Inr (ts, s') \<Longrightarrow> wakeup_step s s'"
| claim: "claim_next s w = (r, s') \<Longrightarrow> wakeup_step s s'"
| finish: "status \<noteq> JobQueued \<Longrightarrow> wakeup_step s (finish_job s i status err)"
| enqueue: "ty \<noteq> JobWakeup \<Longrightarrow> enqueue_job s ty key payload c g due = (j, s') \<Longrightarrow> wakeup_step s s'"
| tick: "clock s \<le> now \<Longrightarrow> wakeup_step s (s\<lparr>clock := now\<rparr>)"

lemma wakeup_step_inv: "wakeup_step s s' \<Longrightarrow> wakeup_inv s \<Longrightarrow> wakeup_inv s'"
proof (induction rule: wakeup_step.induct)
  case (schedule s run c g reason payload p s')
  then show ?case using wakeup_inv_schedule [of s run c g reason payload "fst p" "snd p" s'] by simp
next
  case (cancel s c g ids kind reason ts s')
  then show ?case using cancel_facts by blast
next
  case (claim s w r s')
  then show ?case using wakeup_inv_claim by blast
next
  case (finish status s i err)
  then show ?case using wakeup_inv_finish by blast
next
  case (enqueue ty s key payload c g at j s')
  then show ?case using wakeup_inv_enqueue by blast
next
  case (tick s now)
  then show ?case by (simp add: wakeup_inv_def wakeup_keys_def wakeups_linked_def supply_fresh_def)
qed

lemma wakeup_steps_inv: "wakeup_step\<^sup>*\<^sup>* s s' \<Longrightarrow> wakeup_inv s \<Longrightarrow> wakeup_inv s'"
  by (induction rule: rtranclp_induct) (auto intro: wakeup_step_inv)

text \<open>
  C8. Whatever is scheduled, cancelled, claimed, finished and enqueued: a wakeup job that is still
  queued belongs to a task that is still pending, so a cancelled task never fires, and every
  pending task has its wakeup job.
\<close>

theorem wakeup_steps_linked:
  assumes "wakeup_inv s" "wakeup_step\<^sup>*\<^sup>* s s'"
  shows "(\<forall>j\<in>set (jobs s'). j_job_type j = JobWakeup \<and> j_status j = JobQueued \<longrightarrow>
      (\<exists>t\<in>set (wakeups s'). w_id t = dict_str ''wakeup_task_id'' (j_payload j) \<and> w_status t = JobQueued)) \<and>
    (\<forall>t\<in>set (wakeups s'). w_status t = JobQueued \<longrightarrow>
      (\<exists>j\<in>set (jobs s'). j_job_type j = JobWakeup \<and> dict_str ''wakeup_task_id'' (j_payload j) = w_id t))"
  using wakeup_steps_inv [OF assms(2,1)] unfolding wakeup_inv_def wakeups_linked_def task_job_def by metis

text \<open>
  Cancelling returns the pending tasks of the target that were asked for; exactly these stop
  being pending, their queued jobs are cancelled, every other task and job stays as it was, and the
  state of the target points at the earliest task that is left.
\<close>

theorem cancel_wakeup_tasks_exact:
  assumes "wakeup_inv s" "cancel_wakeup_tasks s c g ids kind r = Inr (cs, s')"
  shows "map w_id cs = map w_id (filter (cancel_wanted ids kind) (list_pending_wakeup_tasks s c g)) \<and>
    list_pending_wakeup_tasks s' c g = filter (\<lambda>t. \<not> cancel_wanted ids kind t) (list_pending_wakeup_tasks s c g) \<and>
    (\<forall>t\<in>set (wakeups s). t \<in> set (wakeups s') \<or> w_id t \<in> w_id ` set cs) \<and>
    (\<forall>j\<in>set (jobs s). j \<in> set (jobs s') \<or>
       (\<exists>t\<in>set cs. job_of t = j_id j \<and> j_status j = JobQueued \<and> job_cancelled (clock s) r j \<in> set (jobs s'))) \<and>
    (\<forall>m st. build_target_filter c g \<noteq> Inr m \<or>
       List.find (\<lambda>x. m (st_cocoon_id x) (st_chat_group_id x)) (states s') \<noteq> Some st \<or>
       st_current_wakeup_task_id st = first_id (list_pending_wakeup_tasks s' c g))"
proof -
  let ?W = "wanted_tasks ids kind (list_pending_wakeup_tasks s c g)"
  note f = cancel_facts [OF assms]
  note fw = f [THEN conjunct2, THEN conjunct2, THEN conjunct1]
    and fj = f [THEN conjunct2, THEN conjunct2, THEN conjunct2]
  have d: "distinct (map w_id (wakeups s))" using assms(1) by (simp add: wakeup_inv_def wakeup_keys_def)
  have p: "list_pending_wakeup_tasks s' c g = filter (\<lambda>t. \<not> cancel_wanted ids kind t) (list_pending_wakeup_tasks s c g)"
    by (rule pending_after_cancel [OF d]) (use f in blast)
  have cs: "w_id ` set cs = w_id ` set ?W" "job_of ` set cs = job_of ` set ?W" "map w_id cs = map w_id ?W"
    using f by (auto simp: image_image job_of_def)
  have t: "t \<in> set (wakeups s') \<or> w_id t \<in> w_id ` set cs" if "t \<in> set (wakeups s)" for t
  proof -
    have "(if w_id t \<in> w_id ` set ?W then task_cancelled (clock s) r t else t) \<in> set (wakeups s')"
      by (rule map_mem [OF fw that])
    then show ?thesis using cs(1) by (auto split: if_splits)
  qed
  have j: "j \<in> set (jobs s') \<or> (\<exists>t\<in>set cs. job_of t = j_id j \<and> j_status j = JobQueued \<and> job_cancelled (clock s) r j \<in> set (jobs s'))"
    if "j \<in> set (jobs s)" for j
  proof -
    have "(if j_id j \<in> job_of ` set ?W \<and> j_status j = JobQueued then job_cancelled (clock s) r j else j) \<in> set (jobs s')"
      by (rule map_mem [OF fj that])
    moreover have "\<exists>t\<in>set cs. job_of t = j_id j" if "j_id j \<in> job_of ` set ?W"
      using that unfolding cs(2) [symmetric] by auto
    ultimately show ?thesis by (auto split: if_splits)
  qed
  obtain cs1 s1 where l: "cancel_loop s ids kind r (list_pending_wakeup_tasks s c g) = (cs1, s1)" by (metis surj_pair)
  obtain f0 where y: "sync_current_wakeup_task_id s1 c g = Inr (f0, s')"
    using assms(2) l by (auto simp: cancel_wakeup_tasks_def elim: bind_r_pairE)
  have q: "st_current_wakeup_task_id st = first_id (list_pending_wakeup_tasks s' c g)"
    if "build_target_filter c g = Inr m" "List.find (\<lambda>x. m (st_cocoon_id x) (st_chat_group_id x)) (states s') = Some st" for m st
    using sync_state_pointer [OF y that] .
  show ?thesis
    by (intro conjI ballI allI) (use cs(3) p t j q in \<open>auto simp: wanted_tasks_def\<close>)
qed

section \<open>A run\<close>

definition sample_run :: session where
  "sample_run = snd (projr (schedule_wakeup sample_cocoons (Some 10) (Some ''a'') None (Some ''ping'') []))"

lemma sample_wakeups_inv: "wakeup_inv sample_cocoons"
  by (simp add: wakeup_inv_def wakeup_keys_def wakeups_linked_def supply_fresh_def sample_cocoons_def sample_tags_def
      empty_session_def id_literal_inj id_literal_def row_ids_def)

lemma sample_run_schedule:
  "\<exists>t j. schedule_wakeup sample_cocoons (Some 10) (Some ''a'') None (Some ''ping'') [] = Inr ((t, j), sample_run)"
proof -
  have "\<not> isl (schedule_wakeup sample_cocoons (Some 10) (Some ''a'') None (Some ''ping'') [])" by code_simp
  then obtain p s' where "schedule_wakeup sample_cocoons (Some 10) (Some ''a'') None (Some ''ping'') [] = Inr (p, s')"
    by (metis isl_def sum.exhaust surj_pair)
  then show ?thesis by (cases p) (simp add: sample_run_def)
qed

theorem wakeup_steps_linked_witness:
  "\<exists>j\<in>set (jobs sample_run). \<exists>t\<in>set (wakeups sample_run).
     w_id t = dict_str ''wakeup_task_id'' (j_payload j) \<and> w_status t = JobQueued"
proof -
  obtain t j where sch: "schedule_wakeup sample_cocoons (Some 10) (Some ''a'') None (Some ''ping'') [] = Inr ((t, j), sample_run)"
    using sample_run_schedule by blast
  note f = wakeup_inv_schedule [OF sample_wakeups_inv sch]
  have "wakeup_step\<^sup>*\<^sup>* sample_cocoons sample_run"
    using wakeup_step.schedule [OF sch] by (rule r_into_rtranclp)
  moreover have "j \<in> set (jobs sample_run)" "j_job_type j = JobWakeup" "j_status j = JobQueued"
    using f by (simp_all add: task_job_def)
  ultimately show ?thesis using wakeup_steps_linked [OF sample_wakeups_inv] by blast
qed

theorem cancel_wakeup_tasks_exact_witness:
  "\<exists>cs s'. cancel_wakeup_tasks sample_run (Some ''a'') None None None (Some ''stop'') = Inr (cs, s') \<and>
     length cs = 1 \<and> list_pending_wakeup_tasks s' (Some ''a'') None = []"
proof -
  obtain t j where sch: "schedule_wakeup sample_cocoons (Some 10) (Some ''a'') None (Some ''ping'') [] = Inr ((t, j), sample_run)"
    using sample_run_schedule by blast
  have inv: "wakeup_inv sample_run" using wakeup_inv_schedule [OF sample_wakeups_inv sch] by simp
  have "\<not> isl (cancel_wakeup_tasks sample_run (Some ''a'') None None None (Some ''stop''))" by code_simp
  then obtain cs s' where c: "cancel_wakeup_tasks sample_run (Some ''a'') None None None (Some ''stop'') = Inr (cs, s')"
    by (metis isl_def sum.exhaust surj_pair)
  have "length (list_pending_wakeup_tasks sample_run (Some ''a'') None) = 1" by code_simp
  with cancel_wakeup_tasks_exact [OF inv c] c show ?thesis
    by (metis (mono_tags, lifting) cancel_wanted_def filter_True filter_False length_map option.simps(4) truthy_simps(1))
qed

end
