(* ===== verification/Memory.thy ===== *)
theory Memory
  imports Frames SystemSettings
begin

text \<open>
  Long-term memory (\<open>services/memory/service.py\<close>): which memories a conversation may see, how they are
  ranked, the cache of facts, and candidates that become memories. The keyword extractor, the embedding
  services and the distance operator of the database are arguments. A character is a code
  point below 256, so the branches for CJK text are never taken.
\<close>

section \<open>Numbers\<close>

text \<open>\<open>round\<close> rounds a half to the even neighbour; \<open>float\<close> of a JSON value.\<close>

definition py_round :: "rat \<Rightarrow> int" where
  "py_round r =
     (let f = \<lfloor>r\<rfloor>; d = r - of_int f
      in if d < 1 / 2 then f else if 1 / 2 < d then f + 1 else if even f then f else f + 1)"

definition round_places :: "nat \<Rightarrow> rat \<Rightarrow> rat" where
  "round_places n r = of_int (py_round (r * 10 ^ n)) / 10 ^ n"

definition parse_part :: "string \<Rightarrow> nat option" where
  "parse_part t = (if t = [] then Some 0 else parse_digits False 0 t)"

definition parse_exponent :: "string \<Rightarrow> int option" where
  "parse_exponent t =
     (case t of [] \<Rightarrow> Some 0
      | _ # r \<Rightarrow> (case int_of_str r of Inl _ \<Rightarrow> None | Inr n \<Rightarrow> if list_all (\<lambda>c. \<not> py_isspace c) r then Some n else None))"

text \<open>
  Decimal notation with an optional fraction and exponent; infinities and not-a-number have no rational value.
\<close>

definition float_of_str :: "string \<Rightarrow> rat result" where
  "float_of_str s =
     (let t = py_strip s;
          (sign, body) = (case t of
              [] \<Rightarrow> (1, [])
            | c # cs \<Rightarrow> if c = CHR ''-'' then (-1, cs) else if c = CHR ''+'' then (1, cs) else (1, t));
          mantissa = takeWhile (\<lambda>c. c \<noteq> CHR ''e'' \<and> c \<noteq> CHR ''E'') body;
          whole = takeWhile (\<lambda>c. c \<noteq> CHR ''.'') mantissa;
          fraction = drop (Suc (length whole)) mantissa
      in case (parse_part whole, parse_part fraction, parse_exponent (drop (length mantissa) body)) of
           (Some a, Some b, Some n) \<Rightarrow>
             if whole = [] \<and> fraction = [] then Inl (ValueError ''could not convert string to float'')
             else Inr (sign * (of_nat a + of_nat b / 10 ^ length (filter is_digit fraction)) *
                       (if 0 \<le> n then 10 ^ nat n else 1 / 10 ^ nat (- n)))
         | _ \<Rightarrow> Inl (ValueError ''could not convert string to float''))"

fun json_float :: "json \<Rightarrow> rat result" where
  "json_float (JInt i) = Inr (of_int i)"
| "json_float (JBool b) = Inr (if b then 1 else 0)"
| "json_float (JNum r) = Inr r"
| "json_float (JStr t) = float_of_str t"
| "json_float _ = Inl (TypeError ''float() argument must be a string or a real number'')"

text \<open>\<open>float(d.get(k, default))\<close>\<close>

definition dict_float :: "string \<Rightarrow> rat \<Rightarrow> dict \<Rightarrow> rat result" where
  "dict_float k dflt d = (case dict_get k d of None \<Rightarrow> Inr dflt | Some v \<Rightarrow> json_float v)"

text \<open>\<open>xs[:n]\<close> and a query with \<open>limit(n)\<close>, which the database refuses for a negative number.\<close>

definition py_take :: "int \<Rightarrow> 'a list \<Rightarrow> 'a list" where
  "py_take n xs = (if 0 \<le> n then take (nat n) xs else take (length xs - nat (- n)) xs)"

definition sql_limit :: "int \<Rightarrow> 'a list \<Rightarrow> 'a list result" where
  "sql_limit n xs = (if n < 0 then Inl (OtherException ''LIMIT must not be negative'') else Inr (take (nat n) xs))"

section \<open>What lies outside the repository\<close>

datatype embed_answer = EmbedFailed | Embedded "rat list list" dict

record memory_env =
  me_supports_vectors :: bool
  me_embed :: "embedding_provider_row \<Rightarrow> string \<Rightarrow> embed_answer"
  me_distance :: "rat list \<Rightarrow> rat list \<Rightarrow> rat option"
  me_extract_tags :: "string \<Rightarrow> nat \<Rightarrow> (string \<times> rat) list"
  me_known_kinds :: "string list"

text \<open>
  \<open>ProviderRegistry.resolve_embedding_provider\<close>; decrypting the secret belongs to the embedding call.
\<close>

definition resolve_embedding_provider :: "memory_env \<Rightarrow> session \<Rightarrow> embedding_provider_row option result" where
  "resolve_embedding_provider e s =
     (case sort_key ep_created_at (filter ep_is_enabled (embedding_providers s)) of
        [] \<Rightarrow> Inr None
      | [p] \<Rightarrow> if ep_kind p \<in> set (me_known_kinds e) then Inr (Some p)
               else Inl (ValueError (''Unsupported embedding provider kind: '' @ ep_kind p))
      | _ \<Rightarrow> Inl (ValueError ''Expected exactly one active embedding provider''))"

section \<open>Keywords\<close>

definition is_hex :: "char \<Rightarrow> bool" where
  "is_hex c \<longleftrightarrow> is_digit c \<or> c \<in> set ''abcdefABCDEF''"

fun hex_groups :: "nat list \<Rightarrow> string \<Rightarrow> bool" where
  "hex_groups [] t = (t = [])"
| "hex_groups [n] t = (length t = n \<and> list_all is_hex t)"
| "hex_groups (n # ns) t =
     (n < length t \<and> list_all is_hex (take n t) \<and> t ! n = CHR ''-'' \<and> hex_groups ns (drop (Suc n) t))"

definition looks_like_internal_tag_ref :: "string \<Rightarrow> bool" where
  "looks_like_internal_tag_ref v =
     (let t = py_strip v in hex_groups [32] t \<or> hex_groups [8, 4, 4, 4, 12] t)"

definition ASCII_STOPWORDS :: "string list" where
  "ASCII_STOPWORDS =
     [''active'', ''agent'', ''ai'', ''archived'', ''assistant'', ''candidate'', ''chat'', ''content'', ''conversation'',
      ''current'', ''default'', ''memory'', ''meta'', ''project'', ''reply'', ''runtime'', ''session'', ''summary'',
      ''system'', ''task'', ''user'']"

definition ascii_word :: "string \<Rightarrow> bool" where
  "ascii_word t =
     (case t of [] \<Rightarrow> False
      | c # cs \<Rightarrow> (is_ascii_lower c \<or> is_digit c) \<and> list_all (\<lambda>c. is_ascii_lower c \<or> is_digit c \<or> c \<in> set ''_./+-'') cs)"

definition normalize_keyword :: "string \<Rightarrow> string option" where
  "normalize_keyword raw =
     (let keyword = py_strip raw; normalized = py_lower keyword
      in if keyword = [] then None
         else if normalized \<in> set ASCII_STOPWORDS \<or> list_all is_digit normalized then None
         else if looks_like_internal_tag_ref keyword then None
         else if \<not> ascii_word normalized then None
         else if 3 \<le> length normalized then Some normalized else None)"

fun count_keywords :: "(string \<times> rat) list \<Rightarrow> (string \<times> rat) list \<Rightarrow> (string \<times> rat) list" where
  "count_keywords [] counts = counts"
| "count_keywords ((keyword, weight) # kws) counts =
     (case normalize_keyword keyword of
        None \<Rightarrow> count_keywords kws counts
      | Some k \<Rightarrow> count_keywords kws
          (dict_set k (max (case dict_get k counts of None \<Rightarrow> 0 | Some w \<Rightarrow> w) weight) counts))"

definition build_memory_keyword_cache :: "memory_env \<Rightarrow> string \<Rightarrow> nat \<Rightarrow> json list" where
  "build_memory_keyword_cache e source_text limit =
     (if py_strip source_text = [] then []
      else map (\<lambda>(word, weight). JObj [(''word'', JStr word), (''weight'', JNum (round_places 4 weight))])
        (take limit (sort_key (\<lambda>(word, weight). (- weight, word))
           (count_keywords (me_extract_tags e source_text (limit * 3)) []))))"

definition memory_keyword_source :: "memory_row \<Rightarrow> string option \<Rightarrow> string" where
  "memory_keyword_source m source_text =
     (if truthy source_text \<and> py_strip (str_of source_text) \<noteq> [] then py_strip (str_of source_text)
      else py_join ''\<newline>'' (filter (\<lambda>p. p \<noteq> [])
        ((if truthy (mem_summary m) then [py_strip (str_of (mem_summary m))] else []) @
         (if mem_content m \<noteq> [] then [py_strip (mem_content m)] else []))))"

section \<open>Labels of tags\<close>

definition tag_display_name :: "tag_row option \<Rightarrow> string \<Rightarrow> string" where
  "tag_display_name t fallback =
     (case t of
        None \<Rightarrow> py_strip fallback
      | Some t \<Rightarrow>
          case List.find (\<lambda>k. case dict_get k (t_meta t) of Some (JStr v) \<Rightarrow> py_strip v \<noteq> [] | _ \<Rightarrow> False)
                 [''name'', ''title'', ''display_name'', ''label''] of
            Some k \<Rightarrow> py_strip (dict_str k (t_meta t))
          | None \<Rightarrow> if py_strip (t_tag_id t) \<noteq> [] then py_strip (t_tag_id t) else py_strip fallback)"

definition should_expose_tag_label :: "tag_row option \<Rightarrow> bool" where
  "should_expose_tag_label t =
     (case t of None \<Rightarrow> True
      | Some t \<Rightarrow> (t_is_system t \<and> py_strip (t_tag_id t) = SYSTEM_TAG_SLUG) \<or> \<not> t_is_hidden t)"

fun label_loop :: "session \<Rightarrow> id option \<Rightarrow> string list \<Rightarrow> string list \<Rightarrow> string list" where
  "label_loop s owner [] labels = labels"
| "label_loop s owner (raw # refs) labels =
     (let tag_ref = py_strip raw
      in if tag_ref = [] then label_loop s owner refs labels
         else let t = get_tag_by_any_ref s tag_ref owner; label = tag_display_name t tag_ref
              in if \<not> should_expose_tag_label t \<or> label = [] \<or> looks_like_internal_tag_ref label \<or> label \<in> set labels
                 then label_loop s owner refs labels
                 else label_loop s owner refs (labels @ [label]))"

definition resolve_memory_tag_labels :: "session \<Rightarrow> memory_row \<Rightarrow> string list" where
  "resolve_memory_tag_labels s m =
     (let owner = (if truthy (mem_owner_user_id m) then mem_owner_user_id m
                   else resolve_tag_owner_user_id_for_target s (mem_cocoon_id m) (mem_chat_group_id m))
      in label_loop s owner (mem_tags m) [])"

definition new_memory_tag :: "session \<Rightarrow> id \<Rightarrow> string \<Rightarrow> tag_row" where
  "new_memory_tag s owner tag_ref =
     \<lparr>t_id = new_id s, t_owner_user_id = owner, t_tag_id = tag_ref, t_brief = tag_ref, t_visibility = ''private'',
      t_is_isolated = True, t_is_system = False, t_is_hidden = False, t_meta = [], t_created_at = utcnow s\<rparr>"

text \<open>The tag a reference stands for: an existing one, the default tag, or a new one.\<close>

definition find_or_create_tag :: "session \<Rightarrow> id \<Rightarrow> string \<Rightarrow> tag_row option \<times> session" where
  "find_or_create_tag s owner tag_ref =
     (case get_tag_by_any_ref s tag_ref (Some owner) of
        Some t \<Rightarrow> (Some t, s)
      | None \<Rightarrow>
          if tag_ref = SYSTEM_TAG_SLUG then (let (t, s1) = ensure_user_system_tag s owner in (Some t, s1))
          else if looks_like_internal_tag_ref tag_ref then (None, s)
          else let t = new_memory_tag s owner tag_ref in (Some t, (take_id s)\<lparr>tags := row_add t (tags s)\<rparr>))"

fun create_tags_loop :: "session \<Rightarrow> id \<Rightarrow> string list \<Rightarrow> id list \<Rightarrow> id list \<times> session" where
  "create_tags_loop s owner [] resolved = (resolved, s)"
| "create_tags_loop s owner (raw # refs) resolved =
     (let tag_ref = py_strip raw
      in if tag_ref = [] then create_tags_loop s owner refs resolved
         else let (t, s1) = find_or_create_tag s owner tag_ref
              in case t of
                   None \<Rightarrow> create_tags_loop s1 owner refs resolved
                 | Some t \<Rightarrow>
                     if \<not> should_expose_tag_label (Some t) \<or> t_id t \<in> set resolved
                     then create_tags_loop s1 owner refs resolved
                     else create_tags_loop s1 owner refs (resolved @ [t_id t]))"

definition resolve_or_create_memory_tags :: "session \<Rightarrow> id option \<Rightarrow> string list \<Rightarrow> id list \<times> session" where
  "resolve_or_create_memory_tags s owner refs =
     (if \<not> truthy owner then ([], s) else create_tags_loop s (str_of owner) refs [])"

section \<open>Visibility\<close>

definition in_list :: "id option \<Rightarrow> id list \<Rightarrow> bool" where
  "in_list i ids = (case i of None \<Rightarrow> False | Some i \<Rightarrow> i \<in> set ids)"

definition user_global_of :: "id option \<Rightarrow> memory_row \<Rightarrow> bool" where
  "user_global_of owner m \<longleftrightarrow> truthy owner \<and> mem_memory_pool m = ''user_global'' \<and> mem_owner_user_id m = owner"

definition build_visibility_filter :: "session \<Rightarrow> id option \<Rightarrow> id option \<Rightarrow> id option \<Rightarrow> memory_row \<Rightarrow> bool" where
  "build_visibility_filter s cocoon_id chat_group_id owner m =
     (if truthy cocoon_id
      then let ids = list_cocoon_lineage_ids s (str_of cocoon_id);
               lineage_ids = (if ids = [] then [str_of cocoon_id] else ids)
           in (mem_memory_pool m = ''tree_private'' \<and> in_list (mem_cocoon_id m) lineage_ids) \<or> user_global_of owner m
      else if truthy chat_group_id
      then (mem_memory_pool m = ''room_local'' \<and> mem_chat_group_id m = chat_group_id) \<or> user_global_of owner m
      else False)"

definition tags_visible_in_room :: "session \<Rightarrow> id \<Rightarrow> memory_row \<Rightarrow> bool" where
  "tags_visible_in_room s room m =
     list_all (\<lambda>i. case row_get t_id i (tags s) of None \<Rightarrow> True
                   | Some t \<Rightarrow> is_tag_visible_in_target s t ''chat_group'' room) (mem_tags m)"

definition tag_filtered :: "session \<Rightarrow> memory_row list \<Rightarrow> id list \<Rightarrow> id option \<Rightarrow> memory_row list" where
  "tag_filtered s ms active_tags chat_group_id =
     (let ms1 = (if truthy chat_group_id then filter (tags_visible_in_room s (str_of chat_group_id)) ms else ms)
      in if active_tags = [] then ms1
         else filter (\<lambda>m. mem_tags m = [] \<or> list_ex (\<lambda>i. i \<in> set active_tags) (mem_tags m)) ms1)"

definition not_expired :: "time \<Rightarrow> time option \<Rightarrow> bool" where
  "not_expired now valid_until = (case valid_until of None \<Rightarrow> True | Some t \<Rightarrow> now \<le> t)"

definition load_candidate_memories ::
  "session \<Rightarrow> id list \<Rightarrow> id option \<Rightarrow> id option \<Rightarrow> id option \<Rightarrow> string list \<Rightarrow> int \<Rightarrow> memory_row list result" where
  "load_candidate_memories s active_tags cocoon_id chat_group_id owner scopes limit =
     bind_r (sql_limit (max (limit * 6) limit)
       (sort_key (\<lambda>m. - mem_updated_at m)
         (filter (\<lambda>m. mem_status m = ''active'' \<and> not_expired (utcnow s) (mem_valid_until m) \<and>
                      build_visibility_filter s cocoon_id chat_group_id owner m \<and>
                      (scopes \<noteq> [] \<longrightarrow> mem_scope m \<in> set scopes)) (memories s)))) (\<lambda>ms.
     Inr (tag_filtered s ms active_tags chat_group_id))"

definition list_target_memories :: "session \<Rightarrow> id option \<Rightarrow> id option \<Rightarrow> id option \<Rightarrow> bool \<Rightarrow> memory_row list" where
  "list_target_memories s cocoon_id chat_group_id owner include_inactive =
     sort_key (\<lambda>m. (- mem_updated_at m, - mem_created_at m))
       (filter (\<lambda>m. build_visibility_filter s cocoon_id chat_group_id owner m \<and>
                    (include_inactive \<or> mem_status m = ''active'')) (memories s))"

section \<open>Ranking\<close>

record memory_hit =
  h_memory :: memory_row
  h_similarity :: "rat option"
  h_matched_tags :: "id list"
  h_embedding_provider_id :: "id option"
  h_final_score :: rat
  h_breakdown :: "(string \<times> rat) list"

definition new_hit :: "id list \<Rightarrow> rat option \<Rightarrow> id option \<Rightarrow> memory_row \<Rightarrow> memory_hit" where
  "new_hit active_tags similarity provider_id m =
     \<lparr>h_memory = m, h_similarity = similarity,
      h_matched_tags = sort (filter (\<lambda>i. i \<in> set active_tags) (remdups (mem_tags m))),
      h_embedding_provider_id = provider_id, h_final_score = 0, h_breakdown = []\<rparr>"

definition clamp01 :: "rat \<Rightarrow> rat" where
  "clamp01 r = max 0 (min r 1)"

text \<open>A memory row always has an update time, so the other defaults are never used.\<close>

definition recency_score :: "time \<Rightarrow> memory_row \<Rightarrow> rat" where
  "recency_score now m =
     (let timestamp = (case mem_last_accessed_at m of None \<Rightarrow> mem_updated_at m | Some t \<Rightarrow> t);
          age_days = max 0 (of_int (now - timestamp) / 1000000 / 86400)
      in 1 / (1 + age_days / 30))"

definition score_parts :: "time \<Rightarrow> id list \<Rightarrow> memory_hit \<Rightarrow> (string \<times> rat) list" where
  "score_parts now active_tags h =
     [(''vector'', case h_similarity h of None \<Rightarrow> 0 | Some r \<Rightarrow> r),
      (''importance'', clamp01 (of_int (mem_importance (h_memory h)) / 5)),
      (''recency'', recency_score now (h_memory h)),
      (''confidence'', clamp01 (of_int (mem_confidence (h_memory h)) / 5)),
      (''tag_match'', if active_tags = [] then 0
                      else min (of_nat (length (h_matched_tags h)) / of_nat (max (length active_tags) 1)) 1)]"

fun weighted_sum :: "dict \<Rightarrow> (string \<times> rat) list \<Rightarrow> rat result" where
  "weighted_sum weights [] = Inr 0"
| "weighted_sum weights ((key, v) # parts) =
     bind_r (dict_float (key @ ''_weight'') 0 weights) (\<lambda>w.
     bind_r (weighted_sum weights parts) (\<lambda>rest. Inr (v * w + rest)))"

definition score_hit :: "time \<Rightarrow> id list \<Rightarrow> dict \<Rightarrow> memory_hit \<Rightarrow> memory_hit result" where
  "score_hit now active_tags weights h =
     (let breakdown = score_parts now active_tags h
      in bind_r (weighted_sum weights breakdown) (\<lambda>total.
         Inr (h\<lparr>h_breakdown := breakdown, h_final_score := total\<rparr>)))"

fun score_hits :: "time \<Rightarrow> id list \<Rightarrow> dict \<Rightarrow> memory_hit list \<Rightarrow> memory_hit list result" where
  "score_hits now active_tags weights [] = Inr []"
| "score_hits now active_tags weights (h # hs) =
     bind_r (score_hit now active_tags weights h) (\<lambda>h'.
     bind_r (score_hits now active_tags weights hs) (\<lambda>hs'. Inr (h' # hs')))"

text \<open>\<open>sort(key=..., reverse=True)\<close> keeps the order of equal elements.\<close>

definition rank_hits :: "int \<Rightarrow> memory_hit list \<Rightarrow> memory_hit list" where
  "rank_hits limit hits = py_take limit (sort_key (\<lambda>h. (- h_final_score h, - mem_updated_at (h_memory h))) hits)"

definition local_ranking :: "session \<Rightarrow> id list \<Rightarrow> dict \<Rightarrow> int \<Rightarrow> memory_row list \<Rightarrow> memory_hit list result" where
  "local_ranking s active_tags weights limit candidates =
     bind_r (score_hits (utcnow s) active_tags weights (map (new_hit active_tags None None) candidates)) (\<lambda>hits.
     Inr (rank_hits limit hits))"

text \<open>The rows of the vector query: memory, provider and distance, nearest first; no distance sorts last.\<close>

definition distance_of :: "memory_env \<Rightarrow> rat list \<Rightarrow> embedding_row \<Rightarrow> rat option" where
  "distance_of e query_vector r = (case em_embedding r of None \<Rightarrow> None | Some v \<Rightarrow> me_distance e v query_vector)"

definition vector_rows :: "memory_env \<Rightarrow> session \<Rightarrow> rat list \<Rightarrow> id list \<Rightarrow> int \<Rightarrow> embedding_row list result" where
  "vector_rows e s query_vector candidate_ids limit =
     sql_limit (max (limit * 4) limit)
       (sort_key (\<lambda>r. case distance_of e query_vector r of None \<Rightarrow> (True, 0) | Some d \<Rightarrow> (False, d))
         (filter (\<lambda>r. em_memory_chunk_id r \<in> set candidate_ids \<and> em_embedding r \<noteq> None) (embeddings s)))"

fun vector_hits ::
  "memory_env \<Rightarrow> rat list \<Rightarrow> id list \<Rightarrow> memory_row list \<Rightarrow> embedding_row list \<Rightarrow> id list \<Rightarrow> memory_hit list" where
  "vector_hits e query_vector active_tags candidates [] seen = []"
| "vector_hits e query_vector active_tags candidates (r # rs) seen =
     (case row_get mem_id (em_memory_chunk_id r) candidates of
        None \<Rightarrow> vector_hits e query_vector active_tags candidates rs seen
      | Some m \<Rightarrow>
          if mem_id m \<in> set seen then vector_hits e query_vector active_tags candidates rs seen
          else new_hit active_tags (map_option (\<lambda>d. max 0 (1 - d)) (distance_of e query_vector r))
                 (em_embedding_provider_id r) m #
               vector_hits e query_vector active_tags candidates rs (mem_id m # seen))"

definition vector_ranking ::
  "memory_env \<Rightarrow> session \<Rightarrow> id list \<Rightarrow> dict \<Rightarrow> int \<Rightarrow> memory_row list \<Rightarrow> rat list \<Rightarrow> memory_hit list result" where
  "vector_ranking e s active_tags weights limit candidates query_vector =
     bind_r (vector_rows e s query_vector (map mem_id candidates) limit) (\<lambda>rows.
     let near = vector_hits e query_vector active_tags candidates rows [];
         seen_ids = map (mem_id \<circ> h_memory) near;
         others = map (new_hit active_tags None None) (filter (\<lambda>m. mem_id m \<notin> set seen_ids) candidates)
     in bind_r (score_hits (utcnow s) active_tags weights (near @ others)) (\<lambda>hits. Inr (rank_hits limit hits)))"

definition retrieve_visible_memories ::
  "memory_env \<Rightarrow> session \<Rightarrow> id list \<Rightarrow> id option \<Rightarrow> id option \<Rightarrow> id option \<Rightarrow> string option \<Rightarrow> string list \<Rightarrow> int \<Rightarrow> dict \<Rightarrow>
     memory_hit list result" where
  "retrieve_visible_memories e s active_tags cocoon_id chat_group_id owner query_text scopes limit0 profile =
     bind_r (dict_int_or ''prompt_memory_limit'' (if limit0 = 0 then 5 else limit0) profile) (\<lambda>limit.
     bind_r (dict_int_or ''vector_recall_limit'' limit profile) (\<lambda>recall.
     bind_r (load_candidate_memories s active_tags cocoon_id chat_group_id owner scopes recall) (\<lambda>candidates.
     if candidates = [] then Inr []
     else if \<not> truthy query_text \<or> \<not> me_supports_vectors e then local_ranking s active_tags profile limit candidates
     else bind_r (resolve_embedding_provider e s) (\<lambda>resolved.
       case resolved of
         None \<Rightarrow> local_ranking s active_tags profile limit candidates
       | Some p \<Rightarrow>
           case me_embed e p (str_of query_text) of
             EmbedFailed \<Rightarrow> local_ranking s active_tags profile limit candidates
           | Embedded [] _ \<Rightarrow> Inr []
           | Embedded (v # _) _ \<Rightarrow> vector_ranking e s active_tags profile limit candidates v))))"

definition get_visible_memories ::
  "memory_env \<Rightarrow> session \<Rightarrow> id list \<Rightarrow> id option \<Rightarrow> id option \<Rightarrow> id option \<Rightarrow> string option \<Rightarrow> string list \<Rightarrow> int \<Rightarrow> dict \<Rightarrow>
     memory_row list result" where
  "get_visible_memories e s active_tags cocoon_id chat_group_id owner query_text scopes limit profile =
     bind_r (retrieve_visible_memories e s active_tags cocoon_id chat_group_id owner query_text scopes limit profile) (\<lambda>hits.
     Inr (map h_memory hits))"

section \<open>The cache of facts\<close>

definition fact_matches :: "string \<Rightarrow> id option \<Rightarrow> id option \<Rightarrow> fact_row \<Rightarrow> bool" where
  "fact_matches cache_key cocoon_id chat_group_id f \<longleftrightarrow>
     f_cache_key f = cache_key \<and>
     (if truthy cocoon_id then f_cocoon_id f = cocoon_id
      else if truthy chat_group_id then f_chat_group_id f = chat_group_id else True)"

definition list_fact_cache_entries :: "session \<Rightarrow> id option \<Rightarrow> id option \<Rightarrow> int \<Rightarrow> fact_row list result" where
  "list_fact_cache_entries s cocoon_id chat_group_id limit =
     (if truthy cocoon_id \<or> truthy chat_group_id
      then sql_limit limit (sort_key (\<lambda>f. - f_updated_at f)
        (filter (\<lambda>f. not_expired (utcnow s) (f_valid_until f) \<and>
           (if truthy cocoon_id then f_cocoon_id f = cocoon_id else f_chat_group_id f = chat_group_id)) (facts s)))
      else Inr [])"

definition upsert_fact_cache_entry ::
  "session \<Rightarrow> string \<Rightarrow> string \<Rightarrow> string option \<Rightarrow> time option \<Rightarrow> dict \<Rightarrow> id option \<Rightarrow> id option \<Rightarrow> fact_row \<times> session" where
  "upsert_fact_cache_entry s cache_key content summary valid_until meta cocoon_id chat_group_id =
     (let put = (\<lambda>f. f\<lparr>f_content := content, f_summary := summary, f_valid_until := valid_until, f_meta := meta,
                       f_last_accessed_at := Some (utcnow s), f_updated_at := utcnow s\<rparr>)
      in case List.find (fact_matches cache_key cocoon_id chat_group_id) (facts s) of
           None \<Rightarrow>
             let f = \<lparr>f_id = new_id s, f_cocoon_id = cocoon_id, f_chat_group_id = chat_group_id, f_cache_key = cache_key,
                      f_content = content, f_summary = summary, f_meta = meta, f_valid_until = valid_until,
                      f_last_accessed_at = Some (utcnow s), f_updated_at = utcnow s\<rparr>
             in (f, (take_id s)\<lparr>facts := row_add f (facts s)\<rparr>)
         | Some f \<Rightarrow> (put f, s\<lparr>facts := row_put f_id (f_id f) put (facts s)\<rparr>))"

definition delete_fact_cache_entry :: "session \<Rightarrow> string \<Rightarrow> id option \<Rightarrow> id option \<Rightarrow> session" where
  "delete_fact_cache_entry s cache_key cocoon_id chat_group_id =
     s\<lparr>facts := row_del_where (fact_matches cache_key cocoon_id chat_group_id) (facts s)\<rparr>"

section \<open>Indexing\<close>

definition clear_vector :: "embedding_row \<Rightarrow> embedding_row" where
  "clear_vector r = r\<lparr>em_embedding_provider_id := None, em_model_name := None, em_dimensions := None,
     em_embedding := None, em_usage := []\<rparr>"

definition fill_vector :: "memory_env \<Rightarrow> session \<Rightarrow> string \<Rightarrow> (embedding_row \<Rightarrow> embedding_row) result" where
  "fill_vector e s text =
     (if \<not> me_supports_vectors e then Inr clear_vector
      else bind_r (resolve_embedding_provider e s) (\<lambda>resolved.
        Inr (case resolved of
               None \<Rightarrow> clear_vector
             | Some p \<Rightarrow>
                 case me_embed e p text of
                   EmbedFailed \<Rightarrow> clear_vector
                 | Embedded [] _ \<Rightarrow> clear_vector
                 | Embedded (v # _) usage \<Rightarrow>
                     (\<lambda>r. r\<lparr>em_embedding_provider_id := Some (ep_id p), em_model_name := Some (ep_model_name p),
                            em_dimensions := Some (int (length v)), em_embedding := Some v, em_usage := usage\<rparr>))))"

definition ensure_embedding_row :: "session \<Rightarrow> id \<Rightarrow> json list \<Rightarrow> dict \<Rightarrow> id \<times> session" where
  "ensure_embedding_row s memory_id keywords meta =
     (case List.find (\<lambda>r. em_memory_chunk_id r = memory_id) (embeddings s) of
        None \<Rightarrow>
          (new_id s, (take_id s)\<lparr>embeddings := row_add
             \<lparr>em_id = new_id s, em_memory_chunk_id = memory_id, em_embedding_provider_id = None, em_model_name = None,
              em_dimensions = None, em_embedding = None, em_keywords = keywords, em_usage = [], em_meta = meta\<rparr>
             (embeddings s)\<rparr>)
      | Some r \<Rightarrow>
          (em_id r, s\<lparr>embeddings := row_put em_id (em_id r) (\<lambda>r. r\<lparr>em_keywords := keywords, em_meta := meta\<rparr>) (embeddings s)\<rparr>))"

definition index_memory_chunk :: "memory_env \<Rightarrow> session \<Rightarrow> memory_row \<Rightarrow> string option \<Rightarrow> dict \<Rightarrow> session result" where
  "index_memory_chunk e s m source_text meta =
     (let keyword_source = memory_keyword_source m source_text;
          (item_id, s1) = ensure_embedding_row s (mem_id m) (build_memory_keyword_cache e keyword_source 8) meta
      in bind_r (fill_vector e s1 keyword_source) (\<lambda>fill.
         Inr (s1\<lparr>embeddings := row_put em_id item_id fill (embeddings s1),
                 memories := row_put mem_id (mem_id m) (\<lambda>r. r\<lparr>mem_embedding_ref := Some item_id, mem_updated_at := utcnow s1\<rparr>) (memories s1)\<rparr>)))"

definition get_active_embedding_provider :: "memory_env \<Rightarrow> session \<Rightarrow> embedding_provider_row option result" where
  "get_active_embedding_provider e s = resolve_embedding_provider e s"

section \<open>Use and candidates\<close>

definition touch_memory :: "time \<Rightarrow> rat \<Rightarrow> memory_row \<Rightarrow> memory_row" where
  "touch_memory now boost m =
     m\<lparr>mem_last_accessed_at := Some now, mem_access_count := mem_access_count m + 1,
       mem_importance := (if boost = 0 then mem_importance m
                          else max 0 (min 5 (py_round (of_int (mem_importance m) + boost)))),
       mem_updated_at := now\<rparr>"

definition touch_memories :: "session \<Rightarrow> id list \<Rightarrow> rat \<Rightarrow> session" where
  "touch_memories s memory_ids boost =
     s\<lparr>memories := map (\<lambda>m. if mem_id m \<in> set memory_ids then touch_memory (utcnow s) boost m else m) (memories s)\<rparr>"

definition candidate_matches :: "string \<Rightarrow> string \<Rightarrow> id option \<Rightarrow> id option \<Rightarrow> memory_candidate_row \<Rightarrow> bool" where
  "candidate_matches content pool cocoon_id chat_group_id c \<longleftrightarrow>
     mc_content c = content \<and> mc_memory_pool c = pool \<and>
     (if truthy cocoon_id then mc_cocoon_id c = cocoon_id
      else if truthy chat_group_id then mc_chat_group_id c = chat_group_id else True)"

record candidate_args =
  ca_cocoon_id :: "id option"
  ca_chat_group_id :: "id option"
  ca_owner_user_id :: "id option"
  ca_character_id :: "id option"
  ca_memory_pool :: string
  ca_memory_type :: string
  ca_summary :: "string option"
  ca_content :: string
  ca_tags :: "id list"
  ca_importance :: int
  ca_confidence :: int
  ca_ttl_hours :: int
  ca_meta :: dict

definition new_candidate :: "session \<Rightarrow> candidate_args \<Rightarrow> memory_candidate_row" where
  "new_candidate s a =
     \<lparr>mc_id = new_id s, mc_cocoon_id = ca_cocoon_id a, mc_chat_group_id = ca_chat_group_id a,
      mc_owner_user_id = ca_owner_user_id a, mc_character_id = ca_character_id a, mc_memory_pool = ca_memory_pool a,
      mc_memory_type = ca_memory_type a, mc_summary = ca_summary a, mc_content = ca_content a, mc_tags = ca_tags a,
      mc_importance = ca_importance a, mc_confidence = ca_confidence a, mc_hit_count = 1,
      mc_first_seen_at = utcnow s, mc_last_seen_at = utcnow s,
      mc_valid_until = Some (utcnow s + hours (max (ca_ttl_hours a) 1)), mc_meta = ca_meta a\<rparr>"

definition seen_again :: "time \<Rightarrow> candidate_args \<Rightarrow> memory_candidate_row \<Rightarrow> memory_candidate_row" where
  "seen_again now a c =
     c\<lparr>mc_summary := ca_summary a, mc_tags := (if ca_tags a = [] then mc_tags c else ca_tags a),
       mc_importance := ca_importance a, mc_confidence := ca_confidence a, mc_hit_count := mc_hit_count c + 1,
       mc_last_seen_at := now, mc_valid_until := Some (now + hours (max (ca_ttl_hours a) 1)),
       mc_meta := (if ca_meta a = [] then mc_meta c else ca_meta a)\<rparr>"

text \<open>A candidate of a cocoon and a chat group at once breaks the check constraint of the table.\<close>

definition upsert_candidate :: "session \<Rightarrow> candidate_args \<Rightarrow> (memory_candidate_row \<times> session) result" where
  "upsert_candidate s a =
     (case List.find (candidate_matches (ca_content a) (ca_memory_pool a) (ca_cocoon_id a) (ca_chat_group_id a)) (memory_candidates s) of
        None \<Rightarrow>
          if ca_cocoon_id a \<noteq> None \<and> ca_chat_group_id a \<noteq> None
          then Inl (IntegrityError ''ck_memory_candidates_single_target'')
          else Inr (new_candidate s a, (take_id s)\<lparr>memory_candidates := row_add (new_candidate s a) (memory_candidates s)\<rparr>)
      | Some c \<Rightarrow>
          Inr (seen_again (utcnow s) a c,
               s\<lparr>memory_candidates := row_put mc_id (mc_id c) (seen_again (utcnow s) a) (memory_candidates s)\<rparr>))"

fun add_memory_tags :: "session \<Rightarrow> id \<Rightarrow> id list \<Rightarrow> session" where
  "add_memory_tags s memory_id [] = s"
| "add_memory_tags s memory_id (t # ts) =
     add_memory_tags ((take_id s)\<lparr>memory_tags :=
       row_add \<lparr>mmt_id = new_id s, mmt_memory_chunk_id = memory_id, mmt_tag_id = t\<rparr> (memory_tags s)\<rparr>) memory_id ts"

definition promoted_memory :: "session \<Rightarrow> memory_candidate_row \<Rightarrow> string \<Rightarrow> memory_row" where
  "promoted_memory s c source_kind =
     \<lparr>mem_id = new_id s, mem_cocoon_id = mc_cocoon_id c, mem_chat_group_id = mc_chat_group_id c,
      mem_owner_user_id = mc_owner_user_id c, mem_character_id = mc_character_id c, mem_source_message_id = None,
      mem_memory_pool = mc_memory_pool c, mem_memory_type = mc_memory_type c, mem_scope = ''candidate'',
      mem_content = mc_content c, mem_summary = mc_summary c, mem_tags = mc_tags c,
      mem_importance = max 3 (if mc_importance c = 0 then 3 else mc_importance c),
      mem_confidence = max 1 (if mc_confidence c = 0 then 3 else mc_confidence c),
      mem_status = ''active'', mem_valid_until = None, mem_last_accessed_at = None, mem_access_count = 0,
      mem_source_kind = source_kind, mem_meta = mc_meta c, mem_embedding_ref = None,
      mem_created_at = utcnow s, mem_updated_at = utcnow s\<rparr>"

definition or_content :: "string option \<Rightarrow> string \<Rightarrow> string option" where
  "or_content summary content = (if truthy summary then summary else Some content)"

definition promote_candidate_to_memory ::
  "memory_env \<Rightarrow> session \<Rightarrow> memory_candidate_row \<Rightarrow> string \<Rightarrow> (id \<times> session) result" where
  "promote_candidate_to_memory e s c source_kind =
     (let m = promoted_memory s c source_kind;
          s1 = add_memory_tags ((take_id s)\<lparr>memories := row_add m (memories s)\<rparr>) (mem_id m) (mem_tags m)
      in bind_r (index_memory_chunk e s1 m (or_content (mem_summary m) (mem_content m)) (mem_meta m)) (\<lambda>s2.
         Inr (mem_id m, s2\<lparr>memory_candidates := row_del mc_id (mc_id c) (memory_candidates s2)\<rparr>)))"

section \<open>What a retrieval returns\<close>

lemma py_take_take: "\<exists>n. py_take k xs = take n xs"
  by (auto simp: py_take_def)

lemma score_hits_memory: "score_hits now tg w hs = Inr hs' \<Longrightarrow> map h_memory hs' = map h_memory hs"
  by (induction hs arbitrary: hs') (auto simp: score_hit_def Let_def elim!: bind_rE)

lemma rank_hits_facts:
  assumes "distinct (map (mem_id \<circ> h_memory) hs)"
  shows "set (rank_hits n hs) \<subseteq> set hs" "distinct (map (mem_id \<circ> h_memory) (rank_hits n hs))"
    "sorted_wrt (\<lambda>a b. h_final_score b \<le> h_final_score a) (rank_hits n hs)" "0 \<le> n \<Longrightarrow> int (length (rank_hits n hs)) \<le> n"
proof -
  let ?key = "\<lambda>h. (- h_final_score h, - mem_updated_at (h_memory h))"
  let ?ys = "sort_key ?key hs"
  obtain k where k: "rank_hits n hs = take k ?ys" using py_take_take [of n ?ys] by (auto simp: rank_hits_def)
  show "set (rank_hits n hs) \<subseteq> set hs" unfolding k using set_take_subset [of k ?ys] by simp
  have "distinct (map (mem_id \<circ> h_memory) ?ys)"
    using assms by (simp add: distinct_map)
  then show "distinct (map (mem_id \<circ> h_memory) (rank_hits n hs))"
    unfolding k by (metis distinct_take take_map)
  have "sorted_wrt (\<lambda>a b. ?key a \<le> ?key b) ?ys" using sorted_sort_key [of ?key hs] by (simp add: sorted_map)
  then have "sorted_wrt (\<lambda>a b. ?key a \<le> ?key b) (take k ?ys)" by (rule sorted_wrt_take)
  then show "sorted_wrt (\<lambda>a b. h_final_score b \<le> h_final_score a) (rank_hits n hs)"
    unfolding k by (rule sorted_wrt_mono_rel [rotated]) (auto simp: less_eq_prod_def)
  show "int (length (rank_hits n hs)) \<le> n" if "0 \<le> n"
    using that by (simp add: rank_hits_def py_take_def)
qed

lemma vector_hits_facts:
  "set (map h_memory (vector_hits e v tg cs rs seen)) \<subseteq> set cs \<and>
   distinct (map (mem_id \<circ> h_memory) (vector_hits e v tg cs rs seen)) \<and>
   (\<forall>h\<in>set (vector_hits e v tg cs rs seen). mem_id (h_memory h) \<notin> set seen)"
proof (induction rs arbitrary: seen)
  case (Cons r rs)
  show ?case
  proof (cases "row_get mem_id (em_memory_chunk_id r) cs")
    case None
    then show ?thesis using Cons.IH [of seen] by simp
  next
    case (Some m)
    have m: "m \<in> set cs" using row_get_SomeD [OF Some] by simp
    show ?thesis using Cons.IH [of seen] Cons.IH [of "mem_id m # seen"] Some m by (auto simp: new_hit_def)
  qed
qed simp

definition fresh_hits :: "memory_row list \<Rightarrow> int \<Rightarrow> memory_hit list \<Rightarrow> bool" where
  "fresh_hits cs n hits \<longleftrightarrow> set (map h_memory hits) \<subseteq> set cs \<and> distinct (map (mem_id \<circ> h_memory) hits) \<and>
     sorted_wrt (\<lambda>a b. h_final_score b \<le> h_final_score a) hits \<and> (0 \<le> n \<longrightarrow> int (length hits) \<le> n)"

lemma fresh_hits_ranked:
  assumes "score_hits now tg w hs = Inr hs'" "set (map h_memory hs) \<subseteq> set cs" "distinct (map (mem_id \<circ> h_memory) hs)"
  shows "fresh_hits cs n (rank_hits n hs')"
proof -
  note m = score_hits_memory [OF assms(1)]
  have "map mem_id (map h_memory hs') = map mem_id (map h_memory hs)" using m by simp
  then have d: "distinct (map (mem_id \<circ> h_memory) hs')" using assms(3) by simp
  have sub: "set (map h_memory hs') \<subseteq> set cs" using m assms(2) by simp
  note r = rank_hits_facts [OF d, of n]
  have "set (map h_memory (rank_hits n hs')) \<subseteq> set (map h_memory hs')" using r(1) by auto
  then show ?thesis using r(2,3,4) sub unfolding fresh_hits_def by blast
qed

lemma fresh_local:
  assumes "local_ranking s tg w n cs = Inr hits" "distinct (map mem_id cs)"
  shows "fresh_hits cs n hits"
proof -
  obtain hs where hs: "score_hits (utcnow s) tg w (map (new_hit tg None None) cs) = Inr hs" "hits = rank_hits n hs"
    using assms(1) by (auto simp: local_ranking_def elim!: bind_rE)
  have "map h_memory (map (new_hit tg None None) cs) = cs" by (simp add: new_hit_def comp_def)
  then have "set (map h_memory (map (new_hit tg None None) cs)) \<subseteq> set cs" "distinct (map (mem_id \<circ> h_memory) (map (new_hit tg None None) cs))"
    using assms(2) by (simp_all flip: map_map)
  from fresh_hits_ranked [OF hs(1) this] show ?thesis by (simp add: hs(2))
qed

lemma fresh_vector:
  assumes "vector_ranking e s tg w n cs v = Inr hits" "distinct (map mem_id cs)"
  shows "fresh_hits cs n hits"
proof -
  obtain rows where rows: "vector_rows e s v (map mem_id cs) n = Inr rows"
    using assms(1) by (auto simp: vector_ranking_def elim: bind_rE)
  define near where "near = vector_hits e v tg cs rows []"
  define others where "others = map (new_hit tg None None) (filter (\<lambda>m. mem_id m \<notin> set (map (mem_id \<circ> h_memory) near)) cs)"
  obtain hs where hs: "score_hits (utcnow s) tg w (near @ others) = Inr hs" "hits = rank_hits n hs"
    using assms(1) rows by (auto simp: vector_ranking_def near_def others_def Let_def elim!: bind_rE)
  note near = vector_hits_facts [of e v tg cs rows "[]", folded near_def]
  have mem: "map h_memory others = filter (\<lambda>m. mem_id m \<notin> set (map (mem_id \<circ> h_memory) near)) cs"
    by (simp add: others_def new_hit_def comp_def)
  have sub: "set (map h_memory (near @ others)) \<subseteq> set cs" using near mem by auto
  have "map (mem_id \<circ> h_memory) others = map mem_id (filter (\<lambda>m. mem_id m \<notin> set (map (mem_id \<circ> h_memory) near)) cs)"
    using mem by (metis map_map)
  then have "distinct (map (mem_id \<circ> h_memory) (near @ others))"
    using near assms(2) by (auto simp: distinct_map_filter image_iff)
  from fresh_hits_ranked [OF hs(1) sub this] show ?thesis by (simp add: hs(2))
qed

lemma fresh_retrieved:
  assumes e: "retrieve_visible_memories e s tg c g owner q scopes limit0 profile = Inr hits"
    and dist: "distinct (map mem_id (memories s))"
  obtains cs recall limit where "load_candidate_memories s tg c g owner scopes recall = Inr cs"
    "dict_int_or ''prompt_memory_limit'' (if limit0 = 0 then 5 else limit0) profile = Inr limit" "fresh_hits cs limit hits"
proof -
  obtain limit where l: "dict_int_or ''prompt_memory_limit'' (if limit0 = 0 then 5 else limit0) profile = Inr limit"
    using e unfolding retrieve_visible_memories_def by (rule bind_rE)
  obtain recall where r: "dict_int_or ''vector_recall_limit'' limit profile = Inr recall"
    using e l by (auto simp: retrieve_visible_memories_def elim: bind_rE)
  obtain cs where cs: "load_candidate_memories s tg c g owner scopes recall = Inr cs"
    using e l r by (auto simp: retrieve_visible_memories_def elim: bind_rE)
  have "distinct (map mem_id cs)"
  proof -
    obtain n ys where "ys = sort_key (\<lambda>m. - mem_updated_at m) (filter (\<lambda>m. mem_status m = ''active'' \<and> not_expired (utcnow s) (mem_valid_until m) \<and>
        build_visibility_filter s c g owner m \<and> (scopes \<noteq> [] \<longrightarrow> mem_scope m \<in> set scopes)) (memories s))"
      and cs': "cs = tag_filtered s (take n ys) tg g"
      using cs by (auto simp: load_candidate_memories_def sql_limit_def split: if_splits)
    then have "distinct (map mem_id ys)" using dist by (simp add: distinct_map inj_on_def)
    then have "distinct (map mem_id (take n ys))" by (metis distinct_take take_map)
    then show ?thesis unfolding cs' tag_filtered_def Let_def by (auto simp: distinct_map_filter)
  qed
  then have "fresh_hits cs limit hits"
    using e l r cs by (auto simp: retrieve_visible_memories_def fresh_hits_def [of _ _ "[]"] split: if_splits option.splits embed_answer.splits list.splits
        elim!: bind_rE intro: fresh_local fresh_vector)
  then show thesis using that cs l by blast
qed

lemma load_candidate_memories_mem:
  assumes "load_candidate_memories s tg c g owner scopes recall = Inr cs" "m \<in> set cs"
  shows "m \<in> set (memories s) \<and> mem_status m = ''active'' \<and> not_expired (clock s) (mem_valid_until m) \<and>
    build_visibility_filter s c g owner m \<and> (scopes = [] \<or> mem_scope m \<in> set scopes) \<and>
    (tg = [] \<or> mem_tags m = [] \<or> set (mem_tags m) \<inter> set tg \<noteq> {}) \<and>
    (\<not> truthy g \<or> tags_visible_in_room s (str_of g) m)"
proof -
  let ?P = "\<lambda>m. mem_status m = ''active'' \<and> not_expired (utcnow s) (mem_valid_until m) \<and>
        build_visibility_filter s c g owner m \<and> (scopes \<noteq> [] \<longrightarrow> mem_scope m \<in> set scopes)"
  obtain n where n: "cs = tag_filtered s (take n (sort_key (\<lambda>m. - mem_updated_at m) (filter ?P (memories s)))) tg g"
    using assms(1) by (auto simp: load_candidate_memories_def sql_limit_def split: if_splits)
  have sub: "set (take n (sort_key (\<lambda>m. - mem_updated_at m) (filter ?P (memories s)))) \<subseteq> set (filter ?P (memories s))"
    using set_take_subset [of n "sort_key (\<lambda>m. - mem_updated_at m) (filter ?P (memories s))"] by simp
  have m: "m \<in> set (take n (sort_key (\<lambda>m. - mem_updated_at m) (filter ?P (memories s))))"
    "tg = [] \<or> mem_tags m = [] \<or> set (mem_tags m) \<inter> set tg \<noteq> {}" "\<not> truthy g \<or> tags_visible_in_room s (str_of g) m"
    using assms(2) unfolding n tag_filtered_def Let_def by (auto simp: list_ex_iff split: if_splits)
  then have "m \<in> set (filter ?P (memories s))" using sub by blast
  then show ?thesis using m(2,3) by (auto simp: utcnow_def)
qed


definition sample_memory :: "id \<Rightarrow> id \<Rightarrow> string \<Rightarrow> int \<Rightarrow> memory_row" where
  "sample_memory i c pool importance =
     \<lparr>mem_id = i, mem_cocoon_id = Some c, mem_chat_group_id = None, mem_owner_user_id = Some ''u1'', mem_character_id = None,
      mem_source_message_id = None, mem_memory_pool = pool, mem_memory_type = ''preference'', mem_scope = ''memory'',
      mem_content = ''likes tea'', mem_summary = None, mem_tags = [], mem_importance = importance, mem_confidence = 3,
      mem_status = ''active'', mem_valid_until = None, mem_last_accessed_at = None, mem_access_count = 0,
      mem_source_kind = ''runtime_analysis'', mem_meta = [], mem_embedding_ref = None, mem_created_at = 0, mem_updated_at = 0\<rparr>"

definition sample_memories :: session where
  "sample_memories = sample_cocoons\<lparr>memories := [sample_memory ''m1'' ''a'' ''tree_private'' 1,
     sample_memory ''m2'' ''z'' ''tree_private'' 5, sample_memory ''m3'' ''z'' ''user_global'' 5]\<rparr>"

definition sample_memory_env :: memory_env where
  "sample_memory_env = \<lparr>me_supports_vectors = False, me_embed = (\<lambda>_ _. EmbedFailed), me_distance = (\<lambda>_ _. None),
     me_extract_tags = (\<lambda>t n. [(t, 1)]), me_known_kinds = [''local_cpu'']\<rparr>"


end
