(* ===== verification/DispatchQueue.thy ===== *)
theory DispatchQueue
  imports Frames
begin

text \<open>
  The queue between the API and the worker (\<open>services/jobs/chat_dispatch_types.py\<close> and
  \<open>in_memory_chat_dispatch_queue.py\<close>). The abstract class is the interface, stated as a locale over
  the actions still waiting; the in-process queue implements it.
\<close>

record envelope =
  ev_stream_id :: string
  ev_action_id :: id
  ev_target_type :: string
  ev_target_id :: id
  ev_event_type :: string
  ev_payload :: dict

record chat_queue =
  q_items :: "envelope list"
  q_counter :: nat

definition empty_queue :: chat_queue where
  "empty_queue = \<lparr>q_items = [], q_counter = 0\<rparr>"

definition queue_enqueue ::
  "chat_queue \<Rightarrow> id \<Rightarrow> string \<Rightarrow> id option \<Rightarrow> id option \<Rightarrow> dict \<Rightarrow> (nat \<times> chat_queue) result" where
  "queue_enqueue q action_id event_type cocoon_id chat_group_id payload =
     bind_r (resolve_target_type cocoon_id chat_group_id) (\<lambda>(target_type, target_id).
     let n = Suc (q_counter q);
         items = q_items q @ [\<lparr>ev_stream_id = nat_digits n, ev_action_id = action_id, ev_target_type = target_type,
                               ev_target_id = target_id, ev_event_type = event_type, ev_payload = payload\<rparr>]
     in Inr (length items, q\<lparr>q_items := items, q_counter := n\<rparr>))"

definition queue_consume_next :: "chat_queue \<Rightarrow> envelope option \<times> chat_queue" where
  "queue_consume_next q = (case q_items q of [] \<Rightarrow> (None, q) | e # es \<Rightarrow> (Some e, q\<lparr>q_items := es\<rparr>))"

definition queue_ack :: "chat_queue \<Rightarrow> envelope \<Rightarrow> chat_queue" where
  "queue_ack q e = q"

section \<open>The interface\<close>

locale dispatch_queue =
  fixes enqueue :: "'q \<Rightarrow> id \<Rightarrow> string \<Rightarrow> id option \<Rightarrow> id option \<Rightarrow> dict \<Rightarrow> (nat \<times> 'q) result"
    and consume :: "'q \<Rightarrow> envelope option \<times> 'q"
    and ack :: "'q \<Rightarrow> envelope \<Rightarrow> 'q"
    and waiting :: "'q \<Rightarrow> (id \<times> dict) list"
  assumes enqueue_accepts: "resolve_target_type c g = Inr t \<Longrightarrow> \<exists>q'. enqueue q a ev c g p = Inr (Suc (length (waiting q)), q')"
    and enqueue_refuses: "resolve_target_type c g = Inl exc \<Longrightarrow> enqueue q a ev c g p = Inl exc"
    and enqueue_waiting: "enqueue q a ev c g p = Inr (n, q') \<Longrightarrow> waiting q' = waiting q @ [(a, p)]"
    and consume_none: "waiting q = [] \<Longrightarrow> consume q = (None, q)"
    and consume_first: "waiting q = x # xs \<Longrightarrow>
      \<exists>e q'. consume q = (Some e, q') \<and> (ev_action_id e, ev_payload e) = x \<and> waiting q' = xs"
    and ack_waiting: "waiting (ack q e) = waiting q"
begin

lemma consume_state:
  assumes "consume q = (r, q')" shows "waiting q' = drop 1 (waiting q)"
proof (cases "waiting q")
  case Nil
  then show ?thesis using consume_none assms by simp
next
  case (Cons x xs)
  then show ?thesis using consume_first [OF Cons] assms by auto
qed

text \<open>Consuming as often as something waits delivers the actions in the order they were enqueued.\<close>

fun deliver :: "nat \<Rightarrow> 'q \<Rightarrow> (id \<times> dict) list" where
  "deliver 0 q = []"
| "deliver (Suc n) q =
     (case consume q of (None, _) \<Rightarrow> [] | (Some e, q') \<Rightarrow> (ev_action_id e, ev_payload e) # deliver n (ack q' e))"

lemma deliver_fifo: "deliver n q = take n (waiting q)"
proof (induction n arbitrary: q)
  case 0
  then show ?case by simp
next
  case (Suc n)
  show ?case
  proof (cases "waiting q")
    case Nil
    then show ?thesis using consume_none by simp
  next
    case (Cons x xs)
    from consume_first [OF Cons] obtain e q' where "consume q = (Some e, q')" "(ev_action_id e, ev_payload e) = x" "waiting q' = xs"
      by blast
    then show ?thesis using Cons Suc.IH ack_waiting by simp
  qed
qed

end

definition queue_waiting :: "chat_queue \<Rightarrow> (id \<times> dict) list" where
  "queue_waiting q = map (\<lambda>e. (ev_action_id e, ev_payload e)) (q_items q)"

interpretation memory_queue: dispatch_queue queue_enqueue queue_consume_next queue_ack queue_waiting
proof (unfold_locales, goal_cases)
  case (1 c g t q a ev p)
  then show ?case by (cases t) (simp add: queue_enqueue_def queue_waiting_def Let_def)
next
  case (2 c g exc q a ev p)
  then show ?case by (simp add: queue_enqueue_def)
next
  case (3 q a ev c g p n q')
  then show ?case by (auto simp: queue_enqueue_def queue_waiting_def Let_def elim!: bind_rE)
next
  case (4 q)
  then show ?case by (simp add: queue_waiting_def queue_consume_next_def)
next
  case (5 q x xs)
  then show ?case by (auto simp: queue_waiting_def queue_consume_next_def)
next
  case (6 q e)
  then show ?case by (simp add: queue_ack_def)
qed

section \<open>The world of a request or a worker\<close>

text \<open>
  The database (the committed one, or the one a transaction sees), the queue, the realtime events
  published so far, and the files of the artifact store; a rollback restores only the database.
\<close>

record world =
  db :: session
  queue :: chat_queue
  events :: "(string \<times> dict) list"
  files :: "(string \<times> json) list"

definition publish :: "world \<Rightarrow> string \<Rightarrow> dict \<Rightarrow> world" where
  "publish w channel_key event = w\<lparr>events := events w @ [(channel_key, event)]\<rparr>"

section \<open>The queue refines a list\<close>

datatype queue_op = Put id string "id option" "id option" dict | Take envelope

datatype queue_reply = Accepted nat | Refused py_exc | Handed "(id \<times> dict) option"

text \<open>One caller's view of the queue: what each operation answers.\<close>

fun queue_replies :: "chat_queue \<Rightarrow> queue_op list \<Rightarrow> queue_reply list" where
  "queue_replies q [] = []"
| "queue_replies q (Put a ev c g p # ops) =
     (case queue_enqueue q a ev c g p of
        Inl exc \<Rightarrow> Refused exc # queue_replies q ops
      | Inr (n, q') \<Rightarrow> Accepted n # queue_replies q' ops)"
| "queue_replies q (Take e # ops) =
     (case queue_consume_next q of
        (r, q') \<Rightarrow> Handed (map_option (\<lambda>e. (ev_action_id e, ev_payload e)) r) # queue_replies (queue_ack q' e) ops)"

fun list_replies :: "(id \<times> dict) list \<Rightarrow> queue_op list \<Rightarrow> queue_reply list" where
  "list_replies xs [] = []"
| "list_replies xs (Put a ev c g p # ops) =
     (case resolve_target_type c g of
        Inl exc \<Rightarrow> Refused exc # list_replies xs ops
      | Inr _ \<Rightarrow> Accepted (Suc (length xs)) # list_replies (xs @ [(a, p)]) ops)"
| "list_replies xs (Take e # ops) =
     (case xs of [] \<Rightarrow> Handed None # list_replies [] ops | y # ys \<Rightarrow> Handed (Some y) # list_replies ys ops)"

lemma queue_replies_waiting: "queue_replies q ops = list_replies (queue_waiting q) ops"
proof (induction ops arbitrary: q)
  case (Cons op ops)
  show ?case
  proof (cases op)
    case (Put a ev c g p)
    show ?thesis
    proof (cases "resolve_target_type c g")
      case (Inl exc)
      then show ?thesis using Put Cons memory_queue.enqueue_refuses [OF Inl] by simp
    next
      case (Inr t)
      then obtain q' where q': "queue_enqueue q a ev c g p = Inr (Suc (length (queue_waiting q)), q')"
        using memory_queue.enqueue_accepts by blast
      show ?thesis using Put Cons Inr q' memory_queue.enqueue_waiting [OF q'] by simp
    qed
  next
    case (Take e)
    show ?thesis
    proof (cases "queue_waiting q")
      case Nil
      then show ?thesis using Take Cons memory_queue.consume_none [OF Nil] memory_queue.ack_waiting [of q e] by simp
    next
      case (Cons x xs)
      from memory_queue.consume_first [OF Cons] obtain e' q' where
        "queue_consume_next q = (Some e', q')" "(ev_action_id e', ev_payload e') = x" "queue_waiting q' = xs" by blast
      then show ?thesis using Take Cons Cons.IH memory_queue.ack_waiting [of q' e] by simp
    qed
  qed
qed simp

text \<open>
  C37. The in-process queue refines a first-in first-out list: for every sequence of operations it accepts,
  refuses and hands out exactly what the list does, with the same lengths.
\<close>

theorem queue_refines_list: "queue_replies empty_queue ops = list_replies [] ops"
  using queue_replies_waiting [of empty_queue ops] by (simp add: queue_waiting_def empty_queue_def)

end
