(* ===== verification/Dispatch.thy ===== *)
theory Dispatch
  imports Wakeups DispatchQueue SystemSettings
begin

text \<open>
  The dispatch of chat messages (\<open>services/workspace/message_dispatch_base.py\<close> and
  \<open>message_dispatch_service.py\<close>). A request stores a message and an action, commits, and then puts the
  action on the queue; the worker claims actions from the database.
\<close>

record dispatch_service =
  ds_has_settings :: bool
  ds_debounce_seconds :: int
  ds_sha256 :: "string \<Rightarrow> string"

definition DEFAULT_DEBOUNCE_SECONDS :: int where "DEFAULT_DEBOUNCE_SECONDS = 2"

text \<open>\<open>debounce_seconds or DEFAULT\<close>; \<open>sha256\<close> is the hexadecimal digest of the standard library.\<close>

definition new_dispatch_service :: "bool \<Rightarrow> int option \<Rightarrow> (string \<Rightarrow> string) \<Rightarrow> dispatch_service" where
  "new_dispatch_service has_settings debounce_seconds sha256 =
     \<lparr>ds_has_settings = has_settings,
      ds_debounce_seconds = (case debounce_seconds of None \<Rightarrow> DEFAULT_DEBOUNCE_SECONDS
                             | Some n \<Rightarrow> if n = 0 then DEFAULT_DEBOUNCE_SECONDS else n),
      ds_sha256 = sha256\<rparr>"

section \<open>Lookups\<close>

definition current_debounce_seconds :: "dispatch_service \<Rightarrow> session \<Rightarrow> string \<Rightarrow> int \<times> session" where
  "current_debounce_seconds d s target_type =
     (if \<not> ds_has_settings d then (ds_debounce_seconds d, s)
      else let (current, s1) = get_settings s
           in (max (if target_type = ''chat_group'' then ss_group_chat_debounce_seconds current
                    else ss_private_chat_debounce_seconds current) 0, s1))"

definition find_action_for_client_request_id :: "session \<Rightarrow> string \<Rightarrow> action_row option" where
  "find_action_for_client_request_id s rid =
     (case List.find (\<lambda>a. a_client_request_id a = Some rid) (actions s) of
        Some a \<Rightarrow> Some a
      | None \<Rightarrow>
          case List.find (\<lambda>m. m_client_request_id m = Some rid) (messages s) of
            None \<Rightarrow> None
          | Some m \<Rightarrow> if truthy (m_action_id m) then row_get a_id (str_of (m_action_id m)) (actions s) else None)"

definition build_debounce_key :: "dispatch_service \<Rightarrow> string \<Rightarrow> string option list \<Rightarrow> string" where
  "build_debounce_key d event_type parts =
     event_type @ '':'' @ ds_sha256 d (py_join ''|'' (map (\<lambda>p. py_strip (str_of p)) parts))"

text \<open>The conditions on the two target columns; absent or empty identifiers add none.\<close>

definition action_target :: "id option \<Rightarrow> id option \<Rightarrow> action_row \<Rightarrow> bool" where
  "action_target cocoon_id chat_group_id a \<longleftrightarrow>
     (truthy cocoon_id \<longrightarrow> a_cocoon_id a = cocoon_id \<and> a_chat_group_id a = None) \<and>
     (truthy chat_group_id \<longrightarrow> a_chat_group_id a = chat_group_id \<and> a_cocoon_id a = None)"

definition debounced :: "time \<Rightarrow> action_row \<Rightarrow> bool" where
  "debounced now a \<longleftrightarrow> (case a_debounce_until a of None \<Rightarrow> False | Some t \<Rightarrow> now < t)"

definition find_debounced_action ::
  "session \<Rightarrow> id option \<Rightarrow> id option \<Rightarrow> string \<Rightarrow> string \<Rightarrow> action_row option" where
  "find_debounced_action s cocoon_id chat_group_id event_type debounce_key =
     List.find (\<lambda>a. dict_get ''debounce_key'' (a_payload a) = Some (JStr debounce_key))
       (take 10 (sort_key (\<lambda>a. - a_queued_at a)
         (filter (\<lambda>a. a_event_type a = event_type \<and> debounced (utcnow s) a \<and> action_target cocoon_id chat_group_id a)
           (actions s))))"

definition first_of :: "'a list \<Rightarrow> 'a option" where
  "first_of xs = (case xs of [] \<Rightarrow> None | x # _ \<Rightarrow> Some x)"

definition find_pending_chat_action :: "session \<Rightarrow> id option \<Rightarrow> id option \<Rightarrow> action_row option" where
  "find_pending_chat_action s cocoon_id chat_group_id =
     first_of (sort_key (\<lambda>a. - a_queued_at a)
       (filter (\<lambda>a. a_event_type a = ''chat'' \<and> a_status a = ActQueued \<and> action_target cocoon_id chat_group_id a)
         (actions s)))"

section \<open>Claiming\<close>

definition same_target :: "action_row \<Rightarrow> action_row \<Rightarrow> bool" where
  "same_target a b \<longleftrightarrow>
     (if truthy (a_cocoon_id a) then a_cocoon_id b = a_cocoon_id a \<and> a_chat_group_id b = None
      else truthy (a_chat_group_id a) \<and> a_chat_group_id b = a_chat_group_id a \<and> a_cocoon_id b = None)"

definition unfinished_before :: "action_row \<Rightarrow> action_row \<Rightarrow> bool" where
  "unfinished_before a b \<longleftrightarrow>
     same_target a b \<and> a_event_type b = ''chat'' \<and> (a_status b = ActQueued \<or> a_status b = ActRunning) \<and>
     a_id b \<noteq> a_id a \<and> (a_queued_at b < a_queued_at a \<or> a_started_at b \<noteq> None)"

definition has_prior_unfinished_chat_action :: "session \<Rightarrow> action_row \<Rightarrow> bool" where
  "has_prior_unfinished_chat_action s a \<longleftrightarrow>
     first_of (sort_key a_queued_at (filter (unfinished_before a) (actions s))) \<noteq> None"

definition ready :: "time \<Rightarrow> action_row \<Rightarrow> bool" where
  "ready now a \<longleftrightarrow> a_status a = ActQueued \<and> \<not> debounced now a"

definition start_action :: "time \<Rightarrow> action_row \<Rightarrow> action_row" where
  "start_action now a =
     a\<lparr>a_status := ActRunning,
       a_started_at := (case a_started_at a of None \<Rightarrow> Some now | Some t \<Rightarrow> Some t)\<rparr>"

definition claim_next_ready_action :: "session \<Rightarrow> action_row option \<times> session" where
  "claim_next_ready_action s =
     (case List.find (\<lambda>a. \<not> has_prior_unfinished_chat_action s a)
             (take 50 (sort_key a_queued_at (filter (ready (utcnow s)) (actions s)))) of
        None \<Rightarrow> (None, s)
      | Some a \<Rightarrow> (Some (start_action (utcnow s) a),
                  s\<lparr>actions := row_put a_id (a_id a) (start_action (utcnow s)) (actions s)\<rparr>))"

section \<open>Putting an action on the queue\<close>

text \<open>The commit comes first: the session becomes the database of the world.\<close>

definition commit_then_enqueue ::
  "world \<Rightarrow> session \<Rightarrow> id \<Rightarrow> id option \<Rightarrow> id option \<Rightarrow> string \<Rightarrow> dict \<Rightarrow> world result" where
  "commit_then_enqueue w s action_id cocoon_id chat_group_id event_type payload =
     bind_r (queue_enqueue (queue w) action_id event_type cocoon_id chat_group_id payload) (\<lambda>(queue_length, q).
     bind_r (target_channel_key cocoon_id chat_group_id) (\<lambda>channel_key.
     Inr (publish (w\<lparr>db := s, queue := q\<rparr>) channel_key
            [(''type'', JStr ''dispatch_queued''), (''action_id'', JStr action_id),
             (''queue_length'', JInt (int queue_length))])))"

section \<open>Chat messages\<close>

text \<open>
  The arguments of a chat request; the time the client sent it is kept as the text \<open>isoformat\<close> prints.
\<close>

record chat_request =
  cr_content :: string
  cr_client_request_id :: string
  cr_timezone :: "string option"
  cr_client_sent_at :: "string option"
  cr_locale :: "string option"
  cr_idle_seconds :: "int option"
  cr_recent_turn_count :: "int option"
  cr_typing_hint_ms :: "int option"
  cr_sender_user_id :: "id option"
  cr_external_sender_id :: "string option"
  cr_external_sender_display_name :: "string option"
  cr_extra_payload :: dict

definition timezone_name :: "chat_request \<Rightarrow> string" where
  "timezone_name r = (let z = py_strip (or_else (cr_timezone r) ''UTC'') in if z = [] then ''UTC'' else z)"

text \<open>The entries that the payloads of a new and of an updated action share.\<close>

definition client_entries :: "chat_request \<Rightarrow> dict" where
  "client_entries r =
     [(''client_sent_at'', json_opt_str (cr_client_sent_at r)), (''locale'', json_opt_str (cr_locale r)),
      (''idle_seconds'', json_opt_int (cr_idle_seconds r)), (''recent_turn_count'', json_opt_int (cr_recent_turn_count r)),
      (''typing_hint_ms'', json_opt_int (cr_typing_hint_ms r))]"

definition sender_entries :: "chat_request \<Rightarrow> dict" where
  "sender_entries r =
     [(''sender_user_id'', json_opt_str (cr_sender_user_id r)),
      (''external_sender_id'', json_opt_str (cr_external_sender_id r)),
      (''external_sender_display_name'', json_opt_str (cr_external_sender_display_name r))]"

definition new_chat_action ::
  "session \<Rightarrow> id option \<Rightarrow> id option \<Rightarrow> string \<Rightarrow> string option \<Rightarrow> time \<Rightarrow> dict \<Rightarrow> action_row" where
  "new_chat_action s cocoon_id chat_group_id event_type client_request_id debounce_until payload =
     \<lparr>a_id = new_id s, a_cocoon_id = cocoon_id, a_chat_group_id = chat_group_id, a_event_type = event_type,
      a_status = ActQueued, a_client_request_id = client_request_id, a_debounce_until = Some debounce_until,
      a_payload = payload, a_error_text = None, a_queued_at = utcnow s, a_started_at = None, a_finished_at = None\<rparr>"

definition add_action :: "session \<Rightarrow> action_row \<Rightarrow> session" where
  "add_action s a = (take_id s)\<lparr>actions := row_add a (actions s)\<rparr>"

definition new_user_message ::
  "session \<Rightarrow> id option \<Rightarrow> id option \<Rightarrow> id \<Rightarrow> chat_request \<Rightarrow> id list \<Rightarrow> message_row" where
  "new_user_message s cocoon_id chat_group_id action_id r active_tags =
     \<lparr>m_id = new_id s, m_cocoon_id = cocoon_id, m_chat_group_id = chat_group_id, m_action_id = Some action_id,
      m_client_request_id = Some (cr_client_request_id r), m_sender_user_id = cr_sender_user_id r,
      m_external_sender_id = cr_external_sender_id r,
      m_external_sender_display_name = cr_external_sender_display_name r, m_role = ''user'',
      m_content = cr_content r, m_is_thought = False, m_is_retracted = False, m_retracted_at = None,
      m_retracted_by_user_id = None, m_retraction_note = None, m_tags = active_tags, m_created_at = clock s\<rparr>"

definition add_message :: "session \<Rightarrow> message_row \<Rightarrow> session result" where
  "add_message s m =
     (if m_client_request_id m \<noteq> None \<and> m_client_request_id m \<in> m_client_request_id ` set (messages s)
      then Inl (IntegrityError ''messages.client_request_id'')
      else Inr ((take_id s)\<lparr>messages := row_add m (messages s)\<rparr>))"

fun add_message_tags :: "session \<Rightarrow> id \<Rightarrow> id list \<Rightarrow> session" where
  "add_message_tags s message_id [] = s"
| "add_message_tags s message_id (t # ts) =
     add_message_tags ((take_id s)\<lparr>message_tags :=
       row_add \<lparr>mt_id = new_id s, mt_message_id = message_id, mt_tag_id = t\<rparr> (message_tags s)\<rparr>) message_id ts"

definition count_action_messages :: "session \<Rightarrow> id \<Rightarrow> int" where
  "count_action_messages s action_id = int (length (filter (\<lambda>m. m_action_id m = Some action_id) (messages s)))"

definition put_action :: "session \<Rightarrow> id \<Rightarrow> (action_row \<Rightarrow> action_row) \<Rightarrow> session" where
  "put_action s i f = s\<lparr>actions := row_put a_id i f (actions s)\<rparr>"

text \<open>
  What \<open>enqueue_chat_message\<close> and \<open>enqueue_chat_group_message\<close> do once the target is known: they differ in
  the debounce setting and key, the reason for cancelling idle wakeups, and the payload entries.
\<close>

definition debounced_chat ::
  "session \<Rightarrow> id option \<Rightarrow> id option \<Rightarrow> int \<Rightarrow> string \<Rightarrow> dict \<Rightarrow> action_row option \<times> action_row \<times> session" where
  "debounced_chat s cocoon_id chat_group_id debounce_seconds client_request_id first_payload =
     (let debounce_until = utcnow s + seconds debounce_seconds;
          pending = (if 0 < debounce_seconds then find_pending_chat_action s cocoon_id chat_group_id else None)
      in case pending of
           None \<Rightarrow>
             let a = new_chat_action s cocoon_id chat_group_id ''chat'' (Some client_request_id) debounce_until first_payload
             in (None, a, add_action s a)
         | Some a \<Rightarrow>
             let extend = (\<lambda>x. x\<lparr>a_debounce_until := Some debounce_until\<rparr>)
             in (Some a, extend a, put_action s (a_id a) extend))"

definition chat_payload :: "string \<Rightarrow> dict \<Rightarrow> chat_request \<Rightarrow> action_row \<Rightarrow> id \<Rightarrow> int \<Rightarrow> int \<Rightarrow> dict" where
  "chat_payload debounce_key details r action message_id attempt count =
     dict_merge
       ([(''message_id'', JStr message_id),
         (''client_request_id'', JStr (or_else (a_client_request_id action) (cr_client_request_id r))),
         (''timezone'', JStr (timezone_name r)), (''debounce_key'', JStr debounce_key),
         (''chat_retry_attempt'', JInt attempt)] @ details @ [(''aggregated_message_count'', JInt count)])
       (cr_extra_payload r)"

definition attach_message ::
  "world \<Rightarrow> session \<Rightarrow> id option \<Rightarrow> id option \<Rightarrow> string \<Rightarrow> dict \<Rightarrow> chat_request \<Rightarrow> id list \<Rightarrow> bool \<Rightarrow> action_row \<Rightarrow>
     (action_row \<times> world) result" where
  "attach_message w s cocoon_id chat_group_id debounce_key details r active is_new action =
     bind_r (add_message s (new_user_message s cocoon_id chat_group_id (a_id action) r active)) (\<lambda>s1.
     bind_r (dict_int_or ''chat_retry_attempt'' 1 (a_payload action)) (\<lambda>attempt.
     let payload = chat_payload debounce_key details r action (new_id s) attempt (count_action_messages s1 (a_id action));
         s2 = add_message_tags (put_action s1 (a_id action) (\<lambda>x. x\<lparr>a_payload := payload\<rparr>)) (new_id s) active
     in bind_r (if is_new then commit_then_enqueue w s2 (a_id action) cocoon_id chat_group_id ''chat'' payload
                else Inr (w\<lparr>db := s2\<rparr>)) (\<lambda>w'.
        Inr (action\<lparr>a_payload := payload\<rparr>, w'))))"

definition enqueue_chat ::
  "dispatch_service \<Rightarrow> world \<Rightarrow> id option \<Rightarrow> id option \<Rightarrow> string \<Rightarrow> string \<Rightarrow> string \<Rightarrow> dict \<Rightarrow> dict \<Rightarrow>
     chat_request \<Rightarrow> (action_row \<times> world) result" where
  "enqueue_chat d w cocoon_id chat_group_id target_type debounce_key cancelled_reason first_details details r =
     bind_r (ensure_session_state (db w) cocoon_id chat_group_id) (\<lambda>(state, s1).
     bind_r (cancel_wakeup_tasks s1 cocoon_id chat_group_id None (Some ''idle_timeout'') (Some cancelled_reason)) (\<lambda>(_, s2).
     let (debounce_seconds, s3) = current_debounce_seconds d s2 target_type;
         (pending, action, s4) = debounced_chat s3 cocoon_id chat_group_id debounce_seconds (cr_client_request_id r)
           (dict_merge ([(''timezone'', JStr (timezone_name r)), (''debounce_key'', JStr debounce_key),
                         (''chat_retry_attempt'', JInt 1)] @ first_details @ [(''aggregated_message_count'', JInt 0)])
              (cr_extra_payload r));
         active = (case row_get st_id (st_id state) (states s4) of None \<Rightarrow> [] | Some st \<Rightarrow> st_active_tags st)
     in attach_message w s4 cocoon_id chat_group_id debounce_key details r active (pending = None) action))"

definition enqueue_chat_message ::
  "dispatch_service \<Rightarrow> world \<Rightarrow> id \<Rightarrow> chat_request \<Rightarrow> (action_row \<times> world) result" where
  "enqueue_chat_message d w cocoon_id r =
     (case find_action_for_client_request_id (db w) (cr_client_request_id r) of
        Some existing \<Rightarrow> Inr (existing, w)
      | None \<Rightarrow>
          case row_get c_id cocoon_id (cocoons (db w)) of
            None \<Rightarrow> Inl (ValueError ''Cocoon not found'')
          | Some cocoon \<Rightarrow>
              enqueue_chat d w (Some cocoon_id) None ''cocoon'' (build_debounce_key d ''chat'' [Some cocoon_id])
                ''Cancelled because the user sent a new message''
                (client_entries r) (client_entries r @ sender_entries r) r)"

definition enqueue_chat_group_message ::
  "dispatch_service \<Rightarrow> world \<Rightarrow> id \<Rightarrow> chat_request \<Rightarrow> (action_row \<times> world) result" where
  "enqueue_chat_group_message d w chat_group_id r =
     (case find_action_for_client_request_id (db w) (cr_client_request_id r) of
        Some existing \<Rightarrow> Inr (existing, w)
      | None \<Rightarrow>
          case row_get rm_id chat_group_id (rooms (db w)) of
            None \<Rightarrow> Inl (ValueError ''Chat group room not found'')
          | Some room \<Rightarrow>
              let details = sender_entries r @ [(''character_id'', JStr (rm_character_id room))] @ client_entries r
              in enqueue_chat d w None (Some chat_group_id) ''chat_group'' (build_debounce_key d ''chat_group'' [Some chat_group_id])
                   ''Cancelled because the user sent a new group message'' details details r)"

section \<open>Edits and retries\<close>

definition enqueue_cocoon_action ::
  "dispatch_service \<Rightarrow> world \<Rightarrow> session \<Rightarrow> id \<Rightarrow> string \<Rightarrow> dict \<Rightarrow> (action_row \<times> world) result" where
  "enqueue_cocoon_action d w s cocoon_id event_type payload =
     (let (debounce_seconds, s1) = current_debounce_seconds d s ''cocoon'';
          a = new_chat_action s1 (Some cocoon_id) None event_type None (utcnow s1 + seconds debounce_seconds) payload
      in bind_r (commit_then_enqueue w (add_action s1 a) (a_id a) (Some cocoon_id) None event_type payload) (\<lambda>w'.
         Inr (a, w')))"

definition enqueue_user_message_edit ::
  "dispatch_service \<Rightarrow> world \<Rightarrow> id \<Rightarrow> id \<Rightarrow> string \<Rightarrow> (action_row \<times> world) result" where
  "enqueue_user_message_edit d w cocoon_id message_id content =
     (let debounce_key = build_debounce_key d ''edit'' [Some message_id, Some content]
      in case find_debounced_action (db w) (Some cocoon_id) None ''edit'' debounce_key of
           Some existing \<Rightarrow> Inr (existing, w)
         | None \<Rightarrow>
             enqueue_cocoon_action d w
               ((db w)\<lparr>messages := row_put m_id message_id (\<lambda>m. m\<lparr>m_content := content\<rparr>) (messages (db w))\<rparr>)
               cocoon_id ''edit'' [(''message_id'', JStr message_id), (''debounce_key'', JStr debounce_key)])"

definition enqueue_retry ::
  "dispatch_service \<Rightarrow> world \<Rightarrow> id \<Rightarrow> id option \<Rightarrow> (action_row \<times> world) result" where
  "enqueue_retry d w cocoon_id message_id =
     (let debounce_key = build_debounce_key d ''retry'' [message_id]
      in case find_debounced_action (db w) (Some cocoon_id) None ''retry'' debounce_key of
           Some existing \<Rightarrow> Inr (existing, w)
         | None \<Rightarrow>
             enqueue_cocoon_action d w (db w) cocoon_id ''retry''
               [(''message_id'', json_opt_str message_id), (''debounce_key'', JStr debounce_key)])"

section \<open>What a chat request does\<close>

lemma cancel_task_frame [simp]:
  "actions (snd (cancel_task s r t)) = actions s" "messages (snd (cancel_task s r t)) = messages s"
  "cocoons (snd (cancel_task s r t)) = cocoons s" "rooms (snd (cancel_task s r t)) = rooms s"
  "id_supply (snd (cancel_task s r t)) = id_supply s" "id_next (snd (cancel_task s r t)) = id_next s"
  "clock (snd (cancel_task s r t)) = clock s"
  by (auto simp: cancel_task_def cancel_job_def Let_def split: option.splits)

lemma cancel_loop_frame:
  "cancel_loop s ids kind r ts = (cs, s') \<Longrightarrow>
   actions s' = actions s \<and> messages s' = messages s \<and> id_supply s' = id_supply s \<and> id_next s' = id_next s \<and> clock s' = clock s"
proof (induction ts arbitrary: s cs)
  case Nil
  then show ?case by simp
next
  case (Cons t ts)
  show ?case
  proof (cases "cancel_wanted ids kind t")
    case False
    then show ?thesis using Cons by simp
  next
    case True
    obtain t' s1 where c: "cancel_task s r t = (t', s1)" by (metis surj_pair)
    obtain cs1 where "cancel_loop s1 ids kind r ts = (cs1, s')" using Cons.prems True c by (auto split: prod.splits)
    from Cons.IH [OF this] show ?thesis using cancel_task_frame [of s r t, unfolded c snd_conv] by simp
  qed
qed

lemma cancel_wakeup_frame:
  assumes "cancel_wakeup_tasks s c g ids kind r = Inr (ts, s')"
  shows "actions s' = actions s" "messages s' = messages s" "id_supply s' = id_supply s" "id_next s \<le> id_next s'" "clock s' = clock s"
proof -
  obtain cs s1 where l: "cancel_loop s ids kind r (list_pending_wakeup_tasks s c g) = (cs, s1)" by (metis surj_pair)
  obtain f where y: "sync_current_wakeup_task_id s1 c g = Inr (f, s')"
    using assms l by (auto simp: cancel_wakeup_tasks_def elim: bind_r_pairE)
  note fr = state_frameD [OF sync_frame [OF y]] and lf = cancel_loop_frame [OF l]
  show "actions s' = actions s" "messages s' = messages s" "id_supply s' = id_supply s" "id_next s \<le> id_next s'" "clock s' = clock s"
    using fr lf by simp_all
qed

lemma current_debounce_frame:
  assumes "current_debounce_seconds d s tt = (n, s')"
  shows "actions s' = actions s" "messages s' = messages s" "id_supply s' = id_supply s" "id_next s' = id_next s"
    "clock s' = clock s" "states s' = states s"
  using assms by (auto simp: current_debounce_seconds_def get_settings_def split: if_splits option.splits prod.splits)

lemma add_message_tags_frame [simp]:
  "actions (add_message_tags s i ts) = actions s" "messages (add_message_tags s i ts) = messages s"
  "id_supply (add_message_tags s i ts) = id_supply s"
  by (induction ts arbitrary: s) (simp_all add: take_id_def)

lemma add_message_tags_next: "id_next s \<le> id_next (add_message_tags s i ts)"
proof (induction ts arbitrary: s)
  case (Cons t ts)
  show ?case using Cons.IH [of "(take_id s)\<lparr>message_tags :=
       row_add \<lparr>mt_id = new_id s, mt_message_id = i, mt_tag_id = t\<rparr> (message_tags s)\<rparr>"] by simp
qed simp

lemma add_action_simps [simp]:
  "actions (add_action s a) = actions s @ [a]" "messages (add_action s a) = messages s" "states (add_action s a) = states s"
  by (simp_all add: add_action_def row_add_def take_id_def)

lemma put_action_simps [simp]:
  "actions (put_action s i f) = row_put a_id i f (actions s)" "messages (put_action s i f) = messages s"
  by (simp_all add: put_action_def)

lemma attach_message_cases:
  assumes "attach_message w s c g key details r active new action = Inr (a, w')"
  obtains s1 payload where "add_message s (new_user_message s c g (a_id action) r active) = Inr s1"
    "a = action\<lparr>a_payload := payload\<rparr>"
    "db w' = add_message_tags (put_action s1 (a_id action) (\<lambda>x. x\<lparr>a_payload := payload\<rparr>)) (new_id s) active"
    "if new then \<exists>n. queue_enqueue (queue w) (a_id action) ''chat'' c g payload = Inr (n, queue w') else queue w' = queue w"
proof -
  obtain s1 where s1: "add_message s (new_user_message s c g (a_id action) r active) = Inr s1"
    using assms unfolding attach_message_def by (rule bind_rE)
  obtain attempt where att: "dict_int_or ''chat_retry_attempt'' 1 (a_payload action) = Inr attempt"
    using assms s1 by (auto simp: attach_message_def elim: bind_rE)
  define payload where "payload = chat_payload key details r action (new_id s) attempt (count_action_messages s1 (a_id action))"
  define s2 where "s2 = add_message_tags (put_action s1 (a_id action) (\<lambda>x. x\<lparr>a_payload := payload\<rparr>)) (new_id s) active"
  have "bind_r (if new then commit_then_enqueue w s2 (a_id action) c g ''chat'' payload else Inr (w\<lparr>db := s2\<rparr>))
      (\<lambda>w'. Inr (action\<lparr>a_payload := payload\<rparr>, w')) = Inr (a, w')"
    using assms s1 att unfolding s2_def payload_def by (simp add: attach_message_def Let_def)
  then show thesis using that [OF s1, of payload]
    by (cases new) (auto simp: s2_def commit_then_enqueue_def publish_def elim!: bind_rE)
qed

lemma enqueue_chat_cases:
  assumes "enqueue_chat d w c g tt key reason fd details r = Inr (a, w')"
  obtains s3 pending action s4 active deb first where
    "actions s3 = actions (db w)" "messages s3 = messages (db w)" "id_supply s3 = id_supply (db w)"
    "id_next (db w) \<le> id_next s3" "clock s3 = clock (db w)"
    "debounced_chat s3 c g deb (cr_client_request_id r) first = (pending, action, s4)"
    "attach_message w s4 c g key details r active (pending = None) action = Inr (a, w')"
proof -
  obtain state s1 where s1: "ensure_session_state (db w) c g = Inr (state, s1)"
    using assms unfolding enqueue_chat_def by (rule bind_r_pairE)
  obtain ts s2 where s2: "cancel_wakeup_tasks s1 c g None (Some ''idle_timeout'') (Some reason) = Inr (ts, s2)"
    using assms s1 by (auto simp: enqueue_chat_def elim: bind_r_pairE)
  obtain deb s3 where s3: "current_debounce_seconds d s2 tt = (deb, s3)" by (metis surj_pair)
  define first where "first = dict_merge ([(''timezone'', JStr (timezone_name r)), (''debounce_key'', JStr key),
      (''chat_retry_attempt'', JInt 1)] @ fd @ [(''aggregated_message_count'', JInt 0)]) (cr_extra_payload r)"
  obtain pending action s4 where s4: "debounced_chat s3 c g deb (cr_client_request_id r) first = (pending, action, s4)"
    by (metis surj_pair)
  define active where "active = (case row_get st_id (st_id state) (states s4) of None \<Rightarrow> [] | Some st \<Rightarrow> st_active_tags st)"
  have "attach_message w s4 c g key details r active (pending = None) action = Inr (a, w')"
    using assms s1 s2 s3 s4 unfolding enqueue_chat_def first_def active_def by (simp add: Let_def)
  moreover have "actions s3 = actions (db w)" "messages s3 = messages (db w)" "id_supply s3 = id_supply (db w)"
    "id_next (db w) \<le> id_next s3" "clock s3 = clock (db w)"
    using state_frameD [OF state_frame_ensure_state [OF s1]] cancel_wakeup_frame [OF s2] current_debounce_frame [OF s3] by simp_all
  ultimately show thesis using that s4 by blast
qed

lemma first_of_sorted:
  "first_of (sort_key f xs) = Some x \<Longrightarrow> x \<in> set xs \<and> (\<forall>y\<in>set xs. f x \<le> f y)"
  by (cases "sort_key f xs") (auto simp: first_of_def dest: hd_sort_key)

lemma first_of_sort_None: "first_of (sort_key f xs) = None \<longleftrightarrow> xs = []"
proof -
  have "sort_key f xs = [] \<longleftrightarrow> xs = []" by (metis set_empty set_sort)
  then show ?thesis by (cases "sort_key f xs") (auto simp: first_of_def)
qed

lemma find_pending_SomeD:
  assumes "find_pending_chat_action s c g = Some a"
  shows "a \<in> set (actions s) \<and> a_event_type a = ''chat'' \<and> a_status a = ActQueued \<and> action_target c g a"
  using first_of_sorted [OF assms [unfolded find_pending_chat_action_def]] by simp

text \<open>The action that takes the message, and the table with it.\<close>

lemma debounced_chat_facts:
  assumes "debounced_chat s c g deb rid first = (pending, a, s')"
  shows "messages s' = messages s \<and> id_supply s' = id_supply s \<and> a_status a = ActQueued \<and> a_event_type a = ''chat'' \<and>
    (case pending of
       None \<Rightarrow> a_id a = new_id s \<and> actions s' = actions s @ [a] \<and> a_client_request_id a = Some rid \<and>
         a_cocoon_id a = c \<and> a_chat_group_id a = g \<and> a_queued_at a = clock s \<and> a_started_at a = None
     | Some p \<Rightarrow> p \<in> set (actions s) \<and> action_target c g p \<and> a_status p = ActQueued \<and> a_event_type p = ''chat'' \<and> a_id a = a_id p \<and>
         (\<exists>u. a = p\<lparr>a_debounce_until := u\<rparr> \<and>
              actions s' = row_put a_id (a_id p) (\<lambda>x. x\<lparr>a_debounce_until := u\<rparr>) (actions s)))"
proof (cases "if 0 < deb then find_pending_chat_action s c g else None")
  case None
  then have "pending = None" "a = new_chat_action s c g ''chat'' (Some rid) (utcnow s + seconds deb) first" "s' = add_action s a"
    using assms by (auto simp: debounced_chat_def Let_def)
  then show ?thesis by (simp add: new_chat_action_def utcnow_def add_action_def take_id_def row_add_def)
next
  case (Some p)
  then have "find_pending_chat_action s c g = Some p" by (simp split: if_splits)
  note p = find_pending_SomeD [OF this]
  have "pending = Some p" "a = p\<lparr>a_debounce_until := Some (utcnow s + seconds deb)\<rparr>"
    "s' = put_action s (a_id p) (\<lambda>x. x\<lparr>a_debounce_until := Some (utcnow s + seconds deb)\<rparr>)"
    using assms Some by (auto simp: debounced_chat_def Let_def)
  then show ?thesis using p by (auto simp: put_action_def)
qed

definition action_keys :: "session \<Rightarrow> bool" where
  "action_keys s \<longleftrightarrow> distinct (map a_id (actions s)) \<and> [] \<notin> row_ids a_id (actions s) \<and> (\<forall>n. id_supply s n \<noteq> []) \<and>
     supply_fresh s (row_ids a_id (actions s))"

lemma row_get_put_same:
  assumes "distinct (map key rows)" "r \<in> set rows" "\<And>x. key (f x) = key x"
  shows "row_get key (key r) (row_put key (key r) f rows) = Some (f r)"
  using row_get_put [of key f "key r" "key r" rows] row_get_mem [OF assms(1,2)] assms(3) by simp

text \<open>What a further message changes of the action it joins: its debounce time and its payload.\<close>

definition refreshes :: "(action_row \<Rightarrow> action_row) \<Rightarrow> bool" where
  "refreshes f \<longleftrightarrow> (\<forall>x. a_id (f x) = a_id x \<and> a_status (f x) = a_status x \<and> a_event_type (f x) = a_event_type x \<and>
     a_cocoon_id (f x) = a_cocoon_id x \<and> a_chat_group_id (f x) = a_chat_group_id x \<and>
     a_client_request_id (f x) = a_client_request_id x \<and> a_queued_at (f x) = a_queued_at x \<and> a_started_at (f x) = a_started_at x)"

lemma enqueue_chat_effect:
  assumes e: "enqueue_chat d w c g tt key reason fd details r = Inr (a, w')" and keys: "action_keys (db w)"
  shows "(\<exists>m. messages (db w') = messages (db w) @ [m] \<and> m_role m = ''user'' \<and> m_content m = cr_content r \<and>
      m_action_id m = Some (a_id a) \<and> m_client_request_id m = Some (cr_client_request_id r) \<and>
      m_cocoon_id m = c \<and> m_chat_group_id m = g) \<and>
    Some (cr_client_request_id r) \<notin> m_client_request_id ` set (messages (db w)) \<and>
    row_get a_id (a_id a) (actions (db w')) = Some a \<and> a_status a = ActQueued \<and> a_event_type a = ''chat'' \<and> a_id a \<noteq> [] \<and>
    ((\<exists>p\<in>set (actions (db w)). a_id p = a_id a \<and> a_status p = ActQueued \<and> a_event_type p = ''chat'' \<and> action_target c g p \<and>
        map a_id (actions (db w')) = map a_id (actions (db w)) \<and> queue w' = queue w) \<or>
     (a_id a \<notin> row_ids a_id (actions (db w)) \<and> a_client_request_id a = Some (cr_client_request_id r) \<and>
        actions (db w') = actions (db w) @ [a] \<and> a_started_at a = None \<and> a_cocoon_id a = c \<and> a_chat_group_id a = g \<and>
        queue_waiting (queue w') = queue_waiting (queue w) @ [(a_id a, a_payload a)])) \<and>
    (\<exists>f. refreshes f \<and>
         (actions (db w') = row_put a_id (a_id a) f (actions (db w)) \<or> actions (db w') = actions (db w) @ [a]))"
proof -
  obtain s3 pending action s4 active deb first where s3: "actions s3 = actions (db w)" "messages s3 = messages (db w)"
      "id_supply s3 = id_supply (db w)" "id_next (db w) \<le> id_next s3"
    and s4: "debounced_chat s3 c g deb (cr_client_request_id r) first = (pending, action, s4)"
    and am: "attach_message w s4 c g key details r active (pending = None) action = Inr (a, w')"
    using e by (rule enqueue_chat_cases)
  obtain s5 payload where s5: "add_message s4 (new_user_message s4 c g (a_id action) r active) = Inr s5"
    and a: "a = action\<lparr>a_payload := payload\<rparr>"
    and w': "db w' = add_message_tags (put_action s5 (a_id action) (\<lambda>x. x\<lparr>a_payload := payload\<rparr>)) (new_id s4) active"
    and q: "if pending = None then \<exists>n. queue_enqueue (queue w) (a_id action) ''chat'' c g payload = Inr (n, queue w') else queue w' = queue w"
    using am by (rule attach_message_cases)
  note df = debounced_chat_facts [OF s4]
  have m5: "messages s5 = messages s4 @ [new_user_message s4 c g (a_id action) r active]" "actions s5 = actions s4"
    "Some (cr_client_request_id r) \<notin> m_client_request_id ` set (messages s4)"
    using s5 by (auto simp: add_message_def new_user_message_def row_add_def take_id_def split: if_splits)
  have acts: "actions (db w') = row_put a_id (a_id action) (\<lambda>x. x\<lparr>a_payload := payload\<rparr>) (actions s4)"
    using w' m5 by simp
  have msgs: "messages (db w') = messages (db w) @ [new_user_message s4 c g (a_id action) r active]" using w' m5 df s3 by simp
  have ok: "distinct (map a_id (actions (db w)))" "[] \<notin> row_ids a_id (actions (db w))" using keys by (simp_all add: action_keys_def)
  have base: "a_status a = ActQueued \<and> a_event_type a = ''chat''" using df a by simp
  have new: "Some (cr_client_request_id r) \<notin> m_client_request_id ` set (messages (db w))" using m5(3) df s3 by simp
  show ?thesis
  proof (cases pending)
    case None
    have fresh: "a_id action \<notin> row_ids a_id (actions (db w))" "a_id action \<noteq> []"
      using df None keys s3(3,4) by (auto simp: action_keys_def supply_fresh_def new_id_def)
    have act: "actions (db w') = actions (db w) @ [a]"
      using acts df None s3 a row_put_absent [OF fresh(1)] by (simp add: row_put_def)
    have get: "row_get a_id (a_id a) (actions (db w')) = Some a"
      using fresh(1) a row_get_add [of a_id "a_id a" a "actions (db w)"] row_get_None [of a_id "a_id a" "actions (db w)"]
      by (simp add: act row_add_def [symmetric])
    have wait: "queue_waiting (queue w') = queue_waiting (queue w) @ [(a_id a, a_payload a)]"
      using q None a memory_queue.enqueue_waiting by auto
    have idf: "\<exists>f. refreshes f \<and>
         (actions (db w') = row_put a_id (a_id a) f (actions (db w)) \<or> actions (db w') = actions (db w) @ [a])"
      by (rule exI [of _ "\<lambda>x. x"]) (simp add: act refreshes_def)
    show ?thesis using msgs base new get fresh act wait df None a idf by (auto simp: new_user_message_def)
  next
    case (Some p)
    then obtain u where p: "p \<in> set (actions (db w))" "action_target c g p" "a_status p = ActQueued" "a_event_type p = ''chat''"
      "action = p\<lparr>a_debounce_until := u\<rparr>"
      "actions s4 = row_put a_id (a_id p) (\<lambda>x. x\<lparr>a_debounce_until := u\<rparr>) (actions (db w))"
      using df s3 by auto
    define f where "f = (\<lambda>x::action_row. x\<lparr>a_debounce_until := u, a_payload := payload\<rparr>)"
    have act: "actions (db w') = row_put a_id (a_id a) f (actions (db w))"
      using acts p a by (auto simp: row_put_def f_def)
    have aid: "a_id a = a_id p" "a = f p" using a p by (simp_all add: f_def)
    have get: "row_get a_id (a_id a) (actions (db w')) = Some a"
      using row_get_put_same [OF ok(1) p(1), of f] act aid by (simp add: f_def)
    have ids: "map a_id (actions (db w')) = map a_id (actions (db w))" by (simp add: act row_put_def f_def)
    have ne: "a_id a \<noteq> []" using ok(2) p(1) aid by (metis row_ids_def imageI)
    have ff: "\<exists>f. refreshes f \<and>
         (actions (db w') = row_put a_id (a_id a) f (actions (db w)) \<or> actions (db w') = actions (db w) @ [a])"
      by (rule exI [of _ f]) (simp add: act f_def refreshes_def)
    have agg: "\<exists>p\<in>set (actions (db w)). a_id p = a_id a \<and> a_status p = ActQueued \<and> a_event_type p = ''chat'' \<and> action_target c g p \<and>
        map a_id (actions (db w')) = map a_id (actions (db w)) \<and> queue w' = queue w"
      using p ids q Some aid by (intro bexI [of _ p]) simp_all
    have "\<exists>m. messages (db w') = messages (db w) @ [m] \<and> m_role m = ''user'' \<and> m_content m = cr_content r \<and>
      m_action_id m = Some (a_id a) \<and> m_client_request_id m = Some (cr_client_request_id r) \<and>
      m_cocoon_id m = c \<and> m_chat_group_id m = g" using msgs a by (simp add: new_user_message_def)
    then show ?thesis using base new get ne agg ff by blast
  qed
qed

text \<open>
  C38. A chat request that is accepted stores one user message with its content and request identifier,
  attached to the action it returns, which is a queued chat action of the cocoon and stored as
  returned. Either that action is new and then it is the last on the queue, or a chat action of the
  cocoon was already waiting and then no action is created and the queue is untouched.
\<close>

theorem enqueue_chat_message_effect:
  assumes "action_keys (db w)" "find_action_for_client_request_id (db w) (cr_client_request_id r) = None"
    and "enqueue_chat_message d w cocoon_id r = Inr (a, w')"
  shows "(\<exists>m. messages (db w') = messages (db w) @ [m] \<and> m_role m = ''user'' \<and> m_content m = cr_content r \<and>
      m_action_id m = Some (a_id a) \<and> m_client_request_id m = Some (cr_client_request_id r) \<and>
      m_cocoon_id m = Some cocoon_id \<and> m_chat_group_id m = None) \<and>
    row_get a_id (a_id a) (actions (db w')) = Some a \<and> a_status a = ActQueued \<and> a_event_type a = ''chat'' \<and>
    ((\<exists>p\<in>set (actions (db w)). a_id p = a_id a \<and> a_status p = ActQueued \<and> a_event_type p = ''chat'' \<and>
        action_target (Some cocoon_id) None p \<and>
        map a_id (actions (db w')) = map a_id (actions (db w)) \<and> queue w' = queue w) \<or>
     (a_id a \<notin> row_ids a_id (actions (db w)) \<and> actions (db w') = actions (db w) @ [a] \<and>
        queue_waiting (queue w') = queue_waiting (queue w) @ [(a_id a, a_payload a)]))"
proof -
  have "enqueue_chat d w (Some cocoon_id) None ''cocoon'' (build_debounce_key d ''chat'' [Some cocoon_id])
      ''Cancelled because the user sent a new message'' (client_entries r) (client_entries r @ sender_entries r) r = Inr (a, w')"
    using assms(2,3) by (auto simp: enqueue_chat_message_def split: option.splits)
  from enqueue_chat_effect [OF this assms(1)] show ?thesis by blast
qed

lemma find_action_none:
  assumes "find_action_for_client_request_id s rid = None"
  shows "\<forall>a\<in>set (actions s). a_client_request_id a \<noteq> Some rid"
  using assms by (auto simp: find_action_for_client_request_id_def find_None split: option.splits)

lemma find_action_after:
  assumes "enqueue_chat d w c g tt key reason fd details r = Inr (a, w')" "action_keys (db w)"
    and none: "find_action_for_client_request_id (db w) (cr_client_request_id r) = None"
  shows "find_action_for_client_request_id (db w') (cr_client_request_id r) = Some a"
proof -
  note ef = enqueue_chat_effect [OF assms(1,2)]
  note no = find_action_none [OF none]
  obtain m where m: "messages (db w') = messages (db w) @ [m]" "m_action_id m = Some (a_id a)"
    "m_client_request_id m = Some (cr_client_request_id r)" using ef by blast
  have get: "row_get a_id (a_id a) (actions (db w')) = Some a" "a_id a \<noteq> []" using ef by blast+
  show ?thesis
  proof (cases "List.find (\<lambda>a. a_client_request_id a = Some (cr_client_request_id r)) (actions (db w'))")
    case None
    have "List.find (\<lambda>m. m_client_request_id m = Some (cr_client_request_id r)) (messages (db w)) = None"
      using ef by (auto simp: find_None image_iff)
    then show ?thesis using None m get by (simp add: find_action_for_client_request_id_def find_append)
  next
    case (Some b)
    then have b: "b \<in> set (actions (db w'))" "a_client_request_id b = Some (cr_client_request_id r)" by (auto dest: find_SomeD)
    obtain f where f0: "refreshes f"
      "actions (db w') = row_put a_id (a_id a) f (actions (db w)) \<or> actions (db w') = actions (db w) @ [a]"
      using ef by blast
    then have f: "\<forall>x. a_client_request_id (f x) = a_client_request_id x"
      "actions (db w') = row_put a_id (a_id a) f (actions (db w)) \<or> actions (db w') = actions (db w) @ [a]"
      by (simp_all add: refreshes_def)
    have "b = a"
    proof (rule ccontr)
      assume "b \<noteq> a"
      then obtain x where "x \<in> set (actions (db w))" "a_client_request_id x = a_client_request_id b"
        using b(1) f by (auto elim!: row_putE split: if_splits)
      then show False using no b(2) by metis
    qed
    then show ?thesis using Some by (simp add: find_action_for_client_request_id_def)
  qed
qed

text \<open>
  C39. Sending a chat request again is harmless: a request with an identifier that was already
  accepted returns the action of the first one and changes neither the database nor the queue nor
  the published events.
\<close>

theorem enqueue_chat_message_idempotent:
  assumes "action_keys (db w)" "enqueue_chat_message d w cocoon_id r = Inr (a, w')"
    and "cr_client_request_id r' = cr_client_request_id r"
  shows "enqueue_chat_message d w' cocoon_id' r' = Inr (a, w')"
proof (cases "find_action_for_client_request_id (db w) (cr_client_request_id r)")
  case (Some b)
  then show ?thesis using assms(2,3) by (simp add: enqueue_chat_message_def)
next
  case None
  then have "enqueue_chat d w (Some cocoon_id) None ''cocoon'' (build_debounce_key d ''chat'' [Some cocoon_id])
      ''Cancelled because the user sent a new message'' (client_entries r) (client_entries r @ sender_entries r) r = Inr (a, w')"
    using assms(2) by (auto simp: enqueue_chat_message_def split: option.splits)
  from find_action_after [OF this assms(1) None] show ?thesis using assms(3) by (simp add: enqueue_chat_message_def)
qed

definition sample_request :: "string \<Rightarrow> string \<Rightarrow> chat_request" where
  "sample_request rid content =
     \<lparr>cr_content = content, cr_client_request_id = rid, cr_timezone = None, cr_client_sent_at = None, cr_locale = None,
      cr_idle_seconds = None, cr_recent_turn_count = None, cr_typing_hint_ms = None, cr_sender_user_id = Some ''u1'',
      cr_external_sender_id = None, cr_external_sender_display_name = None, cr_extra_payload = []\<rparr>"

definition sample_world :: world where
  "sample_world = \<lparr>db = sample_cocoons, queue = empty_queue, events = [], files = []\<rparr>"

definition sample_service :: dispatch_service where
  "sample_service = new_dispatch_service True None (\<lambda>x. x)"

lemma sample_world_keys: "action_keys (db sample_world)"
  by (simp add: action_keys_def sample_world_def sample_cocoons_def sample_tags_def empty_session_def id_literal_inj
      id_literal_def supply_fresh_def row_ids_def)

lemma sample_accepts: "\<exists>a w'. enqueue_chat_message sample_service sample_world ''a'' (sample_request ''q1'' ''hi'') = Inr (a, w')"
proof -
  have "\<not> isl (enqueue_chat_message sample_service sample_world ''a'' (sample_request ''q1'' ''hi''))" by code_simp
  then show ?thesis by (metis isl_def sum.exhaust surj_pair)
qed

theorem enqueue_chat_message_effect_witness:
  "\<exists>a w'. enqueue_chat_message sample_service sample_world ''a'' (sample_request ''q1'' ''hi'') = Inr (a, w') \<and>
     queue_waiting (queue w') = [(a_id a, a_payload a)]"
proof -
  obtain a w' where e: "enqueue_chat_message sample_service sample_world ''a'' (sample_request ''q1'' ''hi'') = Inr (a, w')"
    using sample_accepts by blast
  have n: "find_action_for_client_request_id (db sample_world) (cr_client_request_id (sample_request ''q1'' ''hi'')) = None"
    by code_simp
  have a0: "actions (db sample_world) = []" "queue_waiting (queue sample_world) = []"
    by (simp_all add: sample_world_def sample_cocoons_def sample_tags_def empty_session_def queue_waiting_def empty_queue_def)
  show ?thesis using enqueue_chat_message_effect [OF sample_world_keys n e] e a0 by auto
qed

theorem enqueue_chat_message_idempotent_witness:
  "\<exists>a w'. enqueue_chat_message sample_service w' ''a'' (sample_request ''q1'' ''other text'') = Inr (a, w') \<and>
     length (messages (db w')) = 1"
proof -
  obtain a w' where e: "enqueue_chat_message sample_service sample_world ''a'' (sample_request ''q1'' ''hi'') = Inr (a, w')"
    using sample_accepts by blast
  have "(case enqueue_chat_message sample_service sample_world ''a'' (sample_request ''q1'' ''hi'') of
      Inl _ \<Rightarrow> 0 | Inr p \<Rightarrow> length (messages (db (snd p)))) = 1" by code_simp
  then have "length (messages (db w')) = 1" using e by simp
  moreover have "cr_client_request_id (sample_request ''q1'' ''other text'') = cr_client_request_id (sample_request ''q1'' ''hi'')"
    by (simp add: sample_request_def)
  ultimately show ?thesis using enqueue_chat_message_idempotent [OF sample_world_keys e] by blast
qed

end
