(* ===== verification/AuditTrail.thy ===== *)
theory AuditTrail
  imports DispatchQueue
begin

text \<open>
  Audit runs, steps, artifacts and links (\<open>services/audit\<close>) and the cleanup of artifacts
  (\<open>worker/jobs/artifact_cleanup_job_service.py\<close>). The artifact store writes a JSON file below its
  root directory; the content is kept as the JSON value that \<open>orjson\<close> prints.
\<close>

section \<open>Runs and steps\<close>

definition start_run ::
  "session \<Rightarrow> id option \<Rightarrow> id option \<Rightarrow> id option \<Rightarrow> string \<Rightarrow> audit_run_row \<times> session" where
  "start_run s cocoon_id chat_group_id action_id operation_type =
     (let run = \<lparr>ar_id = new_id s, ar_cocoon_id = cocoon_id, ar_chat_group_id = chat_group_id, ar_action_id = action_id,
                 ar_operation_type = operation_type, ar_status = ActRunning, ar_trigger_event_uid = action_id,
                 ar_started_at = utcnow s, ar_finished_at = None\<rparr>
      in (run, (take_id s)\<lparr>audit_runs := row_add run (audit_runs s)\<rparr>))"

definition finish_run :: "session \<Rightarrow> id \<Rightarrow> action_status \<Rightarrow> session" where
  "finish_run s run_id status =
     s\<lparr>audit_runs := row_put ar_id run_id (\<lambda>r. r\<lparr>ar_status := status, ar_finished_at := Some (utcnow s)\<rparr>) (audit_runs s)\<rparr>"

definition start_step :: "session \<Rightarrow> id \<Rightarrow> string \<Rightarrow> dict \<Rightarrow> audit_step_row \<times> session" where
  "start_step s run_id step_name meta =
     (let step = \<lparr>au_id = new_id s, au_run_id = run_id, au_step_name = step_name, au_status = ActRunning,
                  au_started_at = utcnow s, au_finished_at = None, au_meta = meta\<rparr>
      in (step, (take_id s)\<lparr>audit_steps := row_add step (audit_steps s)\<rparr>))"

definition finish_step :: "session \<Rightarrow> id \<Rightarrow> action_status \<Rightarrow> session" where
  "finish_step s step_id status =
     s\<lparr>audit_steps := row_put au_id step_id (\<lambda>r. r\<lparr>au_status := status, au_finished_at := Some (utcnow s)\<rparr>) (audit_steps s)\<rparr>"

definition record_link ::
  "session \<Rightarrow> id \<Rightarrow> string \<Rightarrow> id option \<Rightarrow> id option \<Rightarrow> id option \<Rightarrow> id option \<Rightarrow> audit_link_row \<times> session" where
  "record_link s run_id relation source_artifact source_step target_artifact target_step =
     (let link = \<lparr>al_id = new_id s, al_run_id = run_id, al_source_artifact_id = source_artifact,
                  al_source_step_id = source_step, al_target_artifact_id = target_artifact,
                  al_target_step_id = target_step, al_relation = relation\<rparr>
      in (link, (take_id s)\<lparr>audit_links := row_add link (audit_links s)\<rparr>))"

section \<open>Artifacts\<close>

record audit_settings =
  as_root :: string
  as_ttl_hours :: int

definition write_text :: "audit_settings \<Rightarrow> world \<Rightarrow> string \<Rightarrow> json \<Rightarrow> string \<times> world" where
  "write_text e w relative_path content =
     (let path = as_root e @ ''/'' @ relative_path in (path, w\<lparr>files := dict_set path content (files w)\<rparr>))"

definition delete_file :: "world \<Rightarrow> string \<Rightarrow> world" where
  "delete_file w path = w\<lparr>files := AList.delete path (files w)\<rparr>"

definition record_json_artifact ::
  "audit_settings \<Rightarrow> world \<Rightarrow> id \<Rightarrow> id option \<Rightarrow> string \<Rightarrow> dict \<Rightarrow> string option \<Rightarrow> dict \<Rightarrow> audit_artifact_row \<times> world" where
  "record_json_artifact e w run_id step_id kind payload summary metadata =
     (let relative_path = ''audit/'' @ run_id @ ''/'' @ kind @ ''-'' @ new_id (db w) @ ''.json'';
          s1 = take_id (db w);
          (storage_path, w1) = write_text e (w\<lparr>db := s1\<rparr>) relative_path (JObj payload);
          artifact = \<lparr>aa_id = new_id s1, aa_run_id = run_id, aa_step_id = step_id, aa_kind = kind,
                      aa_storage_backend = ''filesystem'', aa_storage_path = Some storage_path, aa_summary = summary,
                      aa_metadata = dict_merge [(''relative_path'', JStr relative_path)] metadata,
                      aa_expires_at = Some (utcnow s1 + hours (as_ttl_hours e)), aa_deleted_at = None\<rparr>
      in (artifact, w1\<lparr>db := (take_id s1)\<lparr>audit_artifacts := row_add artifact (audit_artifacts s1)\<rparr>\<rparr>))"

definition expired :: "time \<Rightarrow> audit_artifact_row \<Rightarrow> bool" where
  "expired now a \<longleftrightarrow> aa_deleted_at a = None \<and> (case aa_expires_at a of None \<Rightarrow> False | Some t \<Rightarrow> t < now)"

definition drop_artifact :: "world \<Rightarrow> audit_artifact_row \<Rightarrow> world" where
  "drop_artifact w a =
     (let w1 = (if truthy (aa_storage_path a) then delete_file w (str_of (aa_storage_path a)) else w);
          s = db w1
      in w1\<lparr>db := s\<lparr>audit_artifacts := row_put aa_id (aa_id a)
           (\<lambda>r. r\<lparr>aa_deleted_at := Some (utcnow s)\<rparr>) (audit_artifacts s)\<rparr>\<rparr>)"

definition cleanup_expired_artifacts :: "world \<Rightarrow> nat \<times> world" where
  "cleanup_expired_artifacts w =
     (let artifacts = filter (expired (utcnow (db w))) (audit_artifacts (db w))
      in (length artifacts, foldl drop_artifact w artifacts))"

fun drop_artifacts_by_id :: "world \<Rightarrow> id list \<Rightarrow> world" where
  "drop_artifacts_by_id w [] = w"
| "drop_artifacts_by_id w (i # ids) =
     (case row_get aa_id i (audit_artifacts (db w)) of
        None \<Rightarrow> drop_artifacts_by_id w ids
      | Some a \<Rightarrow> drop_artifacts_by_id (if aa_deleted_at a = None then drop_artifact w a else w) ids)"

text \<open>\<open>ArtifactCleanupJobService.execute\<close>; an absent list of artifacts counts as the empty one.\<close>

definition execute_artifact_cleanup :: "world \<Rightarrow> id list \<Rightarrow> string option \<Rightarrow> world" where
  "execute_artifact_cleanup w artifact_ids mode =
     (if (mode = Some ''manual'' \<or> (mode = None \<and> artifact_ids \<noteq> [])) \<and> artifact_ids \<noteq> []
      then drop_artifacts_by_id w artifact_ids else snd (cleanup_expired_artifacts w))"

section \<open>What cleaning up does\<close>

lemma drop_artifact_simps [simp]:
  "clock (db (drop_artifact w a)) = clock (db w)"
  "audit_artifacts (db (drop_artifact w a)) =
     row_put aa_id (aa_id a) (\<lambda>r. r\<lparr>aa_deleted_at := Some (clock (db w))\<rparr>) (audit_artifacts (db w))"
  "files (drop_artifact w a) = (if truthy (aa_storage_path a) then AList.delete (str_of (aa_storage_path a)) (files w) else files w)"
  by (simp_all add: drop_artifact_def delete_file_def utcnow_def Let_def)

lemma drop_artifacts_rows:
  "clock (db (foldl drop_artifact w as)) = clock (db w) \<and>
   audit_artifacts (db (foldl drop_artifact w as)) =
     map (\<lambda>r. if aa_id r \<in> aa_id ` set as then r\<lparr>aa_deleted_at := Some (clock (db w))\<rparr> else r) (audit_artifacts (db w)) \<and>
   (\<forall>p. map_of (files (foldl drop_artifact w as)) p =
     (if \<exists>a\<in>set as. truthy (aa_storage_path a) \<and> str_of (aa_storage_path a) = p then None else map_of (files w) p))"
proof (induction as arbitrary: w)
  case Nil
  then show ?case by simp
next
  case (Cons a as)
  have "map (\<lambda>r. if aa_id r \<in> aa_id ` set as then r\<lparr>aa_deleted_at := Some t\<rparr> else r)
      (row_put aa_id (aa_id a) (\<lambda>r. r\<lparr>aa_deleted_at := Some t\<rparr>) rows) =
    map (\<lambda>r. if aa_id r \<in> aa_id ` set (a # as) then r\<lparr>aa_deleted_at := Some t\<rparr> else r) rows" for t rows
    by (auto simp: row_put_def)
  note upd = this
  note IH = Cons.IH [of "drop_artifact w a", unfolded drop_artifact_simps upd]
  have "map_of (files (foldl drop_artifact w (a # as))) p =
      (if \<exists>b\<in>set (a # as). truthy (aa_storage_path b) \<and> str_of (aa_storage_path b) = p then None else map_of (files w) p)" for p
    using IH by (auto simp: delete_conv)
  then show ?case using IH by simp
qed

text \<open>
  Cleaning up deletes the files of exactly the artifacts that are past their expiry and not yet
  deleted, stamps these artifacts and no other, keeps every other file, and leaves nothing expired.
\<close>

theorem cleanup_expired_artifacts_exact:
  assumes "distinct (map aa_id (audit_artifacts (db w)))" "cleanup_expired_artifacts w = (n, w')"
  shows "n = length (filter (expired (clock (db w))) (audit_artifacts (db w))) \<and>
    audit_artifacts (db w') = map (\<lambda>a. if expired (clock (db w)) a then a\<lparr>aa_deleted_at := Some (clock (db w))\<rparr> else a)
      (audit_artifacts (db w)) \<and>
    (\<forall>p. map_of (files w') p =
       (if \<exists>a\<in>set (audit_artifacts (db w)). expired (clock (db w)) a \<and> p \<noteq> [] \<and> aa_storage_path a = Some p
        then None else map_of (files w) p)) \<and>
    fst (cleanup_expired_artifacts w') = 0"
proof -
  let ?now = "clock (db w)" and ?rows = "audit_artifacts (db w)"
  let ?as = "filter (expired ?now) ?rows"
  have w': "n = length ?as" "w' = foldl drop_artifact w ?as"
    using assms(2) by (auto simp: cleanup_expired_artifacts_def utcnow_def Let_def)
  note rows = drop_artifacts_rows [of w ?as, folded w'(2)]
  have "aa_id a \<in> aa_id ` set ?as \<longleftrightarrow> expired ?now a" if "a \<in> set ?rows" for a
    using that distinct_key_eq [OF assms(1)] by (auto simp: image_iff)
  then have upd: "audit_artifacts (db w') = map (\<lambda>a. if expired ?now a then a\<lparr>aa_deleted_at := Some ?now\<rparr> else a) ?rows"
    using rows by (auto intro: map_cong)
  have c: "clock (db w') = clock (db w)" using rows by blast
  have "fst (cleanup_expired_artifacts w') = 0"
    by (simp add: cleanup_expired_artifacts_def utcnow_def upd c filter_empty_conv expired_def Let_def)
  moreover have "(\<exists>a\<in>set ?as. truthy (aa_storage_path a) \<and> str_of (aa_storage_path a) = p) \<longleftrightarrow>
      (\<exists>a\<in>set ?rows. expired ?now a \<and> p \<noteq> [] \<and> aa_storage_path a = Some p)" for p
    by (auto simp: truthy_iff)
  ultimately show ?thesis using rows upd w' by simp
qed

definition sample_artifact :: "id \<Rightarrow> time \<Rightarrow> audit_artifact_row" where
  "sample_artifact i t = \<lparr>aa_id = i, aa_run_id = ''r'', aa_step_id = None, aa_kind = ''k'', aa_storage_backend = ''filesystem'',
     aa_storage_path = Some i, aa_summary = None, aa_metadata = [], aa_expires_at = Some t, aa_deleted_at = None\<rparr>"

definition sample_store :: world where
  "sample_store = \<lparr>db = (empty_session 5)\<lparr>audit_artifacts := [sample_artifact ''x'' 3, sample_artifact ''y'' 9]\<rparr>,
     queue = empty_queue, events = [], files = [(''x'', JNull), (''y'', JNull)]\<rparr>"

theorem cleanup_expired_artifacts_exact_witness:
  "map_of (files (snd (cleanup_expired_artifacts sample_store))) ''x'' = None \<and>
   map_of (files (snd (cleanup_expired_artifacts sample_store))) ''y'' = Some JNull"
proof -
  have d: "distinct (map aa_id (audit_artifacts (db sample_store)))"
    by (simp add: sample_store_def sample_artifact_def)
  have s: "audit_artifacts (db sample_store) = [sample_artifact ''x'' 3, sample_artifact ''y'' 9]" "clock (db sample_store) = 5"
    "files sample_store = [(''x'', JNull), (''y'', JNull)]" by (simp_all add: sample_store_def empty_session_def)
  obtain n w' where e: "cleanup_expired_artifacts sample_store = (n, w')" by (metis surj_pair)
  from cleanup_expired_artifacts_exact [OF d e]
  have *: "map_of (files w') p = (if \<exists>a\<in>set (audit_artifacts (db sample_store)). expired (clock (db sample_store)) a \<and>
      p \<noteq> [] \<and> aa_storage_path a = Some p then None else map_of (files sample_store) p)" for p
    by blast
  show ?thesis using * [of "''x''"] * [of "''y''"] unfolding e s by (simp add: sample_artifact_def expired_def)
qed

end
