(* ===== verification/DispatchWorker.thy ===== *)
theory DispatchWorker
  imports Dispatch AuditTrail
begin

text \<open>
  The worker that runs chat actions (\<open>worker/chat_dispatch_worker_service.py\<close>): it claims a ready
  action, runs it through the chat runtime in a transaction of its own, records a failure, and
  replaces an action that takes too long by a retry. The runtime is an argument: what one run did to the
  world, that it gave up, that it raised, or that it did not return in time.
\<close>

definition CHAT_ACTION_TIMEOUT_SECONDS :: int where "CHAT_ACTION_TIMEOUT_SECONDS = 30"
definition CHAT_ACTION_MAX_TIMEOUT_ATTEMPTS :: int where "CHAT_ACTION_MAX_TIMEOUT_ATTEMPTS = 3"

datatype run_outcome =
    RunReturned world
  | RunAborted world
  | RunRaised world string
  | RunTimedOut

type_synonym runtime = "world \<Rightarrow> action_row \<Rightarrow> run_outcome"

record worker =
  wk_timeout_seconds :: int
  wk_max_attempts :: int

definition new_worker :: "int option \<Rightarrow> int option \<Rightarrow> worker" where
  "new_worker timeout attempts =
     \<lparr>wk_timeout_seconds = (case timeout of None \<Rightarrow> CHAT_ACTION_TIMEOUT_SECONDS
                            | Some n \<Rightarrow> if n = 0 then CHAT_ACTION_TIMEOUT_SECONDS else n),
      wk_max_attempts = (case attempts of None \<Rightarrow> CHAT_ACTION_MAX_TIMEOUT_ATTEMPTS
                         | Some n \<Rightarrow> if n = 0 then CHAT_ACTION_MAX_TIMEOUT_ATTEMPTS else n)\<rparr>"

section \<open>Failures\<close>

definition finish_latest_audit_run :: "session \<Rightarrow> id \<Rightarrow> action_status \<Rightarrow> session" where
  "finish_latest_audit_run s action_id status =
     (case first_of (sort_key (\<lambda>r. - ar_started_at r) (filter (\<lambda>r. ar_action_id r = Some action_id) (audit_runs s))) of
        None \<Rightarrow> s
      | Some r \<Rightarrow> if ar_status r \<noteq> ActRunning then s else finish_run s (ar_id r) status)"

definition add_failed_round :: "session \<Rightarrow> id option \<Rightarrow> id option \<Rightarrow> id option \<Rightarrow> string \<Rightarrow> string \<Rightarrow> session" where
  "add_failed_round s cocoon_id chat_group_id action_id event_type reason =
     (take_id s)\<lparr>failed_rounds := row_add
        \<lparr>fr_id = new_id s, fr_cocoon_id = cocoon_id, fr_chat_group_id = chat_group_id, fr_action_id = action_id,
         fr_event_type = event_type, fr_reason = reason\<rparr> (failed_rounds s)\<rparr>"

definition fail_action :: "string \<Rightarrow> time option \<Rightarrow> action_row \<Rightarrow> action_row" where
  "fail_action error_text finished_at a =
     a\<lparr>a_status := ActFailed, a_error_text := Some error_text,
       a_finished_at := (case finished_at of None \<Rightarrow> a_finished_at a | Some t \<Rightarrow> Some t)\<rparr>"

section \<open>One run\<close>

text \<open>
  The status is \<open>None\<close> when the run does not return in time; then nothing it did is committed yet.
  After a rollback the events and files a run produced remain.
\<close>

definition run_action_session :: "runtime \<Rightarrow> world \<Rightarrow> id \<Rightarrow> string option \<times> world" where
  "run_action_session run w action_id =
     (case row_get a_id action_id (actions (db w)) of
        None \<Rightarrow> (Some ''aborted'', w)
      | Some action \<Rightarrow>
          if a_status action \<noteq> ActRunning then (Some ''aborted'', w)
          else case run w action of
                 RunReturned w' \<Rightarrow> (Some ''completed'', w')
               | RunAborted w' \<Rightarrow> (Some ''aborted'', w'\<lparr>db := db w\<rparr>)
               | RunRaised w' reason \<Rightarrow>
                   let s1 = put_action (db w) action_id (fail_action reason None);
                       s2 = add_failed_round s1 (a_cocoon_id action) (a_chat_group_id action) (Some action_id)
                              (a_event_type action) reason
                   in (Some ''failed'', w'\<lparr>db := finish_latest_audit_run s2 action_id ActFailed\<rparr>)
               | RunTimedOut \<Rightarrow> (None, w))"

definition timeout_text :: "worker \<Rightarrow> int \<Rightarrow> string" where
  "timeout_text k attempt =
     ''timed out after '' @ int_str (wk_timeout_seconds k) @ '' seconds (attempt '' @ int_str attempt @ ''/'' @
     int_str (wk_max_attempts k) @ '')''"

definition retry_payload :: "action_row \<Rightarrow> int \<Rightarrow> dict" where
  "retry_payload action attempt =
     dict_set ''chat_retry_parent_action_id'' (JStr (a_id action))
       (dict_set ''chat_retry_attempt'' (JInt (attempt + 1)) (a_payload action))"

definition handle_timed_out_action :: "worker \<Rightarrow> world \<Rightarrow> id \<Rightarrow> world result" where
  "handle_timed_out_action k w action_id =
     (case row_get a_id action_id (actions (db w)) of
        None \<Rightarrow> Inr w
      | Some action \<Rightarrow>
          if a_status action \<noteq> ActRunning then Inr w
          else bind_r (dict_int_or ''chat_retry_attempt'' 1 (a_payload action)) (\<lambda>attempt.
            let s = db w;
                s1 = put_action s action_id (fail_action (timeout_text k attempt) (Some (utcnow s)));
                s2 = add_failed_round s1 (a_cocoon_id action) (a_chat_group_id action) (Some action_id)
                       (a_event_type action) ''timeout'';
                s3 = finish_latest_audit_run s2 action_id ActFailed
            in if attempt < wk_max_attempts k
               then let retry = new_chat_action s3 (a_cocoon_id action) (a_chat_group_id action) ''chat'' None (utcnow s3)
                                  (retry_payload action attempt)
                    in commit_then_enqueue w (add_action s3 retry) (a_id retry) (a_cocoon_id action)
                         (a_chat_group_id action) ''chat'' (a_payload retry)
               else Inr (w\<lparr>db := s3\<rparr>)))"

definition ack_envelope :: "world \<Rightarrow> envelope option \<Rightarrow> world" where
  "ack_envelope w envelope = (case envelope of None \<Rightarrow> w | Some e \<Rightarrow> w\<lparr>queue := queue_ack (queue w) e\<rparr>)"

definition process_next :: "worker \<Rightarrow> runtime \<Rightarrow> world \<Rightarrow> (bool \<times> world) result" where
  "process_next k run w =
     (let (envelope, q) = queue_consume_next (queue w);
          w1 = w\<lparr>queue := q\<rparr>
      in case claim_next_ready_action (db w1) of
           (None, s) \<Rightarrow> Inr (False, ack_envelope (w1\<lparr>db := s\<rparr>) envelope)
         | (Some action, s) \<Rightarrow>
             let (status, w2) = run_action_session run (w1\<lparr>db := s\<rparr>) (a_id action)
             in bind_r (if status = None then handle_timed_out_action k w2 (a_id action) else Inr w2) (\<lambda>w3.
                Inr (True, ack_envelope w3 envelope)))"

section \<open>At most one running chat action per conversation\<close>

definition one_of :: "id option \<Rightarrow> id option \<Rightarrow> bool" where
  "one_of c g \<longleftrightarrow> (truthy c \<and> g = None) \<or> (truthy g \<and> c = None)"

definition clash :: "action_row \<Rightarrow> action_row \<Rightarrow> bool" where
  "clash a b \<longleftrightarrow> a_event_type a = ''chat'' \<and> a_event_type b = ''chat'' \<and> a_status a = ActRunning \<and> a_status b = ActRunning \<and>
     a_cocoon_id a = a_cocoon_id b \<and> a_chat_group_id a = a_chat_group_id b"

definition actions_ok :: "action_row list \<Rightarrow> bool" where
  "actions_ok as \<longleftrightarrow>
     (\<forall>a\<in>set as. one_of (a_cocoon_id a) (a_chat_group_id a)) \<and>
     (\<forall>a\<in>set as. a_status a = ActRunning \<longrightarrow> a_started_at a \<noteq> None) \<and>
     (\<forall>a\<in>set as. \<forall>b\<in>set as. clash a b \<longrightarrow> a_id a = a_id b)"

lemma actions_okI:
  assumes "\<And>a. a \<in> set as \<Longrightarrow> one_of (a_cocoon_id a) (a_chat_group_id a)"
    and "\<And>a. a \<in> set as \<Longrightarrow> a_status a = ActRunning \<Longrightarrow> a_started_at a \<noteq> None"
    and "\<And>a b. a \<in> set as \<Longrightarrow> b \<in> set as \<Longrightarrow> clash a b \<Longrightarrow> a_id a = a_id b"
  shows "actions_ok as"
  using assms unfolding actions_ok_def by blast

lemma actions_okD:
  assumes "actions_ok as"
  shows "a \<in> set as \<Longrightarrow> one_of (a_cocoon_id a) (a_chat_group_id a)"
    and "a \<in> set as \<Longrightarrow> a_status a = ActRunning \<Longrightarrow> a_started_at a \<noteq> None"
    and "a \<in> set as \<Longrightarrow> b \<in> set as \<Longrightarrow> clash a b \<Longrightarrow> a_id a = a_id b"
  using assms unfolding actions_ok_def by blast+

text \<open>The columns the claim looks at, which most updates keep.\<close>

definition keeps_place :: "(action_row \<Rightarrow> action_row) \<Rightarrow> bool" where
  "keeps_place f \<longleftrightarrow> (\<forall>a. a_id (f a) = a_id a \<and> a_event_type (f a) = a_event_type a \<and> a_cocoon_id (f a) = a_cocoon_id a \<and>
     a_chat_group_id (f a) = a_chat_group_id a \<and> a_queued_at (f a) = a_queued_at a)"

lemma keeps_placeD [simp]:
  assumes "keeps_place f"
  shows "a_id (f a) = a_id a" "a_event_type (f a) = a_event_type a" "a_cocoon_id (f a) = a_cocoon_id a"
    "a_chat_group_id (f a) = a_chat_group_id a" "a_queued_at (f a) = a_queued_at a"
  using assms by (simp_all add: keeps_place_def)

lemma actions_ok_put:
  assumes ok: "actions_ok as" and f: "keeps_place f"
    and no: "\<And>a. a_status (f a) = ActRunning \<Longrightarrow> a_status a = ActRunning \<and> a_started_at (f a) = a_started_at a"
  shows "actions_ok (row_put a_id i f as)"
proof (rule actions_okI)
  fix a assume "a \<in> set (row_put a_id i f as)"
  then obtain q where q: "q \<in> set as" "a = (if a_id q = i then f q else q)" by (rule row_putE)
  show "one_of (a_cocoon_id a) (a_chat_group_id a)" using actions_okD(1) [OF ok q(1)] q(2) f by simp
  assume "a_status a = ActRunning"
  then show "a_started_at a \<noteq> None" using actions_okD(2) [OF ok q(1)] q(2) no [of q] by (auto split: if_splits)
next
  fix a b assume a: "a \<in> set (row_put a_id i f as)" and b: "b \<in> set (row_put a_id i f as)" and c: "clash a b"
  from a obtain p where p: "p \<in> set as" "a = (if a_id p = i then f p else p)" by (rule row_putE)
  from b obtain q where q: "q \<in> set as" "b = (if a_id q = i then f q else q)" by (rule row_putE)
  have "clash p q" using c p(2) q(2) f no [of p] no [of q] by (auto simp: clash_def split: if_splits)
  from actions_okD(3) [OF ok p(1) q(1) this] show "a_id a = a_id b" using p(2) q(2) f by simp
qed

lemma actions_ok_append:
  assumes "actions_ok as" "one_of (a_cocoon_id a) (a_chat_group_id a)" "a_status a = ActQueued"
  shows "actions_ok (as @ [a])"
  using assms by (intro actions_okI) (auto simp: clash_def dest: actions_okD)

lemma has_prior_iff: "has_prior_unfinished_chat_action s a \<longleftrightarrow> (\<exists>b\<in>set (actions s). unfinished_before a b)"
  by (simp add: has_prior_unfinished_chat_action_def first_of_sort_None filter_empty_conv)

lemma same_target_iff:
  "one_of (a_cocoon_id a) (a_chat_group_id a) \<Longrightarrow> one_of (a_cocoon_id b) (a_chat_group_id b) \<Longrightarrow>
   same_target a b \<longleftrightarrow> a_cocoon_id a = a_cocoon_id b \<and> a_chat_group_id a = a_chat_group_id b"
  by (auto simp: one_of_def same_target_def)

lemma claim_cases:
  assumes "claim_next_ready_action s = (r, s')"
  obtains (none) "r = None" "s' = s"
      "\<forall>a\<in>set (take 50 (sort_key a_queued_at (filter (ready (clock s)) (actions s)))). has_prior_unfinished_chat_action s a"
  | (claimed) a where "a \<in> set (actions s)" "ready (clock s) a" "\<not> has_prior_unfinished_chat_action s a"
      "r = Some (start_action (clock s) a)" "s' = s\<lparr>actions := row_put a_id (a_id a) (start_action (clock s)) (actions s)\<rparr>"
proof (cases "List.find (\<lambda>a. \<not> has_prior_unfinished_chat_action s a)
             (take 50 (sort_key a_queued_at (filter (ready (clock s)) (actions s))))")
  case None
  then have "r = None \<and> s' = s" using assms by (simp add: claim_next_ready_action_def utcnow_def)
  then show thesis using none None [unfolded find_None] by blast
next
  case (Some a)
  then have "a \<in> set (take 50 (sort_key a_queued_at (filter (ready (clock s)) (actions s))))" "\<not> has_prior_unfinished_chat_action s a"
    by (auto dest: find_SomeD)
  moreover from this(1) have "a \<in> set (actions s)" "ready (clock s) a" by (auto dest: in_set_takeD)
  ultimately show thesis using claimed [of a] assms Some by (simp add: claim_next_ready_action_def utcnow_def)
qed

lemma start_action_simps [simp]:
  "a_id (start_action t a) = a_id a" "a_event_type (start_action t a) = a_event_type a"
  "a_cocoon_id (start_action t a) = a_cocoon_id a" "a_chat_group_id (start_action t a) = a_chat_group_id a"
  "a_status (start_action t a) = ActRunning" "a_started_at (start_action t a) \<noteq> None"
  by (simp_all add: start_action_def split: option.split)

lemma actions_ok_claim:
  assumes ok: "actions_ok (actions s)" and dist: "distinct (map a_id (actions s))"
    and e: "claim_next_ready_action s = (r, s')"
  shows "actions_ok (actions s')"
  using e
proof (cases rule: claim_cases)
  case none
  then show ?thesis using ok by simp
next
  case (claimed a)
  have free: "a_id b = a_id a" if b: "b \<in> set (actions s)" "a_status b = ActRunning" "a_event_type b = ''chat''"
      "a_cocoon_id b = a_cocoon_id a" "a_chat_group_id b = a_chat_group_id a" for b
  proof (rule ccontr)
    assume "a_id b \<noteq> a_id a"
    moreover have "same_target a b" "a_started_at b \<noteq> None"
      using b actions_okD [OF ok] claimed(1) same_target_iff [of a b] by auto
    ultimately have "unfinished_before a b" using b by (simp add: unfinished_before_def)
    then show False using claimed(3) b(1) has_prior_iff by blast
  qed
  have rows: thesis if "x \<in> set (actions s')"
      "x = start_action (clock s) a \<Longrightarrow> thesis" "x \<in> set (actions s) \<Longrightarrow> a_id x \<noteq> a_id a \<Longrightarrow> thesis" for x thesis
  proof -
    from that(1) obtain q where "q \<in> set (actions s)" "x = (if a_id q = a_id a then start_action (clock s) q else q)"
      using claimed(5) by (auto elim: row_putE)
    then show thesis using that(2,3) distinct_key_eq [OF dist _ claimed(1), of q] by (auto split: if_splits)
  qed
  show ?thesis
  proof (rule actions_okI)
    fix x assume "x \<in> set (actions s')"
    then show "one_of (a_cocoon_id x) (a_chat_group_id x)"
      by (rule rows) (use actions_okD(1) [OF ok] claimed(1) in auto)
  next
    fix x assume "x \<in> set (actions s')" "a_status x = ActRunning"
    from this(1) show "a_started_at x \<noteq> None"
      by (rule rows) (use actions_okD(2) [OF ok] \<open>a_status x = ActRunning\<close> in auto)
  next
    fix x y assume x: "x \<in> set (actions s')" and y: "y \<in> set (actions s')" and c: "clash x y"
    from x show "a_id x = a_id y"
    proof (rule rows)
      assume xa: "x = start_action (clock s) a"
      from y show ?thesis by (rule rows) (use xa c free in \<open>auto simp: clash_def\<close>)
    next
      assume xs: "x \<in> set (actions s)" "a_id x \<noteq> a_id a"
      from y show ?thesis
      proof (rule rows)
        assume "y = start_action (clock s) a"
        then show ?thesis using free [OF xs(1)] c by (simp add: clash_def)
      next
        assume "y \<in> set (actions s)"
        then show ?thesis using actions_okD(3) [OF ok xs(1) _ c] by simp
      qed
    qed
  qed
qed

section \<open>The steps of the API and the worker\<close>

lemma action_keys_grow:
  assumes keys: "action_keys s" and "id_supply s' = id_supply s" "id_next s \<le> id_next s'"
    and ids: "map a_id (actions s') = map a_id (actions s) \<or>
      (\<exists>k. id_next s \<le> k \<and> k < id_next s' \<and> map a_id (actions s') = map a_id (actions s) @ [id_supply s k])"
  shows "action_keys s'"
proof -
  have inj: "id_supply s a = id_supply s b \<longleftrightarrow> a = b" for a b
    using keys by (auto simp: action_keys_def supply_fresh_def dest: injD)
  have set: "row_ids a_id (actions s) = set (map a_id (actions s))" "row_ids a_id (actions s') = set (map a_id (actions s'))"
    by (simp_all add: row_ids_def)
  from ids show ?thesis
  proof
    assume "map a_id (actions s') = map a_id (actions s)"
    then show ?thesis using keys assms(2,3) unfolding action_keys_def supply_fresh_def set by auto
  next
    assume "\<exists>k. id_next s \<le> k \<and> k < id_next s' \<and> map a_id (actions s') = map a_id (actions s) @ [id_supply s k]"
    then obtain k where "id_next s \<le> k" "k < id_next s'" "map a_id (actions s') = map a_id (actions s) @ [id_supply s k]" by blast
    moreover have "id_supply s k \<noteq> []" "[] \<noteq> id_supply s k" using keys by (metis action_keys_def)+
    ultimately show ?thesis using keys assms(2,3) unfolding action_keys_def supply_fresh_def set by (auto simp: inj)
  qed
qed

lemma debounced_chat_supply:
  "debounced_chat s c g deb rid first = (pending, a, s') \<Longrightarrow>
   id_supply s' = id_supply s \<and> id_next s \<le> id_next s' \<and> (pending = None \<longrightarrow> a_id a = id_supply s (id_next s) \<and> id_next s' = Suc (id_next s))"
  by (auto simp: debounced_chat_def Let_def add_action_def put_action_def take_id_def new_chat_action_def new_id_def
      split: option.splits if_splits)

lemma enqueue_chat_keys:
  assumes e: "enqueue_chat d w c g tt key reason fd details r = Inr (a, w')" and keys: "action_keys (db w)"
  shows "action_keys (db w')"
proof -
  obtain s3 pending action s4 active deb first where s3: "actions s3 = actions (db w)" "id_supply s3 = id_supply (db w)"
      "id_next (db w) \<le> id_next s3"
    and s4: "debounced_chat s3 c g deb (cr_client_request_id r) first = (pending, action, s4)"
    and am: "attach_message w s4 c g key details r active (pending = None) action = Inr (a, w')"
    using e by (rule enqueue_chat_cases)
  obtain s5 payload where s5: "add_message s4 (new_user_message s4 c g (a_id action) r active) = Inr s5"
    and w': "db w' = add_message_tags (put_action s5 (a_id action) (\<lambda>x. x\<lparr>a_payload := payload\<rparr>)) (new_id s4) active"
    using am by (rule attach_message_cases)
  note ds = debounced_chat_supply [OF s4] and df = debounced_chat_facts [OF s4]
  have 5: "id_supply s5 = id_supply s4" "id_next s5 = Suc (id_next s4)" "actions s5 = actions s4"
    using s5 by (auto simp: add_message_def take_id_def split: if_splits)
  have 6: "id_supply (db w') = id_supply (db w)" "Suc (id_next s4) \<le> id_next (db w')"
    using 5 ds s3 add_message_tags_next [of "put_action s5 (a_id action) (\<lambda>x. x\<lparr>a_payload := payload\<rparr>)" "new_id s4" active] w'
    by (simp_all add: put_action_def)
  have ids: "map a_id (actions (db w')) = map a_id (actions s4)" using w' 5 by (simp add: row_put_def)
  show ?thesis
  proof (rule action_keys_grow [OF keys 6(1)])
    show "id_next (db w) \<le> id_next (db w')" using s3 ds 6(2) by linarith
    show "map a_id (actions (db w')) = map a_id (actions (db w)) \<or>
      (\<exists>k. id_next (db w) \<le> k \<and> k < id_next (db w') \<and> map a_id (actions (db w')) = map a_id (actions (db w)) @ [id_supply (db w) k])"
    proof (cases pending)
      case None
      then have "map a_id (actions s4) = map a_id (actions (db w)) @ [id_supply (db w) (id_next s3)]" using df ds s3 by simp
      moreover have "id_next (db w) \<le> id_next s3" "id_next s3 < id_next (db w')" using s3 ds 6(2) by linarith+
      ultimately show ?thesis unfolding ids by blast
    next
      case (Some p)
      then have "map a_id (actions s4) = map a_id (actions (db w))" using df s3 by (auto simp: row_put_def)
      then show ?thesis using ids by simp
    qed
  qed
qed

definition dispatch_inv :: "world \<Rightarrow> bool" where
  "dispatch_inv w \<longleftrightarrow> action_keys (db w) \<and> actions_ok (actions (db w))"

lemma enqueue_chat_target:
  assumes "enqueue_chat d w c g tt key reason fd details r = Inr (a, w')"
  shows "\<exists>t. resolve_target_type c g = Inr t"
proof -
  obtain state s1 where "ensure_session_state (db w) c g = Inr (state, s1)"
    using assms unfolding enqueue_chat_def by (rule bind_r_pairE)
  then show ?thesis
    by (cases "resolve_target_type c g") (auto simp: ensure_session_state_def get_session_state_def build_target_filter_def)
qed

lemma refreshesD:
  assumes "refreshes f"
  shows "keeps_place f" and "a_status (f a) = a_status a" and "a_started_at (f a) = a_started_at a"
proof -
  have f: "\<And>x. a_id (f x) = a_id x \<and> a_status (f x) = a_status x \<and> a_event_type (f x) = a_event_type x \<and>
      a_cocoon_id (f x) = a_cocoon_id x \<and> a_chat_group_id (f x) = a_chat_group_id x \<and> a_queued_at (f x) = a_queued_at x \<and>
      a_started_at (f x) = a_started_at x"
    using assms unfolding refreshes_def by blast
  show "keeps_place f" unfolding keeps_place_def using f by blast
  show "a_status (f a) = a_status a" "a_started_at (f a) = a_started_at a" using f by blast+
qed

lemma actions_ok_refresh:
  assumes "actions_ok as" and f: "refreshes f"
  shows "actions_ok (row_put a_id i f as)"
  by (rule actions_ok_put [OF assms(1) refreshesD(1) [OF f]]) (simp add: refreshesD(2,3) [OF f])

lemma dispatch_inv_enqueue_chat:
  assumes inv: "dispatch_inv w" and e: "enqueue_chat d w c g tt key reason fd details r = Inr (a, w')" and one: "c = None \<or> g = None"
  shows "dispatch_inv w'"
proof -
  have keys: "action_keys (db w)" and ok: "actions_ok (actions (db w))" using inv by (simp_all add: dispatch_inv_def)
  note ef = enqueue_chat_effect [OF e keys]
  note ef7 = ef [THEN conjunct2, THEN conjunct2, THEN conjunct2, THEN conjunct2, THEN conjunct2, THEN conjunct2]
  have target: "one_of c g"
    using enqueue_chat_target [OF e] one by (auto simp: resolve_target_type_def one_of_def split: if_splits)
  obtain f where f: "refreshes f"
    and acts: "actions (db w') = row_put a_id (a_id a) f (actions (db w)) \<or> actions (db w') = actions (db w) @ [a]"
    using ef7 [THEN conjunct2] by blast
  have "actions_ok (row_put a_id (a_id a) f (actions (db w)))"
    by (rule actions_ok_refresh [OF ok f])
  moreover have "actions_ok (actions (db w'))" if app: "actions (db w') = actions (db w) @ [a]"
  proof -
    have "a_id a \<notin> row_ids a_id (actions (db w)) \<and> a_cocoon_id a = c \<and> a_chat_group_id a = g \<or>
        map a_id (actions (db w')) = map a_id (actions (db w))" using ef7 [THEN conjunct1] by blast
    then have "a_cocoon_id a = c" "a_chat_group_id a = g" using app by auto
    then show ?thesis using actions_ok_append [OF ok, of a] ef [THEN conjunct2, THEN conjunct2, THEN conjunct2, THEN conjunct1] target app by simp
  qed
  ultimately have "actions_ok (actions (db w'))" using acts by auto
  then show ?thesis using enqueue_chat_keys [OF e keys] by (simp add: dispatch_inv_def)
qed

lemma dispatch_inv_commit_new:
  assumes inv: "dispatch_inv w" and s: "actions s = actions (db w)" "id_supply s = id_supply (db w)" "id_next (db w) \<le> id_next s"
    and e: "commit_then_enqueue w (add_action s (new_chat_action s c g ty rid t p)) i c g ty p' = Inr w'"
    and one: "one_of c g"
  shows "dispatch_inv w'"
proof -
  let ?a = "new_chat_action s c g ty rid t p"
  have db: "db w' = add_action s ?a" using e by (auto simp: commit_then_enqueue_def publish_def elim!: bind_rE)
  have acts: "actions (db w') = actions (db w) @ [?a]" by (simp add: db s)
  have "actions_ok (actions (db w'))" unfolding acts
    by (rule actions_ok_append) (use inv one in \<open>auto simp: dispatch_inv_def new_chat_action_def\<close>)
  moreover have "action_keys (db w')"
  proof (rule action_keys_grow)
    show "action_keys (db w)" using inv by (simp add: dispatch_inv_def)
    show "id_supply (db w') = id_supply (db w)" "id_next (db w) \<le> id_next (db w')"
      using s by (simp_all add: db add_action_def)
    have "map a_id (actions (db w')) = map a_id (actions (db w)) @ [id_supply (db w) (id_next s)]" "id_next s < id_next (db w')"
      unfolding acts using s(2) by (simp_all add: new_chat_action_def new_id_def db add_action_def)
    then show "map a_id (actions (db w')) = map a_id (actions (db w)) \<or>
      (\<exists>k. id_next (db w) \<le> k \<and> k < id_next (db w') \<and> map a_id (actions (db w')) = map a_id (actions (db w)) @ [id_supply (db w) k])"
      using s(3) by blast
  qed
  ultimately show ?thesis by (simp add: dispatch_inv_def)
qed

lemma resolve_target_one:
  "commit_then_enqueue w s i c g ty p = Inr w' \<Longrightarrow> c = None \<or> g = None \<Longrightarrow> one_of c g"
  by (cases "resolve_target_type c g")
    (auto simp: commit_then_enqueue_def queue_enqueue_def resolve_target_type_def one_of_def split: if_splits)

lemma dispatch_inv_cocoon_action:
  assumes inv: "dispatch_inv w" and e: "enqueue_cocoon_action d w s c ty p = Inr (a, w')"
    and s: "actions s = actions (db w)" "id_supply s = id_supply (db w)" "id_next s = id_next (db w)"
  shows "dispatch_inv w'"
proof -
  obtain deb s1 where d: "current_debounce_seconds d s ''cocoon'' = (deb, s1)" by (metis surj_pair)
  note fr = current_debounce_frame [OF d]
  have "bind_r (commit_then_enqueue w (add_action s1 (new_chat_action s1 (Some c) None ty None (utcnow s1 + seconds deb) p))
      (new_id s1) (Some c) None ty p) (\<lambda>w'. Inr (new_chat_action s1 (Some c) None ty None (utcnow s1 + seconds deb) p, w')) = Inr (a, w')"
    using e d by (simp add: enqueue_cocoon_action_def Let_def new_chat_action_def)
  then have c: "commit_then_enqueue w (add_action s1 (new_chat_action s1 (Some c) None ty None (utcnow s1 + seconds deb) p))
      (new_id s1) (Some c) None ty p = Inr w'" by (auto elim!: bind_rE)
  show ?thesis
    by (rule dispatch_inv_commit_new [OF inv _ _ _ c]) (use fr s resolve_target_one [OF c] in auto)
qed

lemma dispatch_inv_edit_retry:
  assumes inv: "dispatch_inv w"
  shows "enqueue_user_message_edit d w c m t = Inr (a, w') \<Longrightarrow> dispatch_inv w'"
    and "enqueue_retry d w c mo = Inr (a, w') \<Longrightarrow> dispatch_inv w'"
proof -
  show "enqueue_user_message_edit d w c m t = Inr (a, w') \<Longrightarrow> dispatch_inv w'"
    using inv by (auto simp: enqueue_user_message_edit_def Let_def split: option.splits elim: dispatch_inv_cocoon_action [OF inv])
  show "enqueue_retry d w c mo = Inr (a, w') \<Longrightarrow> dispatch_inv w'"
    using inv by (auto simp: enqueue_retry_def Let_def split: option.splits elim: dispatch_inv_cocoon_action [OF inv])
qed

lemma dispatch_inv_chat:
  assumes inv: "dispatch_inv w"
  shows "enqueue_chat_message d w c r = Inr (a, w') \<Longrightarrow> dispatch_inv w'"
    and "enqueue_chat_group_message d w g r = Inr (a, w') \<Longrightarrow> dispatch_inv w'"
proof -
  show "enqueue_chat_message d w c r = Inr (a, w') \<Longrightarrow> dispatch_inv w'"
    using inv by (auto simp: enqueue_chat_message_def split: option.splits elim: dispatch_inv_enqueue_chat [OF inv])
  show "enqueue_chat_group_message d w g r = Inr (a, w') \<Longrightarrow> dispatch_inv w'"
    using inv by (auto simp: enqueue_chat_group_message_def Let_def split: option.splits elim: dispatch_inv_enqueue_chat [OF inv])
qed

text \<open>What a run may do to the actions: change the one it runs, without starting it again.\<close>

definition run_keeps :: "session \<Rightarrow> id \<Rightarrow> session \<Rightarrow> bool" where
  "run_keeps s i s' \<longleftrightarrow> id_supply s' = id_supply s \<and> id_next s \<le> id_next s' \<and>
     (\<exists>f. keeps_place f \<and> (\<forall>x. a_status (f x) = ActRunning \<longrightarrow> a_status x = ActRunning \<and> a_started_at (f x) = a_started_at x) \<and>
          actions s' = row_put a_id i f (actions s))"

definition runtime_keeps_actions :: "runtime \<Rightarrow> bool" where
  "runtime_keeps_actions run \<longleftrightarrow> (\<forall>w a w'. run w a = RunReturned w' \<longrightarrow> run_keeps (db w) (a_id a) (db w'))"

lemma dispatch_inv_run_keeps:
  assumes inv: "dispatch_inv w" and k: "run_keeps (db w) i (db w')"
  shows "dispatch_inv w'"
proof -
  from k obtain f where f: "keeps_place f"
    "\<And>x. a_status (f x) = ActRunning \<Longrightarrow> a_status x = ActRunning \<and> a_started_at (f x) = a_started_at x"
    and acts: "actions (db w') = row_put a_id i f (actions (db w))" unfolding run_keeps_def by blast
  have ids: "map a_id (actions (db w')) = map a_id (actions (db w))" unfolding acts row_put_def using f(1) by simp
  have "actions_ok (actions (db w'))" unfolding acts
    using inv by (intro actions_ok_put f) (simp_all add: dispatch_inv_def)
  moreover have "action_keys (db w')"
    by (rule action_keys_grow [of "db w"]) (use inv k ids in \<open>auto simp: dispatch_inv_def run_keeps_def\<close>)
  ultimately show ?thesis by (simp add: dispatch_inv_def)
qed

lemma keeps_fail_action: "keeps_place (fail_action e t)" "a_status (fail_action e t x) = ActFailed"
  unfolding keeps_place_def fail_action_def by simp_all

lemma finish_latest_frame [simp]:
  "actions (finish_latest_audit_run s i st) = actions s" "id_supply (finish_latest_audit_run s i st) = id_supply s"
  "id_next (finish_latest_audit_run s i st) = id_next s"
  by (auto simp: finish_latest_audit_run_def finish_run_def Let_def split: option.splits)

lemma add_failed_round_frame [simp]:
  "actions (add_failed_round s c g i e r) = actions s" "id_supply (add_failed_round s c g i e r) = id_supply s"
  "id_next (add_failed_round s c g i e r) = Suc (id_next s)"
  by (simp_all add: add_failed_round_def take_id_def)

lemma run_keeps_fail:
  assumes "actions s' = row_put a_id i (fail_action e t) (actions s)" "id_supply s' = id_supply s" "id_next s \<le> id_next s'"
  shows "run_keeps s i s'"
  unfolding run_keeps_def using assms by (auto intro!: exI [of _ "fail_action e t"] simp: keeps_fail_action)

lemma dispatch_inv_run:
  assumes inv: "dispatch_inv w" and run: "runtime_keeps_actions run" and e: "run_action_session run w i = (st, w')"
  shows "dispatch_inv w'"
proof (cases "row_get a_id i (actions (db w))")
  case None
  then show ?thesis using e inv by (simp add: run_action_session_def)
next
  case (Some a)
  show ?thesis
  proof (cases "a_status a = ActRunning")
    case False
    then show ?thesis using e inv Some by (simp add: run_action_session_def)
  next
    case True
    note e' = e [unfolded run_action_session_def Some option.case True]
    have i: "a_id a = i" using row_get_SomeD [OF Some] by simp
    show ?thesis
    proof (cases "run w a")
      case (RunReturned w1)
      then have "run_keeps (db w) i (db w')" using e' run i by (auto simp: runtime_keeps_actions_def)
      then show ?thesis by (rule dispatch_inv_run_keeps [OF inv])
    next
      case (RunRaised w1 reason)
      then have "run_keeps (db w) i (db w')" using e'
        by (intro run_keeps_fail [of _ i reason None]) (auto simp: Let_def put_action_def)
      then show ?thesis by (rule dispatch_inv_run_keeps [OF inv])
    qed (use e' inv in \<open>auto simp: dispatch_inv_def\<close>)
  qed
qed

lemma dispatch_inv_timed_out:
  assumes inv: "dispatch_inv w" and e: "handle_timed_out_action k w i = Inr w'"
  shows "dispatch_inv w'"
proof (cases "row_get a_id i (actions (db w))")
  case None
  then show ?thesis using e inv by (simp add: handle_timed_out_action_def)
next
  case (Some a)
  show ?thesis
  proof (cases "a_status a = ActRunning")
    case False
    then show ?thesis using e inv Some by (simp add: handle_timed_out_action_def)
  next
    case True
    obtain n where n: "dict_int_or ''chat_retry_attempt'' 1 (a_payload a) = Inr n"
      using e Some True by (auto simp: handle_timed_out_action_def elim: bind_rE)
    define s3 where "s3 = finish_latest_audit_run (add_failed_round (put_action (db w) i
      (fail_action (timeout_text k n) (Some (utcnow (db w))))) (a_cocoon_id a) (a_chat_group_id a) (Some i)
      (a_event_type a) ''timeout'') i ActFailed"
    have "run_keeps (db w) i s3"
      by (rule run_keeps_fail) (simp_all add: s3_def put_action_def)
    then have inv3: "dispatch_inv (w\<lparr>db := s3\<rparr>)" by (intro dispatch_inv_run_keeps [OF inv]) simp
    have one: "one_of (a_cocoon_id a) (a_chat_group_id a)"
      using inv row_get_SomeD [OF Some] by (auto simp: dispatch_inv_def dest: actions_okD(1))
    show ?thesis
    proof (cases "n < wk_max_attempts k")
      case False
      then show ?thesis using e Some True n inv3 by (simp add: handle_timed_out_action_def Let_def s3_def)
    next
      case True
      have "commit_then_enqueue (w\<lparr>db := s3\<rparr>) (add_action s3 (new_chat_action s3 (a_cocoon_id a) (a_chat_group_id a) ''chat'' None
          (utcnow s3) (retry_payload a n))) (new_id s3) (a_cocoon_id a) (a_chat_group_id a) ''chat'' (retry_payload a n) = Inr w'"
        using e Some True n \<open>a_status a = ActRunning\<close>
        by (simp add: handle_timed_out_action_def Let_def s3_def commit_then_enqueue_def new_chat_action_def)
      then show ?thesis by (rule dispatch_inv_commit_new [OF inv3, rotated 3]) (use one in simp_all)
    qed
  qed
qed

lemma dispatch_inv_process:
  assumes inv: "dispatch_inv w" and run: "runtime_keeps_actions run" and e: "process_next k run w = Inr (b, w')"
  shows "dispatch_inv w'"
proof -
  obtain en q where q: "queue_consume_next (queue w) = (en, q)" by (metis surj_pair)
  obtain c s where c: "claim_next_ready_action (db w) = (c, s)" by (metis surj_pair)
  have fr: "id_supply s = id_supply (db w) \<and> id_next s = id_next (db w) \<and> map a_id (actions s) = map a_id (actions (db w))"
    using c by (cases rule: claim_cases) (simp_all add: row_put_def)
  have ok: "actions_ok (actions s)"
    by (rule actions_ok_claim [OF _ _ c]) (use inv in \<open>simp_all add: dispatch_inv_def action_keys_def\<close>)
  have "action_keys s"
    by (rule action_keys_grow [of "db w"]) (use inv fr in \<open>simp_all add: dispatch_inv_def\<close>)
  with ok have inv1: "dispatch_inv (w\<lparr>queue := q, db := s\<rparr>)" by (simp add: dispatch_inv_def)
  have ack: "db (ack_envelope x en) = db x" for x by (simp add: ack_envelope_def split: option.split)
  show ?thesis
  proof (cases c)
    case None
    then show ?thesis using e q c inv1 by (auto simp: process_next_def dispatch_inv_def ack)
  next
    case (Some a)
    obtain st w2 where r: "run_action_session run (w\<lparr>queue := q, db := s\<rparr>) (a_id a) = (st, w2)" by (metis surj_pair)
    note inv2 = dispatch_inv_run [OF inv1 run r]
    have "bind_r (if st = None then handle_timed_out_action k w2 (a_id a) else Inr w2)
        (\<lambda>w3. Inr (True, ack_envelope w3 en)) = Inr (b, w')"
      using e q c Some r by (simp add: process_next_def)
    then obtain w3 where w3: "(if st = None then handle_timed_out_action k w2 (a_id a) else Inr w2) = Inr w3"
        "w' = ack_envelope w3 en" by (auto elim: bind_rE)
    have "dispatch_inv w3" using w3(1) inv2 dispatch_inv_timed_out [OF inv2] by (auto split: if_splits)
    then show ?thesis by (simp add: dispatch_inv_def w3(2) ack)
  qed
qed

text \<open>
  The processes interleave at the granularity of a transaction: requests of the API, one turn of a
  worker, a run that was given up and commits late, and time passing.
\<close>

inductive dispatch_step :: "dispatch_service \<Rightarrow> worker \<Rightarrow> runtime \<Rightarrow> world \<Rightarrow> world \<Rightarrow> bool"
  for d :: dispatch_service and k :: worker and run :: runtime where
  chat: "enqueue_chat_message d w c r = Inr (a, w') \<Longrightarrow> dispatch_step d k run w w'"
| group_chat: "enqueue_chat_group_message d w g r = Inr (a, w') \<Longrightarrow> dispatch_step d k run w w'"
| edit: "enqueue_user_message_edit d w c m t = Inr (a, w') \<Longrightarrow> dispatch_step d k run w w'"
| retry: "enqueue_retry d w c mo = Inr (a, w') \<Longrightarrow> dispatch_step d k run w w'"
| process: "process_next k run w = Inr (b, w') \<Longrightarrow> dispatch_step d k run w w'"
| late: "run_keeps (db w) i s \<Longrightarrow> dispatch_step d k run w (w\<lparr>db := s\<rparr>)"
| wait: "dispatch_step d k run w (w\<lparr>db := (db w)\<lparr>clock := t\<rparr>\<rparr>)"

lemma dispatch_step_inv:
  assumes "runtime_keeps_actions run" "dispatch_inv w" "dispatch_step d k run w w'"
  shows "dispatch_inv w'"
  using assms(3)
proof cases
  case (chat c r a)
  then show ?thesis using dispatch_inv_chat(1) [OF assms(2)] by blast
next
  case (group_chat g r a)
  then show ?thesis using dispatch_inv_chat(2) [OF assms(2)] by blast
next
  case (edit c m t a)
  then show ?thesis using dispatch_inv_edit_retry(1) [OF assms(2)] by blast
next
  case (retry c mo a)
  then show ?thesis using dispatch_inv_edit_retry(2) [OF assms(2)] by blast
next
  case (process b)
  then show ?thesis using dispatch_inv_process [OF assms(2,1)] by blast
next
  case (late i s)
  then show ?thesis using dispatch_inv_run_keeps [OF assms(2), of i w'] by simp
next
  case (wait t)
  then show ?thesis using assms(2) by (simp add: dispatch_inv_def action_keys_def supply_fresh_def)
qed

text \<open>
  C2. At most one chat action of a conversation runs at a time: whatever requests arrive, whichever
  turns the workers take, and however their runs end, two chat actions of one cocoon or one chat group
  that are both running are the same action.
\<close>

theorem one_running_chat_action:
  assumes "runtime_keeps_actions run" "dispatch_inv w" "(dispatch_step d k run)\<^sup>*\<^sup>* w w'"
    and "x \<in> set (actions (db w'))" "y \<in> set (actions (db w'))"
    and "a_event_type x = ''chat''" "a_event_type y = ''chat''" "a_status x = ActRunning" "a_status y = ActRunning"
    and "a_cocoon_id x = a_cocoon_id y" "a_chat_group_id x = a_chat_group_id y"
  shows "x = y"
proof -
  have inv: "dispatch_inv w'"
    using assms(3) by (induction rule: rtranclp_induct) (use assms(2) dispatch_step_inv [OF assms(1)] in auto)
  then have "a_id x = a_id y"
    using assms(4-) actions_okD(3) [of "actions (db w')" x y] by (simp add: dispatch_inv_def clash_def)
  then show ?thesis using inv assms(4,5) by (auto simp: dispatch_inv_def action_keys_def dest: distinct_key_eq)
qed

definition sample_running :: "(world \<times> world \<times> world) result" where
  "sample_running =
     bind_r (enqueue_chat_message sample_service sample_world ''a'' (sample_request ''q1'' ''hi'')) (\<lambda>(a, w1).
     let w2 = w1\<lparr>db := (db w1)\<lparr>clock := 10000000\<rparr>\<rparr>
     in bind_r (process_next (new_worker None None) (\<lambda>w a. RunAborted w) w2) (\<lambda>(b, w3). Inr (w1, w2, w3)))"

lemma sample_running_steps:
  assumes "sample_running = Inr (w1, w2, w3)"
  shows "(dispatch_step sample_service (new_worker None None) (\<lambda>w a. RunAborted w))\<^sup>*\<^sup>* sample_world w3"
proof -
  let ?step = "dispatch_step sample_service (new_worker None None) (\<lambda>w a. RunAborted w)"
  obtain a b where e: "enqueue_chat_message sample_service sample_world ''a'' (sample_request ''q1'' ''hi'') = Inr (a, w1)"
    "w2 = w1\<lparr>db := (db w1)\<lparr>clock := 10000000\<rparr>\<rparr>"
    "process_next (new_worker None None) (\<lambda>w a. RunAborted w) w2 = Inr (b, w3)"
    using assms by (auto simp: sample_running_def Let_def elim!: bind_rE split: prod.splits)
  have "?step sample_world w1" "?step w1 w2" "?step w2 w3"
    using e dispatch_step.chat dispatch_step.wait dispatch_step.process by metis+
  then show ?thesis by (meson rtranclp.rtrancl_into_rtrancl rtranclp.rtrancl_refl)
qed

lemma sample_running_action:
  "(case sample_running of Inl _ \<Rightarrow> False
    | Inr (w1, w2, w3) \<Rightarrow> map (\<lambda>a. (a_event_type a, a_status a)) (actions (db w3)) = [(''chat'', ActRunning)])"
  by code_simp

theorem one_running_chat_action_witness:
  "\<exists>w x. (dispatch_step sample_service (new_worker None None) (\<lambda>w a. RunAborted w))\<^sup>*\<^sup>* sample_world w \<and>
     {y \<in> set (actions (db w)). a_event_type y = ''chat'' \<and> a_status y = ActRunning \<and> a_cocoon_id y = a_cocoon_id x \<and>
        a_chat_group_id y = a_chat_group_id x} = {x}"
proof -
  obtain w1 w2 w3 where s: "sample_running = Inr (w1, w2, w3)"
    and m: "map (\<lambda>a. (a_event_type a, a_status a)) (actions (db w3)) = [(''chat'', ActRunning)]"
    using sample_running_action by (auto split: sum.splits)
  obtain x where x: "x \<in> set (actions (db w3))" "a_event_type x = ''chat''" "a_status x = ActRunning"
    using m by (cases "actions (db w3)") auto
  note steps = sample_running_steps [OF s]
  have "actions (db sample_world) = []" by (simp add: sample_world_def sample_cocoons_def sample_tags_def empty_session_def)
  then have inv: "dispatch_inv sample_world" using sample_world_keys by (simp add: dispatch_inv_def actions_ok_def)
  have run: "runtime_keeps_actions (\<lambda>w a. RunAborted w)" by (simp add: runtime_keeps_actions_def)
  note one = one_running_chat_action [OF run inv steps x(1) _ x(2) _ x(3)]
  have "y = x" if "y \<in> set (actions (db w3))" "a_event_type y = ''chat''" "a_status y = ActRunning"
      "a_cocoon_id y = a_cocoon_id x" "a_chat_group_id y = a_chat_group_id x" for y
    using one [of y] that by simp
  then have "{y \<in> set (actions (db w3)). a_event_type y = ''chat'' \<and> a_status y = ActRunning \<and> a_cocoon_id y = a_cocoon_id x \<and>
        a_chat_group_id y = a_chat_group_id x} = {x}" using x by auto
  then show ?thesis using steps by blast
qed

section \<open>Which action is claimed\<close>

lemma find_sorted_take:
  assumes "List.find P (take n (sort_key f xs)) = Some a" "b \<in> set xs" "P b"
  shows "f a \<le> f b"
proof -
  let ?ys = "sort_key f xs"
  obtain i where i: "i < length (take n ?ys)" "take n ?ys ! i = a" "\<forall>j<i. \<not> P (take n ?ys ! j)"
    using assms(1) by (auto simp: find_Some_iff)
  obtain j where j: "j < length ?ys" "?ys ! j = b" using assms(2) by (metis in_set_conv_nth set_sort)
  have "i \<le> j"
  proof (rule ccontr)
    assume "\<not> i \<le> j"
    then show False using i j assms(3) by auto
  qed
  then show ?thesis using sorted_nth_mono [of "map f ?ys" i j] i j by simp
qed

text \<open>
  C40. A worker that looks for work and finds at most fifty actions that are due claims one exactly when
  one of them is not held back by an unfinished chat action of its conversation. The claimed action is the
  one queued first among those, it becomes running with a start time, and no other action changes.
\<close>

theorem claim_next_ready_action_oldest:
  assumes "length (filter (ready (clock s)) (actions s)) \<le> 50" "distinct (map a_id (actions s))"
    and "claim_next_ready_action s = (r, s')"
  shows "(r = None \<longleftrightarrow> (\<forall>b\<in>set (actions s). ready (clock s) b \<longrightarrow> (\<exists>p\<in>set (actions s). unfinished_before b p))) \<and>
    (r = None \<longrightarrow> s' = s) \<and>
    (\<forall>x. r = Some x \<longrightarrow>
       a_status x = ActRunning \<and> a_started_at x \<noteq> None \<and> row_get a_id (a_id x) (actions s') = Some x \<and>
       (\<exists>a\<in>set (actions s). x = start_action (clock s) a \<and> ready (clock s) a) \<and>
       (\<forall>b\<in>set (actions s). ready (clock s) b \<and> \<not> (\<exists>p\<in>set (actions s). unfinished_before b p) \<longrightarrow> a_queued_at x \<le> a_queued_at b) \<and>
       (\<forall>i. i \<noteq> a_id x \<longrightarrow> row_get a_id i (actions s') = row_get a_id i (actions s)))"
proof -
  let ?due = "filter (ready (clock s)) (actions s)"
  let ?free = "\<lambda>a. \<not> has_prior_unfinished_chat_action s a"
  have all: "take 50 (sort_key a_queued_at ?due) = sort_key a_queued_at ?due" using assms(1) by simp
  show ?thesis
  proof (cases "List.find ?free (take 50 (sort_key a_queued_at ?due))")
    case None
    then have "r = None" "s' = s" using assms(3) by (simp_all add: claim_next_ready_action_def utcnow_def)
    moreover have "\<forall>b\<in>set (actions s). ready (clock s) b \<longrightarrow> (\<exists>p\<in>set (actions s). unfinished_before b p)"
      using None [unfolded find_None all] by (simp add: has_prior_iff)
    ultimately show ?thesis by simp
  next
    case (Some a)
    then have rs: "r = Some (start_action (clock s) a)"
      "actions s' = row_put a_id (a_id a) (start_action (clock s)) (actions s)"
      using assms(3) by (auto simp: claim_next_ready_action_def utcnow_def)
    have a: "a \<in> set (actions s)" "ready (clock s) a" "?free a"
      using find_SomeD [OF Some] by (auto dest: in_set_takeD)
    have min: "a_queued_at a \<le> a_queued_at b" if "b \<in> set (actions s)" "ready (clock s) b" "?free b" for b
      by (rule find_sorted_take [OF Some]) (use that in simp_all)
    have get: "row_get a_id (a_id a) (actions s) = Some a" by (rule row_get_mem [OF assms(2) a(1)])
    have "a_queued_at (start_action (clock s) a) = a_queued_at a" "\<exists>t. a_started_at (start_action (clock s) a) = Some t"
      by (simp_all add: start_action_def split: option.split)
    then show ?thesis using a min get rs by (auto simp: row_get_put has_prior_iff)
  qed
qed

definition due_action :: "id \<Rightarrow> time \<Rightarrow> action_row" where
  "due_action i t = \<lparr>a_id = i, a_cocoon_id = Some ''a'', a_chat_group_id = None, a_event_type = ''chat'',
     a_status = ActQueued, a_client_request_id = None, a_debounce_until = None, a_payload = [], a_error_text = None,
     a_queued_at = t, a_started_at = None, a_finished_at = None\<rparr>"

theorem claim_next_ready_action_oldest_witness:
  "\<exists>x s'. claim_next_ready_action (sample_cocoons\<lparr>actions := [due_action ''y'' 5, due_action ''x'' 3]\<rparr>) = (Some x, s') \<and>
     row_get a_id (a_id x) (actions s') = Some x \<and> a_id x = ''x''"
proof -
  let ?s = "sample_cocoons\<lparr>actions := [due_action ''y'' 5, due_action ''x'' 3]\<rparr>"
  have len: "length (filter (ready (clock ?s)) (actions ?s)) \<le> 50" by (rule order_trans [OF length_filter_le]) simp
  have dist: "distinct (map a_id (actions ?s))" by (simp add: due_action_def)
  have "map_option a_id (fst (claim_next_ready_action ?s)) = Some ''x''" by code_simp
  then obtain x s' where e: "claim_next_ready_action ?s = (Some x, s')" and x: "a_id x = ''x''"
    by (cases "claim_next_ready_action ?s"; cases "fst (claim_next_ready_action ?s)") auto
  show ?thesis using claim_next_ready_action_oldest [OF len dist e] e x by blast
qed

section \<open>Timeouts\<close>

text \<open>
  A run that does not return in time fails its action with the text that names the attempt, leaves a
  failed round, and is tried again exactly while attempts remain: by one new action of the same
  conversation that carries the next attempt number and the parent, and that waits on the queue. The new
  action is a chat action whatever the failed one was.
\<close>

theorem timed_out_action_retried:
  assumes "action_keys (db w)" "row_get a_id i (actions (db w)) = Some a" "a_status a = ActRunning"
    and "dict_int_or ''chat_retry_attempt'' 1 (a_payload a) = Inr n"
    and "handle_timed_out_action k w i = Inr w'"
  shows "\<exists>failed fr. row_get a_id i (actions (db w')) = Some failed \<and> a_status failed = ActFailed \<and>
      a_error_text failed = Some (timeout_text k n) \<and> a_finished_at failed = Some (clock (db w)) \<and>
      failed_rounds (db w') = failed_rounds (db w) @ [fr] \<and> fr_action_id fr = Some i \<and> fr_reason fr = ''timeout'' \<and>
      (if n < wk_max_attempts k
       then \<exists>retry. actions (db w') = row_put a_id i (\<lambda>_. failed) (actions (db w)) @ [retry] \<and>
              a_event_type retry = ''chat'' \<and> a_status retry = ActQueued \<and> a_cocoon_id retry = a_cocoon_id a \<and>
              a_chat_group_id retry = a_chat_group_id a \<and>
              dict_get ''chat_retry_attempt'' (a_payload retry) = Some (JInt (n + 1)) \<and>
              dict_get ''chat_retry_parent_action_id'' (a_payload retry) = Some (JStr i) \<and>
              queue_waiting (queue w') = queue_waiting (queue w) @ [(a_id retry, a_payload retry)]
       else actions (db w') = row_put a_id i (\<lambda>_. failed) (actions (db w)) \<and> queue w' = queue w)"
proof -
  define failed where "failed = fail_action (timeout_text k n) (Some (clock (db w))) a"
  define fr where "fr = \<lparr>fr_id = new_id (db w), fr_cocoon_id = a_cocoon_id a, fr_chat_group_id = a_chat_group_id a,
      fr_action_id = Some i, fr_event_type = a_event_type a, fr_reason = ''timeout''\<rparr>"
  define s3 where "s3 = finish_latest_audit_run (add_failed_round (put_action (db w) i
      (fail_action (timeout_text k n) (Some (utcnow (db w))))) (a_cocoon_id a) (a_chat_group_id a) (Some i)
      (a_event_type a) ''timeout'') i ActFailed"
  have a: "a \<in> set (actions (db w))" "a_id a = i" using row_get_SomeD [OF assms(2)] by simp_all
  have dist: "distinct (map a_id (actions (db w)))" using assms(1) by (simp add: action_keys_def)
  have acts: "actions s3 = row_put a_id i (\<lambda>_. failed) (actions (db w))"
    using distinct_key_eq [OF dist] a by (auto simp: s3_def failed_def row_put_def utcnow_def)
  have rounds: "failed_rounds s3 = failed_rounds (db w) @ [fr]"
    by (auto simp: s3_def fr_def finish_latest_audit_run_def finish_run_def add_failed_round_def put_action_def row_add_def
        take_id_def new_id_def split: option.splits)
  have get: "row_get a_id i (actions s3) = Some failed"
    using assms(2) row_get_put [of a_id "fail_action (timeout_text k n) (Some (utcnow (db w)))" i i "actions (db w)"]
    by (simp add: s3_def failed_def utcnow_def fail_action_def)
  have idf: "a_id failed = i" "a_status failed = ActFailed" "a_error_text failed = Some (timeout_text k n)"
    "a_finished_at failed = Some (clock (db w))" using a by (simp_all add: failed_def fail_action_def)
  show ?thesis
  proof (cases "n < wk_max_attempts k")
    case False
    then have "w' = w\<lparr>db := s3\<rparr>" using assms by (simp add: handle_timed_out_action_def Let_def s3_def)
    then show ?thesis using False get acts rounds idf by (intro exI [of _ failed] exI [of _ fr]) (simp add: fr_def)
  next
    case True
    let ?r = "new_chat_action s3 (a_cocoon_id a) (a_chat_group_id a) ''chat'' None (utcnow s3) (retry_payload a n)"
    have c: "commit_then_enqueue w (add_action s3 ?r) (a_id ?r) (a_cocoon_id a) (a_chat_group_id a) ''chat'' (a_payload ?r) = Inr w'"
      using assms True by (simp add: handle_timed_out_action_def Let_def s3_def new_chat_action_def)
    then obtain m where q: "queue_enqueue (queue w) (a_id ?r) ''chat'' (a_cocoon_id a) (a_chat_group_id a) (a_payload ?r) = Inr (m, queue w')"
      and db: "db w' = add_action s3 ?r" by (auto simp: commit_then_enqueue_def publish_def elim!: bind_rE)
    have r: "a_event_type ?r = ''chat''" "a_status ?r = ActQueued" "a_cocoon_id ?r = a_cocoon_id a" "a_chat_group_id ?r = a_chat_group_id a"
      "dict_get ''chat_retry_attempt'' (a_payload ?r) = Some (JInt (n + 1))"
      "dict_get ''chat_retry_parent_action_id'' (a_payload ?r) = Some (JStr i)"
      using a by (simp_all add: new_chat_action_def retry_payload_def)
    have fr': "failed_rounds (db w') = failed_rounds s3" by (simp add: db add_action_def take_id_def)
    have get': "row_get a_id i (actions (db w')) = Some failed" using get by (simp add: db row_get_add [unfolded row_add_def])
    have "\<exists>retry. actions (db w') = row_put a_id i (\<lambda>_. failed) (actions (db w)) @ [retry] \<and>
              a_event_type retry = ''chat'' \<and> a_status retry = ActQueued \<and> a_cocoon_id retry = a_cocoon_id a \<and>
              a_chat_group_id retry = a_chat_group_id a \<and>
              dict_get ''chat_retry_attempt'' (a_payload retry) = Some (JInt (n + 1)) \<and>
              dict_get ''chat_retry_parent_action_id'' (a_payload retry) = Some (JStr i) \<and>
              queue_waiting (queue w') = queue_waiting (queue w) @ [(a_id retry, a_payload retry)]"
      using r acts memory_queue.enqueue_waiting [OF q] by (intro exI [of _ ?r]) (simp add: db)
    then show ?thesis using True get' rounds idf fr' by (intro exI [of _ failed] exI [of _ fr]) (simp add: fr_def)
  qed
qed

theorem timed_out_action_retried_witness:
  "\<exists>w' failed. handle_timed_out_action (new_worker None None)
      (sample_world\<lparr>db := sample_cocoons\<lparr>actions := [(due_action ''x'' 3)\<lparr>a_status := ActRunning, a_event_type := ''edit''\<rparr>]\<rparr>\<rparr>) ''x'' = Inr w' \<and>
     row_get a_id ''x'' (actions (db w')) = Some failed \<and> a_status failed = ActFailed \<and> length (actions (db w')) = 2"
proof -
  let ?a = "(due_action ''x'' 3)\<lparr>a_status := ActRunning, a_event_type := ''edit''\<rparr>"
  let ?w = "sample_world\<lparr>db := sample_cocoons\<lparr>actions := [?a]\<rparr>\<rparr>"
  have keys: "action_keys (db ?w)"
    by (simp add: action_keys_def sample_cocoons_def sample_tags_def empty_session_def id_literal_inj due_action_def
      id_literal_def supply_fresh_def row_ids_def)
  have "\<not> isl (handle_timed_out_action (new_worker None None) ?w ''x'')" by code_simp
  then obtain w' where e: "handle_timed_out_action (new_worker None None) ?w ''x'' = Inr w'" by (metis isl_def sum.exhaust)
  have "(case handle_timed_out_action (new_worker None None) ?w ''x'' of Inl _ \<Rightarrow> 0 | Inr v \<Rightarrow> length (actions (db v))) = 2" by code_simp
  then have len: "length (actions (db w')) = 2" using e by simp
  have get: "row_get a_id ''x'' (actions (db ?w)) = Some ?a" by (simp add: row_get_def due_action_def)
  have n: "dict_int_or ''chat_retry_attempt'' 1 (a_payload ?a) = Inr 1" by (simp add: due_action_def dict_int_or_def)
  show ?thesis using timed_out_action_retried [OF keys get _ n e] e len by auto
qed

end
