(* ===== verification/Rounds.thy ===== *)
theory Rounds
  imports Memory DispatchWorker
begin

text \<open>
  Before and around a round (\<open>services/runtime/orchestration/round_cleanup.py\<close>,
  \<open>round_preparation_service.py\<close>, \<open>worker/jobs/rollback_job_service.py\<close>): removing what a replay
  replaces, preparing the event and the audit run, and rolling a cocoon back to a checkpoint.
\<close>

section \<open>Removing messages\<close>

text \<open>A column that is \<open>NULL\<close> is in no list.\<close>

definition action_ids_of :: "session \<Rightarrow> id list \<Rightarrow> id list" where
  "action_ids_of s message_ids =
     concat (map (\<lambda>m. case m_action_id m of None \<Rightarrow> [] | Some a \<Rightarrow> [a]) (filter (\<lambda>m. m_id m \<in> set message_ids) (messages s)))"

definition run_ids_of :: "session \<Rightarrow> id list \<Rightarrow> id list" where
  "run_ids_of s action_ids = map ar_id (filter (\<lambda>r. in_list (ar_action_id r) action_ids) (audit_runs s))"

definition delete_message_related_rows :: "session \<Rightarrow> id list \<Rightarrow> session" where
  "delete_message_related_rows s message_ids =
     (if message_ids = [] then s
      else let action_ids = action_ids_of s message_ids;
               run_ids = run_ids_of s action_ids;
               memory_ids = map mem_id (filter (\<lambda>m. in_list (mem_source_message_id m) message_ids) (memories s))
           in s\<lparr>memory_tags := row_del_where (\<lambda>t. mmt_memory_chunk_id t \<in> set memory_ids) (memory_tags s),
                memories := row_del_where (\<lambda>m. in_list (mem_source_message_id m) message_ids) (memories s),
                message_tags := row_del_where (\<lambda>t. mt_message_id t \<in> set message_ids) (message_tags s),
                failed_rounds := row_del_where (\<lambda>f. in_list (fr_action_id f) action_ids) (failed_rounds s),
                audit_links := row_del_where (\<lambda>l. al_run_id l \<in> set run_ids) (audit_links s),
                audit_artifacts := row_del_where (\<lambda>a. aa_run_id a \<in> set run_ids) (audit_artifacts s),
                audit_steps := row_del_where (\<lambda>t. au_run_id t \<in> set run_ids) (audit_steps s),
                audit_runs := row_del_where (\<lambda>r. ar_id r \<in> set run_ids) (audit_runs s),
                messages := row_del_where (\<lambda>m. m_id m \<in> set message_ids) (messages s)\<rparr>)"

definition cleanup_for_edit :: "session \<Rightarrow> id option \<Rightarrow> id option \<Rightarrow> id \<Rightarrow> session result" where
  "cleanup_for_edit s cocoon_id chat_group_id edited_message_id =
     (case row_get m_id edited_message_id (messages s) of
        None \<Rightarrow> Inr s
      | Some target \<Rightarrow>
          bind_r (build_target_filter cocoon_id chat_group_id) (\<lambda>matches.
          Inr (delete_message_related_rows s (map m_id (sort_key m_created_at
            (filter (\<lambda>m. matches (m_cocoon_id m) (m_chat_group_id m) \<and> m_created_at target < m_created_at m) (messages s)))))))"

definition cleanup_for_retry :: "session \<Rightarrow> id option \<Rightarrow> id option \<Rightarrow> id option \<Rightarrow> session result" where
  "cleanup_for_retry s cocoon_id chat_group_id message_id =
     bind_r (build_target_filter cocoon_id chat_group_id) (\<lambda>matches.
     let anchor = (if truthy message_id then row_get m_id (str_of message_id) (messages s) else None);
         replies = filter (\<lambda>m. matches (m_cocoon_id m) (m_chat_group_id m) \<and> m_role m = ''assistant'' \<and>
           (case anchor of None \<Rightarrow> True | Some a \<Rightarrow> m_created_at a \<le> m_created_at m)) (messages s)
     in Inr (case first_of (sort_key (\<lambda>m. - m_created_at m) replies) of
               None \<Rightarrow> s
             | Some latest \<Rightarrow> delete_message_related_rows s [m_id latest]))"

section \<open>Preparing a round\<close>

record runtime_event =
  re_event_type :: string
  re_cocoon_id :: "id option"
  re_chat_group_id :: "id option"
  re_action_id :: id
  re_payload :: dict

definition event_target_type :: "runtime_event \<Rightarrow> string" where
  "event_target_type ev = (if truthy (re_chat_group_id ev) then ''chat_group'' else ''cocoon'')"

definition event_target_id :: "runtime_event \<Rightarrow> id" where
  "event_target_id ev = or_else (re_chat_group_id ev) (str_of (re_cocoon_id ev))"

definition event_channel_key :: "runtime_event \<Rightarrow> string" where
  "event_channel_key ev = event_target_type ev @ '':'' @ event_target_id ev"

definition clean_for :: "session \<Rightarrow> action_row \<Rightarrow> session result" where
  "clean_for s action =
     (if a_event_type action = ''edit''
      then (case dict_get ''message_id'' (a_payload action) of
              None \<Rightarrow> Inl (KeyError ''message_id'')
            | Some JNull \<Rightarrow> Inl (TypeError ''cleanup_for_edit() missing required edited_message_id'')
            | Some (JStr i) \<Rightarrow> cleanup_for_edit s (a_cocoon_id action) (a_chat_group_id action) i
            | Some _ \<Rightarrow> Inr s)
      else if a_event_type action = ''retry''
      then cleanup_for_retry s (a_cocoon_id action) (a_chat_group_id action) (dict_str_opt ''message_id'' (a_payload action))
      else Inr s)"

definition prepare_round :: "session \<Rightarrow> action_row \<Rightarrow> (runtime_event \<times> audit_run_row \<times> session) result" where
  "prepare_round s action =
     bind_r (clean_for s action) (\<lambda>s1.
     let event = \<lparr>re_event_type = a_event_type action, re_cocoon_id = a_cocoon_id action,
                  re_chat_group_id = a_chat_group_id action, re_action_id = a_id action, re_payload = a_payload action\<rparr>;
         (run, s2) = start_run s1 (a_cocoon_id action) (a_chat_group_id action) (Some (a_id action)) (a_event_type action)
     in Inr (event, run, s2))"

section \<open>Rolling back\<close>

definition execute_rollback :: "audit_settings \<Rightarrow> world \<Rightarrow> id \<Rightarrow> world result" where
  "execute_rollback e w checkpoint_id =
     (case row_get cp_id checkpoint_id (checkpoints (db w)) of
        None \<Rightarrow> Inl (ValueError ''Checkpoint not found'')
      | Some cp \<Rightarrow>
          let (run, s1) = start_run (db w) (Some (cp_cocoon_id cp)) None None ''rollback'';
              (step, s2) = start_step s1 (ar_id run) ''rollback'' []
          in case (row_get m_id (cp_anchor_message_id cp) (messages s2), row_get c_id (cp_cocoon_id cp) (cocoons s2)) of
               (Some anchor, Some cocoon) \<Rightarrow>
                 let later = sort_key m_created_at
                       (filter (\<lambda>m. m_cocoon_id m = Some (cp_cocoon_id cp) \<and> m_created_at anchor < m_created_at m) (messages s2));
                     s3 = delete_message_related_rows s2 (map m_id later);
                     s4 = s3\<lparr>cocoons := row_put c_id (c_id cocoon)
                               (\<lambda>c. c\<lparr>c_context_start_message_id := Some (cp_anchor_message_id cp),
                                      c_rollback_anchor_msg_id := Some (cp_anchor_message_id cp)\<rparr>) (cocoons s3),
                             checkpoints := map (\<lambda>x. if cp_cocoon_id x = cp_cocoon_id cp
                                                     then x\<lparr>cp_is_active := (cp_id x = cp_id cp)\<rparr> else x) (checkpoints s3)\<rparr>
                 in bind_r (get_session_state s4 (Some (cp_cocoon_id cp)) None) (\<lambda>(found, s5).
                    let s6 = (case found of
                          None \<Rightarrow> s5
                        | Some st \<Rightarrow> s5\<lparr>states := row_put st_id (st_id st)
                            (\<lambda>x. x\<lparr>st_active_tags := m_tags anchor,
                                   st_persona := dict_set ''rollback_checkpoint_id'' (JStr (cp_id cp)) (st_persona x)\<rparr>) (states s5)\<rparr>);
                        (artifact, w1) = record_json_artifact e (w\<lparr>db := s6\<rparr>) (ar_id run) (Some (au_id step)) ''audit_summary''
                          [(''checkpoint_id'', JStr (cp_id cp)), (''deleted_message_ids'', JList (map (JStr \<circ> m_id) later)),
                           (''anchor_message_id'', JStr (cp_anchor_message_id cp))] (Some ''Rollback execution summary'') [];
                        s7 = finish_run (finish_step (db w1) (au_id step) ActCompleted) (ar_id run) ActCompleted
                    in Inr (w1\<lparr>db := s7\<rparr>))
             | _ \<Rightarrow> Inl (ValueError ''Rollback anchor not found''))"

section \<open>References stay intact\<close>

definition refs_ok :: "session \<Rightarrow> bool" where
  "refs_ok s \<longleftrightarrow>
     (\<forall>t\<in>set (message_tags s). mt_message_id t \<in> row_ids m_id (messages s)) \<and>
     (\<forall>t\<in>set (memory_tags s). mmt_memory_chunk_id t \<in> row_ids mem_id (memories s)) \<and>
     (\<forall>m\<in>set (memories s). \<forall>i. mem_source_message_id m = Some i \<longrightarrow> i \<in> row_ids m_id (messages s)) \<and>
     (\<forall>t\<in>set (audit_steps s). au_run_id t \<in> row_ids ar_id (audit_runs s)) \<and>
     (\<forall>a\<in>set (audit_artifacts s). aa_run_id a \<in> row_ids ar_id (audit_runs s)) \<and>
     (\<forall>l\<in>set (audit_links s). al_run_id l \<in> row_ids ar_id (audit_runs s))"

definition target_message :: "id option \<Rightarrow> id option \<Rightarrow> message_row \<Rightarrow> bool" where
  "target_message c g m \<longleftrightarrow> (case build_target_filter c g of Inl _ \<Rightarrow> False | Inr f \<Rightarrow> f (m_cocoon_id m) (m_chat_group_id m))"

lemma kept_row: "i \<in> row_ids key rows \<Longrightarrow> i \<notin> key ` {r \<in> set rows. P r} \<Longrightarrow> i \<in> row_ids key (row_del_where P rows)"
  by (auto simp: row_ids_def)

lemma in_list_iff: "in_list x ids \<longleftrightarrow> (\<exists>i. x = Some i \<and> i \<in> set ids)"
  by (cases x) (simp_all add: in_list_def)

lemma refs_ok_delete:
  assumes "refs_ok s" shows "refs_ok (delete_message_related_rows s ids)"
proof (cases "ids = []")
  case True
  then show ?thesis using assms by (simp add: delete_message_related_rows_def)
next
  case False
  let ?runs = "run_ids_of s (action_ids_of s ids)"
  let ?mems = "map mem_id (filter (\<lambda>m. in_list (mem_source_message_id m) ids) (memories s))"
  let ?s = "delete_message_related_rows s ids"
  have f: "message_tags ?s = row_del_where (\<lambda>t. mt_message_id t \<in> set ids) (message_tags s)"
    "memory_tags ?s = row_del_where (\<lambda>t. mmt_memory_chunk_id t \<in> set ?mems) (memory_tags s)"
    "memories ?s = row_del_where (\<lambda>m. in_list (mem_source_message_id m) ids) (memories s)"
    "messages ?s = row_del_where (\<lambda>m. m_id m \<in> set ids) (messages s)"
    "audit_steps ?s = row_del_where (\<lambda>t. au_run_id t \<in> set ?runs) (audit_steps s)"
    "audit_artifacts ?s = row_del_where (\<lambda>a. aa_run_id a \<in> set ?runs) (audit_artifacts s)"
    "audit_links ?s = row_del_where (\<lambda>l. al_run_id l \<in> set ?runs) (audit_links s)"
    "audit_runs ?s = row_del_where (\<lambda>r. ar_id r \<in> set ?runs) (audit_runs s)"
    using False by (simp_all add: delete_message_related_rows_def Let_def)
  note r = assms [unfolded refs_ok_def]
  have msg: "i \<in> row_ids m_id (messages s) \<Longrightarrow> i \<notin> set ids \<Longrightarrow> i \<in> row_ids m_id (messages ?s)" for i
    unfolding f by (rule kept_row) auto
  have run: "i \<in> row_ids ar_id (audit_runs s) \<Longrightarrow> i \<notin> set ?runs \<Longrightarrow> i \<in> row_ids ar_id (audit_runs ?s)" for i
    unfolding f by (rule kept_row) auto
  have mem: "i \<in> row_ids mem_id (memories s) \<Longrightarrow> i \<notin> set ?mems \<Longrightarrow> i \<in> row_ids mem_id (memories ?s)" for i
    unfolding f by (rule kept_row) auto
  show ?thesis unfolding refs_ok_def
  proof (intro conjI ballI allI impI)
    fix t assume "t \<in> set (message_tags ?s)"
    then show "mt_message_id t \<in> row_ids m_id (messages ?s)" using r by (intro msg) (auto simp: f(1))
  next
    fix t assume "t \<in> set (memory_tags ?s)"
    then show "mmt_memory_chunk_id t \<in> row_ids mem_id (memories ?s)" using r by (intro mem) (auto simp: f(2))
  next
    fix m i assume "m \<in> set (memories ?s)" "mem_source_message_id m = Some i"
    then show "i \<in> row_ids m_id (messages ?s)" using r by (intro msg) (auto simp: f(3) in_list_def)
  next
    fix t assume "t \<in> set (audit_steps ?s)"
    then show "au_run_id t \<in> row_ids ar_id (audit_runs ?s)" using r by (intro run) (auto simp: f(5))
  next
    fix a assume "a \<in> set (audit_artifacts ?s)"
    then show "aa_run_id a \<in> row_ids ar_id (audit_runs ?s)" using r by (intro run) (auto simp: f(6))
  next
    fix l assume "l \<in> set (audit_links ?s)"
    then show "al_run_id l \<in> row_ids ar_id (audit_runs ?s)" using r by (intro run) (auto simp: f(7))
  qed
qed

lemma delete_messages:
  "messages (delete_message_related_rows s ids) = filter (\<lambda>m. m_id m \<notin> set ids) (messages s)"
  "memories (delete_message_related_rows s ids) = filter (\<lambda>m. \<not> in_list (mem_source_message_id m) ids) (memories s)"
  "embeddings (delete_message_related_rows s ids) = embeddings s"
  by (auto simp: delete_message_related_rows_def Let_def row_del_where_def in_list_iff intro!: filter_True [symmetric])

lemma replaced_by_id:
  assumes "distinct (map m_id (messages s))" "set gone \<subseteq> set (messages s)"
  shows "filter (\<lambda>m. m_id m \<notin> m_id ` set gone) (messages s) = filter (\<lambda>m. m \<notin> set gone) (messages s)"
  using assms by (intro filter_cong) (auto dest: distinct_key_eq)

lemma clean_for_gone:
  assumes "clean_for s action = Inr s'" "distinct (map m_id (messages s))"
  obtains gone where "set gone \<subseteq> set (messages s)" "s' = delete_message_related_rows s (map m_id gone)"
    "\<forall>m\<in>set gone. target_message (a_cocoon_id action) (a_chat_group_id action) m"
    "\<And>i t. a_event_type action = ''edit'' \<Longrightarrow> dict_get ''message_id'' (a_payload action) = Some (JStr i) \<Longrightarrow>
       row_get m_id i (messages s) = Some t \<Longrightarrow>
       set gone = {m \<in> set (messages s). target_message (a_cocoon_id action) (a_chat_group_id action) m \<and> m_created_at t < m_created_at m}"
    "a_event_type action = ''retry'' \<Longrightarrow> length gone \<le> 1 \<and> (\<forall>m\<in>set gone. m_role m = ''assistant'')"
    "a_event_type action \<noteq> ''edit'' \<Longrightarrow> a_event_type action \<noteq> ''retry'' \<Longrightarrow> gone = []"
proof -
  let ?c = "a_cocoon_id action" and ?g = "a_chat_group_id action"
  have none: "delete_message_related_rows s (map m_id []) = s" by (simp add: delete_message_related_rows_def)
  consider (edit) i where "a_event_type action = ''edit''" "dict_get ''message_id'' (a_payload action) = Some (JStr i)" "cleanup_for_edit s ?c ?g i = Inr s'"
    | (other_edit) "a_event_type action = ''edit''" "\<nexists>i. dict_get ''message_id'' (a_payload action) = Some (JStr i)" "s' = s"
    | (retry) "a_event_type action = ''retry''" "cleanup_for_retry s ?c ?g (dict_str_opt ''message_id'' (a_payload action)) = Inr s'"
    | (rest) "a_event_type action \<noteq> ''edit''" "a_event_type action \<noteq> ''retry''" "s' = s"
    using assms(1) by (auto simp: clean_for_def split: if_splits option.splits json.splits)
  then show thesis
  proof cases
    case (edit i)
    show ?thesis
    proof (cases "row_get m_id i (messages s)")
      case None
      show ?thesis by (rule that [of "[]"]) (use edit None none in \<open>auto simp: cleanup_for_edit_def\<close>)
    next
      case (Some t)
      obtain f where f: "build_target_filter ?c ?g = Inr f"
        and s': "s' = delete_message_related_rows s (map m_id (sort_key m_created_at
            (filter (\<lambda>m. f (m_cocoon_id m) (m_chat_group_id m) \<and> m_created_at t < m_created_at m) (messages s))))"
        using edit(3) Some by (auto simp: cleanup_for_edit_def elim!: bind_rE)
      show ?thesis by (rule that [OF _ s']) (use edit f Some in \<open>auto simp: target_message_def\<close>)
    qed
  next
    case other_edit
    show ?thesis by (rule that [of "[]"]) (use other_edit none in auto)
  next
    case retry
    define anchor where "anchor = (if truthy (dict_str_opt ''message_id'' (a_payload action))
      then row_get m_id (str_of (dict_str_opt ''message_id'' (a_payload action))) (messages s) else None)"
    obtain f where f: "build_target_filter ?c ?g = Inr f"
      using retry(2) unfolding cleanup_for_retry_def by (rule bind_rE)
    have s': "s' = (case first_of (sort_key (\<lambda>m. - m_created_at m) (filter (\<lambda>m. f (m_cocoon_id m) (m_chat_group_id m) \<and> m_role m = ''assistant'' \<and>
           (case anchor of None \<Rightarrow> True | Some a \<Rightarrow> m_created_at a \<le> m_created_at m)) (messages s))) of
               None \<Rightarrow> s | Some latest \<Rightarrow> delete_message_related_rows s [m_id latest])"
      using retry(2) f by (simp add: cleanup_for_retry_def Let_def anchor_def)
    show ?thesis
    proof (cases "first_of (sort_key (\<lambda>m. - m_created_at m) (filter (\<lambda>m. f (m_cocoon_id m) (m_chat_group_id m) \<and> m_role m = ''assistant'' \<and>
           (case anchor of None \<Rightarrow> True | Some a \<Rightarrow> m_created_at a \<le> m_created_at m)) (messages s)))")
      case None
      show ?thesis by (rule that [of "[]"]) (use None s' retry none in auto)
    next
      case (Some latest)
      then have "latest \<in> set (messages s)" "f (m_cocoon_id latest) (m_chat_group_id latest)" "m_role latest = ''assistant''"
        by (auto dest: first_of_sorted)
      then show ?thesis by (intro that [of "[latest]"]) (use s' retry Some f in \<open>auto simp: target_message_def\<close>)
    qed
  next
    case rest
    show ?thesis by (rule that [of "[]"]) (use rest none in auto)
  qed
qed


definition sample_message :: "id \<Rightarrow> string \<Rightarrow> time \<Rightarrow> message_row" where
  "sample_message i role t =
     \<lparr>m_id = i, m_cocoon_id = Some ''a'', m_chat_group_id = None, m_action_id = None, m_client_request_id = None,
      m_sender_user_id = None, m_external_sender_id = None, m_external_sender_display_name = None, m_role = role,
      m_content = ''text'', m_is_thought = False, m_is_retracted = False, m_retracted_at = None,
      m_retracted_by_user_id = None, m_retraction_note = None, m_tags = [], m_created_at = t\<rparr>"

definition sample_history :: session where
  "sample_history = sample_cocoons\<lparr>
     messages := [sample_message ''x1'' ''user'' 1, sample_message ''x2'' ''assistant'' 2, sample_message ''x3'' ''user'' 3],
     memories := [(sample_memory ''m1'' ''a'' ''tree_private'' 3)\<lparr>mem_source_message_id := Some ''x2''\<rparr>],
     checkpoints := [\<lparr>cp_id = ''p1'', cp_cocoon_id = ''a'', cp_anchor_message_id = ''x1'', cp_label = ''first'', cp_is_active = False\<rparr>,
                     \<lparr>cp_id = ''p2'', cp_cocoon_id = ''a'', cp_anchor_message_id = ''x3'', cp_label = ''second'', cp_is_active = True\<rparr>]\<rparr>"

lemma sample_history_ok: "refs_ok sample_history" "distinct (map m_id (messages sample_history))"
  "distinct (map cp_id (checkpoints sample_history))"
  by (simp_all add: refs_ok_def sample_history_def sample_message_def sample_memory_def sample_cocoons_def sample_tags_def
      empty_session_def row_ids_def)


section \<open>What a rollback does\<close>

lemma record_json_artifact_db:
  assumes "record_json_artifact e w run_id step_id kind payload summary meta = (a, w')"
  shows "db w' = (take_id (take_id (db w)))\<lparr>audit_artifacts := row_add a (audit_artifacts (db w))\<rparr>"
    "aa_run_id a = run_id" "queue w' = queue w" "events w' = events w"
proof -
  have eq: "a = fst (record_json_artifact e w run_id step_id kind payload summary meta)"
    "w' = snd (record_json_artifact e w run_id step_id kind payload summary meta)" using assms by simp_all
  show "db w' = (take_id (take_id (db w)))\<lparr>audit_artifacts := row_add a (audit_artifacts (db w))\<rparr>"
    unfolding eq by (simp add: record_json_artifact_def write_text_def Let_def take_id_def)
  show "aa_run_id a = run_id" "queue w' = queue w" "events w' = events w"
    unfolding eq by (simp_all add: record_json_artifact_def write_text_def Let_def)
qed

lemma start_run_frame:
  assumes "start_run s c g a op = (r, s')"
  shows "s' = (take_id s)\<lparr>audit_runs := row_add r (audit_runs s)\<rparr>" "ar_id r = new_id s"
proof -
  have eq: "r = fst (start_run s c g a op)" "s' = snd (start_run s c g a op)" using assms by simp_all
  show "s' = (take_id s)\<lparr>audit_runs := row_add r (audit_runs s)\<rparr>" "ar_id r = new_id s"
    unfolding eq by (simp_all add: start_run_def Let_def)
qed

lemma start_step_frame:
  assumes "start_step s i name meta = (t, s')"
  shows "s' = (take_id s)\<lparr>audit_steps := row_add t (audit_steps s)\<rparr>" "au_id t = new_id s"
proof -
  have eq: "t = fst (start_step s i name meta)" "s' = snd (start_step s i name meta)" using assms by simp_all
  show "s' = (take_id s)\<lparr>audit_steps := row_add t (audit_steps s)\<rparr>" "au_id t = new_id s"
    unfolding eq by (simp_all add: start_step_def Let_def)
qed

definition later_in_cocoon :: "id \<Rightarrow> message_row \<Rightarrow> message_row \<Rightarrow> bool" where
  "later_in_cocoon c anchor m \<longleftrightarrow> m_cocoon_id m = Some c \<and> m_created_at anchor < m_created_at m"

lemma execute_rollback_facts:
  assumes e: "execute_rollback e w i = Inr w'" and cp: "row_get cp_id i (checkpoints (db w)) = Some cp"
  obtains anchor where "row_get m_id (cp_anchor_message_id cp) (messages (db w)) = Some anchor"
    "messages (db w') = filter (\<lambda>m. m_id m \<notin> m_id ` {m \<in> set (messages (db w)). later_in_cocoon (cp_cocoon_id cp) anchor m}) (messages (db w))"
    "checkpoints (db w') = map (\<lambda>x. if cp_cocoon_id x = cp_cocoon_id cp then x\<lparr>cp_is_active := (cp_id x = cp_id cp)\<rparr> else x) (checkpoints (db w))"
    "cocoons (db w') = row_put c_id (cp_cocoon_id cp) (\<lambda>c. c\<lparr>c_context_start_message_id := Some (cp_anchor_message_id cp),
       c_rollback_anchor_msg_id := Some (cp_anchor_message_id cp)\<rparr>) (cocoons (db w))"
    "jobs (db w') = jobs (db w)"
proof -
  let ?c = "cp_cocoon_id cp"
  obtain run s1 where r: "start_run (db w) (Some ?c) None None ''rollback'' = (run, s1)" by (metis surj_pair)
  obtain step s2 where st: "start_step s1 (ar_id run) ''rollback'' [] = (step, s2)" by (metis surj_pair)
  have s2: "messages s2 = messages (db w)" "cocoons s2 = cocoons (db w)" "checkpoints s2 = checkpoints (db w)" "jobs s2 = jobs (db w)"
    unfolding start_step_frame(1) [OF st] start_run_frame(1) [OF r] by (simp_all add: take_id_def)
  obtain anchor cocoon where ac: "row_get m_id (cp_anchor_message_id cp) (messages s2) = Some anchor" "row_get c_id ?c (cocoons s2) = Some cocoon"
    using e cp r st by (auto simp: execute_rollback_def Let_def split: option.splits)
  have cid: "c_id cocoon = ?c" using row_get_SomeD [OF ac(2)] by simp
  define later where "later = sort_key m_created_at (filter (\<lambda>m. m_cocoon_id m = Some ?c \<and> m_created_at anchor < m_created_at m) (messages s2))"
  define s4 where "s4 = (delete_message_related_rows s2 (map m_id later))\<lparr>cocoons := row_put c_id (c_id cocoon)
        (\<lambda>c. c\<lparr>c_context_start_message_id := Some (cp_anchor_message_id cp), c_rollback_anchor_msg_id := Some (cp_anchor_message_id cp)\<rparr>)
        (cocoons (delete_message_related_rows s2 (map m_id later))),
      checkpoints := map (\<lambda>x. if cp_cocoon_id x = ?c then x\<lparr>cp_is_active := (cp_id x = cp_id cp)\<rparr> else x)
        (checkpoints (delete_message_related_rows s2 (map m_id later)))\<rparr>"
  obtain found s5 where g: "get_session_state s4 (Some ?c) None = Inr (found, s5)"
    using e cp r st ac by (auto simp: execute_rollback_def Let_def s4_def later_def elim: bind_r_pairE)
  define s6 where "s6 = (case found of None \<Rightarrow> s5
      | Some st \<Rightarrow> s5\<lparr>states := row_put st_id (st_id st) (\<lambda>x. x\<lparr>st_active_tags := m_tags anchor,
          st_persona := dict_set ''rollback_checkpoint_id'' (JStr (cp_id cp)) (st_persona x)\<rparr>) (states s5)\<rparr>)"
  obtain a w1 where a: "record_json_artifact e (w\<lparr>db := s6\<rparr>) (ar_id run) (Some (au_id step)) ''audit_summary''
        [(''checkpoint_id'', JStr (cp_id cp)), (''deleted_message_ids'', JList (map (JStr \<circ> m_id) later)),
         (''anchor_message_id'', JStr (cp_anchor_message_id cp))] (Some ''Rollback execution summary'') [] = (a, w1)" by (metis surj_pair)
  have w': "w' = w1\<lparr>db := finish_run (finish_step (db w1) (au_id step) ActCompleted) (ar_id run) ActCompleted\<rparr>"
    using e cp r st ac g a by (simp add: execute_rollback_def Let_def s4_def later_def s6_def)
  have db: "messages (db w') = messages s5" "cocoons (db w') = cocoons s5" "checkpoints (db w') = checkpoints s5" "jobs (db w') = jobs s5"
    using record_json_artifact_db(1) [OF a] by (auto simp: w' finish_run_def finish_step_def take_id_def s6_def split: option.splits)
  note fr = state_frameD(5,8,17,21) [OF state_frame_get_state [OF g]]
  have del: "cocoons (delete_message_related_rows s2 ids) = cocoons s2" "checkpoints (delete_message_related_rows s2 ids) = checkpoints s2"
    "jobs (delete_message_related_rows s2 ids) = jobs s2" for ids
    by (simp_all add: delete_message_related_rows_def Let_def)
  have "messages (db w') = filter (\<lambda>m. m_id m \<notin> m_id ` {m \<in> set (messages (db w)). later_in_cocoon ?c anchor m}) (messages (db w))"
    unfolding db fr by (simp add: s4_def delete_messages later_def s2 later_in_cocoon_def)
  moreover have "checkpoints (db w') = map (\<lambda>x. if cp_cocoon_id x = ?c then x\<lparr>cp_is_active := (cp_id x = cp_id cp)\<rparr> else x) (checkpoints (db w))"
    unfolding db fr by (simp add: s4_def del s2)
  moreover have "cocoons (db w') = row_put c_id ?c (\<lambda>c. c\<lparr>c_context_start_message_id := Some (cp_anchor_message_id cp),
       c_rollback_anchor_msg_id := Some (cp_anchor_message_id cp)\<rparr>) (cocoons (db w))"
    unfolding db fr by (simp add: s4_def del s2 cid)
  moreover have "jobs (db w') = jobs (db w)" unfolding db fr by (simp add: s4_def del s2)
  ultimately show thesis using that ac(1) s2(1) by simp
qed

text \<open>
  After a rollback to a checkpoint the cocoon has exactly the messages up to the anchor and every other
  conversation has all of its messages; the context starts at the anchor, and the checkpoint is the only
  active one of the cocoon. A later checkpoint of the same cocoon survives, but a rollback to
  it can only fail: its anchor is gone.
\<close>

theorem execute_rollback_effect:
  assumes "distinct (map m_id (messages (db w)))"
    and "row_get cp_id i (checkpoints (db w)) = Some cp" "execute_rollback e w i = Inr w'"
  shows "\<exists>anchor. row_get m_id (cp_anchor_message_id cp) (messages (db w)) = Some anchor \<and>
    messages (db w') = filter (\<lambda>m. \<not> (m_cocoon_id m = Some (cp_cocoon_id cp) \<and> m_created_at anchor < m_created_at m)) (messages (db w)) \<and>
    (\<forall>c. row_get c_id (cp_cocoon_id cp) (cocoons (db w)) = Some c \<longrightarrow>
       row_get c_id (cp_cocoon_id cp) (cocoons (db w')) =
         Some (c\<lparr>c_context_start_message_id := Some (m_id anchor), c_rollback_anchor_msg_id := Some (m_id anchor)\<rparr>)) \<and>
    (\<forall>x\<in>set (checkpoints (db w')). cp_cocoon_id x = cp_cocoon_id cp \<longrightarrow> cp_is_active x = (cp_id x = i)) \<and>
    (\<forall>j x b. row_get cp_id j (checkpoints (db w)) = Some x \<and> cp_cocoon_id x = cp_cocoon_id cp \<and>
       row_get m_id (cp_anchor_message_id x) (messages (db w)) = Some b \<and> m_cocoon_id b = Some (cp_cocoon_id cp) \<and>
       m_created_at anchor < m_created_at b \<longrightarrow>
       execute_rollback e w' j = Inl (ValueError ''Rollback anchor not found''))"
proof -
  obtain anchor where an: "row_get m_id (cp_anchor_message_id cp) (messages (db w)) = Some anchor"
    and msgs: "messages (db w') = filter (\<lambda>m. m_id m \<notin> m_id ` {m \<in> set (messages (db w)). later_in_cocoon (cp_cocoon_id cp) anchor m}) (messages (db w))"
    and cps: "checkpoints (db w') = map (\<lambda>x. if cp_cocoon_id x = cp_cocoon_id cp then x\<lparr>cp_is_active := (cp_id x = cp_id cp)\<rparr> else x) (checkpoints (db w))"
    and cs: "cocoons (db w') = row_put c_id (cp_cocoon_id cp) (\<lambda>c. c\<lparr>c_context_start_message_id := Some (cp_anchor_message_id cp),
       c_rollback_anchor_msg_id := Some (cp_anchor_message_id cp)\<rparr>) (cocoons (db w))"
    using assms(3,2) by (rule execute_rollback_facts)
  have ids: "cp_id cp = i" "m_id anchor = cp_anchor_message_id cp" using row_get_SomeD [OF assms(2)] row_get_SomeD [OF an] by simp_all
  have msgs': "messages (db w') = filter (\<lambda>m. \<not> (m_cocoon_id m = Some (cp_cocoon_id cp) \<and> m_created_at anchor < m_created_at m)) (messages (db w))"
    unfolding msgs by (rule filter_cong) (auto simp: later_in_cocoon_def dest: distinct_key_eq [OF assms(1)])
  have dead: "execute_rollback e w' j = Inl (ValueError ''Rollback anchor not found'')"
    if x: "row_get cp_id j (checkpoints (db w)) = Some x" "cp_cocoon_id x = cp_cocoon_id cp"
      and b: "row_get m_id (cp_anchor_message_id x) (messages (db w)) = Some b" "m_cocoon_id b = Some (cp_cocoon_id cp)"
        "m_created_at anchor < m_created_at b" for j x b
  proof -
    have "row_get cp_id j (checkpoints (db w')) = Some (x\<lparr>cp_is_active := (cp_id x = cp_id cp)\<rparr>)"
      using x row_get_SomeD [OF x(1)] unfolding cps row_get_def by (simp add: find_map comp_def if_distrib [of cp_id] cong: if_cong)
    moreover have "row_get m_id (cp_anchor_message_id x) (messages (db w')) = None"
    proof -
      have "m_id b \<in> m_id ` {m \<in> set (messages (db w)). later_in_cocoon (cp_cocoon_id cp) anchor m}"
        using row_get_SomeD [OF b(1)] b(2,3) by (intro imageI) (simp add: later_in_cocoon_def)
      then have "m_id b \<notin> m_id ` set (messages (db w'))" unfolding msgs by auto
      then show ?thesis using row_get_SomeD [OF b(1)] by (simp add: row_get_None row_ids_def)
    qed
    moreover obtain run s1 where r: "start_run (db w') (Some (cp_cocoon_id x)) None None ''rollback'' = (run, s1)" by (metis surj_pair)
    moreover obtain step s2 where st: "start_step s1 (ar_id run) ''rollback'' [] = (step, s2)" by (metis surj_pair)
    moreover have "messages s2 = messages (db w')"
      unfolding start_step_frame(1) [OF st] start_run_frame(1) [OF r] by (simp add: take_id_def)
    ultimately show ?thesis by (simp add: execute_rollback_def Let_def)
  qed
  show ?thesis
  proof (intro exI conjI impI ballI allI)
    show "row_get m_id (cp_anchor_message_id cp) (messages (db w)) = Some anchor" by (rule an)
    show "messages (db w') = filter (\<lambda>m. \<not> (m_cocoon_id m = Some (cp_cocoon_id cp) \<and> m_created_at anchor < m_created_at m)) (messages (db w))"
      by (rule msgs')
  next
    fix x assume "x \<in> set (checkpoints (db w'))" "cp_cocoon_id x = cp_cocoon_id cp"
    then show "cp_is_active x = (cp_id x = i)" unfolding cps ids(1) by (auto split: if_splits)
  next
    fix j x b
    assume "row_get cp_id j (checkpoints (db w)) = Some x \<and> cp_cocoon_id x = cp_cocoon_id cp \<and>
       row_get m_id (cp_anchor_message_id x) (messages (db w)) = Some b \<and> m_cocoon_id b = Some (cp_cocoon_id cp) \<and>
       m_created_at anchor < m_created_at b"
    then show "execute_rollback e w' j = Inl (ValueError ''Rollback anchor not found'')" using dead by blast
  next
    fix c assume "row_get c_id (cp_cocoon_id cp) (cocoons (db w)) = Some c"
    then show "row_get c_id (cp_cocoon_id cp) (cocoons (db w')) =
         Some (c\<lparr>c_context_start_message_id := Some (m_id anchor), c_rollback_anchor_msg_id := Some (m_id anchor)\<rparr>)"
      by (simp add: cs ids(2) row_get_put)
  qed
qed

definition sample_audit :: audit_settings where
  "sample_audit = \<lparr>as_root = ''/data'', as_ttl_hours = 24\<rparr>"

theorem execute_rollback_effect_witness:
  "\<exists>w'. execute_rollback sample_audit (sample_world\<lparr>db := sample_history\<rparr>) ''p1'' = Inr w' \<and>
     map m_id (messages (db w')) = [''x1''] \<and>
     execute_rollback sample_audit w' ''p2'' = Inl (ValueError ''Rollback anchor not found'')"
proof -
  let ?w = "sample_world\<lparr>db := sample_history\<rparr>"
  let ?p1 = "\<lparr>cp_id = ''p1'', cp_cocoon_id = ''a'', cp_anchor_message_id = ''x1'', cp_label = ''first'', cp_is_active = False\<rparr>"
  let ?p2 = "\<lparr>cp_id = ''p2'', cp_cocoon_id = ''a'', cp_anchor_message_id = ''x3'', cp_label = ''second'', cp_is_active = True\<rparr>"
  have "(case execute_rollback sample_audit ?w ''p1'' of Inl _ \<Rightarrow> [] | Inr w' \<Rightarrow> map m_id (messages (db w'))) = [''x1'']" by code_simp
  then obtain w' where e: "execute_rollback sample_audit ?w ''p1'' = Inr w'" and m: "map m_id (messages (db w')) = [''x1'']"
    by (auto split: sum.splits)
  have dist: "distinct (map m_id (messages (db ?w)))" using sample_history_ok(2) by simp
  have p1: "row_get cp_id ''p1'' (checkpoints (db ?w)) = Some ?p1" by (simp add: sample_history_def row_get_def)
  have p2: "row_get cp_id ''p2'' (checkpoints (db ?w)) = Some ?p2" by (simp add: sample_history_def row_get_def)
  have x: "row_get m_id ''x1'' (messages (db ?w)) = Some (sample_message ''x1'' ''user'' 1)"
    "row_get m_id ''x3'' (messages (db ?w)) = Some (sample_message ''x3'' ''user'' 3)"
    by (simp_all add: sample_history_def row_get_def sample_message_def)
  obtain anchor where an: "row_get m_id (cp_anchor_message_id ?p1) (messages (db ?w)) = Some anchor"
    and dead: "\<forall>j x b. row_get cp_id j (checkpoints (db ?w)) = Some x \<and> cp_cocoon_id x = cp_cocoon_id ?p1 \<and>
       row_get m_id (cp_anchor_message_id x) (messages (db ?w)) = Some b \<and> m_cocoon_id b = Some (cp_cocoon_id ?p1) \<and>
       m_created_at anchor < m_created_at b \<longrightarrow> execute_rollback sample_audit w' j = Inl (ValueError ''Rollback anchor not found'')"
    using execute_rollback_effect [OF dist p1 e] by (elim exE conjE) (rule that)
  have "anchor = sample_message ''x1'' ''user'' 1" using an x(1) by simp
  then have "execute_rollback sample_audit w' ''p2'' = Inl (ValueError ''Rollback anchor not found'')"
    using p2 x(2) by (intro dead [rule_format, of _ ?p2 "sample_message ''x3'' ''user'' 3"]) (simp add: sample_message_def)
  then show ?thesis using e m by (intro exI [of _ w'] conjI)
qed

end
