(* ===== verification/SideEffects.thy ===== *)
theory SideEffects
  imports Rounds
begin

text \<open>
  What a round writes (\<open>services/runtime/orchestration/side_effects.py\<close>, \<open>state_patch_service.py\<close>,
  \<open>reply_delivery_service.py\<close>, \<open>services/plugins/im_delivery_service.py\<close> and the data of
  \<open>services/runtime/types.py\<close>). The context package refers to the row of its session state by its
  identifier: the code reads and writes that one object.
\<close>

section \<open>Dates as text\<close>

text \<open>
  \<open>isoformat\<close> of a naive time stamp: the civil date of a day count since 1970, and the fraction
  only when there is one.
\<close>

definition pad :: "nat \<Rightarrow> int \<Rightarrow> string" where
  "pad n i = (let t = nat_digits (nat i) in replicate (n - length t) CHR ''0'' @ t)"

definition civil :: "int \<Rightarrow> int \<times> int \<times> int" where
  "civil days =
     (let z = days + 719468; era = z div 146097; doe = z mod 146097;
          yoe = (doe - doe div 1460 + doe div 36524 - doe div 146096) div 365;
          doy = doe - (365 * yoe + yoe div 4 - yoe div 100);
          mp = (5 * doy + 2) div 153; d = doy - (153 * mp + 2) div 5 + 1;
          m = (if mp < 10 then mp + 3 else mp - 9)
      in (yoe + era * 400 + (if m \<le> 2 then 1 else 0), m, d))"

definition isoformat :: "time \<Rightarrow> string" where
  "isoformat t =
     (let (y, m, d) = civil (t div 86400000000); r = t mod 86400000000;
          us = r mod 1000000; secs = r div 1000000
      in pad 4 y @ ''-'' @ pad 2 m @ ''-'' @ pad 2 d @ ''T'' @ pad 2 (secs div 3600) @ '':'' @ pad 2 (secs div 60 mod 60) @ '':'' @
         pad 2 (secs mod 60) @ (if us = 0 then [] else ''.'' @ pad 6 us))"

definition isoformat_utc :: "time \<Rightarrow> string" where
  "isoformat_utc t = isoformat t @ ''+00:00''"

section \<open>The data of a round\<close>

record tag_operation =
  to_action :: string
  to_tag_index :: nat

record fact_operation =
  fo_op :: string
  fo_cache_key :: string
  fo_content :: string
  fo_summary :: "string option"
  fo_valid_until :: "string option"
  fo_meta :: dict

record memory_operation =
  mo_op :: string
  mo_content :: string
  mo_summary :: "string option"
  mo_memory_type :: string
  mo_memory_pool :: "string option"
  mo_tags :: "string list"
  mo_importance :: int
  mo_confidence :: int
  mo_reason :: "string option"
  mo_valid_until :: "string option"
  mo_target_memory_id :: "id option"
  mo_supersedes :: "id list"

record meta_decision =
  md_decision :: string
  md_relation_delta :: int
  md_persona_patch :: dict
  md_tag_ops :: "tag_operation list"
  md_internal_thought :: string
  md_event_summary :: "string option"
  md_next_wakeup_hints :: "dict list"
  md_cancel_wakeup_task_ids :: "id list"
  md_generation_brief :: "string option"
  md_used_memory_ids :: "id list"
  md_session_update :: dict
  md_task_state_update :: dict
  md_fact_cache_ops :: "fact_operation list"
  md_memory_ops :: "memory_operation list"
  md_request_mode :: string

record generation_output =
  go_chunks :: "string list"
  go_reply_text :: string
  go_structured_output :: dict
  go_usage :: dict
  go_provider_kind :: string
  go_model_name :: string

datatype conversation = InCocoon cocoon_row | InRoom room_row

fun max_context_messages :: "conversation \<Rightarrow> int" where
  "max_context_messages (InCocoon c) = c_max_context_messages c"
| "max_context_messages (InRoom r) = rm_max_context_messages r"

fun auto_compaction_enabled :: "conversation \<Rightarrow> bool" where
  "auto_compaction_enabled (InCocoon c) = c_auto_compaction_enabled c"
| "auto_compaction_enabled (InRoom r) = rm_auto_compaction_enabled r"

fun conversation_id :: "conversation \<Rightarrow> id" where
  "conversation_id (InCocoon c) = c_id c"
| "conversation_id (InRoom r) = rm_id r"

text \<open>The cocoon a round pulls or merges from, as the round sees it.\<close>

record external_source =
  xs_cocoon :: cocoon_row
  xs_state :: "state_row option"
  xs_messages :: "message_row list"
  xs_memories :: "memory_row list"

text \<open>The entries of the dictionary \<open>external_context\<close> are the fields from \<open>cx_wakeup_context\<close> on.\<close>

record context_package =
  cx_event :: runtime_event
  cx_conversation :: conversation
  cx_character_id :: id
  cx_state_id :: id
  cx_task_state_id :: "id option"
  cx_visible_messages :: "message_row list"
  cx_memory_hits :: "memory_hit list"
  cx_memory_profile :: dict
  cx_memory_owner_user_id :: "id option"
  cx_fact_entries :: "fact_row list"
  cx_wakeup_context :: "dict option"
  cx_source :: "external_source option"
  cx_timezone_fallback :: "string option"
  cx_pending_wakeups :: "wakeup_row list"
  cx_tag_catalog_by_ref :: "(string \<times> dict) list"
  cx_prompt_tag_catalog :: "catalog_item list"
  cx_prompt_catalog :: "(nat \<times> id) list"

definition source_state :: "context_package \<Rightarrow> state_row option" where
  "source_state cx = (case cx_source cx of None \<Rightarrow> None | Some x \<Rightarrow> xs_state x)"

definition state_of :: "session \<Rightarrow> context_package \<Rightarrow> state_row option" where
  "state_of s cx = row_get st_id (cx_state_id cx) (states s)"

definition active_tags_of :: "session \<Rightarrow> context_package \<Rightarrow> id list" where
  "active_tags_of s cx = (case state_of s cx of None \<Rightarrow> [] | Some st \<Rightarrow> st_active_tags st)"

section \<open>The session state\<close>

definition MIN_RELATION_SCORE :: int where "MIN_RELATION_SCORE = 0"
definition MAX_RELATION_SCORE :: int where "MAX_RELATION_SCORE = 100"

definition clamp_score :: "int \<Rightarrow> int" where
  "clamp_score n = max MIN_RELATION_SCORE (min MAX_RELATION_SCORE n)"

text \<open>\<open>int(n / 2)\<close> truncates towards zero.\<close>

definition half :: "int \<Rightarrow> int" where
  "half n = (if 0 \<le> n then n div 2 else - (- n div 2))"

definition resolve_tag_index :: "context_package \<Rightarrow> nat \<Rightarrow> id" where
  "resolve_tag_index cx i = (case map_of (cx_prompt_catalog cx) i of None \<Rightarrow> [] | Some t \<Rightarrow> py_strip t)"

definition apply_tag_op :: "context_package \<Rightarrow> session \<Rightarrow> id list \<Rightarrow> tag_operation \<Rightarrow> id list \<times> session" where
  "apply_tag_op cx s active op =
     (let tag = resolve_tag_index cx (to_tag_index op)
      in if to_action op = ''add''
         then if tag \<noteq> [] \<and> tag \<notin> set active then canonicalize_tag_refs s (active @ [tag]) True None else (active, s)
         else if to_action op = ''remove''
         then canonicalize_tag_refs s (filter (\<lambda>i. i \<noteq> tag) active) True None
         else (active, s))"

fun apply_tag_ops :: "context_package \<Rightarrow> session \<Rightarrow> id list \<Rightarrow> tag_operation list \<Rightarrow> id list \<times> session" where
  "apply_tag_ops cx s active [] = (active, s)"
| "apply_tag_ops cx s active (op # ops) = (let (active', s') = apply_tag_op cx s active op in apply_tag_ops cx s' active' ops)"

fun add_source_tags :: "session \<Rightarrow> id list \<Rightarrow> id list \<Rightarrow> id list \<times> session" where
  "add_source_tags s active [] = (active, s)"
| "add_source_tags s active (t # ts) =
     (let (active', s') = (if t \<in> set active then (active, s) else canonicalize_tag_refs s (active @ [t]) True None)
      in add_source_tags s' active' ts)"

definition session_persona_patch :: "meta_decision \<Rightarrow> dict" where
  "session_persona_patch meta = (case dict_get ''persona_patch'' (md_session_update meta) of Some (JObj d) \<Rightarrow> d | _ \<Rightarrow> [])"

definition patched_state :: "session \<Rightarrow> context_package \<Rightarrow> meta_decision \<Rightarrow> state_row \<Rightarrow> state_row \<times> session" where
  "patched_state s cx meta st0 =
     (let (st, s1) = ensure_state_default_tag s st0;
          score = clamp_score (st_relation_score st + md_relation_delta meta);
          persona = dict_merge (st_persona st) (md_persona_patch meta);
          (active, s2) = apply_tag_ops cx s1 (st_active_tags st) (md_tag_ops meta);
          (score', persona', active', s3) =
            (case (re_event_type (cx_event cx) = ''merge'', source_state cx) of
               (True, Some src) \<Rightarrow>
                 let (a, s') = add_source_tags s2 active (st_active_tags src)
                 in (clamp_score (half (score + st_relation_score src)), dict_merge (st_persona src) persona, a, s')
             | _ \<Rightarrow> (score, persona, active, s2))
      in (st\<lparr>st_relation_score := score', st_persona := dict_merge persona' (session_persona_patch meta), st_active_tags := active'\<rparr>, s3))"

definition apply_state_patch :: "session \<Rightarrow> context_package \<Rightarrow> meta_decision \<Rightarrow> (state_row \<times> session) result" where
  "apply_state_patch s cx meta =
     (case state_of s cx of
        None \<Rightarrow> Inl (AttributeError ''session_state'')
      | Some st0 \<Rightarrow>
          let (st, s1) = patched_state s cx meta st0
          in Inr (st, s1\<lparr>states := row_put st_id (st_id st)
               (\<lambda>x. x\<lparr>st_relation_score := st_relation_score st, st_persona := st_persona st, st_active_tags := st_active_tags st\<rparr>)
               (states s1)\<rparr>))"

definition build_state_snapshot :: "state_row \<Rightarrow> dict" where
  "build_state_snapshot st =
     [(''relation_score'', JInt (st_relation_score st)), (''persona_json'', JObj (st_persona st)),
      (''active_tags'', JList (map JStr (st_active_tags st))),
      (''current_wakeup_task_id'', json_opt_str (st_current_wakeup_task_id st))]"

definition publish_snapshot :: "world \<Rightarrow> state_row \<Rightarrow> id \<Rightarrow> id option \<Rightarrow> id option \<Rightarrow> world result" where
  "publish_snapshot w st action_id cocoon_id chat_group_id =
     bind_r (target_channel_key cocoon_id chat_group_id) (\<lambda>channel_key.
     Inr (publish w channel_key
       ([(''type'', JStr ''state_patch''), (''action_id'', JStr action_id), (''cocoon_id'', json_opt_str cocoon_id),
         (''chat_group_id'', json_opt_str chat_group_id)] @ build_state_snapshot st)))"

definition apply_and_publish :: "world \<Rightarrow> context_package \<Rightarrow> meta_decision \<Rightarrow> id \<Rightarrow> world result" where
  "apply_and_publish w cx meta action_id =
     bind_r (apply_state_patch (db w) cx meta) (\<lambda>(st, s).
     publish_snapshot (w\<lparr>db := s\<rparr>) st action_id (re_cocoon_id (cx_event cx)) (re_chat_group_id (cx_event cx)))"

section \<open>Tasks and facts\<close>

text \<open>
  \<open>datetime.fromisoformat\<close> is an argument: the wall-clock time of a text and its offset from UTC, if it
  names one. The keyword extractor and the embedding services come with the memory environment.
\<close>

record runtime_env =
  rv_memory :: memory_env
  rv_audit :: audit_settings
  rv_iso :: "string \<Rightarrow> (time \<times> time option) option"

text \<open>The offset is dropped, not applied.\<close>

definition parse_timestamp :: "runtime_env \<Rightarrow> string option \<Rightarrow> time option" where
  "parse_timestamp v raw =
     (let value = py_strip (or_else raw [])
      in if value = [] then None
         else map_option fst (rv_iso v (concat (map (\<lambda>c. if c = CHR ''Z'' then ''+00:00'' else [c]) value))))"

definition patch_task :: "runtime_env \<Rightarrow> time \<Rightarrow> dict \<Rightarrow> task_state_row \<Rightarrow> task_state_row" where
  "patch_task v now payload t =
     (let keep = (\<lambda>k old. case dict_str_opt k payload of None \<Rightarrow> old | Some x \<Rightarrow> Some x);
          t1 = t\<lparr>ts_task_name := keep ''task_name'' (ts_task_name t), ts_goal := keep ''goal'' (ts_goal t),
                 ts_progress := keep ''progress'' (ts_progress t),
                 ts_status := (case dict_str_opt ''status'' payload of None \<Rightarrow> ts_status t | Some x \<Rightarrow> x),
                 ts_meta := (case dict_get ''meta_json'' payload of Some (JObj d) \<Rightarrow> dict_merge (ts_meta t) d | _ \<Rightarrow> ts_meta t)\<rparr>;
          t2 = (if dict_truthy ''completed'' payload then t1\<lparr>ts_completed_at := Some now, ts_status := ''completed''\<rparr> else t1)
      in case parse_timestamp v (dict_str_opt ''expires_at'' payload) of
           None \<Rightarrow> t2 | Some e \<Rightarrow> t2\<lparr>ts_expires_at := Some e\<rparr>)"

definition apply_task_state_patch :: "runtime_env \<Rightarrow> session \<Rightarrow> context_package \<Rightarrow> meta_decision \<Rightarrow> session result" where
  "apply_task_state_patch v s cx meta =
     (let payload = md_task_state_update meta
      in if payload = [] then Inr s
         else bind_r (case cx_task_state_id cx of
                Some i \<Rightarrow> Inr (i, s)
              | None \<Rightarrow> bind_r (ensure_target_task_state s (re_cocoon_id (cx_event cx)) (re_chat_group_id (cx_event cx))) (\<lambda>(t, s').
                        Inr (ts_id t, s'))) (\<lambda>(i, s1).
              Inr (s1\<lparr>task_states := row_put ts_id i (patch_task v (utcnow s1) payload) (task_states s1)\<rparr>)))"

fun apply_fact_cache_ops :: "runtime_env \<Rightarrow> session \<Rightarrow> runtime_event \<Rightarrow> fact_operation list \<Rightarrow> string list \<times> session" where
  "apply_fact_cache_ops v s ev [] = ([], s)"
| "apply_fact_cache_ops v s ev (op # ops) =
     (let s1 = (if fo_op op = ''delete''
                then delete_fact_cache_entry s (fo_cache_key op) (re_cocoon_id ev) (re_chat_group_id ev)
                else snd (upsert_fact_cache_entry s (fo_cache_key op) (fo_content op) (fo_summary op)
                       (parse_timestamp v (fo_valid_until op)) (fo_meta op) (re_cocoon_id ev) (re_chat_group_id ev)));
          (applied, s2) = apply_fact_cache_ops v s1 ev ops
      in (fo_cache_key op # applied, s2))"

section \<open>Messages\<close>

definition ensure_action_is_writable :: "session \<Rightarrow> id \<Rightarrow> unit result" where
  "ensure_action_is_writable s action_id =
     (case row_get a_id action_id (actions s) of
        Some a \<Rightarrow> if a_status a = ActRunning then Inr ()
                  else Inl (RuntimeActionAbortedError (''Action '' @ action_id @ '' is no longer writable''))
      | None \<Rightarrow> Inl (OtherException ''Could not refresh instance''))"

definition persist_message ::
  "session \<Rightarrow> context_package \<Rightarrow> id \<Rightarrow> string \<Rightarrow> string \<Rightarrow> bool \<Rightarrow> string option \<Rightarrow> message_row \<times> session" where
  "persist_message s cx action_id role content is_thought note =
     (let active = active_tags_of s cx;
          m = \<lparr>m_id = new_id s, m_cocoon_id = re_cocoon_id (cx_event cx), m_chat_group_id = re_chat_group_id (cx_event cx),
               m_action_id = Some action_id, m_client_request_id = None, m_sender_user_id = None, m_external_sender_id = None,
               m_external_sender_display_name = None, m_role = role, m_content = content, m_is_thought = is_thought,
               m_is_retracted = False, m_retracted_at = None, m_retracted_by_user_id = None, m_retraction_note = note,
               m_tags = active, m_created_at = utcnow s\<rparr>
      in (m, add_message_tags ((take_id s)\<lparr>messages := row_add m (messages s)\<rparr>) (m_id m) active))"

definition persist_thought_message :: "session \<Rightarrow> context_package \<Rightarrow> id \<Rightarrow> meta_decision \<Rightarrow> (message_row \<times> session) result" where
  "persist_thought_message s cx action_id meta =
     bind_r (ensure_action_is_writable s action_id) (\<lambda>_.
     let thought = py_strip (md_internal_thought meta); summary = py_strip (or_else (md_event_summary meta) [])
     in Inr (persist_message s cx action_id ''assistant''
               (if thought = [] then ''Structured meta decision completed.'' else thought) True
               (if summary = [] then None else Some summary)))"

definition persist_generated_message ::
  "session \<Rightarrow> context_package \<Rightarrow> id \<Rightarrow> generation_output \<Rightarrow> (message_row \<times> session) result" where
  "persist_generated_message s cx action_id g =
     bind_r (ensure_action_is_writable s action_id) (\<lambda>_.
     Inr (persist_message s cx action_id
            (if re_event_type (cx_event cx) = ''pull'' \<or> re_event_type (cx_event cx) = ''merge'' then ''system'' else ''assistant'')
            (go_reply_text g) False None))"

section \<open>Memory operations\<close>

definition normalize_memory_pool :: "context_package \<Rightarrow> string option \<Rightarrow> string" where
  "normalize_memory_pool cx raw =
     (let value = py_strip (or_else raw [])
      in if value \<in> {''tree_private'', ''user_global'', ''room_local''} then value
         else if value = ''public'' then ''user_global''
         else if event_target_type (cx_event cx) = ''chat_group'' then ''room_local'' else ''tree_private'')"

definition catalog_tag :: "dict \<Rightarrow> string \<Rightarrow> string" where
  "catalog_tag payload tag =
     (if dict_str ''id'' payload \<noteq> [] then dict_str ''id'' payload
      else if dict_str ''tag_id'' payload \<noteq> [] then dict_str ''tag_id'' payload else tag)"

definition names_tag :: "string \<Rightarrow> dict \<Rightarrow> bool" where
  "names_tag normalized payload =
     (let meta = (case dict_get ''meta_json'' payload of Some (JObj d) \<Rightarrow> d | _ \<Rightarrow> [])
      in list_ex (\<lambda>c. case c of Some t \<Rightarrow> py_lower (py_strip t) = normalized | None \<Rightarrow> False)
           [dict_str_opt ''id'' payload, dict_str_opt ''tag_id'' payload, dict_str_opt ''brief'' payload, dict_str_opt ''name'' meta])"

definition resolve_tag_reference :: "context_package \<Rightarrow> string \<Rightarrow> string" where
  "resolve_tag_reference cx raw =
     (let tag = py_strip raw
      in if tag = [] then []
         else case map_of (cx_tag_catalog_by_ref cx) tag of
                Some direct \<Rightarrow> catalog_tag direct tag
              | None \<Rightarrow>
                  case List.find (names_tag (py_lower tag)) (map snd (cx_tag_catalog_by_ref cx)) of
                    Some payload \<Rightarrow> catalog_tag payload tag
                  | None \<Rightarrow> tag)"

definition resolve_memory_op_tags :: "context_package \<Rightarrow> memory_operation \<Rightarrow> id list" where
  "resolve_memory_op_tags cx op =
     foldl (\<lambda>resolved raw. let t = resolve_tag_reference cx raw in if t \<noteq> [] \<and> t \<notin> set resolved then resolved @ [t] else resolved)
       [] (mo_tags op)"

definition resolve_memory_owner_user_id :: "session \<Rightarrow> context_package \<Rightarrow> id option" where
  "resolve_memory_owner_user_id s cx =
     (let normalized = py_strip (or_else (cx_memory_owner_user_id cx) [])
      in if normalized \<noteq> [] \<and> normalized \<in> u_id ` set (users s) then Some normalized else None)"

definition set_memory_status :: "time \<Rightarrow> string \<Rightarrow> memory_row \<Rightarrow> memory_row" where
  "set_memory_status now st m = (if mem_status m = st then m else m\<lparr>mem_status := st, mem_updated_at := now\<rparr>)"

definition mark_memories :: "session \<Rightarrow> string \<Rightarrow> id list \<Rightarrow> session" where
  "mark_memories s st ids =
     s\<lparr>memories := map (\<lambda>m. if mem_id m \<in> set ids then set_memory_status (utcnow s) st m else m) (memories s)\<rparr>"

definition int_or :: "int \<Rightarrow> int \<Rightarrow> int" where
  "int_or n dflt = (if n = 0 then dflt else n)"

definition new_memory ::
  "runtime_env \<Rightarrow> session \<Rightarrow> context_package \<Rightarrow> memory_operation \<Rightarrow> id option \<Rightarrow> id option \<Rightarrow> string \<Rightarrow> string option \<Rightarrow> id list \<Rightarrow> memory_row" where
  "new_memory v s cx op source_message_id owner content summary tag_ids =
     \<lparr>mem_id = new_id s, mem_cocoon_id = re_cocoon_id (cx_event cx), mem_chat_group_id = re_chat_group_id (cx_event cx),
      mem_owner_user_id = owner, mem_character_id = Some (cx_character_id cx), mem_source_message_id = source_message_id,
      mem_memory_pool = normalize_memory_pool cx (mo_memory_pool op), mem_memory_type = mo_memory_type op, mem_scope = ''memory'',
      mem_content = content, mem_summary = summary, mem_tags = tag_ids,
      mem_importance = max 3 (min 5 (int_or (mo_importance op) 3)), mem_confidence = max 1 (min 5 (int_or (mo_confidence op) 3)),
      mem_status = ''active'', mem_valid_until = parse_timestamp v (mo_valid_until op), mem_last_accessed_at = None,
      mem_access_count = 0, mem_source_kind = ''runtime_analysis'', mem_meta = [], mem_embedding_ref = None,
      mem_created_at = utcnow s, mem_updated_at = utcnow s\<rparr>"

definition updated_memory ::
  "runtime_env \<Rightarrow> session \<Rightarrow> context_package \<Rightarrow> memory_operation \<Rightarrow> string \<Rightarrow> string option \<Rightarrow> id list \<Rightarrow> memory_row \<Rightarrow> memory_row" where
  "updated_memory v s cx op content summary tag_ids m =
     m\<lparr>mem_content := content, mem_summary := summary, mem_tags := tag_ids,
       mem_importance := max 3 (min 5 (int_or (int_or (mo_importance op) (mem_importance m)) 3)),
       mem_confidence := max 1 (min 5 (int_or (int_or (mo_confidence op) (mem_confidence m)) 3)),
       mem_memory_type := mo_memory_type op, mem_memory_pool := normalize_memory_pool cx (mo_memory_pool op),
       mem_status := ''active'', mem_valid_until := parse_timestamp v (mo_valid_until op), mem_updated_at := utcnow s\<rparr>"

definition op_meta :: "context_package \<Rightarrow> id \<Rightarrow> memory_operation \<Rightarrow> memory_row \<Rightarrow> dict" where
  "op_meta cx action_id op m =
     dict_merge (mem_meta m)
       [(''action_id'', JStr action_id), (''event_type'', JStr (re_event_type (cx_event cx))),
        (''target_type'', JStr (event_target_type (cx_event cx))), (''target_id'', JStr (event_target_id (cx_event cx))),
        (''source_kind'', JStr (mem_source_kind m)), (''reason'', json_opt_str (mo_reason op))]"

text \<open>The candidate branch and the branch that writes a memory, each with the memories it touched.\<close>

definition memory_op_candidate ::
  "runtime_env \<Rightarrow> session \<Rightarrow> context_package \<Rightarrow> id \<Rightarrow> memory_operation \<Rightarrow> string \<Rightarrow> string option \<Rightarrow> id list \<Rightarrow> int \<Rightarrow> int \<Rightarrow>
     (id list \<times> session) result" where
  "memory_op_candidate v s cx action_id op content summary tag_ids promote_hits ttl_hours =
     bind_r (upsert_candidate s
       \<lparr>ca_cocoon_id = re_cocoon_id (cx_event cx), ca_chat_group_id = re_chat_group_id (cx_event cx),
        ca_owner_user_id = resolve_memory_owner_user_id s cx, ca_character_id = Some (cx_character_id cx),
        ca_memory_pool = normalize_memory_pool cx (mo_memory_pool op), ca_memory_type = mo_memory_type op,
        ca_summary = summary, ca_content = content, ca_tags = tag_ids,
        ca_importance = max 0 (min 2 (int_or (mo_importance op) 2)), ca_confidence = max 1 (min 5 (int_or (mo_confidence op) 2)),
        ca_ttl_hours = ttl_hours,
        ca_meta = [(''action_id'', JStr action_id), (''reason'', json_opt_str (mo_reason op)), (''source_kind'', JStr ''runtime_analysis'')]\<rparr>)
       (\<lambda>(c, s1).
        if promote_hits \<le> mc_hit_count c
        then bind_r (promote_candidate_to_memory (rv_memory v) s1 c ''candidate_promotion'') (\<lambda>(i, s2). Inr ([i], s2))
        else Inr ([], s1))"

definition store_memory ::
  "runtime_env \<Rightarrow> session \<Rightarrow> context_package \<Rightarrow> memory_operation \<Rightarrow> id option \<Rightarrow> string \<Rightarrow> string option \<Rightarrow> id list \<Rightarrow> memory_row \<times> session" where
  "store_memory v s cx op source_message_id content summary tag_ids =
     (let target = (if mo_op op = ''update'' \<and> truthy (mo_target_memory_id op)
                    then row_get mem_id (str_of (mo_target_memory_id op)) (memories s) else None)
      in case target of
           None \<Rightarrow>
             let m = new_memory v s cx op source_message_id (resolve_memory_owner_user_id s cx) content summary tag_ids
             in (m, (take_id s)\<lparr>memories := row_add m (memories s)\<rparr>)
         | Some m \<Rightarrow>
             let f = updated_memory v s cx op content summary tag_ids
             in (f m, s\<lparr>memories := row_put mem_id (mem_id m) f (memories s),
                        memory_tags := row_del_where (\<lambda>t. mmt_memory_chunk_id t = mem_id m) (memory_tags s)\<rparr>))"

definition memory_op_write ::
  "runtime_env \<Rightarrow> session \<Rightarrow> context_package \<Rightarrow> id \<Rightarrow> memory_operation \<Rightarrow> id option \<Rightarrow> string \<Rightarrow> string option \<Rightarrow> id list \<Rightarrow>
     (id list \<times> session) result" where
  "memory_op_write v s cx action_id op source_message_id content summary tag_ids =
     (let (m, s1) = store_memory v s cx op source_message_id content summary tag_ids;
          meta = op_meta cx action_id op m;
          s2 = s1\<lparr>memories := row_put mem_id (mem_id m) (\<lambda>x. x\<lparr>mem_meta := meta\<rparr>) (memories s1)\<rparr>;
          s3 = add_memory_tags s2 (mem_id m) tag_ids
      in bind_r (index_memory_chunk (rv_memory v) s3 (m\<lparr>mem_meta := meta\<rparr>) (or_content summary content) meta) (\<lambda>s4.
         Inr ([mem_id m], mark_memories s4 ''contradicted'' (mo_supersedes op))))"

definition archive_memories :: "session \<Rightarrow> memory_operation \<Rightarrow> id list \<times> session" where
  "archive_memories s op =
     (let target = (if truthy (mo_target_memory_id op) then row_get mem_id (str_of (mo_target_memory_id op)) (memories s) else None);
          hit = (case target of None \<Rightarrow> [] | Some m \<Rightarrow> [mem_id m])
      in (hit, mark_memories s ''archived'' (hit @ mo_supersedes op)))"

definition persist_memory_op ::
  "runtime_env \<Rightarrow> session \<Rightarrow> context_package \<Rightarrow> id \<Rightarrow> id option \<Rightarrow> int \<Rightarrow> int \<Rightarrow> memory_operation \<Rightarrow> (id list \<times> session) result" where
  "persist_memory_op v s cx action_id source_message_id promote_hits ttl_hours op =
     (if mo_op op = ''archive'' then Inr (archive_memories s op)
      else let content = py_strip (mo_content op);
               summary_text = py_strip (or_else (mo_summary op) []);
               summary = (if summary_text = [] then None else Some summary_text);
               named = resolve_memory_op_tags cx op;
               tag_ids = (if named = [] then active_tags_of s cx else named)
           in if content = [] then Inr ([], s)
              else if mo_op op = ''candidate'' \<or> mo_importance op < 3
              then memory_op_candidate v s cx action_id op content summary tag_ids promote_hits ttl_hours
              else memory_op_write v s cx action_id op source_message_id content summary tag_ids)"

fun memory_op_loop ::
  "runtime_env \<Rightarrow> session \<Rightarrow> context_package \<Rightarrow> id \<Rightarrow> id option \<Rightarrow> int \<Rightarrow> int \<Rightarrow> memory_operation list \<Rightarrow> (id list \<times> session) result" where
  "memory_op_loop v s cx action_id src hits ttl [] = Inr ([], s)"
| "memory_op_loop v s cx action_id src hits ttl (op # ops) =
     bind_r (persist_memory_op v s cx action_id src hits ttl op) (\<lambda>(ids, s1).
     bind_r (memory_op_loop v s1 cx action_id src hits ttl ops) (\<lambda>(ids', s2). Inr (ids @ ids', s2)))"

definition persist_memory_ops ::
  "runtime_env \<Rightarrow> session \<Rightarrow> context_package \<Rightarrow> id \<Rightarrow> memory_operation list \<Rightarrow> id option \<Rightarrow> (id list \<times> session) result" where
  "persist_memory_ops v s cx action_id ops source_message_id =
     bind_r (dict_int_or ''candidate_promote_hits'' 2 (cx_memory_profile cx)) (\<lambda>hits.
     bind_r (dict_int_or ''candidate_ttl_hours'' 72 (cx_memory_profile cx)) (\<lambda>ttl.
     memory_op_loop v s cx action_id source_message_id hits ttl ops))"

section \<open>Replies to messaging platforms\<close>

definition action_target_type :: "action_row \<Rightarrow> string" where
  "action_target_type a = (if truthy (a_chat_group_id a) then ''chat_group'' else ''cocoon'')"

definition action_target_id :: "action_row \<Rightarrow> id option" where
  "action_target_id a = (if truthy (a_chat_group_id a) then a_chat_group_id a else a_cocoon_id a)"

definition json_or_null :: "string \<Rightarrow> dict \<Rightarrow> json" where
  "json_or_null k d = (case dict_get k d of None \<Rightarrow> JNull | Some v \<Rightarrow> v)"

definition enqueue_single_reply ::
  "session \<Rightarrow> id \<Rightarrow> action_row \<Rightarrow> message_row \<Rightarrow> json \<Rightarrow> json \<Rightarrow> json \<Rightarrow> json \<Rightarrow> json \<Rightarrow> json \<Rightarrow> dict \<Rightarrow> session" where
  "enqueue_single_reply s plugin_id a m account conversation external_message sender sender_name source_message metadata =
     (take_id s)\<lparr>im_outbox := row_add
       \<lparr>ob_id = new_id s, ob_plugin_id = plugin_id, ob_action_id = Some (a_id a), ob_message_id = Some (m_id m), ob_status = ''queued'',
        ob_payload =
          [(''plugin_id'', JStr plugin_id), (''action_id'', JStr (a_id a)), (''message_id'', JStr (m_id m)),
           (''target_type'', JStr (action_target_type a)), (''target_id'', json_opt_str (action_target_id a)),
           (''reply_text'', JStr (m_content m)), (''source_message_id'', source_message), (''external_account_id'', account),
           (''external_conversation_id'', conversation), (''external_message_id'', external_message),
           (''external_sender_id'', sender), (''external_sender_display_name'', sender_name),
           (''metadata_json'', JObj metadata), (''created_at'', JStr (isoformat_utc (utcnow s)))],
        ob_attempt_count = 0, ob_next_attempt_at = Some (utcnow s), ob_delivered_at = None, ob_last_error_text = None,
        ob_created_at = utcnow s\<rparr> (im_outbox s)\<rparr>"

definition enqueue_route :: "action_row \<Rightarrow> message_row \<Rightarrow> session \<Rightarrow> im_route_row \<Rightarrow> session" where
  "enqueue_route a m s r =
     enqueue_single_reply s (ir_plugin_id r) a m (JStr (ir_external_account_id r)) (JStr (ir_external_conversation_id r))
       JNull JNull JNull JNull (ir_route_metadata r)"

definition enqueue_reply :: "session \<Rightarrow> action_row \<Rightarrow> message_row \<Rightarrow> session" where
  "enqueue_reply s a m =
     (let payload = a_payload a
      in if dict_str ''source_kind'' payload = ''plugin_im''
         then let plugin_id = py_strip (dict_str ''source_plugin_id'' payload)
              in if plugin_id = [] then s
                 else enqueue_single_reply s plugin_id a m (json_or_null ''external_account_id'' payload)
                        (json_or_null ''external_conversation_id'' payload) (json_or_null ''external_message_id'' payload)
                        (json_or_null ''external_sender_id'' payload) (json_or_null ''external_sender_display_name'' payload)
                        (json_or_null ''message_id'' payload)
                        (case dict_get ''im_metadata_json'' payload of Some (JObj d) \<Rightarrow> d | _ \<Rightarrow> [])
         else if py_strip (a_event_type a) \<noteq> ''wakeup'' \<or> \<not> truthy (action_target_id a) then s
         else foldl (enqueue_route a m) s
                (sort_key ir_created_at (filter (\<lambda>r. ir_target_type r = action_target_type a \<and>
                   Some (ir_target_id r) = action_target_id a) (im_routes s))))"

section \<open>Delivering the reply\<close>

definition round_event :: "context_package \<Rightarrow> id \<Rightarrow> string \<Rightarrow> dict \<Rightarrow> dict" where
  "round_event cx action_id kind extra =
     [(''type'', JStr kind), (''action_id'', JStr action_id)] @ extra @
     [(''cocoon_id'', json_opt_str (re_cocoon_id (cx_event cx))), (''chat_group_id'', json_opt_str (re_chat_group_id (cx_event cx)))]"

fun publish_chunks :: "world \<Rightarrow> context_package \<Rightarrow> id \<Rightarrow> string list \<Rightarrow> world result" where
  "publish_chunks w cx action_id [] = Inr w"
| "publish_chunks w cx action_id (c # cs) =
     bind_r (ensure_action_is_writable (db w) action_id) (\<lambda>_.
     publish_chunks (publish w (event_channel_key (cx_event cx)) (round_event cx action_id ''reply_chunk'' [(''text'', JStr c)])) cx action_id cs)"

definition record_reply :: "runtime_env \<Rightarrow> world \<Rightarrow> id \<Rightarrow> id \<Rightarrow> generation_output \<Rightarrow> id \<Rightarrow> world" where
  "record_reply v w run_id step_id g message_id =
     (let (artifact, w1) = record_json_artifact (rv_audit v) w run_id (Some step_id) ''generator_output''
            [(''final_message_id'', JStr message_id), (''content'', JStr (go_reply_text g)), (''structured_output'', JObj (go_structured_output g))]
            (Some ''Assistant reply snapshot'')
            (dict_merge [(''provider_kind'', JStr (go_provider_kind g)), (''model_name'', JStr (go_model_name g))] (go_usage g))
      in w1\<lparr>db := snd (record_link (db w1) run_id ''produced_by'' None (Some step_id) (Some (aa_id artifact)) None)\<rparr>)"

definition deliver_reply ::
  "runtime_env \<Rightarrow> world \<Rightarrow> context_package \<Rightarrow> action_row \<Rightarrow> id \<Rightarrow> id \<Rightarrow> generation_output \<Rightarrow> (message_row \<times> world) result" where
  "deliver_reply v w cx a run_id step_id g =
     (let channel = event_channel_key (cx_event cx)
      in bind_r (ensure_action_is_writable (db w) (a_id a)) (\<lambda>_.
         bind_r (publish_chunks (publish w channel (round_event cx (a_id a) ''reply_started'' [])) cx (a_id a) (go_chunks g)) (\<lambda>w1.
         bind_r (ensure_action_is_writable (db w1) (a_id a)) (\<lambda>_.
         bind_r (persist_generated_message (db w1) cx (a_id a) g) (\<lambda>(m, s2).
         let w2 = publish (w1\<lparr>db := enqueue_reply s2 a m\<rparr>) channel
                    (round_event cx (a_id a) ''reply_done'' [(''final_message_id'', JStr (m_id m))])
         in Inr (m, record_reply v w2 run_id step_id g (m_id m)))))))"

section \<open>Closing the round\<close>

definition record_side_effects_result ::
  "runtime_env \<Rightarrow> world \<Rightarrow> id \<Rightarrow> id \<Rightarrow> state_row \<Rightarrow> action_row \<Rightarrow> id option \<Rightarrow> id option \<Rightarrow> id list \<Rightarrow> dict \<Rightarrow> world" where
  "record_side_effects_result v w run_id step_id st a message_id thought_id memory_ids scheduler_result =
     snd (record_json_artifact (rv_audit v) w run_id (Some step_id) ''side_effects_result''
       (dict_merge (build_state_snapshot st)
          [(''action_id'', JStr (a_id a)), (''event_type'', JStr (a_event_type a)), (''target_type'', JStr (action_target_type a)),
           (''target_id'', json_opt_str (action_target_id a)), (''final_message_id'', json_opt_str message_id),
           (''thought_message_id'', json_opt_str thought_id), (''memory_chunk_ids'', JList (map JStr memory_ids)),
           (''used_memory_ids'', case dict_get ''used_memory_ids'' (a_payload a) of Some (JList xs) \<Rightarrow> JList xs | _ \<Rightarrow> JList []),
           (''scheduler_result'', JObj scheduler_result)])
       (Some ''Round side effects result'')
       [(''action_id'', JStr (a_id a)), (''event_type'', JStr (a_event_type a)), (''relation_score'', JInt (st_relation_score st))])"

definition finish_action :: "session \<Rightarrow> id \<Rightarrow> id \<Rightarrow> action_status \<Rightarrow> string option \<Rightarrow> session result" where
  "finish_action s action_id run_id status error_text =
     (case row_get a_id action_id (actions s) of
        None \<Rightarrow> Inl (OtherException ''Could not refresh instance'')
      | Some a \<Rightarrow>
          if a_status a \<noteq> ActRunning then Inr s
          else Inr (finish_run (put_action s action_id
                 (\<lambda>x. x\<lparr>a_status := status, a_error_text := error_text, a_finished_at := Some (utcnow s)\<rparr>)) run_id status))"

end
