(* ===== verification/Scheduler.thy ===== *)
theory Scheduler
  imports SideEffects
begin

text \<open>
  What a round schedules for later (\<open>services/runtime/scheduling/scheduler_node.py\<close>): the wakeups the
  language model asks for, one wakeup after a silence, and the compaction of a full context window.
\<close>

definition DEFAULT_IDLE_WAKEUP_DELAY_SECONDS :: int where "DEFAULT_IDLE_WAKEUP_DELAY_SECONDS = 5 * 60"
definition FREQUENT_COCOON_IDLE_WAKEUP_DELAY_SECONDS :: int where "FREQUENT_COCOON_IDLE_WAKEUP_DELAY_SECONDS = 2 * 60"

section \<open>Hints\<close>

text \<open>A hint is a JSON object, so a \<open>run_at\<close> that is not a string is no date.\<close>

definition resolve_run_at :: "runtime_env \<Rightarrow> time \<Rightarrow> dict \<Rightarrow> time result" where
  "resolve_run_at v now hint =
     (if dict_truthy ''run_at'' hint
      then (case rv_iso v (dict_str ''run_at'' hint) of
              None \<Rightarrow> Inl (ValueError ''Invalid isoformat string'')
            | Some (t, offset) \<Rightarrow> Inr (case offset of None \<Rightarrow> t | Some o1 \<Rightarrow> t - o1))
      else if dict_truthy ''delay_seconds'' hint then bind_r (dict_int_or ''delay_seconds'' 0 hint) (\<lambda>n. Inr (now + seconds n))
      else if dict_truthy ''delay_minutes'' hint then bind_r (dict_int_or ''delay_minutes'' 0 hint) (\<lambda>n. Inr (now + minutes n))
      else if dict_truthy ''delay_hours'' hint then bind_r (dict_int_or ''delay_hours'' 0 hint) (\<lambda>n. Inr (now + hours n))
      else Inl (ValueError ''wakeup hint must define run_at or a delay''))"

definition hint_payload :: "dict \<Rightarrow> dict result" where
  "hint_payload hint =
     (let v = (if dict_truthy ''payload_json'' hint then json_or_null ''payload_json'' hint
               else if dict_truthy ''payload'' hint then json_or_null ''payload'' hint else JObj [])
      in case v of JObj d \<Rightarrow> Inr d | _ \<Rightarrow> Inl (TypeError ''cannot convert to a dictionary''))"

definition add_owner :: "context_package \<Rightarrow> (string \<Rightarrow> json \<Rightarrow> dict \<Rightarrow> dict) \<Rightarrow> dict \<Rightarrow> dict" where
  "add_owner cx put d =
     (let d1 = (if dict_truthy ''timezone'' (re_payload (cx_event cx))
                then put ''timezone'' (json_or_null ''timezone'' (re_payload (cx_event cx))) d else d)
      in if truthy (cx_memory_owner_user_id cx) then put ''memory_owner_user_id'' (JStr (str_of (cx_memory_owner_user_id cx))) d1 else d1)"

definition hint_entries :: "context_package \<Rightarrow> dict \<Rightarrow> dict" where
  "hint_entries cx d =
     add_owner cx dict_setdefault
       (dict_setdefault ''source_event_type'' (JStr (re_event_type (cx_event cx)))
         (dict_setdefault ''source_action_id'' (JStr (re_action_id (cx_event cx)))
           (dict_setdefault ''scheduled_by'' (JStr ''meta_node'') d)))"

text \<open>
  \<open>None\<close> for a hint that is skipped: no reason, or no time that can be read.
\<close>

definition schedule_hint :: "runtime_env \<Rightarrow> session \<Rightarrow> context_package \<Rightarrow> dict \<Rightarrow> ((id \<times> id) option \<times> session) result" where
  "schedule_hint v s cx hint =
     (let reason = py_strip (dict_str ''reason'' hint)
      in if reason = [] then Inr (None, s)
         else case resolve_run_at v (utcnow s) hint of
                Inl _ \<Rightarrow> Inr (None, s)
              | Inr run_at \<Rightarrow>
                  bind_r (hint_payload hint) (\<lambda>payload.
                  bind_r (schedule_wakeup s (Some run_at) (re_cocoon_id (cx_event cx)) (re_chat_group_id (cx_event cx))
                            (Some reason) (hint_entries cx payload)) (\<lambda>((task, job), s').
                  Inr (Some (w_id task, j_id job), s'))))"

fun schedule_hints :: "runtime_env \<Rightarrow> session \<Rightarrow> context_package \<Rightarrow> dict list \<Rightarrow> ((id \<times> id) list \<times> session) result" where
  "schedule_hints v s cx [] = Inr ([], s)"
| "schedule_hints v s cx (h # hs) =
     bind_r (schedule_hint v s cx h) (\<lambda>(made, s1).
     bind_r (schedule_hints v s1 cx hs) (\<lambda>(rest, s2).
     Inr ((case made of None \<Rightarrow> rest | Some p \<Rightarrow> p # rest), s2)))"

section \<open>Silence\<close>

definition should_schedule_idle_wakeup :: "session \<Rightarrow> context_package \<Rightarrow> meta_decision \<Rightarrow> bool" where
  "should_schedule_idle_wakeup s cx meta \<longleftrightarrow>
     re_event_type (cx_event cx) = ''chat'' \<and> md_next_wakeup_hints meta = [] \<and>
     list_pending_wakeup_tasks s (re_cocoon_id (cx_event cx)) (re_chat_group_id (cx_event cx)) = []"

text \<open>A number that cannot be read counts as no match.\<close>

definition int_test :: "(int \<Rightarrow> bool) \<Rightarrow> string \<Rightarrow> dict \<Rightarrow> bool" where
  "int_test P k d = (case dict_get k d of None \<Rightarrow> False | Some JNull \<Rightarrow> False
                     | Some v \<Rightarrow> (case json_int v of Inl _ \<Rightarrow> False | Inr n \<Rightarrow> P n))"

definition recent_dialogue :: "message_row list \<Rightarrow> message_row list" where
  "recent_dialogue ms =
     (let ds = filter (\<lambda>m. (m_role m = ''user'' \<or> m_role m = ''assistant'') \<and> \<not> m_is_retracted m) ms
      in drop (length ds - 6) ds)"

definition resolve_idle_wakeup_delay_seconds :: "context_package \<Rightarrow> int" where
  "resolve_idle_wakeup_delay_seconds cx =
     (if event_target_type (cx_event cx) \<noteq> ''cocoon'' then DEFAULT_IDLE_WAKEUP_DELAY_SECONDS
      else let payload = re_payload (cx_event cx); recent = recent_dialogue (cx_visible_messages cx)
           in if int_test (\<lambda>n. 3 \<le> n) ''recent_turn_count'' payload then FREQUENT_COCOON_IDLE_WAKEUP_DELAY_SECONDS
              else if int_test (\<lambda>n. n \<le> 120) ''idle_seconds'' payload then FREQUENT_COCOON_IDLE_WAKEUP_DELAY_SECONDS
              else if 4 \<le> length recent \<and> m_created_at (last recent) - m_created_at (hd recent) \<le> minutes 15
              then FREQUENT_COCOON_IDLE_WAKEUP_DELAY_SECONDS else DEFAULT_IDLE_WAKEUP_DELAY_SECONDS)"

definition idle_reason :: "time \<Rightarrow> int \<Rightarrow> string" where
  "idle_reason since delay =
     ''The conversation has been quiet since '' @ isoformat since @ '' UTC; check back after about '' @
     int_str (delay div 60) @ '' minute(s).''"

definition idle_payload :: "context_package \<Rightarrow> time \<Rightarrow> int \<Rightarrow> dict" where
  "idle_payload cx since delay =
     add_owner cx dict_set
       [(''scheduled_by'', JStr ''idle_timeout_default''), (''trigger_kind'', JStr ''idle_timeout''),
        (''source_action_id'', JStr (re_action_id (cx_event cx))), (''source_event_type'', JStr (re_event_type (cx_event cx))),
        (''silence_started_at'', JStr (isoformat since)), (''silence_delay_seconds'', JInt delay),
        (''silence_deadline_at'', JStr (isoformat (since + seconds delay))),
        (''idle_summary'', JStr (''The conversation stopped at '' @ isoformat since @ '' UTC and has been idle for about '' @
           int_str (delay div 60) @ '' minute(s).''))]"

definition schedule_idle_wakeup :: "session \<Rightarrow> context_package \<Rightarrow> ((wakeup_row \<times> job_row) \<times> session) result" where
  "schedule_idle_wakeup s cx =
     (let since = utcnow s; delay = resolve_idle_wakeup_delay_seconds cx
      in schedule_wakeup s (Some (since + seconds delay)) (re_cocoon_id (cx_event cx)) (re_chat_group_id (cx_event cx))
           (Some (idle_reason since delay)) (idle_payload cx since delay))"

section \<open>Compaction\<close>

text \<open>\<open>math.ceil(n * 0.8)\<close>: the product of the nearest float rounds to the exact one for integers of this size.\<close>

definition compress_count :: "nat \<Rightarrow> int \<Rightarrow> int" where
  "compress_count visible max_context = min (int visible - 1) (max 1 \<lceil>of_int max_context * 4 / (5 :: rat)\<rceil>)"

definition resolve_compaction_retain_from :: "context_package \<Rightarrow> id option" where
  "resolve_compaction_retain_from cx =
     (let ms = cx_visible_messages cx; n = compress_count (length ms) (max_context_messages (cx_conversation cx))
      in if length ms < 2 then None
         else if n \<le> 0 \<or> int (length ms) \<le> n then None else Some (m_id (ms ! nat n)))"

definition schedule_compaction :: "session \<Rightarrow> context_package \<Rightarrow> string \<Rightarrow> job_row option \<times> session" where
  "schedule_compaction s cx reason =
     (if event_target_type (cx_event cx) \<noteq> ''cocoon'' \<or> \<not> auto_compaction_enabled (cx_conversation cx) \<or> cx_visible_messages cx = []
      then (None, s)
      else case resolve_compaction_retain_from cx of
             None \<Rightarrow> (None, s)
           | Some i \<Rightarrow>
               if i = [] then (None, s)
               else let (job, s') = enqueue_job s JobCompaction (''cocoon:'' @ conversation_id (cx_conversation cx) @ '':compaction'')
                          [(''before_message_id'', JStr i), (''reason'', JStr reason)] (Some (conversation_id (cx_conversation cx))) None None
                    in (Some job, s'))"

section \<open>The node\<close>

record schedule_result =
  sr_cancelled :: "id list"
  sr_wakeups :: "(id \<times> id) list"
  sr_compaction_job_id :: "id option"

definition schedule_result_json :: "schedule_result \<Rightarrow> dict" where
  "schedule_result_json r =
     [(''wakeup_task_id'', case sr_wakeups r of [] \<Rightarrow> JNull | p # _ \<Rightarrow> JStr (fst p)),
      (''wakeup_job_id'', case sr_wakeups r of [] \<Rightarrow> JNull | p # _ \<Rightarrow> JStr (snd p)),
      (''wakeup_task_ids'', JList (map (JStr \<circ> fst) (sr_wakeups r))), (''wakeup_job_ids'', JList (map (JStr \<circ> snd) (sr_wakeups r))),
      (''cancelled_wakeup_task_ids'', JList (map JStr (sr_cancelled r))),
      (''compaction_job_id'', json_opt_str (sr_compaction_job_id r))]"

definition schedule_round :: "runtime_env \<Rightarrow> session \<Rightarrow> context_package \<Rightarrow> meta_decision \<Rightarrow> (schedule_result \<times> session) result" where
  "schedule_round v s cx meta =
     (let c = re_cocoon_id (cx_event cx); g = re_chat_group_id (cx_event cx)
      in bind_r (if md_cancel_wakeup_task_ids meta = [] then Inr ([], s)
                 else cancel_wakeup_tasks s c g (Some (md_cancel_wakeup_task_ids meta)) None
                        (Some (''Cancelled by meta node during action '' @ re_action_id (cx_event cx)))) (\<lambda>(cancelled, s1).
         bind_r (schedule_hints v s1 cx (md_next_wakeup_hints meta)) (\<lambda>(made, s2).
         bind_r (if should_schedule_idle_wakeup s2 cx meta
                 then bind_r (schedule_idle_wakeup s2 cx) (\<lambda>((task, job), s'). Inr (made @ [(w_id task, j_id job)], s'))
                 else Inr (made, s2)) (\<lambda>(wakeups_made, s3).
         let (job, s4) = (if event_target_type (cx_event cx) = ''cocoon'' \<and>
                             max_context_messages (cx_conversation cx) \<le> int (length (cx_visible_messages cx))
                          then schedule_compaction s3 cx ''window_limit'' else (None, s3))
         in bind_r (sync_current_wakeup_task_id s4 c g) (\<lambda>(_, s5).
            Inr (\<lparr>sr_cancelled = map w_id cancelled, sr_wakeups = wakeups_made, sr_compaction_job_id = map_option j_id job\<rparr>, s5))))))"

end
