(* ===== verification/Context.thy ===== *)
theory Context
  imports Scheduler
begin

text \<open>
  The context of a round (\<open>services/runtime/context\<close>): the window of messages, what a pull or
  merge brings in, and the package that the nodes of the round read. \<open>session.info\<close> holds the service
  container in sessions of the HTTP API and is empty in those of the worker; that is the argument
  \<open>container\<close>.
\<close>

section \<open>The message window\<close>

definition trim_to_context_start :: "message_row list \<Rightarrow> id option \<Rightarrow> message_row list" where
  "trim_to_context_start ms start =
     (let rest = dropWhile (\<lambda>m. m_id m \<noteq> str_of start) ms
      in if \<not> truthy start \<or> rest = [] then ms else rest)"

definition by_age :: "message_row list \<Rightarrow> message_row list" where
  "by_age = sort_key (\<lambda>m. (m_created_at m, m_id m))"

definition lineage_anchor :: "id \<Rightarrow> id option \<Rightarrow> cocoon_row \<Rightarrow> id option" where
  "lineage_anchor cocoon_id start c =
     (if c_id c = cocoon_id \<and> start \<noteq> None then start else c_context_start_message_id c)"

definition list_cocoon_lineage_messages :: "session \<Rightarrow> id \<Rightarrow> id option \<Rightarrow> message_row list" where
  "list_cocoon_lineage_messages s cocoon_id start =
     (case list_cocoon_lineage s cocoon_id of
        [] \<Rightarrow> trim_to_context_start (by_age (filter (\<lambda>m. m_cocoon_id m = Some cocoon_id) (messages s))) start
      | lineage \<Rightarrow>
          concat (map (\<lambda>c. trim_to_context_start (by_age (filter (\<lambda>m. m_cocoon_id m = Some (c_id c)) (messages s)))
                             (lineage_anchor cocoon_id start c)) lineage))"

text \<open>\<open>xs[-n:]\<close>\<close>

definition py_last :: "int \<Rightarrow> 'a list \<Rightarrow> 'a list" where
  "py_last n xs = (if 0 < n then drop (length xs - nat n) xs else drop (nat (- n)) xs)"

definition message_visible_in_room :: "session \<Rightarrow> id \<Rightarrow> message_row \<Rightarrow> bool" where
  "message_visible_in_room s room m =
     list_all (\<lambda>i. case row_get t_id i (tags s) of None \<Rightarrow> True
                   | Some t \<Rightarrow> is_tag_visible_in_target s t ''chat_group'' room) (m_tags m)"

definition message_has_tag :: "session \<Rightarrow> id list \<Rightarrow> message_row \<Rightarrow> bool" where
  "message_has_tag s active m \<longleftrightarrow>
     m_tags m = [] \<or> list_ex (\<lambda>t. mt_message_id t = m_id m \<and> mt_tag_id t \<in> set active) (message_tags s) \<or>
     list_ex (\<lambda>i. i \<in> set active) (m_tags m)"

definition recent_messages ::
  "session \<Rightarrow> int \<Rightarrow> id option \<Rightarrow> id option \<Rightarrow> id option \<Rightarrow> message_row list result" where
  "recent_messages s max_context cocoon_id chat_group_id start =
     (if truthy cocoon_id then Inr (py_last max_context (list_cocoon_lineage_messages s (str_of cocoon_id) start))
      else bind_r (build_target_filter cocoon_id chat_group_id) (\<lambda>matches.
           bind_r (sql_limit max_context (sort_key (\<lambda>m. - m_created_at m)
             (filter (\<lambda>m. matches (m_cocoon_id m) (m_chat_group_id m)) (messages s)))) (\<lambda>ms. Inr (rev ms))))"

definition list_visible_messages ::
  "session \<Rightarrow> int \<Rightarrow> id list \<Rightarrow> id option \<Rightarrow> id option \<Rightarrow> id option \<Rightarrow> message_row list result" where
  "list_visible_messages s max_context active cocoon_id chat_group_id start =
     bind_r (recent_messages s max_context cocoon_id chat_group_id start) (\<lambda>recent.
     let visible = (if truthy chat_group_id then filter (message_visible_in_room s (str_of chat_group_id)) recent else recent);
         filtered = filter (message_has_tag s active) visible
     in Inr (if active = [] \<or> filtered = [] then visible else filtered))"

section \<open>Pull and merge\<close>

definition tag_id_of_ref :: "session \<Rightarrow> string \<Rightarrow> id" where
  "tag_id_of_ref s r = (case get_tag_by_any_ref s r None of None \<Rightarrow> r | Some t \<Rightarrow> t_id t)"

definition tags_bound_to :: "session \<Rightarrow> id option \<Rightarrow> id list" where
  "tags_bound_to s cocoon_id =
     map (\<lambda>b. tag_id_of_ref s (ct_tag_id b)) (filter (\<lambda>b. Some (ct_cocoon_id b) = cocoon_id) (cocoon_tags s))"

definition carried_over :: "session \<Rightarrow> id list \<Rightarrow> id list \<Rightarrow> bool" where
  "carried_over s bound refs = list_all (\<lambda>r. tag_id_of_ref s r \<in> set bound) refs"

definition load_source ::
  "memory_env \<Rightarrow> session \<Rightarrow> runtime_event \<Rightarrow> cocoon_row \<Rightarrow> (external_source \<times> session) result" where
  "load_source e s ev source =
     bind_r (get_session_state s (Some (c_id source)) None) (\<lambda>(state, s1).
     let active = (case state of None \<Rightarrow> [] | Some st \<Rightarrow> st_active_tags st) in
     bind_r (list_visible_messages s1 (c_max_context_messages source) active (Some (c_id source)) None
               (c_context_start_message_id source)) (\<lambda>ms.
     bind_r (get_visible_memories e s1 active (Some (c_id source)) None None (Some (c_id source)) [] 5 []) (\<lambda>mems.
     let bound = tags_bound_to s1 (re_cocoon_id ev)
     in Inr (\<lparr>xs_cocoon = source, xs_state = state, xs_messages = filter (\<lambda>m. carried_over s1 bound (m_tags m)) ms,
              xs_memories = filter (\<lambda>m. carried_over s1 bound (mem_tags m)) mems\<rparr>, s1))))"

definition external_context ::
  "memory_env \<Rightarrow> session \<Rightarrow> runtime_event \<Rightarrow> ((dict option \<times> external_source option) \<times> session) result" where
  "external_context e s ev =
     (if re_event_type ev = ''wakeup'' then Inr ((Some (re_payload ev), None), s)
      else if re_event_type ev \<noteq> ''pull'' \<and> re_event_type ev \<noteq> ''merge'' then Inr ((None, None), s)
      else let i = dict_str ''source_cocoon_id'' (re_payload ev)
           in if i = [] then Inr ((None, None), s)
              else case row_get c_id i (cocoons s) of
                     None \<Rightarrow> Inr ((None, None), s)
                   | Some source \<Rightarrow> bind_r (load_source e s ev source) (\<lambda>(x, s1). Inr ((None, Some x), s1)))"

text \<open>The entry \<open>merge_context\<close> of a merge round.\<close>

definition merge_context :: "external_source \<Rightarrow> dict" where
  "merge_context x =
     [(''source_cocoon'', JObj [(''id'', JStr (c_id (xs_cocoon x))), (''name'', JStr (c_name (xs_cocoon x)))]),
      (''source_state'', JObj
        [(''relation_score'', JInt (case xs_state x of None \<Rightarrow> 0 | Some st \<Rightarrow> st_relation_score st)),
         (''persona_json'', JObj (case xs_state x of None \<Rightarrow> [] | Some st \<Rightarrow> st_persona st)),
         (''active_tags_json'', JList (case xs_state x of None \<Rightarrow> [] | Some st \<Rightarrow> map JStr (st_active_tags st)))]),
      (''source_messages'', JList (map (\<lambda>m. JObj [(''role'', JStr (m_role m)), (''content'', JStr (m_content m))]) (xs_messages x))),
      (''source_memories'', JList (map (\<lambda>m. JObj [(''scope'', JStr (mem_scope m)), (''summary'', json_opt_str (mem_summary m)),
          (''content'', JStr (mem_content m))]) (xs_memories x)))]"

section \<open>The package\<close>

fun conversation_character_id :: "conversation \<Rightarrow> id" where
  "conversation_character_id (InCocoon c) = c_character_id c"
| "conversation_character_id (InRoom r) = rm_character_id r"

fun conversation_owner_user_id :: "conversation \<Rightarrow> id" where
  "conversation_owner_user_id (InCocoon c) = c_owner_user_id c"
| "conversation_owner_user_id (InRoom r) = rm_owner_user_id r"

fun conversation_memory_profile :: "conversation \<Rightarrow> string" where
  "conversation_memory_profile (InCocoon c) = c_memory_profile c"
| "conversation_memory_profile (InRoom r) = rm_memory_profile r"

fun conversation_context_start :: "conversation \<Rightarrow> id option" where
  "conversation_context_start (InCocoon c) = c_context_start_message_id c"
| "conversation_context_start (InRoom r) = None"

definition resolve_conversation :: "session \<Rightarrow> runtime_event \<Rightarrow> conversation result" where
  "resolve_conversation s ev =
     (if truthy (re_chat_group_id ev)
      then (case row_get rm_id (str_of (re_chat_group_id ev)) (rooms s) of
              None \<Rightarrow> Inl (ValueError (''Chat group room not found: '' @ str_of (re_chat_group_id ev)))
            | Some r \<Rightarrow> Inr (InRoom r))
      else case (case re_cocoon_id ev of None \<Rightarrow> None | Some i \<Rightarrow> row_get c_id i (cocoons s)) of
             None \<Rightarrow> Inl (ValueError (''Cocoon not found: '' @ or_else (re_cocoon_id ev) ''None''))
           | Some c \<Rightarrow> Inr (InCocoon c))"

definition resolve_context_owner :: "runtime_event \<Rightarrow> conversation \<Rightarrow> message_row list \<Rightarrow> id option" where
  "resolve_context_owner ev conv ms =
     (let d = re_payload ev; own = conversation_owner_user_id conv
      in Some (if dict_truthy ''memory_owner_user_id'' d then dict_str ''memory_owner_user_id'' d
               else if dict_truthy ''sender_user_id'' d then dict_str ''sender_user_id'' d
               else if event_target_type ev = ''cocoon'' then own
               else if dict_truthy ''external_sender_id'' d \<or> dict_truthy ''external_sender_display_name'' d then own
               else case List.find (\<lambda>m. m_role m = ''user'' \<and> truthy (m_sender_user_id m)) (rev ms) of
                      None \<Rightarrow> own | Some m \<Rightarrow> str_of (m_sender_user_id m)))"

definition resolve_query_text :: "runtime_event \<Rightarrow> message_row list \<Rightarrow> string option" where
  "resolve_query_text ev ms =
     (let kind = re_event_type ev; d = re_payload ev; source = dict_str ''source_cocoon_id'' d
      in if kind = ''chat''
         then map_option m_content (List.find (\<lambda>m. m_role m = ''user'' \<and> \<not> m_is_retracted m) (rev ms))
         else if kind = ''pull'' \<or> kind = ''merge''
         then (if source = [] then None else Some (kind @ '':'' @ source))
         else if kind = ''wakeup''
         then Some (if dict_truthy ''reason'' d then dict_str ''reason'' d else ''scheduled wakeup'')
         else None)"

definition resolve_memory_profile :: "bool \<Rightarrow> session \<Rightarrow> conversation \<Rightarrow> dict \<times> session" where
  "resolve_memory_profile container s conv =
     (let name = conversation_memory_profile conv
      in if container then get_memory_profile s (Some name)
         else let profile_name = (if name = [] then ''meta_reply'' else name)
              in (dict_set ''name'' (JStr profile_name)
                    (profile_of DEFAULT_MEMORY_PROFILES
                      (if dict_get profile_name DEFAULT_MEMORY_PROFILES \<noteq> None then profile_name else ''meta_reply'')), s))"

definition user_timezone :: "session \<Rightarrow> id \<Rightarrow> string option" where
  "user_timezone s user_id =
     (case row_get u_id user_id (users s) of
        None \<Rightarrow> None
      | Some u \<Rightarrow> if py_strip (u_timezone u) = [] then None else Some (py_strip (u_timezone u)))"

definition resolve_runtime_timezone_fallback :: "session \<Rightarrow> conversation \<Rightarrow> id option \<Rightarrow> string option" where
  "resolve_runtime_timezone_fallback s conv owner =
     (let candidates = filter (\<lambda>i. i \<noteq> []) [py_strip (or_else owner []), py_strip (conversation_owner_user_id conv)]
      in case List.find (\<lambda>i. user_timezone s i \<noteq> None) candidates of None \<Rightarrow> None | Some i \<Rightarrow> user_timezone s i)"

definition tag_payload :: "session \<Rightarrow> runtime_event \<Rightarrow> tag_row \<Rightarrow> dict" where
  "tag_payload s ev t =
     [(''id'', JStr (t_id t)), (''tag_id'', JStr (t_tag_id t)), (''brief'', JStr (t_brief t)), (''visibility'', JStr (t_visibility t)),
      (''is_isolated'', JBool (t_is_isolated t)), (''is_system'', JBool (t_is_system t)),
      (''visible_in_target'', JBool (is_tag_visible_in_target s t (event_target_type ev) (event_target_id ev))),
      (''meta_json'', JObj (t_meta t))]"

text \<open>Both spreads into one dictionary: the keys that are identifiers first, then the names.\<close>

definition tag_catalog_by_ref :: "session \<Rightarrow> runtime_event \<Rightarrow> (string \<times> dict) list" where
  "tag_catalog_by_ref s ev =
     (let owner = resolve_tag_owner_user_id_for_target s (re_cocoon_id ev) (re_chat_group_id ev);
          owned = (if truthy owner then filter (\<lambda>t. Some (t_owner_user_id t) = owner) (tags s) else [])
      in foldl (\<lambda>d (k, v). dict_set k v d) []
           (map (\<lambda>t. (t_id t, tag_payload s ev t)) owned @ map (\<lambda>t. (t_tag_id t, tag_payload s ev t)) owned))"

definition build_context :: "memory_env \<Rightarrow> bool \<Rightarrow> session \<Rightarrow> runtime_event \<Rightarrow> (context_package \<times> session) result" where
  "build_context e container s ev =
     (let c = re_cocoon_id ev; g = re_chat_group_id ev in
      bind_r (resolve_conversation s ev) (\<lambda>conv.
      case row_get ch_id (conversation_character_id conv) (characters s) of
        None \<Rightarrow> Inl (ValueError (''Character not found: '' @ conversation_character_id conv))
      | Some character \<Rightarrow>
          bind_r (ensure_session_state s c g) (\<lambda>(state, s1).
          bind_r (get_target_task_state s1 c g) (\<lambda>task.
          let (profile, s2) = resolve_memory_profile container s1 conv; active = st_active_tags state in
          bind_r (list_visible_messages s2 (max_context_messages conv) active c g (conversation_context_start conv)) (\<lambda>ms.
          let owner = resolve_context_owner ev conv ms;
              lookup_owner = (if event_target_type ev = ''cocoon'' then None else owner);
              read_facts = (case dict_get ''read_fact_cache'' profile of None \<Rightarrow> True | Some v \<Rightarrow> json_truthy v) in
          bind_r (if read_facts then list_fact_cache_entries s2 c g 5 else Inr []) (\<lambda>facts.
          bind_r (retrieve_visible_memories e s2 active c g lookup_owner (resolve_query_text ev ms) [] 5 profile) (\<lambda>hits.
          bind_r (external_context e s2 ev) (\<lambda>((wakeup, source), s3).
          let ((catalog, by_index), s4) = serialize_prompt_tag_catalog s3 (event_target_type ev) (event_target_id ev) in
          Inr (\<lparr>cx_event = ev, cx_conversation = conv, cx_character_id = ch_id character, cx_state_id = st_id state,
                cx_task_state_id = map_option ts_id task, cx_visible_messages = ms, cx_memory_hits = hits,
                cx_memory_profile = profile, cx_memory_owner_user_id = owner, cx_fact_entries = facts,
                cx_wakeup_context = wakeup, cx_source = source,
                cx_timezone_fallback = resolve_runtime_timezone_fallback s3 conv owner,
                cx_pending_wakeups = list_pending_wakeup_tasks s3 c g, cx_tag_catalog_by_ref = tag_catalog_by_ref s3 ev,
                cx_prompt_tag_catalog = catalog, cx_prompt_catalog = map (\<lambda>(i, tag_id, _). (i, tag_id)) by_index\<rparr>, s4)))))))))"

end
