(* ===== verification/ChatRuntime.thy ===== *)
theory ChatRuntime
  imports Context
begin

text \<open>
  One round (\<open>services/runtime/orchestration/chat_runtime.py\<close>): the graph of nodes from the
  prepared event to the finished action. The three calls of the language model, inline, meta and
  generation, are arguments; they write their own prompt and answer artifacts.
\<close>

section \<open>Computations on the world\<close>

text \<open>
  An exception does not undo what was published before it, so a computation always returns a
  world; the worker is the one that rolls the database back.
\<close>

type_synonym 'a act = "world \<Rightarrow> (py_exc + 'a) \<times> world"

definition act_return :: "'a \<Rightarrow> 'a act" where
  "act_return x w = (Inr x, w)"

definition act_bind :: "'a act \<Rightarrow> ('a \<Rightarrow> 'b act) \<Rightarrow> 'b act" where
  "act_bind m f w = (case m w of (Inl e, w') \<Rightarrow> (Inl e, w') | (Inr x, w') \<Rightarrow> f x w')"

text \<open>Operations that return a result: on the world, on the database, and reading the database.\<close>

definition act_world :: "(world \<Rightarrow> ('a \<times> world) result) \<Rightarrow> 'a act" where
  "act_world f w = (case f w of Inl e \<Rightarrow> (Inl e, w) | Inr (x, w') \<Rightarrow> (Inr x, w'))"

definition act_db :: "(session \<Rightarrow> ('a \<times> session) result) \<Rightarrow> 'a act" where
  "act_db f w = (case f (db w) of Inl e \<Rightarrow> (Inl e, w) | Inr (x, s) \<Rightarrow> (Inr x, w\<lparr>db := s\<rparr>))"

definition act_get :: "(session \<Rightarrow> 'a result) \<Rightarrow> 'a act" where
  "act_get f w = (f (db w), w)"

definition act_do :: "(session \<Rightarrow> session result) \<Rightarrow> unit act" where
  "act_do f w = (case f (db w) of Inl e \<Rightarrow> (Inl e, w) | Inr s \<Rightarrow> (Inr (), w\<lparr>db := s\<rparr>))"

definition act_pure :: "(world \<Rightarrow> 'a \<times> world) \<Rightarrow> 'a act" where
  "act_pure f w = (case f w of (x, w') \<Rightarrow> (Inr x, w'))"

section \<open>The language model\<close>

record llm_nodes =
  ln_generate_inline :: "context_package \<Rightarrow> id \<Rightarrow> id \<Rightarrow> string \<Rightarrow> (meta_decision \<times> generation_output) act"
  ln_evaluate :: "context_package \<Rightarrow> id \<Rightarrow> id \<Rightarrow> meta_decision act"
  ln_generate :: "context_package \<Rightarrow> meta_decision \<Rightarrow> id \<Rightarrow> id \<Rightarrow> generation_output act"

section \<open>Artifacts\<close>

definition json_opt_rat :: "rat option \<Rightarrow> json" where
  "json_opt_rat x = (case x of None \<Rightarrow> JNull | Some r \<Rightarrow> JNum r)"

definition hit_payload :: "memory_hit \<Rightarrow> dict" where
  "hit_payload h =
     (let m = h_memory h
      in [(''memory_chunk_id'', JStr (mem_id m)), (''memory_pool'', JStr (mem_memory_pool m)), (''memory_type'', JStr (mem_memory_type m)),
          (''scope'', JStr (mem_scope m)), (''summary'', json_opt_str (mem_summary m)), (''content_preview'', JStr (take 200 (mem_content m))),
          (''similarity_score'', json_opt_rat (h_similarity h)), (''final_score'', JNum (h_final_score h)),
          (''score_breakdown'', JObj (map (\<lambda>(k, v). (k, JNum v)) (h_breakdown h))), (''importance'', JInt (mem_importance m)),
          (''confidence'', JInt (mem_confidence m)), (''status'', JStr (mem_status m)),
          (''matched_tags'', JList (map JStr (h_matched_tags h))), (''embedding_provider_id'', json_opt_str (h_embedding_provider_id h))])"

definition fact_op_json :: "fact_operation \<Rightarrow> json" where
  "fact_op_json op =
     JObj [(''op'', JStr (fo_op op)), (''cache_key'', JStr (fo_cache_key op)), (''content'', JStr (fo_content op)),
           (''summary'', json_opt_str (fo_summary op)), (''valid_until'', json_opt_str (fo_valid_until op)), (''meta_json'', JObj (fo_meta op))]"

definition memory_op_json :: "memory_operation \<Rightarrow> json" where
  "memory_op_json op =
     JObj [(''op'', JStr (mo_op op)), (''content'', JStr (mo_content op)), (''summary'', json_opt_str (mo_summary op)),
           (''memory_type'', JStr (mo_memory_type op)), (''memory_pool'', json_opt_str (mo_memory_pool op)),
           (''tags'', JList (map JStr (mo_tags op))), (''importance'', JInt (mo_importance op)), (''confidence'', JInt (mo_confidence op)),
           (''reason'', json_opt_str (mo_reason op)), (''valid_until'', json_opt_str (mo_valid_until op)),
           (''target_memory_id'', json_opt_str (mo_target_memory_id op)), (''supersedes_memory_ids'', JList (map JStr (mo_supersedes op)))]"

definition meta_payload :: "meta_decision \<Rightarrow> dict" where
  "meta_payload m =
     [(''decision'', JStr (md_decision m)), (''relation_delta'', JInt (md_relation_delta m)), (''persona_patch'', JObj (md_persona_patch m)),
      (''tag_ops'', JList (map (\<lambda>op. JObj [(''action'', JStr (to_action op)), (''tag_index'', JInt (int (to_tag_index op)))]) (md_tag_ops m))),
      (''internal_thought'', JStr (md_internal_thought m)), (''event_summary'', json_opt_str (md_event_summary m)),
      (''next_wakeup_hints'', JList (map JObj (md_next_wakeup_hints m))),
      (''cancel_wakeup_task_ids'', JList (map JStr (md_cancel_wakeup_task_ids m))),
      (''generation_brief'', json_opt_str (md_generation_brief m)), (''used_memory_ids'', JList (map JStr (md_used_memory_ids m))),
      (''session_update'', JObj (md_session_update m)), (''task_state_update'', JObj (md_task_state_update m)),
      (''fact_cache_ops'', JList (map fact_op_json (md_fact_cache_ops m))), (''memory_ops'', JList (map memory_op_json (md_memory_ops m))),
      (''request_mode'', JStr (md_request_mode m))]"

section \<open>Operations of the nodes\<close>

text \<open>The operations of the services with the database, or the world, as the last argument.\<close>

definition context_in :: "runtime_env \<Rightarrow> bool \<Rightarrow> runtime_event \<Rightarrow> session \<Rightarrow> (context_package \<times> session) result" where
  "context_in v container ev s = build_context (rv_memory v) container s ev"

definition patch_in :: "context_package \<Rightarrow> id \<Rightarrow> meta_decision \<Rightarrow> world \<Rightarrow> (unit \<times> world) result" where
  "patch_in cx action_id meta w = bind_r (apply_and_publish w cx meta action_id) (\<lambda>w'. Inr ((), w'))"

definition task_in :: "runtime_env \<Rightarrow> context_package \<Rightarrow> meta_decision \<Rightarrow> session \<Rightarrow> session result" where
  "task_in v cx meta s = apply_task_state_patch v s cx meta"

definition facts_in :: "runtime_env \<Rightarrow> context_package \<Rightarrow> meta_decision \<Rightarrow> session \<Rightarrow> (string list \<times> session) result" where
  "facts_in v cx meta s = Inr (apply_fact_cache_ops v s (cx_event cx) (md_fact_cache_ops meta))"

definition used_action :: "meta_decision \<Rightarrow> action_row \<Rightarrow> action_row" where
  "used_action meta a = a\<lparr>a_payload := dict_set ''used_memory_ids'' (JList (map JStr (md_used_memory_ids meta))) (a_payload a)\<rparr>"

definition note_used_memories :: "id \<Rightarrow> meta_decision \<Rightarrow> session \<Rightarrow> session result" where
  "note_used_memories action_id meta s = Inr (put_action s action_id (used_action meta))"

definition schedule_in :: "runtime_env \<Rightarrow> context_package \<Rightarrow> meta_decision \<Rightarrow> session \<Rightarrow> (schedule_result \<times> session) result" where
  "schedule_in v cx meta s = schedule_round v s cx meta"

definition thought_in :: "context_package \<Rightarrow> id \<Rightarrow> meta_decision \<Rightarrow> session \<Rightarrow> (message_row \<times> session) result" where
  "thought_in cx action_id meta s = persist_thought_message s cx action_id meta"

definition deliver_in :: "runtime_env \<Rightarrow> context_package \<Rightarrow> action_row \<Rightarrow> id \<Rightarrow> id \<Rightarrow> generation_output \<Rightarrow> world \<Rightarrow> (message_row \<times> world) result" where
  "deliver_in v cx a run_id step g w = deliver_reply v w cx a run_id step g"

definition memories_in :: "runtime_env \<Rightarrow> context_package \<Rightarrow> id \<Rightarrow> meta_decision \<Rightarrow> id option \<Rightarrow> session \<Rightarrow> (id list \<times> session) result" where
  "memories_in v cx action_id meta message_id s = persist_memory_ops v s cx action_id (md_memory_ops meta) message_id"

definition result_in ::
  "runtime_env \<Rightarrow> id \<Rightarrow> id \<Rightarrow> state_row \<Rightarrow> action_row \<Rightarrow> id option \<Rightarrow> id \<Rightarrow> id list \<Rightarrow> dict \<Rightarrow> world \<Rightarrow> unit \<times> world" where
  "result_in v run_id step st a message_id thought_id memory_ids scheduled w =
     ((), record_side_effects_result v w run_id step st a message_id (Some thought_id) memory_ids scheduled)"

definition importance_boost :: "context_package \<Rightarrow> rat result" where
  "importance_boost cx =
     (if dict_truthy ''access_importance_boost'' (cx_memory_profile cx)
      then dict_float ''access_importance_boost'' 0 (cx_memory_profile cx) else Inr 0)"

definition touch_in :: "context_package \<Rightarrow> meta_decision \<Rightarrow> session \<Rightarrow> session result" where
  "touch_in cx meta s = bind_r (importance_boost cx) (\<lambda>boost. Inr (touch_memories s (md_used_memory_ids meta) boost))"

definition snapshot_in :: "context_package \<Rightarrow> id \<Rightarrow> state_row \<Rightarrow> world \<Rightarrow> (unit \<times> world) result" where
  "snapshot_in cx action_id st w =
     bind_r (publish_snapshot w st action_id (re_cocoon_id (cx_event cx)) (re_chat_group_id (cx_event cx))) (\<lambda>w'. Inr ((), w'))"

definition finish_in :: "id \<Rightarrow> id \<Rightarrow> session \<Rightarrow> session result" where
  "finish_in action_id run_id s = finish_action s action_id run_id ActCompleted None"

text \<open>The action is read again wherever the code reads attributes of the one object.\<close>

definition get_action :: "id \<Rightarrow> session \<Rightarrow> action_row result" where
  "get_action action_id s =
     (case row_get a_id action_id (actions s) of None \<Rightarrow> Inl (OtherException ''Could not refresh instance'') | Some a \<Rightarrow> Inr a)"

definition the_state :: "context_package \<Rightarrow> session \<Rightarrow> state_row result" where
  "the_state cx s = (case state_of s cx of None \<Rightarrow> Inl (AttributeError ''session_state'') | Some st \<Rightarrow> Inr st)"

definition step_in :: "id \<Rightarrow> string \<Rightarrow> session \<Rightarrow> (id \<times> session) result" where
  "step_in run_id name s = (let (step, s1) = start_step s run_id name [] in Inr (au_id step, s1))"

definition open_step :: "id \<Rightarrow> string \<Rightarrow> id act" where
  "open_step run_id name w = act_db (step_in run_id name) w"

definition step_out :: "id \<Rightarrow> session \<Rightarrow> session result" where
  "step_out step_id s = Inr (finish_step s step_id ActCompleted)"

definition close_step :: "id \<Rightarrow> unit act" where
  "close_step step_id w = act_do (step_out step_id) w"

definition save_artifact :: "runtime_env \<Rightarrow> id \<Rightarrow> id \<Rightarrow> string \<Rightarrow> dict \<Rightarrow> string option \<Rightarrow> dict \<Rightarrow> unit act" where
  "save_artifact v run_id step_id kind payload summary metadata w =
     (Inr (), snd (record_json_artifact (rv_audit v) w run_id (Some step_id) kind payload summary metadata))"

section \<open>Nodes\<close>

definition save_hits :: "runtime_env \<Rightarrow> id \<Rightarrow> id \<Rightarrow> context_package \<Rightarrow> unit act" where
  "save_hits v run_id step cx w =
     save_artifact v run_id step ''memory_retrieval'' [(''hits'', JList (map (\<lambda>h. JObj (hit_payload h)) (cx_memory_hits cx)))]
       (Some ''Retrieved memory context'') [(''hit_count'', JInt (int (length (cx_memory_hits cx))))] w"

definition run_context_builder :: "runtime_env \<Rightarrow> bool \<Rightarrow> runtime_event \<Rightarrow> id \<Rightarrow> context_package act" where
  "run_context_builder v container ev run_id w =
     act_bind (open_step run_id ''context_builder'') (\<lambda>step.
     act_bind (act_db (context_in v container ev)) (\<lambda>cx.
     act_bind (save_hits v run_id step cx) (\<lambda>_.
     act_bind (close_step step) (\<lambda>_. act_return cx)))) w"

definition request_mode :: "string \<Rightarrow> context_package \<Rightarrow> string" where
  "request_mode dflt cx =
     (if dict_truthy ''request_mode'' (cx_memory_profile cx) then dict_str ''request_mode'' (cx_memory_profile cx) else dflt)"

definition save_inline_output :: "runtime_env \<Rightarrow> id \<Rightarrow> id \<Rightarrow> string \<Rightarrow> meta_decision \<Rightarrow> unit act" where
  "save_inline_output v run_id step mode meta w =
     save_artifact v run_id step ''meta_output'' (meta_payload meta) None
       [(''decision'', JStr (md_decision meta)), (''request_mode'', JStr mode)] w"

definition run_inline_node ::
  "runtime_env \<Rightarrow> llm_nodes \<Rightarrow> context_package \<Rightarrow> id \<Rightarrow> (meta_decision \<times> generation_output) act" where
  "run_inline_node v n cx run_id w =
     (let mode = request_mode ''reply_only'' cx in
      act_bind (open_step run_id ''inline_node'') (\<lambda>step.
      act_bind (ln_generate_inline n cx run_id step mode) (\<lambda>(meta, g).
      act_bind (save_inline_output v run_id step mode meta) (\<lambda>_.
      act_bind (close_step step) (\<lambda>_. act_return (meta, g))))) w)"

definition save_meta_output :: "runtime_env \<Rightarrow> id \<Rightarrow> id \<Rightarrow> meta_decision \<Rightarrow> unit act" where
  "save_meta_output v run_id step meta w =
     save_artifact v run_id step ''meta_output'' (meta_payload meta) None
       [(''decision'', JStr (md_decision meta)), (''relation_delta'', JInt (md_relation_delta meta)),
        (''wakeups_scheduled'', JInt (int (length (md_next_wakeup_hints meta)))),
        (''wakeups_cancelled'', JInt (int (length (md_cancel_wakeup_task_ids meta))))] w"

definition run_meta_node :: "runtime_env \<Rightarrow> llm_nodes \<Rightarrow> context_package \<Rightarrow> id \<Rightarrow> meta_decision act" where
  "run_meta_node v n cx run_id w =
     act_bind (open_step run_id ''meta_node'') (\<lambda>step.
     act_bind (ln_evaluate n cx run_id step) (\<lambda>meta.
     act_bind (save_meta_output v run_id step meta) (\<lambda>_.
     act_bind (close_step step) (\<lambda>_. act_return meta)))) w"

definition save_schedule :: "runtime_env \<Rightarrow> id \<Rightarrow> id \<Rightarrow> schedule_result \<Rightarrow> unit act" where
  "save_schedule v run_id step r w =
     save_artifact v run_id step ''workflow_summary'' (schedule_result_json r) (Some ''Scheduler result'') (schedule_result_json r) w"

definition run_scheduler_node ::
  "runtime_env \<Rightarrow> context_package \<Rightarrow> id \<Rightarrow> id \<Rightarrow> meta_decision \<Rightarrow> (schedule_result \<times> id) act" where
  "run_scheduler_node v cx action_id run_id meta w =
     act_bind (act_world (patch_in cx action_id meta)) (\<lambda>_.
     act_bind (act_do (task_in v cx meta)) (\<lambda>_.
     act_bind (act_db (facts_in v cx meta)) (\<lambda>_.
     act_bind (act_do (note_used_memories action_id meta)) (\<lambda>_.
     act_bind (open_step run_id ''scheduler_node'') (\<lambda>step.
     act_bind (act_db (schedule_in v cx meta)) (\<lambda>result.
     act_bind (act_db (thought_in cx action_id meta)) (\<lambda>thought.
     act_bind (save_schedule v run_id step result) (\<lambda>_.
     act_bind (close_step step) (\<lambda>_. act_return (result, m_id thought)))))))))) w"

definition generate_in ::
  "llm_nodes \<Rightarrow> context_package \<Rightarrow> meta_decision \<Rightarrow> id \<Rightarrow> id \<Rightarrow> generation_output option \<Rightarrow> generation_output act" where
  "generate_in n cx meta run_id step inline w =
     (case inline of Some g \<Rightarrow> act_return g w | None \<Rightarrow> ln_generate n cx meta run_id step w)"

definition run_generator_node ::
  "runtime_env \<Rightarrow> llm_nodes \<Rightarrow> context_package \<Rightarrow> id \<Rightarrow> id \<Rightarrow> meta_decision \<Rightarrow> generation_output option \<Rightarrow> id act" where
  "run_generator_node v n cx action_id run_id meta inline w =
     act_bind (open_step run_id ''generator_node'') (\<lambda>step.
     act_bind (generate_in n cx meta run_id step inline) (\<lambda>g.
     act_bind (act_get (get_action action_id)) (\<lambda>a.
     act_bind (act_world (deliver_in v cx a run_id step g)) (\<lambda>m.
     act_bind (close_step step) (\<lambda>_. act_return (m_id m)))))) w"

definition run_side_effects_node ::
  "runtime_env \<Rightarrow> context_package \<Rightarrow> id \<Rightarrow> id \<Rightarrow> meta_decision \<Rightarrow> schedule_result \<Rightarrow> id \<Rightarrow> id option \<Rightarrow> unit act" where
  "run_side_effects_node v cx action_id run_id meta scheduled thought_id message_id w =
     act_bind (open_step run_id ''side_effects'') (\<lambda>step.
     act_bind (act_db (memories_in v cx action_id meta message_id)) (\<lambda>memory_ids.
     act_bind (act_get (get_action action_id)) (\<lambda>a.
     act_bind (act_get (the_state cx)) (\<lambda>st.
     act_bind (act_pure (result_in v run_id step st a message_id thought_id memory_ids (schedule_result_json scheduled))) (\<lambda>_.
     act_bind (act_do (touch_in cx meta)) (\<lambda>_.
     act_bind (act_world (snapshot_in cx action_id st)) (\<lambda>_.
     act_bind (close_step step) (\<lambda>_.
     act_do (finish_in action_id run_id))))))))) w"

section \<open>The graph\<close>

definition route_after_context :: "context_package \<Rightarrow> string" where
  "route_after_context cx =
     (if request_mode ''meta_reply'' cx \<in> {''reply_only'', ''single_pass''} then ''inline_node'' else ''meta_node'')"

definition route_after_scheduler :: "meta_decision \<Rightarrow> string" where
  "route_after_scheduler meta = (if md_decision meta \<noteq> ''silence'' then ''generator_node'' else ''side_effects'')"

definition run_decision :: "runtime_env \<Rightarrow> llm_nodes \<Rightarrow> context_package \<Rightarrow> id \<Rightarrow> (meta_decision \<times> generation_output option) act" where
  "run_decision v n cx run_id w =
     (if route_after_context cx = ''inline_node''
      then act_bind (run_inline_node v n cx run_id) (\<lambda>(meta, g). act_return (meta, Some g)) w
      else act_bind (run_meta_node v n cx run_id) (\<lambda>meta. act_return (meta, None)) w)"

definition run_reply ::
  "runtime_env \<Rightarrow> llm_nodes \<Rightarrow> context_package \<Rightarrow> id \<Rightarrow> id \<Rightarrow> meta_decision \<Rightarrow> generation_output option \<Rightarrow> id option act" where
  "run_reply v n cx action_id run_id meta inline w =
     (if route_after_scheduler meta = ''generator_node''
      then act_bind (run_generator_node v n cx action_id run_id meta inline) (\<lambda>m. act_return (Some m)) w
      else act_return None w)"

definition run_graph :: "runtime_env \<Rightarrow> llm_nodes \<Rightarrow> bool \<Rightarrow> runtime_event \<Rightarrow> id \<Rightarrow> id \<Rightarrow> unit act" where
  "run_graph v n container ev action_id run_id w =
     act_bind (run_context_builder v container ev run_id) (\<lambda>cx.
     act_bind (run_decision v n cx run_id) (\<lambda>(meta, inline).
     act_bind (run_scheduler_node v cx action_id run_id meta) (\<lambda>(scheduled, thought_id).
     act_bind (run_reply v n cx action_id run_id meta inline) (\<lambda>message_id.
     run_side_effects_node v cx action_id run_id meta scheduled thought_id message_id)))) w"

definition prepare_in :: "action_row \<Rightarrow> session \<Rightarrow> ((runtime_event \<times> id) \<times> session) result" where
  "prepare_in action s = bind_r (prepare_round s action) (\<lambda>(ev, run, s1). Inr ((ev, ar_id run), s1))"

definition run_round :: "runtime_env \<Rightarrow> llm_nodes \<Rightarrow> bool \<Rightarrow> action_row \<Rightarrow> unit act" where
  "run_round v n container action w =
     act_bind (act_db (prepare_in action)) (\<lambda>(ev, run_id). run_graph v n container ev (a_id action) run_id) w"

text \<open>\<open>str(exc)\<close>\<close>

fun exc_text :: "py_exc \<Rightarrow> string" where
  "exc_text (HTTPException code t) = int_str (int code) @ '': '' @ t"
| "exc_text (ValueError t) = t"
| "exc_text (TypeError t) = t"
| "exc_text (KeyError t) = [CHR 0x27] @ t @ [CHR 0x27]"
| "exc_text (IntegrityError t) = t"
| "exc_text (AttributeError t) = t"
| "exc_text (RuntimeActionAbortedError t) = t"
| "exc_text (OtherException t) = t"

text \<open>What the chat worker sees of a round: sessions of the worker have no container.\<close>

definition chat_runtime :: "runtime_env \<Rightarrow> llm_nodes \<Rightarrow> runtime" where
  "chat_runtime v n w action =
     (case run_round v n False action w of
        (Inr _, w') \<Rightarrow> RunReturned w'
      | (Inl (RuntimeActionAbortedError _), w') \<Rightarrow> RunAborted w'
      | (Inl e, w') \<Rightarrow> RunRaised w' (exc_text e))"

end
