(* ===== verification/Compaction.thy ===== *)
theory Compaction
  imports ChatRuntime
begin

text \<open>
  The jobs that rewrite memories (\<open>worker/jobs\<close>): compaction turns the older part of a conversation into
  memories, reorganization replaces chosen memories by fewer ones, maintenance lets memories fade. The
  language model is an argument: from the kind of job, the model and the variables of the prompt it
  renders and records the prompt, calls the provider, records the answer and parses it.
\<close>

section \<open>Answers of the language model\<close>

record compacted_memory =
  km_scope :: string
  km_summary :: string
  km_content :: string
  km_tag_indexes :: "int list"
  km_importance :: int
  km_confidence :: int
  km_memory_type :: string
  km_memory_pool :: "string option"

record compaction_output =
  ko_summary :: string
  ko_memories :: "compacted_memory list"

text \<open>The call gets the kind of job, the model, the variables, the number of chosen memories, the audit run and step.\<close>

type_synonym summarizer = "string \<Rightarrow> id \<Rightarrow> dict \<Rightarrow> nat \<Rightarrow> id \<Rightarrow> id \<Rightarrow> compaction_output act"

section \<open>The messages to compact\<close>

fun index_of :: "id \<Rightarrow> message_row list \<Rightarrow> nat option" where
  "index_of i [] = None"
| "index_of i (m # ms) = (if m_id m = i then Some 0 else map_option Suc (index_of i ms))"

definition resolve_anchor_index :: "message_row list \<Rightarrow> id option \<Rightarrow> nat" where
  "resolve_anchor_index ms anchor =
     (if \<not> truthy anchor then 0 else case index_of (str_of anchor) ms of None \<Rightarrow> 0 | Some i \<Rightarrow> i)"

definition resolve_message_index :: "message_row list \<Rightarrow> id option \<Rightarrow> nat option" where
  "resolve_message_index ms message_id = (if \<not> truthy message_id then None else index_of (str_of message_id) ms)"

definition default_compaction_selection :: "cocoon_row \<Rightarrow> message_row list \<Rightarrow> nat \<Rightarrow> message_row list \<times> message_row option" where
  "default_compaction_selection c ms start_index =
     (let candidates = drop start_index ms;
          window = py_last (c_max_context_messages c) candidates;
          n = compress_count (length window) (c_max_context_messages c)
      in if length candidates < 2 \<or> length window < 2 then ([], None)
         else if n \<le> 0 \<or> int (length window) \<le> n then ([], None)
         else (take (nat n) window, Some (window ! nat n)))"

definition select_messages_for_compaction ::
  "cocoon_row \<Rightarrow> message_row list \<Rightarrow> id option \<Rightarrow> message_row list \<times> message_row option" where
  "select_messages_for_compaction c ms before_message_id =
     (let start_index = resolve_anchor_index ms (c_context_start_message_id c)
      in if truthy before_message_id
         then case resolve_message_index ms before_message_id of
                None \<Rightarrow> ([], None)
              | Some end_index \<Rightarrow>
                  if end_index \<le> start_index then ([], None)
                  else (take (end_index - start_index) (drop start_index ms), Some (ms ! end_index))
         else default_compaction_selection c ms start_index)"

text \<open>Fewer than two messages end the job like an empty selection does.\<close>

definition compaction_selection :: "cocoon_row \<Rightarrow> id option \<Rightarrow> session \<Rightarrow> message_row list \<times> message_row option" where
  "compaction_selection c before_message_id s =
     (let ms = sort_key m_created_at (filter (\<lambda>m. m_cocoon_id m = Some (c_id c)) (messages s))
      in if length ms < 2 then ([], None) else select_messages_for_compaction c ms before_message_id)"

section \<open>The variables of the prompts\<close>

definition catalog_json :: "catalog_item \<Rightarrow> json" where
  "catalog_json i = JObj [(''index'', JInt (int (ci_index i))), (''id'', JStr (ci_id i)), (''tag_id'', JStr (ci_tag_id i)), (''brief'', JStr (ci_brief i))]"

definition active_tag_json :: "session \<Rightarrow> id \<Rightarrow> id \<Rightarrow> json option" where
  "active_tag_json s owner i =
     (case List.find (\<lambda>t. t_id t = i \<and> t_owner_user_id t = owner) (tags s) of
        None \<Rightarrow> None | Some t \<Rightarrow> Some (JObj [(''tag_id'', JStr (t_tag_id t)), (''brief'', JStr (t_brief t))]))"

definition memory_context :: "session \<Rightarrow> id \<Rightarrow> memory_row list" where
  "memory_context s cocoon_id =
     take 5 (sort_key (\<lambda>m. - mem_created_at m) (filter (\<lambda>m. mem_cocoon_id m = Some cocoon_id \<and> mem_status m = ''active'') (memories s)))"

definition compaction_variables ::
  "session \<Rightarrow> cocoon_row \<Rightarrow> state_row \<Rightarrow> memory_row list \<Rightarrow> catalog_item list \<Rightarrow> message_row list \<Rightarrow> dict" where
  "compaction_variables s c st mems catalog selected =
     [(''session_state'', JObj
        [(''relation_score'', JInt (st_relation_score st)), (''persona'', JObj (st_persona st)),
         (''active_tags'', JList (List.map_filter (active_tag_json s (c_owner_user_id c)) (st_active_tags st)))]),
      (''tag_catalog'', JList (map catalog_json catalog)),
      (''visible_messages'', JList (map (\<lambda>m. JObj [(''role'', JStr (m_role m)), (''content'', JStr (m_content m))]) selected)),
      (''memory_context'', JList (map (\<lambda>m. JObj [(''scope'', JStr (mem_scope m)), (''summary'', json_opt_str (mem_summary m)),
          (''content'', JStr (mem_content m))]) mems))]"

definition selected_memory_json :: "memory_row \<Rightarrow> json" where
  "selected_memory_json m =
     JObj [(''id'', JStr (mem_id m)), (''memory_pool'', JStr (mem_memory_pool m)), (''memory_type'', JStr (mem_memory_type m)),
           (''summary'', json_opt_str (mem_summary m)), (''content'', JStr (mem_content m)),
           (''tags'', JList (map JStr (mem_tags m))), (''importance'', JInt (mem_importance m)), (''confidence'', JInt (mem_confidence m))]"

definition DEFAULT_REORGANIZE_INSTRUCTIONS :: string where
  "DEFAULT_REORGANIZE_INSTRUCTIONS = ''Consolidate overlap, keep distinct durable memory, archive redundant fragments.''"

definition reorganize_variables :: "string option \<Rightarrow> memory_row list \<Rightarrow> catalog_item list \<Rightarrow> dict" where
  "reorganize_variables instructions ms catalog =
     [(''instructions'', JStr (or_else instructions DEFAULT_REORGANIZE_INSTRUCTIONS)),
      (''selected_memories'', JList (map selected_memory_json ms)),
      (''tag_catalog'', JList (map catalog_json catalog))]"

section \<open>Storing what the model returns\<close>

text \<open>The two jobs differ in the names they leave on what they write.\<close>

record rewrite_kind =
  rk_source_kind :: string
  rk_promotion_kind :: string
  rk_candidate_meta :: dict
  rk_memory_meta :: "compacted_memory \<Rightarrow> dict"

definition compaction_kind :: "message_row list \<Rightarrow> string \<Rightarrow> rewrite_kind" where
  "compaction_kind selected summary =
     (let compressed = (''compressed_message_ids'', JList (map (\<lambda>m. JStr (m_id m)) selected));
          origin = (''source_kind'', JStr ''compaction''); about = (''compaction_summary'', JStr (py_strip summary))
      in \<lparr>rk_source_kind = ''compaction'', rk_promotion_kind = ''compaction_candidate_promotion'',
          rk_candidate_meta = [compressed, origin, about],
          rk_memory_meta = (\<lambda>k. [compressed, origin, (''importance'', JInt (km_importance k)), (''confidence'', JInt (km_confidence k)), about])\<rparr>)"

definition reorganize_kind :: "memory_row list \<Rightarrow> rewrite_kind" where
  "reorganize_kind sources =
     \<lparr>rk_source_kind = ''memory_reorganize'', rk_promotion_kind = ''memory_reorganize_candidate_promotion'',
      rk_candidate_meta = [(''source_kind'', JStr ''memory_reorganize'')],
      rk_memory_meta = (\<lambda>k. [(''source_kind'', JStr ''memory_reorganize''), (''source_memory_ids'', JList (map (\<lambda>m. JStr (mem_id m)) sources))])\<rparr>"

definition item_tags :: "session \<Rightarrow> cocoon_row \<Rightarrow> id \<Rightarrow> (nat \<times> id \<times> string) list \<Rightarrow> compacted_memory \<Rightarrow> id list \<times> session" where
  "item_tags s c default_tag_id by_index k =
     canonicalize_tag_refs s
       (default_tag_id # map (\<lambda>(_, i, _). i) (filter (\<lambda>(n, _, _). int n \<in> set (km_tag_indexes k)) by_index))
       True (Some (c_owner_user_id c))"

definition item_pool :: "compacted_memory \<Rightarrow> string" where
  "item_pool k = or_else (km_memory_pool k) ''tree_private''"

definition item_type :: "compacted_memory \<Rightarrow> string" where
  "item_type k = or_else (Some (km_memory_type k)) ''summary''"

definition store_candidate ::
  "memory_env \<Rightarrow> session \<Rightarrow> cocoon_row \<Rightarrow> dict \<Rightarrow> rewrite_kind \<Rightarrow> string \<Rightarrow> string \<Rightarrow> id list \<Rightarrow> compacted_memory \<Rightarrow> (id list \<times> session) result" where
  "store_candidate e s c profile kind summary content tag_ids k =
     bind_r (dict_int_or ''candidate_ttl_hours'' 72 profile) (\<lambda>ttl.
     bind_r (upsert_candidate s
       \<lparr>ca_cocoon_id = Some (c_id c), ca_chat_group_id = None, ca_owner_user_id = Some (c_owner_user_id c),
        ca_character_id = Some (c_character_id c), ca_memory_pool = item_pool k, ca_memory_type = item_type k,
        ca_summary = Some summary, ca_content = content, ca_tags = tag_ids,
        ca_importance = max 0 (min 2 (int_or (km_importance k) 2)), ca_confidence = max 1 (min 5 (int_or (km_confidence k) 3)),
        ca_ttl_hours = ttl, ca_meta = rk_candidate_meta kind\<rparr>) (\<lambda>(cand, s1).
     bind_r (dict_int_or ''candidate_promote_hits'' 2 profile) (\<lambda>hits.
     if hits \<le> mc_hit_count cand
     then bind_r (promote_candidate_to_memory e s1 cand (rk_promotion_kind kind)) (\<lambda>(i, s2). Inr ([i], s2))
     else Inr ([], s1))))"

definition rewritten_memory ::
  "session \<Rightarrow> cocoon_row \<Rightarrow> rewrite_kind \<Rightarrow> string \<Rightarrow> string \<Rightarrow> id list \<Rightarrow> compacted_memory \<Rightarrow> memory_row" where
  "rewritten_memory s c kind summary content tag_ids k =
     \<lparr>mem_id = new_id s, mem_cocoon_id = Some (c_id c), mem_chat_group_id = None, mem_owner_user_id = Some (c_owner_user_id c),
      mem_character_id = Some (c_character_id c), mem_source_message_id = None, mem_memory_pool = item_pool k,
      mem_memory_type = item_type k, mem_scope = or_else (Some (km_scope k)) ''summary'', mem_content = content,
      mem_summary = Some summary, mem_tags = tag_ids, mem_importance = max 3 (min 5 (int_or (km_importance k) 3)),
      mem_confidence = max 1 (min 5 (int_or (km_confidence k) 4)), mem_status = ''active'', mem_valid_until = None,
      mem_last_accessed_at = None, mem_access_count = 0, mem_source_kind = rk_source_kind kind,
      mem_meta = rk_memory_meta kind k, mem_embedding_ref = None, mem_created_at = utcnow s, mem_updated_at = utcnow s\<rparr>"

definition store_rewritten ::
  "memory_env \<Rightarrow> session \<Rightarrow> cocoon_row \<Rightarrow> rewrite_kind \<Rightarrow> string \<Rightarrow> string \<Rightarrow> id list \<Rightarrow> compacted_memory \<Rightarrow> (id list \<times> session) result" where
  "store_rewritten e s c kind summary content tag_ids k =
     (let m = rewritten_memory s c kind summary content tag_ids k;
          s1 = add_memory_tags ((take_id s)\<lparr>memories := row_add m (memories s)\<rparr>) (mem_id m) tag_ids
      in bind_r (index_memory_chunk e s1 m (or_content (mem_summary m) content) (mem_meta m)) (\<lambda>s2. Inr ([mem_id m], s2)))"

text \<open>One answer: without a summary or a content it is skipped, below importance 3 it is a candidate.\<close>

definition store_item ::
  "memory_env \<Rightarrow> session \<Rightarrow> cocoon_row \<Rightarrow> dict \<Rightarrow> rewrite_kind \<Rightarrow> id \<Rightarrow> (nat \<times> id \<times> string) list \<Rightarrow> compacted_memory \<Rightarrow> (id list \<times> session) result" where
  "store_item e s c profile kind default_tag_id by_index k =
     (let summary = py_strip (km_summary k); content = py_strip (km_content k)
      in if summary = [] \<or> content = [] then Inr ([], s)
         else let (tag_ids, s1) = item_tags s c default_tag_id by_index k
              in if km_importance k < 3 then store_candidate e s1 c profile kind summary content tag_ids k
                 else store_rewritten e s1 c kind summary content tag_ids k)"

fun store_items ::
  "memory_env \<Rightarrow> session \<Rightarrow> cocoon_row \<Rightarrow> dict \<Rightarrow> rewrite_kind \<Rightarrow> id \<Rightarrow> (nat \<times> id \<times> string) list \<Rightarrow> compacted_memory list \<Rightarrow> (id list \<times> session) result" where
  "store_items e s c profile kind t by_index [] = Inr ([], s)"
| "store_items e s c profile kind t by_index (k # ks) =
     bind_r (store_item e s c profile kind t by_index k) (\<lambda>(ids, s1).
     bind_r (store_items e s1 c profile kind t by_index ks) (\<lambda>(ids', s2). Inr (ids @ ids', s2)))"

section \<open>Steps of the jobs\<close>

definition job_cocoon :: "id option \<Rightarrow> session \<Rightarrow> cocoon_row result" where
  "job_cocoon cocoon_id s =
     (case row_get_opt c_id cocoon_id (cocoons s) of None \<Rightarrow> Inl (ValueError ''Cocoon not found'') | Some c \<Rightarrow> Inr c)"

definition start_job_audit :: "id \<Rightarrow> string \<Rightarrow> session \<Rightarrow> ((id \<times> id) \<times> session) result" where
  "start_job_audit cocoon_id name s =
     (let (run, s1) = start_run s (Some cocoon_id) None None name; (step, s2) = start_step s1 (ar_id run) name []
      in Inr ((ar_id run, au_id step), s2))"

definition finish_job_audit :: "id \<Rightarrow> id \<Rightarrow> session \<Rightarrow> session result" where
  "finish_job_audit run_id step_id s = Inr (finish_run (finish_step s step_id ActCompleted) run_id ActCompleted)"

text \<open>\<open>session.info["container"]\<close>: only the sessions of API requests have the entry.\<close>

definition job_memory_profile :: "bool \<Rightarrow> cocoon_row \<Rightarrow> session \<Rightarrow> (dict \<times> session) result" where
  "job_memory_profile container c s =
     (if container then Inr (get_memory_profile s (Some (c_memory_profile c))) else Inl (KeyError ''container''))"

definition selection_in :: "cocoon_row \<Rightarrow> id option \<Rightarrow> session \<Rightarrow> (message_row list \<times> message_row option) result" where
  "selection_in c before_message_id s = Inr (compaction_selection c before_message_id s)"

definition job_state :: "cocoon_row \<Rightarrow> session \<Rightarrow> (state_row \<times> session) result" where
  "job_state c s = ensure_session_state s (Some (c_id c)) None"

definition job_catalog :: "cocoon_row \<Rightarrow> session \<Rightarrow> ((catalog_item list \<times> (nat \<times> id \<times> string) list) \<times> session) result" where
  "job_catalog c s = Inr (serialize_prompt_tag_catalog s ''cocoon'' (c_id c))"

definition memory_context_in :: "cocoon_row \<Rightarrow> session \<Rightarrow> memory_row list result" where
  "memory_context_in c s = Inr (memory_context s (c_id c))"

definition compaction_variables_in ::
  "cocoon_row \<Rightarrow> state_row \<Rightarrow> memory_row list \<Rightarrow> catalog_item list \<Rightarrow> message_row list \<Rightarrow> session \<Rightarrow> dict result" where
  "compaction_variables_in c st mems catalog selected s = Inr (compaction_variables s c st mems catalog selected)"

definition store_in ::
  "memory_env \<Rightarrow> cocoon_row \<Rightarrow> dict \<Rightarrow> rewrite_kind \<Rightarrow> (nat \<times> id \<times> string) list \<Rightarrow> compacted_memory list \<Rightarrow> session \<Rightarrow> (id list \<times> session) result" where
  "store_in e c profile kind by_index ks s =
     (let (t, s1) = ensure_user_system_tag s (c_owner_user_id c) in store_items e s1 c profile kind (t_id t) by_index ks)"

definition summary_model :: "cocoon_row \<Rightarrow> id" where
  "summary_model c = or_else (c_summary_model_id c) (c_selected_model_id c)"

section \<open>Compaction\<close>

definition move_context_start :: "cocoon_row \<Rightarrow> id list \<Rightarrow> message_row option \<Rightarrow> session \<Rightarrow> session result" where
  "move_context_start c created retained s =
     (case (created, retained) of
        (_ # _, Some m) \<Rightarrow> Inr (s\<lparr>cocoons := row_put c_id (c_id c) (\<lambda>x. x\<lparr>c_context_start_message_id := Some (m_id m)\<rparr>) (cocoons s)\<rparr>)
      | _ \<Rightarrow> Inr s)"

definition save_compaction_result :: "runtime_env \<Rightarrow> id \<Rightarrow> id \<Rightarrow> string \<Rightarrow> id list \<Rightarrow> message_row list \<Rightarrow> unit act" where
  "save_compaction_result v run_id step summary created selected w =
     save_artifact v run_id step ''compaction_result''
       [(''summary'', JStr summary), (''memory_chunk_ids'', JList (map JStr created)),
        (''compressed_message_ids'', JList (map (\<lambda>m. JStr (m_id m)) selected))]
       (Some ''Memory compaction summary'')
       [(''memory_chunk_count'', JInt (int (length created))), (''compressed_count'', JInt (int (length selected)))] w"

definition compact_selected ::
  "runtime_env \<Rightarrow> summarizer \<Rightarrow> bool \<Rightarrow> cocoon_row \<Rightarrow> id \<Rightarrow> id \<Rightarrow> message_row list \<Rightarrow> message_row option \<Rightarrow> unit act" where
  "compact_selected v llm container c run_id step selected retained w =
     act_bind (act_db (job_state c)) (\<lambda>st.
     act_bind (act_db (job_memory_profile container c)) (\<lambda>profile.
     act_bind (act_get (memory_context_in c)) (\<lambda>mems.
     act_bind (act_db (job_catalog c)) (\<lambda>(catalog, by_index).
     act_bind (act_get (compaction_variables_in c st mems catalog selected)) (\<lambda>variables.
     act_bind (llm ''compaction'' (summary_model c) variables (length selected) run_id step) (\<lambda>out.
     act_bind (act_db (store_in (rv_memory v) c profile (compaction_kind selected (ko_summary out)) by_index (ko_memories out))) (\<lambda>created.
     act_bind (save_compaction_result v run_id step (ko_summary out) created selected) (\<lambda>_.
     act_bind (act_do (move_context_start c created retained)) (\<lambda>_.
     act_do (finish_job_audit run_id step)))))))))) w"

definition execute_compaction :: "runtime_env \<Rightarrow> summarizer \<Rightarrow> bool \<Rightarrow> id option \<Rightarrow> id option \<Rightarrow> unit act" where
  "execute_compaction v llm container cocoon_id before_message_id w =
     act_bind (act_get (job_cocoon cocoon_id)) (\<lambda>c.
     act_bind (act_db (start_job_audit (c_id c) ''compaction'')) (\<lambda>(run_id, step).
     act_bind (act_get (selection_in c before_message_id)) (\<lambda>(selected, retained).
     if selected = [] then act_do (finish_job_audit run_id step)
     else compact_selected v llm container c run_id step selected retained))) w"

section \<open>Reorganization\<close>

definition selected_memories :: "id list \<Rightarrow> session \<Rightarrow> memory_row list result" where
  "selected_memories memory_ids s = Inr (filter (\<lambda>m. mem_id m \<in> set memory_ids \<and> mem_status m = ''active'') (memories s))"

definition archive_sources :: "memory_row list \<Rightarrow> session \<Rightarrow> session result" where
  "archive_sources ms s = Inr (mark_memories s ''archived'' (map mem_id ms))"

definition save_reorganize_result :: "runtime_env \<Rightarrow> id \<Rightarrow> id \<Rightarrow> string \<Rightarrow> id list \<Rightarrow> memory_row list \<Rightarrow> unit act" where
  "save_reorganize_result v run_id step summary created sources w =
     save_artifact v run_id step ''compaction_result''
       [(''source_memory_ids'', JList (map (\<lambda>m. JStr (mem_id m)) sources)), (''created_memory_ids'', JList (map JStr created)),
        (''summary'', JStr summary)]
       (Some ''Memory reorganize result'') [(''created_count'', JInt (int (length created)))] w"

definition reorganize_selected ::
  "runtime_env \<Rightarrow> summarizer \<Rightarrow> bool \<Rightarrow> cocoon_row \<Rightarrow> memory_row list \<Rightarrow> string option \<Rightarrow> unit act" where
  "reorganize_selected v llm container c sources instructions w =
     act_bind (act_db (job_memory_profile container c)) (\<lambda>profile.
     act_bind (act_db (start_job_audit (c_id c) ''memory_reorganize'')) (\<lambda>(run_id, step).
     act_bind (act_db (job_catalog c)) (\<lambda>(catalog, by_index).
     act_bind (llm ''memory_reorganize'' (summary_model c) (reorganize_variables instructions sources catalog) (length sources) run_id step) (\<lambda>out.
     act_bind (act_db (store_in (rv_memory v) c profile (reorganize_kind sources) by_index (ko_memories out))) (\<lambda>created.
     act_bind (act_do (archive_sources sources)) (\<lambda>_.
     act_bind (save_reorganize_result v run_id step (ko_summary out) created sources) (\<lambda>_.
     act_do (finish_job_audit run_id step)))))))) w"

definition execute_reorganize :: "runtime_env \<Rightarrow> summarizer \<Rightarrow> bool \<Rightarrow> id option \<Rightarrow> id list \<Rightarrow> string option \<Rightarrow> unit act" where
  "execute_reorganize v llm container cocoon_id memory_ids instructions w =
     act_bind (act_get (job_cocoon cocoon_id)) (\<lambda>c.
     act_bind (act_get (selected_memories memory_ids)) (\<lambda>sources.
     if sources = [] then act_return ()
     else reorganize_selected v llm container c sources instructions)) w"

section \<open>Maintenance\<close>

text \<open>A number of days too large for \<open>timedelta\<close> is not considered.\<close>

definition maintenance_baseline :: "session \<Rightarrow> dict result" where
  "maintenance_baseline s =
     (let profiles = (case row_get ss_id ''default'' (system_settings s) of None \<Rightarrow> [] | Some cfg \<Rightarrow> ss_memory_profiles cfg)
      in case dict_get ''meta_reply'' profiles of
           None \<Rightarrow> Inr []
         | Some (JObj d) \<Rightarrow> Inr d
         | Some x \<Rightarrow> if json_truthy x then Inl (AttributeError ''get'') else Inr [])"

definition fades :: "time \<Rightarrow> memory_row \<Rightarrow> bool" where
  "fades cutoff_decay m \<longleftrightarrow> mem_status m = ''active'' \<and>
     (case mem_last_accessed_at m of None \<Rightarrow> True | Some t \<Rightarrow> t < cutoff_decay)"

definition faded :: "time \<Rightarrow> time \<Rightarrow> memory_row \<Rightarrow> memory_row" where
  "faded now cutoff_archive m =
     (let importance = (if 0 < mem_importance m then mem_importance m - 1 else mem_importance m);
          last_seen = (case mem_last_accessed_at m of None \<Rightarrow> mem_updated_at m | Some t \<Rightarrow> t);
          st = (if last_seen < cutoff_archive then ''archived'' else mem_status m)
      in if importance = mem_importance m \<and> st = mem_status m then m
         else m\<lparr>mem_importance := importance, mem_status := st, mem_updated_at := now\<rparr>)"

definition execute_maintenance :: "session \<Rightarrow> session result" where
  "execute_maintenance s =
     bind_r (maintenance_baseline s) (\<lambda>baseline.
     bind_r (dict_int_or ''maintenance_decay_days'' 90 baseline) (\<lambda>decay_days.
     bind_r (dict_int_or ''archive_after_days'' 180 baseline) (\<lambda>archive_after_days.
     let now = utcnow s; cutoff_decay = now - hours (24 * decay_days); cutoff_archive = now - hours (24 * archive_after_days)
     in Inr (s\<lparr>memory_candidates := row_del_where (\<lambda>c. case mc_valid_until c of None \<Rightarrow> False | Some t \<Rightarrow> t < now) (memory_candidates s),
               memories := map (\<lambda>m. if fades cutoff_decay m then faded now cutoff_archive m else m) (memories s)\<rparr>))))"

end
