(* ===== verification/RoundFrames.thy ===== *)
theory RoundFrames
  imports ChatRuntime
begin

text \<open>
  What the operations of a round leave alone: actions, messages, audit runs, and the supply of
  identifiers, which only moves forward. The locale \<open>session_relation\<close> carries any such relation
  through the computations of \<open>ChatRuntime\<close>.
\<close>

section \<open>The part of the database that a round guards\<close>

definition core_of :: "session \<Rightarrow> (nat \<Rightarrow> id) \<times> time \<times> action_row list \<times> message_row list \<times> audit_run_row list" where
  "core_of s = (id_supply s, clock s, actions s, messages s, audit_runs s)"

text \<open>Jobs are added or cancelled, and only a queued one is cancelled.\<close>

definition job_moves :: "job_row option \<Rightarrow> job_row option \<Rightarrow> bool" where
  "job_moves x y \<longleftrightarrow>
     (case x of
        Some j \<Rightarrow> y = x \<or> j_status j = JobQueued \<and> (\<exists>k. y = Some k \<and> j_status k = JobCancelled \<and> j_id k = j_id j)
      | None \<Rightarrow> (\<forall>k. y = Some k \<longrightarrow> j_status k \<in> {JobQueued, JobCancelled}))"

definition jobs_move :: "job_row list \<Rightarrow> job_row list \<Rightarrow> bool" where
  "jobs_move js js' \<longleftrightarrow> (\<forall>i. job_moves (row_get j_id i js) (row_get j_id i js'))"

lemma jobs_move_refl [simp]: "jobs_move js js"
  by (simp add: jobs_move_def job_moves_def split: option.split)

lemma job_moves_trans: "job_moves x y \<Longrightarrow> job_moves y z \<Longrightarrow> job_moves x z"
  by (cases x; cases y) (auto simp: job_moves_def)

lemma jobs_move_trans: "jobs_move js js1 \<Longrightarrow> jobs_move js1 js2 \<Longrightarrow> jobs_move js js2"
  unfolding jobs_move_def using job_moves_trans by blast

lemma jobs_move_add: "j_status j = JobQueued \<Longrightarrow> jobs_move js (row_add j js)"
  by (auto simp: jobs_move_def job_moves_def row_get_add split: option.split)

lemma jobs_move_cancel:
  assumes "row_get j_id i js = Some j" "j_status j = JobQueued"
  shows "jobs_move js (row_put j_id i (job_cancelled now r) js)"
  using assms by (auto simp: jobs_move_def job_moves_def row_get_put job_cancelled_def dest: row_get_SomeD split: option.split)

definition core :: "session \<Rightarrow> session \<Rightarrow> bool" where
  "core s s' \<longleftrightarrow> id_next s \<le> id_next s' \<and> core_of s' = core_of s \<and> jobs_move (jobs s) (jobs s')"

lemma core_refl [simp]: "core s s"
  by (simp add: core_def)

lemma core_trans [trans]: "core s s1 \<Longrightarrow> core s1 s2 \<Longrightarrow> core s s2"
  using jobs_move_trans by (auto simp: core_def)

lemma coreD:
  assumes "core s s'"
  shows "id_supply s' = id_supply s" "clock s' = clock s" "actions s' = actions s" "messages s' = messages s"
    "audit_runs s' = audit_runs s" "id_next s \<le> id_next s'" "jobs_move (jobs s) (jobs s')"
  using assms by (simp_all add: core_def core_of_def)

lemma core_of_simps [simp]:
  "core_of (s\<lparr>states := a1\<rparr>) = core_of s" "core_of (s\<lparr>facts := a2\<rparr>) = core_of s" "core_of (s\<lparr>task_states := a3\<rparr>) = core_of s"
  "core_of (s\<lparr>memories := a4\<rparr>) = core_of s" "core_of (s\<lparr>memory_tags := a5\<rparr>) = core_of s"
  "core_of (s\<lparr>memory_candidates := a6\<rparr>) = core_of s" "core_of (s\<lparr>embeddings := a7\<rparr>) = core_of s"
  "core_of (s\<lparr>im_outbox := a8\<rparr>) = core_of s" "core_of (s\<lparr>wakeups := a9\<rparr>) = core_of s" "core_of (s\<lparr>jobs := b1\<rparr>) = core_of s"
  "core_of (s\<lparr>audit_steps := b2\<rparr>) = core_of s" "core_of (s\<lparr>audit_artifacts := b3\<rparr>) = core_of s"
  "core_of (s\<lparr>audit_links := b4\<rparr>) = core_of s" "core_of (s\<lparr>system_settings := b5\<rparr>) = core_of s"
  "core_of (s\<lparr>message_tags := b6\<rparr>) = core_of s" "core_of (take_id s) = core_of s"
  by (simp_all add: core_of_def take_id_def)

lemma take_id_jobs [simp]: "jobs (take_id s) = jobs s"
  by (simp add: take_id_def)

lemma core_state_frame: "state_frame s s' \<Longrightarrow> core s s'"
  by (simp add: core_def core_of_def state_frameD)

section \<open>Small operations\<close>

lemma core_start_step: "core s (snd (start_step s r name meta))"
  by (simp add: start_step_def core_def Let_def)

lemma core_finish_step: "core s (finish_step s i st)"
  by (simp add: finish_step_def core_def)

lemma core_artifact: "core (db w) (db (snd (record_json_artifact e w r t k p sm m)))"
  by (simp add: record_json_artifact_def write_text_def core_def Let_def)

lemma core_link: "core s (snd (record_link s r x a b c d))"
  by (simp add: record_link_def core_def Let_def)

lemma core_fact_upsert: "core s (snd (upsert_fact_cache_entry s k c sm u m co g))"
  by (simp add: upsert_fact_cache_entry_def core_def Let_def split: option.split)

lemma core_fact_delete: "core s (delete_fact_cache_entry s k co g)"
  by (simp add: delete_fact_cache_entry_def core_def)

lemma core_facts: "core s (snd (apply_fact_cache_ops v s ev ops))"
proof (induction ops arbitrary: s)
  case Nil
  then show ?case by simp
next
  case (Cons op ops)
  then show ?case
    by (auto simp: Let_def case_prod_beta intro: core_trans core_fact_upsert core_fact_delete)
qed

lemma core_memory_tags: "core s (add_memory_tags s i ts)"
proof (induction ts arbitrary: s)
  case Nil
  then show ?case by simp
next
  case (Cons t ts)
  show ?case unfolding add_memory_tags.simps
    by (rule core_trans [OF _ Cons.IH]) (simp add: core_def)
qed

lemma core_message_tags: "core s (add_message_tags s i ts)"
proof (induction ts arbitrary: s)
  case Nil
  then show ?case by simp
next
  case (Cons t ts)
  show ?case unfolding add_message_tags.simps
    by (rule core_trans [OF _ Cons.IH]) (simp add: core_def)
qed

lemma core_enqueue_job: "core s (snd (enqueue_job s t k p c g a))"
  by (simp add: enqueue_job_def core_def Let_def jobs_move_add)

lemma core_get_settings: "core s (snd (get_settings s))"
  by (simp add: get_settings_def core_def split: option.split)

lemma core_memory_profile: "core s (snd (get_memory_profile s n))"
proof -
  have "core s (snd (get_memory_profiles s))" for s
    using core_get_settings by (simp add: get_memory_profiles_def case_prod_beta)
  from core_trans [OF core_get_settings this] show ?thesis
    by (simp add: get_memory_profile_def case_prod_beta Let_def)
qed

lemma core_resolve_profile: "core s (snd (resolve_memory_profile b s conv))"
  using core_memory_profile by (simp add: resolve_memory_profile_def Let_def)

lemma core_touch: "core s (touch_memories s ids b)"
  by (simp add: touch_memories_def core_def)

lemma core_mark: "core s (mark_memories s st ids)"
  by (simp add: mark_memories_def core_def)

lemma core_single_reply: "core s (enqueue_single_reply s p a m x1 x2 x3 x4 x5 x6 d)"
  by (simp add: enqueue_single_reply_def core_def)

lemma core_enqueue_reply: "core s (enqueue_reply s a m)"
proof -
  have "core s (foldl (enqueue_route a m) s rs)" for rs
  proof (induction rs arbitrary: s)
    case Nil
    then show ?case by simp
  next
    case (Cons r rs)
    then show ?case using core_trans core_single_reply by (simp add: enqueue_route_def) blast
  qed
  then show ?thesis by (simp add: enqueue_reply_def Let_def core_single_reply)
qed

section \<open>Session state, tasks and wakeups\<close>

lemma core_prompt_catalog: "serialize_prompt_tag_catalog s t i = (x, s') \<Longrightarrow> core s s'"
  by (auto simp: serialize_prompt_tag_catalog_def list_visible_bound_tags_def Let_def
    split: prod.splits if_splits dest: state_frame_bound_ids intro: core_state_frame)

lemma state_frame_tag_op: "apply_tag_op cx s a op = (a', s') \<Longrightarrow> state_frame s s'"
  by (auto simp: apply_tag_op_def Let_def split: if_splits dest: state_frame_canonicalize)

lemma state_frame_tag_ops: "apply_tag_ops cx s a ops = (a', s') \<Longrightarrow> state_frame s s'"
proof (induction ops arbitrary: s a)
  case Nil
  then show ?case by simp
next
  case (Cons op ops)
  obtain a1 s1 where o: "apply_tag_op cx s a op = (a1, s1)" by (metis surj_pair)
  then have "apply_tag_ops cx s1 a1 ops = (a', s')" using Cons.prems by simp
  from state_frame_trans [OF state_frame_tag_op [OF o] Cons.IH [OF this]] show ?case .
qed

lemma state_frame_source_tags: "add_source_tags s a ts = (a', s') \<Longrightarrow> state_frame s s'"
proof (induction ts arbitrary: s a)
  case Nil
  then show ?case by simp
next
  case (Cons t ts)
  obtain a1 s1 where o: "(if t \<in> set a then (a, s) else canonicalize_tag_refs s (a @ [t]) True None) = (a1, s1)"
    by (metis surj_pair)
  then have f: "state_frame s s1" by (auto split: if_splits dest: state_frame_canonicalize)
  have "add_source_tags s1 a1 ts = (a', s')" using Cons.prems o by simp
  from state_frame_trans [OF f Cons.IH [OF this]] show ?case .
qed

lemma state_frame_default_tag: "ensure_state_default_tag s st = (st', s') \<Longrightarrow> state_frame s s'"
  by (auto simp: ensure_state_default_tag_def Let_def split: prod.splits if_splits
    dest: state_frame_canonicalize state_frame_active intro: state_frame_trans)

lemma state_frame_patched:
  assumes "patched_state s cx meta st0 = (st, s')" shows "state_frame s s'"
proof -
  obtain st1 s1 where 1: "ensure_state_default_tag s st0 = (st1, s1)" by (metis surj_pair)
  obtain a s2 where 2: "apply_tag_ops cx s1 (st_active_tags st1) (md_tag_ops meta) = (a, s2)" by (metis surj_pair)
  have 12: "state_frame s s2"
    using state_frame_trans [OF state_frame_default_tag [OF 1] state_frame_tag_ops [OF 2]] .
  show ?thesis
  proof (cases "re_event_type (cx_event cx) = ''merge'' \<and> source_state cx \<noteq> None")
    case False
    then have "s' = s2" using assms 1 2 by (auto simp: patched_state_def Let_def split: option.splits bool.splits)
    then show ?thesis using 12 by simp
  next
    case True
    then obtain src where src: "source_state cx = Some src" by blast
    obtain a3 s3 where 3: "add_source_tags s2 a (st_active_tags src) = (a3, s3)" by (metis surj_pair)
    then have "s' = s3" using assms 1 2 True src by (simp add: patched_state_def Let_def)
    then show ?thesis using state_frame_trans [OF 12 state_frame_source_tags [OF 3]] by simp
  qed
qed

lemma core_state_patch: "apply_state_patch s cx meta = Inr (st, s') \<Longrightarrow> core s s'"
  by (auto simp: apply_state_patch_def core_def split: option.splits prod.splits
    dest!: state_frame_patched core_state_frame)

lemma core_task_patch:
  assumes "apply_task_state_patch v s cx meta = Inr s'" shows "core s s'"
proof (cases "md_task_state_update meta = []")
  case True
  then show ?thesis using assms by (simp add: apply_task_state_patch_def)
next
  case False
  show ?thesis
  proof (cases "cx_task_state_id cx")
    case (Some i)
    then show ?thesis using assms False by (auto simp: apply_task_state_patch_def core_def)
  next
    case None
    obtain t s1 where t: "ensure_target_task_state s (re_cocoon_id (cx_event cx)) (re_chat_group_id (cx_event cx)) = Inr (t, s1)"
      and s': "s' = s1\<lparr>task_states := row_put ts_id (ts_id t) (patch_task v (utcnow s1) (md_task_state_update meta)) (task_states s1)\<rparr>"
      using assms False None by (auto simp: apply_task_state_patch_def elim!: bind_r_pairE)
    have "core s s1"
      using t by (auto simp: ensure_target_task_state_def core_def Let_def split: option.splits elim!: bind_rE)
    then show ?thesis by (simp add: s' core_def)
  qed
qed

lemma core_cancel_task: "core s (snd (cancel_task s r t))"
  by (auto simp: cancel_task_def cancel_job_def core_def Let_def intro: jobs_move_cancel split: option.split)

lemma core_cancel_loop: "cancel_loop s ids k r ts = (cs, s') \<Longrightarrow> core s s'"
proof (induction ts arbitrary: s cs)
  case Nil
  then show ?case by simp
next
  case (Cons t ts)
  show ?case
  proof (cases "cancel_wanted ids k t")
    case False
    then show ?thesis using Cons by simp
  next
    case True
    obtain t' s1 where c: "cancel_task s r t = (t', s1)" by (metis surj_pair)
    obtain cs1 where "cancel_loop s1 ids k r ts = (cs1, s')" using Cons.prems True c by (auto split: prod.splits)
    from core_trans [OF _ Cons.IH [OF this]] show ?thesis using core_cancel_task [of s r t] c by simp
  qed
qed

lemma core_sync: "sync_current_wakeup_task_id s c g = Inr (x, s') \<Longrightarrow> core s s'"
  by (rule core_state_frame [OF sync_frame])

lemma core_cancel:
  assumes "cancel_wakeup_tasks s c g ids k r = Inr (ts, s')" shows "core s s'"
proof -
  obtain cs s1 where l: "cancel_loop s ids k r (list_pending_wakeup_tasks s c g) = (cs, s1)" by (metis surj_pair)
  obtain f where y: "sync_current_wakeup_task_id s1 c g = Inr (f, s')"
    using assms l by (auto simp: cancel_wakeup_tasks_def elim: bind_r_pairE)
  from core_trans [OF core_cancel_loop [OF l] core_sync [OF y]] show ?thesis .
qed

lemma core_schedule_wakeup:
  assumes "schedule_wakeup s run c g reason payload = Inr (x, s')" shows "core s s'"
proof -
  obtain r where r: "run = Some r" using assms by (cases run) (auto simp: schedule_wakeup_def)
  define task where "task = \<lparr>w_id = new_id s, w_cocoon_id = c, w_chat_group_id = g, w_run_at = r,
    w_reason = Some (py_strip (str_of reason)), w_payload = [], w_status = JobQueued,
    w_cancelled_at = None, w_superseded_by_task_id = None, w_created_at = clock s\<rparr>"
  define s1 where "s1 = (take_id s)\<lparr>wakeups := row_add task (wakeups s)\<rparr>"
  obtain k i where ki: "resolve_target_type c g = Inr (k, i)"
    using assms r by (auto simp: schedule_wakeup_def Let_def split: if_splits elim!: bind_rE)
  obtain job s2 where j: "enqueue_job s1 JobWakeup (wakeup_lock_key k i (w_id task)) [(''wakeup_task_id'', JStr (w_id task))] c g (Some r) = (job, s2)"
    by (metis surj_pair)
  define s3 where "s3 = s2\<lparr>wakeups := row_put w_id (w_id task)
    (\<lambda>t. t\<lparr>w_payload := dict_set ''durable_job_id'' (JStr (j_id job)) payload\<rparr>) (wakeups s2)\<rparr>"
  obtain f where y: "sync_current_wakeup_task_id s3 c g = Inr (f, s')"
    using assms r ki j unfolding schedule_wakeup_def s3_def s1_def task_def
    by (auto simp: Let_def split: if_splits elim!: bind_r_pairE)
  have "core s s1" by (simp add: s1_def core_def)
  moreover have "core s1 s2" using core_enqueue_job [of s1] j by (metis snd_conv)
  moreover have "core s2 s3" by (simp add: s3_def core_def)
  ultimately show ?thesis using core_trans core_sync [OF y] by blast
qed

lemma core_schedule_hint:
  assumes "schedule_hint v s cx hint = Inr (m, s')" shows "core s s'"
  using assms core_schedule_wakeup
  by (auto simp: schedule_hint_def Let_def split: if_splits sum.splits elim!: bind_rE)

lemma core_schedule_hints: "schedule_hints v s cx hs = Inr (m, s') \<Longrightarrow> core s s'"
proof (induction hs arbitrary: s m)
  case Nil
  then show ?case by simp
next
  case (Cons h hs)
  obtain made s1 where 1: "schedule_hint v s cx h = Inr (made, s1)"
    and 2: "bind_r (schedule_hints v s1 cx hs) (\<lambda>(rest, s2). Inr (case made of None \<Rightarrow> rest | Some p \<Rightarrow> p # rest, s2)) = Inr (m, s')"
    using Cons.prems by (auto elim!: bind_r_pairE)
  obtain rest where "schedule_hints v s1 cx hs = Inr (rest, s')" using 2 by (auto elim!: bind_r_pairE)
  from core_trans [OF core_schedule_hint [OF 1] Cons.IH [OF this]] show ?case .
qed

lemma core_schedule_compaction: "core s (snd (schedule_compaction s cx r))"
  by (auto simp: schedule_compaction_def Let_def case_prod_beta core_enqueue_job split: option.split)

lemma core_schedule_round:
  assumes "schedule_round v s cx meta = Inr (r, s')" shows "core s s'"
proof -
  let ?c = "re_cocoon_id (cx_event cx)" and ?g = "re_chat_group_id (cx_event cx)"
  obtain cancelled s1 made s2 ws s3 job s4 f where
    1: "(if md_cancel_wakeup_task_ids meta = [] then Inr ([], s)
         else cancel_wakeup_tasks s ?c ?g (Some (md_cancel_wakeup_task_ids meta)) None
                (Some (''Cancelled by meta node during action '' @ re_action_id (cx_event cx)))) = Inr (cancelled, s1)" and
    2: "schedule_hints v s1 cx (md_next_wakeup_hints meta) = Inr (made, s2)" and
    3: "(if should_schedule_idle_wakeup s2 cx meta
         then bind_r (schedule_idle_wakeup s2 cx) (\<lambda>((task, job), s'). Inr (made @ [(w_id task, j_id job)], s'))
         else Inr (made, s2)) = Inr (ws, s3)" and
    4: "(if event_target_type (cx_event cx) = ''cocoon'' \<and> max_context_messages (cx_conversation cx) \<le> int (length (cx_visible_messages cx))
         then schedule_compaction s3 cx ''window_limit'' else (None, s3)) = (job, s4)" and
    5: "sync_current_wakeup_task_id s4 ?c ?g = Inr (f, s')"
    using assms unfolding schedule_round_def Let_def
    by (elim bind_r_pairE) (auto split: prod.splits elim!: bind_r_pairE)
  have "core s s1" using 1 core_cancel by (auto split: if_splits)
  moreover have "core s2 s3" using 3 core_schedule_wakeup
    by (auto simp: schedule_idle_wakeup_def Let_def split: if_splits elim!: bind_rE)
  moreover have "core s3 s4" using 4 core_schedule_compaction [of s3 cx "''window_limit''"] by (auto split: if_splits)
  ultimately show ?thesis using core_schedule_hints [OF 2] core_sync [OF 5] core_trans by meson
qed

section \<open>Memories\<close>

lemma core_upsert_candidate: "upsert_candidate s a = Inr (c, s') \<Longrightarrow> core s s'"
  by (auto simp: upsert_candidate_def core_def split: option.splits if_splits)

lemma core_ensure_embedding: "core s (snd (ensure_embedding_row s i k m))"
  by (simp add: ensure_embedding_row_def core_def split: option.split)

lemma core_index:
  assumes "index_memory_chunk e s m t meta = Inr s'" shows "core s s'"
proof -
  let ?k = "memory_keyword_source m t"
  obtain i s1 where 1: "ensure_embedding_row s (mem_id m) (build_memory_keyword_cache e ?k 8) meta = (i, s1)"
    by (metis surj_pair)
  obtain fill where s': "s' = s1\<lparr>embeddings := row_put em_id i fill (embeddings s1),
      memories := row_put mem_id (mem_id m) (\<lambda>r. r\<lparr>mem_embedding_ref := Some i, mem_updated_at := utcnow s1\<rparr>) (memories s1)\<rparr>"
    using assms 1 by (auto simp: index_memory_chunk_def Let_def elim!: bind_rE)
  have "core s s1" using core_ensure_embedding 1 by (metis snd_conv)
  then show ?thesis by (simp add: s' core_def)
qed

lemma core_promote:
  assumes "promote_candidate_to_memory e s c k = Inr (i, s')" shows "core s s'"
proof -
  let ?m = "promoted_memory s c k"
  let ?s0 = "(take_id s)\<lparr>memories := row_add ?m (memories s)\<rparr>"
  let ?s1 = "add_memory_tags ?s0 (mem_id ?m) (mem_tags ?m)"
  obtain s2 where 2: "index_memory_chunk e ?s1 ?m (or_content (mem_summary ?m) (mem_content ?m)) (mem_meta ?m) = Inr s2"
    and s': "s' = s2\<lparr>memory_candidates := row_del mc_id (mc_id c) (memory_candidates s2)\<rparr>"
    using assms by (auto simp: promote_candidate_to_memory_def Let_def elim!: bind_rE)
  have "core s ?s0" by (simp add: core_def)
  then have "core s s2" using core_memory_tags core_index [OF 2] core_trans by blast
  then show ?thesis by (simp add: s' core_def)
qed

lemma core_store_memory: "store_memory v s cx op src co sm ts = (m, s') \<Longrightarrow> core s s'"
  by (auto simp: store_memory_def core_def Let_def split: option.splits)

lemma core_op_write:
  assumes "memory_op_write v s cx a op src co sm ts = Inr (ids, s')" shows "core s s'"
proof -
  obtain m s1 where 1: "store_memory v s cx op src co sm ts = (m, s1)" by (metis surj_pair)
  let ?s2 = "s1\<lparr>memories := row_put mem_id (mem_id m) (\<lambda>x. x\<lparr>mem_meta := op_meta cx a op m\<rparr>) (memories s1)\<rparr>"
  let ?s3 = "add_memory_tags ?s2 (mem_id m) ts"
  obtain s4 where 4: "index_memory_chunk (rv_memory v) ?s3 (m\<lparr>mem_meta := op_meta cx a op m\<rparr>) (or_content sm co) (op_meta cx a op m) = Inr s4"
    and s': "s' = mark_memories s4 ''contradicted'' (mo_supersedes op)"
    using assms 1 by (auto simp: memory_op_write_def Let_def elim!: bind_rE)
  have "core s1 ?s2" by (simp add: core_def)
  from core_trans [OF core_store_memory [OF 1] core_trans [OF this core_trans [OF core_memory_tags core_index [OF 4]]]]
  have "core s s4" .
  then show ?thesis unfolding s' by (rule core_trans [OF _ core_mark])
qed

lemma core_op_candidate:
  assumes "memory_op_candidate v s cx a op co sm ts h t = Inr (ids, s')" shows "core s s'"
proof -
  have promoted: "core s1 s2" if "(if b then bind_r (promote_candidate_to_memory e s1 c k) (\<lambda>(i, s2). Inr ([i], s2)) else Inr ([], s1)) = Inr (ids, s2)"
    for b e s1 c k s2
    using that by (cases b) (auto elim!: bind_r_pairE dest: core_promote)
  show ?thesis
  proof (rule bind_r_pairE [OF assms [unfolded memory_op_candidate_def]], drule core_upsert_candidate, unfold prod.case)
    fix c s1
    assume 1: "core s s1" and "(if h \<le> mc_hit_count c
        then bind_r (promote_candidate_to_memory (rv_memory v) s1 c ''candidate_promotion'') (\<lambda>(i, s2). Inr ([i], s2))
        else Inr ([], s1)) = Inr (ids, s')"
    then show ?thesis by (blast intro: core_trans [OF 1] promoted)
  qed
qed

lemma core_memory_op:
  assumes "persist_memory_op v s cx a src h t op = Inr (ids, s')" shows "core s s'"
proof (cases "mo_op op = ''archive''")
  case True
  then have s': "\<exists>ks. s' = mark_memories s ''archived'' ks"
    using assms by (auto simp: persist_memory_op_def archive_memories_def Let_def)
  then show ?thesis using core_mark by auto
next
  case False
  then show ?thesis using assms core_op_candidate core_op_write
    by (auto simp: persist_memory_op_def Let_def split: if_splits)
qed

lemma core_memory_op_loop: "memory_op_loop v s cx a src h t ops = Inr (ids, s') \<Longrightarrow> core s s'"
proof (induction ops arbitrary: s ids)
  case Nil
  then show ?case by simp
next
  case (Cons op ops)
  obtain ids1 s1 where 1: "persist_memory_op v s cx a src h t op = Inr (ids1, s1)"
    and 2: "bind_r (memory_op_loop v s1 cx a src h t ops) (\<lambda>(ids', s2). Inr (ids1 @ ids', s2)) = Inr (ids, s')"
    using Cons.prems by (auto elim!: bind_r_pairE)
  obtain ids2 where "memory_op_loop v s1 cx a src h t ops = Inr (ids2, s')" using 2 by (auto elim!: bind_r_pairE)
  from core_trans [OF core_memory_op [OF 1] Cons.IH [OF this]] show ?case .
qed

lemma core_memory_ops:
  assumes "persist_memory_ops v s cx a ops src = Inr (ids, s')" shows "core s s'"
  using assms core_memory_op_loop unfolding persist_memory_ops_def by (elim bind_rE) blast

section \<open>The context\<close>

lemma core_load_source:
  assumes "load_source e s ev c = Inr (x, s')" shows "core s s'"
proof -
  obtain st s1 where 1: "get_session_state s (Some (c_id c)) None = Inr (st, s1)" and "s' = s1"
    using assms unfolding load_source_def by (elim bind_r_pairE) (auto simp: Let_def elim!: bind_rE)
  then show ?thesis using core_state_frame [OF state_frame_get_state [OF 1]] by simp
qed

lemma core_external_context: "external_context e s ev = Inr (x, s') \<Longrightarrow> core s s'"
  by (auto simp: external_context_def Let_def split: if_splits option.splits elim!: bind_r_pairE dest: core_load_source)

lemma build_context_core:
  assumes "build_context e b s ev = Inr (cx, s')"
  shows "core s s' \<and> cx_event cx = ev"
proof -
  obtain conv where 1: "resolve_conversation s ev = Inr conv"
    using assms by (auto simp: build_context_def Let_def elim: bind_rE)
  obtain ch where 2: "row_get ch_id (conversation_character_id conv) (characters s) = Some ch"
    using assms 1 by (auto simp: build_context_def Let_def split: option.splits)
  obtain st s1 where 3: "ensure_session_state s (re_cocoon_id ev) (re_chat_group_id ev) = Inr (st, s1)"
    using assms 1 2 by (auto simp: build_context_def Let_def elim: bind_r_pairE)
  obtain p s2 where 4: "resolve_memory_profile b s1 conv = (p, s2)" by (metis surj_pair)
  obtain x s3 where 5: "external_context e s2 ev = Inr (x, s3)"
    and 6: "s' = snd (serialize_prompt_tag_catalog s3 (event_target_type ev) (event_target_id ev))" and ev: "cx_event cx = ev"
    using assms 1 2 3 4 unfolding build_context_def Let_def
    by (auto split: prod.splits elim!: bind_rE)
  have "core s1 s2" using core_resolve_profile 4 by (metis snd_conv)
  moreover have "core s3 s'" using core_prompt_catalog 6 by (metis surjective_pairing)
  ultimately show ?thesis
    using core_state_frame [OF state_frame_ensure_state [OF 3]] core_external_context [OF 5] core_trans ev by meson
qed

end
