(* ===== verification/RoundEffects.thy ===== *)
theory RoundEffects
  imports RoundFrames
begin

text \<open>
  What a round as a whole does: it appends its thought and its reply to the messages that are
  left, completes its own action and its audit run, and touches no other action. The chat worker can therefore
  take the round as its runtime.
\<close>

section \<open>Relations carried through computations\<close>

definition keeps_by :: "(session \<Rightarrow> session \<Rightarrow> bool) \<Rightarrow> 'a act \<Rightarrow> bool" where
  "keeps_by R m \<longleftrightarrow> (\<forall>w. R (db w) (db (snd (m w))))"

lemma keeps_byD: "keeps_by R m \<Longrightarrow> m w = (x, w') \<Longrightarrow> R (db w) (db w')"
  unfolding keeps_by_def by (metis snd_conv)

lemma act_bindE:
  assumes "act_bind m f w = (Inr y, w')" obtains x w1 where "m w = (Inr x, w1)" "f x w1 = (Inr y, w')"
  using assms by (auto simp: act_bind_def split: prod.splits sum.splits)

lemma act_worldE: "act_world f w = (Inr x, w') \<Longrightarrow> f w = Inr (x, w')"
  by (auto simp: act_world_def split: sum.splits)

lemma act_dbE:
  assumes "act_db f w = (Inr x, w')" obtains s where "f (db w) = Inr (x, s)" "w' = w\<lparr>db := s\<rparr>"
  using assms by (auto simp: act_db_def split: sum.splits)

lemma act_doE:
  assumes "act_do f w = (Inr x, w')" obtains s where "f (db w) = Inr s" "w' = w\<lparr>db := s\<rparr>"
  using assms by (auto simp: act_do_def split: sum.splits)

lemma act_getE: "act_get f w = (Inr x, w') \<Longrightarrow> f (db w) = Inr x \<and> w' = w"
  by (auto simp: act_get_def)

lemma act_pureE: "act_pure f w = (Inr x, w') \<Longrightarrow> f w = (x, w')"
  by (auto simp: act_pure_def split: prod.splits)

lemma act_returnE: "act_return y w = (Inr x, w') \<Longrightarrow> x = y \<and> w' = w"
  by (simp add: act_return_def)

locale session_relation =
  fixes R :: "session \<Rightarrow> session \<Rightarrow> bool"
  assumes refl: "R s s" and trans: "R s s1 \<Longrightarrow> R s1 s2 \<Longrightarrow> R s s2"
begin

lemma keeps_return: "keeps_by R (act_return x)"
  by (simp add: keeps_by_def act_return_def refl)

lemma keeps_bind:
  assumes "keeps_by R m" "\<And>x. keeps_by R (f x)" shows "keeps_by R (act_bind m f)"
  unfolding keeps_by_def
proof
  fix w
  obtain r w1 where m: "m w = (r, w1)" by (metis surj_pair)
  have 1: "R (db w) (db w1)" by (rule keeps_byD [OF assms(1) m])
  show "R (db w) (db (snd (act_bind m f w)))"
  proof (cases r)
    case (Inl e)
    then show ?thesis using 1 m by (simp add: act_bind_def)
  next
    case (Inr x)
    have "R (db w1) (db (snd (f x w1)))" using assms(2) by (simp add: keeps_by_def)
    then show ?thesis using trans [OF 1] m Inr by (simp add: act_bind_def)
  qed
qed

lemma keeps_world: "(\<And>w x w'. f w = Inr (x, w') \<Longrightarrow> R (db w) (db w')) \<Longrightarrow> keeps_by R (act_world f)"
  by (auto simp: keeps_by_def act_world_def refl split: sum.splits)

lemma keeps_db: "(\<And>s x s'. f s = Inr (x, s') \<Longrightarrow> R s s') \<Longrightarrow> keeps_by R (act_db f)"
  by (auto simp: keeps_by_def act_db_def refl split: sum.splits)

lemma keeps_do: "(\<And>s s'. f s = Inr s' \<Longrightarrow> R s s') \<Longrightarrow> keeps_by R (act_do f)"
  by (auto simp: keeps_by_def act_do_def refl split: sum.splits)

lemma keeps_get: "keeps_by R (act_get f)"
  by (simp add: keeps_by_def act_get_def refl)

lemma keeps_pure: "(\<And>w. R (db w) (db (snd (f w)))) \<Longrightarrow> keeps_by R (act_pure f)"
  by (simp add: keeps_by_def act_pure_def case_prod_beta)

lemma keeps_if: "keeps_by R m \<Longrightarrow> keeps_by R m' \<Longrightarrow> keeps_by R (if b then m else m')"
  by simp

end

interpretation core_acts: session_relation core
  by unfold_locales (auto intro: core_trans)

section \<open>Nodes that keep actions, messages and audit runs\<close>

lemma keeps_open_step: "keeps_by core (open_step r name)"
proof -
  have "core s s'" if "step_in r name s = Inr (x, s')" for s x s'
    using that core_start_step [of s r name "[]"] by (auto simp: step_in_def split: prod.splits)
  then show ?thesis unfolding open_step_def [abs_def] by (rule core_acts.keeps_db)
qed

lemma keeps_close_step: "keeps_by core (close_step i)"
  unfolding close_step_def [abs_def] by (rule core_acts.keeps_do) (auto simp: step_out_def core_finish_step)

lemma keeps_save_artifact: "keeps_by core (save_artifact v r i k p sm md)"
  unfolding keeps_by_def by (auto simp: save_artifact_def core_artifact)

lemma keeps_saves:
  "keeps_by core (save_hits v r i cx)" "keeps_by core (save_inline_output v r i mode meta)"
  "keeps_by core (save_meta_output v r i meta)" "keeps_by core (save_schedule v r i res)"
  unfolding save_hits_def [abs_def] save_inline_output_def [abs_def] save_meta_output_def [abs_def] save_schedule_def [abs_def]
  by (rule keeps_save_artifact)+

text \<open>The calls of the language model write artifacts and links, and draw identifiers for them.\<close>

definition nodes_only_record :: "llm_nodes \<Rightarrow> bool" where
  "nodes_only_record n \<longleftrightarrow>
     (\<forall>cx r i mode. keeps_by core (ln_generate_inline n cx r i mode)) \<and>
     (\<forall>cx r i. keeps_by core (ln_evaluate n cx r i)) \<and>
     (\<forall>cx meta r i. keeps_by core (ln_generate n cx meta r i))"

lemmas node_steps = core_acts.keeps_bind core_acts.keeps_return keeps_open_step keeps_close_step keeps_saves

lemma keeps_context_builder: "keeps_by core (run_context_builder v b ev r)"
  unfolding run_context_builder_def [abs_def]
  by (intro node_steps core_acts.keeps_db) (auto simp: context_in_def dest: build_context_core)

lemma keeps_decision:
  assumes "nodes_only_record n" shows "keeps_by core (run_decision v n cx r)"
proof -
  have "keeps_by core (run_inline_node v n cx r)"
    unfolding run_inline_node_def [abs_def] Let_def using assms
    by (intro core_acts.keeps_bind) (auto simp: nodes_only_record_def intro!: node_steps)
  moreover have "keeps_by core (run_meta_node v n cx r)"
    unfolding run_meta_node_def [abs_def] using assms
    by (intro core_acts.keeps_bind) (auto simp: nodes_only_record_def intro!: node_steps)
  ultimately show ?thesis
    by (cases "route_after_context cx = ''inline_node''")
       (auto simp: run_decision_def [abs_def] intro!: core_acts.keeps_bind core_acts.keeps_return)
qed

lemma context_builder_event:
  assumes "run_context_builder v b ev r w = (Inr cx, w')" shows "cx_event cx = ev"
  using assms unfolding run_context_builder_def
  by (elim act_bindE act_dbE) (auto dest!: act_returnE simp: context_in_def dest: build_context_core)

section \<open>Nodes that write messages\<close>

text \<open>A node appends messages, changes the action it runs, and leaves the rest of the core alone.\<close>

definition round_step :: "id \<Rightarrow> (action_row \<Rightarrow> action_row) \<Rightarrow> message_row list \<Rightarrow> session \<Rightarrow> session \<Rightarrow> bool" where
  "round_step i f ms s s' \<longleftrightarrow>
     id_next s \<le> id_next s' \<and> id_supply s' = id_supply s \<and> clock s' = clock s \<and> audit_runs s' = audit_runs s \<and>
     actions s' = row_put a_id i f (actions s) \<and> messages s' = messages s @ ms \<and> jobs_move (jobs s) (jobs s')"

lemma row_put_id: "row_put key i id rows = rows"
  unfolding row_put_def by (rule map_idI) simp

lemma round_step_core: "core s s' \<Longrightarrow> round_step i id [] s s'"
  by (simp add: round_step_def row_put_id coreD)

lemma round_step_trans:
  assumes "round_step i f ms s s1" "round_step i g ns s1 s2" "\<And>a. a_id (f a) = a_id a"
  shows "round_step i (g \<circ> f) (ms @ ns) s s2"
  using assms row_put_row_put [of a_id f i g] jobs_move_trans unfolding round_step_def by (auto simp: comp_def)

lemma round_step_append:
  "round_step i f ms s s1 \<Longrightarrow> round_step i id ns s1 s2 \<Longrightarrow> round_step i f (ms @ ns) s s2"
  using jobs_move_trans by (auto simp: round_step_def row_put_id)

lemma round_step_before:
  assumes "core s s1" "round_step i f ms s1 s2" shows "round_step i f ms s s2"
  using coreD [OF assms(1)] assms(2) jobs_move_trans unfolding round_step_def by fastforce

lemma round_step_after:
  assumes "round_step i f ms s s1" "core s1 s2" shows "round_step i f ms s s2"
  using coreD [OF assms(2)] assms(1) jobs_move_trans unfolding round_step_def by fastforce

definition round_message :: "runtime_event \<Rightarrow> id \<Rightarrow> time \<Rightarrow> message_row \<Rightarrow> bool" where
  "round_message ev i now m \<longleftrightarrow> m_action_id m = Some i \<and> m_cocoon_id m = re_cocoon_id ev \<and>
     m_chat_group_id m = re_chat_group_id ev \<and> m_created_at m = now"

lemma persist_message_step:
  assumes "persist_message s cx i role content th note = (m, s')"
  shows "round_step i id [m] s s'" "round_message (cx_event cx) i (clock s) m" "m_is_thought m = th" "m_role m = role"
    "m_content m = content"
proof -
  define m0 where "m0 = fst (persist_message s cx i role content th note)"
  have m: "m = m0" using assms by (simp add: m0_def)
  have s': "s' = add_message_tags ((take_id s)\<lparr>messages := row_add m (messages s)\<rparr>) (m_id m) (active_tags_of s cx)"
    using assms unfolding persist_message_def Let_def by (metis prod.inject)
  have "round_step i id [m] s ((take_id s)\<lparr>messages := row_add m (messages s)\<rparr>)"
    by (simp add: round_step_def row_put_id row_add_def take_id_def)
  then show "round_step i id [m] s s'" unfolding s' by (rule round_step_after) (rule core_message_tags)
  show "round_message (cx_event cx) i (clock s) m" "m_is_thought m = th" "m_role m = role" "m_content m = content"
    unfolding m m0_def persist_message_def Let_def by (simp_all add: round_message_def utcnow_def)
qed

lemma persist_thought_step:
  assumes "persist_thought_message s cx i meta = Inr (m, s')"
  shows "round_step i id [m] s s' \<and> round_message (cx_event cx) i (clock s) m \<and> m_is_thought m \<and> m_role m = ''assistant'' \<and>
    (\<exists>a. row_get a_id i (actions s) = Some a \<and> a_status a = ActRunning)"
proof -
  have w: "ensure_action_is_writable s i = Inr ()"
    and p: "\<exists>c note. persist_message s cx i ''assistant'' c True note = (m, s')"
    using assms unfolding persist_thought_message_def Let_def by (auto elim!: bind_rE)
  have "\<exists>a. row_get a_id i (actions s) = Some a \<and> a_status a = ActRunning"
    using w by (auto simp: ensure_action_is_writable_def split: option.splits if_splits)
  moreover obtain c nt where "persist_message s cx i ''assistant'' c True nt = (m, s')" using p by blast
  note persist_message_step [OF this]
  ultimately show ?thesis by simp
qed

lemma persist_generated_step:
  assumes "persist_generated_message s cx i g = Inr (m, s')"
  shows "round_step i id [m] s s' \<and> round_message (cx_event cx) i (clock s) m \<and> \<not> m_is_thought m \<and> m_content m = go_reply_text g"
proof -
  have p: "\<exists>r. persist_message s cx i r (go_reply_text g) False None = (m, s')"
    using assms unfolding persist_generated_message_def by (auto elim!: bind_rE)
  then obtain r where "persist_message s cx i r (go_reply_text g) False None = (m, s')" ..
  from persist_message_step [OF this] show ?thesis by simp
qed

lemma publish_chunks_db: "publish_chunks w cx i cs = Inr w' \<Longrightarrow> db w' = db w"
  by (induction cs arbitrary: w) (auto simp: publish_def elim!: bind_rE)

lemma core_record_reply: "core (db w) (db (record_reply v w r t g i))"
proof -
  obtain a w1 where 1: "record_json_artifact (rv_audit v) w r (Some t) ''generator_output''
      [(''final_message_id'', JStr i), (''content'', JStr (go_reply_text g)), (''structured_output'', JObj (go_structured_output g))]
      (Some ''Assistant reply snapshot'')
      (dict_merge [(''provider_kind'', JStr (go_provider_kind g)), (''model_name'', JStr (go_model_name g))] (go_usage g)) = (a, w1)"
    by (metis surj_pair)
  have "core (db w) (db w1)" using core_artifact 1 by (metis snd_conv)
  from core_trans [OF this core_link] show ?thesis unfolding record_reply_def 1 by simp
qed

lemma deliver_reply_step:
  assumes "deliver_reply v w cx a r t g = Inr (m, w')"
  shows "round_step (a_id a) id [m] (db w) (db w') \<and> round_message (cx_event cx) (a_id a) (clock (db w)) m \<and> \<not> m_is_thought m \<and>
    m_content m = go_reply_text g"
proof -
  obtain w1 s2 where 1: "publish_chunks (publish w (event_channel_key (cx_event cx)) (round_event cx (a_id a) ''reply_started'' []))
        cx (a_id a) (go_chunks g) = Inr w1"
    and 2: "persist_generated_message (db w1) cx (a_id a) g = Inr (m, s2)"
    and w': "w' = record_reply v (publish (w1\<lparr>db := enqueue_reply s2 a m\<rparr>) (event_channel_key (cx_event cx))
        (round_event cx (a_id a) ''reply_done'' [(''final_message_id'', JStr (m_id m))])) r t g (m_id m)"
    using assms unfolding deliver_reply_def Let_def by (auto elim!: bind_rE)
  have db1: "db w1 = db w" using publish_chunks_db [OF 1] by (simp add: publish_def)
  have "core s2 (enqueue_reply s2 a m)" by (rule core_enqueue_reply)
  also have "core (enqueue_reply s2 a m) (db w')" unfolding w'
    by (rule core_trans [OF _ core_record_reply]) (simp add: publish_def)
  finally have "core s2 (db w')" .
  then show ?thesis using persist_generated_step [OF 2] round_step_after unfolding db1 by blast
qed

section \<open>The graph\<close>

definition completed_action :: "time \<Rightarrow> action_row \<Rightarrow> action_row" where
  "completed_action now a = a\<lparr>a_status := ActCompleted, a_error_text := None, a_finished_at := Some now\<rparr>"

lemma used_action_id [simp]: "a_id (used_action meta a) = a_id a"
  by (simp add: used_action_def)

lemma apply_and_publish_core: "apply_and_publish w cx meta i = Inr w' \<Longrightarrow> core (db w) (db w')"
  by (auto simp: apply_and_publish_def publish_snapshot_def publish_def elim!: bind_rE dest: core_state_patch)

lemma publish_snapshot_db: "publish_snapshot w st i c g = Inr w' \<Longrightarrow> db w' = db w"
  by (auto simp: publish_snapshot_def publish_def elim!: bind_rE)

lemma scheduler_node_step:
  assumes "run_scheduler_node v cx i r meta w = (Inr (d, t), w')"
  shows "\<exists>m. round_step i (used_action meta) [m] (db w) (db w') \<and> round_message (cx_event cx) i (clock (db w)) m \<and>
    m_is_thought m \<and> m_role m = ''assistant'' \<and> (\<exists>a. row_get a_id i (actions (db w')) = Some a \<and> a_status a = ActRunning)"
proof -
  obtain w1 w2 w3 w4 w5 w6 w7 w8 facts step m where
    1: "act_world (patch_in cx i meta) w = (Inr (), w1)" and 2: "act_do (task_in v cx meta) w1 = (Inr (), w2)" and
    3: "act_db (facts_in v cx meta) w2 = (Inr facts, w3)" and 4: "act_do (note_used_memories i meta) w3 = (Inr (), w4)" and
    5: "open_step r ''scheduler_node'' w4 = (Inr step, w5)" and 6: "act_db (schedule_in v cx meta) w5 = (Inr d, w6)" and
    7: "act_db (thought_in cx i meta) w6 = (Inr m, w7)" and 8: "save_schedule v r step d w7 = (Inr (), w8)" and
    9: "close_step step w8 = (Inr (), w')"
    using assms unfolding run_scheduler_node_def by (elim act_bindE) (auto dest!: act_returnE)
  have "core (db w) (db w1)" using act_worldE [OF 1] by (auto simp: patch_in_def elim!: bind_rE dest: apply_and_publish_core)
  also have "core \<dots> (db w2)" using 2 by (elim act_doE) (auto simp: task_in_def dest: core_task_patch)
  also have "core \<dots> (db w3)" using 3 core_facts [of "db w2" v "cx_event cx" "md_fact_cache_ops meta"]
    by (elim act_dbE) (simp add: facts_in_def)
  finally have c3: "core (db w) (db w3)" .
  have p4: "round_step i (used_action meta) [] (db w3) (db w4)"
    using 4 by (elim act_doE) (auto simp: round_step_def note_used_memories_def put_action_def)
  have c5: "core (db w4) (db w5)" by (rule keeps_byD [OF keeps_open_step 5])
  have c6: "core (db w5) (db w6)" using 6 by (elim act_dbE) (auto simp: schedule_in_def dest: core_schedule_round)
  obtain s7 where 7: "persist_thought_message (db w6) cx i meta = Inr (m, s7)" "db w7 = s7"
    using 7 by (elim act_dbE) (auto simp: thought_in_def)
  note p7 = persist_thought_step [OF 7(1), folded 7(2)]
  have c9: "core (db w7) (db w')" by (rule core_trans [OF keeps_byD [OF keeps_saves(4) 8] keeps_byD [OF keeps_close_step 9]])
  have p6: "round_step i (used_action meta) [] (db w) (db w6)"
    by (rule round_step_after [OF round_step_before [OF c3 p4] core_trans [OF c5 c6]])
  have "round_step i (used_action meta) [m] (db w) (db w')"
    using round_step_after [OF round_step_append [OF p6] c9] p7 by fastforce
  moreover have "clock (db w6) = clock (db w)" using p6 by (simp add: round_step_def)
  moreover have "actions (db w') = actions (db w6)" using p7 coreD(3) [OF c9] by (simp add: round_step_def row_put_id)
  ultimately show ?thesis using p7 by (intro exI [of _ m]) simp
qed

lemma reply_step:
  assumes "nodes_only_record n" "run_reply v n cx i r meta inline w = (Inr x, w')"
  shows "\<exists>ms. round_step i id ms (db w) (db w') \<and> (ms = [] \<longleftrightarrow> md_decision meta = ''silence'') \<and> length ms \<le> 1 \<and>
    (\<forall>m\<in>set ms. round_message (cx_event cx) i (clock (db w)) m \<and> \<not> m_is_thought m)"
proof (cases "md_decision meta = ''silence''")
  case True
  then have "w' = w" using assms(2) by (simp add: run_reply_def route_after_scheduler_def act_return_def)
  then show ?thesis using True by (intro exI [of _ "[]"]) (simp add: round_step_core)
next
  case False
  obtain step w1 g w2 a m w3 where
    1: "open_step r ''generator_node'' w = (Inr step, w1)" and
    2: "generate_in n cx meta r step inline w1 = (Inr g, w2)" and
    3: "get_action i (db w2) = Inr a" and
    4: "act_world (deliver_in v cx a r step g) w2 = (Inr m, w3)" and
    5: "close_step step w3 = (Inr (), w')"
    using assms(2) False unfolding run_reply_def route_after_scheduler_def run_generator_node_def
    by (auto elim!: act_bindE dest!: act_returnE act_getE)
  have c2: "core (db w1) (db w2)"
    using 2 assms(1) keeps_byD [of core "ln_generate n cx meta r step" w1 "Inr g" w2]
    by (auto simp: nodes_only_record_def generate_in_def split: option.splits dest!: act_returnE)
  have a: "a_id a = i" using 3 by (auto simp: get_action_def split: option.splits dest: row_get_SomeD)
  have c: "core (db w) (db w2)" by (rule core_trans [OF keeps_byD [OF keeps_open_step 1] c2])
  note d = deliver_reply_step [OF act_worldE [OF 4, unfolded deliver_in_def], unfolded a]
  have "round_step i id [m] (db w) (db w')"
    using round_step_after [OF round_step_before [OF c] keeps_byD [OF keeps_close_step 5]] d by blast
  then show ?thesis using d False coreD(2) [OF c] by (intro exI [of _ "[m]"]) simp
qed

lemma side_effects_step:
  assumes "run_side_effects_node v cx i r meta sched t mi w = (Inr u, w')"
    and "row_get a_id i (actions (db w)) = Some a" "a_status a = ActRunning"
  shows "\<exists>s. core (db w) s \<and> db w' = finish_run (put_action s i (completed_action (clock s))) r ActCompleted"
proof -
  obtain step w1 ids w2 a' st w3 w4 w5 w6 where
    1: "open_step r ''side_effects'' w = (Inr step, w1)" and
    2: "act_db (memories_in v cx i meta mi) w1 = (Inr ids, w2)" and
    3: "act_pure (result_in v r step st a' mi t ids (schedule_result_json sched)) w2 = (Inr (), w3)" and
    4: "act_do (touch_in cx meta) w3 = (Inr (), w4)" and 5: "act_world (snapshot_in cx i st) w4 = (Inr (), w5)" and
    6: "close_step step w5 = (Inr (), w6)" and 7: "act_do (finish_in i r) w6 = (Inr u, w')"
    using assms(1) unfolding run_side_effects_node_def by (elim act_bindE) (auto dest!: act_getE)
  have "core (db w) (db w1)" by (rule keeps_byD [OF keeps_open_step 1])
  also have "core \<dots> (db w2)" using 2 by (elim act_dbE) (auto simp: memories_in_def dest: core_memory_ops)
  also have "core \<dots> (db w3)" using act_pureE [OF 3] core_artifact by (auto simp: result_in_def record_side_effects_result_def)
  also have "core \<dots> (db w4)" using 4 by (elim act_doE) (auto elim!: bind_rE simp: touch_in_def core_touch)
  also have "core \<dots> (db w5)" using act_worldE [OF 5] by (auto simp: snapshot_in_def elim!: bind_rE dest: publish_snapshot_db)
  also have "core \<dots> (db w6)" by (rule keeps_byD [OF keeps_close_step 6])
  finally have c: "core (db w) (db w6)" .
  obtain s where s: "finish_action (db w6) i r ActCompleted None = Inr s" "db w' = s" using 7 by (elim act_doE) (auto simp: finish_in_def)
  have "s = finish_run (put_action (db w6) i (completed_action (clock (db w6)))) r ActCompleted"
    using s(1) assms(2,3) coreD(3) [OF c] by (simp add: finish_action_def completed_action_def [abs_def] utcnow_def)
  then show ?thesis using c s(2) by blast
qed

lemma run_graph_effect:
  assumes n: "nodes_only_record n" and run: "run_graph v n b ev i r w = (Inr u, w')"
  shows "\<exists>cx meta inline w1 w2 thought replies.
    run_decision v n cx r w1 = (Inr (meta, inline), w2) \<and> cx_event cx = ev \<and>
    id_next (db w) \<le> id_next (db w') \<and> id_supply (db w') = id_supply (db w) \<and> clock (db w') = clock (db w) \<and>
    actions (db w') = row_put a_id i (completed_action (clock (db w)) \<circ> used_action meta) (actions (db w)) \<and>
    audit_runs (db w') = row_put ar_id r (\<lambda>x. x\<lparr>ar_status := ActCompleted, ar_finished_at := Some (clock (db w))\<rparr>) (audit_runs (db w)) \<and>
    messages (db w') = messages (db w) @ thought # replies \<and>
    m_is_thought thought \<and> m_role thought = ''assistant'' \<and> (replies = [] \<longleftrightarrow> md_decision meta = ''silence'') \<and> length replies \<le> 1 \<and>
    (\<forall>m\<in>set replies. \<not> m_is_thought m) \<and> (\<forall>m\<in>set (thought # replies). round_message ev i (clock (db w)) m)"
proof -
  obtain cx w1 meta inline w2 d t w3 mi w4 where
    1: "run_context_builder v b ev r w = (Inr cx, w1)" and
    2: "run_decision v n cx r w1 = (Inr (meta, inline), w2)" and
    3: "run_scheduler_node v cx i r meta w2 = (Inr (d, t), w3)" and
    4: "run_reply v n cx i r meta inline w3 = (Inr mi, w4)" and
    5: "run_side_effects_node v cx i r meta d t mi w4 = (Inr u, w')"
    using run unfolding run_graph_def by (auto elim!: act_bindE)
  have ev: "cx_event cx = ev" by (rule context_builder_event [OF 1])
  have c2: "core (db w) (db w2)"
    by (rule core_trans [OF keeps_byD [OF keeps_context_builder 1] keeps_byD [OF keeps_decision [OF n] 2]])
  obtain m a where s3: "round_step i (used_action meta) [m] (db w2) (db w3)" "round_message ev i (clock (db w2)) m"
      "m_is_thought m" "m_role m = ''assistant''" "row_get a_id i (actions (db w3)) = Some a" "a_status a = ActRunning"
    using scheduler_node_step [OF 3] unfolding ev by blast
  obtain ms where s4: "round_step i id ms (db w3) (db w4)" "ms = [] \<longleftrightarrow> md_decision meta = ''silence''" "length ms \<le> 1"
      "\<forall>m\<in>set ms. round_message ev i (clock (db w3)) m \<and> \<not> m_is_thought m"
    using reply_step [OF n 4] unfolding ev by blast
  have a4: "row_get a_id i (actions (db w4)) = Some a" using s4(1) s3(5) by (simp add: round_step_def row_put_id)
  obtain s where s5: "core (db w4) s" "db w' = finish_run (put_action s i (completed_action (clock s))) r ActCompleted"
    using side_effects_step [OF 5 a4 s3(6)] by blast
  have p: "round_step i (used_action meta) ([m] @ ms) (db w) s"
    by (rule round_step_before [OF c2 round_step_after [OF round_step_append [OF s3(1) s4(1)] s5(1)]])
  have clocks: "clock (db w2) = clock (db w)" "clock (db w3) = clock (db w)" "clock s = clock (db w)"
    using coreD(2) [OF c2] s3(1) p by (simp_all add: round_step_def)
  have acts: "actions (db w') = row_put a_id i (completed_action (clock (db w)) \<circ> used_action meta) (actions (db w))"
    using p row_put_row_put [of a_id "used_action meta" i] unfolding s5(2)
    by (simp add: round_step_def finish_run_def put_action_def clocks comp_def)
  show ?thesis
    by (rule exI [of _ cx], rule exI [of _ meta], rule exI [of _ inline], rule exI [of _ w1], rule exI [of _ w2],
        rule exI [of _ m], rule exI [of _ ms], intro conjI, rule 2, rule ev)
       (use p acts s3 s4 clocks in \<open>auto simp: s5(2) round_step_def finish_run_def put_action_def utcnow_def\<close>)
qed

section \<open>The whole round\<close>

lemma clean_for_frame:
  assumes "clean_for s a = Inr s'"
  shows "actions s' = actions s" "id_supply s' = id_supply s" "id_next s' = id_next s" "clock s' = clock s"
proof -
  have d: "actions (delete_message_related_rows s ids) = actions s" "id_supply (delete_message_related_rows s ids) = id_supply s"
    "id_next (delete_message_related_rows s ids) = id_next s" "clock (delete_message_related_rows s ids) = clock s" for ids
    by (simp_all add: delete_message_related_rows_def Let_def)
  have "s' = s \<or> (\<exists>ids. s' = delete_message_related_rows s ids)"
    using assms by (auto simp: clean_for_def cleanup_for_edit_def cleanup_for_retry_def Let_def
      split: if_splits option.splits json.splits elim!: bind_rE)
  then show "actions s' = actions s" "id_supply s' = id_supply s" "id_next s' = id_next s" "clock s' = clock s"
    using d by auto
qed

lemma run_round_parts:
  assumes "run_round v n b a w = (Inr u, w')"
  obtains s1 run s2 where "clean_for (db w) a = Inr s1"
    "start_run s1 (a_cocoon_id a) (a_chat_group_id a) (Some (a_id a)) (a_event_type a) = (run, s2)"
    "run_graph v n b \<lparr>re_event_type = a_event_type a, re_cocoon_id = a_cocoon_id a, re_chat_group_id = a_chat_group_id a,
       re_action_id = a_id a, re_payload = a_payload a\<rparr> (a_id a) (ar_id run) (w\<lparr>db := s2\<rparr>) = (Inr u, w')"
proof -
  obtain ev r w1 where 1: "act_db (prepare_in a) w = (Inr (ev, r), w1)"
    and 2: "run_graph v n b ev (a_id a) r w1 = (Inr u, w')"
    using assms unfolding run_round_def by (auto elim!: act_bindE)
  obtain s where p: "bind_r (prepare_round (db w) a) (\<lambda>(ev, run, s1). Inr ((ev, ar_id run), s1)) = Inr ((ev, r), s)" "w1 = w\<lparr>db := s\<rparr>"
    using 1 unfolding prepare_in_def [abs_def] by (rule act_dbE)
  obtain run where pr: "prepare_round (db w) a = Inr (ev, run, s)" "r = ar_id run"
    using p(1) by (cases "prepare_round (db w) a") auto
  obtain s1 where c: "clean_for (db w) a = Inr s1" using pr(1) unfolding prepare_round_def by (rule bind_rE)
  show ?thesis
    by (rule that [OF c]) (use pr c 2 p(2) in \<open>auto simp: prepare_round_def Let_def split: prod.splits\<close>)
qed

text \<open>
  C1. A round that ends without an exception has completed its action, whatever the language
  model answered: after what it replaces is removed it appends one thought and, exactly when the decision is not silence,
  one reply, all of them messages of its own conversation and action; the action is completed, with the
  memories it used noted in its payload and no error; its audit run is completed; and no other action changes.
\<close>

theorem run_round_completes:
  assumes "nodes_only_record n" "run_round v n b a w = (Inr u, w')"
  shows "\<exists>s1 cx run_id meta inline w1 w2 thought replies.
    clean_for (db w) a = Inr s1 \<and> run_decision v n cx run_id w1 = (Inr (meta, inline), w2) \<and>
    messages (db w') = messages s1 @ thought # replies \<and> m_is_thought thought \<and>
    (replies = [] \<longleftrightarrow> md_decision meta = ''silence'') \<and> length replies \<le> 1 \<and>
    list_all (\<lambda>m. \<not> m_is_thought m) replies \<and>
    list_all (\<lambda>m. m_action_id m = Some (a_id a) \<and> m_cocoon_id m = a_cocoon_id a \<and> m_chat_group_id m = a_chat_group_id a) (thought # replies) \<and>
    actions (db w') = row_put a_id (a_id a) (completed_action (clock (db w)) \<circ> used_action meta) (actions (db w)) \<and>
    (\<exists>run\<in>set (audit_runs (db w')). ar_id run = run_id \<and> ar_action_id run = Some (a_id a) \<and> ar_status run = ActCompleted)"
proof -
  obtain s1 run s2 where c: "clean_for (db w) a = Inr s1"
    and r: "start_run s1 (a_cocoon_id a) (a_chat_group_id a) (Some (a_id a)) (a_event_type a) = (run, s2)"
    and g: "run_graph v n b \<lparr>re_event_type = a_event_type a, re_cocoon_id = a_cocoon_id a, re_chat_group_id = a_chat_group_id a,
       re_action_id = a_id a, re_payload = a_payload a\<rparr> (a_id a) (ar_id run) (w\<lparr>db := s2\<rparr>) = (Inr u, w')"
    by (rule run_round_parts [OF assms(2)])
  note s2 = start_run_frame(1) [OF r] and f = clean_for_frame [OF c]
  have fields: "actions s2 = actions (db w)" "messages s2 = messages s1" "clock s2 = clock (db w)" "audit_runs s2 = row_add run (audit_runs s1)"
    by (simp_all add: s2 f take_id_def)
  have own: "ar_action_id run = Some (a_id a)" using r by (auto simp: start_run_def Let_def)
  obtain cx meta inline w1 w2 thought replies where e:
    "run_decision v n cx (ar_id run) w1 = (Inr (meta, inline), w2)"
    "actions (db w') = row_put a_id (a_id a) (completed_action (clock (db w)) \<circ> used_action meta) (actions (db w))"
    "audit_runs (db w') = row_put ar_id (ar_id run) (\<lambda>x. x\<lparr>ar_status := ActCompleted, ar_finished_at := Some (clock (db w))\<rparr>) (row_add run (audit_runs s1))"
    "messages (db w') = messages s1 @ thought # replies"
    "m_is_thought thought" "replies = [] \<longleftrightarrow> md_decision meta = ''silence''" "length replies \<le> 1" "\<forall>m\<in>set replies. \<not> m_is_thought m"
    "\<forall>m\<in>set (thought # replies). m_action_id m = Some (a_id a) \<and> m_cocoon_id m = a_cocoon_id a \<and> m_chat_group_id m = a_chat_group_id a"
    using run_graph_effect [OF assms(1) g] by (auto simp: round_message_def fields)
  have "\<exists>x\<in>set (audit_runs (db w')). ar_id x = ar_id run \<and> ar_action_id x = Some (a_id a) \<and> ar_status x = ActCompleted"
    unfolding e(3) set_row_put row_add_def using own by auto
  then show ?thesis
    using c e by (intro exI [of _ s1] exI [of _ cx] exI [of _ "ar_id run"] exI [of _ meta] exI [of _ inline] exI [of _ w1]
      exI [of _ w2] exI [of _ thought] exI [of _ replies]) (simp add: list_all_iff)
qed

text \<open>
  The round is a runtime as the chat worker needs it: whatever the language model answers, a round that returns changes only the
  action it runs, keeps its place in the queue, and never starts it again.
\<close>

lemma chat_runtime_keeps_actions:
  assumes "nodes_only_record n" shows "runtime_keeps_actions (chat_runtime v n)"
  unfolding runtime_keeps_actions_def
proof (intro allI impI)
  fix w a w' assume "chat_runtime v n w a = RunReturned w'"
  then obtain u where "run_round v n False a w = (Inr u, w')"
    by (auto simp: chat_runtime_def split: prod.splits sum.splits py_exc.splits)
  then obtain s1 run s2 where c: "clean_for (db w) a = Inr s1"
    and r: "start_run s1 (a_cocoon_id a) (a_chat_group_id a) (Some (a_id a)) (a_event_type a) = (run, s2)"
    and g: "run_graph v n False \<lparr>re_event_type = a_event_type a, re_cocoon_id = a_cocoon_id a, re_chat_group_id = a_chat_group_id a,
       re_action_id = a_id a, re_payload = a_payload a\<rparr> (a_id a) (ar_id run) (w\<lparr>db := s2\<rparr>) = (Inr u, w')"
    by (rule run_round_parts)
  note s2 = start_run_frame(1) [OF r] and f = clean_for_frame [OF c]
  obtain meta where e: "actions (db w') = row_put a_id (a_id a) (completed_action (clock s2) \<circ> used_action meta) (actions s2)"
    "id_next s2 \<le> id_next (db w')" "id_supply (db w') = id_supply s2"
    using run_graph_effect [OF assms g] by auto
  have k: "keeps_place (completed_action (clock s2) \<circ> used_action meta)"
    unfolding keeps_place_def by (simp add: completed_action_def used_action_def)
  show "run_keeps (db w) (a_id a) (db w')"
    unfolding run_keeps_def using e k by (auto simp: s2 f take_id_def completed_action_def intro!: exI [of _ "completed_action (clock s2) \<circ> used_action meta"])
qed

section \<open>A round on a small database\<close>

definition sample_decision :: meta_decision where
  "sample_decision =
     \<lparr>md_decision = ''reply'', md_relation_delta = 7, md_persona_patch = [], md_tag_ops = [], md_internal_thought = ''hm'',
      md_event_summary = None, md_next_wakeup_hints = [],
      md_cancel_wakeup_task_ids = [], md_generation_brief = None, md_used_memory_ids = [], md_session_update = [],
      md_task_state_update = [], md_fact_cache_ops = [], md_memory_ops = [], md_request_mode = ''meta_reply''\<rparr>"

definition sample_reply :: generation_output where
  "sample_reply = \<lparr>go_chunks = [''hello''], go_reply_text = ''hello'', go_structured_output = [], go_usage = [],
     go_provider_kind = ''mock'', go_model_name = ''m''\<rparr>"

definition sample_nodes :: llm_nodes where
  "sample_nodes = \<lparr>ln_generate_inline = (\<lambda>cx r i mode. act_return (sample_decision, sample_reply)),
     ln_evaluate = (\<lambda>cx r i. act_return sample_decision), ln_generate = (\<lambda>cx meta r i. act_return sample_reply)\<rparr>"

definition sample_env :: runtime_env where
  "sample_env = \<lparr>rv_memory = sample_memory_env, rv_audit = sample_audit, rv_iso = (\<lambda>_. None)\<rparr>"

definition sample_action :: action_row where
  "sample_action = (due_action ''e'' 4)\<lparr>a_event_type := ''retry'', a_status := ActRunning, a_started_at := Some 4\<rparr>"

definition sample_round_world :: world where
  "sample_round_world = sample_world\<lparr>db := sample_cocoons\<lparr>actions := [sample_action], tags := [],
     cocoons := [sample_cocoon ''a'' None ''u1''],
     messages := [sample_message ''x1'' ''user'' 1, sample_message ''x2'' ''assistant'' 2],
     characters := [\<lparr>ch_id = ''ch'', ch_name = ''Ann'', ch_prompt_summary = [], ch_settings = [], ch_created_by = None, ch_created_at = 0\<rparr>]\<rparr>\<rparr>"

lemma sample_nodes_record: "nodes_only_record sample_nodes"
  by (simp add: nodes_only_record_def sample_nodes_def core_acts.keeps_return)

text \<open>The replay of a reply: the old one goes, a thought and a new reply come.\<close>

lemma sample_round_runs:
  "(case run_round sample_env sample_nodes False sample_action sample_round_world of
      (Inl _, _) \<Rightarrow> False
    | (Inr _, w') \<Rightarrow>
        map (\<lambda>m. (m_role m, m_content m)) (messages (db w')) = [(''user'', ''text''), (''assistant'', ''hm''), (''assistant'', ''hello'')] \<and>
        map a_status (actions (db w')) = [ActCompleted] \<and> map ar_status (audit_runs (db w')) = [ActCompleted])"
  by code_simp

theorem run_round_completes_witness:
  "(case run_round sample_env sample_nodes False sample_action sample_round_world of
      (Inl _, _) \<Rightarrow> False
    | (Inr _, w') \<Rightarrow>
        (\<exists>s1 thought replies. clean_for (db sample_round_world) sample_action = Inr s1 \<and>
           messages (db w') = messages s1 @ thought # replies \<and> m_is_thought thought) \<and>
        map (\<lambda>m. (m_role m, m_content m)) (messages (db w')) = [(''user'', ''text''), (''assistant'', ''hm''), (''assistant'', ''hello'')])"
proof -
  let ?r = "run_round sample_env sample_nodes False sample_action sample_round_world"
  obtain u w' where r: "?r = (Inr u, w')" using sample_round_runs by (cases ?r) (auto split: sum.splits)
  have "\<exists>s1 thought replies. clean_for (db sample_round_world) sample_action = Inr s1 \<and>
      messages (db w') = messages s1 @ thought # replies \<and> m_is_thought thought"
    using run_round_completes [OF sample_nodes_record r] by blast
  then show ?thesis using sample_round_runs unfolding r by simp
qed

end
