(* ===== verification/DurableWorker.thy ===== *)
theory DurableWorker
  imports Compaction RoundEffects
begin

text \<open>
  The worker for durable jobs (\<open>worker/durable_job_worker_service.py\<close>, \<open>worker/durable_executor.py\<close>,
  \<open>worker/jobs\<close>): it claims the oldest job that is due, runs the service of its type, and records how it
  ended. Unlike the chat worker it does not roll back when a job raises, so the steps that a failed job had
  completed are committed with it. What a single step wrote before it raised is not kept here.
\<close>

section \<open>Actions for jobs\<close>

definition runtime_action :: "session \<Rightarrow> string \<Rightarrow> dict \<Rightarrow> id option \<Rightarrow> id option \<Rightarrow> action_row" where
  "runtime_action s event_type payload cocoon_id chat_group_id =
     \<lparr>a_id = new_id s, a_cocoon_id = cocoon_id, a_chat_group_id = chat_group_id, a_event_type = event_type,
      a_status = ActRunning, a_client_request_id = None, a_debounce_until = None, a_payload = payload,
      a_error_text = None, a_queued_at = utcnow s, a_started_at = Some (utcnow s), a_finished_at = None\<rparr>"

text \<open>An action has a cocoon or a chat group, by a check constraint of its table.\<close>

definition create_runtime_action ::
  "string \<Rightarrow> dict \<Rightarrow> id option \<Rightarrow> id option \<Rightarrow> session \<Rightarrow> (action_row \<times> session) result" where
  "create_runtime_action event_type payload cocoon_id chat_group_id s =
     (if (cocoon_id = None) = (chat_group_id = None) then Inl (IntegrityError ''ck_action_dispatches_target'')
      else let a = runtime_action s event_type payload cocoon_id chat_group_id in Inr (a, add_action s a))"

section \<open>Wakeups\<close>

definition payload_text :: "string \<Rightarrow> dict \<Rightarrow> string result" where
  "payload_text k d = (case dict_get k d of None \<Rightarrow> Inl (KeyError k) | Some (JStr x) \<Rightarrow> Inr x | Some _ \<Rightarrow> Inr [])"

definition wakeup_of_job :: "job_row \<Rightarrow> session \<Rightarrow> wakeup_row option result" where
  "wakeup_of_job job s =
     bind_r (payload_text ''wakeup_task_id'' (j_payload job)) (\<lambda>i. Inr (row_get w_id i (wakeups s)))"

definition set_wakeup_status :: "id \<Rightarrow> job_status \<Rightarrow> session \<Rightarrow> session" where
  "set_wakeup_status i st s = s\<lparr>wakeups := row_put w_id i (\<lambda>t. t\<lparr>w_status := st\<rparr>) (wakeups s)\<rparr>"

text \<open>A task that starts is no longer the next one of its conversation.\<close>

definition begin_wakeup :: "wakeup_row option \<Rightarrow> session \<Rightarrow> session result" where
  "begin_wakeup task s =
     (case task of
        None \<Rightarrow> Inr s
      | Some t \<Rightarrow>
          bind_r (get_session_state (set_wakeup_status (w_id t) JobRunning s) (w_cocoon_id t) (w_chat_group_id t)) (\<lambda>(found, s1).
          case found of
            None \<Rightarrow> Inr s1
          | Some st \<Rightarrow>
              Inr (if st_current_wakeup_task_id st = Some (w_id t)
                   then s1\<lparr>states := row_put st_id (st_id st) (\<lambda>x. x\<lparr>st_current_wakeup_task_id := None\<rparr>) (states s1)\<rparr>
                   else s1)))"

definition wakeup_payload :: "wakeup_row option \<Rightarrow> dict" where
  "wakeup_payload task =
     (case task of
        None \<Rightarrow> [(''wakeup_task_id'', JNull), (''reason'', JNull)]
      | Some t \<Rightarrow> dict_merge [(''wakeup_task_id'', JStr (w_id t)), (''reason'', json_opt_str (w_reason t))] (w_payload t))"

definition sync_in :: "job_row \<Rightarrow> session \<Rightarrow> session result" where
  "sync_in job s = bind_r (sync_current_wakeup_task_id s (j_cocoon_id job) (j_chat_group_id job)) (\<lambda>(_, s1). Inr s1)"

definition end_wakeup :: "wakeup_row option \<Rightarrow> job_row \<Rightarrow> session \<Rightarrow> session result" where
  "end_wakeup task job s =
     sync_in job (case task of None \<Rightarrow> s | Some t \<Rightarrow> set_wakeup_status (w_id t) JobCompleted s)"

definition run_wakeup :: "runtime_env \<Rightarrow> llm_nodes \<Rightarrow> bool \<Rightarrow> job_row \<Rightarrow> wakeup_row option \<Rightarrow> unit act" where
  "run_wakeup v n container job task w =
     act_bind (act_do (begin_wakeup task)) (\<lambda>_.
     act_bind (act_db (create_runtime_action ''wakeup'' (wakeup_payload task) (j_cocoon_id job) (j_chat_group_id job))) (\<lambda>a.
     act_bind (run_round v n container a) (\<lambda>_.
     act_do (end_wakeup task job)))) w"

definition execute_wakeup :: "runtime_env \<Rightarrow> llm_nodes \<Rightarrow> bool \<Rightarrow> job_row \<Rightarrow> unit act" where
  "execute_wakeup v n container job w =
     act_bind (act_get (wakeup_of_job job)) (\<lambda>task.
     if map_option w_status task = Some JobCancelled then act_do (sync_in job)
     else run_wakeup v n container job task) w"

section \<open>Pulls and merges\<close>

definition end_pull :: "job_row \<Rightarrow> id \<Rightarrow> session \<Rightarrow> session result" where
  "end_pull job action_id s =
     (case List.find (\<lambda>p. pj_durable_job_id p = j_id job) (pull_jobs s) of
        None \<Rightarrow> Inr s
      | Some p \<Rightarrow> Inr (s\<lparr>pull_jobs := row_put pj_id (pj_id p)
          (\<lambda>x. x\<lparr>pj_status := JobCompleted, pj_summary := [(''action_id'', JStr action_id)]\<rparr>) (pull_jobs s)\<rparr>))"

definition end_merge :: "job_row \<Rightarrow> id \<Rightarrow> session \<Rightarrow> session result" where
  "end_merge job action_id s =
     (case List.find (\<lambda>p. gj_durable_job_id p = j_id job) (merge_jobs s) of
        None \<Rightarrow> Inr s
      | Some p \<Rightarrow> Inr (s\<lparr>merge_jobs := row_put gj_id (gj_id p)
          (\<lambda>x. x\<lparr>gj_status := JobCompleted, gj_summary := [(''action_id'', JStr action_id)]\<rparr>) (merge_jobs s)\<rparr>))"

definition execute_pull :: "runtime_env \<Rightarrow> llm_nodes \<Rightarrow> bool \<Rightarrow> job_row \<Rightarrow> unit act" where
  "execute_pull v n container job w =
     act_bind (act_db (create_runtime_action ''pull'' (j_payload job) (j_cocoon_id job) None)) (\<lambda>a.
     act_bind (run_round v n container a) (\<lambda>_. act_do (end_pull job (a_id a)))) w"

definition execute_merge :: "runtime_env \<Rightarrow> llm_nodes \<Rightarrow> bool \<Rightarrow> job_row \<Rightarrow> unit act" where
  "execute_merge v n container job w =
     act_bind (act_db (create_runtime_action ''merge'' (j_payload job) (j_cocoon_id job) None)) (\<lambda>a.
     act_bind (run_round v n container a) (\<lambda>_. act_do (end_merge job (a_id a)))) w"

section \<open>The executor\<close>

text \<open>A rollback that finds no anchor leaves its audit run and step behind.\<close>

definition rollback_leftover :: "id \<Rightarrow> session \<Rightarrow> session" where
  "rollback_leftover checkpoint_id s =
     (case row_get cp_id checkpoint_id (checkpoints s) of
        None \<Rightarrow> s
      | Some cp \<Rightarrow> (case start_job_audit (cp_cocoon_id cp) ''rollback'' s of Inl _ \<Rightarrow> s | Inr (_, s1) \<Rightarrow> s1))"

definition rollback_job :: "runtime_env \<Rightarrow> id \<Rightarrow> unit act" where
  "rollback_job v checkpoint_id w =
     (case execute_rollback (rv_audit v) w checkpoint_id of
        Inl e \<Rightarrow> (Inl e, w\<lparr>db := rollback_leftover checkpoint_id (db w)\<rparr>)
      | Inr w' \<Rightarrow> (Inr (), w'))"

definition payload_texts :: "string \<Rightarrow> dict \<Rightarrow> string list" where
  "payload_texts k d =
     (case dict_get k d of Some (JList xs) \<Rightarrow> List.map_filter (\<lambda>x. case x of JStr t \<Rightarrow> Some t | _ \<Rightarrow> None) xs | _ \<Rightarrow> [])"

definition payload_in :: "string \<Rightarrow> job_row \<Rightarrow> session \<Rightarrow> string result" where
  "payload_in k job s = payload_text k (j_payload job)"

definition cleanup_in :: "id list \<Rightarrow> string option \<Rightarrow> world \<Rightarrow> unit \<times> world" where
  "cleanup_in ids mode w = ((), execute_artifact_cleanup w ids mode)"

definition execute_job :: "runtime_env \<Rightarrow> llm_nodes \<Rightarrow> summarizer \<Rightarrow> bool \<Rightarrow> job_row \<Rightarrow> unit act" where
  "execute_job v n llm container job w =
     (case j_job_type job of
        JobRollback \<Rightarrow> act_bind (act_get (payload_in ''checkpoint_id'' job)) (rollback_job v) w
      | JobCompaction \<Rightarrow> execute_compaction v llm container (j_cocoon_id job) (dict_str_opt ''before_message_id'' (j_payload job)) w
      | JobMemoryReorganize \<Rightarrow>
          execute_reorganize v llm container (j_cocoon_id job) (payload_texts ''memory_ids'' (j_payload job))
            (dict_str_opt ''instructions'' (j_payload job)) w
      | JobMemoryMaintenance \<Rightarrow> act_do execute_maintenance w
      | JobArtifactCleanup \<Rightarrow> act_pure (cleanup_in (payload_texts ''artifact_ids'' (j_payload job)) (dict_str_opt ''mode'' (j_payload job))) w
      | JobWakeup \<Rightarrow> execute_wakeup v n container job w
      | JobPull \<Rightarrow> execute_pull v n container job w
      | JobMerge \<Rightarrow> execute_merge v n container job w
      | JobPluginImDelivery \<Rightarrow> (Inl (ValueError ''Unsupported durable job type: plugin_im_delivery''), w))"

section \<open>The worker\<close>

fun job_type_text :: "job_type \<Rightarrow> string" where
  "job_type_text JobPull = ''pull''"
| "job_type_text JobMerge = ''merge''"
| "job_type_text JobWakeup = ''wakeup''"
| "job_type_text JobPluginImDelivery = ''plugin_im_delivery''"
| "job_type_text JobRollback = ''rollback''"
| "job_type_text JobCompaction = ''compaction''"
| "job_type_text JobMemoryReorganize = ''memory_reorganize''"
| "job_type_text JobMemoryMaintenance = ''memory_maintenance''"
| "job_type_text JobArtifactCleanup = ''artifact_cleanup''"

definition publish_job :: "world \<Rightarrow> job_row \<Rightarrow> string \<Rightarrow> dict \<Rightarrow> world" where
  "publish_job w job kind entries =
     publish w (or_else (j_cocoon_id job) ''global'') ([(''type'', JStr kind), (''action_id'', JStr (j_id job))] @ entries)"

definition job_failed_round :: "session \<Rightarrow> job_row \<Rightarrow> string \<Rightarrow> session" where
  "job_failed_round s job reason =
     (if truthy (j_cocoon_id job) then add_failed_round s (j_cocoon_id job) None None (job_type_text (j_job_type job)) reason else s)"

text \<open>
  A failed flush makes the session unusable until it is rolled back, so recording the failure raises as
  well and the whole transaction, the claim included, is undone.
\<close>

definition end_job :: "world \<Rightarrow> job_row \<Rightarrow> py_exc + unit \<Rightarrow> world \<Rightarrow> (py_exc + bool) \<times> world" where
  "end_job w job outcome w2 =
     (case outcome of
        Inr _ \<Rightarrow>
          (Inr True, publish_job (w2\<lparr>db := finish_job (db w2) (j_id job) JobCompleted None\<rparr>) job ''job_status''
             [(''status'', JStr ''completed'')])
      | Inl (IntegrityError t) \<Rightarrow> (Inl (OtherException ''PendingRollbackError''), w2\<lparr>db := db w\<rparr>)
      | Inl e \<Rightarrow>
          (Inr True, publish_job (w2\<lparr>db := finish_job (job_failed_round (db w2) job (exc_text e)) (j_id job) JobFailed (Some (exc_text e))\<rparr>)
             job ''error'' [(''reason'', JStr (exc_text e))]))"

definition process_next_job :: "(job_row \<Rightarrow> unit act) \<Rightarrow> string \<Rightarrow> bool act" where
  "process_next_job execute worker_name w =
     (case claim_next (db w) worker_name of
        (None, s) \<Rightarrow> (Inr False, w\<lparr>db := s\<rparr>)
      | (Some job, s) \<Rightarrow>
          let w1 = publish_job (w\<lparr>db := s\<rparr>) job ''job_status'' [(''status'', JStr ''running'')]
          in case execute job w1 of (outcome, w2) \<Rightarrow> end_job w job outcome w2)"

definition process_next_durable_job :: "runtime_env \<Rightarrow> llm_nodes \<Rightarrow> summarizer \<Rightarrow> string \<Rightarrow> bool act" where
  "process_next_durable_job v n llm worker_name w = process_next_job (execute_job v n llm False) worker_name w"

end
