(* ===== verification/JobEffects.thy ===== *)
theory JobEffects
  imports DurableWorker
begin

text \<open>
  Every durable job that is claimed ends: its row is completed or failed, and no other job that had
  left the queue changes. The first section carries the relation \<open>jobs_step\<close> through every service a job runs.
\<close>

section \<open>What jobs do to jobs\<close>

definition jobs_step :: "session \<Rightarrow> session \<Rightarrow> bool" where
  "jobs_step s s' \<longleftrightarrow> jobs_move (jobs s) (jobs s')"

interpretation job_acts: session_relation jobs_step
  by unfold_locales (auto simp: jobs_step_def intro: jobs_move_trans)

lemma jobs_step_core: "core s s' \<Longrightarrow> jobs_step s s'"
  by (simp add: jobs_step_def coreD)

lemma jobs_step_round: "round_step i f ms s s' \<Longrightarrow> jobs_step s s'"
  by (simp add: jobs_step_def round_step_def)

lemma jobs_step_same: "jobs s' = jobs s \<Longrightarrow> jobs_step s s'"
  by (simp add: jobs_step_def)

lemma keeps_jobs: "keeps_by core m \<Longrightarrow> keeps_by jobs_step m"
  by (simp add: keeps_by_def jobs_step_core)

definition model_only_records :: "llm_nodes \<Rightarrow> summarizer \<Rightarrow> bool" where
  "model_only_records n llm \<longleftrightarrow>
     nodes_only_record n \<and> (\<forall>kind model vars k r i. keeps_by core (llm kind model vars k r i))"

subsection \<open>Rounds\<close>

lemma jobs_delete_messages [simp]: "jobs (delete_message_related_rows s ids) = jobs s"
  by (simp add: delete_message_related_rows_def Let_def)

lemma clean_for_jobs: "clean_for s a = Inr s' \<Longrightarrow> jobs s' = jobs s"
  by (auto simp: clean_for_def cleanup_for_edit_def cleanup_for_retry_def Let_def
      split: if_splits option.splits json.splits elim!: bind_rE)

lemma jobs_start_run [simp]: "jobs (snd (start_run s c g a k)) = jobs s"
  by (simp add: start_run_def Let_def)

lemma jobs_finish_run [simp]: "jobs (finish_run s r st) = jobs s"
  by (simp add: finish_run_def)

lemma prepare_jobs: "prepare_in a s = Inr (x, s') \<Longrightarrow> jobs_step s s'"
proof (rule jobs_step_same)
  assume "prepare_in a s = Inr (x, s')"
  then obtain s1 where "clean_for s a = Inr s1" "s' = snd (start_run s1 (a_cocoon_id a) (a_chat_group_id a) (Some (a_id a)) (a_event_type a))"
    by (auto simp: prepare_in_def prepare_round_def Let_def case_prod_beta elim!: bind_rE)
  then show "jobs s' = jobs s" using clean_for_jobs by simp
qed

lemma finish_action_jobs: "finish_action s i r st e = Inr s' \<Longrightarrow> jobs s' = jobs s"
  by (auto simp: finish_action_def put_action_def split: option.splits if_splits)

lemma record_result_core: "core (db w) (db (record_side_effects_result v w r t st a mi ti ids d))"
  using core_artifact by (simp add: record_side_effects_result_def)

lemmas jobs_node_steps = job_acts.keeps_bind job_acts.keeps_return job_acts.keeps_get
  keeps_jobs [OF keeps_open_step] keeps_jobs [OF keeps_close_step] keeps_jobs [OF keeps_save_artifact]
  keeps_saves [THEN keeps_jobs]

lemma keeps_jobs_scheduler: "keeps_by jobs_step (run_scheduler_node v cx i r meta)"
proof -
  have "jobs_step (db w) (db w')" if "patch_in cx i meta w = Inr (x, w')" for w x w'
    using that by (auto simp: patch_in_def elim!: bind_rE intro: jobs_step_core apply_and_publish_core)
  moreover have "jobs_step s s'" if "task_in v cx meta s = Inr s'" for s s'
    using that by (auto simp: task_in_def intro: jobs_step_core core_task_patch)
  moreover have "jobs_step s s'" if "facts_in v cx meta s = Inr (x, s')" for s x s'
    using that core_facts [of s v "cx_event cx" "md_fact_cache_ops meta"] by (auto simp: facts_in_def intro: jobs_step_core)
  moreover have "jobs_step s s'" if "note_used_memories i meta s = Inr s'" for s s'
    using that by (auto simp: note_used_memories_def put_action_def intro: jobs_step_same)
  moreover have "jobs_step s s'" if "schedule_in v cx meta s = Inr (x, s')" for s x s'
    using that by (auto simp: schedule_in_def intro: jobs_step_core core_schedule_round)
  moreover have "jobs_step s s'" if "thought_in cx i meta s = Inr (x, s')" for s x s'
    using that persist_thought_step [of s cx i meta x s'] by (auto simp: thought_in_def intro: jobs_step_round)
  ultimately show ?thesis unfolding run_scheduler_node_def [abs_def]
    by (intro jobs_node_steps job_acts.keeps_world job_acts.keeps_do job_acts.keeps_db) auto
qed

lemma keeps_jobs_reply:
  assumes "nodes_only_record n" shows "keeps_by jobs_step (run_reply v n cx i r meta inline)"
proof -
  have gen: "keeps_by jobs_step (generate_in n cx meta r step inline)" for step
    using assms by (cases inline)
      (auto simp: generate_in_def [abs_def] nodes_only_record_def intro: job_acts.keeps_return keeps_jobs)
  have del: "jobs_step (db w) (db w')" if "deliver_in v cx a r step g w = Inr (x, w')" for a step g w x w'
    using deliver_reply_step [of v w cx a r step g x w'] that by (auto simp: deliver_in_def intro: jobs_step_round)
  have "keeps_by jobs_step (run_generator_node v n cx i r meta inline)"
    unfolding run_generator_node_def [abs_def] by (intro jobs_node_steps gen job_acts.keeps_world) (rule del)
  then show ?thesis unfolding run_reply_def [abs_def]
    by (cases "route_after_scheduler meta = ''generator_node''") (auto intro!: job_acts.keeps_bind job_acts.keeps_return)
qed

lemma keeps_jobs_side_effects: "keeps_by jobs_step (run_side_effects_node v cx i r meta sched t mi)"
proof -
  have "jobs_step s s'" if "memories_in v cx i meta mi s = Inr (x, s')" for s x s'
    using that by (auto simp: memories_in_def intro: jobs_step_core core_memory_ops)
  moreover have "jobs_step (db w) (db (snd (result_in v r step st a mi t ids d w)))" for step st a ids d w
    using record_result_core by (auto simp: result_in_def intro: jobs_step_core)
  moreover have "jobs_step s s'" if "touch_in cx meta s = Inr s'" for s s'
    using that by (auto simp: touch_in_def elim!: bind_rE intro: jobs_step_core core_touch)
  moreover have "jobs_step (db w) (db w')" if "snapshot_in cx i st w = Inr (x, w')" for st w x w'
    using that publish_snapshot_db by (auto simp: snapshot_in_def elim!: bind_rE intro!: jobs_step_same)
  moreover have "jobs_step s s'" if "finish_in i r s = Inr s'" for s s'
    using that finish_action_jobs by (auto simp: finish_in_def intro!: jobs_step_same)
  ultimately show ?thesis unfolding run_side_effects_node_def [abs_def]
    by (intro jobs_node_steps job_acts.keeps_world job_acts.keeps_do job_acts.keeps_db job_acts.keeps_pure) auto
qed

lemma keeps_jobs_round:
  assumes "nodes_only_record n" shows "keeps_by jobs_step (run_round v n b a)"
proof -
  note parts = keeps_jobs [OF keeps_context_builder] keeps_jobs [OF keeps_decision [OF assms]]
    keeps_jobs_scheduler keeps_jobs_reply [OF assms] keeps_jobs_side_effects
  have "keeps_by jobs_step (run_graph v n b ev i r)" for ev i r
    unfolding run_graph_def [abs_def] by (intro job_acts.keeps_bind parts) (auto intro!: job_acts.keeps_bind parts)
  then show ?thesis unfolding run_round_def [abs_def]
    by (intro job_acts.keeps_bind job_acts.keeps_db) (auto intro: prepare_jobs)
qed

subsection \<open>Rewriting memories\<close>

lemma core_item_tags: "item_tags s c t by_index k = (ts, s') \<Longrightarrow> core s s'"
  unfolding item_tags_def by (rule core_state_frame [OF state_frame_canonicalize])

lemma core_store_candidate:
  assumes "store_candidate e s c profile kind sm co ts k = Inr (x, s')" shows "core s s'"
  using assms unfolding store_candidate_def
  by (auto split: if_splits elim!: bind_rE intro: core_trans dest!: core_upsert_candidate core_promote)

lemma core_store_rewritten:
  assumes "store_rewritten e s c kind sm co ts k = Inr (x, s')" shows "core s s'"
proof -
  let ?m = "rewritten_memory s c kind sm co ts k"
  have "core s (add_memory_tags ((take_id s)\<lparr>memories := row_add ?m (memories s)\<rparr>) (mem_id ?m) ts)"
    by (rule core_trans [OF _ core_memory_tags]) (simp add: core_def)
  with assms show ?thesis unfolding store_rewritten_def Let_def
    by (auto elim!: bind_rE dest!: core_index intro: core_trans)
qed

lemma core_store_item:
  assumes "store_item e s c profile kind t by_index k = Inr (x, s')" shows "core s s'"
proof (cases "py_strip (km_summary k) = [] \<or> py_strip (km_content k) = []")
  case True
  then show ?thesis using assms by (auto simp: store_item_def Let_def)
next
  case False
  obtain ts s1 where t: "item_tags s c t by_index k = (ts, s1)" by (metis surj_pair)
  have "core s1 s'" using assms False t
    by (auto simp: store_item_def Let_def split: if_splits dest: core_store_candidate core_store_rewritten)
  with core_item_tags [OF t] show ?thesis by (rule core_trans)
qed

lemma core_store_items: "store_items e s c profile kind t by_index ks = Inr (x, s') \<Longrightarrow> core s s'"
proof (induction ks arbitrary: s x)
  case Nil
  then show ?case by simp
next
  case (Cons k ks)
  obtain a s1 where 1: "store_item e s c profile kind t by_index k = Inr (a, s1)"
    and 2: "bind_r (store_items e s1 c profile kind t by_index ks) (\<lambda>(ids', s2). Inr (a @ ids', s2)) = Inr (x, s')"
    using Cons.prems by (auto elim!: bind_r_pairE)
  obtain b where "store_items e s1 c profile kind t by_index ks = Inr (b, s')" using 2 by (auto elim!: bind_r_pairE)
  from core_trans [OF core_store_item [OF 1] Cons.IH [OF this]] show ?case .
qed

lemma core_store_in:
  assumes "store_in e c profile kind by_index ks s = Inr (x, s')" shows "core s s'"
proof -
  obtain t s1 where t: "ensure_user_system_tag s (c_owner_user_id c) = (t, s1)" by (metis surj_pair)
  have "core s1 s'" using assms core_store_items by (auto simp: store_in_def t)
  with core_state_frame [OF state_frame_ensure [OF t]] show ?thesis by (rule core_trans)
qed

lemma job_audit_jobs:
  "start_job_audit c name s = Inr (x, s') \<Longrightarrow> jobs_step s s'"
  "finish_job_audit r i s = Inr s' \<Longrightarrow> jobs_step s s'"
  by (auto simp: start_job_audit_def finish_job_audit_def case_prod_beta start_step_def finish_step_def Let_def intro!: jobs_step_same)

lemma job_setup_jobs:
  "job_state c s = Inr (st, s') \<Longrightarrow> jobs_step s s'"
  "job_memory_profile b c s = Inr (p, s') \<Longrightarrow> jobs_step s s'"
  "job_catalog c s = Inr (cat, s') \<Longrightarrow> jobs_step s s'"
  "move_context_start c ids m s = Inr s' \<Longrightarrow> jobs_step s s'"
  "archive_sources ms s = Inr s' \<Longrightarrow> jobs_step s s'"
proof -
  show "job_state c s = Inr (st, s') \<Longrightarrow> jobs_step s s'"
    unfolding job_state_def by (intro jobs_step_core core_state_frame) (rule state_frame_ensure_state)
  show "job_memory_profile b c s = Inr (p, s') \<Longrightarrow> jobs_step s s'"
    using core_memory_profile [of s "Some (c_memory_profile c)"] by (auto simp: job_memory_profile_def split: if_splits intro: jobs_step_core)
  show "job_catalog c s = Inr (cat, s') \<Longrightarrow> jobs_step s s'"
    unfolding job_catalog_def by (intro jobs_step_core) (auto elim: core_prompt_catalog)
  show "move_context_start c ids m s = Inr s' \<Longrightarrow> jobs_step s s'"
    by (auto simp: move_context_start_def split: list.splits option.splits intro: jobs_step_same)
  show "archive_sources ms s = Inr s' \<Longrightarrow> jobs_step s s'"
    using core_mark by (auto simp: archive_sources_def intro: jobs_step_core)
qed

lemma keeps_jobs_compaction:
  assumes "model_only_records n llm" shows "keeps_by jobs_step (execute_compaction v llm b c before)"
proof -
  have llm: "keeps_by jobs_step (llm kind model vars k r i)" for kind model vars k r i
    using assms by (simp add: model_only_records_def keeps_jobs)
  have "keeps_by jobs_step (compact_selected v llm b x r i sel ret)" for x r i sel ret
    unfolding compact_selected_def [abs_def] save_compaction_result_def [abs_def] case_prod_beta
    by (intro jobs_node_steps llm job_acts.keeps_db job_acts.keeps_do)
       (auto intro: job_setup_jobs job_audit_jobs jobs_step_core core_store_in)
  then show ?thesis unfolding execute_compaction_def [abs_def] case_prod_beta
    by (intro jobs_node_steps job_acts.keeps_if job_acts.keeps_db job_acts.keeps_do) (auto intro: job_audit_jobs)
qed

lemma keeps_jobs_reorganize:
  assumes "model_only_records n llm" shows "keeps_by jobs_step (execute_reorganize v llm b c ids ins)"
proof -
  have llm: "keeps_by jobs_step (llm kind model vars k r i)" for kind model vars k r i
    using assms by (simp add: model_only_records_def keeps_jobs)
  have "keeps_by jobs_step (reorganize_selected v llm b x ms ins)" for x ms
    unfolding reorganize_selected_def [abs_def] save_reorganize_result_def [abs_def] case_prod_beta
    by (intro jobs_node_steps llm job_acts.keeps_db job_acts.keeps_do)
       (auto intro: job_setup_jobs job_audit_jobs jobs_step_core core_store_in)
  then show ?thesis unfolding execute_reorganize_def [abs_def]
    by (intro jobs_node_steps job_acts.keeps_if)
qed

subsection \<open>The other jobs\<close>

lemma drop_artifact_jobs [simp]: "jobs (db (drop_artifact w a)) = jobs (db w)"
  by (simp add: drop_artifact_def delete_file_def Let_def)

lemma drop_artifacts_jobs [simp]: "jobs (db (foldl drop_artifact w as)) = jobs (db w)"
  by (induction as arbitrary: w) simp_all

lemma drop_by_id_jobs [simp]: "jobs (db (drop_artifacts_by_id w ids)) = jobs (db w)"
  by (induction ids arbitrary: w) (auto split: option.split)

lemma cleanup_jobs: "jobs (db (execute_artifact_cleanup w ids mode)) = jobs (db w)"
  by (simp add: execute_artifact_cleanup_def cleanup_expired_artifacts_def Let_def)

lemma maintenance_jobs: "execute_maintenance s = Inr s' \<Longrightarrow> jobs s' = jobs s"
  by (auto simp: execute_maintenance_def Let_def elim!: bind_rE)

lemma jobs_start_step [simp]: "jobs (snd (start_step s r nm m)) = jobs s"
  by (simp add: start_step_def Let_def)

lemma rollback_jobs:
  assumes "execute_rollback e w i = Inr w'" shows "jobs (db w') = jobs (db w)"
proof -
  obtain cp where "row_get cp_id i (checkpoints (db w)) = Some cp"
    using assms by (auto simp: execute_rollback_def split: option.splits)
  with assms show ?thesis by (rule execute_rollback_facts)
qed

lemma rollback_leftover_jobs: "jobs (rollback_leftover i s) = jobs s"
  by (auto simp: rollback_leftover_def start_job_audit_def case_prod_beta split: option.split sum.split)

lemma keeps_jobs_rollback: "keeps_by jobs_step (rollback_job v i)"
  unfolding keeps_by_def
proof
  fix w
  show "jobs_step (db w) (db (snd (rollback_job v i w)))"
    by (cases "execute_rollback (rv_audit v) w i")
       (auto simp: rollback_job_def rollback_leftover_jobs intro!: jobs_step_same dest: rollback_jobs)
qed

lemma create_action_jobs: "create_runtime_action k p c g s = Inr (a, s') \<Longrightarrow> jobs_step s s'"
  by (auto simp: create_runtime_action_def add_action_def Let_def split: if_splits intro!: jobs_step_same)

lemma wakeup_status_jobs [simp]: "jobs (set_wakeup_status i st s) = jobs s"
  by (simp add: set_wakeup_status_def)

lemma sync_in_jobs: "sync_in job s = Inr s' \<Longrightarrow> jobs_step s s'"
  unfolding sync_in_def by (auto elim!: bind_rE intro: jobs_step_core core_sync)

lemma begin_wakeup_jobs:
  assumes "begin_wakeup task s = Inr s'" shows "jobs_step s s'"
proof (cases task)
  case None
  then show ?thesis using assms by (simp add: begin_wakeup_def jobs_step_same)
next
  case (Some t)
  obtain x s1 where g: "get_session_state (set_wakeup_status (w_id t) JobRunning s) (w_cocoon_id t) (w_chat_group_id t) = Inr (x, s1)"
    and s': "jobs s' = jobs s1"
    using assms Some by (auto simp: begin_wakeup_def split: option.splits elim!: bind_r_pairE)
  have "jobs s1 = jobs s" using state_frameD [OF state_frame_get_state [OF g]] by simp
  then show ?thesis using s' by (intro jobs_step_same) simp
qed

lemma end_wakeup_jobs: "end_wakeup task job s = Inr s' \<Longrightarrow> jobs_step s s'"
  by (cases task) (auto simp: end_wakeup_def jobs_step_def dest: sync_in_jobs [unfolded jobs_step_def])

lemma end_pull_jobs: "end_pull job i s = Inr s' \<Longrightarrow> jobs_step s s'" "end_merge job i s = Inr s' \<Longrightarrow> jobs_step s s'"
  by (auto simp: end_pull_def end_merge_def split: option.splits intro!: jobs_step_same)

lemma keeps_jobs_execute:
  assumes "model_only_records n llm" shows "keeps_by jobs_step (execute_job v n llm b job)"
proof -
  have n: "nodes_only_record n" using assms by (simp add: model_only_records_def)
  have wakeup: "keeps_by jobs_step (execute_wakeup v n b job)"
    unfolding execute_wakeup_def [abs_def] run_wakeup_def [abs_def]
    by (intro job_acts.keeps_bind job_acts.keeps_if job_acts.keeps_get job_acts.keeps_do job_acts.keeps_db keeps_jobs_round [OF n])
       (auto intro: sync_in_jobs begin_wakeup_jobs create_action_jobs end_wakeup_jobs)
  have pull: "keeps_by jobs_step (execute_pull v n b job)" "keeps_by jobs_step (execute_merge v n b job)"
    unfolding execute_pull_def [abs_def] execute_merge_def [abs_def]
    by (intro job_acts.keeps_bind job_acts.keeps_do job_acts.keeps_db keeps_jobs_round [OF n];
        auto intro: create_action_jobs end_pull_jobs)+
  have rest: "keeps_by jobs_step (act_bind (act_get (payload_in ''checkpoint_id'' job)) (rollback_job v))"
    "keeps_by jobs_step (act_do execute_maintenance)" "keeps_by jobs_step (act_pure (cleanup_in ids mode))" for ids mode
    by (intro job_acts.keeps_bind job_acts.keeps_get keeps_jobs_rollback job_acts.keeps_do job_acts.keeps_pure;
        auto simp: cleanup_in_def cleanup_jobs maintenance_jobs intro!: jobs_step_same)+
  show ?thesis
    using wakeup pull rest keeps_jobs_compaction [OF assms] keeps_jobs_reorganize [OF assms]
    by (cases "j_job_type job") (simp_all add: execute_job_def [abs_def] keeps_by_def jobs_step_same)
qed

section \<open>A claimed job ends\<close>

lemma publish_job_db [simp]: "db (publish_job w job k xs) = db w"
  by (simp add: publish_job_def publish_def)

lemma jobs_failed_round [simp]: "jobs (job_failed_round s job r) = jobs s"
  by (simp add: job_failed_round_def add_failed_round_def)

lemma finish_job_row:
  "row_get j_id i (jobs (finish_job s i st e)) =
     map_option (\<lambda>j. j\<lparr>j_status := st, j_error_text := e, j_finished_at := Some (clock s)\<rparr>) (row_get j_id i (jobs s))"
  "i' \<noteq> i \<Longrightarrow> row_get j_id i' (jobs (finish_job s i st e)) = row_get j_id i' (jobs s)"
  by (simp_all add: finish_job_def row_get_put utcnow_def)

lemma end_job_cases:
  assumes "end_job w job out w2 = (Inr b, w')"
  obtains st e s where "b" "db w' = finish_job s (j_id job) st e" "jobs s = jobs (db w2)"
    "st = JobCompleted \<and> e = None \<or> st = JobFailed \<and> e \<noteq> None"
proof (cases out)
  case (Inr u)
  then show ?thesis using assms that [of "db w2" JobCompleted None] by (auto simp: end_job_def)
next
  case (Inl x)
  then have "\<not> (\<exists>t. x = IntegrityError t)" using assms by (auto simp: end_job_def)
  then have "b" "db w' = finish_job (job_failed_round (db w2) job (exc_text x)) (j_id job) JobFailed (Some (exc_text x))"
    using assms Inl by (auto simp: end_job_def split: py_exc.splits)
  then show ?thesis using that by simp
qed

lemma jobs_move_settled:
  "jobs_move js js' \<Longrightarrow> row_get j_id i js = Some j \<Longrightarrow> j_status j \<noteq> JobQueued \<Longrightarrow> row_get j_id i js' = Some j"
  by (auto simp: jobs_move_def job_moves_def dest: spec [of _ i])

lemma row_get_distinct: "distinct (map key rows) \<Longrightarrow> r \<in> set rows \<Longrightarrow> row_get key (key r) rows = Some r"
  unfolding row_get_def by (induction rows) (auto simp: image_iff)


section \<open>Jobs that need a memory profile\<close>

definition needs_profile :: "session \<Rightarrow> job_row \<Rightarrow> cocoon_row \<Rightarrow> bool" where
  "needs_profile s job c \<longleftrightarrow>
     (case j_job_type job of
        JobCompaction \<Rightarrow> fst (compaction_selection c (dict_str_opt ''before_message_id'' (j_payload job)) s) \<noteq> []
      | JobMemoryReorganize \<Rightarrow> list_ex (\<lambda>m. mem_id m \<in> set (payload_texts ''memory_ids'' (j_payload job)) \<and> mem_status m = ''active'') (memories s)
      | _ \<Rightarrow> False)"

lemma job_state_ok:
  assumes "c_id c \<noteq> []" obtains st s' where "job_state c s = Inr (st, s')" "memories s' = memories s" "cocoons s' = cocoons s"
proof -
  have "\<exists>x. get_session_state s (Some (c_id c)) None = Inr x"
    using assms by (auto simp: get_session_state_def split: option.split prod.split)
  then obtain r s1 where "get_session_state s (Some (c_id c)) None = Inr (r, s1)" by (metis surj_pair)
  then obtain st s' where e: "ensure_session_state s (Some (c_id c)) None = Inr (st, s')"
    by (cases r) (auto simp: ensure_session_state_def case_prod_beta Let_def, metis surj_pair)
  from state_frameD(5,10) [OF state_frame_ensure_state [OF this]] e that show ?thesis by (simp add: job_state_def)
qed

lemma needs_profile_fails:
  assumes c: "row_get_opt c_id (j_cocoon_id job) (cocoons (db w)) = Some c" "c_id c \<noteq> []" and need: "needs_profile (db w) job c"
  shows "\<exists>s'. execute_job v n llm False job w = (Inl (KeyError ''container''), w\<lparr>db := s'\<rparr>) \<and>
    memories s' = memories (db w) \<and> cocoons s' = cocoons (db w) \<and> jobs_step (db w) s'"
proof -
  have cocoon: "act_get (job_cocoon (j_cocoon_id job)) w = (Inr c, w)" using c(1) by (simp add: act_get_def job_cocoon_def)
  consider (compaction) "j_job_type job = JobCompaction" | (reorganize) "j_job_type job = JobMemoryReorganize"
    using need by (cases "j_job_type job") (simp_all add: needs_profile_def)
  then show ?thesis
  proof cases
    case compaction
    let ?b = "dict_str_opt ''before_message_id'' (j_payload job)"
    obtain r i s1 where a: "start_job_audit (c_id c) ''compaction'' (db w) = Inr ((r, i), s1)"
      by (auto simp: start_job_audit_def case_prod_beta)
    have s1: "messages s1 = messages (db w)" "memories s1 = memories (db w)" "cocoons s1 = cocoons (db w)" "jobs s1 = jobs (db w)"
      using a by (auto simp: start_job_audit_def case_prod_beta start_run_def start_step_def Let_def take_id_def)
    obtain sel ret where sel: "compaction_selection c ?b s1 = (sel, ret)" by (metis surj_pair)
    have ne: "sel \<noteq> []" using need compaction sel s1(1) by (simp add: needs_profile_def compaction_selection_def)
    obtain st s2 where st: "job_state c s1 = Inr (st, s2)" "memories s2 = memories s1" "cocoons s2 = cocoons s1"
      using job_state_ok [OF c(2)] by blast
    have "execute_job v n llm False job w = (Inl (KeyError ''container''), w\<lparr>db := s2\<rparr>)"
      using cocoon a sel ne st(1) compaction
      by (simp add: execute_job_def execute_compaction_def compact_selected_def act_bind_def act_db_def act_get_def
          selection_in_def job_memory_profile_def job_cocoon_def c(1))
    moreover have "jobs_step (db w) s2" using job_setup_jobs(1) [OF st(1)] s1(4) by (simp add: jobs_step_def)
    ultimately show ?thesis using s1 st by auto
  next
    case reorganize
    have "filter (\<lambda>m. mem_id m \<in> set (payload_texts ''memory_ids'' (j_payload job)) \<and> mem_status m = ''active'') (memories (db w)) \<noteq> []"
      using need reorganize by (simp add: needs_profile_def list_ex_iff filter_empty_conv)
    then have "execute_job v n llm False job w = (Inl (KeyError ''container''), w)"
      using cocoon reorganize
      by (simp add: execute_job_def execute_reorganize_def reorganize_selected_def act_bind_def act_db_def act_get_def
          selected_memories_def job_memory_profile_def job_cocoon_def c(1))
    then show ?thesis by (intro exI [of _ "db w"]) (simp add: jobs_step_def)
  qed
qed

text \<open>
  In the worker no compaction with messages to compact, and no reorganization of active memories, ever
  succeeds: the session of a worker has no container, so the job fails with the text of that error and no
  memory and no cocoon changes.
\<close>

theorem memory_jobs_fail_in_worker:
  assumes "distinct (map j_id (jobs (db w)))" "claim_next (db w) worker_name = (Some job, s)"
    and "row_get_opt c_id (j_cocoon_id job) (cocoons (db w)) = Some c" "c_id c \<noteq> []" "needs_profile (db w) job c"
  shows "\<exists>w' end_row. process_next_durable_job v n llm worker_name w = (Inr True, w') \<and>
    row_get j_id (j_id job) (jobs (db w')) = Some end_row \<and> j_status end_row = JobFailed \<and>
    j_error_text end_row = Some (exc_text (KeyError ''container'')) \<and>
    memories (db w') = memories (db w) \<and> cocoons (db w') = cocoons (db w)"
proof -
  define w1 where "w1 = publish_job (w\<lparr>db := s\<rparr>) job ''job_status'' [(''status'', JStr ''running'')]"
  obtain js where s: "s = (db w)\<lparr>jobs := js\<rparr>" and row: "row_get j_id (j_id job) js = Some job"
    using assms(2)
  proof (cases rule: claim_next_cases)
    case (claimed j f)
    then show ?thesis using that row_get_distinct [OF assms(1) claimed(1)] by (auto simp: row_get_put)
  qed simp
  have "row_get_opt c_id (j_cocoon_id job) (cocoons (db w1)) = Some c" "needs_profile (db w1) job c"
    using assms(3,5) by (auto simp: w1_def s needs_profile_def compaction_selection_def split: job_type.splits)
  from needs_profile_fails [OF this(1) assms(4) this(2), of v n llm] obtain s' where
    x: "execute_job v n llm False job w1 = (Inl (KeyError ''container''), w1\<lparr>db := s'\<rparr>)" "memories s' = memories (db w1)"
      "cocoons s' = cocoons (db w1)" "jobs_step (db w1) s'" by blast
  obtain j where j: "row_get j_id (j_id job) (jobs s') = Some j"
    using x(4) row by (auto simp: jobs_step_def jobs_move_def job_moves_def w1_def s dest!: spec [of _ "j_id job"])
  have "process_next_durable_job v n llm worker_name w = end_job w job (Inl (KeyError ''container'')) (w1\<lparr>db := s'\<rparr>)"
    using assms(2) x(1) by (simp add: process_next_durable_job_def process_next_job_def w1_def Let_def)
  then show ?thesis
    using j x(2,3) by (simp add: end_job_def finish_job_row w1_def s)
      (simp add: finish_job_def job_failed_round_def add_failed_round_def take_id_def)
qed

section \<open>Two jobs on a small database\<close>

definition sample_summarizer :: summarizer where
  "sample_summarizer kind model vars k r i = act_return \<lparr>ko_summary = [], ko_memories = []\<rparr>"

definition sample_job :: "job_type \<Rightarrow> job_row" where
  "sample_job kind = \<lparr>j_id = ''j'', j_cocoon_id = Some ''a'', j_chat_group_id = None, j_job_type = kind, j_status = JobQueued,
     j_lock_key = ''k'', j_payload = [], j_available_at = 0, j_started_at = None, j_finished_at = None, j_worker_name = None,
     j_error_text = None, j_created_at = 0\<rparr>"

definition sample_job_world :: "job_type \<Rightarrow> world" where
  "sample_job_world kind = sample_round_world\<lparr>db := (db sample_round_world)\<lparr>jobs := [sample_job kind]\<rparr>\<rparr>"

lemma sample_model_records: "model_only_records sample_nodes sample_summarizer"
  using sample_nodes_record core_acts.keeps_return
  by (simp add: model_only_records_def sample_summarizer_def [abs_def])

lemma sample_job_keys: "distinct (map j_id (jobs (db (sample_job_world kind))))"
  by (simp add: sample_job_world_def)

lemma sample_maintenance_runs:
  "fst (process_next_durable_job sample_env sample_nodes sample_summarizer ''w'' (sample_job_world JobMemoryMaintenance)) = Inr True"
  by code_simp


lemma sample_compaction_claimed:
  "\<exists>s job. claim_next (db (sample_job_world JobCompaction)) ''w'' = (Some job, s) \<and> j_cocoon_id job = Some ''a'' \<and>
     j_job_type job = JobCompaction \<and> j_payload job = [] \<and> j_id job = ''j''"
  by (simp add: claim_next_def sample_job_world_def sample_job_def claimable_def utcnow_def sample_round_world_def
      sample_world_def sample_cocoons_def sample_tags_def empty_session_def)

lemma sample_compaction_needed:
  "row_get_opt c_id (Some ''a'') (cocoons (db (sample_job_world JobCompaction))) = Some (sample_cocoon ''a'' None ''u1'')"
  "fst (compaction_selection (sample_cocoon ''a'' None ''u1'') None (db (sample_job_world JobCompaction))) \<noteq> []"
  by code_simp+

theorem memory_jobs_fail_in_worker_witness:
  "\<exists>w' end_row.
     process_next_durable_job sample_env sample_nodes sample_summarizer ''w'' (sample_job_world JobCompaction) = (Inr True, w') \<and>
     row_get j_id ''j'' (jobs (db w')) = Some end_row \<and> j_status end_row = JobFailed"
proof -
  obtain s job where c: "claim_next (db (sample_job_world JobCompaction)) ''w'' = (Some job, s)"
    and j: "j_cocoon_id job = Some ''a''" "j_job_type job = JobCompaction" "j_payload job = []" "j_id job = ''j''"
    using sample_compaction_claimed by blast
  have "needs_profile (db (sample_job_world JobCompaction)) job (sample_cocoon ''a'' None ''u1'')"
    using sample_compaction_needed(2) by (simp add: needs_profile_def j dict_str_opt_def)
  moreover have "row_get_opt c_id (j_cocoon_id job) (cocoons (db (sample_job_world JobCompaction))) = Some (sample_cocoon ''a'' None ''u1'')"
    using sample_compaction_needed(1) by (simp add: j)
  moreover have "c_id (sample_cocoon ''a'' None ''u1'') \<noteq> []" by (simp add: sample_cocoon_def)
  ultimately show ?thesis
    using memory_jobs_fail_in_worker [OF sample_job_keys c, of "sample_cocoon ''a'' None ''u1''" sample_env sample_nodes sample_summarizer]
    unfolding j by blast
qed

end
