(* ===== verification/Cocoons.thy ===== *)
theory Cocoons
  imports Authorization Context
begin

text \<open>
  The cocoon routes (\<open>api/routes/workspace/cocoons.py\<close>) and the tree they return
  (\<open>services/workspace/cocoon_tree_service.py\<close>), after the permission check of the route. Cocoons are
  in order of creation. The two traversals follow child links until nothing is left, so they are partial functions;
  that they end is proved for an acyclic parent relation.
\<close>

section \<open>Creating and changing\<close>

record cocoon_create =
  cn_name :: string
  cn_character_id :: "id option"
  cn_selected_model_id :: "id option"
  cn_parent_id :: "id option"
  cn_default_temperature :: "rat option"
  cn_max_context_messages :: "int option"
  cn_auto_compaction_enabled :: "bool option"
  cn_memory_profile :: "string option"

record cocoon_update =
  cp_name :: "string option"
  cp_character_id :: "id option"
  cp_selected_model_id :: "id option"
  cp_default_temperature :: "rat option"
  cp_max_context_messages :: "int option"
  cp_auto_compaction_enabled :: "bool option"
  cp_memory_profile :: "string option"

text \<open>The parent, and the character and the model that a child takes from it.\<close>

definition resolve_parent ::
  "string \<Rightarrow> session \<Rightarrow> user_row \<Rightarrow> cocoon_create \<Rightarrow> ((cocoon_row option \<times> id option \<times> id option) \<times> session) result" where
  "resolve_parent admin s u p =
     (case cn_parent_id p of
        Some parent_id \<Rightarrow>
          bind_r (require_cocoon_access admin s u parent_id False False) (\<lambda>(parent, s1).
          Inr ((Some parent, or_opt (cn_character_id p) (Some (c_character_id parent)),
                or_opt (cn_selected_model_id p) (Some (c_selected_model_id parent))), s1))
      | None \<Rightarrow>
          if \<not> truthy (cn_character_id p) \<or> \<not> truthy (cn_selected_model_id p)
          then Inl (HTTPException 400 ''character_id and selected_model_id are required for root cocoon'')
          else Inr ((None, cn_character_id p, cn_selected_model_id p), s))"

definition new_cocoon ::
  "session \<Rightarrow> user_row \<Rightarrow> cocoon_create \<Rightarrow> system_settings_row \<Rightarrow> cocoon_row option \<Rightarrow> id \<Rightarrow> id \<Rightarrow> cocoon_row" where
  "new_cocoon s u p cfg parent character_id model_id =
     \<lparr>c_id = new_id s, c_parent_id = (case parent of None \<Rightarrow> cn_parent_id p | Some x \<Rightarrow> Some (c_id x)), c_name = cn_name p,
      c_owner_user_id = u_id u, c_character_id = character_id, c_selected_model_id = model_id, c_summary_model_id = None,
      c_default_temperature = keep_or (cn_default_temperature p) (ss_default_cocoon_temperature cfg),
      c_max_context_messages = keep_or (cn_max_context_messages p) (ss_default_max_context_messages cfg),
      c_auto_compaction_enabled = keep_or (cn_auto_compaction_enabled p) (ss_default_auto_compaction_enabled cfg),
      c_memory_profile = keep_or (cn_memory_profile p) (ss_default_memory_profile cfg),
      c_context_start_message_id = None, c_rollback_anchor_msg_id = None\<rparr>"

definition root_exists :: "session \<Rightarrow> id \<Rightarrow> id \<Rightarrow> bool" where
  "root_exists s owner character_id =
     list_ex (\<lambda>c. c_owner_user_id c = owner \<and> c_character_id c = character_id \<and> c_parent_id c = None) (cocoons s)"

definition create_cocoon :: "string \<Rightarrow> session \<Rightarrow> user_row \<Rightarrow> cocoon_create \<Rightarrow> (cocoon_row \<times> session) result" where
  "create_cocoon admin s u p =
     (let (cfg, s1) = get_settings s
      in bind_r (resolve_parent admin s1 u p) (\<lambda>((parent, character_id, model_id), s2).
         if \<not> truthy character_id \<or> \<not> truthy model_id
         then Inl (HTTPException 400 ''Child cocoon could not resolve character_id or selected_model_id'')
         else bind_r (require_character_use admin s2 u (str_of character_id)) (\<lambda>_.
              if row_get am_id (str_of model_id) (available_models s2) = None then Inl (HTTPException 404 ''Model not found'')
              else bind_r (require_model_allowed s2 (str_of model_id)) (\<lambda>s3.
              if parent = None \<and> root_exists s3 (u_id u) (str_of character_id)
              then Inl (HTTPException 400 ''A root cocoon already exists for this user and character'')
              else let c = new_cocoon s3 u p cfg parent (str_of character_id) (str_of model_id)
                   in bind_r (ensure_session_state ((take_id s3)\<lparr>cocoons := row_add c (cocoons s3)\<rparr>) (Some (c_id c)) None) (\<lambda>(_, s4).
                      Inr (c, s4))))))"

definition set_cocoon_fields :: "cocoon_update \<Rightarrow> cocoon_row \<Rightarrow> cocoon_row" where
  "set_cocoon_fields p c =
     c\<lparr>c_name := keep_or (cp_name p) (c_name c), c_character_id := keep_or (cp_character_id p) (c_character_id c),
       c_selected_model_id := keep_or (cp_selected_model_id p) (c_selected_model_id c),
       c_default_temperature := keep_or (cp_default_temperature p) (c_default_temperature c),
       c_max_context_messages := keep_or (cp_max_context_messages p) (c_max_context_messages c),
       c_auto_compaction_enabled := keep_or (cp_auto_compaction_enabled p) (c_auto_compaction_enabled c),
       c_memory_profile := keep_or (cp_memory_profile p) (c_memory_profile c)\<rparr>"

definition update_cocoon :: "string \<Rightarrow> session \<Rightarrow> user_row \<Rightarrow> id \<Rightarrow> cocoon_update \<Rightarrow> (cocoon_row \<times> session) result" where
  "update_cocoon admin s u cocoon_id p =
     bind_r (require_cocoon_access admin s u cocoon_id True True) (\<lambda>(c, s1).
     bind_r (case cp_selected_model_id p of None \<Rightarrow> Inr s1 | Some i \<Rightarrow> require_model_allowed s1 i) (\<lambda>s2.
     Inr (set_cocoon_fields p c, s2\<lparr>cocoons := row_put c_id (c_id c) (set_cocoon_fields p) (cocoons s2)\<rparr>)))"

section \<open>Reading\<close>

definition list_cocoons :: "string \<Rightarrow> session \<Rightarrow> user_row \<Rightarrow> string \<Rightarrow> cocoon_row list \<times> session" where
  "list_cocoons admin s u scope = filter_visible_cocoons admin s u (cocoons s) False scope"

definition get_cocoon :: "string \<Rightarrow> session \<Rightarrow> user_row \<Rightarrow> id \<Rightarrow> (cocoon_row \<times> session) result" where
  "get_cocoon admin s u cocoon_id = require_cocoon_access admin s u cocoon_id False True"

definition get_cocoon_session_state :: "string \<Rightarrow> session \<Rightarrow> user_row \<Rightarrow> id \<Rightarrow> (state_row \<times> session) result" where
  "get_cocoon_session_state admin s u cocoon_id =
     bind_r (require_cocoon_access admin s u cocoon_id False False) (\<lambda>(_, s1).
     bind_r (get_session_state s1 (Some cocoon_id) None) (\<lambda>(found, s2).
     case found of None \<Rightarrow> Inl (HTTPException 404 ''Session state not found'') | Some st \<Rightarrow> Inr (st, s2)))"

datatype cocoon_tree_node = CocoonTree id string "id option" "cocoon_tree_node list"

definition children_of_cocoon :: "cocoon_row list \<Rightarrow> id option \<Rightarrow> cocoon_row list" where
  "children_of_cocoon nodes parent = filter (\<lambda>c. c_parent_id c = parent) nodes"

text \<open>The loop over the children of one parent, with the recursive call on each child.\<close>

partial_function (option) build_branch :: "cocoon_row list \<Rightarrow> cocoon_row list \<Rightarrow> cocoon_tree_node list option" where
  "build_branch nodes cs =
     (case cs of
        [] \<Rightarrow> Some []
      | c # rest \<Rightarrow>
          Option.bind (build_branch nodes (children_of_cocoon nodes (Some (c_id c)))) (\<lambda>children.
          Option.bind (build_branch nodes rest) (\<lambda>trees.
          Some (CocoonTree (c_id c) (c_name c) (c_parent_id c) children # trees))))"

definition build_tree :: "cocoon_row list \<Rightarrow> id option \<Rightarrow> cocoon_tree_node list option" where
  "build_tree nodes parent = build_branch nodes (children_of_cocoon nodes parent)"

definition cocoon_tree :: "string \<Rightarrow> session \<Rightarrow> user_row \<Rightarrow> cocoon_tree_node list option \<times> session" where
  "cocoon_tree admin s u =
     (let (items, s1) = filter_visible_cocoons admin s u (cocoons s) False ''own'' in (build_tree items None, s1))"

section \<open>Deleting\<close>

partial_function (option) subtree_loop :: "cocoon_row list \<Rightarrow> id list \<Rightarrow> id list \<Rightarrow> id list option" where
  "subtree_loop nodes ordered todo =
     (case todo of
        [] \<Rightarrow> Some ordered
      | cur # rest \<Rightarrow> subtree_loop nodes (ordered @ [cur]) (rest @ map c_id (children_of_cocoon nodes (Some cur))))"

definition collect_cocoon_subtree_ids :: "session \<Rightarrow> id \<Rightarrow> id list option" where
  "collect_cocoon_subtree_ids s root_id = subtree_loop (cocoons s) [] [root_id]"

text \<open>
  What belongs to conversations that go: the rows found by an owner column, and the rows that hang on them. The
  rooms of chat groups are cleaned by the same steps, so the two owner tests are arguments.
\<close>

definition wipe_jobs :: "(id option \<Rightarrow> id option \<Rightarrow> bool) \<Rightarrow> session \<Rightarrow> session" where
  "wipe_jobs gone s =
     (let job_ids = map j_id (filter (\<lambda>j. gone (j_cocoon_id j) (j_chat_group_id j)) (jobs s));
          task_ids = map w_id (filter (\<lambda>t. gone (w_cocoon_id t) (w_chat_group_id t)) (wakeups s))
      in s\<lparr>plugin_dispatches := row_del_where (\<lambda>d. in_list (pd_wakeup_task_id d) task_ids) (plugin_dispatches s),
           wakeups := row_del_where (\<lambda>t. gone (w_cocoon_id t) (w_chat_group_id t)) (wakeups s),
           jobs := row_del_where (\<lambda>j. j_id j \<in> set job_ids) (jobs s)\<rparr>)"

definition wipe_memories :: "(id option \<Rightarrow> id option \<Rightarrow> bool) \<Rightarrow> session \<Rightarrow> session" where
  "wipe_memories gone s =
     (let memory_ids = map mem_id (filter (\<lambda>m. gone (mem_cocoon_id m) (mem_chat_group_id m)) (memories s))
      in s\<lparr>memory_tags := row_del_where (\<lambda>t. mmt_memory_chunk_id t \<in> set memory_ids) (memory_tags s),
           embeddings := row_del_where (\<lambda>e. em_memory_chunk_id e \<in> set memory_ids) (embeddings s),
           memories := row_del_where (\<lambda>m. mem_id m \<in> set memory_ids) (memories s)\<rparr>)"

definition wipe_messages :: "(id option \<Rightarrow> id option \<Rightarrow> bool) \<Rightarrow> session \<Rightarrow> session" where
  "wipe_messages gone s =
     (let message_ids = map m_id (filter (\<lambda>m. gone (m_cocoon_id m) (m_chat_group_id m)) (messages s));
          action_ids = map a_id (filter (\<lambda>a. gone (a_cocoon_id a) (a_chat_group_id a)) (actions s))
      in s\<lparr>im_outbox := row_del_where (\<lambda>b. in_list (ob_message_id b) message_ids \<or> in_list (ob_action_id b) action_ids) (im_outbox s),
           message_tags := row_del_where (\<lambda>t. mt_message_id t \<in> set message_ids) (message_tags s),
           messages := row_del_where (\<lambda>m. m_id m \<in> set message_ids) (messages s)\<rparr>)"

definition wipe_audit :: "(id option \<Rightarrow> id option \<Rightarrow> bool) \<Rightarrow> session \<Rightarrow> session" where
  "wipe_audit gone s =
     (let run_ids = map ar_id (filter (\<lambda>r. gone (ar_cocoon_id r) (ar_chat_group_id r)) (audit_runs s));
          step_ids = map au_id (filter (\<lambda>t. au_run_id t \<in> set run_ids) (audit_steps s));
          artifact_ids = map aa_id (filter (\<lambda>a. aa_run_id a \<in> set run_ids) (audit_artifacts s))
      in s\<lparr>audit_links := row_del_where (\<lambda>l. in_list (al_source_step_id l) step_ids \<or> in_list (al_target_step_id l) step_ids \<or>
                            in_list (al_source_artifact_id l) artifact_ids \<or> in_list (al_target_artifact_id l) artifact_ids) (audit_links s),
           audit_artifacts := row_del_where (\<lambda>a. aa_id a \<in> set artifact_ids) (audit_artifacts s),
           audit_steps := row_del_where (\<lambda>t. au_run_id t \<in> set run_ids) (audit_steps s),
           audit_runs := row_del_where (\<lambda>r. ar_id r \<in> set run_ids) (audit_runs s)\<rparr>)"

definition wipe_actions :: "(id option \<Rightarrow> id option \<Rightarrow> bool) \<Rightarrow> session \<Rightarrow> session" where
  "wipe_actions gone s =
     (let action_ids = map a_id (filter (\<lambda>a. gone (a_cocoon_id a) (a_chat_group_id a)) (actions s))
      in s\<lparr>failed_rounds := row_del_where (\<lambda>f. gone (fr_cocoon_id f) (fr_chat_group_id f) \<or> in_list (fr_action_id f) action_ids) (failed_rounds s),
           actions := row_del_where (\<lambda>a. a_id a \<in> set action_ids) (actions s)\<rparr>)"

definition in_cocoons :: "id list \<Rightarrow> id option \<Rightarrow> id option \<Rightarrow> bool" where
  "in_cocoons ids cocoon_id chat_group_id = in_list cocoon_id ids"

definition delete_cocoon_subtree :: "session \<Rightarrow> id list \<Rightarrow> session" where
  "delete_cocoon_subtree s ids =
     (if ids = [] then s
      else let gone = in_cocoons ids;
               s1 = s\<lparr>states := row_del_where (\<lambda>x. in_list (st_cocoon_id x) ids) (states s),
                      task_states := row_del_where (\<lambda>x. in_list (ts_cocoon_id x) ids) (task_states s),
                      facts := row_del_where (\<lambda>x. in_list (f_cocoon_id x) ids) (facts s),
                      memory_candidates := row_del_where (\<lambda>x. in_list (mc_cocoon_id x) ids) (memory_candidates s),
                      cocoon_tags := row_del_where (\<lambda>x. ct_cocoon_id x \<in> set ids) (cocoon_tags s),
                      checkpoints := row_del_where (\<lambda>x. cp_cocoon_id x \<in> set ids) (checkpoints s),
                      pull_jobs := row_del_where (\<lambda>x. pj_source_cocoon_id x \<in> set ids \<or> pj_target_cocoon_id x \<in> set ids) (pull_jobs s),
                      merge_jobs := row_del_where (\<lambda>x. gj_source_cocoon_id x \<in> set ids \<or> gj_target_cocoon_id x \<in> set ids) (merge_jobs s)\<rparr>;
               s2 = wipe_actions gone (wipe_audit gone (wipe_messages gone (wipe_memories gone (wipe_jobs gone s1))))
           in s2\<lparr>cocoons := row_del_where (\<lambda>c. c_id c \<in> set ids) (cocoons s2)\<rparr>)"

text \<open>The outer option is a traversal that does not end.\<close>

definition delete_cocoon :: "string \<Rightarrow> session \<Rightarrow> user_row \<Rightarrow> id \<Rightarrow> (cocoon_row \<times> session) result option" where
  "delete_cocoon admin s u cocoon_id =
     (case require_cocoon_access admin s u cocoon_id True True of
        Inl e \<Rightarrow> Some (Inl e)
      | Inr (c, s1) \<Rightarrow>
          Option.bind (collect_cocoon_subtree_ids s1 (c_id c)) (\<lambda>ids. Some (Inr (c, delete_cocoon_subtree s1 ids))))"

section \<open>The two traversals end\<close>

definition child_link :: "cocoon_row list \<Rightarrow> (id \<times> id) set" where
  "child_link cs = {(c_id c, p) | c p. c \<in> set cs \<and> c_parent_id c = Some p}"

text \<open>What lies below a cocoon, itself included.\<close>

definition below :: "cocoon_row list \<Rightarrow> id \<Rightarrow> id set" where
  "below cs base = {x. (x, base) \<in> (child_link cs)\<^sup>*}"

lemma child_link_iff: "(x, y) \<in> child_link cs \<longleftrightarrow> (\<exists>c\<in>set cs. c_id c = x \<and> c_parent_id c = Some y)"
  by (auto simp: child_link_def)

lemma children_link: "x \<in> set (map c_id (children_of_cocoon cs (Some y))) \<longleftrightarrow> (x, y) \<in> child_link cs"
  by (auto simp: children_of_cocoon_def child_link_iff)

lemma below_subset: "below cs base \<subseteq> insert base (c_id ` set cs)"
proof
  fix x assume "x \<in> below cs base"
  then have "(x, base) \<in> (child_link cs)\<^sup>*" by (simp add: below_def)
  then show "x \<in> insert base (c_id ` set cs)" by (cases rule: converse_rtranclE) (auto simp: child_link_iff)
qed

lemma finite_below: "finite (below cs base)"
  by (rule finite_subset [OF below_subset]) simp

lemma finite_child_link: "finite (child_link cs)"
proof (rule finite_subset)
  show "child_link cs \<subseteq> (\<lambda>c. (c_id c, the (c_parent_id c))) ` set cs" by (force simp: child_link_def)
qed simp

lemma single_valued_child_link:
  assumes "distinct (map c_id cs)" shows "single_valued (child_link cs)"
proof (rule single_valuedI)
  fix x y z assume "(x, y) \<in> child_link cs" "(x, z) \<in> child_link cs"
  then obtain c c' where "c \<in> set cs" "c' \<in> set cs" "c_id c = c_id c'" "c_parent_id c = Some y" "c_parent_id c' = Some z"
    by (auto simp: child_link_iff)
  then show "y = z" using distinct_key_eq [OF assms] by (metis option.inject)
qed

lemma distinct_children: "distinct (map c_id cs) \<Longrightarrow> distinct (map c_id (children_of_cocoon cs p))"
  by (simp add: children_of_cocoon_def distinct_map_filter)

subsection \<open>Breadth first\<close>

definition subtree_inv :: "cocoon_row list \<Rightarrow> id \<Rightarrow> id list \<Rightarrow> id list \<Rightarrow> bool" where
  "subtree_inv cs base ordered todo \<longleftrightarrow>
     distinct (ordered @ todo) \<and> set (ordered @ todo) \<subseteq> below cs base \<and> base \<in> set (ordered @ todo) \<and>
     (\<forall>x y. y \<in> set ordered \<and> (x, y) \<in> child_link cs \<longrightarrow> x \<in> set (ordered @ todo)) \<and>
     (\<forall>x\<in>set (ordered @ todo). x = base \<or> (\<exists>y\<in>set ordered. (x, y) \<in> child_link cs))"

lemma subtree_inv_step:
  assumes inv: "subtree_inv cs base ordered (cur # rest)" and d: "distinct (map c_id cs)" and a: "acyclic (child_link cs)"
  shows "subtree_inv cs base (ordered @ [cur]) (rest @ map c_id (children_of_cocoon cs (Some cur)))"
proof -
  let ?new = "map c_id (children_of_cocoon cs (Some cur))"
  have cur: "(cur, base) \<in> (child_link cs)\<^sup>*" using inv by (simp add: subtree_inv_def below_def)
  have new: "x \<in> set ?new \<longleftrightarrow> (x, cur) \<in> child_link cs" for x by (rule children_link)
  have fresh: "x \<notin> set (ordered @ cur # rest)" if "(x, cur) \<in> child_link cs" for x
  proof
    assume "x \<in> set (ordered @ cur # rest)"
    then consider "x = base" | y where "y \<in> set ordered" "(x, y) \<in> child_link cs" using inv unfolding subtree_inv_def by blast
    then show False
    proof cases
      case 1
      then have "(base, base) \<in> (child_link cs)\<^sup>+" using that cur by (meson rtrancl_into_trancl2)
      then show False using a by (simp add: acyclic_def)
    next
      case 2
      then have "y = cur" using single_valued_child_link [OF d] that by (metis single_valuedD)
      then show False using 2(1) inv by (simp add: subtree_inv_def)
    qed
  qed
  have reach: "x \<in> below cs base" if "(x, cur) \<in> child_link cs" for x
    using that cur unfolding below_def by (simp add: converse_rtrancl_into_rtrancl)
  have "distinct ?new" by (rule distinct_children [OF d])
  moreover have "set ?new \<inter> set (ordered @ cur # rest) = {}" using fresh new by blast
  ultimately have "distinct ((ordered @ [cur]) @ rest @ ?new)" using inv unfolding subtree_inv_def by auto
  moreover have "set ((ordered @ [cur]) @ rest @ ?new) \<subseteq> below cs base"
    using inv reach new unfolding subtree_inv_def by auto
  ultimately show ?thesis using inv new unfolding subtree_inv_def by auto
qed

lemma subtree_loop_ends:
  assumes "subtree_inv cs base ordered todo" "distinct (map c_id cs)" "acyclic (child_link cs)"
  shows "\<exists>ids. subtree_loop cs ordered todo = Some ids \<and> distinct ids \<and> set ids = below cs base"
  using assms(1)
proof (induction "card (below cs base) - length ordered" arbitrary: ordered todo rule: less_induct)
  case less
  show ?case
  proof (cases todo)
    case Nil
    have "x \<in> set ordered" if "(x, base) \<in> (child_link cs)\<^sup>*" for x
      using that
    proof (induction rule: converse_rtrancl_induct)
      case base
      then show ?case using less.prems Nil by (simp add: subtree_inv_def)
    next
      case (step y z)
      then show ?case using less.prems Nil unfolding subtree_inv_def by simp blast
    qed
    then show ?thesis using less.prems Nil by (auto simp: subtree_loop.simps subtree_inv_def below_def)
  next
    case (Cons cur rest)
    let ?o = "ordered @ [cur]" and ?t = "rest @ map c_id (children_of_cocoon cs (Some cur))"
    have inv: "subtree_inv cs base ?o ?t" using subtree_inv_step less.prems assms(2,3) Cons by simp
    then have "length ?o \<le> card (below cs base)"
      using card_mono [OF finite_below, of "set ?o" cs base] distinct_card [of ?o] by (simp add: subtree_inv_def)
    then have "card (below cs base) - length ?o < card (below cs base) - length ordered" by simp
    from less.hyps [OF this inv] show ?thesis using Cons by (simp add: subtree_loop.simps [of cs ordered])
  qed
qed

lemma collect_subtree:
  assumes "distinct (map c_id (cocoons s))" "acyclic (child_link (cocoons s))"
  shows "\<exists>ids. collect_cocoon_subtree_ids s base = Some ids \<and> distinct ids \<and> set ids = below (cocoons s) base"
  unfolding collect_cocoon_subtree_ids_def
  by (rule subtree_loop_ends [OF _ assms]) (simp add: subtree_inv_def below_def)

subsection \<open>Depth first\<close>

fun tree_ids :: "cocoon_tree_node \<Rightarrow> id list" where
  "tree_ids (CocoonTree i name parent children) = i # concat (map tree_ids children)"

definition branch_ids :: "cocoon_tree_node list \<Rightarrow> id list" where
  "branch_ids ts = concat (map tree_ids ts)"

lemma siblings_disjoint:
  assumes d: "distinct (map c_id cs)" and a: "acyclic (child_link cs)"
    and c: "c \<in> set cs" "c' \<in> set cs" "c_id c \<noteq> c_id c'" "c_parent_id c = p" "c_parent_id c' = p"
  shows "below cs (c_id c) \<inter> below cs (c_id c') = {}"
proof -
  have no_path: "(c_id x, c_id y) \<notin> (child_link cs)\<^sup>*"
    if xy: "x \<in> set cs" "y \<in> set cs" "c_id x \<noteq> c_id y" "c_parent_id x = p" "c_parent_id y = p" for x y
  proof
    assume "(c_id x, c_id y) \<in> (child_link cs)\<^sup>*"
    then obtain z where z: "(c_id x, z) \<in> child_link cs" "(z, c_id y) \<in> (child_link cs)\<^sup>*"
      using xy(3) by (metis converse_rtranclE)
    obtain x' where "x' \<in> set cs" "c_id x' = c_id x" "c_parent_id x' = Some z" using z(1) by (auto simp: child_link_iff)
    then have "p = Some z" using distinct_key_eq [OF d xy(1)] xy(4) by metis
    then have "(c_id y, z) \<in> child_link cs" using xy(2,5) by (auto simp: child_link_iff)
    then have "(z, z) \<in> (child_link cs)\<^sup>+" using z(2) by (rule rtrancl_into_trancl1 [rotated])
    then show False using a by (simp add: acyclic_def)
  qed
  show ?thesis
  proof (rule ccontr)
    assume "below cs (c_id c) \<inter> below cs (c_id c') \<noteq> {}"
    then obtain x where "(x, c_id c) \<in> (child_link cs)\<^sup>*" "(x, c_id c') \<in> (child_link cs)\<^sup>*" by (auto simp: below_def)
    from single_valued_confluent [OF single_valued_child_link [OF d] this] show False
      using no_path [OF c(1,2,3,4,5)] no_path [OF c(2,1) _ c(5,4)] c(3) by auto
  qed
qed

text \<open>A tree shows a cocoon with its name and parent, and under it its children in the order of the table.\<close>

fun tree_head :: "cocoon_tree_node \<Rightarrow> id \<times> string \<times> id option" where
  "tree_head (CocoonTree i name parent children) = (i, name, parent)"

definition row_head :: "cocoon_row \<Rightarrow> id \<times> string \<times> id option" where
  "row_head c = (c_id c, c_name c, c_parent_id c)"

fun tree_ok :: "cocoon_row list \<Rightarrow> cocoon_tree_node \<Rightarrow> bool" where
  "tree_ok cs (CocoonTree i name parent children) \<longleftrightarrow>
     map tree_head children = map row_head (children_of_cocoon cs (Some i)) \<and> (\<forall>t\<in>set children. tree_ok cs t)"

definition branch_ok :: "cocoon_row list \<Rightarrow> cocoon_row list \<Rightarrow> id set \<Rightarrow> cocoon_tree_node list option \<Rightarrow> bool" where
  "branch_ok cs xs below_ids r \<longleftrightarrow>
     (\<exists>ts. r = Some ts \<and> map tree_head ts = map row_head xs \<and> (\<forall>t\<in>set ts. tree_ok cs t) \<and>
           distinct (branch_ids ts) \<and> set (branch_ids ts) = below_ids)"

lemma build_branch_list:
  assumes d: "distinct (map c_id cs)" and a: "acyclic (child_link cs)"
    and "\<And>c. c \<in> set xs \<Longrightarrow> c \<in> set cs \<and> c_parent_id c = p \<and>
      branch_ok cs (children_of_cocoon cs (Some (c_id c))) {x. (x, c_id c) \<in> (child_link cs)\<^sup>+}
        (build_branch cs (children_of_cocoon cs (Some (c_id c))))"
    and "distinct (map c_id xs)"
  shows "branch_ok cs xs (\<Union>c\<in>set xs. below cs (c_id c)) (build_branch cs xs)"
  using assms(3,4)
proof (induction xs)
  case Nil
  then show ?case by (simp add: branch_ok_def branch_ids_def build_branch.simps)
next
  case (Cons c xs)
  obtain ts where ts: "build_branch cs (children_of_cocoon cs (Some (c_id c))) = Some ts" "distinct (branch_ids ts)"
    "set (branch_ids ts) = {x. (x, c_id c) \<in> (child_link cs)\<^sup>+}"
    "map tree_head ts = map row_head (children_of_cocoon cs (Some (c_id c)))" "\<forall>t\<in>set ts. tree_ok cs t"
    using Cons.prems(1) [of c] by (auto simp: branch_ok_def)
  obtain us where us: "build_branch cs xs = Some us" "distinct (branch_ids us)" "set (branch_ids us) = (\<Union>c\<in>set xs. below cs (c_id c))"
    "map tree_head us = map row_head xs" "\<forall>t\<in>set us. tree_ok cs t"
    using Cons by (auto simp: branch_ok_def)
  have own: "insert (c_id c) (set (branch_ids ts)) = below cs (c_id c)"
    by (auto simp: ts(3) below_def rtrancl_eq_or_trancl)
  have "below cs (c_id c) \<inter> below cs (c_id c') = {}" if c': "c' \<in> set xs" for c'
  proof (rule siblings_disjoint [OF d a])
    show "c_id c \<noteq> c_id c'" using Cons.prems(2) c' by auto
  qed (use Cons.prems(1) [of c] Cons.prems(1) [of c'] c' in simp_all)
  then have apart: "below cs (c_id c) \<inter> set (branch_ids us) = {}" unfolding us(3) by (simp add: Int_UN_distrib)
  have "c_id c \<notin> set (branch_ids ts)" using a by (simp add: ts(3) acyclic_def)
  moreover have "c_id c \<notin> set (branch_ids us)" "set (branch_ids ts) \<inter> set (branch_ids us) = {}"
    using apart unfolding own [symmetric] by (simp_all add: disjoint_iff)
  ultimately have "distinct (c_id c # branch_ids ts @ branch_ids us)"
    using ts(2) us(2) by simp
  moreover have "build_branch cs (c # xs) = Some (CocoonTree (c_id c) (c_name c) (c_parent_id c) ts # us)"
    by (simp add: build_branch.simps [of cs "c # xs"] ts(1) us(1))
  moreover have "branch_ids (CocoonTree (c_id c) (c_name c) (c_parent_id c) ts # us) = c_id c # branch_ids ts @ branch_ids us"
    by (simp add: branch_ids_def)
  moreover have "set (c_id c # branch_ids ts @ branch_ids us) = (\<Union>c\<in>set (c # xs). below cs (c_id c))"
    using own us(3) by auto
  moreover have "map tree_head (CocoonTree (c_id c) (c_name c) (c_parent_id c) ts # us) = map row_head (c # xs)"
    using us(4) by (simp add: row_head_def)
  moreover have "\<forall>t\<in>set (CocoonTree (c_id c) (c_name c) (c_parent_id c) ts # us). tree_ok cs t" using ts(4,5) us(5) by simp
  ultimately show ?case by (simp add: branch_ok_def)
qed

lemma build_children:
  assumes d: "distinct (map c_id cs)" and a: "acyclic (child_link cs)"
  shows "branch_ok cs (children_of_cocoon cs (Some i)) {x. (x, i) \<in> (child_link cs)\<^sup>+} (build_branch cs (children_of_cocoon cs (Some i)))"
proof -
  have "wf (child_link cs)" by (rule finite_acyclic_wf [OF finite_child_link a])
  then show ?thesis
  proof (induction i rule: wf_induct_rule)
    case (less i)
    have "c \<in> set cs \<and> c_parent_id c = Some i \<and>
        branch_ok cs (children_of_cocoon cs (Some (c_id c))) {x. (x, c_id c) \<in> (child_link cs)\<^sup>+}
        (build_branch cs (children_of_cocoon cs (Some (c_id c))))"
      if "c \<in> set (children_of_cocoon cs (Some i))" for c
      using that less.IH [of "c_id c"] by (auto simp: children_of_cocoon_def child_link_iff)
    from build_branch_list [OF d a this distinct_children [OF d]] have
      "branch_ok cs (children_of_cocoon cs (Some i)) (\<Union>c\<in>set (children_of_cocoon cs (Some i)). below cs (c_id c)) (build_branch cs (children_of_cocoon cs (Some i)))" .
    moreover have "(\<Union>c\<in>set (children_of_cocoon cs (Some i)). below cs (c_id c)) = {x. (x, i) \<in> (child_link cs)\<^sup>+}"
      unfolding below_def trancl_unfold_right by (auto simp: children_of_cocoon_def child_link_def relcomp_unfold)
    ultimately show ?case by simp
  qed
qed

lemma build_roots:
  assumes d: "distinct (map c_id cs)" and a: "acyclic (child_link cs)"
  shows "branch_ok cs (children_of_cocoon cs None) (\<Union>c\<in>set (children_of_cocoon cs None). below cs (c_id c)) (build_tree cs None)"
  unfolding build_tree_def
  by (rule build_branch_list [OF d a _ distinct_children [OF d], where p = None])
     (use build_children [OF d a] in \<open>auto simp: children_of_cocoon_def\<close>)

end
