(* ===== verification/Rooms.thy ===== *)
theory Rooms
  imports Cocoons
begin

text \<open>
  Messages as the interfaces show them (\<open>services/workspace/message_service.py\<close>) and chat groups
  (\<open>services/workspace/chat_group_service.py\<close>, \<open>api/routes/workspace/chat_groups.py\<close>), after
  the permission check of the route.
\<close>

section \<open>Messages\<close>

definition RETRACTED_PLACEHOLDER :: string where "RETRACTED_PLACEHOLDER = ''[message retracted]''"

definition require_message_for_target :: "session \<Rightarrow> id \<Rightarrow> id option \<Rightarrow> id option \<Rightarrow> message_row result" where
  "require_message_for_target s message_id cocoon_id chat_group_id =
     (case row_get m_id message_id (messages s) of
        None \<Rightarrow> Inl (HTTPException 404 ''Message not found'')
      | Some m \<Rightarrow>
          if truthy cocoon_id \<and> m_cocoon_id m \<noteq> cocoon_id \<or> truthy chat_group_id \<and> m_chat_group_id m \<noteq> chat_group_id
          then Inl (HTTPException 404 ''Message not found'') else Inr m)"

definition older :: "message_row \<Rightarrow> message_row \<Rightarrow> bool" where
  "older anchor m \<longleftrightarrow> (m_created_at m, m_id m) < (m_created_at anchor, m_id anchor)"

definition lineage_page :: "session \<Rightarrow> id \<Rightarrow> id option \<Rightarrow> message_row list result" where
  "lineage_page s cocoon_id before_message_id =
     (let ms = list_cocoon_lineage_messages s cocoon_id None
      in if \<not> truthy before_message_id then Inr ms
         else case row_get m_id (str_of before_message_id) (messages s) of
                None \<Rightarrow> Inl (HTTPException 404 ''Message not found'')
              | Some anchor \<Rightarrow>
                  if m_cocoon_id anchor \<notin> m_cocoon_id ` set ms then Inl (HTTPException 404 ''Message not found'')
                  else Inr (filter (older anchor) ms))"

definition room_page :: "session \<Rightarrow> id option \<Rightarrow> id option \<Rightarrow> id option \<Rightarrow> message_row list result" where
  "room_page s cocoon_id chat_group_id before_message_id =
     bind_r (build_target_filter cocoon_id chat_group_id) (\<lambda>matches.
     let own = filter (\<lambda>m. matches (m_cocoon_id m) (m_chat_group_id m)) (messages s)
     in if \<not> truthy before_message_id then Inr own
        else bind_r (require_message_for_target s (str_of before_message_id) cocoon_id chat_group_id) (\<lambda>anchor.
             Inr (filter (older anchor) own)))"

definition list_messages :: "session \<Rightarrow> id option \<Rightarrow> id option \<Rightarrow> id option \<Rightarrow> int option \<Rightarrow> message_row list result" where
  "list_messages s cocoon_id chat_group_id before_message_id limit =
     (if truthy cocoon_id
      then bind_r (lineage_page s (str_of cocoon_id) before_message_id) (\<lambda>ms.
           Inr (case limit of None \<Rightarrow> ms | Some n \<Rightarrow> py_last n ms))
      else bind_r (room_page s cocoon_id chat_group_id before_message_id) (\<lambda>ms.
           case limit of
             None \<Rightarrow> Inr (by_age ms)
           | Some n \<Rightarrow> bind_r (sql_limit n (rev (by_age ms))) (\<lambda>newest. Inr (rev newest))))"

definition serialize_message :: "message_row \<Rightarrow> message_row" where
  "serialize_message m = m\<lparr>m_content := (if m_is_retracted m then RETRACTED_PLACEHOLDER else m_content m)\<rparr>"

definition retracted :: "time \<Rightarrow> id \<Rightarrow> string option \<Rightarrow> message_row \<Rightarrow> message_row" where
  "retracted now acting_user_id note m =
     m\<lparr>m_is_retracted := True, m_retracted_at := Some now, m_retracted_by_user_id := Some acting_user_id,
       m_retraction_note := Some (or_else note ''Message retracted'')\<rparr>"

definition retract_message :: "session \<Rightarrow> message_row \<Rightarrow> id \<Rightarrow> string option \<Rightarrow> message_row \<times> session" where
  "retract_message s m acting_user_id note =
     (if m_is_retracted m then (m, s)
      else let f = retracted (utcnow s) acting_user_id note
           in (f m, s\<lparr>messages := row_put m_id (m_id m) f (messages s)\<rparr>))"

section \<open>Rooms\<close>

record room_create =
  rn_name :: string
  rn_character_id :: id
  rn_selected_model_id :: id
  rn_default_temperature :: "rat option"
  rn_max_context_messages :: "int option"
  rn_auto_compaction_enabled :: "bool option"
  rn_memory_profile :: "string option"
  rn_external_platform :: "string option"
  rn_external_group_id :: "string option"
  rn_external_account_id :: "string option"
  rn_initial_member_ids :: "id list"

record room_update =
  ru_name :: "string option"
  ru_character_id :: "id option"
  ru_selected_model_id :: "id option"
  ru_default_temperature :: "rat option"
  ru_max_context_messages :: "int option"
  ru_auto_compaction_enabled :: "bool option"
  ru_memory_profile :: "string option"
  ru_external_platform :: "string option"
  ru_external_group_id :: "string option"
  ru_external_account_id :: "string option"

definition list_rooms :: "session \<Rightarrow> room_row list" where
  "list_rooms s = sort_key rm_created_at (rooms s)"

definition new_room :: "session \<Rightarrow> room_create \<Rightarrow> id \<Rightarrow> system_settings_row \<Rightarrow> room_row" where
  "new_room s p owner cfg =
     \<lparr>rm_id = new_id s, rm_name = rn_name p, rm_owner_user_id = owner, rm_character_id = rn_character_id p,
      rm_selected_model_id = rn_selected_model_id p,
      rm_default_temperature = keep_or (rn_default_temperature p) (ss_default_cocoon_temperature cfg),
      rm_max_context_messages = keep_or (rn_max_context_messages p) (ss_default_max_context_messages cfg),
      rm_auto_compaction_enabled = keep_or (rn_auto_compaction_enabled p) (ss_default_auto_compaction_enabled cfg),
      rm_memory_profile = keep_or (rn_memory_profile p) (ss_default_memory_profile cfg),
      rm_external_platform = rn_external_platform p, rm_external_group_id = rn_external_group_id p,
      rm_external_account_id = rn_external_account_id p, rm_created_at = clock s\<rparr>"

text \<open>A check constraint admits two roles.\<close>

definition member_role_ok :: "string \<Rightarrow> bool" where
  "member_role_ok role \<longleftrightarrow> role = ''admin'' \<or> role = ''member''"

definition add_room_member :: "session \<Rightarrow> id \<Rightarrow> id \<Rightarrow> string \<Rightarrow> room_member_row \<times> session" where
  "add_room_member s room_id user_id role =
     (let m = \<lparr>mb_id = new_id s, mb_room_id = room_id, mb_user_id = user_id, mb_member_role = role, mb_created_at = clock s\<rparr>
      in (m, (take_id s)\<lparr>room_members := row_add m (room_members s)\<rparr>))"

text \<open>
  Sessions do not flush before a query, so the test for an existing member only sees the members
  that were flushed before the loop.
\<close>

fun add_initial_members :: "room_member_row list \<Rightarrow> session \<Rightarrow> id \<Rightarrow> id \<Rightarrow> id list \<Rightarrow> session" where
  "add_initial_members flushed s room_id owner [] = s"
| "add_initial_members flushed s room_id owner (i # is) =
     (if i = owner \<or> list_ex (\<lambda>m. mb_room_id m = room_id \<and> mb_user_id m = i) flushed
      then add_initial_members flushed s room_id owner is
      else add_initial_members flushed (snd (add_room_member s room_id i ''member'')) room_id owner is)"

definition create_room :: "session \<Rightarrow> room_create \<Rightarrow> user_row \<Rightarrow> (room_row \<times> session) result" where
  "create_room s p u =
     bind_r (require_model_allowed s (rn_selected_model_id p)) (\<lambda>s1.
     let (cfg, s2) = get_settings s1;
         room = new_room s2 p (u_id u) cfg;
         s3 = snd (add_room_member ((take_id s2)\<lparr>rooms := row_add room (rooms s2)\<rparr>) (rm_id room) (u_id u) ''admin'')
     in bind_r (ensure_session_state s3 None (Some (rm_id room))) (\<lambda>(_, s4).
        Inr (room, add_initial_members (room_members s4) s4 (rm_id room) (u_id u) (rn_initial_member_ids p))))"

definition or_kept :: "'a option \<Rightarrow> 'a option \<Rightarrow> 'a option" where
  "or_kept new old = (case new of None \<Rightarrow> old | Some x \<Rightarrow> Some x)"

definition set_room_fields :: "room_update \<Rightarrow> room_row \<Rightarrow> room_row" where
  "set_room_fields p r =
     r\<lparr>rm_name := keep_or (ru_name p) (rm_name r), rm_character_id := keep_or (ru_character_id p) (rm_character_id r),
       rm_selected_model_id := keep_or (ru_selected_model_id p) (rm_selected_model_id r),
       rm_default_temperature := keep_or (ru_default_temperature p) (rm_default_temperature r),
       rm_max_context_messages := keep_or (ru_max_context_messages p) (rm_max_context_messages r),
       rm_auto_compaction_enabled := keep_or (ru_auto_compaction_enabled p) (rm_auto_compaction_enabled r),
       rm_memory_profile := keep_or (ru_memory_profile p) (rm_memory_profile r),
       rm_external_platform := or_kept (ru_external_platform p) (rm_external_platform r),
       rm_external_group_id := or_kept (ru_external_group_id p) (rm_external_group_id r),
       rm_external_account_id := or_kept (ru_external_account_id p) (rm_external_account_id r)\<rparr>"

definition update_room :: "session \<Rightarrow> room_row \<Rightarrow> room_update \<Rightarrow> (room_row \<times> session) result" where
  "update_room s room p =
     bind_r (case ru_selected_model_id p of None \<Rightarrow> Inr s | Some i \<Rightarrow> require_model_allowed s i) (\<lambda>s1.
     Inr (set_room_fields p room, s1\<lparr>rooms := row_put rm_id (rm_id room) (set_room_fields p) (rooms s1)\<rparr>))"

definition in_room :: "id \<Rightarrow> id option \<Rightarrow> id option \<Rightarrow> bool" where
  "in_room room_id cocoon_id chat_group_id \<longleftrightarrow> chat_group_id = Some room_id"

definition delete_room :: "session \<Rightarrow> room_row \<Rightarrow> session" where
  "delete_room s room =
     (let i = rm_id room; s1 = wipe_memories (in_room i) s
      in s1\<lparr>memory_candidates := row_del_where (\<lambda>x. mc_chat_group_id x = Some i) (memory_candidates s1),
            facts := row_del_where (\<lambda>x. f_chat_group_id x = Some i) (facts s1),
            states := row_del_where (\<lambda>x. st_chat_group_id x = Some i) (states s1),
            task_states := row_del_where (\<lambda>x. ts_chat_group_id x = Some i) (task_states s1),
            room_members := row_del_where (\<lambda>x. mb_room_id x = i) (room_members s1),
            rooms := row_del rm_id i (rooms s1)\<rparr>)"

definition list_members :: "session \<Rightarrow> id \<Rightarrow> room_member_row list" where
  "list_members s room_id = sort_key mb_created_at (filter (\<lambda>m. mb_room_id m = room_id) (room_members s))"

definition find_member :: "session \<Rightarrow> id \<Rightarrow> id \<Rightarrow> room_member_row option" where
  "find_member s room_id user_id = List.find (\<lambda>m. mb_room_id m = room_id \<and> mb_user_id m = user_id) (room_members s)"

definition add_member :: "session \<Rightarrow> room_row \<Rightarrow> id \<Rightarrow> string \<Rightarrow> (room_member_row \<times> session) result" where
  "add_member s room user_id role =
     (case find_member s (rm_id room) user_id of
        Some m \<Rightarrow> Inr (m, s)
      | None \<Rightarrow> if \<not> member_role_ok role then Inl (IntegrityError ''ck_chat_group_members_role'')
                else Inr (add_room_member s (rm_id room) user_id role))"

definition update_member :: "session \<Rightarrow> room_row \<Rightarrow> id \<Rightarrow> string \<Rightarrow> (room_member_row \<times> session) result" where
  "update_member s room user_id role =
     (if rm_owner_user_id room = user_id then Inl (HTTPException 400 ''Room owner role cannot be changed'')
      else case find_member s (rm_id room) user_id of
             None \<Rightarrow> Inl (HTTPException 404 ''Chat group member not found'')
           | Some m \<Rightarrow>
               if \<not> member_role_ok role then Inl (IntegrityError ''ck_chat_group_members_role'')
               else Inr (m\<lparr>mb_member_role := role\<rparr>,
                         s\<lparr>room_members := row_put mb_id (mb_id m) (\<lambda>x. x\<lparr>mb_member_role := role\<rparr>) (room_members s)\<rparr>))"

definition remove_member :: "session \<Rightarrow> room_row \<Rightarrow> id \<Rightarrow> (room_member_row \<times> session) result" where
  "remove_member s room user_id =
     (if rm_owner_user_id room = user_id then Inl (HTTPException 400 ''Room owner cannot be removed'')
      else case find_member s (rm_id room) user_id of
             None \<Rightarrow> Inl (HTTPException 404 ''Chat group member not found'')
           | Some m \<Rightarrow> Inr (m, s\<lparr>room_members := row_del mb_id (mb_id m) (room_members s)\<rparr>))"

section \<open>Routes of chat groups\<close>

definition cleanup_room :: "session \<Rightarrow> id \<Rightarrow> session result" where
  "cleanup_room s room_id =
     (let gone = in_room room_id;
          s1 = wipe_actions gone (wipe_audit gone (wipe_messages gone (wipe_memories gone (wipe_jobs gone s))))
      in bind_r (get_session_state s1 None (Some room_id)) (\<lambda>(found, s2).
         Inr (s2\<lparr>states := (case found of None \<Rightarrow> states s2 | Some st \<Rightarrow> row_del st_id (st_id st) (states s2)),
                 tag_visibilities := row_del_where (\<lambda>v. tv_chat_group_id v = room_id) (tag_visibilities s2),
                 room_tags := row_del_where (\<lambda>t. rt_chat_group_id t = room_id) (room_tags s2),
                 room_members := row_del_where (\<lambda>m. mb_room_id m = room_id) (room_members s2)\<rparr>)))"

definition list_chat_groups :: "string \<Rightarrow> session \<Rightarrow> user_row \<Rightarrow> room_row list" where
  "list_chat_groups admin s u = filter_visible_chat_groups admin s u (list_rooms s)"

definition create_chat_group :: "string \<Rightarrow> session \<Rightarrow> user_row \<Rightarrow> room_create \<Rightarrow> (room_row \<times> session) result" where
  "create_chat_group admin s u p =
     bind_r (require_character_use admin s u (rn_character_id p)) (\<lambda>_. create_room s p u)"

definition get_chat_group :: "string \<Rightarrow> session \<Rightarrow> user_row \<Rightarrow> id \<Rightarrow> room_row result" where
  "get_chat_group admin s u room_id = require_chat_group_access admin s u room_id False False False"

definition update_chat_group :: "string \<Rightarrow> session \<Rightarrow> user_row \<Rightarrow> id \<Rightarrow> room_update \<Rightarrow> (room_row \<times> session) result" where
  "update_chat_group admin s u room_id p =
     bind_r (require_chat_group_access admin s u room_id False True False) (\<lambda>room.
     bind_r (case ru_character_id p of None \<Rightarrow> Inr () | Some i \<Rightarrow> bind_r (require_character_use admin s u i) (\<lambda>_. Inr ())) (\<lambda>_.
     update_room s room p))"

definition delete_chat_group :: "string \<Rightarrow> session \<Rightarrow> user_row \<Rightarrow> id \<Rightarrow> (room_row \<times> session) result" where
  "delete_chat_group admin s u room_id =
     bind_r (require_chat_group_access admin s u room_id False False True) (\<lambda>room.
     bind_r (cleanup_room s room_id) (\<lambda>s1. Inr (room, delete_room s1 room)))"

definition list_chat_group_members :: "string \<Rightarrow> session \<Rightarrow> user_row \<Rightarrow> id \<Rightarrow> room_member_row list result" where
  "list_chat_group_members admin s u room_id =
     bind_r (require_chat_group_access admin s u room_id False False False) (\<lambda>_. Inr (list_members s room_id))"

definition add_chat_group_member :: "string \<Rightarrow> session \<Rightarrow> user_row \<Rightarrow> id \<Rightarrow> id \<Rightarrow> string \<Rightarrow> (room_member_row \<times> session) result" where
  "add_chat_group_member admin s u room_id user_id role =
     bind_r (require_chat_group_access admin s u room_id False True False) (\<lambda>room. add_member s room user_id role)"

definition update_chat_group_member :: "string \<Rightarrow> session \<Rightarrow> user_row \<Rightarrow> id \<Rightarrow> id \<Rightarrow> string \<Rightarrow> (room_member_row \<times> session) result" where
  "update_chat_group_member admin s u room_id user_id role =
     bind_r (require_chat_group_access admin s u room_id False True False) (\<lambda>room. update_member s room user_id role)"

definition remove_chat_group_member :: "string \<Rightarrow> session \<Rightarrow> user_row \<Rightarrow> id \<Rightarrow> id \<Rightarrow> (room_member_row \<times> session) result" where
  "remove_chat_group_member admin s u room_id user_id =
     bind_r (require_chat_group_access admin s u room_id False True False) (\<lambda>room. remove_member s room user_id)"

definition list_chat_group_messages ::
  "string \<Rightarrow> session \<Rightarrow> user_row \<Rightarrow> id \<Rightarrow> id option \<Rightarrow> int option \<Rightarrow> message_row list result" where
  "list_chat_group_messages admin s u room_id before_message_id limit =
     bind_r (require_chat_group_access admin s u room_id False False False) (\<lambda>_.
     bind_r (list_messages s None (Some room_id) before_message_id limit) (\<lambda>ms. Inr (map serialize_message ms)))"

definition send_chat_group_message ::
  "string \<Rightarrow> dispatch_service \<Rightarrow> world \<Rightarrow> user_row \<Rightarrow> id \<Rightarrow> chat_request \<Rightarrow> (action_row \<times> world) result" where
  "send_chat_group_message admin d w u room_id r =
     bind_r (require_chat_group_access admin (db w) u room_id True False False) (\<lambda>_.
     enqueue_chat_group_message d w room_id
       (r\<lparr>cr_timezone := or_opt (cr_timezone r) (Some (u_timezone u)), cr_sender_user_id := Some (u_id u),
          cr_external_sender_id := None, cr_external_sender_display_name := None, cr_extra_payload := []\<rparr>))"

definition may_retract :: "string \<Rightarrow> session \<Rightarrow> user_row \<Rightarrow> room_row \<Rightarrow> message_row \<Rightarrow> unit result" where
  "may_retract admin s u room m =
     (let can_manage = can_manage_chat_group admin s u room
      in if m_role m = ''user''
         then if m_sender_user_id m \<noteq> Some (u_id u) \<and> \<not> can_manage
              then Inl (HTTPException 403 ''Cannot retract this message'') else Inr ()
         else if \<not> can_manage then Inl (HTTPException 403 ''Cannot retract AI message'') else Inr ())"

definition retract_chat_group_message ::
  "string \<Rightarrow> session \<Rightarrow> user_row \<Rightarrow> id \<Rightarrow> id \<Rightarrow> (message_row \<times> session) result" where
  "retract_chat_group_message admin s u room_id message_id =
     bind_r (require_chat_group_access admin s u room_id True False False) (\<lambda>room.
     bind_r (require_message_for_target s message_id None (Some room_id)) (\<lambda>m.
     bind_r (may_retract admin s u room m) (\<lambda>_.
     Inr (retract_message s m (u_id u) (Some ''Message retracted'')))))"

definition get_chat_group_state :: "string \<Rightarrow> session \<Rightarrow> user_row \<Rightarrow> id \<Rightarrow> (state_row \<times> session) result" where
  "get_chat_group_state admin s u room_id =
     bind_r (require_chat_group_access admin s u room_id False False False) (\<lambda>_.
     bind_r (get_session_state s None (Some room_id)) (\<lambda>(found, s1).
     case found of None \<Rightarrow> Inl (HTTPException 404 ''Session state not found'') | Some st \<Rightarrow> Inr (st, s1)))"

section \<open>Wakeups of a conversation\<close>

record wakeup_out =
  wo_id :: id
  wo_target_type :: string
  wo_target_id :: id
  wo_target_name :: "string option"
  wo_run_at :: time
  wo_reason :: "string option"
  wo_status :: job_status
  wo_scheduled_by :: "string option"
  wo_trigger_kind :: "string option"
  wo_is_ai_wakeup :: bool
  wo_cancelled_at :: "time option"
  wo_cancelled_reason :: "string option"
  wo_created_at :: time

definition text_or_none :: "string \<Rightarrow> dict \<Rightarrow> string option" where
  "text_or_none k d = (let t = dict_str k d in if t = [] then None else Some t)"

definition serialize_wakeup_task :: "session \<Rightarrow> wakeup_row \<Rightarrow> wakeup_out" where
  "serialize_wakeup_task s t =
     (let room = truthy (w_chat_group_id t);
          target = (if room then str_of (w_chat_group_id t) else or_else (w_cocoon_id t) []);
          name = (if room then map_option rm_name (row_get rm_id target (rooms s))
                  else if target = [] then None else map_option c_name (row_get c_id target (cocoons s)))
      in \<lparr>wo_id = w_id t, wo_target_type = (if room then ''chat_group'' else ''cocoon''), wo_target_id = target,
          wo_target_name = name, wo_run_at = w_run_at t, wo_reason = w_reason t, wo_status = w_status t,
          wo_scheduled_by = text_or_none ''scheduled_by'' (w_payload t), wo_trigger_kind = text_or_none ''trigger_kind'' (w_payload t),
          wo_is_ai_wakeup = is_ai_scheduled_wakeup t, wo_cancelled_at = w_cancelled_at t,
          wo_cancelled_reason = text_or_none ''cancelled_reason'' (w_payload t), wo_created_at = w_created_at t\<rparr>)"

definition list_cocoon_wakeups ::
  "string \<Rightarrow> session \<Rightarrow> user_row \<Rightarrow> id \<Rightarrow> job_status option \<Rightarrow> bool \<Rightarrow> nat \<Rightarrow> (wakeup_out list \<times> session) result" where
  "list_cocoon_wakeups admin s u cocoon_id status only_ai limit =
     bind_r (require_cocoon_access admin s u cocoon_id False False) (\<lambda>(_, s1).
     Inr (map (serialize_wakeup_task s1) (list_wakeup_tasks s1 (Some cocoon_id) None status only_ai limit), s1))"

definition list_chat_group_wakeups ::
  "string \<Rightarrow> session \<Rightarrow> user_row \<Rightarrow> id \<Rightarrow> job_status option \<Rightarrow> bool \<Rightarrow> nat \<Rightarrow> wakeup_out list result" where
  "list_chat_group_wakeups admin s u room_id status only_ai limit =
     bind_r (require_chat_group_access admin s u room_id False False False) (\<lambda>_.
     Inr (map (serialize_wakeup_task s) (list_wakeup_tasks s None (Some room_id) status only_ai limit)))"

section \<open>Paging back through a room\<close>

definition room_history :: "session \<Rightarrow> id \<Rightarrow> message_row list" where
  "room_history s g = by_age (filter (\<lambda>m. m_chat_group_id m = Some g \<and> m_cocoon_id m = None) (messages s))"

lemma room_history_strict:
  assumes "distinct (map m_id (messages s))"
  shows "sorted_wrt (<) (map (\<lambda>m. (m_created_at m, m_id m)) (room_history s g))"
proof -
  let ?key = "\<lambda>m. (m_created_at m, m_id m)"
  have "distinct (map ?key (messages s))" using assms by (auto simp: distinct_map inj_on_def)
  then have "distinct (map ?key (room_history s g))"
    by (simp add: room_history_def by_age_def distinct_sort_key distinct_map_filter)
  then show ?thesis by (simp add: strict_sorted_iff room_history_def by_age_def)
qed

lemma older_take:
  assumes "sorted_wrt (<) (map (\<lambda>m. (m_created_at m, m_id m)) h)" "k < length h"
  shows "filter (older (h ! k)) h = take k h"
proof -
  have less: "older (h ! j) (h ! i)" if "i < j" "j < length h" for i j
    using sorted_wrt_nth_less [OF assms(1), of i j] that unfolding older_def by (simp only: length_map nth_map less_trans)
  have "filter (older (h ! k)) (take k h) = take k h"
    unfolding filter_id_conv
  proof
    fix m assume "m \<in> set (take k h)"
    then obtain i where "i < k" "m = h ! i" by (auto simp: in_set_conv_nth)
    then show "older (h ! k) m" using less assms(2) by blast
  qed
  moreover have "\<not> older (h ! k) m" if "m \<in> set (drop k h)" for m
  proof -
    obtain i where j: "i < length (drop k h)" "m = drop k h ! i" using \<open>m \<in> set (drop k h)\<close> unfolding in_set_conv_nth by blast
    then have i: "m = h ! (k + i)" "k + i < length h" using assms(2) by simp_all
    have "older (h ! (k + i)) (h ! k) \<or> k + i = k" using less [of k "k + i"] i by (cases i) simp_all
    then show ?thesis unfolding i older_def by (metis less_asym less_irrefl)
  qed
  then have "filter (older (h ! k)) (drop k h) = []" by (simp add: filter_empty_conv)
  ultimately show ?thesis by (metis append.right_neutral append_take_drop_id filter_append)
qed

lemma rev_take_rev: "rev (take n (rev xs)) = drop (length xs - n) xs"
  by (simp add: take_rev)

text \<open>The pages of at most \<open>n\<close> messages that a client reads one after the other, each before the first message of the last.\<close>

fun read_back :: "session \<Rightarrow> id \<Rightarrow> int \<Rightarrow> nat \<Rightarrow> id option \<Rightarrow> message_row list result" where
  "read_back s g n 0 before = Inr []"
| "read_back s g n (Suc fuel) before =
     bind_r (list_messages s None (Some g) before (Some n)) (\<lambda>page.
     if page = [] then Inr []
     else bind_r (read_back s g n fuel (Some (m_id (hd page)))) (\<lambda>rest. Inr (rest @ page)))"

lemma room_page_before:
  assumes d: "distinct (map m_id (messages s))" "g \<noteq> []" "k < length (room_history s g)" "m_id (room_history s g ! k) \<noteq> []" "0 \<le> n"
  shows "list_messages s None (Some g) (Some (m_id (room_history s g ! k))) (Some n) =
    Inr (drop (k - nat n) (take k (room_history s g)))"
proof -
  let ?h = "room_history s g" and ?a = "room_history s g ! k"
  have a: "?a \<in> set ?h" using d(3) by simp
  then have "?a \<in> set (messages s)" "m_chat_group_id ?a = Some g" "m_cocoon_id ?a = None"
    by (auto simp: room_history_def by_age_def)
  then have get: "row_get m_id (m_id ?a) (messages s) = Some ?a" using row_get_mem d(1) by metis
  have "by_age (filter (older ?a) (filter (\<lambda>m. m_chat_group_id m = Some g \<and> m_cocoon_id m = None) (messages s))) = take k ?h"
    using older_take [OF room_history_strict [OF d(1), of g] d(3)] by (simp add: room_history_def by_age_def filter_sort)
  then show ?thesis
    using d(2,4,5) get \<open>m_chat_group_id ?a = Some g\<close> d(3)
    by (simp add: list_messages_def room_page_def require_message_for_target_def sql_limit_def build_target_filter_def
        resolve_target_type_def rev_take_rev min_def)
qed

lemma room_page_newest:
  assumes "g \<noteq> []" "0 \<le> n"
  shows "list_messages s None (Some g) None (Some n) = Inr (drop (length (room_history s g) - nat n) (room_history s g))"
  using assms by (simp add: list_messages_def room_page_def sql_limit_def build_target_filter_def resolve_target_type_def
      rev_take_rev room_history_def)

lemma hd_page: "0 < n \<Longrightarrow> 0 < k \<Longrightarrow> k \<le> length h \<Longrightarrow> drop (k - n) (take k h) \<noteq> [] \<and> hd (drop (k - n) (take k h)) = h ! (k - n)"
  by (simp add: hd_drop_conv_nth)

lemma take_page: "take (k - n) h @ drop (k - n) (take k h) = take k h"
  using append_take_drop_id [of "k - n" "take k h"] by (simp add: min_def split: if_splits)

lemma read_back_from:
  assumes d: "distinct (map m_id (messages s))" "\<forall>m\<in>set (messages s). m_id m \<noteq> []" "g \<noteq> []" "1 \<le> n"
    and "k < length (room_history s g)" "k < fuel"
  shows "read_back s g n fuel (Some (m_id (room_history s g ! k))) = Inr (take k (room_history s g))"
  using assms(5,6)
proof (induction k arbitrary: fuel rule: less_induct)
  case (less k)
  obtain f where f: "fuel = Suc f" using less.prems(2) by (cases fuel) auto
  have "room_history s g ! k \<in> set (messages s)" using less.prems(1) nth_mem [of k "room_history s g"] by (auto simp: room_history_def by_age_def)
  then have page: "list_messages s None (Some g) (Some (m_id (room_history s g ! k))) (Some n) =
      Inr (drop (k - nat n) (take k (room_history s g)))"
    using room_page_before [OF d(1,3) less.prems(1)] d(2,4) by auto
  show ?case
  proof (cases k)
    case 0
    then show ?thesis using page by (simp add: f)
  next
    case (Suc j)
    then have h: "drop (k - nat n) (take k (room_history s g)) \<noteq> []"
      "hd (drop (k - nat n) (take k (room_history s g))) = room_history s g ! (k - nat n)"
      using hd_page [of "nat n" k "room_history s g"] d(4) less.prems(1) by auto
    have "read_back s g n f (Some (m_id (room_history s g ! (k - nat n)))) = Inr (take (k - nat n) (room_history s g))"
      by (rule less.IH) (use Suc d(4) less.prems f in auto)
    then show ?thesis using page h by (simp add: f take_page del: drop_eq_Nil)
  qed
qed

text \<open>
  C32. Reading a chat group backwards with any positive page size, each time before the first message of the page
  just read, ends after at most as many pages as there are messages and returns the history of the room, every message once and in the
  order of creation.
\<close>

theorem room_pages_cover_history:
  assumes "distinct (map m_id (messages s))" "\<forall>m\<in>set (messages s). m_id m \<noteq> []" "g \<noteq> []" "1 \<le> n"
    and "length (room_history s g) < fuel"
  shows "read_back s g n fuel None = Inr (room_history s g)"
proof -
  let ?h = "room_history s g"
  obtain f where f: "fuel = Suc f" using assms(5) by (cases fuel) auto
  have page: "list_messages s None (Some g) None (Some n) = Inr (drop (length ?h - nat n) ?h)"
    using room_page_newest assms(3,4) by simp
  show ?thesis
  proof (cases "?h = []")
    case True
    then show ?thesis using page by (simp add: f)
  next
    case False
    then have h: "drop (length ?h - nat n) ?h \<noteq> []" "hd (drop (length ?h - nat n) ?h) = ?h ! (length ?h - nat n)"
      using hd_page [of "nat n" "length ?h" ?h] assms(4) by auto
    have "read_back s g n f (Some (m_id (?h ! (length ?h - nat n)))) = Inr (take (length ?h - nat n) ?h)"
      by (rule read_back_from [OF assms(1-4)]) (use False assms(4,5) f in \<open>auto intro: less_le_trans [OF diff_less]\<close>)
    then show ?thesis using page h by (simp add: f del: drop_eq_Nil)
  qed
qed

definition sample_room :: session where
  "sample_room = sample_history\<lparr>messages :=
     map (\<lambda>(i, t). (sample_message i ''user'' t)\<lparr>m_cocoon_id := None, m_chat_group_id := Some ''g''\<rparr>)
       [(''x3'', 2), (''x1'', 1), (''x2'', 2)]\<rparr>"

theorem room_pages_cover_history_witness:
  "read_back sample_room ''g'' 2 9 None = Inr (room_history sample_room ''g'') \<and>
   map m_id (room_history sample_room ''g'') = [''x1'', ''x2'', ''x3'']"
proof -
  have h: "map m_id (room_history sample_room ''g'') = [''x1'', ''x2'', ''x3'']" by code_simp
  then have "length (room_history sample_room ''g'') = 3" by (metis length_map length_Cons list.size(3) numeral_3_eq_3)
  with room_pages_cover_history [of sample_room "''g''" 2 9] h show ?thesis
    by (simp add: sample_room_def sample_message_def)
qed

end
