(* ===== verification/CocoonForest.thy ===== *)
theory CocoonForest
  imports Rooms Invites
begin

text \<open>
  The parent links of cocoons stay a forest under all requests, so the two traversals of \<open>Cocoons\<close>
  end in every state that can be reached, and what they then return and delete.
\<close>

section \<open>The forest of cocoons\<close>

definition cocoon_forest :: "session \<Rightarrow> bool" where
  "cocoon_forest s \<longleftrightarrow>
     supply_fresh s (row_ids c_id (cocoons s)) \<and> distinct (map c_id (cocoons s)) \<and> acyclic (child_link (cocoons s)) \<and>
     (\<forall>x y. (x, y) \<in> child_link (cocoons s) \<longrightarrow> y \<in> row_ids c_id (cocoons s))"

definition cocoon_links :: "session \<Rightarrow> (id \<times> id option) list" where
  "cocoon_links s = map (\<lambda>c. (c_id c, c_parent_id c)) (cocoons s)"

text \<open>A step that is no request on cocoons: it may change other columns of cocoons, draw identifiers and change all other tables.\<close>

definition links_frame :: "session \<Rightarrow> session \<Rightarrow> bool" where
  "links_frame s s' \<longleftrightarrow> cocoon_links s' = cocoon_links s \<and> id_supply s' = id_supply s \<and> id_next s \<le> id_next s'"

inductive cocoon_request :: "string \<Rightarrow> session \<Rightarrow> session \<Rightarrow> bool" for admin where
  create: "create_cocoon admin s u p = Inr (c, s') \<Longrightarrow> cocoon_request admin s s'"
| update: "update_cocoon admin s u i q = Inr (c, s') \<Longrightarrow> cocoon_request admin s s'"
| delete: "delete_cocoon admin s u i = Some (Inr (c, s')) \<Longrightarrow> cocoon_request admin s s'"
| other: "links_frame s s' \<Longrightarrow> cocoon_request admin s s'"

lemma links_ids: "map c_id (cocoons s) = map fst (cocoon_links s)"
  by (simp add: cocoon_links_def comp_def)

lemma links_child: "(x, y) \<in> child_link (cocoons s) \<longleftrightarrow> (x, Some y) \<in> set (cocoon_links s)"
  by (auto simp: child_link_iff cocoon_links_def image_iff)

lemma links_row_ids: "row_ids c_id (cocoons s) = fst ` set (cocoon_links s)"
  by (auto simp: row_ids_def cocoon_links_def image_iff)

lemma links_frame_trans: "links_frame s s1 \<Longrightarrow> links_frame s1 s2 \<Longrightarrow> links_frame s s2"
  by (simp add: links_frame_def)

lemma supply_fresh_later:
  "supply_fresh s used \<Longrightarrow> id_supply s' = id_supply s \<Longrightarrow> id_next s \<le> id_next s' \<Longrightarrow> used' \<subseteq> used \<Longrightarrow> supply_fresh s' used'"
  by (auto simp: supply_fresh_def)

lemma forest_frame:
  assumes f: "links_frame s s'" and wf: "cocoon_forest s" shows "cocoon_forest s'"
proof -
  have l: "cocoon_links s' = cocoon_links s" using f by (simp add: links_frame_def)
  then have "child_link (cocoons s') = child_link (cocoons s)" using links_child by (intro set_eqI) (metis surj_pair)
  moreover have "row_ids c_id (cocoons s') = row_ids c_id (cocoons s)" by (simp add: links_row_ids l)
  moreover have "supply_fresh s' (row_ids c_id (cocoons s))"
    using supply_fresh_later [of s "row_ids c_id (cocoons s)" s'] f wf by (simp add: links_frame_def cocoon_forest_def)
  ultimately show ?thesis using wf l by (simp add: cocoon_forest_def links_ids)
qed

lemma frame_state: "state_frame s s' \<Longrightarrow> links_frame s s'"
  by (simp add: links_frame_def cocoon_links_def state_frameD)

lemma frame_settings: "get_settings s = (r, s') \<Longrightarrow> links_frame s s'"
  by (auto simp: get_settings_def links_frame_def cocoon_links_def split: option.splits)

lemma frame_model: "require_model_allowed s i = Inr s' \<Longrightarrow> links_frame s s'"
  by (auto simp: require_model_allowed_def split: prod.splits if_splits intro: frame_settings)

lemma frame_with_root: "links_frame s (with_root s)"
  by (rule ensure_root_group_cases [of s]) (auto simp: with_root_def links_frame_def cocoon_links_def)

lemma access_state:
  assumes "require_cocoon_access admin s u i wr am = Inr (c, s')"
  shows "s' \<in> {s, with_root s}" "row_get c_id i (cocoons s) = Some c"
proof -
  have "s' = snd (can_access_cocoon admin s u c wr am) \<and> row_get c_id i (cocoons s) = Some c"
    using assms by (auto simp: require_cocoon_access_def split: option.splits prod.splits if_splits)
  then show "s' \<in> {s, with_root s}" "row_get c_id i (cocoons s) = Some c"
    using can_access_cocoon_state [of admin s u c wr am] by simp_all
qed

lemma frame_access: "require_cocoon_access admin s u i wr am = Inr (c, s') \<Longrightarrow> links_frame s s'"
  using access_state(1) frame_with_root by (fastforce simp: links_frame_def)

lemma frame_parent:
  assumes "resolve_parent admin s u p = Inr ((parent, ch, m), s')"
  shows "links_frame s s' \<and> (\<forall>x. parent = Some x \<longrightarrow> x \<in> set (cocoons s)) \<and> (parent = None \<longrightarrow> cn_parent_id p = None)"
proof (cases "cn_parent_id p")
  case None
  then show ?thesis using assms by (auto simp: resolve_parent_def links_frame_def split: if_splits)
next
  case (Some i)
  then obtain c where "require_cocoon_access admin s u i False False = Inr (c, s')" "parent = Some c"
    using assms by (auto simp: resolve_parent_def elim!: bind_r_pairE)
  then show ?thesis using frame_access access_state(2) row_get_SomeD by fastforce
qed

text \<open>What an accepted creation adds.\<close>

lemma create_cocoon_adds:
  assumes "create_cocoon admin s u p = Inr (c, s')"
  obtains s3 s4 where "links_frame s s3" "links_frame s4 s'" "s4 = (take_id s3)\<lparr>cocoons := row_add c (cocoons s3)\<rparr>"
    "c_id c = new_id s3" "\<And>y. c_parent_id c = Some y \<Longrightarrow> y \<in> row_ids c_id (cocoons s)"
proof -
  obtain cfg s1 where 1: "get_settings s = (cfg, s1)" by fastforce
  obtain x s2 where 2: "resolve_parent admin s1 u p = Inr (x, s2)"
    using assms 1 by (auto simp: create_cocoon_def elim!: bind_r_pairE)
  obtain parent ch m where x: "x = (parent, ch, m)" by (metis surj_pair)
  have f2: "links_frame s s2" "\<And>y. parent = Some y \<Longrightarrow> y \<in> set (cocoons s1)" "parent = None \<Longrightarrow> cn_parent_id p = None"
    using frame_parent [of admin s1 u p parent ch m s2] 2 x frame_settings [OF 1] links_frame_trans by blast+
  obtain s3 where 3: "require_model_allowed s2 (str_of m) = Inr s3"
    and e: "bind_r (ensure_session_state ((take_id s3)\<lparr>cocoons := row_add (new_cocoon s3 u p cfg parent (str_of ch) (str_of m)) (cocoons s3)\<rparr>)
        (Some (c_id (new_cocoon s3 u p cfg parent (str_of ch) (str_of m)))) None)
        (\<lambda>(_, s4). Inr (new_cocoon s3 u p cfg parent (str_of ch) (str_of m), s4)) = Inr (c, s')"
    using assms 1 2 x by (auto simp: create_cocoon_def Let_def elim!: bind_rE split: if_splits)
  have c: "c = new_cocoon s3 u p cfg parent (str_of ch) (str_of m)" using e by (auto elim!: bind_r_pairE)
  from e obtain st where 4: "ensure_session_state ((take_id s3)\<lparr>cocoons := row_add c (cocoons s3)\<rparr>) (Some (c_id c)) None = Inr (st, s')"
    unfolding c [symmetric] by (auto elim!: bind_r_pairE)
  show thesis
  proof (rule that [OF _ frame_state [OF state_frame_ensure_state [OF 4]] refl])
    show "links_frame s s3" using f2(1) frame_model [OF 3] links_frame_trans by blast
    show "c_id c = new_id s3" by (simp add: c new_cocoon_def)
    have "cocoons s1 = cocoons s" using 1 by (auto simp: get_settings_def split: option.splits)
    then show "y \<in> row_ids c_id (cocoons s)" if "c_parent_id c = Some y" for y
      using that f2(2,3) by (auto simp: c new_cocoon_def row_ids_def split: option.splits)
  qed
qed

lemma child_link_add: "child_link (row_add c cs) = {(c_id c, y) | y. c_parent_id c = Some y} \<union> child_link cs"
  by (auto simp: child_link_iff)

lemma forest_create:
  assumes wf: "cocoon_forest s" and e: "create_cocoon admin s u p = Inr (c, s')"
  shows "cocoon_forest s'"
proof -
  obtain s3 s4 where s: "links_frame s s3" "links_frame s4 s'" "s4 = (take_id s3)\<lparr>cocoons := row_add c (cocoons s3)\<rparr>"
    "c_id c = new_id s3" "\<And>y. c_parent_id c = Some y \<Longrightarrow> y \<in> row_ids c_id (cocoons s)"
    using create_cocoon_adds [OF e] by blast
  have wf3: "cocoon_forest s3" by (rule forest_frame [OF s(1) wf])
  have ids: "row_ids c_id (cocoons s3) = row_ids c_id (cocoons s)" using s(1) by (simp add: links_frame_def links_row_ids)
  have new: "c_id c \<notin> row_ids c_id (cocoons s3)" using wf3 new_id_fresh s(4) unfolding cocoon_forest_def by metis
  have link: "child_link (cocoons s4) = {(c_id c, y) | y. c_parent_id c = Some y} \<union> child_link (cocoons s3)"
    by (simp add: s(3) child_link_add)
  have parents: "y \<in> row_ids c_id (cocoons s3)" if "(x, y) \<in> child_link (cocoons s4)" for x y
    using that wf3 s(5) ids unfolding link cocoon_forest_def by auto
  have "acyclic (child_link (cocoons s4))"
  proof (cases "c_parent_id c")
    case None
    then show ?thesis using wf3 by (simp add: link cocoon_forest_def)
  next
    case (Some y)
    have "(y, c_id c) \<notin> (child_link (cocoons s3))\<^sup>*"
    proof
      assume "(y, c_id c) \<in> (child_link (cocoons s3))\<^sup>*"
      then show False
      proof (cases rule: rtranclE)
        case base
        then show False using s(5) [OF Some] new ids by simp
      next
        case (step z)
        then show False using wf3 new unfolding cocoon_forest_def by blast
      qed
    qed
    then show ?thesis using wf3 Some by (simp add: link cocoon_forest_def acyclic_insert insert_def [symmetric])
  qed
  moreover have "supply_fresh s4 (row_ids c_id (cocoons s4))"
  proof -
    have "supply_fresh (take_id s3) (insert (c_id c) (row_ids c_id (cocoons s3)))"
      using supply_fresh_take_id wf3 s(4) unfolding cocoon_forest_def by metis
    then show ?thesis by (simp add: s(3) supply_fresh_def)
  qed
  ultimately have "cocoon_forest s4"
    using wf3 parents new by (auto simp: cocoon_forest_def s(3) row_ids_def)
  then show ?thesis by (rule forest_frame [OF s(2)])
qed

lemma forest_update:
  assumes "cocoon_forest s" "update_cocoon admin s u i q = Inr (c, s')" shows "cocoon_forest s'"
proof -
  obtain c0 s1 where 1: "require_cocoon_access admin s u i True True = Inr (c0, s1)"
    using assms(2) by (auto simp: update_cocoon_def elim!: bind_r_pairE)
  obtain s2 where 2: "(case cp_selected_model_id q of None \<Rightarrow> Inr s1 | Some j \<Rightarrow> require_model_allowed s1 j) = Inr s2"
    "s' = s2\<lparr>cocoons := row_put c_id (c_id c0) (set_cocoon_fields q) (cocoons s2)\<rparr>"
    using assms(2) 1 by (auto simp: update_cocoon_def elim!: bind_rE)
  have "links_frame s1 s2" using 2(1) by (auto simp: links_frame_def split: option.splits dest: frame_model)
  moreover have "links_frame s2 s'"
    by (auto simp: 2(2) links_frame_def cocoon_links_def row_put_def set_cocoon_fields_def)
  ultimately show ?thesis using forest_frame assms(1) frame_access [OF 1] by blast
qed

section \<open>References between the tables of a conversation\<close>

definition points_to :: "('a \<Rightarrow> id option) \<Rightarrow> 'a list \<Rightarrow> id set \<Rightarrow> bool" where
  "points_to f rows ids \<longleftrightarrow> (\<forall>x\<in>set rows. \<forall>i. f x = Some i \<longrightarrow> i \<in> ids)"

text \<open>The columns that name a cocoon, and those that hang on a row of a conversation.\<close>

definition cocoon_refs :: "session \<Rightarrow> bool" where
  "cocoon_refs s \<longleftrightarrow> (let ids = row_ids c_id (cocoons s) in
     points_to st_cocoon_id (states s) ids \<and> points_to ts_cocoon_id (task_states s) ids \<and> points_to f_cocoon_id (facts s) ids \<and>
     points_to mc_cocoon_id (memory_candidates s) ids \<and> points_to (Some \<circ> ct_cocoon_id) (cocoon_tags s) ids \<and>
     points_to (Some \<circ> cp_cocoon_id) (checkpoints s) ids \<and> points_to (Some \<circ> pj_source_cocoon_id) (pull_jobs s) ids \<and>
     points_to (Some \<circ> pj_target_cocoon_id) (pull_jobs s) ids \<and> points_to (Some \<circ> gj_source_cocoon_id) (merge_jobs s) ids \<and>
     points_to (Some \<circ> gj_target_cocoon_id) (merge_jobs s) ids \<and> points_to m_cocoon_id (messages s) ids \<and>
     points_to mem_cocoon_id (memories s) ids \<and> points_to a_cocoon_id (actions s) ids \<and> points_to j_cocoon_id (jobs s) ids \<and>
     points_to w_cocoon_id (wakeups s) ids \<and> points_to ar_cocoon_id (audit_runs s) ids \<and> points_to fr_cocoon_id (failed_rounds s) ids)"

definition row_refs :: "session \<Rightarrow> bool" where
  "row_refs s \<longleftrightarrow>
     points_to (Some \<circ> mt_message_id) (message_tags s) (row_ids m_id (messages s)) \<and>
     points_to ob_message_id (im_outbox s) (row_ids m_id (messages s)) \<and>
     points_to ob_action_id (im_outbox s) (row_ids a_id (actions s)) \<and>
     points_to fr_action_id (failed_rounds s) (row_ids a_id (actions s)) \<and>
     points_to (Some \<circ> mmt_memory_chunk_id) (memory_tags s) (row_ids mem_id (memories s)) \<and>
     points_to (Some \<circ> em_memory_chunk_id) (embeddings s) (row_ids mem_id (memories s)) \<and>
     points_to pd_wakeup_task_id (plugin_dispatches s) (row_ids w_id (wakeups s)) \<and>
     points_to (Some \<circ> au_run_id) (audit_steps s) (row_ids ar_id (audit_runs s)) \<and>
     points_to (Some \<circ> aa_run_id) (audit_artifacts s) (row_ids ar_id (audit_runs s)) \<and>
     points_to al_source_step_id (audit_links s) (row_ids au_id (audit_steps s)) \<and>
     points_to al_target_step_id (audit_links s) (row_ids au_id (audit_steps s)) \<and>
     points_to al_source_artifact_id (audit_links s) (row_ids aa_id (audit_artifacts s)) \<and>
     points_to al_target_artifact_id (audit_links s) (row_ids aa_id (audit_artifacts s))"

lemma points_to_delete:
  assumes "points_to f rows (row_ids key ts)" "\<And>x t. x \<in> set rows \<Longrightarrow> \<not> P x \<Longrightarrow> t \<in> set ts \<Longrightarrow> Q t \<Longrightarrow> f x \<noteq> Some (key t)"
  shows "points_to f (row_del_where P rows) (row_ids key (row_del_where Q ts))"
  using assms by (fastforce simp: points_to_def row_ids_def)

subsection \<open>The rows of conversations that go\<close>

definition action_gone :: "(id option \<Rightarrow> id option \<Rightarrow> bool) \<Rightarrow> session \<Rightarrow> id option \<Rightarrow> bool" where
  "action_gone gone s i = in_list i (map a_id (filter (\<lambda>a. gone (a_cocoon_id a) (a_chat_group_id a)) (actions s)))"

definition wipe :: "(id option \<Rightarrow> id option \<Rightarrow> bool) \<Rightarrow> session \<Rightarrow> session" where
  "wipe gone s = wipe_actions gone (wipe_audit gone (wipe_messages gone (wipe_memories gone (wipe_jobs gone s))))"

lemma row_del_where_ids:
  assumes "distinct (map key rows)"
  shows "row_del_where (\<lambda>x. key x \<in> set (map key (filter P rows))) rows = row_del_where P rows"
  unfolding row_del_where_def by (rule filter_cong) (use distinct_key_eq [OF assms] in auto)

lemma wipe_tables:
  "messages (wipe gone s) = row_del_where (\<lambda>m. m_id m \<in> set (map m_id (filter (\<lambda>m. gone (m_cocoon_id m) (m_chat_group_id m)) (messages s)))) (messages s)"
  "memories (wipe gone s) = row_del_where (\<lambda>m. mem_id m \<in> set (map mem_id (filter (\<lambda>m. gone (mem_cocoon_id m) (mem_chat_group_id m)) (memories s)))) (memories s)"
  "actions (wipe gone s) = row_del_where (\<lambda>a. a_id a \<in> set (map a_id (filter (\<lambda>a. gone (a_cocoon_id a) (a_chat_group_id a)) (actions s)))) (actions s)"
  "jobs (wipe gone s) = row_del_where (\<lambda>j. j_id j \<in> set (map j_id (filter (\<lambda>j. gone (j_cocoon_id j) (j_chat_group_id j)) (jobs s)))) (jobs s)"
  "wakeups (wipe gone s) = row_del_where (\<lambda>t. gone (w_cocoon_id t) (w_chat_group_id t)) (wakeups s)"
  "audit_runs (wipe gone s) = row_del_where (\<lambda>r. ar_id r \<in> set (map ar_id (filter (\<lambda>r. gone (ar_cocoon_id r) (ar_chat_group_id r)) (audit_runs s)))) (audit_runs s)"
  "failed_rounds (wipe gone s) = row_del_where (\<lambda>f. gone (fr_cocoon_id f) (fr_chat_group_id f) \<or> action_gone gone s (fr_action_id f)) (failed_rounds s)"
  by (simp_all add: wipe_def wipe_actions_def wipe_audit_def wipe_messages_def wipe_memories_def wipe_jobs_def action_gone_def Let_def)

lemma wipe_row_refs:
  assumes "row_refs s" shows "row_refs (wipe gone s)"
  using assms unfolding row_refs_def wipe_tables
  by (auto simp: wipe_def wipe_actions_def wipe_audit_def wipe_messages_def wipe_memories_def wipe_jobs_def Let_def
      action_gone_def in_list_iff intro!: points_to_delete)

text \<open>Primary keys.\<close>

definition row_keys :: "session \<Rightarrow> bool" where
  "row_keys s \<longleftrightarrow>
     distinct (map m_id (messages s)) \<and> distinct (map mem_id (memories s)) \<and> distinct (map a_id (actions s)) \<and>
     distinct (map j_id (jobs s)) \<and> distinct (map ar_id (audit_runs s))"

lemma wipe_exact:
  assumes "row_keys s"
  shows "messages (wipe gone s) = row_del_where (\<lambda>m. gone (m_cocoon_id m) (m_chat_group_id m)) (messages s)"
    "memories (wipe gone s) = row_del_where (\<lambda>m. gone (mem_cocoon_id m) (mem_chat_group_id m)) (memories s)"
    "actions (wipe gone s) = row_del_where (\<lambda>a. gone (a_cocoon_id a) (a_chat_group_id a)) (actions s)"
    "jobs (wipe gone s) = row_del_where (\<lambda>j. gone (j_cocoon_id j) (j_chat_group_id j)) (jobs s)"
    "audit_runs (wipe gone s) = row_del_where (\<lambda>r. gone (ar_cocoon_id r) (ar_chat_group_id r)) (audit_runs s)"
  using assms unfolding row_keys_def wipe_tables by (simp_all only: row_del_where_ids)

lemma wipe_keeps:
  "cocoons (wipe gone s) = cocoons s" "rooms (wipe gone s) = rooms s" "room_members (wipe gone s) = room_members s"
  "states (wipe gone s) = states s" "task_states (wipe gone s) = task_states s" "facts (wipe gone s) = facts s"
  "memory_candidates (wipe gone s) = memory_candidates s" "cocoon_tags (wipe gone s) = cocoon_tags s"
  "checkpoints (wipe gone s) = checkpoints s" "pull_jobs (wipe gone s) = pull_jobs s" "merge_jobs (wipe gone s) = merge_jobs s"
  "room_tags (wipe gone s) = room_tags s" "tags (wipe gone s) = tags s" "users (wipe gone s) = users s"
  "id_supply (wipe gone s) = id_supply s" "id_next (wipe gone s) = id_next s"
  "tag_visibilities (wipe gone s) = tag_visibilities s"
  by (simp_all add: wipe_def wipe_actions_def wipe_audit_def wipe_messages_def wipe_memories_def wipe_jobs_def Let_def)

section \<open>Deleting a cocoon\<close>

definition without_owned :: "session \<Rightarrow> id list \<Rightarrow> session" where
  "without_owned s ids = s\<lparr>states := row_del_where (\<lambda>x. in_list (st_cocoon_id x) ids) (states s),
      task_states := row_del_where (\<lambda>x. in_list (ts_cocoon_id x) ids) (task_states s),
      facts := row_del_where (\<lambda>x. in_list (f_cocoon_id x) ids) (facts s),
      memory_candidates := row_del_where (\<lambda>x. in_list (mc_cocoon_id x) ids) (memory_candidates s),
      cocoon_tags := row_del_where (\<lambda>x. ct_cocoon_id x \<in> set ids) (cocoon_tags s),
      checkpoints := row_del_where (\<lambda>x. cp_cocoon_id x \<in> set ids) (checkpoints s),
      pull_jobs := row_del_where (\<lambda>x. pj_source_cocoon_id x \<in> set ids \<or> pj_target_cocoon_id x \<in> set ids) (pull_jobs s),
      merge_jobs := row_del_where (\<lambda>x. gj_source_cocoon_id x \<in> set ids \<or> gj_target_cocoon_id x \<in> set ids) (merge_jobs s)\<rparr>"

lemma delete_subtree_wipe:
  assumes "ids \<noteq> []"
  shows "delete_cocoon_subtree s ids =
    wipe (in_cocoons ids) (without_owned s ids)\<lparr>cocoons := row_del_where (\<lambda>c. c_id c \<in> set ids) (cocoons s)\<rparr>"
  using assms wipe_keeps(1) [of "in_cocoons ids" "without_owned s ids"]
  by (simp add: delete_cocoon_subtree_def without_owned_def Let_def wipe_def)

lemma without_owned_keys: "row_keys s \<Longrightarrow> row_keys (without_owned s ids)"
  by (simp add: row_keys_def without_owned_def)

lemma delete_subtree_tables:
  fixes s ids
  defines "s' \<equiv> delete_cocoon_subtree s ids"
  assumes k: "row_keys s" and ids: "ids \<noteq> []"
  shows "cocoons s' = row_del_where (\<lambda>c. c_id c \<in> set ids) (cocoons s)"
    "messages s' = row_del_where (\<lambda>m. in_list (m_cocoon_id m) ids) (messages s)"
    "memories s' = row_del_where (\<lambda>m. in_list (mem_cocoon_id m) ids) (memories s)"
    "actions s' = row_del_where (\<lambda>a. in_list (a_cocoon_id a) ids) (actions s)"
    "jobs s' = row_del_where (\<lambda>j. in_list (j_cocoon_id j) ids) (jobs s)"
    "wakeups s' = row_del_where (\<lambda>t. in_list (w_cocoon_id t) ids) (wakeups s)"
    "audit_runs s' = row_del_where (\<lambda>r. in_list (ar_cocoon_id r) ids) (audit_runs s)"
    "states s' = row_del_where (\<lambda>x. in_list (st_cocoon_id x) ids) (states s)"
    "task_states s' = row_del_where (\<lambda>x. in_list (ts_cocoon_id x) ids) (task_states s)"
    "facts s' = row_del_where (\<lambda>x. in_list (f_cocoon_id x) ids) (facts s)"
    "memory_candidates s' = row_del_where (\<lambda>x. in_list (mc_cocoon_id x) ids) (memory_candidates s)"
    "cocoon_tags s' = row_del_where (\<lambda>x. ct_cocoon_id x \<in> set ids) (cocoon_tags s)"
    "checkpoints s' = row_del_where (\<lambda>x. cp_cocoon_id x \<in> set ids) (checkpoints s)"
    "pull_jobs s' = row_del_where (\<lambda>x. pj_source_cocoon_id x \<in> set ids \<or> pj_target_cocoon_id x \<in> set ids) (pull_jobs s)"
    "merge_jobs s' = row_del_where (\<lambda>x. gj_source_cocoon_id x \<in> set ids \<or> gj_target_cocoon_id x \<in> set ids) (merge_jobs s)"
    "set (failed_rounds s') \<subseteq> set (failed_rounds s) \<inter> {f. \<not> in_list (fr_cocoon_id f) ids}"
    "rooms s' = rooms s" "room_members s' = room_members s" "tags s' = tags s" "users s' = users s"
    "id_supply s' = id_supply s" "id_next s' = id_next s"
  using k unfolding s'_def delete_subtree_wipe [OF ids]
  by (simp_all add: wipe_exact [OF without_owned_keys] wipe_tables(5) wipe_keeps)
     (auto simp: wipe_tables(7) without_owned_def in_cocoons_def)

lemma forest_ends: "cocoon_forest s \<Longrightarrow> \<exists>ids. collect_cocoon_subtree_ids s i = Some ids \<and> distinct ids \<and> set ids = below (cocoons s) i"
  by (rule collect_subtree) (simp_all add: cocoon_forest_def)

lemma below_self: "i \<in> below cs i"
  by (simp add: below_def)

lemma access_root:
  "require_cocoon_access admin s u i wr am = Inr (c, s1) \<Longrightarrow> s1 = s \<or> (\<exists>g. s1 = s\<lparr>groups := row_add g (groups s)\<rparr>)"
  using access_state(1) [of admin s u i wr am c s1]
  by (cases rule: ensure_root_group_cases [of s]) (auto simp: with_root_def)

lemma delete_cocoon_refs:
  assumes "row_keys s" "ids \<noteq> []" "cocoon_refs s" shows "cocoon_refs (delete_cocoon_subtree s ids)"
proof -
  have "points_to fr_cocoon_id (failed_rounds s) (row_ids c_id (cocoons s))" using assms(3) by (simp add: cocoon_refs_def Let_def)
  then have "i \<in> row_ids c_id (row_del_where (\<lambda>c. c_id c \<in> set ids) (cocoons s))"
    if "f \<in> set (failed_rounds s)" "\<not> in_list (fr_cocoon_id f) ids" "fr_cocoon_id f = Some i" for f i
    using that by (auto simp: points_to_def row_ids_def in_list_iff)
  then have frs: "points_to fr_cocoon_id (failed_rounds (delete_cocoon_subtree s ids)) (row_ids c_id (row_del_where (\<lambda>c. c_id c \<in> set ids) (cocoons s)))"
    using delete_subtree_tables(16) [OF assms(1,2)] unfolding points_to_def by blast
  show ?thesis
    using assms(3) frs unfolding cocoon_refs_def Let_def delete_subtree_tables(1-15) [OF assms(1,2)]
    by (auto simp: in_list_iff intro!: points_to_delete)
qed

lemma delete_row_refs:
  assumes "ids \<noteq> []" "row_refs s" shows "row_refs (delete_cocoon_subtree s ids)"
proof -
  have "row_refs (without_owned s ids)" using assms(2) by (simp add: row_refs_def without_owned_def)
  from wipe_row_refs [OF this, of "in_cocoons ids"] show ?thesis
    by (simp add: delete_subtree_wipe [OF assms(1)] row_refs_def)
qed

lemma foreign_parent_unreached:
  assumes "distinct (map c_id cs)" "c \<in> set cs" "c_parent_id c = Some p" "p \<notin> row_ids c_id cs"
    and root: "r \<in> set cs" "c_parent_id r = None"
  shows "c_id c \<notin> below cs (c_id r)"
proof
  assume "c_id c \<in> below cs (c_id r)"
  then have "(c_id c, c_id r) \<in> (child_link cs)\<^sup>*" by (simp add: below_def)
  then show False
  proof (cases rule: converse_rtranclE)
    case base
    then show False using distinct_key_eq [OF assms(1,2) root(1)] assms(3) root(2) by simp
  next
    case (step z)
    have "z = p" using step(1) single_valued_child_link [OF assms(1)] assms(2,3) by (meson child_link_iff single_valuedD)
    with step(2) show False using assms(4) root(1)
      by (cases rule: converse_rtranclE) (auto simp: child_link_iff row_ids_def)
  qed
qed

lemma delete_cocoon_subtree_of:
  assumes "cocoon_forest s" "require_cocoon_access admin s u i True True = Inr (c, s1)"
  obtains ids where "delete_cocoon admin s u i = Some (Inr (c, delete_cocoon_subtree s1 ids))" "ids \<noteq> []"
    "set ids = below (cocoons s) i"
proof -
  have f: "cocoon_forest s1" by (rule forest_frame [OF frame_access [OF assms(2)] assms(1)])
  have c: "cocoons s1 = cocoons s" using access_state(1) [OF assms(2)] frame_with_root [of s]
    by (auto simp: with_root_def intro: ensure_root_group_cases [of s])
  have i: "c_id c = i" using access_state(2) [OF assms(2)] row_get_SomeD by metis
  obtain ids where "collect_cocoon_subtree_ids s1 i = Some ids" "set ids = below (cocoons s) i"
    using forest_ends [OF f, of i] c by auto
  moreover then have "ids \<noteq> []" using below_self [of i "cocoons s"] by auto
  ultimately show thesis using assms(2) i by (intro that) (simp_all add: delete_cocoon_def)
qed

lemma child_link_remaining:
  "child_link (row_del_where (\<lambda>c. c_id c \<in> D) cs) = child_link cs - {(x, y). x \<in> D}"
  by (auto simp: child_link_iff row_del_where_def)

lemma forest_delete:
  assumes wf: "cocoon_forest s" and e: "delete_cocoon admin s u i = Some (Inr (c, s'))"
  shows "cocoon_forest s'"
proof -
  obtain s1 where a: "require_cocoon_access admin s u i True True = Inr (c, s1)"
    using e by (auto simp: delete_cocoon_def split: sum.splits bind_splits)
  obtain ids where ids: "s' = delete_cocoon_subtree s1 ids" "ids \<noteq> []" "set ids = below (cocoons s) i"
    using delete_cocoon_subtree_of [OF wf a] e by auto
  have f: "cocoon_forest s1" by (rule forest_frame [OF frame_access [OF a] wf])
  have c: "cocoons s1 = cocoons s" using access_state(1) [OF a] frame_with_root [of s]
    by (auto simp: with_root_def intro: ensure_root_group_cases [of s])
  have t: "cocoons s' = row_del_where (\<lambda>c. c_id c \<in> set ids) (cocoons s1)" "id_supply s' = id_supply s1" "id_next s' = id_next s1"
    using ids(2) by (simp_all add: ids(1) delete_subtree_wipe wipe_keeps without_owned_def)
  have l: "child_link (cocoons s') = child_link (cocoons s1) - {(x, y). x \<in> set ids}"
    unfolding t(1) by (rule child_link_remaining)
  have "y \<in> row_ids c_id (cocoons s')" if "(x, y) \<in> child_link (cocoons s')" for x y
  proof -
    have xy: "(x, y) \<in> child_link (cocoons s1)" "x \<notin> set ids" using that l by auto
    have "y \<notin> set ids" using xy ids(3) c by (auto simp: below_def intro: converse_rtrancl_into_rtrancl)
    moreover have "y \<in> row_ids c_id (cocoons s1)" using f xy(1) by (auto simp: cocoon_forest_def)
    ultimately show ?thesis by (auto simp: t(1) row_ids_def)
  qed
  moreover have "acyclic (child_link (cocoons s'))" using f l by (auto simp: cocoon_forest_def intro: acyclic_subset)
  moreover have "supply_fresh s' (row_ids c_id (cocoons s'))"
    using f t by (auto simp: cocoon_forest_def supply_fresh_def row_ids_def)
  moreover have "distinct (map c_id (cocoons s'))" using f by (simp add: t(1) cocoon_forest_def)
  ultimately show ?thesis by (simp add: cocoon_forest_def)
qed

lemma forest_request: "cocoon_request admin s s' \<Longrightarrow> cocoon_forest s \<Longrightarrow> cocoon_forest s'"
  by (induction rule: cocoon_request.induct) (blast intro: forest_create forest_update forest_delete forest_frame)+

section \<open>The tree of the own cocoons\<close>

definition own_cocoons :: "session \<Rightarrow> user_row \<Rightarrow> cocoon_row list" where
  "own_cocoons s u = filter (\<lambda>c. c_owner_user_id c = u_id u) (cocoons s)"

lemma build_own_tree:
  assumes "cocoon_forest s"
  shows "\<exists>ts. fst (cocoon_tree admin s u) = Some ts \<and> map tree_head ts = map row_head (children_of_cocoon (own_cocoons s u) None) \<and>
    (\<forall>t\<in>set ts. tree_ok (own_cocoons s u) t) \<and> distinct (branch_ids ts) \<and>
    set (branch_ids ts) = (\<Union>c\<in>set (children_of_cocoon (own_cocoons s u) None). below (own_cocoons s u) (c_id c))"
proof -
  have "child_link (own_cocoons s u) \<subseteq> child_link (cocoons s)" by (auto simp: child_link_iff own_cocoons_def)
  then have "acyclic (child_link (own_cocoons s u))" using assms by (auto simp: cocoon_forest_def intro: acyclic_subset)
  moreover have "distinct (map c_id (own_cocoons s u))" using assms by (simp add: cocoon_forest_def own_cocoons_def distinct_map_filter)
  ultimately have "branch_ok (own_cocoons s u) (children_of_cocoon (own_cocoons s u) None)
      (\<Union>c\<in>set (children_of_cocoon (own_cocoons s u) None). below (own_cocoons s u) (c_id c)) (build_tree (own_cocoons s u) None)"
    using build_roots by blast
  then show ?thesis by (auto simp: branch_ok_def cocoon_tree_def filter_visible_cocoons_def own_cocoons_def)
qed

section \<open>Properties\<close>



text \<open>
  The tree of a user's cocoons is built from the own root cocoons; under each cocoon stand its own children in
  the order of the table; every cocoon appears at most once, and those are exactly the own cocoons whose chain
  of parents is own up to a root: an own cocoon under a parent of another user is not shown.
\<close>

theorem cocoon_tree_correct:
  assumes "cocoon_forest s"
  shows "\<exists>ts. fst (cocoon_tree admin s u) = Some ts \<and>
    map tree_head ts = map row_head (filter (\<lambda>c. c_parent_id c = None \<and> c_owner_user_id c = u_id u) (cocoons s)) \<and>
    (\<forall>t\<in>set ts. tree_ok (own_cocoons s u) t) \<and> distinct (branch_ids ts) \<and>
    set (branch_ids ts) = {x. \<exists>c\<in>set (own_cocoons s u). c_parent_id c = None \<and> (x, c_id c) \<in> (child_link (own_cocoons s u))\<^sup>*} \<and>
    (\<forall>c\<in>set (own_cocoons s u). \<forall>p. c_parent_id c = Some p \<and> p \<notin> row_ids c_id (own_cocoons s u) \<longrightarrow> c_id c \<notin> set (branch_ids ts))"
proof -
  obtain ts where ts: "fst (cocoon_tree admin s u) = Some ts" "map tree_head ts = map row_head (children_of_cocoon (own_cocoons s u) None)"
    "\<forall>t\<in>set ts. tree_ok (own_cocoons s u) t" "distinct (branch_ids ts)"
    "set (branch_ids ts) = (\<Union>c\<in>set (children_of_cocoon (own_cocoons s u) None). below (own_cocoons s u) (c_id c))"
    using build_own_tree [OF assms, of admin u] by blast
  have "distinct (map c_id (own_cocoons s u))" using assms by (simp add: cocoon_forest_def own_cocoons_def distinct_map_filter)
  then have "c_id c \<notin> set (branch_ids ts)"
    if "c \<in> set (own_cocoons s u)" "c_parent_id c = Some p" "p \<notin> row_ids c_id (own_cocoons s u)" for c p
    using foreign_parent_unreached [OF _ that] by (auto simp: ts(5) children_of_cocoon_def)
  moreover have "set (branch_ids ts) = {x. \<exists>c\<in>set (own_cocoons s u). c_parent_id c = None \<and> (x, c_id c) \<in> (child_link (own_cocoons s u))\<^sup>*}"
    by (auto simp: ts(5) children_of_cocoon_def below_def)
  moreover have "children_of_cocoon (own_cocoons s u) None = filter (\<lambda>c. c_parent_id c = None \<and> c_owner_user_id c = u_id u) (cocoons s)"
    by (simp add: children_of_cocoon_def own_cocoons_def conj_commute)
  ultimately show ?thesis using ts(1-4) by auto
qed

text \<open>Two users share a tree: the child belongs to the second one.\<close>

definition shared_tree :: session where
  "shared_tree = sample_cocoons\<lparr>users := [sample_user ''u1'' ''ann'' None, sample_user ''u2'' ''bob'' None],
     cocoons := [sample_cocoon ''a'' None ''u1'', sample_cocoon ''b'' (Some ''a'') ''u2'']\<rparr>"

lemma shared_tree_links: "child_link (cocoons shared_tree) = {(''b'', ''a'')}"
  by (auto simp: child_link_iff shared_tree_def sample_cocoon_def)

lemma shared_tree_ok: "cocoon_forest shared_tree" "row_keys shared_tree"
proof -
  have "supply_fresh shared_tree (row_ids c_id (cocoons shared_tree))"
    by (auto simp: supply_fresh_def shared_tree_def sample_cocoons_def sample_tags_def empty_session_def row_ids_def
        sample_cocoon_def id_literal_inj id_literal_def)
  moreover have "acyclic (child_link (cocoons shared_tree))"
    unfolding shared_tree_links by (simp add: acyclic_insert)
  moreover have "\<forall>x y. (x, y) \<in> child_link (cocoons shared_tree) \<longrightarrow> y \<in> row_ids c_id (cocoons shared_tree)"
    unfolding shared_tree_links by (auto simp: row_ids_def shared_tree_def sample_cocoon_def)
  moreover have "distinct (map c_id (cocoons shared_tree))" by (simp add: shared_tree_def sample_cocoon_def)
  ultimately show "cocoon_forest shared_tree" by (simp add: cocoon_forest_def)
  show "row_keys shared_tree" by (simp add: row_keys_def shared_tree_def sample_cocoons_def sample_tags_def empty_session_def)
qed

lemma shared_tree_below: "below (cocoons shared_tree) ''a'' = {''a'', ''b''}"
  unfolding below_def shared_tree_links by (auto elim: converse_rtranclE)



theorem cocoon_tree_correct_witness:
  "\<exists>ts. fst (cocoon_tree ''admin'' shared_tree (sample_user ''u2'' ''bob'' None)) = Some ts \<and> ''b'' \<notin> set (branch_ids ts)"
proof -
  have b: "sample_cocoon ''b'' (Some ''a'') ''u2'' \<in> set (own_cocoons shared_tree (sample_user ''u2'' ''bob'' None))"
    "''a'' \<notin> row_ids c_id (own_cocoons shared_tree (sample_user ''u2'' ''bob'' None))"
    by (simp_all add: own_cocoons_def shared_tree_def sample_cocoon_def sample_user_def row_ids_def)
  obtain ts where ts: "fst (cocoon_tree ''admin'' shared_tree (sample_user ''u2'' ''bob'' None)) = Some ts"
    "\<And>c p. c \<in> set (own_cocoons shared_tree (sample_user ''u2'' ''bob'' None)) \<Longrightarrow> c_parent_id c = Some p \<Longrightarrow>
       p \<notin> row_ids c_id (own_cocoons shared_tree (sample_user ''u2'' ''bob'' None)) \<Longrightarrow> c_id c \<notin> set (branch_ids ts)"
    using cocoon_tree_correct [OF shared_tree_ok(1), of "''admin''" "sample_user ''u2'' ''bob'' None"] by blast
  have "c_id (sample_cocoon ''b'' (Some ''a'') ''u2'') \<notin> set (branch_ids ts)"
    by (rule ts(2) [OF b(1) _ b(2)]) (simp add: sample_cocoon_def)
  then show ?thesis using ts(1) by (simp add: sample_cocoon_def)
qed

end
