(* ===== verification/Characters.thy ===== *)
theory Characters
  imports Authorization SystemSettings
begin

text \<open>
  Characters and their access lists (\<open>services/catalog/character_service.py\<close>, \<open>api/routes/catalog/characters.py\<close>).
\<close>

section \<open>Characters\<close>

record character_create =
  kc_name :: string
  kc_prompt_summary :: string
  kc_settings :: dict

record character_update =
  ku_name :: "string option"
  ku_prompt_summary :: "string option"
  ku_settings :: "dict option"

record character_acl_create =
  ka_subject_type :: string
  ka_subject_id :: string
  ka_can_read :: bool
  ka_can_use :: bool

definition list_characters :: "session \<Rightarrow> character_row list" where
  "list_characters s = sort_key ch_created_at (characters s)"

text \<open>The text of a value that is no string is never \<open>public\<close>.\<close>

definition visibility_of :: "dict \<Rightarrow> string" where
  "visibility_of settings =
     (case dict_get ''visibility'' settings of
        Some (JStr v) \<Rightarrow> py_lower (py_strip (or_else (Some v) ''private''))
      | _ \<Rightarrow> ''private'')"

definition public_acl_of :: "id \<Rightarrow> character_acl_row \<Rightarrow> bool" where
  "public_acl_of character_id acl \<longleftrightarrow> ca_character_id acl = character_id \<and> ca_subject_type acl = ''AUTHENTICATED_ALL''"

definition sync_public_visibility_acl :: "session \<Rightarrow> character_row \<Rightarrow> session" where
  "sync_public_visibility_acl s c =
     (case List.find (public_acl_of (ch_id c)) (character_acls s) of
        Some acl \<Rightarrow>
          if visibility_of (ch_settings c) = ''public''
          then s\<lparr>character_acls := row_put ca_id (ca_id acl) (\<lambda>a. a\<lparr>ca_can_read := True, ca_can_use := False\<rparr>) (character_acls s)\<rparr>
          else s\<lparr>character_acls := row_del ca_id (ca_id acl) (character_acls s)\<rparr>
      | None \<Rightarrow>
          if visibility_of (ch_settings c) = ''public''
          then (take_id s)\<lparr>character_acls := row_add \<lparr>ca_id = new_id s, ca_character_id = ch_id c, ca_subject_type = ''AUTHENTICATED_ALL'',
                 ca_subject_id = ''*'', ca_can_read = True, ca_can_use = False, ca_created_at = clock s\<rparr> (character_acls s)\<rparr>
          else s)"

definition create_character :: "session \<Rightarrow> character_create \<Rightarrow> user_row \<Rightarrow> character_row \<times> session" where
  "create_character s p u =
     (let c = \<lparr>ch_id = new_id s, ch_name = kc_name p, ch_prompt_summary = kc_prompt_summary p, ch_settings = kc_settings p,
               ch_created_by = Some (u_id u), ch_created_at = clock s\<rparr>
      in (c, sync_public_visibility_acl ((take_id s)\<lparr>characters := row_add c (characters s)\<rparr>) c))"

definition set_character_fields :: "character_update \<Rightarrow> character_row \<Rightarrow> character_row" where
  "set_character_fields p c =
     c\<lparr>ch_name := keep_or (ku_name p) (ch_name c), ch_prompt_summary := keep_or (ku_prompt_summary p) (ch_prompt_summary c),
       ch_settings := keep_or (ku_settings p) (ch_settings c)\<rparr>"

definition update_character :: "session \<Rightarrow> id \<Rightarrow> character_update \<Rightarrow> (character_row \<times> session) result" where
  "update_character s character_id p =
     (case get_character s character_id of
        None \<Rightarrow> Inl (HTTPException 404 ''Character not found'')
      | Some c \<Rightarrow>
          let c' = set_character_fields p c
          in Inr (c', sync_public_visibility_acl
               (s\<lparr>characters := row_put ch_id character_id (set_character_fields p) (characters s)\<rparr>) c'))"

definition list_acl :: "session \<Rightarrow> id \<Rightarrow> character_acl_row list" where
  "list_acl s character_id = sort_key ca_created_at (filter (\<lambda>a. ca_character_id a = character_id) (character_acls s))"

definition create_acl :: "session \<Rightarrow> id \<Rightarrow> character_acl_create \<Rightarrow> (character_acl_row \<times> session) result" where
  "create_acl s character_id p =
     (case get_character s character_id of
        None \<Rightarrow> Inl (HTTPException 404 ''Character not found'')
      | Some c \<Rightarrow>
          let acl = \<lparr>ca_id = new_id s, ca_character_id = character_id, ca_subject_type = py_upper (py_strip (ka_subject_type p)),
                     ca_subject_id = ka_subject_id p, ca_can_read = ka_can_read p, ca_can_use = ka_can_use p, ca_created_at = clock s\<rparr>
          in Inr (acl, (take_id s)\<lparr>character_acls := row_add acl (character_acls s)\<rparr>))"

definition delete_character :: "session \<Rightarrow> id \<Rightarrow> (character_row \<times> session) result" where
  "delete_character s character_id =
     (case get_character s character_id of
        None \<Rightarrow> Inl (HTTPException 404 ''Character not found'')
      | Some c \<Rightarrow>
          if truthy (map_option c_id (List.find (\<lambda>x. c_character_id x = character_id) (cocoons s)))
          then Inl (HTTPException 409 ''Character is still used by an existing cocoon'')
          else Inr (c, s\<lparr>character_acls := row_del_where (\<lambda>a. ca_character_id a = character_id) (character_acls s),
                         characters := row_del ch_id character_id (characters s)\<rparr>))"

definition delete_acl :: "session \<Rightarrow> id \<Rightarrow> id \<Rightarrow> (character_acl_row \<times> session) result" where
  "delete_acl s character_id acl_id =
     (case row_get ca_id acl_id (character_acls s) of
        None \<Rightarrow> Inl (HTTPException 404 ''Character ACL not found'')
      | Some acl \<Rightarrow>
          if ca_character_id acl \<noteq> character_id then Inl (HTTPException 404 ''Character ACL not found'')
          else Inr (acl, s\<lparr>character_acls := row_del ca_id acl_id (character_acls s)\<rparr>))"

subsection \<open>Routes, after the permission check\<close>

definition list_characters_route :: "string \<Rightarrow> session \<Rightarrow> user_row \<Rightarrow> string \<Rightarrow> character_row list \<times> session" where
  "list_characters_route admin s u scope = filter_visible_characters admin s u (list_characters s) scope"

definition update_character_route ::
  "string \<Rightarrow> session \<Rightarrow> user_row \<Rightarrow> id \<Rightarrow> character_update \<Rightarrow> (character_row \<times> session) result" where
  "update_character_route admin s u character_id p =
     bind_r (require_character_manage admin s u character_id) (\<lambda>(_, s1). update_character s1 character_id p)"

definition delete_character_route :: "string \<Rightarrow> session \<Rightarrow> user_row \<Rightarrow> id \<Rightarrow> (character_row \<times> session) result" where
  "delete_character_route admin s u character_id =
     bind_r (require_character_manage admin s u character_id) (\<lambda>(_, s1). delete_character s1 character_id)"

definition list_character_acl :: "string \<Rightarrow> session \<Rightarrow> user_row \<Rightarrow> id \<Rightarrow> (character_acl_row list \<times> session) result" where
  "list_character_acl admin s u character_id =
     bind_r (require_character_read admin s u character_id True True) (\<lambda>(_, s1). Inr (list_acl s1 character_id, s1))"

definition create_character_acl ::
  "string \<Rightarrow> session \<Rightarrow> user_row \<Rightarrow> id \<Rightarrow> character_acl_create \<Rightarrow> (character_acl_row \<times> session) result" where
  "create_character_acl admin s u character_id p =
     bind_r (require_character_manage admin s u character_id) (\<lambda>(_, s1). create_acl s1 character_id p)"

definition delete_character_acl :: "string \<Rightarrow> session \<Rightarrow> user_row \<Rightarrow> id \<Rightarrow> id \<Rightarrow> (character_acl_row \<times> session) result" where
  "delete_character_acl admin s u character_id acl_id =
     bind_r (require_character_manage admin s u character_id) (\<lambda>(_, s1). delete_acl s1 character_id acl_id)"

section \<open>Who can read and use a character\<close>

lemma sync_acls:
  fixes s c
  defines "acls \<equiv> character_acls s" and "acls' \<equiv> character_acls (sync_public_visibility_acl s c)"
  assumes d: "distinct (map ca_id acls)"
  shows "\<forall>a\<in>set acls'. a \<in> set acls \<or> ca_character_id a = ch_id c \<and> visibility_of (ch_settings c) = ''public'' \<and> \<not> ca_can_use a"
    "\<forall>a\<in>set acls. ca_character_id a \<noteq> ch_id c \<longrightarrow> a \<in> set acls'"
    "visibility_of (ch_settings c) = ''public'' \<longrightarrow>
       (\<exists>a\<in>set acls'. ca_character_id a = ch_id c \<and> ca_subject_type a = ''AUTHENTICATED_ALL'' \<and> ca_can_read a)"
proof -
  have "(\<forall>a\<in>set acls'. a \<in> set acls \<or> ca_character_id a = ch_id c \<and> visibility_of (ch_settings c) = ''public'' \<and> \<not> ca_can_use a) \<and>
    (\<forall>a\<in>set acls. ca_character_id a \<noteq> ch_id c \<longrightarrow> a \<in> set acls') \<and>
    (visibility_of (ch_settings c) = ''public'' \<longrightarrow>
       (\<exists>a\<in>set acls'. ca_character_id a = ch_id c \<and> ca_subject_type a = ''AUTHENTICATED_ALL'' \<and> ca_can_read a))"
  proof (cases "List.find (public_acl_of (ch_id c)) (character_acls s)")
    case None
    then show ?thesis by (auto simp: acls_def acls'_def sync_public_visibility_acl_def take_id_def)
  next
    case (Some x)
    then have x: "x \<in> set acls" "ca_character_id x = ch_id c" "ca_subject_type x = ''AUTHENTICATED_ALL''"
      using find_SomeD [OF Some] by (auto simp: acls_def public_acl_of_def)
    have same: "a = x" if "a \<in> set acls" "ca_id a = ca_id x" for a using distinct_key_eq [OF d that(1) x(1) that(2)] .
    show ?thesis
    proof (cases "visibility_of (ch_settings c) = ''public''")
      case True
      then have "set acls' = insert (x\<lparr>ca_can_read := True, ca_can_use := False\<rparr>) (set acls - {x})"
        using Some set_put_distinct [OF d x(1)] by (simp add: acls'_def acls_def sync_public_visibility_acl_def)
      then show ?thesis using True x by auto
    next
      case False
      then have "set acls' = {a \<in> set acls. ca_id a \<noteq> ca_id x}"
        using Some by (simp add: acls'_def acls_def sync_public_visibility_acl_def)
      also have "\<dots> = set acls - {x}" using same by auto
      finally show ?thesis using False x by auto
    qed
  qed
  then show "\<forall>a\<in>set acls'. a \<in> set acls \<or> ca_character_id a = ch_id c \<and> visibility_of (ch_settings c) = ''public'' \<and> \<not> ca_can_use a"
    "\<forall>a\<in>set acls. ca_character_id a \<noteq> ch_id c \<longrightarrow> a \<in> set acls'"
    "visibility_of (ch_settings c) = ''public'' \<longrightarrow>
       (\<exists>a\<in>set acls'. ca_character_id a = ch_id c \<and> ca_subject_type a = ''AUTHENTICATED_ALL'' \<and> ca_can_read a)"
    by simp_all
qed

lemma acl_matches_frame:
  assumes "roles s' = roles s" "groups s' = groups s" "group_members s' = group_members s"
  shows "character_acl_matches s' u acl inh = character_acl_matches s u acl inh" "is_admin admin s' u = is_admin admin s u"
  using assms by (simp_all add: character_acl_matches_def is_admin_def group_ids_for_user_def primary_group_ancestor_ids_def list_ancestor_group_ids_def)

text \<open>
  Saving a character as public makes it readable for every user; saving it with another visibility never
  widens who reads it; no save widens who uses it; and the access to other characters stays as it was.
\<close>

theorem character_visibility_effect:
  assumes d: "distinct (map ca_id (character_acls s))" and u: "update_character s i p = Inr (c, s')"
  shows "(visibility_of (ch_settings c) = ''public'' \<longrightarrow> (\<forall>u inh. can_read_character admin s' u c inh)) \<and>
    (visibility_of (ch_settings c) \<noteq> ''public'' \<longrightarrow>
       (\<forall>u inh. can_read_character admin s' u c inh \<longrightarrow> can_read_character admin s u c inh)) \<and>
    (\<forall>u. can_use_character admin s' u c \<longrightarrow> can_use_character admin s u c) \<and>
    (\<forall>e u inh. ch_id e \<noteq> i \<longrightarrow> can_read_character admin s' u e inh = can_read_character admin s u e inh \<and>
       can_use_character admin s' u e = can_use_character admin s u e)"
proof -
  obtain c0 where c0: "get_character s i = Some c0" "c = set_character_fields p c0"
    "s' = sync_public_visibility_acl (s\<lparr>characters := row_put ch_id i (set_character_fields p) (characters s)\<rparr>) c"
    using u by (auto simp: update_character_def Let_def split: option.splits)
  have i: "ch_id c = i" using row_get_SomeD [of ch_id i "characters s" c0] c0(1,2) by (simp add: get_character_def set_character_fields_def)
  define s1 where "s1 = s\<lparr>characters := row_put ch_id i (set_character_fields p) (characters s)\<rparr>"
  have acls: "character_acls s1 = character_acls s" by (simp add: s1_def)
  have s': "s' = sync_public_visibility_acl s1 c" using c0(3) by (simp add: s1_def)
  have "roles s' = roles s" "groups s' = groups s" "group_members s' = group_members s"
    by (simp_all add: s' sync_public_visibility_acl_def s1_def take_id_def split: option.split)
  note same = acl_matches_frame [OF this]
  note rows = sync_acls [of s1 c, unfolded acls, OF d, folded s', unfolded i]
  have all: "character_acl_matches s u a inh" if "ca_subject_type a = ''AUTHENTICATED_ALL''" for u a inh
  proof -
    have "normalize_subject_type (Some ''AUTHENTICATED_ALL'') = ''AUTHENTICATED_ALL''" by code_simp
    then show ?thesis using that by (simp add: character_acl_matches_def Let_def)
  qed
  have "can_read_character admin s' u c inh" if "visibility_of (ch_settings c) = ''public''" for u inh
    using rows(3) that all by (auto simp: can_read_character_def iter_character_acl_def list_ex_iff same i)
  moreover have "can_read_character admin s u c inh"
    if "visibility_of (ch_settings c) \<noteq> ''public''" "can_read_character admin s' u c inh" for u inh
    using rows(1) that by (auto simp: can_read_character_def iter_character_acl_def list_ex_iff same i split: if_splits)
  moreover have "can_use_character admin s u c" if "can_use_character admin s' u c" for u
    using rows(1) that by (auto simp: can_use_character_def iter_character_acl_def list_ex_iff same i split: if_splits)
  moreover have "set (iter_character_acl s' j) = set (iter_character_acl s j)" if "j \<noteq> i" for j
    using rows(1,2) that by (auto simp: iter_character_acl_def)
  then have "can_read_character admin s' u e inh = can_read_character admin s u e inh \<and>
       can_use_character admin s' u e = can_use_character admin s u e" if "ch_id e \<noteq> i" for e u inh
    using that by (simp add: can_read_character_def can_use_character_def same list_ex_iff)
  ultimately show ?thesis by blast
qed

definition sample_characters :: session where
  "sample_characters = (empty_session 0)\<lparr>characters :=
     [\<lparr>ch_id = ''c'', ch_name = ''Ada'', ch_prompt_summary = [], ch_settings = [], ch_created_by = Some ''u1'', ch_created_at = 0\<rparr>]\<rparr>"

definition publish_update :: character_update where
  "publish_update = \<lparr>ku_name = None, ku_prompt_summary = None, ku_settings = Some [(''visibility'', JStr '' Public '')]\<rparr>"

theorem character_visibility_effect_witness:
  "\<exists>c s'. update_character sample_characters ''c'' publish_update = Inr (c, s') \<and> (\<forall>u. can_read_character ''admin'' s' u c False)"
proof -
  obtain c s' where u: "update_character sample_characters ''c'' publish_update = Inr (c, s')" "ch_settings c = [(''visibility'', JStr '' Public '')]"
    by (auto simp: update_character_def get_character_def row_get_def sample_characters_def publish_update_def set_character_fields_def Let_def keep_or_def)
  have "visibility_of (ch_settings c) = ''public''" unfolding u(2) by code_simp
  moreover have "distinct (map ca_id (character_acls sample_characters))" by (simp add: sample_characters_def empty_session_def)
  ultimately show ?thesis using character_visibility_effect [OF _ u(1), where admin = "''admin''"] u(1) by blast
qed

end
