(* ===== verification/Providers.thy ===== *)
theory Providers
  imports Rooms Characters
begin

text \<open>
  Model providers with their credentials and models (\<open>provider_service.py\<close>, \<open>provider_credential_service.py\<close>,
  \<open>model_catalog_service.py\<close>), embedding providers (\<open>embedding_provider_service.py\<close>), and how a chat call finds its
  model and configuration (\<open>services/providers\<close>). The symmetric cipher (Fernet), the list of models of a remote provider
  and the calls of a chat provider are arguments.
\<close>

section \<open>Secrets\<close>

text \<open>
  Fernet draws an initialisation vector and takes the time, so the ciphertext depends on the state; decrypting
  a text that is no token of the key raises. \<open>cipher_ok\<close> is what its documentation promises.
\<close>

record cipher =
  ci_encrypt :: "session \<Rightarrow> string \<Rightarrow> string"
  ci_decrypt :: "string \<Rightarrow> string result"

definition cipher_ok :: "cipher \<Rightarrow> bool" where
  "cipher_ok ci \<longleftrightarrow> (\<forall>s plain. ci_decrypt ci (ci_encrypt ci s plain) = Inr plain)"

definition mask_secret :: "string \<Rightarrow> string" where
  "mask_secret secret =
     (if length secret \<le> 8 then replicate (length secret) CHR ''*''
      else take 4 secret @ replicate (length secret - 8) CHR ''*'' @ drop (length secret - 4) secret)"

section \<open>Model providers\<close>

record provider_payload =
  pp_name :: string
  pp_kind :: string
  pp_base_url :: "string option"
  pp_capabilities :: dict

definition list_providers :: "session \<Rightarrow> model_provider_row list" where
  "list_providers s = sort_key mp_created_at (model_providers s)"

definition create_provider :: "session \<Rightarrow> provider_payload \<Rightarrow> (model_provider_row \<times> session) result" where
  "create_provider s p =
     (let r = \<lparr>mp_id = new_id s, mp_name = pp_name p, mp_kind = pp_kind p, mp_base_url = pp_base_url p, mp_is_enabled = True,
               mp_capabilities = pp_capabilities p, mp_created_at = clock s\<rparr>
      in if list_ex (\<lambda>x. mp_name x = pp_name p) (model_providers s) then Inl (IntegrityError ''model_providers.name'')
         else Inr (r, (take_id s)\<lparr>model_providers := row_add r (model_providers s)\<rparr>))"

definition set_provider_fields :: "provider_payload \<Rightarrow> model_provider_row \<Rightarrow> model_provider_row" where
  "set_provider_fields p r =
     r\<lparr>mp_name := pp_name p, mp_kind := pp_kind p, mp_base_url := pp_base_url p, mp_capabilities := pp_capabilities p\<rparr>"

definition update_provider :: "session \<Rightarrow> id \<Rightarrow> provider_payload \<Rightarrow> (model_provider_row \<times> session) result" where
  "update_provider s provider_id p =
     (case row_get mp_id provider_id (model_providers s) of
        None \<Rightarrow> Inl (HTTPException 404 ''Provider not found'')
      | Some r \<Rightarrow>
          if list_ex (\<lambda>x. mp_id x \<noteq> provider_id \<and> mp_name x = pp_name p) (model_providers s)
          then Inl (IntegrityError ''model_providers.name'')
          else Inr (set_provider_fields p r,
                    s\<lparr>model_providers := row_put mp_id provider_id (set_provider_fields p) (model_providers s)\<rparr>))"

definition model_ids_of :: "session \<Rightarrow> id \<Rightarrow> id list" where
  "model_ids_of s provider_id = map am_id (filter (\<lambda>m. am_provider_id m = provider_id) (available_models s))"

definition models_in_use :: "session \<Rightarrow> id list \<Rightarrow> bool" where
  "models_in_use s model_ids =
     truthy (map_option c_id (List.find (\<lambda>c. c_selected_model_id c \<in> set model_ids \<or> in_list (c_summary_model_id c) model_ids) (cocoons s)))"

definition delete_provider :: "session \<Rightarrow> id \<Rightarrow> (model_provider_row \<times> session) result" where
  "delete_provider s provider_id =
     (case row_get mp_id provider_id (model_providers s) of
        None \<Rightarrow> Inl (HTTPException 404 ''Provider not found'')
      | Some r \<Rightarrow>
          let model_ids = model_ids_of s provider_id
          in if model_ids \<noteq> [] \<and> models_in_use s model_ids
             then Inl (HTTPException 409 ''Provider is still referenced by existing cocoons'')
             else if truthy (map_option ep_id (List.find (\<lambda>e. ep_provider_id e = Some provider_id) (embedding_providers s)))
             then Inl (HTTPException 409 ''Provider is still referenced by an embedding provider'')
             else Inr (r, s\<lparr>provider_credentials := row_del_where (\<lambda>x. pc_provider_id x = provider_id) (provider_credentials s),
                            available_models := row_del_where (\<lambda>m. am_provider_id m = provider_id) (available_models s),
                            model_providers := row_del mp_id provider_id (model_providers s)\<rparr>))"

definition find_credential :: "session \<Rightarrow> id \<Rightarrow> provider_credential_row option" where
  "find_credential s provider_id = List.find (\<lambda>x. pc_provider_id x = provider_id) (provider_credentials s)"

record credential_out =
  co_provider_id :: id
  co_metadata :: dict
  co_masked_secret :: string

definition credential_view :: "provider_credential_row \<Rightarrow> string \<Rightarrow> credential_out" where
  "credential_view r secret = \<lparr>co_provider_id = pc_provider_id r, co_metadata = pc_metadata r, co_masked_secret = mask_secret secret\<rparr>"

definition set_credential :: "cipher \<Rightarrow> session \<Rightarrow> id \<Rightarrow> string \<Rightarrow> dict \<Rightarrow> (credential_out \<times> session) result" where
  "set_credential ci s provider_id secret metadata =
     (case row_get mp_id provider_id (model_providers s) of
        None \<Rightarrow> Inl (HTTPException 404 ''Provider not found'')
      | Some _ \<Rightarrow>
          case find_credential s provider_id of
            None \<Rightarrow>
              let r = \<lparr>pc_id = new_id s, pc_provider_id = provider_id, pc_secret_encrypted = ci_encrypt ci s secret, pc_metadata = metadata\<rparr>
              in Inr (credential_view r secret, (take_id s)\<lparr>provider_credentials := row_add r (provider_credentials s)\<rparr>)
          | Some r \<Rightarrow>
              let f = (\<lambda>r. r\<lparr>pc_secret_encrypted := ci_encrypt ci s secret, pc_metadata := metadata\<rparr>)
              in Inr (credential_view (f r) secret,
                      s\<lparr>provider_credentials := row_put pc_id (pc_id r) f (provider_credentials s)\<rparr>))"

definition get_credential :: "cipher \<Rightarrow> session \<Rightarrow> id \<Rightarrow> credential_out result" where
  "get_credential ci s provider_id =
     (case find_credential s provider_id of
        None \<Rightarrow> Inl (HTTPException 404 ''Provider credential not found'')
      | Some r \<Rightarrow> bind_r (ci_decrypt ci (pc_secret_encrypted r)) (\<lambda>secret. Inr (credential_view r secret)))"

section \<open>Synchronising models\<close>

text \<open>
  The answer of \<open>GET /models\<close> of a provider at a base url with a secret: a transport failure, or the decoded body.
\<close>

type_synonym model_source = "string \<Rightarrow> string \<Rightarrow> string + json"

definition rstrip_slash :: "string \<Rightarrow> string" where
  "rstrip_slash url = rev (dropWhile (\<lambda>c. c = CHR ''/'') (rev url))"

definition model_names_in :: "json \<Rightarrow> string list result" where
  "model_names_in payload =
     (case payload of
        JObj d \<Rightarrow> (case dict_get ''data'' d of
           None \<Rightarrow> Inr []
         | Some (JList items) \<Rightarrow> Inr (List.map_filter (\<lambda>item. case item of
              JObj e \<Rightarrow> (case dict_get ''id'' e of Some (JStr i) \<Rightarrow> if i = [] then None else Some i | _ \<Rightarrow> None)
            | _ \<Rightarrow> None) items)
         | Some (JObj e) \<Rightarrow> Inr []
         | Some (JStr t) \<Rightarrow> Inr []
         | Some v \<Rightarrow> Inl (TypeError ''object is not iterable''))
      | _ \<Rightarrow> Inr [])"

definition list_remote_models :: "cipher \<Rightarrow> model_source \<Rightarrow> session \<Rightarrow> model_provider_row \<Rightarrow> string list result" where
  "list_remote_models ci src s p =
     (if mp_kind p \<noteq> ''openai_compatible''
      then Inl (HTTPException 400 (''Model sync is not supported for provider kind: '' @ mp_kind p))
      else if \<not> truthy (mp_base_url p) then Inl (HTTPException 400 ''Provider base_url is required'')
      else case find_credential s (mp_id p) of
        None \<Rightarrow> Inl (HTTPException 400 ''Provider credential not found'')
      | Some r \<Rightarrow>
          bind_r (ci_decrypt ci (pc_secret_encrypted r)) (\<lambda>secret.
          case src (rstrip_slash (str_of (mp_base_url p)) @ ''/models'') secret of
            Inl e \<Rightarrow> Inl (HTTPException 502 (''Failed to sync provider models: '' @ e))
          | Inr payload \<Rightarrow>
              bind_r (model_names_in payload) (\<lambda>names.
              if names = [] then Inl (HTTPException 502 ''Provider returned no models'')
              else Inr (sorted_list_of_set (set names)))))"

definition new_model :: "session \<Rightarrow> id \<Rightarrow> string \<Rightarrow> available_model_row" where
  "new_model s provider_id name =
     \<lparr>am_id = new_id s, am_provider_id = provider_id, am_model_name = name, am_model_kind = ''chat'', am_is_default = False,
      am_config = [], am_created_at = clock s\<rparr>"

fun add_missing_models :: "string list \<Rightarrow> session \<Rightarrow> id \<Rightarrow> string list \<Rightarrow> session" where
  "add_missing_models existing s provider_id [] = s"
| "add_missing_models existing s provider_id (n # ns) =
     (if n \<in> set existing then add_missing_models existing s provider_id ns
      else add_missing_models existing ((take_id s)\<lparr>available_models := row_add (new_model s provider_id n) (available_models s)\<rparr>)
             provider_id ns)"

definition models_of_provider :: "session \<Rightarrow> id \<Rightarrow> available_model_row list" where
  "models_of_provider s provider_id = filter (\<lambda>m. am_provider_id m = provider_id) (available_models s)"

definition sync_provider_models ::
  "cipher \<Rightarrow> model_source \<Rightarrow> session \<Rightarrow> id \<Rightarrow> (available_model_row list \<times> session) result" where
  "sync_provider_models ci src s provider_id =
     (case row_get mp_id provider_id (model_providers s) of
        None \<Rightarrow> Inl (HTTPException 404 ''Provider not found'')
      | Some p \<Rightarrow>
          bind_r (list_remote_models ci src s p) (\<lambda>names.
          let s1 = add_missing_models (map am_model_name (models_of_provider s provider_id)) s provider_id names
          in Inr (sort_key am_created_at (models_of_provider s1 provider_id), s1)))"

section \<open>The configuration of a chat call\<close>

definition resolve_chat_model :: "session \<Rightarrow> id \<Rightarrow> (available_model_row \<times> model_provider_row) result" where
  "resolve_chat_model s model_id =
     (case row_get am_id model_id (available_models s) of
        None \<Rightarrow> Inl (ValueError (''Unknown model: '' @ model_id))
      | Some m \<Rightarrow>
          case row_get mp_id (am_provider_id m) (model_providers s) of
            None \<Rightarrow> Inl (ValueError (''Unknown provider for model: '' @ model_id))
          | Some p \<Rightarrow> Inr (m, p))"

definition or_json :: "json option \<Rightarrow> json \<Rightarrow> json" where
  "or_json x y = (case x of Some v \<Rightarrow> if json_truthy v then v else y | None \<Rightarrow> y)"

definition build_chat_config :: "cipher \<Rightarrow> session \<Rightarrow> model_provider_row \<Rightarrow> available_model_row \<Rightarrow> dict result" where
  "build_chat_config ci s p m =
     (let way = or_json (dict_get ''structured_output_method'' (am_config m))
                  (or_json (dict_get ''structured_output_method'' (mp_capabilities p)) (JStr ''tool_calling''));
          config = dict_set ''base_url'' (json_opt_str (mp_base_url p)) (dict_set ''structured_output_method'' way (am_config m))
      in case find_credential s (mp_id p) of
           None \<Rightarrow> Inr config
         | Some r \<Rightarrow> bind_r (ci_decrypt ci (pc_secret_encrypted r)) (\<lambda>secret. Inr (dict_set ''api_key'' (JStr secret) config)))"

definition build_embedding_config :: "cipher \<Rightarrow> embedding_provider_row \<Rightarrow> dict result" where
  "build_embedding_config ci e =
     (if truthy (ep_secret_encrypted e)
      then bind_r (ci_decrypt ci (str_of (ep_secret_encrypted e))) (\<lambda>secret. Inr (dict_set ''api_key'' (JStr secret) (ep_config e)))
      else Inr (ep_config e))"

text \<open>The kinds of chat providers that the factory knows.\<close>

definition CHAT_PROVIDER_KINDS :: "string list" where
  "CHAT_PROVIDER_KINDS = [''mock'', ''openai_compatible'']"

definition chat_provider_kind :: "string \<Rightarrow> string result" where
  "chat_provider_kind kind =
     (if kind \<in> set CHAT_PROVIDER_KINDS then Inr kind else Inl (ValueError (''Unsupported chat provider kind: '' @ kind)))"

definition resolve_chat_provider ::
  "cipher \<Rightarrow> session \<Rightarrow> id \<Rightarrow> (string \<times> available_model_row \<times> model_provider_row \<times> dict) result" where
  "resolve_chat_provider ci s model_id =
     bind_r (resolve_chat_model s model_id) (\<lambda>(m, p).
     bind_r (build_chat_config ci s p m) (\<lambda>config.
     bind_r (chat_provider_kind (mp_kind p)) (\<lambda>kind. Inr (kind, m, p, config))))"

text \<open>A test call: kind, model name and configuration reach the provider.\<close>

definition test_provider ::
  "cipher \<Rightarrow> (string \<Rightarrow> string \<Rightarrow> string \<Rightarrow> dict \<Rightarrow> 'reply result) \<Rightarrow> session \<Rightarrow> id \<Rightarrow> id \<Rightarrow> string \<Rightarrow> 'reply result" where
  "test_provider ci call s provider_id model_id prompt =
     (case row_get mp_id provider_id (model_providers s) of
        None \<Rightarrow> Inl (HTTPException 404 ''Provider not found'')
      | Some p \<Rightarrow>
          case row_get am_id model_id (available_models s) of
            None \<Rightarrow> Inl (HTTPException 404 ''Model not found for provider'')
          | Some m \<Rightarrow>
              if am_provider_id m \<noteq> provider_id then Inl (HTTPException 404 ''Model not found for provider'')
              else bind_r (build_chat_config ci s p m) (\<lambda>config.
                   bind_r (chat_provider_kind (mp_kind p)) (\<lambda>kind. call kind prompt (am_model_name m) config)))"

section \<open>Models\<close>

record model_create =
  mo_provider_id :: id
  mo_model_name :: string
  mo_model_kind :: string
  mo_is_default :: bool
  mo_config :: dict

record model_update =
  mu_model_name :: "string option"
  mu_model_kind :: "string option"
  mu_is_default :: "bool option"
  mu_config :: "dict option"

definition list_models :: "session \<Rightarrow> available_model_row list" where
  "list_models s = sort_key am_created_at (available_models s)"

definition create_model :: "session \<Rightarrow> model_create \<Rightarrow> available_model_row \<times> session" where
  "create_model s p =
     (let m = \<lparr>am_id = new_id s, am_provider_id = mo_provider_id p, am_model_name = mo_model_name p, am_model_kind = mo_model_kind p,
               am_is_default = mo_is_default p, am_config = mo_config p, am_created_at = clock s\<rparr>
      in (m, (take_id s)\<lparr>available_models := row_add m (available_models s)\<rparr>))"

definition set_model_fields :: "model_update \<Rightarrow> available_model_row \<Rightarrow> available_model_row" where
  "set_model_fields p m =
     m\<lparr>am_model_name := keep_or (mu_model_name p) (am_model_name m), am_model_kind := keep_or (mu_model_kind p) (am_model_kind m),
       am_is_default := keep_or (mu_is_default p) (am_is_default m), am_config := keep_or (mu_config p) (am_config m)\<rparr>"

definition update_model :: "session \<Rightarrow> id \<Rightarrow> model_update \<Rightarrow> (available_model_row \<times> session) result" where
  "update_model s model_id p =
     (case row_get am_id model_id (available_models s) of
        None \<Rightarrow> Inl (HTTPException 404 ''Model not found'')
      | Some m \<Rightarrow> Inr (set_model_fields p m,
                      s\<lparr>available_models := row_put am_id model_id (set_model_fields p) (available_models s)\<rparr>))"

definition list_models_route :: "session \<Rightarrow> user_row \<Rightarrow> available_model_row list \<times> session" where
  "list_models_route s u = filter_visible_models s u (list_models s)"

section \<open>Embedding providers\<close>

record embedding_create =
  ec_name :: string
  ec_kind :: string
  ec_provider_id :: "id option"
  ec_model_name :: string
  ec_config :: dict
  ec_api_key :: "string option"
  ec_is_enabled :: bool

record embedding_update =
  eu_name :: "string option"
  eu_kind :: "string option"
  eu_provider_id :: "id option"
  eu_model_name :: "string option"
  eu_config :: "dict option"
  eu_api_key :: "string option"
  eu_is_enabled :: "bool option"

definition list_embedding_providers :: "session \<Rightarrow> embedding_provider_row list" where
  "list_embedding_providers s = sort_key ep_created_at (embedding_providers s)"

definition disable_other_active_providers :: "session \<Rightarrow> id \<Rightarrow> session" where
  "disable_other_active_providers s active_provider_id =
     s\<lparr>embedding_providers := map (\<lambda>e. if ep_is_enabled e \<and> ep_id e \<noteq> active_provider_id then e\<lparr>ep_is_enabled := False\<rparr> else e)
        (embedding_providers s)\<rparr>"

definition encrypted_key :: "cipher \<Rightarrow> session \<Rightarrow> string option \<Rightarrow> string option" where
  "encrypted_key ci s api_key = (if truthy api_key then Some (ci_encrypt ci s (str_of api_key)) else None)"

definition create_embedding_provider ::
  "cipher \<Rightarrow> session \<Rightarrow> embedding_create \<Rightarrow> (embedding_provider_row \<times> session) result" where
  "create_embedding_provider ci s p =
     (let e = \<lparr>ep_id = new_id s, ep_name = ec_name p, ep_kind = ec_kind p, ep_provider_id = ec_provider_id p,
               ep_model_name = ec_model_name p, ep_config = ec_config p, ep_secret_encrypted = encrypted_key ci s (ec_api_key p),
               ep_is_enabled = ec_is_enabled p, ep_created_at = clock s\<rparr>;
          s1 = (take_id s)\<lparr>embedding_providers := row_add e (embedding_providers s)\<rparr>
      in if list_ex (\<lambda>x. ep_name x = ec_name p) (embedding_providers s) then Inl (IntegrityError ''embedding_providers.name'')
         else Inr (e, if ep_is_enabled e then disable_other_active_providers s1 (ep_id e) else s1))"

definition set_embedding_fields :: "cipher \<Rightarrow> session \<Rightarrow> embedding_update \<Rightarrow> embedding_provider_row \<Rightarrow> embedding_provider_row" where
  "set_embedding_fields ci s p e =
     e\<lparr>ep_name := keep_or (eu_name p) (ep_name e), ep_kind := keep_or (eu_kind p) (ep_kind e),
       ep_provider_id := (case eu_provider_id p of None \<Rightarrow> ep_provider_id e | Some i \<Rightarrow> Some i),
       ep_model_name := keep_or (eu_model_name p) (ep_model_name e), ep_config := keep_or (eu_config p) (ep_config e),
       ep_secret_encrypted := (case eu_api_key p of None \<Rightarrow> ep_secret_encrypted e | Some k \<Rightarrow> encrypted_key ci s (Some k)),
       ep_is_enabled := keep_or (eu_is_enabled p) (ep_is_enabled e)\<rparr>"

definition update_embedding_provider ::
  "cipher \<Rightarrow> session \<Rightarrow> id \<Rightarrow> embedding_update \<Rightarrow> (embedding_provider_row \<times> session) result" where
  "update_embedding_provider ci s i p =
     (case row_get ep_id i (embedding_providers s) of
        None \<Rightarrow> Inl (HTTPException 404 ''Embedding provider not found'')
      | Some e \<Rightarrow>
          let e' = set_embedding_fields ci s p e;
              s1 = s\<lparr>embedding_providers := row_put ep_id i (set_embedding_fields ci s p) (embedding_providers s)\<rparr>
          in if list_ex (\<lambda>x. ep_id x \<noteq> i \<and> ep_name x = ep_name e') (embedding_providers s)
             then Inl (IntegrityError ''embedding_providers.name'')
             else Inr (e', if ep_is_enabled e' then disable_other_active_providers s1 i else s1))"

section \<open>At most one embedding provider is active\<close>

definition embedding_inv :: "session \<Rightarrow> bool" where
  "embedding_inv s \<longleftrightarrow>
     supply_fresh s (row_ids ep_id (embedding_providers s)) \<and> distinct (map ep_id (embedding_providers s)) \<and>
     length (filter ep_is_enabled (embedding_providers s)) \<le> 1"

inductive embedding_step :: "cipher \<Rightarrow> session \<Rightarrow> session \<Rightarrow> bool" for ci where
  create: "create_embedding_provider ci s p = Inr (e, s') \<Longrightarrow> embedding_step ci s s'"
| update: "update_embedding_provider ci s i q = Inr (e, s') \<Longrightarrow> embedding_step ci s s'"
| other: "embedding_providers s' = embedding_providers s \<Longrightarrow> id_supply s' = id_supply s \<Longrightarrow> id_next s \<le> id_next s' \<Longrightarrow>
    embedding_step ci s s'"

lemma only_key_short:
  assumes "distinct (map key xs)" "\<forall>x\<in>set xs. key x = i" shows "length xs \<le> 1"
  using assms by (cases xs rule: list.exhaust [case_product list.exhaust [of "tl xs"]]) auto

lemma disable_fields:
  "map ep_id (embedding_providers (disable_other_active_providers s i)) = map ep_id (embedding_providers s)"
  "id_supply (disable_other_active_providers s i) = id_supply s" "id_next (disable_other_active_providers s i) = id_next s"
  by (auto simp: disable_other_active_providers_def)

lemma disabled_one:
  assumes "distinct (map ep_id (embedding_providers s))"
  shows "length (filter ep_is_enabled (embedding_providers (disable_other_active_providers s i))) \<le> 1"
proof (rule only_key_short)
  have "distinct (map ep_id (embedding_providers (disable_other_active_providers s i)))" by (simp only: disable_fields assms)
  then show "distinct (map ep_id (filter ep_is_enabled (embedding_providers (disable_other_active_providers s i))))"
    by (rule distinct_map_filter)
  show "\<forall>x\<in>set (filter ep_is_enabled (embedding_providers (disable_other_active_providers s i))). ep_id x = i"
    by (auto simp: disable_other_active_providers_def split: if_splits)
qed

lemma row_ids_map: "row_ids key rows = set (map key rows)"
  by (simp add: row_ids_def)

lemma embedding_inv_disable:
  assumes "supply_fresh s (row_ids ep_id (embedding_providers s))" "distinct (map ep_id (embedding_providers s))"
  shows "embedding_inv (disable_other_active_providers s i)"
  using assms disabled_one [OF assms(2), of i]
  by (simp add: embedding_inv_def row_ids_map disable_fields supply_fresh_def del: set_map)

lemma filter_map_shorter:
  "(\<And>x. x \<in> set xs \<Longrightarrow> P (g x) \<Longrightarrow> P x) \<Longrightarrow> length (filter P (map g xs)) \<le> length (filter P xs)"
proof (induction xs)
  case (Cons x xs)
  then have "length (filter P (map g xs)) \<le> length (filter P xs)" by simp
  then show ?case using Cons.prems [of x] by simp
qed simp

lemma disabled_row_put:
  assumes "distinct (map ep_id rows)" "row_get ep_id i rows = Some r" "\<not> ep_is_enabled (f r)"
  shows "length (filter ep_is_enabled (row_put ep_id i f rows)) \<le> length (filter ep_is_enabled rows)"
proof -
  have "x = r" if "x \<in> set rows" "ep_id x = i" for x
    using distinct_key_eq [OF assms(1) that(1)] row_get_SomeD [OF assms(2)] that(2) by simp
  then have "ep_is_enabled x" if "x \<in> set rows" "ep_is_enabled (if ep_id x = i then f x else x)" for x
    using assms(3) that by (metis (full_types))
  then show ?thesis unfolding row_put_def by (rule filter_map_shorter)
qed

lemma embedding_step_inv:
  assumes "embedding_step ci s s'" "embedding_inv s" shows "embedding_inv s'"
  using assms
proof (induction rule: embedding_step.induct)
  case (create s p e s')
  let ?s1 = "(take_id s)\<lparr>embedding_providers := row_add e (embedding_providers s)\<rparr>"
  have s': "s' = (if ep_is_enabled e then disable_other_active_providers ?s1 (ep_id e) else ?s1)" "ep_id e = new_id s"
    using create(1) by (auto simp: create_embedding_provider_def Let_def split: if_splits)
  have f: "supply_fresh s (row_ids ep_id (embedding_providers s))" using create(2) by (simp add: embedding_inv_def)
  have 1: "supply_fresh ?s1 (row_ids ep_id (embedding_providers ?s1))"
    using supply_fresh_take_id [OF f] s'(2) by (simp add: supply_fresh_def)
  have 2: "distinct (map ep_id (embedding_providers ?s1))"
    using create(2) new_id_fresh [OF f] s'(2) by (simp add: embedding_inv_def distinct_row_add)
  show ?case
  proof (cases "ep_is_enabled e")
    case True
    then show ?thesis using embedding_inv_disable [OF 1 2] s'(1) by simp
  next
    case False
    then show ?thesis using 1 2 create(2) s'(1) by (simp add: embedding_inv_def row_add_def)
  qed
next
  case (update s i q e s')
  obtain e0 where e0: "row_get ep_id i (embedding_providers s) = Some e0" "e = set_embedding_fields ci s q e0"
    using update(1) by (auto simp: update_embedding_provider_def Let_def split: option.splits if_splits)
  let ?s1 = "s\<lparr>embedding_providers := row_put ep_id i (set_embedding_fields ci s q) (embedding_providers s)\<rparr>"
  have s': "s' = (if ep_is_enabled e then disable_other_active_providers ?s1 i else ?s1)"
    using update(1) e0 by (auto simp: update_embedding_provider_def Let_def split: option.splits if_splits)
  have keys: "map ep_id (embedding_providers ?s1) = map ep_id (embedding_providers s)"
    by (simp add: row_put_def set_embedding_fields_def)
  have 1: "supply_fresh ?s1 (row_ids ep_id (embedding_providers ?s1))"
    using update(2) keys by (simp add: embedding_inv_def supply_fresh_def row_ids_map del: set_map)
  have 2: "distinct (map ep_id (embedding_providers ?s1))" using update(2) keys by (simp add: embedding_inv_def)
  show ?case
  proof (cases "ep_is_enabled e")
    case True
    then show ?thesis using embedding_inv_disable [OF 1 2] s' by simp
  next
    case False
    have "length (filter ep_is_enabled (row_put ep_id i (set_embedding_fields ci s q) (embedding_providers s))) \<le>
        length (filter ep_is_enabled (embedding_providers s))"
      using disabled_row_put [OF _ e0(1)] update(2) False e0(2) by (simp add: embedding_inv_def)
    then show ?thesis using 1 2 update(2) False s' by (simp add: embedding_inv_def)
  qed
next
  case (other s' s)
  then show ?case by (auto simp: embedding_inv_def supply_fresh_def)
qed

text \<open>
  C36. However embedding providers are created and updated, at most one of them is enabled, so the lookup of the
  embedding provider never finds two and never raises for that reason.
\<close>

theorem one_active_embedding_provider:
  assumes "(embedding_step ci)\<^sup>*\<^sup>* s s'" "embedding_inv s"
  shows "length (filter ep_is_enabled (embedding_providers s')) \<le> 1 \<and>
    resolve_embedding_provider e s' \<noteq> Inl (ValueError ''Expected exactly one active embedding provider'')"
proof -
  have inv: "embedding_inv s'" using assms by (induction rule: rtranclp_induct) (simp_all add: embedding_step_inv)
  then have one: "length (filter ep_is_enabled (embedding_providers s')) \<le> 1" by (simp add: embedding_inv_def)
  then have "length (sort_key ep_created_at (filter ep_is_enabled (embedding_providers s'))) \<le> 1" by simp
  then have "resolve_embedding_provider e s' \<noteq> Inl (ValueError ''Expected exactly one active embedding provider'')"
    by (cases "sort_key ep_created_at (filter ep_is_enabled (embedding_providers s'))")
       (auto simp: resolve_embedding_provider_def split: list.split)
  with one show ?thesis by simp
qed

definition toy_cipher :: cipher where
  "toy_cipher = \<lparr>ci_encrypt = (\<lambda>s plain. CHR ''#'' # plain), ci_decrypt = (\<lambda>c. Inr (tl c))\<rparr>"

definition embedding_payload :: "string \<Rightarrow> embedding_create" where
  "embedding_payload name =
     \<lparr>ec_name = name, ec_kind = ''local_cpu'', ec_provider_id = None, ec_model_name = ''mini'', ec_config = [], ec_api_key = None,
      ec_is_enabled = True\<rparr>"

lemma empty_embedding_inv: "embedding_inv (empty_session 0)"
  by (simp add: embedding_inv_def supply_fresh_def empty_session_def id_literal_inj row_ids_def)

theorem one_active_embedding_provider_witness:
  "\<exists>e1 s1 e2 s2. create_embedding_provider toy_cipher (empty_session 0) (embedding_payload ''a'') = Inr (e1, s1) \<and>
     create_embedding_provider toy_cipher s1 (embedding_payload ''b'') = Inr (e2, s2) \<and>
     length (filter ep_is_enabled (embedding_providers s2)) \<le> 1 \<and> length (embedding_providers s2) = 2"
proof -
  obtain e1 s1 where 1: "create_embedding_provider toy_cipher (empty_session 0) (embedding_payload ''a'') = Inr (e1, s1)"
    by (simp add: create_embedding_provider_def Let_def empty_session_def)
  then have n: "map ep_name (embedding_providers s1) = [''a'']"
    by (auto simp: create_embedding_provider_def Let_def empty_session_def embedding_payload_def row_add_def disable_other_active_providers_def take_id_def)
  then have "\<not> list_ex (\<lambda>x. ep_name x = ''b'') (embedding_providers s1)" by auto
  then obtain e2 s2 where 2: "create_embedding_provider toy_cipher s1 (embedding_payload ''b'') = Inr (e2, s2)"
    by (simp add: create_embedding_provider_def Let_def embedding_payload_def)
  have "length (embedding_providers s1) = 1" using n by (metis length_map length_Cons list.size(3) One_nat_def)
  then have l: "length (embedding_providers s2) = 2"
    using 2 by (auto simp: create_embedding_provider_def Let_def row_add_def disable_other_active_providers_def embedding_payload_def split: if_splits)
  have "(embedding_step toy_cipher)\<^sup>*\<^sup>* (empty_session 0) s2"
    using embedding_step.create [OF 1] embedding_step.create [OF 2] by (meson converse_rtranclp_into_rtranclp r_into_rtranclp)
  from one_active_embedding_provider [OF this empty_embedding_inv] 1 2 l show ?thesis by blast
qed

section \<open>Credentials\<close>

lemma find_credential_put:
  assumes "find_credential s i = Some r" "\<And>x. pc_provider_id (f x) = pc_provider_id x"
  shows "find_credential (s\<lparr>provider_credentials := row_put pc_id (pc_id r) f (provider_credentials s)\<rparr>) i = Some (f r)"
  using find_row_put_fix [of "\<lambda>x. pc_provider_id x = i" "provider_credentials s" r f pc_id] assms by (simp add: find_credential_def)

lemma find_map_same:
  "(\<And>x. x \<in> set xs \<Longrightarrow> P (g x) = P x \<and> (P x \<longrightarrow> g x = x)) \<Longrightarrow> List.find P (map g xs) = List.find P xs"
proof (induction xs)
  case (Cons x xs)
  then have "List.find P (map g xs) = List.find P xs" by simp
  then show ?case using Cons.prems [of x] by simp
qed simp

lemma find_credential_put_other:
  assumes "distinct (map pc_id (provider_credentials s))" "find_credential s i = Some r" "j \<noteq> i" "\<And>x. pc_provider_id (f x) = pc_provider_id x"
  shows "find_credential (s\<lparr>provider_credentials := row_put pc_id (pc_id r) f (provider_credentials s)\<rparr>) j = find_credential s j"
proof -
  have r: "r \<in> set (provider_credentials s)" "pc_provider_id r = i" using find_SomeD assms(2) unfolding find_credential_def by fast+
  have "pc_provider_id x = i" if "x \<in> set (provider_credentials s)" "pc_id x = pc_id r" for x
    using distinct_key_eq [OF assms(1) that(1) r(1) that(2)] r(2) by simp
  then have "List.find (\<lambda>x. pc_provider_id x = j) (map (\<lambda>x. if pc_id x = pc_id r then f x else x) (provider_credentials s)) =
      List.find (\<lambda>x. pc_provider_id x = j) (provider_credentials s)"
    using assms(3,4) by (intro find_map_same) auto
  then show ?thesis by (simp add: find_credential_def row_put_def)
qed

lemma mask_secret_shows:
  "length (mask_secret t) = length t"
  "i < length t \<Longrightarrow> mask_secret t ! i = (if 8 < length t \<and> (i < 4 \<or> length t - 4 \<le> i) then t ! i else CHR ''*'')"
  by (auto simp: mask_secret_def nth_append min_def)

lemma set_credential_stored:
  assumes "set_credential ci s i secret metadata = Inr (out, s')"
  shows "\<exists>r. find_credential s' i = Some r \<and> pc_secret_encrypted r = ci_encrypt ci s secret \<and> out = credential_view r secret"
    "model_providers s' = model_providers s"
proof -
  show "\<exists>r. find_credential s' i = Some r \<and> pc_secret_encrypted r = ci_encrypt ci s secret \<and> out = credential_view r secret"
  proof (cases "find_credential s i")
    case None
    then show ?thesis using assms
      by (auto simp: set_credential_def Let_def find_credential_def row_add_def find_append split: option.splits)
  next
    case (Some r)
    have "out = credential_view (r\<lparr>pc_secret_encrypted := ci_encrypt ci s secret, pc_metadata := metadata\<rparr>) secret"
      "s' = s\<lparr>provider_credentials := row_put pc_id (pc_id r)
         (\<lambda>r. r\<lparr>pc_secret_encrypted := ci_encrypt ci s secret, pc_metadata := metadata\<rparr>) (provider_credentials s)\<rparr>"
      using assms Some by (auto simp: set_credential_def Let_def split: option.splits)
    with find_credential_put [OF Some, of "\<lambda>r. r\<lparr>pc_secret_encrypted := ci_encrypt ci s secret, pc_metadata := metadata\<rparr>"]
    show ?thesis by simp
  qed
  show "model_providers s' = model_providers s"
    using assms by (auto simp: set_credential_def Let_def take_id_def split: option.splits)
qed

lemma set_credential_other:
  assumes "set_credential ci s i secret metadata = Inr (out, s')" "distinct (map pc_id (provider_credentials s))" "j \<noteq> i"
  shows "find_credential s' j = find_credential s j"
proof (cases "find_credential s i")
  case None
  then show ?thesis using assms
    by (auto simp: set_credential_def Let_def find_credential_def row_add_def find_append split: option.splits)
next
  case (Some r)
  have "s' = s\<lparr>provider_credentials := row_put pc_id (pc_id r)
       (\<lambda>r. r\<lparr>pc_secret_encrypted := ci_encrypt ci s secret, pc_metadata := metadata\<rparr>) (provider_credentials s)\<rparr>"
    using assms(1) Some by (auto simp: set_credential_def Let_def split: option.splits)
  then show ?thesis using find_credential_put_other [OF assms(2) Some assms(3)] by simp
qed

text \<open>
  A secret that is stored for a provider is the one that chat calls to this provider are configured with, the
  configuration of calls to other providers stays as it was, and what is shown of the secret, then and later, is its
  length and at most its first and last four characters, of a secret of up to eight characters none.
\<close>

theorem credential_round_trip:
  assumes ci: "cipher_ok ci" and d: "distinct (map pc_id (provider_credentials s))"
    and r: "set_credential ci s i secret metadata = Inr (out, s')"
  shows "(\<forall>p m. mp_id p = i \<longrightarrow> (\<exists>config. build_chat_config ci s' p m = Inr config \<and> dict_get ''api_key'' config = Some (JStr secret))) \<and>
    (\<forall>p m. mp_id p \<noteq> i \<longrightarrow> build_chat_config ci s' p m = build_chat_config ci s p m) \<and>
    get_credential ci s' i = Inr out \<and> length (co_masked_secret out) = length secret \<and>
    (\<forall>k<length secret. co_masked_secret out ! k =
       (if 8 < length secret \<and> (k < 4 \<or> length secret - 4 \<le> k) then secret ! k else CHR ''*''))"
proof -
  obtain x where x: "find_credential s' i = Some x" "pc_secret_encrypted x = ci_encrypt ci s secret" "out = credential_view x secret"
    using set_credential_stored [OF r] by blast
  have dec: "ci_decrypt ci (pc_secret_encrypted x) = Inr secret" using ci x(2) by (simp add: cipher_ok_def)
  have "\<exists>config. build_chat_config ci s' p m = Inr config \<and> dict_get ''api_key'' config = Some (JStr secret)" if "mp_id p = i" for p m
    using that x(1) dec by (simp add: build_chat_config_def Let_def)
  moreover have "build_chat_config ci s' p m = build_chat_config ci s p m" if "mp_id p \<noteq> i" for p m
    using set_credential_other [OF r d that] by (simp add: build_chat_config_def Let_def)
  moreover have "get_credential ci s' i = Inr out" using x dec by (simp add: get_credential_def)
  ultimately show ?thesis using x(3) by (simp add: credential_view_def mask_secret_shows)
qed

definition sample_providers :: session where
  "sample_providers = (empty_session 0)\<lparr>
     model_providers := [\<lparr>mp_id = ''p'', mp_name = ''main'', mp_kind = ''openai_compatible'', mp_base_url = Some ''https://x/'',
       mp_is_enabled = True, mp_capabilities = [], mp_created_at = 0\<rparr>],
     available_models := [\<lparr>am_id = ''m'', am_provider_id = ''p'', am_model_name = ''gpt'', am_model_kind = ''chat'',
       am_is_default = True, am_config = [], am_created_at = 0\<rparr>],
     rooms := [\<lparr>rm_id = ''g'', rm_name = ''room'', rm_owner_user_id = ''u1'', rm_character_id = ''ch'', rm_selected_model_id = ''m'',
       rm_default_temperature = 7 / 10, rm_max_context_messages = 12, rm_auto_compaction_enabled = True, rm_memory_profile = ''meta_reply'',
       rm_external_platform = None, rm_external_group_id = None, rm_external_account_id = None, rm_created_at = 0\<rparr>]\<rparr>"

theorem credential_round_trip_witness:
  "\<exists>out s'. set_credential toy_cipher sample_providers ''p'' ''sk-123456789'' [] = Inr (out, s') \<and>
     get_credential toy_cipher s' ''p'' = Inr out \<and> length (co_masked_secret out) = 12"
proof -
  obtain out s' where r: "set_credential toy_cipher sample_providers ''p'' ''sk-123456789'' [] = Inr (out, s')"
    by (simp add: set_credential_def sample_providers_def row_get_def find_credential_def empty_session_def Let_def)
  have "cipher_ok toy_cipher" by (simp add: cipher_ok_def toy_cipher_def)
  moreover have "distinct (map pc_id (provider_credentials sample_providers))" by (simp add: sample_providers_def empty_session_def)
  ultimately show ?thesis using credential_round_trip [OF _ _ r] r by simp
qed

section \<open>Deleting a provider\<close>

lemma model_gone:
  assumes "distinct (map am_id ms)"
  shows "row_get am_id j (row_del_where (\<lambda>m. am_provider_id m = i) ms) =
    (if j \<in> set (map am_id (filter (\<lambda>m. am_provider_id m = i) ms)) then None else row_get am_id j ms)"
proof (cases "row_get am_id j ms")
  case None
  then have "row_get am_id j (row_del_where (\<lambda>m. am_provider_id m = i) ms) = None" by (auto simp: row_get_None row_ids_def)
  then show ?thesis using None by simp
next
  case (Some m)
  have m: "m \<in> set ms" "am_id m = j" using row_get_SomeD [OF Some] by simp_all
  have same: "x = m" if "x \<in> set ms" "am_id x = j" for x using distinct_key_eq [OF assms that(1) m(1)] that(2) m(2) by simp
  show ?thesis
  proof (cases "am_provider_id m = i")
    case True
    then have "row_get am_id j (row_del_where (\<lambda>m. am_provider_id m = i) ms) = None" using same by (auto simp: row_get_None row_ids_def)
    moreover have "j \<in> set (map am_id (filter (\<lambda>m. am_provider_id m = i) ms))" using m True by auto
    ultimately show ?thesis by simp
  next
    case False
    have "row_get am_id (am_id m) (row_del_where (\<lambda>m. am_provider_id m = i) ms) = Some m"
      by (rule row_get_mem) (use assms m False in auto)
    moreover have "j \<notin> set (map am_id (filter (\<lambda>m. am_provider_id m = i) ms))" using same False by auto
    ultimately show ?thesis using Some m(2) by simp
  qed
qed

text \<open>
  A provider is deleted only when no cocoon uses one of its models for chat or summaries and no embedding
  provider names it: whatever model a cocoon could resolve before it resolves after. Chat groups are not
  looked at: every room with a model of the provider can no longer resolve it.
\<close>

theorem delete_provider_keeps_cocoon_models:
  assumes ids: "\<forall>c\<in>set (cocoons s). c_id c \<noteq> []" "distinct (map am_id (available_models s))"
    and r: "delete_provider s i = Inr (p, s')"
  shows "(\<forall>c\<in>set (cocoons s). \<forall>j. j = c_selected_model_id c \<or> Some j = c_summary_model_id c \<longrightarrow>
       resolve_chat_model s' j = resolve_chat_model s j) \<and>
    (\<forall>m\<in>set (available_models s). am_provider_id m = i \<longrightarrow>
       resolve_chat_model s' (am_id m) = Inl (ValueError (''Unknown model: '' @ am_id m))) \<and> rooms s' = rooms s"
proof -
  have s': "s' = s\<lparr>provider_credentials := row_del_where (\<lambda>x. pc_provider_id x = i) (provider_credentials s),
      available_models := row_del_where (\<lambda>m. am_provider_id m = i) (available_models s),
      model_providers := row_del mp_id i (model_providers s)\<rparr>" and free: "model_ids_of s i = [] \<or> \<not> models_in_use s (model_ids_of s i)"
    using r by (auto simp: delete_provider_def Let_def split: option.splits if_splits)
  have unused: "j \<notin> set (model_ids_of s i)" if c: "c \<in> set (cocoons s)" "j = c_selected_model_id c \<or> Some j = c_summary_model_id c" for c j
  proof
    assume j: "j \<in> set (model_ids_of s i)"
    then have "c_selected_model_id c \<in> set (model_ids_of s i) \<or> in_list (c_summary_model_id c) (model_ids_of s i)"
      using c(2) by (auto simp: in_list_iff)
    then obtain x where x: "List.find (\<lambda>c. c_selected_model_id c \<in> set (model_ids_of s i) \<or> in_list (c_summary_model_id c) (model_ids_of s i)) (cocoons s) = Some x"
      using c(1) find_Some_iff_ex by (metis (mono_tags, lifting))
    then have "c_id x \<noteq> []" using find_SomeD [OF x] ids(1) by blast
    then have "models_in_use s (model_ids_of s i)" using x by (simp add: models_in_use_def)
    then show False using free j by auto
  qed
  have get: "row_get am_id j (available_models s') = (if j \<in> set (model_ids_of s i) then None else row_get am_id j (available_models s))" for j
    using model_gone [OF ids(2)] by (simp add: s' model_ids_of_def)
  have "resolve_chat_model s' j = resolve_chat_model s j"
    if c: "c \<in> set (cocoons s)" "j = c_selected_model_id c \<or> Some j = c_summary_model_id c" for c j
  proof (cases "row_get am_id j (available_models s)")
    case None
    then show ?thesis using get [of j] by (simp add: resolve_chat_model_def)
  next
    case (Some m)
    then have "am_provider_id m \<noteq> i" using unused [OF c] row_get_SomeD [OF Some] by (auto simp: model_ids_of_def)
    then show ?thesis using Some get [of j] unused [OF c] by (simp add: resolve_chat_model_def s' row_get_del)
  qed
  moreover have "resolve_chat_model s' (am_id m) = Inl (ValueError (''Unknown model: '' @ am_id m))"
    if "m \<in> set (available_models s)" "am_provider_id m = i" for m
    using get [of "am_id m"] that by (auto simp: resolve_chat_model_def model_ids_of_def)
  ultimately show ?thesis by (simp add: s')
qed

theorem delete_provider_keeps_cocoon_models_witness:
  "\<exists>p s'. delete_provider sample_providers ''p'' = Inr (p, s') \<and> rooms s' = rooms sample_providers \<and>
     resolve_chat_model s' ''m'' = Inl (ValueError ''Unknown model: m'')"
proof -
  obtain p s' where r: "delete_provider sample_providers ''p'' = Inr (p, s')"
    by (simp add: delete_provider_def sample_providers_def row_get_def empty_session_def model_ids_of_def models_in_use_def Let_def)
  have "\<forall>c\<in>set (cocoons sample_providers). c_id c \<noteq> []" "distinct (map am_id (available_models sample_providers))"
    by (simp_all add: sample_providers_def empty_session_def)
  from delete_provider_keeps_cocoon_models [OF this r] show ?thesis using r by (simp add: sample_providers_def)
qed

end
