(* ===== verification/Prompts.thy ===== *)
theory Prompts
  imports Json Models
begin

text \<open>
  Prompt templates (\<open>services/prompts\<close>): the registry of variables, the placeholders of a text, revisions,
  and rendering with sanitised values. SHA-256, the texts of the default templates, the text of a fractional number
  and the ten renderers that phrase a variable in Chinese are arguments.
\<close>

section \<open>The registry\<close>

definition TEMPLATE_TYPES :: "string list" where
  "TEMPLATE_TYPES = [''system'', ''meta'', ''generator'', ''memory_summary'', ''pull'', ''merge'', ''audit_summary'']"

definition ROUND_VARIABLES :: "(string \<times> string) list" where
  "ROUND_VARIABLES =
     [(''character_settings'', ''Structured character settings and prompt summary.''),
      (''session_state'', ''Current dynamic session state.''),
      (''tag_catalog'', ''Numbered tag catalog the model is allowed to reference by index only.''),
      (''visible_messages'', ''Recent visible dialogue messages.''),
      (''memory_context'', ''Retrieved long-term memory snippets.''),
      (''runtime_event'', ''Current runtime event payload.''),
      (''wakeup_context'', ''Wakeup-specific runtime context when the current event is a wakeup.''),
      (''pending_wakeups'', ''Pending wakeup tasks for the current target, including ids and reasons.''),
      (''merge_context'', ''Merge-specific context when the current event is a merge.''),
      (''provider_capabilities'', ''Sanitized runtime hints that are safe to expose to the model.'')]"

definition PROMPT_VARIABLES_BY_TYPE :: "(string \<times> (string \<times> string) list) list" where
  "PROMPT_VARIABLES_BY_TYPE =
     [(''system'',
       [(''character_settings'', ''Structured character settings and prompt summary.''),
        (''session_state'', ''Current dynamic session state.''),
        (''provider_capabilities'', ''Sanitized runtime hints that are safe to expose to the model.'')]),
      (''meta'', ROUND_VARIABLES), (''generator'', ROUND_VARIABLES),
      (''memory_summary'',
       [(''session_state'', ''Current dynamic session state.''),
        (''tag_catalog'', ''Numbered tag catalog the compaction model is allowed to reference by index only.''),
        (''visible_messages'', ''Recent visible dialogue messages.''),
        (''memory_context'', ''Retrieved long-term memory snippets.'')]),
      (''pull'', [(''runtime_event'', ''Pull event payload.''), (''memory_context'', ''Candidate memory context.'')]),
      (''merge'', [(''runtime_event'', ''Merge event payload.''), (''merge_context'', ''Merge-specific context.'')]),
      (''audit_summary'',
       [(''runtime_event'', ''Event and run metadata.''), (''visible_messages'', ''Visible messages included in the run.'')])]"

definition allowed_variables :: "string \<Rightarrow> string list" where
  "allowed_variables template_type =
     (case map_of PROMPT_VARIABLES_BY_TYPE template_type of None \<Rightarrow> [] | Some vs \<Rightarrow> map fst vs)"

text \<open>What is written in Chinese: name and content of the default template of a type.\<close>

record prompt_env =
  pe_default_name :: "string \<Rightarrow> string"
  pe_default_content :: "string \<Rightarrow> string"
  pe_checksum :: "string \<Rightarrow> string"
  pe_num_text :: "rat \<Rightarrow> string"
  pe_renderers :: "(string \<times> (json \<Rightarrow> string)) list"

definition default_placeholders :: "string \<Rightarrow> string list" where
  "default_placeholders template_type =
     (if template_type = ''system'' then [''character_settings'', ''provider_capabilities'', ''session_state'']
      else if template_type = ''meta'' \<or> template_type = ''generator''
      then [''character_settings'', ''memory_context'', ''merge_context'', ''provider_capabilities'', ''runtime_event'',
            ''session_state'', ''visible_messages'', ''wakeup_context'']
      else if template_type = ''memory_summary'' then [''memory_context'', ''visible_messages'']
      else if template_type = ''pull'' then [''memory_context'', ''runtime_event'']
      else if template_type = ''merge'' then [''merge_context'', ''runtime_event'']
      else [''runtime_event'', ''visible_messages''])"

section \<open>Placeholders\<close>

text \<open>
  \<open>{{\s*([a-zA-Z0-9_]+)\s*}}\<close>: the classes of the pattern are disjoint, so a match at a position is found without
  backtracking; matches do not overlap.
\<close>

definition is_name_char :: "char \<Rightarrow> bool" where
  "is_name_char c \<longleftrightarrow> is_ascii_lower c \<or> is_ascii_upper c \<or> is_digit c \<or> c = CHR ''_''"

definition placeholder_at :: "string \<Rightarrow> (string \<times> string) option" where
  "placeholder_at t =
     (case t of
        a # b # rest \<Rightarrow>
          if a = CHR ''{'' \<and> b = CHR ''{''
          then let r1 = dropWhile py_isspace rest; name = takeWhile is_name_char r1;
                   r2 = dropWhile py_isspace (dropWhile is_name_char r1)
               in if name \<noteq> [] \<and> take 2 r2 = ''}}'' then Some (name, drop 2 r2) else None
          else None
      | _ \<Rightarrow> None)"

datatype piece = Lit char | Hole string

lemma placeholder_shorter: "placeholder_at t = Some (name, rest) \<Longrightarrow> length rest < length t"
proof -
  have le: "length (dropWhile P xs) \<le> length xs" for P and xs :: string by (rule length_dropWhile_le)
  assume "placeholder_at t = Some (name, rest)"
  then obtain a b u where t: "t = a # b # u" "rest = drop 2 (dropWhile py_isspace (dropWhile is_name_char (dropWhile py_isspace u)))"
    by (auto simp: placeholder_at_def Let_def split: list.splits if_splits)
  have "length rest \<le> length u" unfolding t(2) length_drop using le le_trans diff_le_self by meson
  then show ?thesis by (simp add: t(1))
qed

function pieces :: "string \<Rightarrow> piece list" where
  "pieces [] = []"
| "pieces (c # cs) =
     (case placeholder_at (c # cs) of
        None \<Rightarrow> Lit c # pieces cs
      | Some (name, rest) \<Rightarrow> Hole name # pieces rest)"
  by pat_completeness auto
termination by (relation "measure length") (auto dest: placeholder_shorter)

fun holes :: "piece list \<Rightarrow> string list" where
  "holes [] = []"
| "holes (Hole n # ps) = n # holes ps"
| "holes (Lit c # ps) = holes ps"

definition find_placeholders :: "string \<Rightarrow> string list" where
  "find_placeholders content = sorted_list_of_set (set (holes (pieces content)))"

section \<open>Values\<close>

definition SENSITIVE_KEYS :: "string list" where
  "SENSITIVE_KEYS = [''secret'', ''token'', ''api_key'', ''password'', ''secret_encrypted'']"

definition sensitive :: "string \<Rightarrow> bool" where
  "sensitive k \<longleftrightarrow> py_lower k \<in> set SENSITIVE_KEYS"

fun sanitize_snapshot :: "json \<Rightarrow> json" where
  "sanitize_snapshot (JObj kvs) =
     JObj (map (\<lambda>(k, v). (k, if sensitive k then JStr ''***redacted***'' else sanitize_snapshot v)) kvs)"
| "sanitize_snapshot (JList xs) = JList (map sanitize_snapshot xs)"
| "sanitize_snapshot v = v"

definition sanitize_dict :: "dict \<Rightarrow> dict" where
  "sanitize_dict d = map (\<lambda>(k, v). (k, if sensitive k then JStr ''***redacted***'' else sanitize_snapshot v)) d"

definition is_line_break :: "char \<Rightarrow> bool" where
  "is_line_break c \<longleftrightarrow> of_char c \<in> {10, 11, 12, 13, 28, 29, 30, 133 :: nat}"

function splitlines :: "string \<Rightarrow> string \<Rightarrow> string list" where
  "splitlines cur [] = (if cur = [] then [] else [rev cur])"
| "splitlines cur (c # cs) =
     (if c = CHR 0x0D \<and> cs \<noteq> [] \<and> hd cs = CHR 0x0A then rev cur # splitlines [] (tl cs)
      else if is_line_break c then rev cur # splitlines [] cs
      else splitlines (c # cur) cs)"
  by pat_completeness auto
termination by (relation "measure (length \<circ> snd)") auto

definition newline :: string where "newline = [CHR 0x0A]"

definition indent_block :: "string \<Rightarrow> nat \<Rightarrow> string" where
  "indent_block t n = py_join newline (map (\<lambda>line. replicate n CHR '' '' @ line) (splitlines [] t))"

fun is_container :: "json \<Rightarrow> bool" where
  "is_container (JObj kvs) = True"
| "is_container (JList xs) = True"
| "is_container v = False"

text \<open>The label of an entry, and its value on the same line or as an indented block below.\<close>

definition entry_lines :: "string \<Rightarrow> nat \<Rightarrow> bool \<Rightarrow> string \<Rightarrow> string list" where
  "entry_lines label n container rendered =
     (if container \<or> CHR 0x0A \<in> set rendered then [label, indent_block rendered (n + 2)] else [label @ '' '' @ rendered])"

fun format_value :: "(rat \<Rightarrow> string) \<Rightarrow> nat \<Rightarrow> json \<Rightarrow> string" where
  "format_value num n (JObj kvs) =
     (if kvs = [] then ''{}''
      else py_join newline (concat (map (\<lambda>(k, v). entry_lines (replicate n CHR '' '' @ k @ '':'') n (is_container v) (format_value num (n + 2) v)) kvs)))"
| "format_value num n (JList xs) =
     (if xs = [] then ''[]''
      else py_join newline (concat (map (\<lambda>v. entry_lines (replicate n CHR '' '' @ ''-'') n (is_container v) (format_value num (n + 2) v)) xs)))"
| "format_value num n (JStr t) = t"
| "format_value num n JNull = ''null''"
| "format_value num n (JBool b) = (if b then ''true'' else ''false'')"
| "format_value num n (JInt i) = int_str i"
| "format_value num n (JNum r) = num r"

definition coerce_render_value :: "prompt_env \<Rightarrow> string \<Rightarrow> json \<Rightarrow> string" where
  "coerce_render_value e name v =
     (case v of
        JStr t \<Rightarrow> t
      | _ \<Rightarrow> (case map_of (pe_renderers e) name of Some f \<Rightarrow> f v | None \<Rightarrow> format_value (pe_num_text e) 0 v))"

fun fill_pieces :: "prompt_env \<Rightarrow> dict \<Rightarrow> piece list \<Rightarrow> string result" where
  "fill_pieces e vars [] = Inr []"
| "fill_pieces e vars (Lit c # ps) = bind_r (fill_pieces e vars ps) (\<lambda>t. Inr (c # t))"
| "fill_pieces e vars (Hole n # ps) =
     (case dict_get n vars of
        None \<Rightarrow> Inl (KeyError n)
      | Some v \<Rightarrow> bind_r (fill_pieces e vars ps) (\<lambda>t. Inr (coerce_render_value e n v @ t)))"

definition render_template :: "prompt_env \<Rightarrow> string \<Rightarrow> dict \<Rightarrow> string result" where
  "render_template e content variables = fill_pieces e (sanitize_dict variables) (pieces content)"

section \<open>Revisions\<close>

definition find_template :: "session \<Rightarrow> string \<Rightarrow> prompt_template_row option" where
  "find_template s template_type = List.find (\<lambda>t. pt_template_type t = template_type) (prompt_templates s)"

definition get_template :: "session \<Rightarrow> string \<Rightarrow> prompt_template_row result" where
  "get_template s template_type =
     (case find_template s template_type of None \<Rightarrow> Inl (HTTPException 404 ''Template not found'') | Some t \<Rightarrow> Inr t)"

definition list_templates :: "session \<Rightarrow> prompt_template_row list" where
  "list_templates s = sort_key pt_template_type (prompt_templates s)"

definition get_active_revision :: "session \<Rightarrow> prompt_template_row \<Rightarrow> prompt_revision_row option" where
  "get_active_revision s t =
     (if \<not> truthy (pt_active_revision_id t) then None else row_get pr_id (str_of (pt_active_revision_id t)) (prompt_revisions s))"

definition store_template :: "session \<Rightarrow> string \<Rightarrow> string \<Rightarrow> string \<Rightarrow> prompt_template_row \<times> session" where
  "store_template s template_type name description =
     (case find_template s template_type of
        None \<Rightarrow>
          let t = \<lparr>pt_id = new_id s, pt_template_type = template_type, pt_name = name, pt_description = description,
                   pt_active_revision_id = None\<rparr>
          in (t, (take_id s)\<lparr>prompt_templates := row_add t (prompt_templates s)\<rparr>)
      | Some t \<Rightarrow>
          let f = (\<lambda>t. t\<lparr>pt_name := name, pt_description := description\<rparr>)
          in (f t, s\<lparr>prompt_templates := row_put pt_id (pt_id t) f (prompt_templates s)\<rparr>))"

definition last_version :: "session \<Rightarrow> id \<Rightarrow> int" where
  "last_version s template_id =
     (case sort_key (\<lambda>r. - pr_version r) (filter (\<lambda>r. pr_template_id r = template_id) (prompt_revisions s)) of
        [] \<Rightarrow> 0 | r # _ \<Rightarrow> pr_version r)"

definition unknown_variables :: "string \<Rightarrow> string \<Rightarrow> string list" where
  "unknown_variables template_type content =
     filter (\<lambda>n. n \<notin> set (allowed_variables template_type)) (find_placeholders content)"

definition upsert_template ::
  "prompt_env \<Rightarrow> session \<Rightarrow> string \<Rightarrow> string \<Rightarrow> string \<Rightarrow> string \<Rightarrow> id option \<Rightarrow> (prompt_template_row \<times> session) result" where
  "upsert_template e s template_type name description content actor =
     (if unknown_variables template_type content \<noteq> []
      then Inl (HTTPException 422 (''Unknown prompt variables: '' @ py_join '', '' (unknown_variables template_type content)))
      else let (t, s1) = store_template s template_type name description;
               r = \<lparr>pr_id = new_id s1, pr_template_id = pt_id t, pr_version = last_version s1 (pt_id t) + 1, pr_content = content,
                    pr_variables = find_placeholders content, pr_checksum = pe_checksum e content, pr_created_by_user_id = actor\<rparr>;
               s2 = (take_id s1)\<lparr>prompt_revisions := row_add r (prompt_revisions s1)\<rparr>;
               f = (\<lambda>t. t\<lparr>pt_active_revision_id := Some (pr_id r)\<rparr>)
           in Inr (f t, s2\<lparr>prompt_templates := row_put pt_id (pt_id t) f (prompt_templates s2)\<rparr>))"

definition reset_template :: "prompt_env \<Rightarrow> session \<Rightarrow> string \<Rightarrow> id option \<Rightarrow> (prompt_template_row \<times> session) result" where
  "reset_template e s template_type actor =
     (if template_type \<notin> set TEMPLATE_TYPES then Inl (HTTPException 404 ''Template not found'')
      else upsert_template e s template_type (pe_default_name e template_type) [] (pe_default_content e template_type) actor)"

fun ensure_default_templates :: "prompt_env \<Rightarrow> session \<Rightarrow> string list \<Rightarrow> session result" where
  "ensure_default_templates e s [] = Inr s"
| "ensure_default_templates e s (k # ks) =
     (if find_template s k \<noteq> None then ensure_default_templates e s ks
      else bind_r (upsert_template e s k (pe_default_name e k) [] (pe_default_content e k) None) (\<lambda>(_, s1).
           ensure_default_templates e s1 ks))"

definition variable_known :: "session \<Rightarrow> string \<Rightarrow> string \<Rightarrow> bool" where
  "variable_known s template_type name = list_ex (\<lambda>v. pv_template_type v = template_type \<and> pv_variable_name v = name) (prompt_variables s)"

fun sync_variables :: "session \<Rightarrow> (string \<times> string \<times> string) list \<Rightarrow> session" where
  "sync_variables s [] = s"
| "sync_variables s ((k, name, description) # vs) =
     (if variable_known s k name then sync_variables s vs
      else sync_variables ((take_id s)\<lparr>prompt_variables := row_add
             \<lparr>pv_id = new_id s, pv_template_type = k, pv_variable_name = name, pv_description = description, pv_is_required = True\<rparr>
             (prompt_variables s)\<rparr>) vs)"

definition registry_variables :: "(string \<times> string \<times> string) list" where
  "registry_variables = concat (map (\<lambda>(k, vs). map (\<lambda>(n, d). (k, n, d)) vs) PROMPT_VARIABLES_BY_TYPE)"

definition ensure_defaults :: "prompt_env \<Rightarrow> session \<Rightarrow> session result" where
  "ensure_defaults e s = ensure_default_templates e (sync_variables s registry_variables) TEMPLATE_TYPES"

definition render ::
  "prompt_env \<Rightarrow> session \<Rightarrow> string \<Rightarrow> dict \<Rightarrow> (prompt_template_row \<times> prompt_revision_row \<times> dict \<times> string) result" where
  "render e s template_type variables =
     bind_r (get_template s template_type) (\<lambda>t.
     case get_active_revision s t of
       None \<Rightarrow> Inl (HTTPException 500 ''No active revision'')
     | Some r \<Rightarrow>
         let missing = filter (\<lambda>k. dict_get k variables = None) (pr_variables r); snapshot = sanitize_dict variables
         in if missing \<noteq> [] then Inl (HTTPException 422 (''Missing prompt variables: '' @ py_join '', '' missing))
            else bind_r (render_template e (pr_content r) snapshot) (\<lambda>text. Inr (t, r, snapshot, text)))"

end
