(* ===== verification/PromptStore.thy ===== *)
theory PromptStore
  imports Prompts Frames
begin

text \<open>
  What is stored of prompts can be rendered, and what is rendered holds no secrets.
\<close>

section \<open>Rendering\<close>

lemma dict_get_sanitize: "dict_get k (sanitize_dict d) = None \<longleftrightarrow> dict_get k d = None"
  by (induction d) (auto simp: sanitize_dict_def split: prod.splits)

lemma fill_pieces_total:
  "\<forall>n\<in>set (holes ps). dict_get n vars \<noteq> None \<Longrightarrow> \<exists>t. fill_pieces e vars ps = Inr t"
  by (induction e vars ps rule: fill_pieces.induct) (auto split: option.splits)

lemma finite_holes: "set (find_placeholders content) = set (holes (pieces content))"
  by (simp add: find_placeholders_def)

lemma render_template_total:
  "\<forall>n\<in>set (find_placeholders content). dict_get n vars \<noteq> None \<Longrightarrow> \<exists>t. render_template e content vars = Inr t"
  unfolding render_template_def by (rule fill_pieces_total) (simp add: finite_holes dict_get_sanitize)

lemma find_key_mem:
  fixes key :: "'r \<Rightarrow> string"
  shows "distinct (map key rows) \<Longrightarrow> r \<in> set rows \<Longrightarrow> List.find (\<lambda>x. key x = key r) rows = Some r"
  using row_get_mem [of key rows r] by (simp add: row_get_def)

section \<open>The store\<close>

definition active_ok :: "session \<Rightarrow> prompt_template_row \<Rightarrow> prompt_revision_row \<Rightarrow> bool" where
  "active_ok s t r \<longleftrightarrow>
     pt_active_revision_id t = Some (pr_id r) \<and> pr_id r \<noteq> [] \<and> pr_template_id r = pt_id t \<and>
     set (find_placeholders (pr_content r)) \<subseteq> set (allowed_variables (pt_template_type t)) \<and>
     (\<forall>x\<in>set (prompt_revisions s). pr_template_id x = pt_id t \<longrightarrow> pr_version x \<le> pr_version r)"

definition prompts_inv :: "session \<Rightarrow> bool" where
  "prompts_inv s \<longleftrightarrow>
     supply_fresh s (row_ids pt_id (prompt_templates s) \<union> row_ids pr_id (prompt_revisions s) \<union> pr_template_id ` set (prompt_revisions s)) \<and>
     (\<forall>n\<ge>id_next s. id_supply s n \<noteq> []) \<and>
     distinct (map pt_id (prompt_templates s)) \<and> distinct (map pt_template_type (prompt_templates s)) \<and>
     distinct (map pr_id (prompt_revisions s)) \<and>
     (\<forall>r\<in>set (prompt_revisions s). pr_variables r = find_placeholders (pr_content r)) \<and>
     (\<forall>t\<in>set (prompt_templates s). \<exists>r\<in>set (prompt_revisions s). active_ok s t r)"

inductive prompt_step :: "prompt_env \<Rightarrow> session \<Rightarrow> session \<Rightarrow> bool" for e where
  upsert: "upsert_template e s k name description content actor = Inr (t, s') \<Longrightarrow> prompt_step e s s'"
| reset: "reset_template e s k actor = Inr (t, s') \<Longrightarrow> prompt_step e s s'"
| defaults: "ensure_defaults e s = Inr s' \<Longrightarrow> prompt_step e s s'"
| other: "prompt_templates s' = prompt_templates s \<Longrightarrow> prompt_revisions s' = prompt_revisions s \<Longrightarrow>
    id_supply s' = id_supply s \<Longrightarrow> id_next s \<le> id_next s' \<Longrightarrow> prompt_step e s s'"

lemma last_version_max:
  assumes "r \<in> set (prompt_revisions s)" "pr_template_id r = i" shows "pr_version r \<le> last_version s i"
proof -
  let ?rs = "filter (\<lambda>r. pr_template_id r = i) (prompt_revisions s)"
  obtain x xs where x: "sort_key (\<lambda>r. - pr_version r) ?rs = x # xs"
    using assms by (metis (mono_tags, lifting) filter_empty_conv list.exhaust length_sort length_0_conv)
  have "sorted (map (\<lambda>r. - pr_version r) (x # xs))" unfolding x [symmetric] by simp
  moreover have "r \<in> set (x # xs)" using assms unfolding x [symmetric] by simp
  ultimately have "- pr_version x \<le> - pr_version r" by auto
  then show ?thesis by (simp add: last_version_def x)
qed

lemma active_ok_cong:
  "prompt_revisions s' = prompt_revisions s \<Longrightarrow> active_ok s' t r = active_ok s t r"
  by (simp add: active_ok_def)

text \<open>The template that is written, before its revision is added.\<close>

lemma store_template_cases:
  assumes inv: "prompts_inv s" and st: "store_template s k name description = (t, s1)"
  shows "pt_template_type t = k \<and> prompt_revisions s1 = prompt_revisions s \<and> id_supply s1 = id_supply s \<and> id_next s \<le> id_next s1 \<and>
    t \<in> set (prompt_templates s1) \<and> distinct (map pt_id (prompt_templates s1)) \<and> distinct (map pt_template_type (prompt_templates s1)) \<and>
    (\<forall>x\<in>set (prompt_templates s1). x = t \<or> x \<in> set (prompt_templates s)) \<and>
    supply_fresh s1 (row_ids pt_id (prompt_templates s1) \<union> row_ids pr_id (prompt_revisions s1) \<union> pr_template_id ` set (prompt_revisions s1))"
proof (cases "find_template s k")
  case None
  then have t: "t = \<lparr>pt_id = new_id s, pt_template_type = k, pt_name = name, pt_description = description, pt_active_revision_id = None\<rparr>"
    "s1 = (take_id s)\<lparr>prompt_templates := row_add t (prompt_templates s)\<rparr>"
    using st by (auto simp: store_template_def Let_def)
  have k: "k \<notin> pt_template_type ` set (prompt_templates s)" using None by (auto simp: find_template_def find_None)
  have f: "supply_fresh s (row_ids pt_id (prompt_templates s) \<union> row_ids pr_id (prompt_revisions s) \<union> pr_template_id ` set (prompt_revisions s))"
    using inv by (simp add: prompts_inv_def)
  have n: "new_id s \<notin> pt_id ` set (prompt_templates s)" using new_id_fresh [OF f] by (simp add: row_ids_def)
  have "supply_fresh s1 (row_ids pt_id (prompt_templates s1) \<union> row_ids pr_id (prompt_revisions s1) \<union> pr_template_id ` set (prompt_revisions s1))"
    using supply_fresh_take_id [OF f] by (auto simp: t supply_fresh_def take_id_def row_add_def row_ids_def)
  then show ?thesis using inv k n t(1) by (auto simp: t(2) prompts_inv_def row_add_def take_id_def)
next
  case (Some x)
  then have x: "x \<in> set (prompt_templates s)" "pt_template_type x = k" using find_SomeD unfolding find_template_def by fast+
  let ?f = "\<lambda>t. t\<lparr>pt_name := name, pt_description := description\<rparr>"
  have t: "t = ?f x" "s1 = s\<lparr>prompt_templates := row_put pt_id (pt_id x) ?f (prompt_templates s)\<rparr>"
    using st Some by (auto simp: store_template_def Let_def)
  have d: "distinct (map pt_id (prompt_templates s))" using inv by (simp add: prompts_inv_def)
  have set1: "set (prompt_templates s1) = insert t (set (prompt_templates s) - {x})"
    using set_put_distinct [OF d x(1), of ?f] by (simp add: t)
  have maps: "map pt_id (prompt_templates s1) = map pt_id (prompt_templates s)"
    "map pt_template_type (prompt_templates s1) = map pt_template_type (prompt_templates s)"
    by (simp_all add: t(2) row_put_def)
  have ids: "row_ids pt_id (prompt_templates s1) = row_ids pt_id (prompt_templates s)"
    by (simp add: t(2))
  show ?thesis
  proof (intro conjI)
    show "supply_fresh s1 (row_ids pt_id (prompt_templates s1) \<union> row_ids pr_id (prompt_revisions s1) \<union> pr_template_id ` set (prompt_revisions s1))"
      using inv unfolding ids by (simp add: prompts_inv_def supply_fresh_def t(2))
  qed (use inv x t maps set1 in \<open>simp_all add: prompts_inv_def\<close>)
qed

lemma prompts_inv_upsert:
  assumes inv: "prompts_inv s" and u: "upsert_template e s k name description content actor = Inr (t, s')"
  shows "prompts_inv s'"
proof -
  have known: "unknown_variables k content = []" using u by (auto simp: upsert_template_def split: if_splits)
  obtain t1 s1 where st: "store_template s k name description = (t1, s1)" by fastforce
  note c = store_template_cases [OF inv st]
  define r where "r = \<lparr>pr_id = new_id s1, pr_template_id = pt_id t1, pr_version = last_version s1 (pt_id t1) + 1, pr_content = content,
      pr_variables = find_placeholders content, pr_checksum = pe_checksum e content, pr_created_by_user_id = actor\<rparr>"
  let ?f = "\<lambda>t. t\<lparr>pt_active_revision_id := Some (pr_id r)\<rparr>"
  have s': "s' = (take_id s1)\<lparr>prompt_revisions := row_add r (prompt_revisions s1),
      prompt_templates := row_put pt_id (pt_id t1) ?f (prompt_templates s1)\<rparr>"
    using u known st by (auto simp: upsert_template_def Let_def r_def take_id_def)
  have f: "supply_fresh s1 (row_ids pt_id (prompt_templates s1) \<union> row_ids pr_id (prompt_revisions s1) \<union> pr_template_id ` set (prompt_revisions s1))"
    and d: "distinct (map pt_id (prompt_templates s1))" and t1: "t1 \<in> set (prompt_templates s1)" using c by blast+
  have new: "pr_id r \<notin> row_ids pr_id (prompt_revisions s1)" using new_id_fresh [OF f] by (simp add: r_def)
  have ne: "pr_id r \<noteq> []" using inv c by (simp add: r_def new_id_def prompts_inv_def)
  have templates: "set (prompt_templates s') = insert (?f t1) (set (prompt_templates s1) - {t1})"
    using set_put_distinct [OF d t1, of ?f] by (simp add: s')
  have ids: "map pt_id (prompt_templates s') = map pt_id (prompt_templates s1)"
    "map pt_template_type (prompt_templates s') = map pt_template_type (prompt_templates s1)"
    by (simp_all add: s' row_put_def)
  have revs: "prompt_revisions s' = prompt_revisions s @ [r]" using c by (simp add: s' row_add_def)
  have "active_ok s' (?f t1) r"
    using known ne c last_version_max [of _ s1 "pt_id t1"]
    by (auto simp: active_ok_def revs r_def unknown_variables_def filter_empty_conv intro: order.trans [OF _ less_imp_le])
  moreover have "\<exists>x\<in>set (prompt_revisions s'). active_ok s' y x" if y: "y \<in> set (prompt_templates s1)" "y \<noteq> t1" for y
  proof -
    have "y \<in> set (prompt_templates s)" using c y by blast
    then obtain x where x: "x \<in> set (prompt_revisions s)" "active_ok s y x" using inv unfolding prompts_inv_def by blast
    have "pt_id y \<noteq> pt_id t1" using distinct_key_eq [OF d y(1) t1] y(2) by blast
    then have "active_ok s' y x" using x(2) by (auto simp: active_ok_def revs r_def)
    then show ?thesis using x(1) revs by auto
  qed
  ultimately have act: "\<forall>y\<in>set (prompt_templates s'). \<exists>x\<in>set (prompt_revisions s'). active_ok s' y x"
    unfolding templates using revs by auto
  have "supply_fresh s' (row_ids pt_id (prompt_templates s') \<union> row_ids pr_id (prompt_revisions s') \<union> pr_template_id ` set (prompt_revisions s'))"
  proof -
    have "row_ids pt_id (prompt_templates s') = row_ids pt_id (prompt_templates s1)" using ids(1) unfolding row_ids_def by (metis set_map)
    moreover have "pt_id t1 \<in> row_ids pt_id (prompt_templates s1)" using t1 by (auto simp: row_ids_def)
    ultimately have "row_ids pt_id (prompt_templates s') \<union> row_ids pr_id (prompt_revisions s') \<union> pr_template_id ` set (prompt_revisions s')
        \<subseteq> insert (new_id s1) (row_ids pt_id (prompt_templates s1) \<union> row_ids pr_id (prompt_revisions s1) \<union> pr_template_id ` set (prompt_revisions s1))"
      by (auto simp: revs c row_ids_def r_def)
    moreover have "supply_fresh s' X = supply_fresh (take_id s1) X" for X by (simp add: supply_fresh_def s')
    ultimately show ?thesis using supply_fresh_mono supply_fresh_take_id [OF f] by blast
  qed
  moreover have "\<forall>n\<ge>id_next s'. id_supply s' n \<noteq> []" using inv c by (simp add: s' prompts_inv_def)
  moreover have "\<forall>x\<in>set (prompt_revisions s'). pr_variables x = find_placeholders (pr_content x)"
    using inv by (auto simp: revs prompts_inv_def r_def)
  moreover have "distinct (map pr_id (prompt_revisions s'))"
    using inv new c by (simp add: revs prompts_inv_def row_ids_def)
  ultimately show ?thesis using act c by (simp add: prompts_inv_def ids)
qed

lemma prompts_inv_other:
  assumes "prompts_inv s" "prompt_templates s' = prompt_templates s" "prompt_revisions s' = prompt_revisions s"
    "id_supply s' = id_supply s" "id_next s \<le> id_next s'"
  shows "prompts_inv s'"
  using assms unfolding prompts_inv_def by (simp add: supply_fresh_def active_ok_def)

lemma prompts_inv_defaults:
  "prompts_inv s \<Longrightarrow> ensure_default_templates e s ks = Inr s' \<Longrightarrow> prompts_inv s'"
proof (induction e s ks arbitrary: s' rule: ensure_default_templates.induct)
  case (2 e s k ks)
  show ?case
  proof (cases "find_template s k \<noteq> None")
    case True
    then show ?thesis using 2 by simp
  next
    case False
    then obtain t s1 where u: "upsert_template e s k (pe_default_name e k) [] (pe_default_content e k) None = Inr (t, s1)"
      "ensure_default_templates e s1 ks = Inr s'"
      using 2(4) by (auto elim!: bind_r_pairE)
    show ?thesis using 2(2) [OF False _ refl prompts_inv_upsert [OF 2(3) u(1)] u(2)] u(1) by blast
  qed
qed simp

lemma sync_variables_frame:
  "prompt_templates (sync_variables s vs) = prompt_templates s \<and> prompt_revisions (sync_variables s vs) = prompt_revisions s \<and>
   id_supply (sync_variables s vs) = id_supply s \<and> id_next s \<le> id_next (sync_variables s vs)"
proof (induction s vs rule: sync_variables.induct)
  case (2 s k name description vs)
  then show ?case by (cases "variable_known s k name") (auto simp: take_id_def)
qed simp

lemma prompt_step_inv:
  assumes "prompt_step e s s'" "prompts_inv s" shows "prompts_inv s'"
  using assms
proof (induction rule: prompt_step.induct)
  case (reset s k actor t s')
  then show ?case by (auto simp: reset_template_def split: if_splits intro: prompts_inv_upsert)
next
  case (defaults s s')
  have "prompts_inv (sync_variables s registry_variables)"
    using prompts_inv_other [OF defaults(2)] sync_variables_frame [of s registry_variables] by blast
  then show ?case using defaults(1) prompts_inv_defaults unfolding ensure_defaults_def by blast
qed (auto intro: prompts_inv_upsert prompts_inv_other)

section \<open>Properties\<close>

text \<open>
  C14. Whatever templates are saved, reset and seeded, every stored template can be rendered with any values for the
  variables that its type allows: the active revision exists, belongs to the template, is the newest one, and
  neither a missing variable nor a lookup of an unknown placeholder stops it.
\<close>

theorem stored_prompts_render:
  assumes "(prompt_step e)\<^sup>*\<^sup>* s s'" "prompts_inv s" and t: "t \<in> set (prompt_templates s')"
    and vars: "\<forall>n\<in>set (allowed_variables (pt_template_type t)). dict_get n vars \<noteq> None"
  shows "\<exists>r out. render e s' (pt_template_type t) vars = Inr (t, r, sanitize_dict vars, out) \<and>
    r \<in> set (prompt_revisions s') \<and> pr_template_id r = pt_id t \<and>
    (\<forall>x\<in>set (prompt_revisions s'). pr_template_id x = pt_id t \<longrightarrow> pr_version x \<le> pr_version r)"
proof -
  have inv: "prompts_inv s'" using assms(1,2) by (induction rule: rtranclp_induct) (simp_all add: prompt_step_inv)
  then obtain r where r: "r \<in> set (prompt_revisions s')" "active_ok s' t r" using t unfolding prompts_inv_def by blast
  have "find_template s' (pt_template_type t) = Some t"
    unfolding find_template_def using inv t by (intro find_key_mem) (simp_all add: prompts_inv_def)
  moreover have "get_active_revision s' t = Some r"
    using r inv row_get_mem [of pr_id "prompt_revisions s'" r] by (simp add: get_active_revision_def active_ok_def prompts_inv_def)
  moreover have holes: "\<forall>n\<in>set (find_placeholders (pr_content r)). dict_get n vars \<noteq> None"
    using r(2) vars by (auto simp: active_ok_def)
  then have "filter (\<lambda>k. dict_get k vars = None) (pr_variables r) = []"
    using inv r(1) by (simp add: prompts_inv_def filter_empty_conv)
  moreover obtain out where "render_template e (pr_content r) (sanitize_dict vars) = Inr out"
    using render_template_total [of "pr_content r" "sanitize_dict vars"] holes dict_get_sanitize by blast
  ultimately have "render e s' (pt_template_type t) vars = Inr (t, r, sanitize_dict vars, out)"
    by (simp add: render_def get_template_def)
  then show ?thesis using r by (auto simp: active_ok_def)
qed

definition sample_prompt_env :: prompt_env where
  "sample_prompt_env =
     \<lparr>pe_default_name = id, pe_default_content = (\<lambda>k. []), pe_checksum = id, pe_num_text = (\<lambda>r. []), pe_renderers = []\<rparr>"

definition pull_values :: dict where
  "pull_values = [(''runtime_event'', JObj [(''Token'', JStr ''s3cret''), (''kind'', JStr ''pull'')]), (''memory_context'', JList [])]"

lemma empty_prompts_inv: "prompts_inv (empty_session 0)"
  by (simp add: prompts_inv_def empty_session_def supply_fresh_def id_literal_inj row_ids_def)

lemma sample_holes: "set (find_placeholders ''saw {{ runtime_event }}'') = {''runtime_event''}"
proof -
  have "holes (pieces ''saw {{ runtime_event }}'') = [''runtime_event'']" by code_simp
  then show ?thesis by (simp add: finite_holes)
qed

lemma sample_unknown: "unknown_variables ''pull'' ''saw {{ runtime_event }}'' = []"
  using sample_holes
  by (auto simp: unknown_variables_def filter_empty_conv allowed_variables_def PROMPT_VARIABLES_BY_TYPE_def)

theorem stored_prompts_render_witness:
  "\<exists>t s' r out. upsert_template sample_prompt_env (empty_session 0) ''pull'' ''Pull'' [] ''saw {{ runtime_event }}'' None = Inr (t, s') \<and>
     render sample_prompt_env s' ''pull'' pull_values = Inr (t, r, sanitize_dict pull_values, out)"
proof -
  obtain t s' where u: "upsert_template sample_prompt_env (empty_session 0) ''pull'' ''Pull'' [] ''saw {{ runtime_event }}'' None = Inr (t, s')"
    using sample_unknown by (cases "store_template (empty_session 0) ''pull'' ''Pull'' []") (simp add: upsert_template_def Let_def)
  then have t: "t \<in> set (prompt_templates s')" "pt_template_type t = ''pull''"
    using sample_unknown
    by (auto simp: upsert_template_def store_template_def find_template_def empty_session_def row_add_def row_put_def take_id_def Let_def)
  have "(prompt_step sample_prompt_env)\<^sup>*\<^sup>* (empty_session 0) s'" using prompt_step.upsert [OF u] by blast
  moreover have "\<forall>n\<in>set (allowed_variables (pt_template_type t)). dict_get n pull_values \<noteq> None"
    by (simp add: t(2) allowed_variables_def PROMPT_VARIABLES_BY_TYPE_def pull_values_def dict_get_def)
  ultimately show ?thesis using stored_prompts_render [OF _ empty_prompts_inv t(1)] u t(2) by metis
qed

section \<open>Secrets\<close>

text \<open>Two values that agree but for what is stored under sensitive keys, at any depth.\<close>

inductive differ_in_secrets :: "json \<Rightarrow> json \<Rightarrow> bool" where
  same: "differ_in_secrets v v"
| lists: "list_all2 differ_in_secrets xs ys \<Longrightarrow> differ_in_secrets (JList xs) (JList ys)"
| objects: "list_all2 (\<lambda>p q. fst p = fst q \<and> (sensitive (fst p) \<or> differ_in_secrets (snd p) (snd q))) kvs kvs' \<Longrightarrow>
    differ_in_secrets (JObj kvs) (JObj kvs')"

lemma redacted_alike: "differ_in_secrets v w \<Longrightarrow> sanitize_snapshot v = sanitize_snapshot w"
proof (induction rule: differ_in_secrets.induct)
  case (lists xs ys)
  then have "list_all2 (\<lambda>x y. sanitize_snapshot x = sanitize_snapshot y) xs ys" by (auto elim: list_all2_mono)
  then show ?case by (simp add: list_all2_map1 list_all2_map2 list.rel_eq [symmetric])
next
  case (objects kvs kvs')
  then have "list_all2 (\<lambda>p q. (case p of (k, v) \<Rightarrow> (k, if sensitive k then JStr ''***redacted***'' else sanitize_snapshot v)) =
      (case q of (k, v) \<Rightarrow> (k, if sensitive k then JStr ''***redacted***'' else sanitize_snapshot v))) kvs kvs'"
    by (rule list_all2_mono) (auto split: prod.splits)
  then show ?case by (simp add: list_all2_map1 list_all2_map2 list.rel_eq [symmetric])
qed simp

lemma sanitize_dict_snapshot: "JObj (sanitize_dict d) = sanitize_snapshot (JObj d)"
  by (simp add: sanitize_dict_def)

text \<open>
  C35. What a prompt shows depends on nothing that is stored under a sensitive key, at any depth: variables that
  differ only there give the same text, the same snapshot for the audit log, and the same error.
\<close>

theorem prompts_hide_secrets:
  assumes "differ_in_secrets (JObj vars) (JObj vars')"
  shows "render e s k vars = render e s k vars'"
proof -
  have same: "sanitize_dict vars = sanitize_dict vars'"
    using redacted_alike [OF assms] unfolding sanitize_dict_snapshot [symmetric] by simp
  have "(\<lambda>n. dict_get n vars = None) = (\<lambda>n. dict_get n vars' = None)"
    using dict_get_sanitize [of _ vars] dict_get_sanitize [of _ vars'] same by auto
  then show ?thesis unfolding render_def same by (simp only:)
qed

theorem prompts_hide_secrets_witness:
  "render sample_prompt_env (empty_session 0) ''pull'' [(''runtime_event'', JObj [(''Token'', JStr ''s3cret''), (''kind'', JStr ''pull'')])] =
   render sample_prompt_env (empty_session 0) ''pull'' [(''runtime_event'', JObj [(''Token'', JStr ''other''), (''kind'', JStr ''pull'')])]"
proof -
  have "sensitive ''Token''" by code_simp
  then have "differ_in_secrets (JObj [(''Token'', JStr ''s3cret''), (''kind'', JStr ''pull'')]) (JObj [(''Token'', JStr ''other''), (''kind'', JStr ''pull'')])"
    by (intro differ_in_secrets.objects) (simp add: differ_in_secrets.same)
  then show ?thesis by (intro prompts_hide_secrets differ_in_secrets.objects) simp
qed

end
