(* ===== verification/PluginSchema.thy ===== *)
theory PluginSchema
  imports Json
begin

text \<open>
  The schema check of plugin configurations (\<open>services/plugins/schema_validation.py\<close>). \<open>str()\<close> of a value that
  is neither a string nor an integer is an argument.
\<close>

section \<open>Equality of values\<close>

text \<open>Python's \<open>==\<close>: truth values and numbers compare by value, dictionaries without regard to order.\<close>

fun py_norm :: "json \<Rightarrow> json" where
  "py_norm (JBool b) = JNum (if b then 1 else 0)"
| "py_norm (JInt i) = JNum (of_int i)"
| "py_norm (JList xs) = JList (map py_norm xs)"
| "py_norm (JObj kvs) = JObj (sort_key fst (map (\<lambda>(k, v). (k, py_norm v)) kvs))"
| "py_norm v = v"

definition py_eq :: "json \<Rightarrow> json \<Rightarrow> bool" where
  "py_eq a b \<longleftrightarrow> py_norm a = py_norm b"

section \<open>The parts of a schema\<close>

definition schema_enum :: "dict \<Rightarrow> json list" where
  "schema_enum schema = (case dict_get ''enum'' schema of Some (JList xs) \<Rightarrow> xs | _ \<Rightarrow> [])"

definition schema_type :: "dict \<Rightarrow> string" where
  "schema_type schema = (case dict_get ''type'' schema of Some (JStr t) \<Rightarrow> t | _ \<Rightarrow> [])"

fun key_text :: "(json \<Rightarrow> string) \<Rightarrow> json \<Rightarrow> string" where
  "key_text pstr (JStr s) = s"
| "key_text pstr (JInt i) = int_str i"
| "key_text pstr v = pstr v"

definition schema_required :: "(json \<Rightarrow> string) \<Rightarrow> dict \<Rightarrow> string list" where
  "schema_required pstr schema = (case dict_get ''required'' schema of Some (JList xs) \<Rightarrow> map (key_text pstr) xs | _ \<Rightarrow> [])"

definition schema_properties :: "dict \<Rightarrow> (string \<times> json) list" where
  "schema_properties schema = (case dict_get ''properties'' schema of Some (JObj props) \<Rightarrow> props | _ \<Rightarrow> [])"

definition schema_items :: "dict \<Rightarrow> dict option" where
  "schema_items schema = (case dict_get ''items'' schema of Some (JObj d) \<Rightarrow> Some d | _ \<Rightarrow> None)"

text \<open>The nested schemas are smaller.\<close>

lemma size_member: "v \<in> set xs \<Longrightarrow> f v < size_list f xs"
  by (induction xs) auto

definition schema_size :: "dict \<Rightarrow> nat" where
  "schema_size d = size (JObj d)"

lemma dict_get_size:
  assumes "dict_get k d = Some v" shows "size v < schema_size d"
proof -
  have "(k, v) \<in> set d" using assms by (auto simp: dict_get_def dest: map_of_SomeD)
  from size_member [OF this, of "size_prod (\<lambda>x. 0) size"] show ?thesis by (simp add: schema_size_def)
qed

lemma property_smaller:
  assumes "(k, JObj d) \<in> set (schema_properties schema)" shows "schema_size d < schema_size schema"
proof -
  obtain props where p: "dict_get ''properties'' schema = Some (JObj props)" "(k, JObj d) \<in> set props"
    using assms unfolding schema_properties_def by (force split: option.splits json.splits)
  have "size (JObj d) < size (JObj props)"
    using size_member [OF p(2), of "size_prod (\<lambda>x. 0) size"] by simp
  then show ?thesis using dict_get_size [OF p(1)] by (simp add: schema_size_def)
qed

lemma items_smaller: "schema_items schema = Some d \<Longrightarrow> schema_size d < schema_size schema"
  using dict_get_size [of "''items''" schema "JObj d"] by (auto simp: schema_items_def schema_size_def split: option.splits json.splits)

section \<open>The check\<close>

fun first_error :: "unit result list \<Rightarrow> unit result" where
  "first_error [] = Inr ()"
| "first_error (r # rs) = (case r of Inl e \<Rightarrow> Inl e | Inr _ \<Rightarrow> first_error rs)"

definition schema_error :: "string \<Rightarrow> unit result" where
  "schema_error text = Inl (ValueError text)"

definition need :: "bool \<Rightarrow> string \<Rightarrow> string \<Rightarrow> unit result" where
  "need ok location what = (if ok then Inr () else schema_error (location @ '' must be '' @ what))"

fun is_str :: "json \<Rightarrow> bool" where "is_str (JStr s) = True" | "is_str v = False"
fun is_bool :: "json \<Rightarrow> bool" where "is_bool (JBool b) = True" | "is_bool v = False"
fun is_int :: "json \<Rightarrow> bool" where "is_int (JInt i) = True" | "is_int v = False"
fun is_num :: "json \<Rightarrow> bool" where "is_num (JNum r) = True" | "is_num v = is_int v"

definition enum_check :: "(json \<Rightarrow> string) \<Rightarrow> dict \<Rightarrow> json \<Rightarrow> string \<Rightarrow> unit result" where
  "enum_check pstr schema v location =
     (if schema_enum schema = [] \<or> list_ex (py_eq v) (schema_enum schema) then Inr ()
      else schema_error (location @ '' must be one of '' @ pstr (JList (schema_enum schema))))"

definition required_check :: "(json \<Rightarrow> string) \<Rightarrow> dict \<Rightarrow> dict \<Rightarrow> string \<Rightarrow> unit result" where
  "required_check pstr schema d location =
     first_error (map (\<lambda>k. if dict_get k d = None then schema_error (location @ ''.'' @ k @ '' is required'') else Inr ())
       (schema_required pstr schema))"

function (sequential) validate_json_schema_value ::
  "(json \<Rightarrow> string) \<Rightarrow> dict \<Rightarrow> json \<Rightarrow> string \<Rightarrow> unit result" where
  "validate_json_schema_value pstr schema v location =
     (if schema = [] then Inr ()
      else bind_r (enum_check pstr schema v location) (\<lambda>_.
        if schema_type schema = ''object''
        then (case v of
          JObj d \<Rightarrow>
            bind_r (required_check pstr schema d location) (\<lambda>_.
            first_error (map (\<lambda>(k, sub). case (dict_get k d, sub) of
                (Some x, JObj sub_schema) \<Rightarrow> validate_json_schema_value pstr sub_schema x (location @ ''.'' @ k)
              | _ \<Rightarrow> Inr ()) (schema_properties schema)))
        | _ \<Rightarrow> schema_error (location @ '' must be an object''))
        else if schema_type schema = ''array''
        then (case v of
          JList xs \<Rightarrow>
            (case schema_items schema of
               None \<Rightarrow> Inr ()
             | Some item_schema \<Rightarrow>
                 first_error (map (\<lambda>(i, x). validate_json_schema_value pstr item_schema x
                     (location @ ''['' @ nat_digits i @ '']'')) (enumerate 0 xs)))
        | _ \<Rightarrow> schema_error (location @ '' must be an array''))
        else if schema_type schema = ''string'' then need (is_str v) location ''a string''
        else if schema_type schema = ''boolean'' then need (is_bool v) location ''a boolean''
        else if schema_type schema = ''integer'' then need (is_int v) location ''an integer''
        else if schema_type schema = ''number'' then need (is_num v) location ''a number''
        else if schema_type schema = ''null'' then need (v = JNull) location ''null''
        else Inr ()))"
  by pat_completeness auto
termination
  by (relation "measure (\<lambda>(pstr, schema, v, location). schema_size schema)")
     (auto intro: property_smaller items_smaller)

declare validate_json_schema_value.simps [simp del]

section \<open>The typing of configurations\<close>

text \<open>
  What the check means: a value is of a schema when it is one of the listed values, if any are listed, and has
  the named type; an object has the required keys, and every described key it has is of its schema. An unknown type
  and the empty schema accept everything.
\<close>

definition enum_ok :: "dict \<Rightarrow> json \<Rightarrow> bool" where
  "enum_ok schema v \<longleftrightarrow> schema_enum schema = [] \<or> (\<exists>x\<in>set (schema_enum schema). py_eq v x)"

inductive of_schema :: "(json \<Rightarrow> string) \<Rightarrow> dict \<Rightarrow> json \<Rightarrow> bool" for pstr where
  anything: "of_schema pstr [] v"
| object: "enum_ok schema (JObj d) \<Longrightarrow> schema_type schema = ''object'' \<Longrightarrow>
    \<forall>k\<in>set (schema_required pstr schema). dict_get k d \<noteq> None \<Longrightarrow>
    \<forall>k sub x. (k, JObj sub) \<in> set (schema_properties schema) \<and> dict_get k d = Some x \<longrightarrow> of_schema pstr sub x \<Longrightarrow>
    of_schema pstr schema (JObj d)"
| array: "enum_ok schema (JList xs) \<Longrightarrow> schema_type schema = ''array'' \<Longrightarrow>
    \<forall>sub. schema_items schema = Some sub \<longrightarrow> (\<forall>x\<in>set xs. of_schema pstr sub x) \<Longrightarrow>
    of_schema pstr schema (JList xs)"
| scalar: "enum_ok schema v \<Longrightarrow> schema_type schema \<noteq> ''object'' \<Longrightarrow> schema_type schema \<noteq> ''array'' \<Longrightarrow>
    (schema_type schema = ''string'' \<longrightarrow> is_str v) \<Longrightarrow> (schema_type schema = ''boolean'' \<longrightarrow> is_bool v) \<Longrightarrow>
    (schema_type schema = ''integer'' \<longrightarrow> is_int v) \<Longrightarrow> (schema_type schema = ''number'' \<longrightarrow> is_num v) \<Longrightarrow>
    (schema_type schema = ''null'' \<longrightarrow> v = JNull) \<Longrightarrow> of_schema pstr schema v"

lemma first_error_Cons: "first_error (r # rs) = Inr () \<longleftrightarrow> r = Inr () \<and> first_error rs = Inr ()"
  by (cases r) auto

lemma first_error_map: "first_error (map f xs) = Inr () \<longleftrightarrow> (\<forall>x\<in>set xs. f x = Inr ())"
  by (induction xs) (auto simp: first_error_Cons simp del: first_error.simps(2))

lemma enum_check_ok: "enum_check pstr schema v location = Inr () \<longleftrightarrow> enum_ok schema v"
  by (simp add: enum_check_def enum_ok_def schema_error_def Bex_set)

lemma required_check_ok:
  "required_check pstr schema d location = Inr () \<longleftrightarrow> (\<forall>k\<in>set (schema_required pstr schema). dict_get k d \<noteq> None)"
  by (simp add: required_check_def first_error_map schema_error_def)

lemma bind_ok: "bind_r m (\<lambda>_. f) = Inr () \<longleftrightarrow> m = Inr () \<and> f = (Inr () :: unit result)"
  by (cases m) auto

lemma bind_Inr: "bind_r m Inr = m"
  by (cases m) auto

lemma need_ok: "need ok location what = Inr () \<longleftrightarrow> ok"
  by (simp add: need_def schema_error_def)

inductive_simps of_schema_iff: "of_schema pstr schema v"

lemma properties_ok:
  "first_error (map (\<lambda>(k, sub). case (dict_get k d, sub) of
      (Some x, JObj sub_schema) \<Rightarrow> f k sub_schema x | _ \<Rightarrow> Inr ()) ps) = Inr () \<longleftrightarrow>
   (\<forall>k sub x. (k, JObj sub) \<in> set ps \<and> dict_get k d = Some x \<longrightarrow> f k sub x = Inr ())"
proof -
  have "(case (dict_get k d, sub) of (Some x, JObj sub_schema) \<Rightarrow> f k sub_schema x | _ \<Rightarrow> Inr ()) = Inr () \<longleftrightarrow>
      (\<forall>o' x. sub = JObj o' \<and> dict_get k d = Some x \<longrightarrow> f k o' x = Inr ())" for k sub
    by (cases "dict_get k d"; cases sub) simp_all
  then show ?thesis unfolding first_error_map by fastforce
qed

lemma items_ok:
  "first_error (map (\<lambda>(i, x). f i x) (enumerate n xs)) = Inr () \<longleftrightarrow> (\<forall>i<length xs. f (n + i) (xs ! i) = Inr ())"
proof (induction xs arbitrary: n)
  case (Cons x xs)
  have "first_error (map (\<lambda>(i, x). f i x) (enumerate n (x # xs))) = Inr () \<longleftrightarrow>
      f n x = Inr () \<and> (\<forall>i<length xs. f (Suc n + i) (xs ! i) = Inr ())"
    using Cons.IH [of "Suc n"] by (simp add: first_error_Cons del: first_error.simps(2))
  also have "\<dots> \<longleftrightarrow> (\<forall>i<length (x # xs). f (n + i) ((x # xs) ! i) = Inr ())"
    by (simp add: All_less_Suc2)
  finally show ?case .
qed simp

lemma object_check:
  assumes "schema \<noteq> []" "schema_type schema = ''object''"
  shows "validate_json_schema_value pstr schema (JObj d) location = Inr () \<longleftrightarrow>
    enum_check pstr schema (JObj d) location = Inr () \<and>
    (\<forall>k\<in>set (schema_required pstr schema). dict_get k d \<noteq> None) \<and>
    (\<forall>k sub x. (k, JObj sub) \<in> set (schema_properties schema) \<and> dict_get k d = Some x \<longrightarrow>
      validate_json_schema_value pstr sub x (location @ ''.'' @ k) = Inr ())"
  unfolding validate_json_schema_value.simps [of pstr schema "JObj d"]
  by (simp only: assms if_False if_True refl json.case bind_ok required_check_ok properties_ok)

lemma array_check:
  assumes "schema \<noteq> []" "schema_type schema = ''array''"
  shows "validate_json_schema_value pstr schema (JList xs) location = Inr () \<longleftrightarrow>
    enum_check pstr schema (JList xs) location = Inr () \<and>
    (\<forall>sub. schema_items schema = Some sub \<longrightarrow>
      (\<forall>i<length xs. validate_json_schema_value pstr sub (xs ! i) (location @ ''['' @ nat_digits i @ '']'') = Inr ()))"
proof (cases "schema_items schema")
  case None
  then show ?thesis using assms by (subst validate_json_schema_value.simps) (simp add: bind_Inr)
next
  case (Some sub)
  then show ?thesis
    using assms items_ok [of "\<lambda>i x. validate_json_schema_value pstr sub x (location @ ''['' @ nat_digits i @ '']'')" 0 xs]
    by (subst validate_json_schema_value.simps) (simp add: bind_ok)
qed

lemma wrong_kind:
  assumes "schema \<noteq> []" "schema_type schema = ''object'' \<and> (\<forall>d. v \<noteq> JObj d) \<or> schema_type schema = ''array'' \<and> (\<forall>xs. v \<noteq> JList xs)"
  shows "validate_json_schema_value pstr schema v location \<noteq> Inr () \<and> \<not> of_schema pstr schema v"
proof
  show "validate_json_schema_value pstr schema v location \<noteq> Inr ()"
    using assms by (subst validate_json_schema_value.simps) (auto simp: bind_ok schema_error_def split: json.splits)
  show "\<not> of_schema pstr schema v"
    using assms by (subst of_schema_iff) auto
qed

lemma scalar_ok:
  assumes "schema \<noteq> []" "schema_type schema \<noteq> ''object''" "schema_type schema \<noteq> ''array''"
  shows "validate_json_schema_value pstr schema v location = Inr () \<longleftrightarrow> of_schema pstr schema v"
  using assms enum_check_ok [of pstr schema v location]
  by (subst validate_json_schema_value.simps, subst of_schema_iff) (auto simp: bind_ok need_ok)

lemma schema_typing:
  "validate_json_schema_value pstr schema v location = Inr () \<longleftrightarrow> of_schema pstr schema v"
proof (induction "schema_size schema" arbitrary: schema v location rule: less_induct)
  case less
  consider (empty) "schema = []" | (object) "schema \<noteq> []" "schema_type schema = ''object''"
    | (array) "schema \<noteq> []" "schema_type schema = ''array''"
    | (scalar) "schema \<noteq> []" "schema_type schema \<noteq> ''object''" "schema_type schema \<noteq> ''array''" by blast
  then show ?case
  proof cases
    case empty
    then show ?thesis by (simp add: validate_json_schema_value.simps of_schema.anything)
  next
    case scalar
    then show ?thesis by (rule scalar_ok)
  next
    case object
    show ?thesis
    proof (cases v)
      case (JObj d)
      have "of_schema pstr schema v \<longleftrightarrow> enum_check pstr schema v location = Inr () \<and>
          (\<forall>k\<in>set (schema_required pstr schema). dict_get k d \<noteq> None) \<and>
          (\<forall>k sub x. (k, JObj sub) \<in> set (schema_properties schema) \<and> dict_get k d = Some x \<longrightarrow> of_schema pstr sub x)"
        using object enum_check_ok [of pstr schema v location] by (subst of_schema_iff) (auto simp: JObj)
      moreover have "(\<forall>k sub x. (k, JObj sub) \<in> set (schema_properties schema) \<and> dict_get k d = Some x \<longrightarrow>
            validate_json_schema_value pstr sub x (location @ ''.'' @ k) = Inr ()) \<longleftrightarrow>
          (\<forall>k sub x. (k, JObj sub) \<in> set (schema_properties schema) \<and> dict_get k d = Some x \<longrightarrow> of_schema pstr sub x)"
        using less property_smaller by (intro iff_allI imp_cong refl) blast
      ultimately show ?thesis
        unfolding JObj object_check [OF object] by (simp only:)
    qed (use wrong_kind [of schema v pstr location] object in simp_all)
  next
    case array
    show ?thesis
    proof (cases v)
      case (JList xs)
      have typed: "of_schema pstr schema v \<longleftrightarrow> enum_check pstr schema v location = Inr () \<and>
          (\<forall>sub. schema_items schema = Some sub \<longrightarrow> (\<forall>x\<in>set xs. of_schema pstr sub x))"
        using array enum_check_ok [of pstr schema v location] by (subst of_schema_iff) (auto simp: JList)
      have "(\<forall>i<length xs. validate_json_schema_value pstr sub (xs ! i) (location @ ''['' @ nat_digits i @ '']'') = Inr ()) \<longleftrightarrow>
          (\<forall>x\<in>set xs. of_schema pstr sub x)" if "schema_items schema = Some sub" for sub
        using less [OF items_smaller [OF that]] by (simp add: all_set_conv_all_nth)
      then show ?thesis using typed unfolding JList array_check [OF array] by simp
    qed (use wrong_kind [of schema v pstr location] array in simp_all)
  qed
qed

text \<open>Every refusal is a \<open>PluginSchemaValidationError\<close>.\<close>

lemma first_error_Inl: "first_error rs = Inl x \<Longrightarrow> Inl x \<in> set rs"
  by (induction rs) (auto split: sum.splits)

lemma schema_refusal: "validate_json_schema_value pstr schema v location = Inl x \<Longrightarrow> \<exists>t. x = ValueError t"
proof (induction "schema_size schema" arbitrary: schema v location rule: less_induct)
  case less
  have enum: "enum_check pstr schema v location = Inl x \<Longrightarrow> ?case" by (auto simp: enum_check_def schema_error_def split: if_splits)
  have req: "required_check pstr schema d location = Inl x \<Longrightarrow> ?case" for d
    by (auto simp: required_check_def schema_error_def dest!: first_error_Inl split: if_splits)
  have need: "need ok location what = Inl x \<Longrightarrow> ?case" for ok what by (auto simp: need_def schema_error_def split: if_splits)
  have object: ?case if "schema_type schema = ''object''" "schema \<noteq> []" "v = JObj d" for d
  proof -
    have "bind_r (enum_check pstr schema v location) (\<lambda>_. bind_r (required_check pstr schema d location) (\<lambda>_.
        first_error (map (\<lambda>(k, sub). case (dict_get k d, sub) of
            (Some x, JObj sub_schema) \<Rightarrow> validate_json_schema_value pstr sub_schema x (location @ ''.'' @ k)
          | _ \<Rightarrow> Inr ()) (schema_properties schema)))) = Inl x"
      using less.prems that by (subst (asm) validate_json_schema_value.simps) simp
    then consider "enum_check pstr schema v location = Inl x" | "required_check pstr schema d location = Inl x"
      | k sub where "(k, sub) \<in> set (schema_properties schema)"
          "Inl x = (case (dict_get k d, sub) of
            (Some x, JObj sub_schema) \<Rightarrow> validate_json_schema_value pstr sub_schema x (location @ ''.'' @ k) | _ \<Rightarrow> Inr ())"
      unfolding bind_r_eq_Inl by (auto dest!: first_error_Inl)
    then show ?thesis
    proof cases
      case (3 k sub)
      then obtain y sub' where "sub = JObj sub'" "Inl x = validate_json_schema_value pstr sub' y (location @ ''.'' @ k)"
        by (cases "dict_get k d"; cases sub) auto
      then show ?thesis using less.hyps [OF property_smaller, of k sub' y "location @ ''.'' @ k"] 3(1) by simp
    qed (use enum req in blast)+
  qed
  have array: ?case if "schema_type schema = ''array''" "schema \<noteq> []" "v = JList xs" for xs
  proof -
    have "bind_r (enum_check pstr schema v location) (\<lambda>_. case schema_items schema of None \<Rightarrow> Inr ()
        | Some item_schema \<Rightarrow> first_error (map (\<lambda>(i, x). validate_json_schema_value pstr item_schema x
                     (location @ ''['' @ nat_digits i @ '']'')) (enumerate 0 xs))) = Inl x"
      using less.prems that by (subst (asm) validate_json_schema_value.simps) simp
    then consider "enum_check pstr schema v location = Inl x"
      | sub i y where "schema_items schema = Some sub" "Inl x = validate_json_schema_value pstr sub y (location @ ''['' @ nat_digits i @ '']'')"
      unfolding bind_r_eq_Inl by (cases "schema_items schema") (auto dest!: first_error_Inl)
    then show ?thesis
    proof cases
      case (2 sub i y)
      then show ?thesis using less.hyps [OF items_smaller [OF 2(1)]] by metis
    qed (use enum in blast)
  qed
  show ?case
  proof (cases "schema = []")
    case True
    then show ?thesis using less.prems by (simp add: validate_json_schema_value.simps)
  next
    case ne: False
    note E = less.prems [unfolded validate_json_schema_value.simps [of pstr schema v location]]
    consider (obj) d where "schema_type schema = ''object''" "v = JObj d"
      | (arr) xs where "schema_type schema = ''array''" "v = JList xs"
      | (other) "schema_type schema = ''object'' \<and> (\<forall>d. v \<noteq> JObj d) \<or> schema_type schema = ''array'' \<and> (\<forall>xs. v \<noteq> JList xs)"
      | (scalar) "schema_type schema \<noteq> ''object''" "schema_type schema \<noteq> ''array''" by blast
    then show ?thesis
    proof cases
      case obj
      then show ?thesis using object ne by blast
    next
      case arr
      then show ?thesis using array ne by blast
    next
      case other
      then show ?thesis using E ne enum
        by (cases v) (auto simp: bind_r_eq_Inl schema_error_def)
    next
      case scalar
      then show ?thesis using E ne enum need by (auto simp: bind_r_eq_Inl split: if_splits)
    qed
  qed
qed

text \<open>
  C25. The check of a plugin's configuration succeeds exactly for the values that the schema types, at every place
  and for every nesting of objects and arrays.
\<close>

theorem schema_check_is_typing:
  "validate_json_schema_value pstr schema v location = Inr () \<longleftrightarrow> of_schema pstr schema v"
  by (rule schema_typing)

end
