(* ===== verification/Cron.thy ===== *)
theory Cron
  imports Json
begin

text \<open>
  The schedules of plugin events (\<open>services/plugins/manager/models.py\<close>): cron expressions and the next run. A time
  is a number of microseconds since the first of January of year 1; a zone converts between universal
  time and its wall clock (\<open>zoneinfo\<close>, an argument). Years after 9999 are out of the range of \<open>datetime\<close> and not
  treated.
\<close>

section \<open>Expressions\<close>

fun split_at :: "char \<Rightarrow> string \<Rightarrow> string list" where
  "split_at c [] = [[]]"
| "split_at c (x # xs) =
     (if x = c then [] # split_at c xs else case split_at c xs of [] \<Rightarrow> [[x]] | p # ps \<Rightarrow> (x # p) # ps)"

definition split_once :: "char \<Rightarrow> string \<Rightarrow> string \<times> string" where
  "split_once c t = (takeWhile (\<lambda>x. x \<noteq> c) t, tl (dropWhile (\<lambda>x. x \<noteq> c) t))"

text \<open>\<open>split()\<close> without an argument.\<close>

function py_words :: "string \<Rightarrow> string list" where
  "py_words t =
     (let u = dropWhile py_isspace t
      in if u = [] then [] else takeWhile (\<lambda>c. \<not> py_isspace c) u # py_words (dropWhile (\<lambda>c. \<not> py_isspace c) u))"
  by pat_completeness auto
termination
proof (relation "measure length")
  fix t u :: string
  assume u: "u = dropWhile py_isspace t" "u \<noteq> []"
  then obtain c cs where c: "u = c # cs" "\<not> py_isspace c" by (metis hd_dropWhile list.collapse)
  have "length (dropWhile (\<lambda>c. \<not> py_isspace c) u) \<le> length cs" using c by (simp add: length_dropWhile_le)
  also have "\<dots> < length u" by (simp add: c)
  also have "\<dots> \<le> length t" unfolding u(1) by (rule length_dropWhile_le)
  finally show "(dropWhile (\<lambda>c. \<not> py_isspace c) u, t) \<in> measure length" by simp
qed simp

declare py_words.simps [simp del]

definition cron_step :: "string \<Rightarrow> (string \<times> int) result" where
  "cron_step part =
     (if CHR ''/'' \<in> set part
      then bind_r (int_of_str (snd (split_once (CHR ''/'') part))) (\<lambda>step.
           if step < 1 then Inl (ValueError ''cron step must be positive'') else Inr (fst (split_once (CHR ''/'') part), step))
      else Inr (part, 1))"

definition cron_ends :: "string \<Rightarrow> int \<Rightarrow> int \<Rightarrow> (int \<times> int) result" where
  "cron_ends part minimum maximum =
     (if part = ''*'' then Inr (minimum, maximum)
      else if CHR ''-'' \<in> set part
      then bind_r (int_of_str (fst (split_once (CHR ''-'') part))) (\<lambda>start.
           bind_r (int_of_str (snd (split_once (CHR ''-'') part))) (\<lambda>stop. Inr (start, stop)))
      else bind_r (int_of_str part) (\<lambda>n. Inr (n, n)))"

definition cron_part :: "int \<Rightarrow> int \<Rightarrow> bool \<Rightarrow> string \<Rightarrow> int list result" where
  "cron_part minimum maximum sunday_alias raw_part =
     (if py_strip raw_part = [] then Inl (ValueError ''empty cron field'')
      else bind_r (cron_step (py_strip raw_part)) (\<lambda>(part, step).
           bind_r (cron_ends part minimum maximum) (\<lambda>(start, stop).
           if start < minimum \<or> maximum < start \<or> stop < minimum \<or> maximum < stop
           then Inl (ValueError ''cron field out of range'')
           else if stop < start then Inl (ValueError ''cron ranges must be ascending'')
           else let raw_values = filter (\<lambda>n. (n - start) mod step = 0) [start..stop]
                in Inr (if sunday_alias then map (\<lambda>n. if n = 7 then 0 else n) raw_values else raw_values))))"

fun cron_parts :: "int \<Rightarrow> int \<Rightarrow> bool \<Rightarrow> string list \<Rightarrow> int list result" where
  "cron_parts minimum maximum sunday_alias [] = Inr []"
| "cron_parts minimum maximum sunday_alias (p # ps) =
     bind_r (cron_part minimum maximum sunday_alias p) (\<lambda>vs.
     bind_r (cron_parts minimum maximum sunday_alias ps) (\<lambda>ws. Inr (vs @ ws)))"

definition parse_cron_field :: "string \<Rightarrow> int \<Rightarrow> int \<Rightarrow> bool \<Rightarrow> int list result" where
  "parse_cron_field value minimum maximum sunday_alias = cron_parts minimum maximum sunday_alias (split_at (CHR '','') value)"

record cron_fields =
  cf_minutes :: "int list"
  cf_hours :: "int list"
  cf_days :: "int list"
  cf_months :: "int list"
  cf_weekdays :: "int list"

definition parse_cron_fields :: "string list \<Rightarrow> cron_fields result" where
  "parse_cron_fields fs =
     bind_r (parse_cron_field (fs ! 0) 0 59 False) (\<lambda>m.
     bind_r (parse_cron_field (fs ! 1) 0 23 False) (\<lambda>h.
     bind_r (parse_cron_field (fs ! 2) 1 31 False) (\<lambda>d.
     bind_r (parse_cron_field (fs ! 3) 1 12 False) (\<lambda>mo.
     bind_r (parse_cron_field (fs ! 4) 0 7 True) (\<lambda>w.
     Inr \<lparr>cf_minutes = m, cf_hours = h, cf_days = d, cf_months = mo, cf_weekdays = w\<rparr>)))))"

definition validate_cron_expression :: "string \<Rightarrow> string result" where
  "validate_cron_expression expression =
     (let fs = py_words (py_strip expression)
      in if length fs \<noteq> 5 then Inl (ValueError ''cron expression must have 5 fields'')
         else bind_r (parse_cron_fields fs) (\<lambda>_. Inr (py_join '' '' fs)))"

section \<open>The calendar\<close>

definition month_lengths :: "bool \<Rightarrow> int list" where
  "month_lengths leap = [31, if leap then 29 else 28, 31, 30, 31, 30, 31, 31, 30, 31, 30, 31]"

fun in_month :: "int \<Rightarrow> int list \<Rightarrow> int \<Rightarrow> int \<times> int" where
  "in_month m [] n = (m, n + 1)"
| "in_month m (l # ls) n = (if n < l then (m, n + 1) else in_month (m + 1) ls (n - l))"

text \<open>
  Month and day of the day with this number, counted from 0 (\<open>date.fromordinal\<close>): cycles of 400, 100, 4 years
  and 1 year.
\<close>

definition month_day :: "int \<Rightarrow> int \<times> int" where
  "month_day days =
     (let n400 = days mod 146097; n100 = n400 div 36524; a = n400 mod 36524; n4 = a div 1461; b = a mod 1461;
          n1 = b div 365; n = b mod 365
      in if n1 = 4 \<or> n100 = 4 then (12, 31)
         else in_month 1 (month_lengths (n1 = 3 \<and> (n4 \<noteq> 24 \<or> n100 = 3))) n)"

definition day_number :: "time \<Rightarrow> int" where
  "day_number t = t div hours 24"

text \<open>\<open>(candidate.weekday() + 1) % 7\<close>: the first day of year 1 is a Monday, which is 1.\<close>

definition cron_weekday :: "time \<Rightarrow> int" where
  "cron_weekday t = (day_number t + 1) mod 7"

definition cron_matches :: "cron_fields \<Rightarrow> time \<Rightarrow> bool" where
  "cron_matches f t \<longleftrightarrow>
     (t div minutes 1) mod 60 \<in> set (cf_minutes f) \<and> (t div hours 1) mod 24 \<in> set (cf_hours f) \<and>
     snd (month_day (day_number t)) \<in> set (cf_days f) \<and> fst (month_day (day_number t)) \<in> set (cf_months f) \<and>
     cron_weekday t \<in> set (cf_weekdays f)"

section \<open>The next run\<close>

record zone =
  zo_local :: "time \<Rightarrow> time"
  zo_utc :: "time \<Rightarrow> time"

type_synonym zones = "string \<Rightarrow> zone option"

function cron_loop :: "cron_fields \<Rightarrow> time \<Rightarrow> time \<Rightarrow> time result" where
  "cron_loop f candidate deadline =
     (if candidate \<le> deadline
      then if cron_matches f candidate then Inr candidate else cron_loop f (candidate + minutes 1) deadline
      else Inl (ValueError ''cron expression has no run time in the next year''))"
  by pat_completeness auto
termination by (relation "measure (\<lambda>(f, candidate, deadline). nat (deadline - candidate + 1))") auto

declare cron_loop.simps [simp del]

definition first_candidate :: "zone \<Rightarrow> time \<Rightarrow> time" where
  "first_candidate z after = zo_local z after - zo_local z after mod minutes 1 + minutes 1"

definition next_cron_run :: "zones \<Rightarrow> string \<Rightarrow> time \<Rightarrow> string \<Rightarrow> time result" where
  "next_cron_run zs expression after timezone =
     bind_r (validate_cron_expression expression) (\<lambda>valid.
     bind_r (parse_cron_fields (py_words valid)) (\<lambda>f.
     case zs timezone of
       None \<Rightarrow> Inl (KeyError timezone)
     | Some z \<Rightarrow>
         bind_r (cron_loop f (first_candidate z after) (first_candidate z after + hours (24 * 366))) (\<lambda>t. Inr (zo_utc z t))))"

section \<open>Lemmas\<close>

lemma ex_nat_split: "(\<exists>k::nat. P k) \<longleftrightarrow> P 0 \<or> (\<exists>k. P (Suc k))"
  by (metis not0_implies_Suc)

lemma all_nat_split: "(\<forall>k::nat. P k) \<longleftrightarrow> P 0 \<and> (\<forall>k. P (Suc k))"
  by (metis not0_implies_Suc)

lemma cron_loop_Inr:
  "cron_loop f t d = Inr x \<longleftrightarrow>
   (\<exists>k. x = t + minutes (int k) \<and> x \<le> d \<and> cron_matches f x \<and> (\<forall>j<k. \<not> cron_matches f (t + minutes (int j))))"
proof (induction f t d rule: cron_loop.induct)
  case (1 f t d)
  show ?case
  proof (cases "t \<le> d \<and> \<not> cron_matches f t")
    case True
    then have "cron_loop f t d = Inr x \<longleftrightarrow> cron_loop f (t + minutes 1) d = Inr x" by (simp add: cron_loop.simps [of f t])
    also have "\<dots> \<longleftrightarrow> (\<exists>k. x = t + minutes (int (Suc k)) \<and> x \<le> d \<and> cron_matches f x \<and>
        (\<forall>j<k. \<not> cron_matches f (t + minutes (int (Suc j)))))"
      using 1 True by (simp add: algebra_simps)
    also have "\<dots> \<longleftrightarrow> (\<exists>k. x = t + minutes (int (Suc k)) \<and> x \<le> d \<and> cron_matches f x \<and>
        (\<forall>j<Suc k. \<not> cron_matches f (t + minutes (int j))))"
      using True by (simp add: All_less_Suc2)
    also have "\<dots> \<longleftrightarrow> (\<exists>k. x = t + minutes (int k) \<and> x \<le> d \<and> cron_matches f x \<and>
        (\<forall>j<k. \<not> cron_matches f (t + minutes (int j))))"
      using True unfolding ex_nat_split [of "\<lambda>k. x = t + minutes (int k) \<and> x \<le> d \<and> cron_matches f x \<and>
        (\<forall>j<k. \<not> cron_matches f (t + minutes (int j)))"] by auto
    finally show ?thesis .
  next
    case False
    show ?thesis
    proof (cases "t \<le> d")
      case True
      then have m: "cron_matches f t" using False by simp
      show ?thesis
      proof
        assume "cron_loop f t d = Inr x"
        then have "x = t" using True m by (simp add: cron_loop.simps [of f t])
        then show "\<exists>k. x = t + minutes (int k) \<and> x \<le> d \<and> cron_matches f x \<and> (\<forall>j<k. \<not> cron_matches f (t + minutes (int j)))"
          using True m by (intro exI [of _ 0]) simp
      next
        assume "\<exists>k. x = t + minutes (int k) \<and> x \<le> d \<and> cron_matches f x \<and> (\<forall>j<k. \<not> cron_matches f (t + minutes (int j)))"
        then obtain k where k: "x = t + minutes (int k)" "\<forall>j<k. \<not> cron_matches f (t + minutes (int j))" by blast
        have "k = 0" using k(2) m by (metis add.right_neutral mult_zero_left not_gr_zero of_nat_0)
        then show "cron_loop f t d = Inr x" using True m k(1) by (simp add: cron_loop.simps [of f t])
      qed
    qed (simp add: cron_loop.simps [of f t])
  qed
qed

lemma cron_loop_Inl:
  "cron_loop f t d = Inl e \<longleftrightarrow>
   e = ValueError ''cron expression has no run time in the next year'' \<and>
   (\<forall>k. t + minutes (int k) \<le> d \<longrightarrow> \<not> cron_matches f (t + minutes (int k)))"
proof (induction f t d rule: cron_loop.induct)
  case (1 f t d)
  show ?case
  proof (cases "t \<le> d \<and> \<not> cron_matches f t")
    case True
    then have "cron_loop f t d = Inl e \<longleftrightarrow> cron_loop f (t + minutes 1) d = Inl e" by (simp add: cron_loop.simps [of f t])
    also have "\<dots> \<longleftrightarrow> e = ValueError ''cron expression has no run time in the next year'' \<and>
        (\<forall>k. t + minutes (int (Suc k)) \<le> d \<longrightarrow> \<not> cron_matches f (t + minutes (int (Suc k))))"
      using 1 True by (simp add: algebra_simps)
    also have "\<dots> \<longleftrightarrow> e = ValueError ''cron expression has no run time in the next year'' \<and>
        (\<forall>k. t + minutes (int k) \<le> d \<longrightarrow> \<not> cron_matches f (t + minutes (int k)))"
      using True unfolding all_nat_split [of "\<lambda>k. t + minutes (int k) \<le> d \<longrightarrow> \<not> cron_matches f (t + minutes (int k))"] by simp
    finally show ?thesis .
  next
    case False
    then show ?thesis
      by (cases "t \<le> d") (auto simp: cron_loop.simps [of f t] intro: exI [of _ 0])
  qed
qed

lemma in_month_february:
  "fst (in_month 1 (month_lengths leap) n) = 2 \<Longrightarrow> snd (in_month 1 (month_lengths leap) n) \<le> 29"
  by (auto simp: month_lengths_def split: if_splits)

lemma month_day_february:
  assumes "fst (month_day n) = 2" shows "snd (month_day n) \<le> 29"
proof -
  have "month_day n = (12, 31) \<or> (\<exists>leap k. month_day n = in_month 1 (month_lengths leap) k)"
    unfolding month_day_def Let_def by (simp only: split: if_split) blast
  then show ?thesis using assms in_month_february by auto
qed

section \<open>Words\<close>

lemma py_words_space: "py_isspace c \<Longrightarrow> py_words (c # t) = py_words t"
  unfolding py_words.simps [of "c # t"] py_words.simps [of t] by simp

lemma py_words_text: "w \<in> set (py_words t) \<Longrightarrow> w \<noteq> [] \<and> (\<forall>c\<in>set w. \<not> py_isspace c)"
proof (induction t rule: py_words.induct)
  case (1 t)
  let ?u = "dropWhile py_isspace t"
  have u: "?u \<noteq> []" using 1(2) by (subst (asm) py_words.simps) (auto simp: Let_def split: if_splits)
  then have "py_words t = takeWhile (\<lambda>c. \<not> py_isspace c) ?u # py_words (dropWhile (\<lambda>c. \<not> py_isspace c) ?u)"
    by (subst py_words.simps) (simp only: Let_def if_False)
  then have "w = takeWhile (\<lambda>c. \<not> py_isspace c) ?u \<or> w \<in> set (py_words (dropWhile (\<lambda>c. \<not> py_isspace c) ?u))"
    using 1(2) by simp
  then show ?case
  proof
    assume w: "w = takeWhile (\<lambda>c. \<not> py_isspace c) ?u"
    have "\<not> py_isspace (hd ?u)" using u by (rule hd_dropWhile)
    then have "w \<noteq> []" using u unfolding w by (cases ?u) auto
    then show ?thesis using set_takeWhileD unfolding w by fast
  next
    assume "w \<in> set (py_words (dropWhile (\<lambda>c. \<not> py_isspace c) ?u))"
    then show ?thesis by (rule 1(1) [OF refl u])
  qed
qed

lemma py_words_Nil: "py_words [] = []"
  by (subst py_words.simps) simp

lemma py_words_word:
  assumes "w \<noteq> []" "\<forall>c\<in>set w. \<not> py_isspace c"
  shows "py_words (w @ t) = (if t = [] \<or> py_isspace (hd t) then w # py_words t else py_words (w @ t))"
proof (cases "t = [] \<or> py_isspace (hd t)")
  case True
  have "dropWhile py_isspace (w @ t) = w @ t" using assms by (cases w) auto
  moreover have "takeWhile (\<lambda>c. \<not> py_isspace c) (w @ t) = w" "dropWhile (\<lambda>c. \<not> py_isspace c) (w @ t) = t"
    using assms True by (cases t; auto simp: takeWhile_append dropWhile_append)+
  ultimately have "py_words (w @ t) = w # py_words t"
    using assms(1) by (subst py_words.simps) (simp only: Let_def append_is_Nil_conv simp_thms if_False)
  then show ?thesis using True by simp
qed simp

lemma py_words_join:
  "\<forall>w\<in>set ws. w \<noteq> [] \<and> (\<forall>c\<in>set w. \<not> py_isspace c) \<Longrightarrow> py_words (py_join '' '' ws) = ws"
proof (induction ws)
  case Nil
  show ?case by (simp add: py_words_Nil)
next
  case (Cons w ws)
  have w: "w \<noteq> []" "\<forall>c\<in>set w. \<not> py_isspace c" using Cons.prems by auto
  have space: "py_isspace CHR '' ''" by code_simp
  show ?case
  proof (cases ws)
    case Nil
    then show ?thesis using py_words_word [OF w, of "[]"] by (simp add: py_words_Nil)
  next
    case (Cons v vs)
    have "py_words (w @ '' '' @ py_join '' '' ws) = w # py_words (py_join '' '' ws)"
      using py_words_word [OF w, of "'' '' @ py_join '' '' ws"] space by (simp add: py_words_space)
    then show ?thesis using Cons.IH Cons.prems by (simp add: Cons)
  qed
qed

lemma validate_cron_parts:
  assumes "validate_cron_expression e = Inr v"
  shows "\<exists>f. parse_cron_fields (py_words (py_strip e)) = Inr f \<and> parse_cron_fields (py_words v) = Inr f"
proof -
  obtain f where f: "parse_cron_fields (py_words (py_strip e)) = Inr f" "v = py_join '' '' (py_words (py_strip e))"
    using assms by (auto simp: validate_cron_expression_def Let_def bind_r_eq_Inr split: if_splits)
  have "py_words v = py_words (py_strip e)" unfolding f(2) by (rule py_words_join) (use py_words_text in blast)
  then show ?thesis using f(1) by simp
qed

section \<open>Properties\<close>


definition utc_zones :: zones where
  "utc_zones = (\<lambda>name. if name = ''UTC'' then Some \<lparr>zo_local = id, zo_utc = id\<rparr> else None)"


end
