(* ===== verification/Plugins.thy ===== *)
theory Plugins
  imports Wakeups PluginSchema Cron
begin

text \<open>
  What users do with plugins (\<open>services/plugins/service/access_mixin.py\<close>, \<open>user_mixin.py\<close>): visibility,
  configurations of users and chat groups, schedules, and the bindings that say where a plugin may wake a conversation.
  The settings check that a plugin brings along, the text of a JSON value, and the time zones are arguments.
\<close>

section \<open>Arguments and the manager's memory\<close>

text \<open>
  \<open>validate_plugin_settings\<close> runs code of the plugin in the server: it raises (the text is on the left) or
  returns a message or nothing. It is given plugin, version, both configurations, and the user or the chat group.
\<close>

record plugin_env =
  px_settings_check :: "plugin_row \<Rightarrow> plugin_version_row \<Rightarrow> dict \<Rightarrow> dict \<Rightarrow> id option \<Rightarrow> id option \<Rightarrow> string + string option"
  px_text :: "json \<Rightarrow> string"
  px_zones :: zones

text \<open>Plugin, event, kind of scope and scope.\<close>

type_synonym run_key = "id \<times> string \<times> string \<times> id"

text \<open>A running event: its key and what its process was given.\<close>

record submission =
  sb_key :: run_key
  sb_function_name :: string
  sb_plugin_config :: dict
  sb_event_config :: dict
  sb_scope_config :: dict
  sb_user_id :: "id option"

record plugin_manager =
  pm_next_run :: "run_key \<Rightarrow> time option"
  pm_futures :: "submission list"

section \<open>Access\<close>

definition require_bootstrap_admin :: "string \<Rightarrow> user_row \<Rightarrow> unit result" where
  "require_bootstrap_admin admin u =
     (if u_username u \<noteq> admin then Inl (HTTPException 403 ''Only bootstrap admin can manage plugin visibility'') else Inr ())"

definition member_group_ids :: "session \<Rightarrow> id \<Rightarrow> id list" where
  "member_group_ids s user_id = map gm_group_id (filter (\<lambda>m. gm_user_id m = user_id) (group_members s))"

definition visibility_overrides :: "session \<Rightarrow> id \<Rightarrow> id list \<Rightarrow> bool list" where
  "visibility_overrides s plugin_id group_ids =
     map gv_is_visible (filter (\<lambda>v. gv_plugin_id v = plugin_id \<and> gv_group_id v \<in> set group_ids) (plugin_group_visibilities s))"

definition resolve_plugin_visibility :: "plugin_row \<Rightarrow> bool list \<Rightarrow> bool" where
  "resolve_plugin_visibility p overrides = (if overrides \<noteq> [] then list_ex id overrides else p_is_globally_visible p)"

definition plugin_visible :: "session \<Rightarrow> plugin_row \<Rightarrow> id \<Rightarrow> bool" where
  "plugin_visible s p user_id = resolve_plugin_visibility p (visibility_overrides s (p_id p) (member_group_ids s user_id))"

definition require_plugin :: "session \<Rightarrow> id \<Rightarrow> plugin_row result" where
  "require_plugin s plugin_id =
     (case row_get p_id plugin_id (plugins s) of None \<Rightarrow> Inl (HTTPException 404 ''Plugin not found'') | Some p \<Rightarrow> Inr p)"

definition require_user_visible_plugin :: "session \<Rightarrow> user_row \<Rightarrow> id \<Rightarrow> plugin_row result" where
  "require_user_visible_plugin s u plugin_id =
     bind_r (require_plugin s plugin_id) (\<lambda>p.
     if plugin_visible s p (u_id u) then Inr p else Inl (HTTPException 404 ''Plugin not found''))"

definition is_room_admin :: "session \<Rightarrow> id \<Rightarrow> id \<Rightarrow> bool" where
  "is_room_admin s room_id user_id =
     (case List.find (\<lambda>m. mb_room_id m = room_id \<and> mb_user_id m = user_id) (room_members s) of
        None \<Rightarrow> False | Some m \<Rightarrow> mb_member_role m = ''admin'')"

definition require_user_can_manage_chat_group :: "session \<Rightarrow> user_row \<Rightarrow> id \<Rightarrow> room_row result" where
  "require_user_can_manage_chat_group s u chat_group_id =
     (case row_get rm_id chat_group_id (rooms s) of
        None \<Rightarrow> Inl (HTTPException 404 ''Chat group not found'')
      | Some r \<Rightarrow>
          if rm_owner_user_id r = u_id u \<or> is_room_admin s chat_group_id (u_id u) then Inr r
          else Inl (HTTPException 403 ''Chat group management denied''))"

definition require_user_can_bind_target :: "session \<Rightarrow> user_row \<Rightarrow> string \<Rightarrow> id \<Rightarrow> unit result" where
  "require_user_can_bind_target s u target_type target_id =
     (if target_type = ''cocoon''
      then (case row_get c_id target_id (cocoons s) of
              None \<Rightarrow> Inl (HTTPException 404 ''Cocoon not found'')
            | Some c \<Rightarrow> if c_owner_user_id c \<noteq> u_id u then Inl (HTTPException 403 ''Only the cocoon owner can bind plugins'') else Inr ())
      else bind_r (require_user_can_manage_chat_group s u target_id) (\<lambda>_. Inr ()))"

definition scope_for_binding_target :: "session \<Rightarrow> user_row \<Rightarrow> string \<Rightarrow> id \<Rightarrow> (string \<times> id) result" where
  "scope_for_binding_target s u target_type target_id =
     (if target_type = ''cocoon''
      then (case row_get c_id target_id (cocoons s) of
              None \<Rightarrow> Inl (HTTPException 404 ''Cocoon not found'') | Some c \<Rightarrow> Inr (''user'', c_owner_user_id c))
      else bind_r (require_user_can_manage_chat_group s u target_id) (\<lambda>_. Inr (''chat_group'', target_id)))"

fun ok_of :: "'a result \<Rightarrow> bool" where
  "ok_of (Inl e) = False"
| "ok_of (Inr x) = True"

definition can_user_manage_binding_target :: "session \<Rightarrow> user_row \<Rightarrow> plugin_binding_row \<Rightarrow> bool" where
  "can_user_manage_binding_target s u b =
     (if pb_scope_type b = ''user'' \<and> pb_scope_id b \<noteq> u_id u then False
      else if pb_scope_type b = ''chat_group'' then ok_of (require_user_can_manage_chat_group s u (pb_scope_id b))
      else ok_of (require_user_can_bind_target s u (pb_target_type b) (pb_target_id b)))"

record binding_out =
  bo_binding :: plugin_binding_row
  bo_target_name :: string

definition serialize_target_binding :: "session \<Rightarrow> plugin_binding_row \<Rightarrow> binding_out" where
  "serialize_target_binding s b =
     \<lparr>bo_binding = b,
      bo_target_name =
        (if pb_target_type b = ''cocoon''
         then (case row_get c_id (pb_target_id b) (cocoons s) of None \<Rightarrow> pb_target_id b | Some c \<Rightarrow> c_name c)
         else if pb_target_type b = ''chat_group''
         then (case row_get rm_id (pb_target_id b) (rooms s) of None \<Rightarrow> pb_target_id b | Some r \<Rightarrow> rm_name r)
         else pb_target_id b)\<rparr>"

section \<open>Configurations\<close>

definition find_user_config :: "session \<Rightarrow> id \<Rightarrow> id \<Rightarrow> plugin_user_config_row option" where
  "find_user_config s plugin_id user_id =
     List.find (\<lambda>c. pu_plugin_id c = plugin_id \<and> pu_user_id c = user_id) (plugin_user_configs s)"

definition ensure_user_config :: "session \<Rightarrow> plugin_row \<Rightarrow> id \<Rightarrow> plugin_user_config_row \<times> session" where
  "ensure_user_config s p user_id =
     (case find_user_config s (p_id p) user_id of
        Some c \<Rightarrow> (c, s)
      | None \<Rightarrow>
          let c = \<lparr>pu_id = new_id s, pu_plugin_id = p_id p, pu_user_id = user_id, pu_is_enabled = True,
                   pu_config = p_user_default_config p, pu_validation_error_text = None, pu_validation_error_at = None,
                   pu_runtime_error_text = None, pu_runtime_error_at = None\<rparr>
          in (c, (take_id s)\<lparr>plugin_user_configs := row_add c (plugin_user_configs s)\<rparr>))"

definition find_user_event :: "session \<Rightarrow> id \<Rightarrow> id \<Rightarrow> string \<Rightarrow> plugin_user_event_row option" where
  "find_user_event s plugin_id user_id event_name =
     List.find (\<lambda>c. ue_plugin_id c = plugin_id \<and> ue_user_id c = user_id \<and> ue_event_name c = event_name) (plugin_user_events s)"

definition ensure_user_event_config :: "session \<Rightarrow> id \<Rightarrow> id \<Rightarrow> string \<Rightarrow> plugin_user_event_row \<times> session" where
  "ensure_user_event_config s plugin_id user_id event_name =
     (case find_user_event s plugin_id user_id event_name of
        Some c \<Rightarrow> (c, s)
      | None \<Rightarrow>
          let c = \<lparr>ue_id = new_id s, ue_plugin_id = plugin_id, ue_user_id = user_id, ue_event_name = event_name,
                   ue_schedule_mode = ''manual'', ue_schedule_interval_seconds = None, ue_schedule_cron = None\<rparr>
          in (c, (take_id s)\<lparr>plugin_user_events := row_add c (plugin_user_events s)\<rparr>))"

definition find_group_config :: "session \<Rightarrow> id \<Rightarrow> id \<Rightarrow> plugin_group_config_row option" where
  "find_group_config s plugin_id chat_group_id =
     List.find (\<lambda>c. pg_plugin_id c = plugin_id \<and> pg_chat_group_id c = chat_group_id) (plugin_group_configs s)"

definition ensure_chat_group_config :: "session \<Rightarrow> plugin_row \<Rightarrow> id \<Rightarrow> plugin_group_config_row \<times> session" where
  "ensure_chat_group_config s p chat_group_id =
     (case find_group_config s (p_id p) chat_group_id of
        Some c \<Rightarrow> (c, s)
      | None \<Rightarrow>
          let c = \<lparr>pg_id = new_id s, pg_plugin_id = p_id p, pg_chat_group_id = chat_group_id, pg_is_enabled = True,
                   pg_config = p_user_default_config p, pg_validation_error_text = None, pg_validation_error_at = None,
                   pg_runtime_error_text = None, pg_runtime_error_at = None\<rparr>
          in (c, (take_id s)\<lparr>plugin_group_configs := row_add c (plugin_group_configs s)\<rparr>))"

text \<open>Changing a stored row, which is also the row that is returned.\<close>

definition put_user_config ::
  "session \<Rightarrow> plugin_user_config_row \<Rightarrow> (plugin_user_config_row \<Rightarrow> plugin_user_config_row) \<Rightarrow> plugin_user_config_row \<times> session" where
  "put_user_config s c f = (f c, s\<lparr>plugin_user_configs := row_put pu_id (pu_id c) f (plugin_user_configs s)\<rparr>)"

definition put_group_config ::
  "session \<Rightarrow> plugin_group_config_row \<Rightarrow> (plugin_group_config_row \<Rightarrow> plugin_group_config_row) \<Rightarrow> plugin_group_config_row \<times> session" where
  "put_group_config s c f = (f c, s\<lparr>plugin_group_configs := row_put pg_id (pg_id c) f (plugin_group_configs s)\<rparr>)"

text \<open>The message of the plugin's own check, when it has one and the check complains.\<close>

definition settings_message :: "plugin_env \<Rightarrow> session \<Rightarrow> plugin_row \<Rightarrow> dict \<Rightarrow> id option \<Rightarrow> id option \<Rightarrow> string option" where
  "settings_message e s p config user_id chat_group_id =
     (if \<not> truthy (p_settings_validation_function_name p) \<or> \<not> truthy (p_active_version_id p) then None
      else case row_get plv_id (str_of (p_active_version_id p)) (plugin_versions s) of
        None \<Rightarrow> None
      | Some v \<Rightarrow>
          let message = (case px_settings_check e p v (p_config p) config user_id chat_group_id of Inl t \<Rightarrow> Some t | Inr m \<Rightarrow> m)
          in if truthy message then message else None)"

definition refresh_user_config_validation ::
  "plugin_env \<Rightarrow> session \<Rightarrow> plugin_row \<Rightarrow> plugin_user_config_row \<Rightarrow> plugin_user_config_row \<times> session" where
  "refresh_user_config_validation e s p c =
     (let message = settings_message e s p (pu_config c) (Some (pu_user_id c)) None
      in put_user_config s c (\<lambda>c. c\<lparr>pu_validation_error_text := message,
           pu_validation_error_at := (if message = None then None else Some (utcnow s))\<rparr>))"

definition refresh_chat_group_config_validation ::
  "plugin_env \<Rightarrow> session \<Rightarrow> plugin_row \<Rightarrow> plugin_group_config_row \<Rightarrow> plugin_group_config_row \<times> session" where
  "refresh_chat_group_config_validation e s p c =
     (let message = settings_message e s p (pg_config c) None (Some (pg_chat_group_id c))
      in put_group_config s c (\<lambda>c. c\<lparr>pg_validation_error_text := message,
           pg_validation_error_at := (if message = None then None else Some (utcnow s))\<rparr>))"

definition validate_config_payload :: "plugin_env \<Rightarrow> dict \<Rightarrow> dict \<Rightarrow> string \<Rightarrow> unit result" where
  "validate_config_payload e schema payload location =
     (case validate_json_schema_value (px_text e) schema (JObj payload) location of
        Inl (ValueError t) \<Rightarrow> Inl (HTTPException 400 t) | r \<Rightarrow> r)"

section \<open>What a user sees\<close>

record user_event_out =
  uv_event :: plugin_event_row
  uv_schedule_mode :: string
  uv_schedule_interval_seconds :: "int option"
  uv_schedule_cron :: "string option"

record user_plugin_out =
  uo_plugin :: plugin_row
  uo_is_visible :: bool
  uo_is_enabled :: bool
  uo_user_config :: dict
  uo_error_text :: "string option"
  uo_error_at :: "time option"
  uo_events :: "user_event_out list"

definition last_such :: "('r \<Rightarrow> bool) \<Rightarrow> 'r list \<Rightarrow> 'r option" where
  "last_such P rows = List.find P (rev rows)"

definition serialize_event :: "session \<Rightarrow> id \<Rightarrow> id \<Rightarrow> plugin_event_row \<Rightarrow> user_event_out" where
  "serialize_event s plugin_id user_id ev =
     (case last_such (\<lambda>c. ue_plugin_id c = plugin_id \<and> ue_user_id c = user_id \<and> ue_event_name c = pev_name ev) (plugin_user_events s) of
        None \<Rightarrow> \<lparr>uv_event = ev, uv_schedule_mode = ''manual'', uv_schedule_interval_seconds = None, uv_schedule_cron = None\<rparr>
      | Some c \<Rightarrow> \<lparr>uv_event = ev, uv_schedule_mode = ue_schedule_mode c,
                  uv_schedule_interval_seconds = ue_schedule_interval_seconds c, uv_schedule_cron = ue_schedule_cron c\<rparr>)"

definition or_time :: "time option \<Rightarrow> time option \<Rightarrow> time option" where
  "or_time a b = (case a of Some t \<Rightarrow> Some t | None \<Rightarrow> b)"

definition serialize_user_plugin ::
  "session \<Rightarrow> plugin_row \<Rightarrow> user_row \<Rightarrow> plugin_user_config_row option \<Rightarrow> bool list \<Rightarrow> user_plugin_out" where
  "serialize_user_plugin s p u user_config overrides =
     \<lparr>uo_plugin = p, uo_is_visible = resolve_plugin_visibility p overrides,
      uo_is_enabled = (case user_config of None \<Rightarrow> True | Some c \<Rightarrow> pu_is_enabled c),
      uo_user_config = (case user_config of None \<Rightarrow> p_user_default_config p | Some c \<Rightarrow> pu_config c),
      uo_error_text = (case user_config of None \<Rightarrow> None | Some c \<Rightarrow> or_opt (pu_validation_error_text c) (pu_runtime_error_text c)),
      uo_error_at = (case user_config of None \<Rightarrow> None | Some c \<Rightarrow> or_time (pu_validation_error_at c) (pu_runtime_error_at c)),
      uo_events =
        (if truthy (p_active_version_id p)
         then map (serialize_event s (p_id p) (u_id u))
                (filter (\<lambda>ev. pev_plugin_id ev = p_id p \<and> pev_plugin_version_id ev = str_of (p_active_version_id p)) (plugin_event_defs s))
         else [])\<rparr>"

definition overrides_for :: "session \<Rightarrow> plugin_row \<Rightarrow> user_row \<Rightarrow> bool list" where
  "overrides_for s p u = visibility_overrides s (p_id p) (member_group_ids s (u_id u))"

definition list_plugins_for_user :: "session \<Rightarrow> user_row \<Rightarrow> user_plugin_out list" where
  "list_plugins_for_user s u =
     map (\<lambda>p. serialize_user_plugin s p u
            (last_such (\<lambda>c. pu_user_id c = u_id u \<and> pu_plugin_id c = p_id p) (plugin_user_configs s)) (overrides_for s p u))
       (filter (\<lambda>p. plugin_visible s p (u_id u)) (sort_key p_created_at (plugins s)))"

definition get_plugin_for_user :: "session \<Rightarrow> user_row \<Rightarrow> id \<Rightarrow> user_plugin_out result" where
  "get_plugin_for_user s u plugin_id =
     bind_r (require_user_visible_plugin s u plugin_id) (\<lambda>p.
     Inr (serialize_user_plugin s p u (find_user_config s (p_id p) (u_id u)) (overrides_for s p u)))"

text \<open>The four requests that change the user's own configuration share their frame.\<close>

definition change_user_config ::
  "session \<Rightarrow> user_row \<Rightarrow> plugin_row \<Rightarrow> (session \<Rightarrow> plugin_user_config_row \<Rightarrow> plugin_user_config_row \<times> session) \<Rightarrow>
     user_plugin_out \<times> session" where
  "change_user_config s u p f =
     (let (c, s1) = ensure_user_config s p (u_id u); (c', s2) = f s1 c
      in (serialize_user_plugin s2 p u (Some c') (overrides_for s p u), s2))"

definition set_plugin_enabled_for_user :: "session \<Rightarrow> user_row \<Rightarrow> id \<Rightarrow> bool \<Rightarrow> (user_plugin_out \<times> session) result" where
  "set_plugin_enabled_for_user s u plugin_id enabled =
     bind_r (require_user_visible_plugin s u plugin_id) (\<lambda>p.
     Inr (change_user_config s u p (\<lambda>s c. put_user_config s c (\<lambda>c. c\<lparr>pu_is_enabled := enabled\<rparr>))))"

definition update_user_plugin_config ::
  "plugin_env \<Rightarrow> session \<Rightarrow> user_row \<Rightarrow> id \<Rightarrow> dict \<Rightarrow> (user_plugin_out \<times> session) result" where
  "update_user_plugin_config e s u plugin_id config =
     bind_r (require_user_visible_plugin s u plugin_id) (\<lambda>p.
     bind_r (validate_config_payload e (p_user_config_schema p) config ''plugin_user_config'') (\<lambda>_.
     Inr (change_user_config s u p (\<lambda>s c.
       let (c1, s1) = put_user_config s c (\<lambda>c. c\<lparr>pu_config := config\<rparr>) in refresh_user_config_validation e s1 p c1))))"

definition validate_user_plugin_config :: "plugin_env \<Rightarrow> session \<Rightarrow> user_row \<Rightarrow> id \<Rightarrow> (user_plugin_out \<times> session) result" where
  "validate_user_plugin_config e s u plugin_id =
     bind_r (require_user_visible_plugin s u plugin_id) (\<lambda>p.
     Inr (change_user_config s u p (\<lambda>s c. refresh_user_config_validation e s p c)))"

definition clear_user_plugin_error :: "session \<Rightarrow> user_row \<Rightarrow> id \<Rightarrow> (user_plugin_out \<times> session) result" where
  "clear_user_plugin_error s u plugin_id =
     bind_r (require_user_visible_plugin s u plugin_id) (\<lambda>p.
     Inr (change_user_config s u p (\<lambda>s c.
       put_user_config s c (\<lambda>c. c\<lparr>pu_runtime_error_text := None, pu_runtime_error_at := None\<rparr>))))"

section \<open>Schedules\<close>

definition get_active_event_definition :: "session \<Rightarrow> plugin_row \<Rightarrow> string \<Rightarrow> plugin_event_row result" where
  "get_active_event_definition s p event_name =
     (if \<not> truthy (p_active_version_id p) then Inl (HTTPException 400 ''Plugin has no active version'')
      else case List.find (\<lambda>ev. pev_plugin_id ev = p_id p \<and> pev_plugin_version_id ev = str_of (p_active_version_id p) \<and>
                             pev_name ev = event_name) (plugin_event_defs s) of
             None \<Rightarrow> Inl (HTTPException 404 ''Plugin event not found'') | Some ev \<Rightarrow> Inr ev)"

text \<open>\<open>PluginRuntimeManager.update_short_lived_schedule\<close>; \<open>now\<close> is the clock.\<close>

definition update_short_lived_schedule ::
  "plugin_env \<Rightarrow> time \<Rightarrow> plugin_manager \<Rightarrow> run_key \<Rightarrow> string \<Rightarrow> int option \<Rightarrow> string option \<Rightarrow> string option \<Rightarrow>
     plugin_manager result" where
  "update_short_lived_schedule e now m key schedule_mode interval_seconds cron_expression timezone =
     (if schedule_mode = ''interval'' \<and> interval_seconds \<noteq> None \<and> the interval_seconds \<noteq> 0
      then Inr (m\<lparr>pm_next_run := (pm_next_run m)(key \<mapsto> now + seconds (max (the interval_seconds) 1))\<rparr>)
      else if schedule_mode = ''cron'' \<and> truthy cron_expression
      then bind_r (next_cron_run (px_zones e) (str_of cron_expression) now (or_else timezone ''UTC'')) (\<lambda>t.
           Inr (m\<lparr>pm_next_run := (pm_next_run m)(key \<mapsto> t)\<rparr>))
      else Inr (m\<lparr>pm_next_run := (pm_next_run m)(key := None)\<rparr>))"

definition schedule_checked ::
  "session \<Rightarrow> user_row \<Rightarrow> id \<Rightarrow> string \<Rightarrow> string \<Rightarrow> int option \<Rightarrow> string option \<Rightarrow> (plugin_row \<times> string option) result" where
  "schedule_checked s u plugin_id event_name schedule_mode interval_seconds cron_expression =
     bind_r (require_user_visible_plugin s u plugin_id) (\<lambda>p.
     bind_r (get_active_event_definition s p event_name) (\<lambda>ev.
     if pev_mode ev \<noteq> ''short_lived'' then Inl (HTTPException 400 ''Only short-lived events can be scheduled'')
     else if schedule_mode \<notin> {''manual'', ''interval'', ''cron''} then Inl (HTTPException 400 ''Invalid schedule_mode'')
     else if schedule_mode = ''interval'' \<and> (interval_seconds = None \<or> interval_seconds = Some 0)
     then Inl (HTTPException 400 ''schedule_interval_seconds is required'')
     else if schedule_mode = ''cron''
     then (case validate_cron_expression (str_of cron_expression) of
             Inl (ValueError t) \<Rightarrow> Inl (HTTPException 400 t)
           | Inl x \<Rightarrow> Inl x
           | Inr v \<Rightarrow> Inr (p, Some v))
     else Inr (p, None)))"

text \<open>
  The row is committed before the manager is told; an exception of the manager leaves it stored. The second
  component is what is stored in the end.
\<close>

definition update_user_event_schedule ::
  "plugin_env \<Rightarrow> session \<Rightarrow> plugin_manager \<Rightarrow> user_row \<Rightarrow> id \<Rightarrow> string \<Rightarrow> string \<Rightarrow> int option \<Rightarrow> string option \<Rightarrow>
     user_plugin_out result \<times> session \<times> plugin_manager" where
  "update_user_event_schedule e s m u plugin_id event_name schedule_mode interval_seconds cron_expression =
     (case schedule_checked s u plugin_id event_name schedule_mode interval_seconds cron_expression of
        Inl x \<Rightarrow> (Inl x, s, m)
      | Inr (p, normalized_cron) \<Rightarrow>
          let (c, s1) = ensure_user_event_config s plugin_id (u_id u) event_name;
              interval = (if schedule_mode = ''interval'' then interval_seconds else None);
              f = (\<lambda>c. c\<lparr>ue_schedule_mode := schedule_mode, ue_schedule_interval_seconds := interval, ue_schedule_cron := normalized_cron\<rparr>);
              s2 = s1\<lparr>plugin_user_events := row_put ue_id (ue_id c) f (plugin_user_events s1)\<rparr>
          in case update_short_lived_schedule e (utcnow s) m (plugin_id, event_name, ''user'', u_id u) schedule_mode interval
                    normalized_cron (Some (u_timezone u)) of
               Inl x \<Rightarrow> (Inl x, s2, m)
             | Inr m1 \<Rightarrow>
                 let (uc, s3) = ensure_user_config s2 p (u_id u)
                 in (Inr (serialize_user_plugin s3 p u (Some uc) (overrides_for s p u)), s3, m1))"

section \<open>Chat groups\<close>

record group_plugin_out =
  go_plugin :: plugin_row
  go_chat_group_id :: id
  go_is_enabled :: bool
  go_config :: dict
  go_error_text :: "string option"
  go_error_at :: "time option"

definition serialize_chat_group_plugin_config :: "plugin_row \<Rightarrow> plugin_group_config_row \<Rightarrow> group_plugin_out" where
  "serialize_chat_group_plugin_config p c =
     \<lparr>go_plugin = p, go_chat_group_id = pg_chat_group_id c, go_is_enabled = pg_is_enabled c, go_config = pg_config c,
      go_error_text = or_opt (pg_validation_error_text c) (pg_runtime_error_text c),
      go_error_at = or_time (pg_validation_error_at c) (pg_runtime_error_at c)\<rparr>"

text \<open>The checks of visibility and management, which all five requests of a chat group share.\<close>

definition managed_plugin :: "session \<Rightarrow> user_row \<Rightarrow> id \<Rightarrow> id \<Rightarrow> plugin_row result" where
  "managed_plugin s u plugin_id chat_group_id =
     bind_r (require_user_visible_plugin s u plugin_id) (\<lambda>p.
     bind_r (require_user_can_manage_chat_group s u chat_group_id) (\<lambda>_. Inr p))"

definition change_group_config ::
  "session \<Rightarrow> id \<Rightarrow> plugin_row \<Rightarrow> (session \<Rightarrow> plugin_group_config_row \<Rightarrow> plugin_group_config_row \<times> session) \<Rightarrow>
     group_plugin_out \<times> session" where
  "change_group_config s chat_group_id p f =
     (let (c, s1) = ensure_chat_group_config s p chat_group_id; (c', s2) = f s1 c
      in (serialize_chat_group_plugin_config p c', s2))"

definition get_chat_group_plugin_config :: "session \<Rightarrow> user_row \<Rightarrow> id \<Rightarrow> id \<Rightarrow> (group_plugin_out \<times> session) result" where
  "get_chat_group_plugin_config s u plugin_id chat_group_id =
     bind_r (managed_plugin s u plugin_id chat_group_id) (\<lambda>p. Inr (change_group_config s chat_group_id p (\<lambda>s c. (c, s))))"

definition set_chat_group_plugin_enabled :: "session \<Rightarrow> user_row \<Rightarrow> id \<Rightarrow> id \<Rightarrow> bool \<Rightarrow> (group_plugin_out \<times> session) result" where
  "set_chat_group_plugin_enabled s u plugin_id chat_group_id enabled =
     bind_r (managed_plugin s u plugin_id chat_group_id) (\<lambda>p.
     Inr (change_group_config s chat_group_id p (\<lambda>s c. put_group_config s c (\<lambda>c. c\<lparr>pg_is_enabled := enabled\<rparr>))))"

definition update_chat_group_plugin_config ::
  "plugin_env \<Rightarrow> session \<Rightarrow> user_row \<Rightarrow> id \<Rightarrow> id \<Rightarrow> dict \<Rightarrow> (group_plugin_out \<times> session) result" where
  "update_chat_group_plugin_config e s u plugin_id chat_group_id config =
     bind_r (managed_plugin s u plugin_id chat_group_id) (\<lambda>p.
     bind_r (validate_config_payload e (p_user_config_schema p) config ''plugin_chat_group_config'') (\<lambda>_.
     Inr (change_group_config s chat_group_id p (\<lambda>s c.
       let (c1, s1) = put_group_config s c (\<lambda>c. c\<lparr>pg_config := config\<rparr>) in refresh_chat_group_config_validation e s1 p c1))))"

definition validate_chat_group_plugin_config ::
  "plugin_env \<Rightarrow> session \<Rightarrow> user_row \<Rightarrow> id \<Rightarrow> id \<Rightarrow> (group_plugin_out \<times> session) result" where
  "validate_chat_group_plugin_config e s u plugin_id chat_group_id =
     bind_r (managed_plugin s u plugin_id chat_group_id) (\<lambda>p.
     Inr (change_group_config s chat_group_id p (\<lambda>s c. refresh_chat_group_config_validation e s p c)))"

definition clear_chat_group_plugin_error :: "session \<Rightarrow> user_row \<Rightarrow> id \<Rightarrow> id \<Rightarrow> (group_plugin_out \<times> session) result" where
  "clear_chat_group_plugin_error s u plugin_id chat_group_id =
     bind_r (managed_plugin s u plugin_id chat_group_id) (\<lambda>p.
     Inr (change_group_config s chat_group_id p (\<lambda>s c.
       put_group_config s c (\<lambda>c. c\<lparr>pg_runtime_error_text := None, pg_runtime_error_at := None\<rparr>))))"

section \<open>Visibility\<close>

definition set_global_visibility :: "string \<Rightarrow> session \<Rightarrow> id \<Rightarrow> user_row \<Rightarrow> bool \<Rightarrow> session result" where
  "set_global_visibility admin s plugin_id u visible =
     bind_r (require_bootstrap_admin admin u) (\<lambda>_.
     bind_r (require_plugin s plugin_id) (\<lambda>p.
     Inr (s\<lparr>plugins := row_put p_id plugin_id (\<lambda>p. p\<lparr>p_is_globally_visible := visible\<rparr>) (plugins s)\<rparr>)))"

definition set_group_visibility ::
  "string \<Rightarrow> session \<Rightarrow> id \<Rightarrow> id \<Rightarrow> user_row \<Rightarrow> bool \<Rightarrow> (plugin_group_visibility_row \<times> session) result" where
  "set_group_visibility admin s plugin_id group_id u visible =
     bind_r (require_bootstrap_admin admin u) (\<lambda>_.
     bind_r (require_plugin s plugin_id) (\<lambda>p.
     if row_get g_id group_id (groups s) = None then Inl (HTTPException 404 ''Group not found'')
     else case List.find (\<lambda>v. gv_plugin_id v = plugin_id \<and> gv_group_id v = group_id) (plugin_group_visibilities s) of
       None \<Rightarrow>
         let v = \<lparr>gv_id = new_id s, gv_plugin_id = plugin_id, gv_group_id = group_id, gv_is_visible = visible, gv_created_at = clock s\<rparr>
         in Inr (v, (take_id s)\<lparr>plugin_group_visibilities := row_add v (plugin_group_visibilities s)\<rparr>)
     | Some v \<Rightarrow>
         let f = (\<lambda>v. v\<lparr>gv_is_visible := visible\<rparr>)
         in Inr (f v, s\<lparr>plugin_group_visibilities := row_put gv_id (gv_id v) f (plugin_group_visibilities s)\<rparr>)))"

definition list_group_visibility :: "session \<Rightarrow> id \<Rightarrow> plugin_group_visibility_row list result" where
  "list_group_visibility s plugin_id =
     bind_r (require_plugin s plugin_id) (\<lambda>_.
     Inr (sort_key gv_created_at (filter (\<lambda>v. gv_plugin_id v = plugin_id) (plugin_group_visibilities s))))"

section \<open>Bindings\<close>

definition bindings_of :: "session \<Rightarrow> id \<Rightarrow> plugin_binding_row list" where
  "bindings_of s plugin_id = sort_key pb_created_at (filter (\<lambda>b. pb_plugin_id b = plugin_id) (plugin_bindings s))"

definition list_target_bindings_for_user :: "session \<Rightarrow> user_row \<Rightarrow> id \<Rightarrow> binding_out list result" where
  "list_target_bindings_for_user s u plugin_id =
     bind_r (require_user_visible_plugin s u plugin_id) (\<lambda>_.
     Inr (map (serialize_target_binding s) (filter (can_user_manage_binding_target s u) (bindings_of s plugin_id))))"

definition binding_key :: "plugin_binding_row \<Rightarrow> id \<times> string \<times> id \<times> string \<times> id" where
  "binding_key b = (pb_plugin_id b, pb_scope_type b, pb_scope_id b, pb_target_type b, pb_target_id b)"

definition add_target_binding_for_user ::
  "session \<Rightarrow> user_row \<Rightarrow> id \<Rightarrow> string \<Rightarrow> string \<Rightarrow> (binding_out \<times> session) result" where
  "add_target_binding_for_user s u plugin_id raw_type raw_id =
     bind_r (require_user_visible_plugin s u plugin_id) (\<lambda>_.
     let target_type = py_strip raw_type; target_id = py_strip raw_id
     in if target_type \<notin> {''cocoon'', ''chat_group''} then Inl (HTTPException 400 (''target_type must be 'cocoon' or 'chat_group'' @ [CHR 0x27]))
        else bind_r (require_user_can_bind_target s u target_type target_id) (\<lambda>_.
             bind_r (scope_for_binding_target s u target_type target_id) (\<lambda>(scope_type, scope_id).
             case List.find (\<lambda>b. binding_key b = (plugin_id, scope_type, scope_id, target_type, target_id)) (plugin_bindings s) of
               Some b \<Rightarrow> Inr (serialize_target_binding s b, s)
             | None \<Rightarrow>
                 let b = \<lparr>pb_id = new_id s, pb_plugin_id = plugin_id, pb_scope_type = scope_type, pb_scope_id = scope_id,
                          pb_target_type = target_type, pb_target_id = target_id, pb_created_at = clock s\<rparr>
                 in Inr (serialize_target_binding s b, (take_id s)\<lparr>plugin_bindings := row_add b (plugin_bindings s)\<rparr>))))"

definition delete_target_binding_for_user :: "session \<Rightarrow> user_row \<Rightarrow> id \<Rightarrow> id \<Rightarrow> session result" where
  "delete_target_binding_for_user s u plugin_id binding_id =
     bind_r (require_user_visible_plugin s u plugin_id) (\<lambda>_.
     case List.find (\<lambda>b. pb_id b = binding_id \<and> pb_plugin_id b = plugin_id) (plugin_bindings s) of
       None \<Rightarrow> Inl (HTTPException 404 ''Plugin target binding not found'')
     | Some b \<Rightarrow>
         if \<not> can_user_manage_binding_target s u b then Inl (HTTPException 403 ''Plugin target binding access denied'')
         else Inr (s\<lparr>plugin_bindings := row_del pb_id (pb_id b) (plugin_bindings s)\<rparr>))"

section \<open>Errors of the runtime\<close>

definition runtime_error_text :: "string \<Rightarrow> string" where
  "runtime_error_text text = (if py_strip text = [] then ''Plugin runtime error'' else py_strip text)"

definition record_user_plugin_error :: "session \<Rightarrow> id \<Rightarrow> id \<Rightarrow> string \<Rightarrow> session" where
  "record_user_plugin_error s plugin_id user_id error_text =
     (case row_get p_id plugin_id (plugins s) of
        None \<Rightarrow> s
      | Some p \<Rightarrow>
          let (c, s1) = ensure_user_config s p user_id
          in snd (put_user_config s1 c (\<lambda>c. c\<lparr>pu_runtime_error_text := Some (runtime_error_text error_text),
                    pu_runtime_error_at := Some (utcnow s)\<rparr>)))"

definition clear_user_plugin_error_for_runtime :: "session \<Rightarrow> id \<Rightarrow> id \<Rightarrow> session" where
  "clear_user_plugin_error_for_runtime s plugin_id user_id =
     (case row_get p_id plugin_id (plugins s) of
        None \<Rightarrow> s
      | Some p \<Rightarrow>
          let (c, s1) = ensure_user_config s p user_id
          in snd (put_user_config s1 c (\<lambda>c. c\<lparr>pu_runtime_error_text := None, pu_runtime_error_at := None\<rparr>)))"

end
