(* ===== verification/PluginManager.thy ===== *)
theory PluginManager
  imports Plugins
begin

text \<open>
  The scheduling of plugin events (\<open>services/plugins/manager/access_mixin.py\<close>, \<open>event_mixin.py\<close>) and what the
  result of an event wakes (\<open>services/plugins/external_wakeup_service.py\<close>). Starting and stopping the processes of
  plugins is left out; an event's run is an outcome that comes later. The manager's memory survives an exception of a round.
\<close>

section \<open>Scopes of an event\<close>

record short_scope =
  sc_scope_type :: string
  sc_scope_id :: id
  sc_user_id :: "id option"
  sc_config :: dict
  sc_timezone :: "string option"

definition binding_target_exists :: "session \<Rightarrow> plugin_binding_row \<Rightarrow> bool" where
  "binding_target_exists s b =
     (if pb_target_type b = ''cocoon'' then row_get c_id (pb_target_id b) (cocoons s) \<noteq> None
      else if pb_target_type b = ''chat_group'' then row_get rm_id (pb_target_id b) (rooms s) \<noteq> None
      else False)"

definition can_deliver_to_user :: "session \<Rightarrow> plugin_row \<Rightarrow> id \<Rightarrow> bool" where
  "can_deliver_to_user s p user_id =
     (let group_ids = member_group_ids s user_id; overrides = visibility_overrides s (p_id p) group_ids
      in if group_ids \<noteq> [] \<and> overrides \<noteq> [] then list_ex id overrides else p_is_globally_visible p)"

definition user_scope :: "session \<Rightarrow> id \<Rightarrow> plugin_user_config_row \<Rightarrow> short_scope" where
  "user_scope s user_id c =
     \<lparr>sc_scope_type = ''user'', sc_scope_id = user_id, sc_user_id = Some user_id, sc_config = pu_config c,
      sc_timezone = Some (case row_get u_id user_id (users s) of None \<Rightarrow> ''UTC'' | Some u \<Rightarrow> or_else (Some (u_timezone u)) ''UTC'')\<rparr>"

definition group_scope :: "id \<Rightarrow> plugin_group_config_row \<Rightarrow> short_scope" where
  "group_scope chat_group_id c =
     \<lparr>sc_scope_type = ''chat_group'', sc_scope_id = chat_group_id, sc_user_id = None, sc_config = pg_config c, sc_timezone = None\<rparr>"

text \<open>The scope of a binding, when it may run; configurations that are missing are created on the way.\<close>

definition scope_of_binding :: "session \<Rightarrow> plugin_row \<Rightarrow> plugin_binding_row \<Rightarrow> short_scope option \<times> session" where
  "scope_of_binding s p b =
     (if pb_scope_type b = ''user''
      then if \<not> binding_target_exists s b then (None, s)
           else let (c, s1) = ensure_user_config s p (pb_scope_id b)
                in (if \<not> pu_is_enabled c \<or> truthy (pu_validation_error_text c) then None
                    else if \<not> can_deliver_to_user s1 p (pb_scope_id b) then None
                    else Some (user_scope s1 (pb_scope_id b) c), s1)
      else if pb_scope_type b = ''chat_group''
      then if row_get rm_id (pb_scope_id b) (rooms s) = None then (None, s)
           else let (c, s1) = ensure_chat_group_config s p (pb_scope_id b)
                in (if \<not> pg_is_enabled c \<or> truthy (pg_validation_error_text c) then None
                    else Some (group_scope (pb_scope_id b) c), s1)
      else (None, s))"

definition scope_key :: "short_scope \<Rightarrow> string \<times> id" where
  "scope_key sc = (sc_scope_type sc, sc_scope_id sc)"

fun scopes_loop :: "session \<Rightarrow> plugin_row \<Rightarrow> short_scope list \<Rightarrow> plugin_binding_row list \<Rightarrow> short_scope list \<times> session" where
  "scopes_loop s p scopes [] = (scopes, s)"
| "scopes_loop s p scopes (b # bs) =
     (if (pb_scope_type b, pb_scope_id b) \<in> scope_key ` set scopes then scopes_loop s p scopes bs
      else let (found, s1) = scope_of_binding s p b
           in scopes_loop s1 p (case found of None \<Rightarrow> scopes | Some sc \<Rightarrow> scopes @ [sc]) bs)"

definition list_short_lived_scopes :: "session \<Rightarrow> plugin_row \<Rightarrow> short_scope list \<times> session" where
  "list_short_lived_scopes s p = scopes_loop s p [] (bindings_of s (p_id p))"

section \<open>Submitting an event\<close>

definition find_event_config :: "session \<Rightarrow> id \<Rightarrow> string \<Rightarrow> plugin_event_config_row option" where
  "find_event_config s plugin_id event_name =
     List.find (\<lambda>c. pe_plugin_id c = plugin_id \<and> pe_event_name c = event_name) (plugin_event_configs s)"

definition event_enabled :: "session \<Rightarrow> id \<Rightarrow> string \<Rightarrow> bool" where
  "event_enabled s plugin_id event_name =
     (case find_event_config s plugin_id event_name of None \<Rightarrow> True | Some c \<Rightarrow> pe_is_enabled c)"

definition event_config :: "session \<Rightarrow> id \<Rightarrow> plugin_event_row \<Rightarrow> dict" where
  "event_config s plugin_id ev =
     (case find_event_config s plugin_id (pev_name ev) of
        None \<Rightarrow> pev_default_config ev | Some c \<Rightarrow> dict_merge (pev_default_config ev) (pe_config c))"

definition submission_of :: "session \<Rightarrow> plugin_row \<Rightarrow> plugin_event_row \<Rightarrow> short_scope \<Rightarrow> submission" where
  "submission_of s p ev sc =
     \<lparr>sb_key = (p_id p, pev_name ev, sc_scope_type sc, sc_scope_id sc), sb_function_name = pev_function_name ev,
      sb_plugin_config = p_config p, sb_event_config = event_config s (p_id p) ev, sb_scope_config = sc_config sc,
      sb_user_id = sc_user_id sc\<rparr>"

fun submit_loop :: "plugin_manager \<Rightarrow> submission list \<Rightarrow> bool \<times> plugin_manager" where
  "submit_loop m [] = (False, m)"
| "submit_loop m (x # xs) =
     (if sb_key x \<in> sb_key ` set (pm_futures m) then submit_loop m xs
      else (True, snd (submit_loop (m\<lparr>pm_futures := pm_futures m @ [x]\<rparr>) xs)))"

definition startable_event :: "session \<Rightarrow> id \<Rightarrow> string \<Rightarrow> (plugin_row \<times> plugin_event_row) option" where
  "startable_event s plugin_id event_name =
     (case row_get p_id plugin_id (plugins s) of
        None \<Rightarrow> None
      | Some p \<Rightarrow>
          if p_status p \<noteq> ''enabled'' \<or> \<not> truthy (p_active_version_id p) then None
          else case row_get plv_id (str_of (p_active_version_id p)) (plugin_versions s) of
            None \<Rightarrow> None
          | Some v \<Rightarrow>
              case List.find (\<lambda>ev. pev_plugin_id ev = plugin_id \<and> pev_plugin_version_id ev = plv_id v \<and> pev_name ev = event_name)
                     (plugin_event_defs s) of
                None \<Rightarrow> None
              | Some ev \<Rightarrow> if pev_mode ev \<noteq> ''short_lived'' \<or> \<not> event_enabled s plugin_id event_name then None else Some (p, ev))"

text \<open>The session is not committed: configurations created by listing the scopes are dropped.\<close>

definition submit_short_lived_event ::
  "session \<Rightarrow> plugin_manager \<Rightarrow> id \<Rightarrow> string \<Rightarrow> string option \<Rightarrow> id option \<Rightarrow> bool \<times> plugin_manager" where
  "submit_short_lived_event s m plugin_id event_name scope_type scope_id =
     (case startable_event s plugin_id event_name of
        None \<Rightarrow> (False, m)
      | Some (p, ev) \<Rightarrow>
          let scopes = filter (\<lambda>sc. (scope_type = None \<or> Some (sc_scope_type sc) = scope_type) \<and>
                                   (scope_id = None \<or> Some (sc_scope_id sc) = scope_id)) (fst (list_short_lived_scopes s p))
          in submit_loop m (map (submission_of s p ev) scopes))"

definition trigger_short_lived_event :: "session \<Rightarrow> plugin_manager \<Rightarrow> id \<Rightarrow> string \<Rightarrow> bool \<times> plugin_manager" where
  "trigger_short_lived_event s m plugin_id event_name = submit_short_lived_event s m plugin_id event_name None None"

section \<open>Schedules\<close>

definition next_run_for_schedule ::
  "plugin_env \<Rightarrow> string \<Rightarrow> int option \<Rightarrow> string option \<Rightarrow> time \<Rightarrow> string option \<Rightarrow> time result" where
  "next_run_for_schedule e schedule_mode interval_seconds cron_expression after timezone =
     (if schedule_mode = ''interval''
      then Inr (after + seconds (max (case interval_seconds of None \<Rightarrow> 1 | Some n \<Rightarrow> if n = 0 then 1 else n) 1))
      else if schedule_mode = ''cron'' \<and> truthy cron_expression
      then next_cron_run (px_zones e) (str_of cron_expression) after (or_else timezone ''UTC'')
      else Inr (after + hours (24 * 3650)))"

definition schedule_of :: "session \<Rightarrow> plugin_row \<Rightarrow> plugin_event_row \<Rightarrow> short_scope \<Rightarrow> string \<times> int option \<times> string option" where
  "schedule_of s p ev sc =
     (if sc_scope_type sc = ''user'' \<and> truthy (sc_user_id sc)
      then case last_such (\<lambda>c. ue_plugin_id c = p_id p \<and> ue_user_id c = str_of (sc_user_id sc) \<and> ue_event_name c = pev_name ev)
                  (plugin_user_events s) of
             None \<Rightarrow> (''manual'', None, None)
           | Some c \<Rightarrow> (or_else (Some (ue_schedule_mode c)) ''manual'', ue_schedule_interval_seconds c, ue_schedule_cron c)
      else (''manual'', None, None))"

definition scope_run_key :: "plugin_row \<Rightarrow> plugin_event_row \<Rightarrow> short_scope \<Rightarrow> run_key" where
  "scope_run_key p ev sc = (p_id p, pev_name ev, sc_scope_type sc, sc_scope_id sc)"

definition set_next_run :: "run_key \<Rightarrow> time option \<Rightarrow> plugin_manager \<Rightarrow> plugin_manager" where
  "set_next_run key t m = m\<lparr>pm_next_run := (pm_next_run m)(key := t)\<rparr>"

text \<open>
  One scope of a round; \<open>s\<close> is the committed state that a submission reads, the row of the schedule was loaded at
  the start of the round.
\<close>

definition sync_scope ::
  "plugin_env \<Rightarrow> time \<Rightarrow> session \<Rightarrow> plugin_row \<Rightarrow> plugin_event_row \<Rightarrow> short_scope \<Rightarrow> plugin_manager \<Rightarrow> unit result \<times> plugin_manager" where
  "sync_scope e now s p ev sc m =
     (let (mode, interval, cron) = schedule_of s p ev sc;
          key = scope_run_key p ev sc;
          later = (\<lambda>_. next_run_for_schedule e mode interval cron now (sc_timezone sc))
      in if mode = ''manual'' then (Inr (), set_next_run key None m)
         else case (case pm_next_run m key of Some t \<Rightarrow> Inr t | None \<Rightarrow> later ()) of
           Inl x \<Rightarrow> (Inl x, m)
         | Inr t \<Rightarrow>
             let m1 = set_next_run key (Some t) m
             in if now < t then (Inr (), m1)
                else let m2 = snd (submit_short_lived_event s m1 (p_id p) (pev_name ev) (Some (sc_scope_type sc)) (Some (sc_scope_id sc)))
                     in case later () of Inl x \<Rightarrow> (Inl x, m2) | Inr t' \<Rightarrow> (Inr (), set_next_run key (Some t') m2))"

fun sync_scopes ::
  "plugin_env \<Rightarrow> time \<Rightarrow> session \<Rightarrow> plugin_row \<Rightarrow> plugin_event_row \<Rightarrow> short_scope list \<Rightarrow> plugin_manager \<Rightarrow>
     unit result \<times> plugin_manager" where
  "sync_scopes e now s p ev [] m = (Inr (), m)"
| "sync_scopes e now s p ev (sc # scs) m =
     (case sync_scope e now s p ev sc m of (Inl x, m1) \<Rightarrow> (Inl x, m1) | (Inr _, m1) \<Rightarrow> sync_scopes e now s p ev scs m1)"

definition forget_stale :: "plugin_row \<Rightarrow> plugin_event_row \<Rightarrow> run_key set \<Rightarrow> plugin_manager \<Rightarrow> plugin_manager" where
  "forget_stale p ev scheduled m =
     m\<lparr>pm_next_run := (\<lambda>k. if fst k = p_id p \<and> fst (snd k) = pev_name ev \<and> k \<notin> scheduled then None else pm_next_run m k)\<rparr>"

text \<open>The events of a plugin; \<open>t\<close> is the round's own session, which is not committed.\<close>

fun sync_events ::
  "plugin_env \<Rightarrow> time \<Rightarrow> session \<Rightarrow> session \<Rightarrow> plugin_row \<Rightarrow> plugin_event_row list \<Rightarrow> plugin_manager \<Rightarrow>
     session result \<times> plugin_manager" where
  "sync_events e now s t p [] m = (Inr t, m)"
| "sync_events e now s t p (ev # evs) m =
     (if \<not> event_enabled s (p_id p) (pev_name ev) \<or> pev_mode ev \<noteq> ''short_lived'' then sync_events e now s t p evs m
      else let (scopes, t1) = list_short_lived_scopes t p
           in case sync_scopes e now s p ev scopes m of
                (Inl x, m1) \<Rightarrow> (Inl x, m1)
              | (Inr _, m1) \<Rightarrow> sync_events e now s t1 p evs (forget_stale p ev (scope_run_key p ev ` set scopes) m1))"

definition active_events :: "session \<Rightarrow> plugin_row \<Rightarrow> plugin_event_row list" where
  "active_events s p =
     filter (\<lambda>ev. pev_plugin_id ev = p_id p \<and> pev_plugin_version_id ev = str_of (p_active_version_id p)) (plugin_event_defs s)"

definition runs_events :: "session \<Rightarrow> plugin_row \<Rightarrow> bool" where
  "runs_events s p \<longleftrightarrow>
     p_status p = ''enabled'' \<and> truthy (p_active_version_id p) \<and>
     row_get plv_id (str_of (p_active_version_id p)) (plugin_versions s) \<noteq> None \<and> p_plugin_type p = ''external''"

fun sync_plugins ::
  "plugin_env \<Rightarrow> time \<Rightarrow> session \<Rightarrow> session \<Rightarrow> plugin_row list \<Rightarrow> plugin_manager \<Rightarrow> unit result \<times> plugin_manager" where
  "sync_plugins e now s t [] m = (Inr (), m)"
| "sync_plugins e now s t (p # ps) m =
     (if \<not> runs_events s p then sync_plugins e now s t ps m
      else case sync_events e now s t p (active_events s p) m of
             (Inl x, m1) \<Rightarrow> (Inl x, m1) | (Inr t1, m1) \<Rightarrow> sync_plugins e now s t1 ps m1)"

definition sync_round :: "plugin_env \<Rightarrow> session \<Rightarrow> plugin_manager \<Rightarrow> unit result \<times> plugin_manager" where
  "sync_round e s m = sync_plugins e (utcnow s) s s (plugins s) m"

text \<open>\<open>reload_plugin\<close> forgets the planned runs of a plugin.\<close>

definition reload_plugin :: "id \<Rightarrow> plugin_manager \<Rightarrow> plugin_manager" where
  "reload_plugin plugin_id m = m\<lparr>pm_next_run := (\<lambda>k. if fst k = plugin_id then None else pm_next_run m k)\<rparr>"

section \<open>Waking conversations\<close>

definition resolve_target_user_id :: "session \<Rightarrow> plugin_binding_row \<Rightarrow> id option" where
  "resolve_target_user_id s b =
     (if pb_target_type b = ''cocoon'' then map_option c_owner_user_id (row_get c_id (pb_target_id b) (cocoons s))
      else if pb_target_type b = ''chat_group'' then map_option rm_owner_user_id (row_get rm_id (pb_target_id b) (rooms s))
      else None)"

definition may_wake_user :: "session \<Rightarrow> plugin_row \<Rightarrow> id \<Rightarrow> bool" where
  "may_wake_user s p user_id =
     (case find_user_config s (p_id p) user_id of
        None \<Rightarrow> can_deliver_to_user s p user_id
      | Some c \<Rightarrow> pu_is_enabled c \<and> \<not> truthy (pu_validation_error_text c) \<and> can_deliver_to_user s p user_id)"

definition may_wake_chat_group :: "session \<Rightarrow> plugin_row \<Rightarrow> id \<Rightarrow> bool" where
  "may_wake_chat_group s p chat_group_id =
     (row_get rm_id chat_group_id (rooms s) \<noteq> None \<and>
      (case find_group_config s (p_id p) chat_group_id of
         None \<Rightarrow> True | Some c \<Rightarrow> pg_is_enabled c \<and> \<not> truthy (pg_validation_error_text c)))"

text \<open>Whether a binding is passed over, for the five reasons the log counts.\<close>

definition binding_skipped :: "session \<Rightarrow> plugin_row \<Rightarrow> string option \<Rightarrow> id option \<Rightarrow> plugin_binding_row \<Rightarrow> bool" where
  "binding_skipped s p scope_type scope_id b =
     (truthy scope_type \<and> Some (pb_scope_type b) \<noteq> scope_type \<or>
      truthy scope_id \<and> Some (pb_scope_id b) \<noteq> scope_id \<or>
      pb_scope_type b = ''chat_group'' \<and> \<not> may_wake_chat_group s p (pb_scope_id b) \<or>
      pb_scope_type b = ''user'' \<and> \<not> truthy (resolve_target_user_id s b) \<or>
      pb_scope_type b = ''user'' \<and> \<not> may_wake_user s p (pb_scope_id b))"

definition external_payload :: "plugin_row \<Rightarrow> plugin_version_row \<Rightarrow> string \<Rightarrow> dict \<Rightarrow> string \<Rightarrow> dict" where
  "external_payload p v event_name payload summary =
     [(''source_kind'', JStr ''plugin''), (''plugin_id'', JStr (p_id p)), (''plugin_version'', JStr (plv_version v)),
      (''plugin_event'', JStr event_name), (''external_payload'', JObj payload), (''summary'', JStr summary)]"

fun ingest_loop ::
  "session \<Rightarrow> plugin_row \<Rightarrow> plugin_version_row \<Rightarrow> string \<Rightarrow> dict \<Rightarrow> string \<Rightarrow> dict \<Rightarrow> string option \<Rightarrow> id option \<Rightarrow>
     plugin_binding_row list \<Rightarrow> (id list \<times> session) result" where
  "ingest_loop s p v event_name envelope summary payload scope_type scope_id [] = Inr ([], s)"
| "ingest_loop s p v event_name envelope summary payload scope_type scope_id (b # bs) =
     (if binding_skipped s p scope_type scope_id b
      then ingest_loop s p v event_name envelope summary payload scope_type scope_id bs
      else bind_r (schedule_wakeup s (Some (utcnow s))
                     (if pb_target_type b = ''cocoon'' then Some (pb_target_id b) else None)
                     (if pb_target_type b = ''chat_group'' then Some (pb_target_id b) else None)
                     (Some summary) (dict_set ''target_binding_id'' (JStr (pb_id b)) payload)) (\<lambda>((task, job), s1).
           let d = \<lparr>pd_id = new_id s1, pd_plugin_id = p_id p, pd_plugin_version_id = plv_id v, pd_event_name = event_name,
                    pd_target_type = pb_target_type b, pd_target_id = pb_target_id b, pd_wakeup_task_id = Some (w_id task),
                    pd_payload = [(''envelope'', JObj envelope), (''target_binding_id'', JStr (pb_id b))]\<rparr>;
               s2 = (take_id s1)\<lparr>plugin_dispatches := row_add d (plugin_dispatches s1)\<rparr>
           in bind_r (ingest_loop s2 p v event_name envelope summary payload scope_type scope_id bs) (\<lambda>(ids, s3).
              Inr (w_id task # ids, s3))))"

text \<open>\<open>dict(envelope.get("payload") or {})\<close>; a payload that is no dictionary raises.\<close>

definition envelope_payload :: "dict \<Rightarrow> dict result" where
  "envelope_payload envelope =
     (case dict_get ''payload'' envelope of
        None \<Rightarrow> Inr []
      | Some (JObj d) \<Rightarrow> Inr d
      | Some v \<Rightarrow> if json_truthy v then Inl (TypeError ''cannot convert to a dictionary'') else Inr [])"

definition ingest ::
  "session \<Rightarrow> plugin_row \<Rightarrow> plugin_version_row \<Rightarrow> string \<Rightarrow> dict \<Rightarrow> string option \<Rightarrow> id option \<Rightarrow> (id list \<times> session) result" where
  "ingest s p v event_name envelope scope_type scope_id =
     (if p_status p \<noteq> ''enabled'' \<or> \<not> event_enabled s (p_id p) event_name then Inr ([], s)
      else let summary = py_strip (dict_str ''summary'' envelope)
           in bind_r (envelope_payload envelope) (\<lambda>payload.
              if summary = [] then Inl (ValueError ''External plugin event summary is required'')
              else ingest_loop s p v event_name envelope summary (external_payload p v event_name payload summary) scope_type scope_id
                     (bindings_of s (p_id p))))"

section \<open>The end of an event\<close>

text \<open>What a process left: an exception (with the user that it is meant for, if any), nothing, or an envelope.\<close>

datatype event_outcome = Raised string "id option" | NoResult | Envelope dict

definition ensure_run_state :: "session \<Rightarrow> id \<Rightarrow> plugin_run_state_row \<times> session" where
  "ensure_run_state s plugin_id =
     (case List.find (\<lambda>r. rs_plugin_id r = plugin_id) (plugin_run_states s) of
        Some r \<Rightarrow> (r, s)
      | None \<Rightarrow>
          let r = \<lparr>rs_id = new_id s, rs_plugin_id = plugin_id, rs_current_version_id = None, rs_status = ''stopped'', rs_error_text = None\<rparr>
          in (r, (take_id s)\<lparr>plugin_run_states := row_add r (plugin_run_states s)\<rparr>))"

definition set_run_state :: "session \<Rightarrow> id \<Rightarrow> (plugin_run_state_row \<Rightarrow> plugin_run_state_row) \<Rightarrow> session" where
  "set_run_state s plugin_id f =
     (let (r, s1) = ensure_run_state s plugin_id in s1\<lparr>plugin_run_states := row_put rs_id (rs_id r) f (plugin_run_states s1)\<rparr>)"

definition record_user_error :: "session \<Rightarrow> plugin_row \<Rightarrow> id \<Rightarrow> string \<Rightarrow> session" where
  "record_user_error s p user_id message =
     (let (c, s1) = ensure_user_config s p user_id
      in snd (put_user_config s1 c (\<lambda>c. c\<lparr>pu_runtime_error_text := Some (runtime_error_text message),
                pu_runtime_error_at := Some (utcnow s)\<rparr>)))"

definition record_chat_group_error :: "session \<Rightarrow> plugin_row \<Rightarrow> id \<Rightarrow> string \<Rightarrow> session" where
  "record_chat_group_error s p chat_group_id message =
     (let (c, s1) = ensure_chat_group_config s p chat_group_id
      in snd (put_group_config s1 c (\<lambda>c. c\<lparr>pg_runtime_error_text := Some (runtime_error_text message),
                pg_runtime_error_at := Some (utcnow s)\<rparr>)))"

definition clear_user_error :: "session \<Rightarrow> id \<Rightarrow> id \<Rightarrow> session" where
  "clear_user_error s plugin_id user_id =
     (case find_user_config s plugin_id user_id of
        None \<Rightarrow> s
      | Some c \<Rightarrow> snd (put_user_config s c (\<lambda>c. c\<lparr>pu_runtime_error_text := None, pu_runtime_error_at := None\<rparr>)))"

definition still_running :: "plugin_run_state_row \<Rightarrow> plugin_run_state_row" where
  "still_running r = r\<lparr>rs_status := ''running'', rs_error_text := None\<rparr>"

definition finish_event :: "session \<Rightarrow> run_key \<Rightarrow> event_outcome \<Rightarrow> session result" where
  "finish_event s key outcome =
     (case key of (plugin_id, event_name, scope_type, scope_id) \<Rightarrow>
        let found = row_get p_id plugin_id (plugins s)
        in case outcome of
          Raised message user_id \<Rightarrow>
            Inr (case found of
                   None \<Rightarrow> set_run_state s plugin_id (\<lambda>r. r\<lparr>rs_status := ''failed'', rs_error_text := Some message\<rparr>)
                 | Some p \<Rightarrow>
                     if truthy user_id then set_run_state (record_user_error s p (str_of user_id) message) plugin_id still_running
                     else if scope_type = ''user'' then set_run_state (record_user_error s p scope_id message) plugin_id still_running
                     else if scope_type = ''chat_group''
                     then set_run_state (record_chat_group_error s p scope_id message) plugin_id still_running
                     else set_run_state s plugin_id (\<lambda>r. r\<lparr>rs_status := ''failed'', rs_error_text := Some message\<rparr>))
        | NoResult \<Rightarrow> Inr s
        | Envelope envelope \<Rightarrow>
            (case found of
               None \<Rightarrow> Inr s
             | Some p \<Rightarrow>
                 (case row_get_opt plv_id (p_active_version_id p) (plugin_versions s) of
                    None \<Rightarrow> Inr s
                  | Some v \<Rightarrow>
                      bind_r (ingest s p v event_name envelope (Some scope_type) (Some scope_id)) (\<lambda>(_, s1).
                      Inr (set_run_state s1 plugin_id (\<lambda>r. r\<lparr>rs_status := ''running''\<rparr>))))))"

text \<open>
  The finished events of a round, each in a session of its own; a future is taken off before its result is used, and an
  exception of \<open>ingest\<close> ends the round.
\<close>

fun handle_finished ::
  "session \<Rightarrow> plugin_manager \<Rightarrow> (submission \<times> event_outcome) list \<Rightarrow> unit result \<times> session \<times> plugin_manager" where
  "handle_finished s m [] = (Inr (), s, m)"
| "handle_finished s m ((x, outcome) # rest) =
     (let m1 = m\<lparr>pm_futures := filter (\<lambda>y. sb_key y \<noteq> sb_key x) (pm_futures m)\<rparr>
      in case finish_event s (sb_key x) outcome of
           Inl err \<Rightarrow> (Inl err, s, m1)
         | Inr s1 \<Rightarrow> handle_finished s1 m1 rest)"

section \<open>What an envelope wakes\<close>

text \<open>The tables that decide about a binding; waking a conversation changes none of them.\<close>

definition plugin_tables where
  "plugin_tables s = (plugins s, plugin_bindings s, cocoons s, rooms s, group_members s, plugin_user_configs s,
     plugin_group_configs s, plugin_group_visibilities s, clock s)"

lemma tables_but_state: "but_state s' = but_state s \<Longrightarrow> plugin_tables s' = plugin_tables s \<and> plugin_dispatches s' = plugin_dispatches s"
proof -
  assume a: "but_state s' = but_state s"
  have "plugin_tables (but_state x) = plugin_tables x" "plugin_dispatches (but_state x) = plugin_dispatches x" for x :: session
    by (simp_all add: plugin_tables_def but_state_def)
  then show ?thesis using a by metis
qed

lemma enqueue_job_tables:
  "enqueue_job s jt lock payload c g at' = (k, s') \<Longrightarrow>
   wakeups s' = wakeups s \<and> plugin_tables s' = plugin_tables s \<and> plugin_dispatches s' = plugin_dispatches s"
  by (auto simp: enqueue_job_def Let_def plugin_tables_def take_id_def)

lemma schedule_wakeup_rows:
  assumes inv: "wakeup_inv s" and e: "schedule_wakeup s run c g reason payload = Inr ((t, j), s')"
  shows "wakeups s' = wakeups s @ [t] \<and> w_cocoon_id t = c \<and> w_chat_group_id t = g \<and> w_status t = JobQueued \<and>
    w_reason t = Some (py_strip (str_of reason)) \<and> plugin_tables s' = plugin_tables s \<and> plugin_dispatches s' = plugin_dispatches s"
proof -
  obtain r where r: "run = Some r" using e by (cases run) (simp_all add: schedule_wakeup_def)
  have reason: "py_strip (str_of reason) \<noteq> []" "one_target c g"
    using e r by (auto simp: schedule_wakeup_def split: if_splits)
  define t0 where "t0 = \<lparr>w_id = new_id s, w_cocoon_id = c, w_chat_group_id = g, w_run_at = r,
      w_reason = Some (py_strip (str_of reason)), w_payload = [], w_status = JobQueued,
      w_cancelled_at = None, w_superseded_by_task_id = None, w_created_at = clock s\<rparr>"
  define s1 where "s1 = (take_id s)\<lparr>wakeups := row_add t0 (wakeups s)\<rparr>"
  obtain tt ti where tt: "resolve_target_type c g = Inr (tt, ti)"
    using e r reason by (cases "resolve_target_type c g") (auto simp: schedule_wakeup_def Let_def)
  obtain k s2 where k: "enqueue_job s1 JobWakeup (wakeup_lock_key tt ti (w_id t0))
      [(''wakeup_task_id'', JStr (w_id t0))] c g (Some r) = (k, s2)" by (metis surj_pair)
  define fill :: "wakeup_row \<Rightarrow> wakeup_row"
    where "fill = (\<lambda>t. t\<lparr>w_payload := dict_set ''durable_job_id'' (JStr (j_id k)) payload\<rparr>)"
  define s3 where "s3 = s2\<lparr>wakeups := row_put w_id (w_id t0) fill (wakeups s2)\<rparr>"
  have "bind_r (sync_current_wakeup_task_id s3 c g) (\<lambda>(_, s4). Inr ((fill t0, k), s4)) = Inr ((t, j), s')"
    using e r reason tt k unfolding s3_def fill_def s1_def t0_def by (simp add: schedule_wakeup_def Let_def)
  then obtain f0 where y: "sync_current_wakeup_task_id s3 c g = Inr (f0, s')" and t: "t = fill t0"
    by (rule bind_r_pairE) auto
  have new: "w_id t0 \<notin> row_ids w_id (wakeups s)"
    using inv by (auto simp: wakeup_inv_def wakeup_keys_def supply_fresh_def t0_def new_id_def)
  have s2: "wakeups s2 = wakeups s @ [t0]" "plugin_tables s2 = plugin_tables s" "plugin_dispatches s2 = plugin_dispatches s"
    using enqueue_job_tables [OF k] by (simp_all add: s1_def row_add_def take_id_def plugin_tables_def)
  have s3: "wakeups s3 = wakeups s @ [t]" "plugin_tables s3 = plugin_tables s" "plugin_dispatches s3 = plugin_dispatches s"
    using s2 row_put_absent [OF new, of fill] by (simp_all add: s3_def t row_put_def plugin_tables_def)
  have f: "state_frame s3 s'" by (rule sync_frame [OF y])
  then have "wakeups s' = wakeups s3" "plugin_tables s' = plugin_tables s3 \<and> plugin_dispatches s' = plugin_dispatches s3"
    using state_frameD(18) [OF f] tables_but_state [of s' s3] f unfolding state_frame_def by blast+
  then show ?thesis using s3 by (simp add: t fill_def t0_def)
qed

lemma skipped_tables:
  assumes "plugin_tables s' = plugin_tables s" shows "binding_skipped s' p a i b = binding_skipped s p a i b"
proof -
  have eq: "rooms s' = rooms s" "cocoons s' = cocoons s" "group_members s' = group_members s"
    "plugin_user_configs s' = plugin_user_configs s" "plugin_group_configs s' = plugin_group_configs s"
    "plugin_group_visibilities s' = plugin_group_visibilities s"
    using assms by (simp_all add: plugin_tables_def)
  have "can_deliver_to_user s' p u = can_deliver_to_user s p u" for u
    by (simp only: can_deliver_to_user_def member_group_ids_def visibility_overrides_def eq)
  then have "may_wake_user s' p u = may_wake_user s p u" for u
    by (simp only: may_wake_user_def find_user_config_def eq)
  then show ?thesis
    by (simp only: binding_skipped_def may_wake_chat_group_def resolve_target_user_id_def find_group_config_def eq)
qed

lemma wakeup_inv_take: "wakeup_inv s \<Longrightarrow> wakeup_inv ((take_id s)\<lparr>plugin_dispatches := x\<rparr>)"
  by (auto simp: wakeup_inv_def wakeup_keys_def wakeups_linked_def supply_fresh_def take_id_def)

text \<open>A task that a binding asked for.\<close>

definition wakes :: "string \<Rightarrow> plugin_binding_row \<Rightarrow> wakeup_row \<Rightarrow> bool" where
  "wakes summary b t \<longleftrightarrow> w_status t = JobQueued \<and> w_reason t = Some (py_strip summary) \<and>
     w_cocoon_id t = (if pb_target_type b = ''cocoon'' then Some (pb_target_id b) else None) \<and>
     w_chat_group_id t = (if pb_target_type b = ''chat_group'' then Some (pb_target_id b) else None)"

definition records :: "plugin_row \<Rightarrow> plugin_version_row \<Rightarrow> string \<Rightarrow> plugin_binding_row \<Rightarrow> id \<Rightarrow> plugin_dispatch_row \<Rightarrow> bool" where
  "records p v event_name b task_id d \<longleftrightarrow> pd_plugin_id d = p_id p \<and> pd_plugin_version_id d = plv_id v \<and> pd_event_name d = event_name \<and>
     pd_target_type d = pb_target_type b \<and> pd_target_id d = pb_target_id b \<and> pd_wakeup_task_id d = Some task_id"

lemma ingest_loop_exact:
  assumes "ingest_loop s p v ev envelope summary payload a i bs = Inr (ids, s')" "wakeup_inv s"
  shows "wakeup_inv s' \<and> plugin_tables s' = plugin_tables s \<and>
    (\<exists>ts ds. wakeups s' = wakeups s @ ts \<and> plugin_dispatches s' = plugin_dispatches s @ ds \<and> ids = map w_id ts \<and>
      list_all2 (wakes summary) (filter (\<lambda>b. \<not> binding_skipped s p a i b) bs) ts \<and>
      list_all2 (\<lambda>(b, t) d. records p v ev b (w_id t) d) (zip (filter (\<lambda>b. \<not> binding_skipped s p a i b) bs) ts) ds)"
  using assms
proof (induction bs arbitrary: s ids)
  case Nil
  then show ?case by auto
next
  case (Cons b bs)
  show ?case
  proof (cases "binding_skipped s p a i b")
    case True
    then show ?thesis using Cons by simp
  next
    case False
    let ?c = "if pb_target_type b = ''cocoon'' then Some (pb_target_id b) else None"
    let ?g = "if pb_target_type b = ''chat_group'' then Some (pb_target_id b) else None"
    obtain t j s1 ids' where w: "schedule_wakeup s (Some (utcnow s)) ?c ?g (Some summary) (dict_set ''target_binding_id'' (JStr (pb_id b)) payload)
        = Inr ((t, j), s1)" and rest: "ids = w_id t # ids'"
      "ingest_loop ((take_id s1)\<lparr>plugin_dispatches := row_add \<lparr>pd_id = new_id s1, pd_plugin_id = p_id p, pd_plugin_version_id = plv_id v,
         pd_event_name = ev, pd_target_type = pb_target_type b, pd_target_id = pb_target_id b, pd_wakeup_task_id = Some (w_id t),
         pd_payload = [(''envelope'', JObj envelope), (''target_binding_id'', JStr (pb_id b))]\<rparr> (plugin_dispatches s1)\<rparr>)
         p v ev envelope summary payload a i bs = Inr (ids', s')"
      using Cons.prems(1) False by (auto simp: Let_def bind_r_eq_Inr split: prod.splits)
    note rows = schedule_wakeup_rows [OF Cons.prems(2) w]
    have inv1: "wakeup_inv s1" using wakeup_inv_schedule [OF Cons.prems(2) w] by blast
    define d where "d = \<lparr>pd_id = new_id s1, pd_plugin_id = p_id p, pd_plugin_version_id = plv_id v,
         pd_event_name = ev, pd_target_type = pb_target_type b, pd_target_id = pb_target_id b, pd_wakeup_task_id = Some (w_id t),
         pd_payload = [(''envelope'', JObj envelope), (''target_binding_id'', JStr (pb_id b))]\<rparr>"
    define s2 where "s2 = (take_id s1)\<lparr>plugin_dispatches := row_add d (plugin_dispatches s1)\<rparr>"
    have s2: "wakeup_inv s2" "plugin_tables s2 = plugin_tables s" "wakeups s2 = wakeups s @ [t]"
      "plugin_dispatches s2 = plugin_dispatches s @ [d]"
      using wakeup_inv_take [OF inv1] rows by (simp_all add: s2_def row_add_def plugin_tables_def take_id_def)
    have same: "binding_skipped s2 p a i = binding_skipped s p a i" using skipped_tables [OF s2(2)] by blast
    have run: "ingest_loop s2 p v ev envelope summary payload a i bs = Inr (ids', s')" using rest(2) by (simp add: s2_def d_def)
    obtain ts ds where ih: "wakeup_inv s'" "plugin_tables s' = plugin_tables s2" "wakeups s' = wakeups s2 @ ts"
      "plugin_dispatches s' = plugin_dispatches s2 @ ds" "ids' = map w_id ts"
      "list_all2 (wakes summary) (filter (\<lambda>b. \<not> binding_skipped s p a i b) bs) ts"
      "list_all2 (\<lambda>(b, t) d. records p v ev b (w_id t) d) (zip (filter (\<lambda>b. \<not> binding_skipped s p a i b) bs) ts) ds"
      using Cons.IH [OF run s2(1)] unfolding same by blast
    have "wakes summary b t" using rows by (simp add: wakes_def)
    moreover have "records p v ev b (w_id t) d" by (simp add: records_def d_def)
    ultimately show ?thesis
      using ih s2 rest(1) False by (intro conjI exI [of _ "t # ts"] exI [of _ "d # ds"]) simp_all
  qed
qed


definition sample_plugin :: plugin_row where
  "sample_plugin =
     \<lparr>p_id = ''p'', p_name = ''rss'', p_display_name = ''RSS'', p_plugin_type = ''external'', p_entry_module = ''main'',
      p_status = ''enabled'', p_data_dir = ''d'', p_config_schema = [], p_default_config = [], p_config = [],
      p_user_config_schema = [], p_user_default_config = [], p_settings_validation_function_name = None,
      p_is_globally_visible = True, p_active_version_id = Some ''v'', p_created_at = 0\<rparr>"

definition sample_version :: plugin_version_row where
  "sample_version = \<lparr>plv_id = ''v'', plv_plugin_id = ''p'', plv_version = ''1'', plv_manifest_path = ''m'', plv_created_at = 0\<rparr>"

definition sample_plugin_event :: plugin_event_row where
  "sample_plugin_event =
     \<lparr>pev_id = ''e'', pev_plugin_id = ''p'', pev_plugin_version_id = ''v'', pev_name = ''tick'', pev_mode = ''short_lived'',
      pev_function_name = ''f'', pev_title = [], pev_description = [], pev_config_schema = [], pev_default_config = []\<rparr>"

definition sample_binding :: "id \<Rightarrow> id \<Rightarrow> plugin_binding_row" where
  "sample_binding i target =
     \<lparr>pb_id = i, pb_plugin_id = ''p'', pb_scope_type = ''user'', pb_scope_id = ''u1'', pb_target_type = ''cocoon'',
      pb_target_id = target, pb_created_at = 0\<rparr>"

definition sample_plugins :: session where
  "sample_plugins = sample_cocoons\<lparr>plugins := [sample_plugin], plugin_versions := [sample_version],
     plugin_event_defs := [sample_plugin_event], plugin_bindings := [sample_binding ''b1'' ''a'', sample_binding ''b2'' ''gone'']\<rparr>"

lemma sample_plugins_inv: "wakeup_inv sample_plugins"
  using sample_wakeups_inv
  by (simp add: sample_plugins_def wakeup_inv_def wakeup_keys_def wakeups_linked_def supply_fresh_def)


section \<open>A schedule that never comes\<close>

text \<open>The thirtieth of February.\<close>

definition never :: string where "never = ''0 0 30 2 *''"

lemma never_valid: "validate_cron_expression never = Inr never"
  by code_simp

lemma never_fields:
  "parse_cron_fields (py_words never) =
   Inr \<lparr>cf_minutes = [0], cf_hours = [0], cf_days = [30], cf_months = [2], cf_weekdays = [0, 1, 2, 3, 4, 5, 6, 0]\<rparr>"
  by code_simp

lemma never_runs: "\<exists>x. next_cron_run zs never after timezone = Inl x"
proof (cases "zs timezone")
  case None
  then show ?thesis by (simp add: next_cron_run_def never_valid never_fields)
next
  case (Some z)
  define f :: cron_fields where
    "f = \<lparr>cf_minutes = [0], cf_hours = [0], cf_days = [30], cf_months = [2], cf_weekdays = [0, 1, 2, 3, 4, 5, 6, 0]\<rparr>"
  have no: "\<not> cron_matches f t" for t
    using month_day_february [of "day_number t"] by (auto simp: cron_matches_def f_def)
  have "cron_loop f a b \<noteq> Inr x" for a b x using no by (simp add: cron_loop_Inr)
  then obtain x where "cron_loop f (first_candidate z after) (first_candidate z after + hours (24 * 366)) = Inl x"
    by (metis sum.exhaust)
  then show ?thesis using Some by (simp add: next_cron_run_def never_valid never_fields f_def)
qed

text \<open>
  Listing the scopes only adds missing configurations, so it finds the same scopes whatever plugins were listed before
  in the session.
\<close>

definition fresh_user_config :: "session \<Rightarrow> plugin_user_config_row \<Rightarrow> bool" where
  "fresh_user_config s c \<longleftrightarrow> pu_is_enabled c \<and> pu_validation_error_text c = None \<and>
     find_user_config s (pu_plugin_id c) (pu_user_id c) = None \<and>
     (\<forall>p\<in>set (plugins s). p_id p = pu_plugin_id c \<longrightarrow> pu_config c = p_user_default_config p)"

definition fresh_group_config :: "session \<Rightarrow> plugin_group_config_row \<Rightarrow> bool" where
  "fresh_group_config s c \<longleftrightarrow> pg_is_enabled c \<and> pg_validation_error_text c = None \<and>
     find_group_config s (pg_plugin_id c) (pg_chat_group_id c) = None \<and>
     (\<forall>p\<in>set (plugins s). p_id p = pg_plugin_id c \<longrightarrow> pg_config c = p_user_default_config p)"

definition grown :: "session \<Rightarrow> session \<Rightarrow> bool" where
  "grown s t \<longleftrightarrow> (\<exists>n us gs. t = s\<lparr>id_next := n, plugin_user_configs := plugin_user_configs s @ us,
       plugin_group_configs := plugin_group_configs s @ gs\<rparr> \<and>
     (\<forall>c\<in>set us. fresh_user_config s c) \<and> (\<forall>c\<in>set gs. fresh_group_config s c))"

lemma grown_refl [simp]: "grown s s"
  unfolding grown_def by (intro exI [of _ "id_next s"] exI [of _ "[]"]) simp

lemma grown_tables:
  "grown s t \<Longrightarrow> plugins t = plugins s \<and> plugin_bindings t = plugin_bindings s \<and> cocoons t = cocoons s \<and> rooms t = rooms s \<and>
     users t = users s \<and> group_members t = group_members s \<and> plugin_group_visibilities t = plugin_group_visibilities s"
  by (auto simp: grown_def)

lemma grown_user_config:
  assumes g: "grown s t" and p: "p \<in> set (plugins s)" "distinct (map p_id (plugins s))"
    and e: "ensure_user_config t p u = (c, t1)" "ensure_user_config s p u = (d, s1)"
  shows "grown s t1 \<and> pu_is_enabled c = pu_is_enabled d \<and> pu_validation_error_text c = pu_validation_error_text d \<and> pu_config c = pu_config d"
proof -
  obtain n us gs where t: "t = s\<lparr>id_next := n, plugin_user_configs := plugin_user_configs s @ us,
      plugin_group_configs := plugin_group_configs s @ gs\<rparr>"
    and us: "\<forall>c\<in>set us. fresh_user_config s c" and gs: "\<forall>c\<in>set gs. fresh_group_config s c" using g by (auto simp: grown_def)
  have same: "q \<in> set (plugins s) \<Longrightarrow> p_id q = p_id p \<Longrightarrow> q = p" for q using distinct_key_eq [OF p(2) _ p(1)] by blast
  let ?P = "\<lambda>c. pu_plugin_id c = p_id p \<and> pu_user_id c = u"
  have find: "find_user_config t (p_id p) u = (case find_user_config s (p_id p) u of Some c \<Rightarrow> Some c | None \<Rightarrow> List.find ?P us)"
    by (simp add: find_user_config_def t find_append)
  show ?thesis
  proof (cases "find_user_config s (p_id p) u")
    case (Some x)
    then show ?thesis using e find g by (simp add: ensure_user_config_def)
  next
    case None
    then have d: "pu_is_enabled d \<and> pu_validation_error_text d = None \<and> pu_config d = p_user_default_config p"
      using e(2) by (auto simp: ensure_user_config_def Let_def)
    show ?thesis
    proof (cases "List.find ?P us")
      case (Some x)
      then have x: "x \<in> set us" "pu_plugin_id x = p_id p" using find_SomeD [of ?P us x] by auto
      have "c = x" "t1 = t" using e(1) find None Some by (auto simp: ensure_user_config_def)
      then show ?thesis using x us d p(1) g by (auto simp: fresh_user_config_def)
    next
      case no: None
      define new where "new = \<lparr>pu_id = new_id t, pu_plugin_id = p_id p, pu_user_id = u, pu_is_enabled = True,
          pu_config = p_user_default_config p, pu_validation_error_text = None, pu_validation_error_at = None,
          pu_runtime_error_text = None, pu_runtime_error_at = None\<rparr>"
      have c: "c = new" "t1 = (take_id t)\<lparr>plugin_user_configs := row_add new (plugin_user_configs t)\<rparr>"
        using e(1) find None no by (auto simp: ensure_user_config_def Let_def new_def)
      have "fresh_user_config s new" using None same by (auto simp: fresh_user_config_def new_def)
      moreover have "t1 = s\<lparr>id_next := Suc n, plugin_user_configs := plugin_user_configs s @ (us @ [new]),
          plugin_group_configs := plugin_group_configs s @ gs\<rparr>"
        by (simp add: c(2) t take_id_def row_add_def)
      ultimately have "grown s t1" unfolding grown_def using us gs
        by (intro exI [of _ "Suc n"] exI [of _ "us @ [new]"] exI [of _ gs]) auto
      then show ?thesis using d c(1) by (simp add: new_def)
    qed
  qed
qed

lemma grown_group_config:
  assumes g: "grown s t" and p: "p \<in> set (plugins s)" "distinct (map p_id (plugins s))"
    and e: "ensure_chat_group_config t p r = (c, t1)" "ensure_chat_group_config s p r = (d, s1)"
  shows "grown s t1 \<and> pg_is_enabled c = pg_is_enabled d \<and> pg_validation_error_text c = pg_validation_error_text d \<and> pg_config c = pg_config d"
proof -
  obtain n us gs where t: "t = s\<lparr>id_next := n, plugin_user_configs := plugin_user_configs s @ us,
      plugin_group_configs := plugin_group_configs s @ gs\<rparr>"
    and us: "\<forall>c\<in>set us. fresh_user_config s c" and gs: "\<forall>c\<in>set gs. fresh_group_config s c" using g by (auto simp: grown_def)
  have same: "q \<in> set (plugins s) \<Longrightarrow> p_id q = p_id p \<Longrightarrow> q = p" for q using distinct_key_eq [OF p(2) _ p(1)] by blast
  let ?P = "\<lambda>c. pg_plugin_id c = p_id p \<and> pg_chat_group_id c = r"
  have find: "find_group_config t (p_id p) r = (case find_group_config s (p_id p) r of Some c \<Rightarrow> Some c | None \<Rightarrow> List.find ?P gs)"
    by (simp add: find_group_config_def t find_append)
  show ?thesis
  proof (cases "find_group_config s (p_id p) r")
    case (Some x)
    then show ?thesis using e find g by (simp add: ensure_chat_group_config_def)
  next
    case None
    then have d: "pg_is_enabled d \<and> pg_validation_error_text d = None \<and> pg_config d = p_user_default_config p"
      using e(2) by (auto simp: ensure_chat_group_config_def Let_def)
    show ?thesis
    proof (cases "List.find ?P gs")
      case (Some x)
      then have x: "x \<in> set gs" "pg_plugin_id x = p_id p" using find_SomeD [of ?P gs x] by auto
      have "c = x" "t1 = t" using e(1) find None Some by (auto simp: ensure_chat_group_config_def)
      then show ?thesis using x gs d p(1) g by (auto simp: fresh_group_config_def)
    next
      case no: None
      define new where "new = \<lparr>pg_id = new_id t, pg_plugin_id = p_id p, pg_chat_group_id = r, pg_is_enabled = True,
          pg_config = p_user_default_config p, pg_validation_error_text = None, pg_validation_error_at = None,
          pg_runtime_error_text = None, pg_runtime_error_at = None\<rparr>"
      have c: "c = new" "t1 = (take_id t)\<lparr>plugin_group_configs := row_add new (plugin_group_configs t)\<rparr>"
        using e(1) find None no by (auto simp: ensure_chat_group_config_def Let_def new_def)
      have "fresh_group_config s new" using None same by (auto simp: fresh_group_config_def new_def)
      moreover have "t1 = s\<lparr>id_next := Suc n, plugin_user_configs := plugin_user_configs s @ us,
          plugin_group_configs := plugin_group_configs s @ (gs @ [new])\<rparr>"
        by (simp add: c(2) t take_id_def row_add_def)
      ultimately have "grown s t1" unfolding grown_def using us gs
        by (intro exI [of _ "Suc n"] exI [of _ us] exI [of _ "gs @ [new]"]) auto
      then show ?thesis using d c(1) by (simp add: new_def)
    qed
  qed
qed

lemma grown_scope:
  assumes g: "grown s t" and p: "p \<in> set (plugins s)" "distinct (map p_id (plugins s))"
  shows "fst (scope_of_binding t p b) = fst (scope_of_binding s p b) \<and> grown s (snd (scope_of_binding t p b))"
proof -
  obtain c t1 d s1 where u: "ensure_user_config t p (pb_scope_id b) = (c, t1)" "ensure_user_config s p (pb_scope_id b) = (d, s1)"
    by fastforce
  obtain c' t1' d' s1' where r: "ensure_chat_group_config t p (pb_scope_id b) = (c', t1')" "ensure_chat_group_config s p (pb_scope_id b) = (d', s1')"
    by fastforce
  note gu = grown_user_config [OF g p u] and gg = grown_group_config [OF g p r]
  have "grown s s1" using grown_user_config [OF grown_refl p u(2) u(2)] by simp
  then have tabs: "users t1 = users s1" "can_deliver_to_user t1 p = can_deliver_to_user s1 p"
    using grown_tables [of s t1] grown_tables [of s s1] gu
    by (auto simp: can_deliver_to_user_def member_group_ids_def visibility_overrides_def Let_def)
  have exists: "binding_target_exists t b = binding_target_exists s b" "rooms t = rooms s"
    using grown_tables [OF g] by (simp_all add: binding_target_exists_def)
  show ?thesis
    using gu gg tabs exists g by (simp add: scope_of_binding_def u r user_scope_def group_scope_def)
qed

fun scopes_from :: "session \<Rightarrow> plugin_row \<Rightarrow> short_scope list \<Rightarrow> plugin_binding_row list \<Rightarrow> short_scope list" where
  "scopes_from s p scopes [] = scopes"
| "scopes_from s p scopes (b # bs) =
     (if (pb_scope_type b, pb_scope_id b) \<in> scope_key ` set scopes then scopes_from s p scopes bs
      else scopes_from s p (case fst (scope_of_binding s p b) of None \<Rightarrow> scopes | Some sc \<Rightarrow> scopes @ [sc]) bs)"

lemma scopes_loop_from:
  assumes p: "p \<in> set (plugins s)" "distinct (map p_id (plugins s))"
  shows "grown s t \<Longrightarrow> fst (scopes_loop t p scopes bs) = scopes_from s p scopes bs \<and> grown s (snd (scopes_loop t p scopes bs))"
proof (induction bs arbitrary: t scopes)
  case (Cons b bs)
  obtain found t1 where st: "scope_of_binding t p b = (found, t1)" by fastforce
  have "found = fst (scope_of_binding s p b)" "grown s t1" using grown_scope [OF Cons.prems p, of b] by (simp_all add: st)
  then show ?case using Cons.IH [of t] Cons.IH [of t1] Cons.prems by (simp add: st)
qed simp

lemma grown_scopes:
  assumes "p \<in> set (plugins s)" "distinct (map p_id (plugins s))" "grown s t"
  shows "fst (list_short_lived_scopes t p) = fst (list_short_lived_scopes s p) \<and> grown s (snd (list_short_lived_scopes t p))"
proof -
  have "bindings_of t (p_id p) = bindings_of s (p_id p)" using grown_tables [OF assms(3)] by (simp add: bindings_of_def)
  then show ?thesis
    using scopes_loop_from [OF assms(1,2), of t] scopes_loop_from [OF assms(1,2), of s] assms(3)
    by (simp add: list_short_lived_scopes_def)
qed

lemma scope_of_binding_key: "fst (scope_of_binding s p b) = Some sc \<Longrightarrow> scope_key sc = (pb_scope_type b, pb_scope_id b)"
  by (auto simp: scope_of_binding_def scope_key_def user_scope_def group_scope_def Let_def split: if_splits prod.splits)

lemma distinct_scopes_from: "distinct (map scope_key scopes) \<Longrightarrow> distinct (map scope_key (scopes_from s p scopes bs))"
proof (induction bs arbitrary: scopes)
  case (Cons b bs)
  then show ?case
    by (cases "fst (scope_of_binding s p b)") (auto dest: scope_of_binding_key)
qed simp

lemma submit_keeps_runs: "pm_next_run (snd (submit_short_lived_event s m i n a b)) = pm_next_run m"
proof -
  have "pm_next_run (snd (submit_loop m xs)) = pm_next_run m" for xs
    by (induction m xs rule: submit_loop.induct) auto
  then show ?thesis by (simp add: submit_short_lived_event_def Let_def split: option.split prod.split)
qed

definition due :: "plugin_manager \<Rightarrow> run_key \<Rightarrow> time \<Rightarrow> bool" where
  "due m key now \<longleftrightarrow> (\<forall>t. pm_next_run m key = Some t \<longrightarrow> t \<le> now)"

lemma sync_scope_never:
  assumes "schedule_of s p ev sc = (''cron'', interval, Some never)" "due m (scope_run_key p ev sc) now"
  shows "\<exists>x m'. sync_scope e now s p ev sc m = (Inl x, m')"
proof -
  obtain x where x: "next_run_for_schedule e ''cron'' interval (Some never) now (sc_timezone sc) = Inl x"
    using never_runs [of "px_zones e" now] by (auto simp: next_run_for_schedule_def never_def)
  show ?thesis
    using assms by (auto simp: sync_scope_def x due_def Let_def not_less split: option.split)
qed

lemma sync_scope_other:
  "k \<noteq> scope_run_key p ev sc \<Longrightarrow> pm_next_run (snd (sync_scope e now s p ev sc m)) k = pm_next_run m k"
  by (auto simp: sync_scope_def Let_def set_next_run_def submit_keeps_runs split: prod.split option.split sum.split)

lemma sync_scopes_never:
  assumes "sc \<in> set scs" "distinct (map scope_key scs)" "schedule_of s p ev sc = (''cron'', interval, Some never)"
    "due m (scope_run_key p ev sc) now"
  shows "\<exists>x m'. sync_scopes e now s p ev scs m = (Inl x, m')"
  using assms
proof (induction scs arbitrary: m)
  case (Cons c scs)
  obtain r m1 where st: "sync_scope e now s p ev c m = (r, m1)" by fastforce
  show ?case
  proof (cases "c = sc")
    case True
    then show ?thesis using sync_scope_never [OF Cons.prems(3,4), of e] by auto
  next
    case False
    then have "scope_run_key p ev sc \<noteq> scope_run_key p ev c"
      using Cons.prems(1,2) by (auto simp: scope_run_key_def scope_key_def image_iff)
    then have "due m1 (scope_run_key p ev sc) now"
      using Cons.prems(4) sync_scope_other [of "scope_run_key p ev sc" p ev c e now s m] st by (simp add: due_def)
    then show ?thesis using Cons.IH [of m1] Cons.prems False st by (auto split: sum.split)
  qed
qed simp

lemma sync_scopes_other:
  "\<forall>sc\<in>set scs. k \<noteq> scope_run_key p ev sc \<Longrightarrow> pm_next_run (snd (sync_scopes e now s p ev scs m)) k = pm_next_run m k"
proof (induction scs arbitrary: m)
  case (Cons c scs)
  obtain r m1 where st: "sync_scope e now s p ev c m = (r, m1)" by fastforce
  have "pm_next_run m1 k = pm_next_run m k" using sync_scope_other [of k p ev c e now s m] Cons.prems st by simp
  then show ?case using Cons.IH [of m1] Cons.prems st by (auto split: sum.split)
qed simp

lemma sync_events_other:
  assumes "p \<in> set (plugins s)" "distinct (map p_id (plugins s))" "fst k \<noteq> p_id p" "grown s t"
    "sync_events e now s t p evs m = (Inr t1, m1)"
  shows "grown s t1 \<and> pm_next_run m1 k = pm_next_run m k"
  using assms(4,5)
proof (induction evs arbitrary: t m)
  case (Cons ev evs)
  show ?case
  proof (cases "\<not> event_enabled s (p_id p) (pev_name ev) \<or> pev_mode ev \<noteq> ''short_lived''")
    case True
    then show ?thesis using Cons by simp
  next
    case False
    obtain scopes t2 where sc: "list_short_lived_scopes t p = (scopes, t2)" by fastforce
    obtain r m2 where st: "sync_scopes e now s p ev scopes m = (r, m2)" by fastforce
    have g: "grown s t2" using grown_scopes [OF assms(1,2) Cons.prems(1)] sc by simp
    have "\<forall>sc\<in>set scopes. k \<noteq> scope_run_key p ev sc" using assms(3) by (auto simp: scope_run_key_def)
    then have k2: "pm_next_run m2 k = pm_next_run m k"
      using sync_scopes_other [of scopes k p ev e now s m] st by simp
    have run: "sync_events e now s t2 p evs (forget_stale p ev (scope_run_key p ev ` set scopes) m2) = (Inr t1, m1)"
      using Cons.prems(2) False sc st by (auto split: sum.splits)
    show ?thesis using Cons.IH [OF g run] k2 assms(3) by (simp add: forget_stale_def)
  qed
qed simp

lemma sync_events_never:
  assumes p: "p \<in> set (plugins s)" "distinct (map p_id (plugins s))"
    and ev: "event_enabled s (p_id p) (pev_name ev)" "pev_mode ev = ''short_lived''"
    and sc: "sc \<in> set (fst (list_short_lived_scopes s p))" "schedule_of s p ev sc = (''cron'', interval, Some never)"
    and "ev \<in> set evs" "grown s t" "due m (scope_run_key p ev sc) now"
  shows "\<exists>x m'. sync_events e now s t p evs m = (Inl x, m')"
  using assms(7-9)
proof (induction evs arbitrary: t m)
  case (Cons f evs)
  let ?k = "scope_run_key p ev sc"
  obtain scopes t2 where l: "list_short_lived_scopes t p = (scopes, t2)" by fastforce
  obtain r m2 where st: "sync_scopes e now s p f scopes m = (r, m2)" by fastforce
  have g: "grown s t2" and scopes: "scopes = fst (list_short_lived_scopes s p)"
    using grown_scopes [OF p Cons.prems(2)] l by simp_all
  have dist: "distinct (map scope_key scopes)"
    unfolding scopes list_short_lived_scopes_def
    using scopes_loop_from [OF p, of s "[]" "bindings_of s (p_id p)"] distinct_scopes_from [of "[]" s p "bindings_of s (p_id p)"] by simp
  show ?case
  proof (cases "\<not> event_enabled s (p_id p) (pev_name f) \<or> pev_mode f \<noteq> ''short_lived''")
    case True
    then have "f \<noteq> ev" using ev by auto
    then show ?thesis using Cons True by simp
  next
    case on: False
    show ?thesis
    proof (cases "pev_name f = pev_name ev")
      case True
      then have "schedule_of s p f sc = (''cron'', interval, Some never)" "scope_run_key p f sc = ?k"
        using sc(2) by (simp_all only: schedule_of_def scope_run_key_def True)
      then have "\<exists>x m'. sync_scopes e now s p f scopes m = (Inl x, m')"
        using sync_scopes_never [OF _ dist, of sc s p f interval m now e] sc(1) Cons.prems(3) scopes by simp
      then show ?thesis using on l by auto
    next
      case False
      then have "\<forall>c\<in>set scopes. ?k \<noteq> scope_run_key p f c" by (auto simp: scope_run_key_def)
      then have "pm_next_run m2 ?k = pm_next_run m ?k"
        using sync_scopes_other [of scopes ?k p f e now s m] st by simp
      then have "due (forget_stale p f (scope_run_key p f ` set scopes) m2) ?k now"
        using Cons.prems(3) False by (simp add: due_def forget_stale_def scope_run_key_def)
      moreover have "ev \<in> set evs" using Cons.prems(1) False by auto
      ultimately show ?thesis using Cons.IH [OF _ g] on l st by (auto split: sum.split)
    qed
  qed
qed simp

lemma sync_plugins_never:
  assumes p: "p \<in> set (plugins s)" "distinct (map p_id (plugins s))" "runs_events s p"
    and ev: "ev \<in> set (active_events s p)" "event_enabled s (p_id p) (pev_name ev)" "pev_mode ev = ''short_lived''"
    and sc: "sc \<in> set (fst (list_short_lived_scopes s p))" "schedule_of s p ev sc = (''cron'', interval, Some never)"
    and "p \<in> set ps" "set ps \<subseteq> set (plugins s)" "grown s t" "due m (scope_run_key p ev sc) now"
  shows "\<exists>x m'. sync_plugins e now s t ps m = (Inl x, m')"
  using assms(9-)
proof (induction ps arbitrary: t m)
  case (Cons q ps)
  show ?case
  proof (cases "q = p")
    case True
    then show ?thesis
      using sync_events_never [OF p(1,2) ev(2,3) sc ev(1) Cons.prems(3,4), of e] p(3) by auto
  next
    case False
    then have in_ps: "p \<in> set ps" "set ps \<subseteq> set (plugins s)" "q \<in> set (plugins s)" using Cons.prems by auto
    have "p_id q \<noteq> p_id p" using distinct_key_eq [OF p(2) in_ps(3) p(1)] False by blast
    then have k: "fst (scope_run_key p ev sc) \<noteq> p_id q" by (simp add: scope_run_key_def)
    show ?thesis
    proof (cases "runs_events s q")
      case True
      obtain r m1 where st: "sync_events e now s t q (active_events s q) m = (r, m1)" by fastforce
      show ?thesis
      proof (cases r)
        case (Inr t1)
        have "grown s t1" "pm_next_run m1 (scope_run_key p ev sc) = pm_next_run m (scope_run_key p ev sc)"
          using sync_events_other [OF in_ps(3) p(2) k Cons.prems(3)] st Inr by simp_all
        then show ?thesis using Cons.IH [OF in_ps(1,2), of t1 m1] Cons.prems(4) st Inr True by (simp add: due_def)
      qed (use st True in simp)
    qed (use Cons.IH [OF in_ps(1,2) Cons.prems(3,4)] in simp)
  qed
qed simp

definition sample_plugin_user :: user_row where
  "sample_plugin_user =
     \<lparr>u_id = ''u1'', u_username = ''ann'', u_email = None, u_password_hash = [], u_role_id = None, u_primary_group_id = None,
      u_permissions = [], u_timezone = ''UTC'', u_is_active = True, u_created_at = 0\<rparr>"

definition sample_plugin_env :: plugin_env where
  "sample_plugin_env = \<lparr>px_settings_check = (\<lambda>p v c d u g. Inr None), px_text = (\<lambda>v. []), px_zones = utc_zones\<rparr>"

definition idle_manager :: plugin_manager where
  "idle_manager = \<lparr>pm_next_run = (\<lambda>k. None), pm_futures = []\<rparr>"


definition sample_schedule :: plugin_user_event_row where
  "sample_schedule =
     \<lparr>ue_id = ''i'', ue_plugin_id = ''p'', ue_user_id = ''u1'', ue_event_name = ''tick'', ue_schedule_mode = ''cron'',
      ue_schedule_interval_seconds = None, ue_schedule_cron = Some ''0 0 30 2 *''\<rparr>"

definition scheduled_plugins :: session where
  "scheduled_plugins = sample_plugins\<lparr>id_next := 1, plugin_user_events := [sample_schedule]\<rparr>"

lemma sample_schedule_checked:
  "schedule_checked sample_plugins sample_plugin_user ''p'' ''tick'' ''cron'' None (Some never) = Inr (sample_plugin, Some never)"
  by (simp add: schedule_checked_def require_user_visible_plugin_def require_plugin_def sample_plugins_def sample_plugin_def row_get_def
      plugin_visible_def resolve_plugin_visibility_def visibility_overrides_def sample_cocoons_def sample_tags_def empty_session_def
      get_active_event_definition_def sample_plugin_event_def never_valid)

text \<open>The request that stores the schedule fails, and the schedule is stored.\<close>

lemma never_stored:
  "\<exists>x. update_user_event_schedule sample_plugin_env sample_plugins idle_manager sample_plugin_user ''p'' ''tick'' ''cron'' None
     (Some never) = (Inl x, scheduled_plugins, idle_manager)"
proof -
  obtain x where x: "next_cron_run utc_zones never 5 ''UTC'' = Inl x" using never_runs by blast
  have u: "update_user_event_schedule sample_plugin_env sample_plugins idle_manager sample_plugin_user ''p'' ''tick'' ''cron'' None
       (Some never) = (Inl x, scheduled_plugins, idle_manager)"
    using x sample_schedule_checked
    by (simp add: update_user_event_schedule_def ensure_user_event_config_def find_user_event_def Let_def update_short_lived_schedule_def
        sample_plugin_env_def scheduled_plugins_def sample_schedule_def sample_plugins_def sample_cocoons_def sample_tags_def
        empty_session_def sample_plugin_user_def utcnow_def take_id_def row_add_def row_put_def new_id_def id_literal_def never_def)
  then show ?thesis by blast
qed

end
