(* ===== verification/ImDelivery.thy ===== *)
theory ImDelivery
  imports PluginManager ChatRuntime
begin

text \<open>
  Messages of external platforms (\<open>services/plugins/manager/im_delivery_mixin.py\<close>): the outbox of replies, which a
  round offers to the process of their plugin until the plugin reports what became of them, and messages that come in.
  What \<open>str\<close> makes of a JSON value and what the processes do are arguments.
\<close>

section \<open>Arguments and the manager's memory\<close>

record im_env =
  ie_text :: "json \<Rightarrow> string"
  ie_dispatch :: dispatch_service

text \<open>
  The link to the processes during a round: for which plugins a living process of type \<open>im\<close> with a queue is known,
  and what \<open>put\<close> raises for a delivery, if anything.
\<close>

record im_link =
  il_ready :: "id \<Rightarrow> bool"
  il_refused :: "id \<Rightarrow> string option"

text \<open>The deliveries under way, each with its plugin and its deadline, and all messages that were put into a queue of a process.\<close>

record im_manager =
  im_in_flight :: "id \<Rightarrow> (id \<times> time) option"
  im_sent :: "(id \<times> dict) list"

section \<open>Reading a message\<close>

text \<open>\<open>str(d.get(k) or "").strip()\<close> and \<open>dict(d.get(k) or {})\<close>; a value that is no dictionary raises.\<close>

definition raw_text :: "im_env \<Rightarrow> json \<Rightarrow> string" where
  "raw_text e v = (case v of JStr t \<Rightarrow> t | _ \<Rightarrow> if json_truthy v then ie_text e v else [])"

definition field_text :: "im_env \<Rightarrow> string \<Rightarrow> dict \<Rightarrow> string" where
  "field_text e k d = py_strip (raw_text e (json_or_null k d))"

definition field_dict :: "string \<Rightarrow> dict \<Rightarrow> dict result" where
  "field_dict k d =
     (case json_or_null k d of
        JObj x \<Rightarrow> Inr x
      | v \<Rightarrow> if json_truthy v then Inl (TypeError ''cannot convert to a dictionary'') else Inr [])"

text \<open>\<open>t or None\<close>.\<close>

definition text_or_null :: "string \<Rightarrow> json" where
  "text_or_null t = (if t = [] then JNull else JStr t)"

section \<open>The outbox\<close>

text \<open>The pause after the n-th attempt: \<open>min(60, max(1, 2 ** min(n, 5)))\<close> seconds.\<close>

definition retry_delay :: "int \<Rightarrow> time" where
  "retry_delay n = seconds (min 60 (max 1 (2 ^ nat (min n 5))))"

definition due_delivery :: "time \<Rightarrow> im_outbox_row \<Rightarrow> bool" where
  "due_delivery now r =
     (ob_status r \<in> {''queued'', ''delivering''} \<and>
      (case ob_next_attempt_at r of None \<Rightarrow> True | Some t \<Rightarrow> t \<le> now))"

definition forget_expired :: "time \<Rightarrow> im_manager \<Rightarrow> im_manager" where
  "forget_expired now m =
     m\<lparr>im_in_flight := (\<lambda>i. case im_in_flight m i of
         None \<Rightarrow> None | Some (plugin_id, deadline) \<Rightarrow> if deadline \<le> now then None else Some (plugin_id, deadline))\<rparr>"

definition delivery_message :: "time \<Rightarrow> im_outbox_row \<Rightarrow> dict" where
  "delivery_message now r =
     [(''type'', JStr ''deliver_reply''), (''delivery_id'', JStr (ob_id r)),
      (''reply'', JObj (dict_set ''delivery_id'' (JStr (ob_id r)) (ob_payload r))), (''occurred_at'', JStr (isoformat_utc now))]"

definition refused_row :: "time \<Rightarrow> string \<Rightarrow> im_outbox_row \<Rightarrow> im_outbox_row" where
  "refused_row now text r =
     r\<lparr>ob_status := ''queued'', ob_attempt_count := ob_attempt_count r + 1, ob_last_error_text := Some text,
       ob_next_attempt_at := Some (now + retry_delay (ob_attempt_count r + 1))\<rparr>"

definition sent_row :: "time \<Rightarrow> im_outbox_row \<Rightarrow> im_outbox_row" where
  "sent_row now r =
     r\<lparr>ob_status := ''delivering'', ob_attempt_count := ob_attempt_count r + 1, ob_last_error_text := None,
       ob_next_attempt_at := Some (now + seconds 30)\<rparr>"

definition put_outbox :: "id \<Rightarrow> (im_outbox_row \<Rightarrow> im_outbox_row) \<Rightarrow> session \<Rightarrow> session" where
  "put_outbox i f s = s\<lparr>im_outbox := row_put ob_id i f (im_outbox s)\<rparr>"

definition send_delivery :: "im_link \<Rightarrow> time \<Rightarrow> session \<times> im_manager \<Rightarrow> im_outbox_row \<Rightarrow> session \<times> im_manager" where
  "send_delivery l now x r =
     (case x of (s, m) \<Rightarrow>
        if im_in_flight m (ob_id r) \<noteq> None \<or> \<not> il_ready l (ob_plugin_id r) then (s, m)
        else case il_refused l (ob_id r) of
          Some text \<Rightarrow> (put_outbox (ob_id r) (refused_row now text) s, m)
        | None \<Rightarrow>
            (put_outbox (ob_id r) (sent_row now) s,
             m\<lparr>im_in_flight := (im_in_flight m)(ob_id r \<mapsto> (ob_plugin_id r, now + seconds 30)),
               im_sent := im_sent m @ [(ob_plugin_id r, delivery_message now r)]\<rparr>))"

definition dispatch_im_deliveries :: "im_link \<Rightarrow> session \<Rightarrow> im_manager \<Rightarrow> session \<times> im_manager" where
  "dispatch_im_deliveries l s m =
     (let now = utcnow s
      in foldl (send_delivery l now) (s, forget_expired now m)
           (sort_key ob_created_at (filter (due_delivery now) (im_outbox s))))"

text \<open>What the plugin reports of a delivery; \<open>retryable\<close> is true when it is left out.\<close>

definition settled_row :: "im_env \<Rightarrow> time \<Rightarrow> dict \<Rightarrow> im_outbox_row \<Rightarrow> im_outbox_row" where
  "settled_row e now r row =
     (if dict_truthy ''ok'' r
      then row\<lparr>ob_status := ''delivered'', ob_delivered_at := Some now, ob_last_error_text := None, ob_next_attempt_at := None\<rparr>
      else let retry = (case dict_get ''retryable'' r of None \<Rightarrow> True | Some v \<Rightarrow> json_truthy v);
               text = raw_text e (json_or_null ''error'' r)
           in row\<lparr>ob_status := (if retry then ''queued'' else ''failed''),
                  ob_last_error_text := Some (if text = [] then ''IM delivery failed'' else text),
                  ob_next_attempt_at :=
                    (if retry then Some (now + retry_delay (if ob_attempt_count row = 0 then 1 else ob_attempt_count row))
                     else None)\<rparr>)"

definition handle_im_delivery_result ::
  "im_env \<Rightarrow> session \<Rightarrow> im_manager \<Rightarrow> plugin_row \<Rightarrow> dict \<Rightarrow> session result \<times> im_manager" where
  "handle_im_delivery_result e s m p payload =
     (let delivery_id = field_text e ''delivery_id'' payload
      in if delivery_id = [] then (Inr s, m)
         else let m1 = m\<lparr>im_in_flight := (im_in_flight m)(delivery_id := None)\<rparr>
              in (case row_get ob_id delivery_id (im_outbox s) of
                    None \<Rightarrow> Inr s
                  | Some row \<Rightarrow>
                      if ob_plugin_id row \<noteq> p_id p then Inr s
                      else bind_r (field_dict ''result'' payload) (\<lambda>r.
                           Inr (put_outbox delivery_id (settled_row e (utcnow s) r) s)), m1))"

section \<open>Messages that come in\<close>

definition im_client_request_id :: "im_env \<Rightarrow> id \<Rightarrow> string \<Rightarrow> string \<Rightarrow> string \<Rightarrow> string \<Rightarrow> string" where
  "im_client_request_id e plugin_id message_kind account conversation message_id =
     ''plugin-im:'' @ plugin_id @ '':'' @
     take 32 (ds_sha256 (ie_dispatch e) (py_join ''|'' [plugin_id, message_kind, account, conversation, message_id]))"

definition resolve_im_user_id :: "im_env \<Rightarrow> session \<Rightarrow> string \<Rightarrow> dict \<Rightarrow> id option result" where
  "resolve_im_user_id e s field_name message =
     (let normalized = field_text e field_name message
      in if normalized = [] then Inr None
         else if row_get u_id normalized (users s) = None
         then Inl (ValueError (field_name @ '' must reference an existing user''))
         else Inr (Some normalized))"

text \<open>The payload of the action; the time of the message stays as the text it came with.\<close>

definition im_source_payload ::
  "im_env \<Rightarrow> id \<Rightarrow> string \<Rightarrow> dict \<Rightarrow> id option \<Rightarrow> id option \<Rightarrow> id option \<Rightarrow> dict \<Rightarrow> dict \<Rightarrow> dict \<Rightarrow> dict" where
  "im_source_payload e plugin_id message_kind message sender owner memory_owner route_metadata metadata raw_payload =
     [(''source_kind'', JStr ''plugin_im''), (''source_plugin_id'', JStr plugin_id),
      (''external_account_id'', text_or_null (field_text e ''account_id'' message)),
      (''external_conversation_id'', text_or_null (field_text e ''conversation_id'' message)),
      (''external_message_id'', JStr (field_text e ''message_id'' message)),
      (''external_sender_id'', text_or_null (field_text e ''sender_id'' message)),
      (''external_sender_display_name'', text_or_null (field_text e ''sender_display_name'' message)),
      (''sender_user_id'', json_opt_str sender), (''owner_user_id'', json_opt_str owner),
      (''memory_owner_user_id'', json_opt_str memory_owner), (''im_message_kind'', JStr message_kind),
      (''im_route_metadata_json'', JObj route_metadata),
      (''im_metadata_json'',
         JObj (dict_set ''occurred_at'' (JStr (raw_text e (json_or_null ''occurred_at'' message)))
                (dict_set ''raw_payload'' (JObj raw_payload) metadata)))]"

definition opt_text :: "string \<Rightarrow> string option" where
  "opt_text t = (if t = [] then None else Some t)"

definition im_chat_request :: "im_env \<Rightarrow> string \<Rightarrow> string \<Rightarrow> id option \<Rightarrow> dict \<Rightarrow> dict \<Rightarrow> chat_request" where
  "im_chat_request e content request_id sender message source_payload =
     \<lparr>cr_content = content, cr_client_request_id = request_id, cr_timezone = Some ''UTC'', cr_client_sent_at = None,
      cr_locale = None, cr_idle_seconds = None, cr_recent_turn_count = None, cr_typing_hint_ms = None,
      cr_sender_user_id = sender, cr_external_sender_id = opt_text (field_text e ''sender_id'' message),
      cr_external_sender_display_name = opt_text (field_text e ''sender_display_name'' message),
      cr_extra_payload = source_payload\<rparr>"

definition ingest_im_inbound_message :: "im_env \<Rightarrow> world \<Rightarrow> plugin_row \<Rightarrow> dict \<Rightarrow> (action_row \<times> world) result" where
  "ingest_im_inbound_message e w p payload =
     (let message_kind = field_text e ''message_kind'' payload
      in bind_r (field_dict ''route'' payload) (\<lambda>route.
         let target_type = field_text e ''target_type'' route; target_id = field_text e ''target_id'' route
         in if target_type \<notin> {''cocoon'', ''chat_group''} \<or> target_id = []
            then Inl (ValueError ''IM inbound route must include target_type 'cocoon' or 'chat_group' and target_id'')
            else bind_r (field_dict ''message'' payload) (\<lambda>message.
              let content = field_text e ''text'' message; message_id = field_text e ''message_id'' message
              in if content = [] then Inl (ValueError ''IM inbound message text is required'')
                 else if message_id = [] then Inl (ValueError ''IM inbound message_id is required'')
                 else let request_id = im_client_request_id e (p_id p) message_kind (field_text e ''account_id'' message)
                                         (field_text e ''conversation_id'' message) message_id
                      in bind_r (resolve_im_user_id e (db w) ''sender_user_id'' message) (\<lambda>sender.
                         bind_r (resolve_im_user_id e (db w) ''owner_user_id'' message) (\<lambda>owner.
                         bind_r (resolve_im_user_id e (db w) ''memory_owner_user_id'' message) (\<lambda>memory_owner.
                         bind_r (field_dict ''metadata_json'' route) (\<lambda>route_metadata.
                         bind_r (field_dict ''metadata_json'' message) (\<lambda>metadata.
                         bind_r (field_dict ''raw_payload'' message) (\<lambda>raw_payload.
                         let source_payload = im_source_payload e (p_id p) message_kind message sender owner
                               (if memory_owner = None then or_opt owner sender else memory_owner)
                               route_metadata metadata raw_payload;
                             r = im_chat_request e content request_id sender message source_payload
                         in if target_type = ''cocoon'' then enqueue_chat_message (ie_dispatch e) w target_id r
                            else enqueue_chat_group_message (ie_dispatch e) w target_id r))))))))) "

section \<open>What a round offers\<close>

text \<open>What a round does with a row of the outbox, as a function of the row alone.\<close>

definition offered :: "im_link \<Rightarrow> im_manager \<Rightarrow> im_outbox_row \<Rightarrow> bool" where
  "offered l m r \<longleftrightarrow> im_in_flight m (ob_id r) = None \<and> il_ready l (ob_plugin_id r)"

definition sends :: "im_link \<Rightarrow> im_manager \<Rightarrow> im_outbox_row \<Rightarrow> bool" where
  "sends l m r \<longleftrightarrow> offered l m r \<and> il_refused l (ob_id r) = None"

definition after_offer :: "im_link \<Rightarrow> im_manager \<Rightarrow> time \<Rightarrow> im_outbox_row \<Rightarrow> im_outbox_row" where
  "after_offer l m now r =
     (if offered l m r then (case il_refused l (ob_id r) of None \<Rightarrow> sent_row now r | Some t \<Rightarrow> refused_row now t r) else r)"

lemma outbox_ids [simp]: "ob_id (sent_row now r) = ob_id r" "ob_id (refused_row now t r) = ob_id r"
  "ob_id (settled_row e now d r) = ob_id r" "ob_plugin_id (sent_row now r) = ob_plugin_id r"
  "ob_plugin_id (refused_row now t r) = ob_plugin_id r" "ob_plugin_id (settled_row e now d r) = ob_plugin_id r"
  by (simp_all add: sent_row_def refused_row_def settled_row_def Let_def)

lemma after_offer_id [simp]: "ob_id (after_offer l m now r) = ob_id r"
  by (simp add: after_offer_def split: option.splits)

lemma put_outbox_cong:
  assumes "\<forall>x\<in>set (im_outbox s). ob_id x = i \<longrightarrow> f x = g x"
  shows "put_outbox i f s = put_outbox i g s"
proof -
  have "row_put ob_id i f (im_outbox s) = row_put ob_id i g (im_outbox s)"
    unfolding row_put_def using assms by (intro map_cong) auto
  then show ?thesis by (simp add: put_outbox_def)
qed

lemma send_delivery_cases:
  assumes uniq: "\<forall>x\<in>set (im_outbox s). ob_id x = ob_id r \<longrightarrow> x = r"
  shows "send_delivery l now (s, m) r =
     (if offered l m r then put_outbox (ob_id r) (after_offer l m now) s else s,
      if sends l m r
      then m\<lparr>im_in_flight := (im_in_flight m)(ob_id r \<mapsto> (ob_plugin_id r, now + seconds 30)),
             im_sent := im_sent m @ [(ob_plugin_id r, delivery_message now r)]\<rparr>
      else m)"
proof (cases "offered l m r")
  case True
  have eq: "put_outbox (ob_id r) f s = put_outbox (ob_id r) (after_offer l m now) s" if "f r = after_offer l m now r" for f
    using uniq that by (intro put_outbox_cong) blast
  show ?thesis
  proof (cases "il_refused l (ob_id r)")
    case None
    then have "after_offer l m now r = sent_row now r" using True by (simp add: after_offer_def)
    from eq [of "sent_row now", OF this [symmetric]] show ?thesis using True None by (simp add: send_delivery_def offered_def sends_def)
  next
    case (Some t)
    then have "after_offer l m now r = refused_row now t r" using True by (simp add: after_offer_def)
    from eq [of "refused_row now t", OF this [symmetric]] show ?thesis using True Some by (simp add: send_delivery_def offered_def sends_def)
  qed
next
  case False
  then show ?thesis by (auto simp: send_delivery_def offered_def sends_def)
qed

definition offer_all :: "im_link \<Rightarrow> im_manager \<Rightarrow> time \<Rightarrow> im_outbox_row list \<Rightarrow> im_outbox_row list \<Rightarrow> im_outbox_row list" where
  "offer_all l m now rs = map (\<lambda>r. if r \<in> set rs then after_offer l m now r else r)"

lemma send_loop:
  assumes "distinct (map ob_id (im_outbox s))" "set rs \<subseteq> set (im_outbox s)" "distinct (map ob_id rs)"
    and "foldl (send_delivery l now) (s, m) rs = (s', m')"
  shows "s' = s\<lparr>im_outbox := offer_all l m now rs (im_outbox s)\<rparr> \<and>
    im_sent m' = im_sent m @ map (\<lambda>r. (ob_plugin_id r, delivery_message now r)) (filter (sends l m) rs) \<and>
    im_in_flight m' = (\<lambda>i. case row_get ob_id i (filter (sends l m) rs) of
        None \<Rightarrow> im_in_flight m i | Some r \<Rightarrow> Some (ob_plugin_id r, now + seconds 30))"
  using assms
proof (induction rs arbitrary: s m)
  case Nil
  then show ?case by (simp add: offer_all_def row_get_def)
next
  case (Cons r rs)
  have uniq: "x = r" if "x \<in> set (im_outbox s)" "ob_id x = ob_id r" for x
    using Cons.prems(1,2) that by (auto simp: distinct_map dest: inj_onD)
  define s1 where "s1 = (if offered l m r then put_outbox (ob_id r) (after_offer l m now) s else s)"
  define m1 where "m1 = (if sends l m r
      then m\<lparr>im_in_flight := (im_in_flight m)(ob_id r \<mapsto> (ob_plugin_id r, now + seconds 30)),
             im_sent := im_sent m @ [(ob_plugin_id r, delivery_message now r)]\<rparr> else m)"
  have step: "foldl (send_delivery l now) (s1, m1) rs = (s', m')"
    using Cons.prems(4) send_delivery_cases [of s r l now m] uniq by (simp add: s1_def m1_def)
  have notid: "ob_id x \<noteq> ob_id r" if "x \<in> set rs" for x
    using Cons.prems(3) that by (force simp: image_iff)
  have other: "im_in_flight m1 (ob_id x) = im_in_flight m (ob_id x)" if "x \<in> set rs" for x
    using notid [OF that] by (simp add: m1_def)
  have same: "offered l m1 x = offered l m x" "sends l m1 x = sends l m x" if "x \<in> set rs" for x
    using other [OF that] by (simp_all add: offered_def sends_def)
  have out: "im_outbox s1 = map (\<lambda>x. if x = r then after_offer l m now r else x) (im_outbox s)"
  proof (cases "offered l m r")
    case True
    then show ?thesis using uniq by (auto simp: s1_def put_outbox_def row_put_def)
  next
    case False
    then have "(if x = r then after_offer l m now r else x) = x" for x by (simp add: after_offer_def)
    then show ?thesis using False by (simp add: s1_def)
  qed
  have notin: "x \<noteq> r" if "x \<in> set rs" for x using Cons.prems(3) that by auto
  have ids: "map ob_id (im_outbox s1) = map ob_id (im_outbox s)" by (auto simp: out)
  have sub: "set rs \<subseteq> set (im_outbox s1)"
  proof
    fix x assume x: "x \<in> set rs"
    then have mem: "x \<in> set (im_outbox s)" using Cons.prems(2) by auto
    show "x \<in> set (im_outbox s1)" unfolding out set_map
      by (rule image_eqI [where x = x]) (simp_all add: mem notin [OF x])
  qed
  have d1: "distinct (map ob_id (im_outbox s1))" using Cons.prems(1) by (simp only: ids)
  have d2: "distinct (map ob_id rs)" using Cons.prems(3) by simp
  note ih = Cons.IH [OF d1 sub d2 step]
  have filt: "filter (sends l m1) rs = filter (sends l m) rs" by (rule filter_cong) (simp_all add: same)
  have gone: "after_offer l m now r \<notin> set rs"
    using Cons.prems(3) by (metis after_offer_id distinct.simps(2) image_eqI list.set_map list.simps(9))
  have eq: "offer_all l m1 now rs (im_outbox s1) = offer_all l m now (r # rs) (im_outbox s)"
    using gone notin by (auto simp: offer_all_def out after_offer_def same)
  have tables: "s1\<lparr>im_outbox := y\<rparr> = s\<lparr>im_outbox := y\<rparr>" for y by (simp add: s1_def put_outbox_def)
  have fl: "im_in_flight m' = (\<lambda>i. case row_get ob_id i (filter (sends l m) rs) of
        None \<Rightarrow> im_in_flight m1 i | Some r \<Rightarrow> Some (ob_plugin_id r, now + seconds 30))"
    and se: "im_sent m' = im_sent m1 @ map (\<lambda>r. (ob_plugin_id r, delivery_message now r)) (filter (sends l m) rs)"
    using ih unfolding filt by blast+
  have nope: "row_get ob_id (ob_id r) (filter (sends l m) rs) = None"
    using Cons.prems(3) by (auto simp: row_get_None row_ids_def)
  have "s' = s1\<lparr>im_outbox := offer_all l m1 now rs (im_outbox s1)\<rparr>" using ih by blast
  then have "s' = s\<lparr>im_outbox := offer_all l m now (r # rs) (im_outbox s)\<rparr>" unfolding eq tables .
  moreover have "im_sent m' = im_sent m @ map (\<lambda>r. (ob_plugin_id r, delivery_message now r)) (filter (sends l m) (r # rs))"
    by (simp add: se m1_def)
  moreover have "im_in_flight m' i = (case row_get ob_id i (filter (sends l m) (r # rs)) of
      None \<Rightarrow> im_in_flight m i | Some r \<Rightarrow> Some (ob_plugin_id r, now + seconds 30))" for i
  proof (cases "ob_id r = i")
    case True
    then show ?thesis using nope by (auto simp: fl m1_def row_get_def)
  next
    case False
    then have "im_in_flight m1 i = im_in_flight m i" by (simp add: m1_def)
    moreover have "row_get ob_id i (filter (sends l m) (r # rs)) = row_get ob_id i (filter (sends l m) rs)"
      using False by (simp add: row_get_def)
    ultimately show ?thesis by (cases "row_get ob_id i (filter (sends l m) rs)") (simp_all add: fl)
  qed
  ultimately show ?case by blast
qed


section \<open>The pace of the attempts\<close>

text \<open>
  A history of the outbox: replies are made, time passes, rounds offer them, plugins report, and the manager may forget
  what is under way (it is restarted, a plugin is reloaded, another plugin reports the delivery). The log has each
  attempt that was taken, with its time.
\<close>

inductive delivery_run :: "im_env \<Rightarrow> session \<Rightarrow> im_manager \<Rightarrow> (id \<times> time) list \<Rightarrow> bool" for e where
  start: "im_outbox s = [] \<Longrightarrow> inj (id_supply s) \<Longrightarrow> delivery_run e s m []"
| reply: "delivery_run e s m hist \<Longrightarrow> delivery_run e (enqueue_reply s a msg) m hist"
| tick: "delivery_run e s m hist \<Longrightarrow> clock s \<le> t \<Longrightarrow> delivery_run e (s\<lparr>clock := t\<rparr>) m hist"
| round: "delivery_run e s m hist \<Longrightarrow> dispatch_im_deliveries l s m = (s', m') \<Longrightarrow>
    delivery_run e s' m'
      (hist @ map (\<lambda>(_, d). (dict_str ''delivery_id'' d, clock s)) (drop (length (im_sent m)) (im_sent m')))"
| report: "delivery_run e s m hist \<Longrightarrow> handle_im_delivery_result e s m p payload = (Inr s', m') \<Longrightarrow> delivery_run e s' m' hist"
| forget: "delivery_run e s m hist \<Longrightarrow> delivery_run e s (m\<lparr>im_in_flight := f\<rparr>) hist"

text \<open>What holds of a row after attempts at the given times, when it is the given time.\<close>

definition paced :: "time \<Rightarrow> time list \<Rightarrow> im_outbox_row \<Rightarrow> bool" where
  "paced now ts r \<longleftrightarrow>
     0 \<le> ob_attempt_count r \<and> (ts \<noteq> [] \<longrightarrow> 1 \<le> ob_attempt_count r) \<and> (\<forall>t\<in>set ts. t \<le> now) \<and>
     (ob_status r \<in> {''queued'', ''delivering''} \<longrightarrow> (\<exists>u. ob_next_attempt_at r = Some u \<and> (\<forall>t\<in>set ts. t + seconds 2 \<le> u)))"

definition attempts :: "(id \<times> time) list \<Rightarrow> id \<Rightarrow> time list" where
  "attempts hist i = map snd (filter (\<lambda>x. fst x = i) hist)"

definition delivery_inv :: "session \<Rightarrow> (id \<times> time) list \<Rightarrow> bool" where
  "delivery_inv s hist \<longleftrightarrow>
     distinct (map ob_id (im_outbox s)) \<and> supply_fresh s (row_ids ob_id (im_outbox s)) \<and>
     fst ` set hist \<subseteq> row_ids ob_id (im_outbox s) \<and>
     (\<forall>r\<in>set (im_outbox s). paced (clock s) (attempts hist (ob_id r)) r) \<and>
     (\<forall>i. sorted_wrt (\<lambda>t u. t + seconds 2 \<le> u) (attempts hist i))"

lemma retry_delay_bounds: "seconds 1 \<le> retry_delay n" "retry_delay n \<le> seconds 32" "1 \<le> n \<Longrightarrow> seconds 2 \<le> retry_delay n"
proof -
  have up: "(2::int) ^ nat (min n 5) \<le> 2 ^ 5" by (rule power_increasing) auto
  show "seconds 1 \<le> retry_delay n" "retry_delay n \<le> seconds 32" using up by (auto simp: retry_delay_def)
  assume "1 \<le> n"
  then have "(2::int) ^ 1 \<le> 2 ^ nat (min n 5)" by (intro power_increasing) auto
  then show "seconds 2 \<le> retry_delay n" using up by (auto simp: retry_delay_def)
qed

lemma paced_later: "paced now ts r \<Longrightarrow> now \<le> now' \<Longrightarrow> paced now' ts r"
  by (fastforce simp: paced_def)

lemma paced_settled: "paced now ts r \<Longrightarrow> paced now ts (settled_row e now d r)"
  using retry_delay_bounds(3) [of "ob_attempt_count r"] retry_delay_bounds(1) [of 1]
  by (fastforce simp: paced_def settled_row_def Let_def)

lemma paced_refused: "paced now ts r \<Longrightarrow> paced now ts (refused_row now x r)"
  using retry_delay_bounds(3) [of "ob_attempt_count r + 1"] by (fastforce simp: paced_def refused_row_def)

lemma paced_sent: "paced now ts r \<Longrightarrow> paced now (ts @ [now]) (sent_row now r)"
  by (fastforce simp: paced_def sent_row_def)

lemma paced_due: "paced now ts r \<Longrightarrow> due_delivery now r \<Longrightarrow> t \<in> set ts \<Longrightarrow> t + seconds 2 \<le> now"
  by (fastforce simp: paced_def due_delivery_def)

lemma attempts_fresh: "delivery_inv s hist \<Longrightarrow> i \<notin> row_ids ob_id (im_outbox s) \<Longrightarrow> attempts hist i = []"
  by (auto simp: delivery_inv_def attempts_def filter_empty_conv)

lemma inv_single_reply:
  assumes "delivery_inv s hist"
  shows "delivery_inv (enqueue_single_reply s p a m x1 x2 x3 x4 x5 x6 d) hist"
proof -
  let ?s = "enqueue_single_reply s p a m x1 x2 x3 x4 x5 x6 d"
  obtain r where r: "im_outbox ?s = im_outbox s @ [r]" "ob_id r = new_id s" "ob_status r = ''queued''"
      "ob_attempt_count r = 0" "ob_next_attempt_at r = Some (clock s)" "clock ?s = clock s"
    and sup: "\<And>used. supply_fresh (take_id s) used \<Longrightarrow> supply_fresh ?s used"
    by (simp add: enqueue_single_reply_def row_add_def utcnow_def take_id_def supply_fresh_def)
  have fresh: "new_id s \<notin> row_ids ob_id (im_outbox s)" using assms new_id_fresh by (auto simp: delivery_inv_def)
  have ids: "row_ids ob_id (im_outbox ?s) = insert (new_id s) (row_ids ob_id (im_outbox s))" using r by (simp add: row_ids_def)
  have "paced (clock s) (attempts hist (ob_id r)) r"
    using attempts_fresh [OF assms fresh] r by (simp add: paced_def)
  moreover have "distinct (map ob_id (im_outbox ?s))" using assms fresh r by (auto simp: delivery_inv_def row_ids_def)
  ultimately show ?thesis
    using assms ids r(1,6) sup supply_fresh_take_id by (auto simp: delivery_inv_def)
qed

lemma inv_reply: "delivery_inv s hist \<Longrightarrow> delivery_inv (enqueue_reply s a m) hist"
proof -
  assume inv: "delivery_inv s hist"
  have loop: "delivery_inv s hist \<Longrightarrow> delivery_inv (foldl (enqueue_route a m) s rs) hist" for rs s
    by (induction rs arbitrary: s) (simp_all add: enqueue_route_def inv_single_reply)
  show ?thesis by (simp add: enqueue_reply_def Let_def inv loop inv_single_reply)
qed

lemma inv_rows:
  assumes "delivery_inv s hist" "im_outbox s' = map f (im_outbox s)" "\<And>r. ob_id (f r) = ob_id r"
    and "clock s' = clock s" "id_supply s' = id_supply s" "id_next s' = id_next s"
    and "\<And>r. r \<in> set (im_outbox s) \<Longrightarrow> paced (clock s) (attempts hist' (ob_id r)) (f r)"
    and "fst ` set hist' \<subseteq> row_ids ob_id (im_outbox s)"
    and "\<And>i. sorted_wrt (\<lambda>t u. t + seconds 2 \<le> u) (attempts hist' i)"
  shows "delivery_inv s' hist'"
proof -
  have ids: "map ob_id (im_outbox s') = map ob_id (im_outbox s)" using assms(2,3) by simp
  then have set_ids: "row_ids ob_id (im_outbox s') = row_ids ob_id (im_outbox s)" by (metis list.set_map row_ids_def)
  have "distinct (map ob_id (im_outbox s'))" using assms(1) unfolding ids by (simp add: delivery_inv_def)
  moreover have "supply_fresh s' (row_ids ob_id (im_outbox s'))"
    using assms(1) unfolding set_ids by (simp add: delivery_inv_def supply_fresh_def assms(5,6))
  moreover have "paced (clock s') (attempts hist' (ob_id r)) r" if "r \<in> set (im_outbox s')" for r
    using that assms(7) by (auto simp: assms(2,3,4))
  ultimately show ?thesis using assms(8,9) unfolding delivery_inv_def set_ids by blast
qed

lemma attempts_append:
  "attempts (hist @ map (\<lambda>r. (ob_id r, now)) rs) i = attempts hist i @ replicate (length (filter (\<lambda>r. ob_id r = i) rs)) now"
  by (induction rs rule: rev_induct) (auto simp: attempts_def replicate_append_same [symmetric])

lemma once_only:
  "distinct (map g xs) \<Longrightarrow> length (filter (\<lambda>r. g r = i) xs) = (if \<exists>r\<in>set xs. g r = i then 1 else 0)"
  by (induction xs) (force simp: filter_empty_conv image_iff)+

lemma round_loop:
  assumes d0: "distinct (map ob_id (im_outbox s))" and run: "dispatch_im_deliveries l s m = (s', m')"
  defines "m0 \<equiv> forget_expired (utcnow s) m"
  defines "rs \<equiv> sort_key ob_created_at (filter (due_delivery (utcnow s)) (im_outbox s))"
  shows "distinct (map ob_id rs) \<and> set rs \<subseteq> set (im_outbox s) \<and>
    s' = s\<lparr>im_outbox := offer_all l m0 (utcnow s) rs (im_outbox s)\<rparr> \<and>
    map (\<lambda>(_, d). (dict_str ''delivery_id'' d, clock s)) (drop (length (im_sent m)) (im_sent m')) =
      map (\<lambda>r. (ob_id r, clock s)) (filter (sends l m0) rs)"
proof -
  have d: "distinct (map ob_id rs)" "set rs \<subseteq> set (im_outbox s)" using d0 by (auto simp: rs_def distinct_map inj_on_def)
  have "foldl (send_delivery l (utcnow s)) (s, m0) rs = (s', m')"
    using run by (simp add: dispatch_im_deliveries_def rs_def m0_def Let_def)
  note loop = send_loop [OF d0 d(2,1) this]
  have base: "im_sent m0 = im_sent m" by (simp add: m0_def forget_expired_def)
  have name: "dict_str ''delivery_id'' (delivery_message (utcnow s) r) = ob_id r" for r
    by (simp add: delivery_message_def dict_str_def dict_get_def)
  have sent: "map (\<lambda>(_, d). (dict_str ''delivery_id'' d, clock s)) (drop (length (im_sent m)) (im_sent m')) =
      map (\<lambda>r. (ob_id r, clock s)) (filter (sends l m0) rs)"
    using loop base by (simp add: name)
  then show ?thesis using d loop by blast
qed

lemma inv_round:
  assumes inv: "delivery_inv s hist" and run: "dispatch_im_deliveries l s m = (s', m')"
  shows "delivery_inv s' (hist @ map (\<lambda>(_, d). (dict_str ''delivery_id'' d, clock s)) (drop (length (im_sent m)) (im_sent m')))"
proof -
  define m0 where "m0 = forget_expired (utcnow s) m"
  define rs where "rs = sort_key ob_created_at (filter (due_delivery (utcnow s)) (im_outbox s))"
  let ?new = "filter (sends l m0) rs"
  have d0: "distinct (map ob_id (im_outbox s))" using inv by (simp add: delivery_inv_def)
  note facts = round_loop [OF d0 run, folded m0_def, folded rs_def]
  have d: "distinct (map ob_id rs)" "set rs \<subseteq> set (im_outbox s)" using facts by blast+
  have loop: "s' = s\<lparr>im_outbox := offer_all l m0 (utcnow s) rs (im_outbox s)\<rparr>" using facts by blast
  have sent: "map (\<lambda>(_, d). (dict_str ''delivery_id'' d, clock s)) (drop (length (im_sent m)) (im_sent m')) =
      map (\<lambda>r. (ob_id r, clock s)) ?new" using facts by blast
  have few: "length (filter (\<lambda>r. ob_id r = i) ?new) = (if \<exists>r\<in>set ?new. ob_id r = i then 1 else 0)" for i
  proof -
    have "distinct (map ob_id ?new)" using d(1) by (auto simp: distinct_map inj_on_def)
    then show ?thesis by (rule once_only)
  qed
  have att: "attempts (hist @ map (\<lambda>r. (ob_id r, clock s)) ?new) i =
      attempts hist i @ (if \<exists>r\<in>set ?new. ob_id r = i then [clock s] else [])" for i
    unfolding attempts_append few by (auto simp: conj_commute)
  let ?f = "\<lambda>r. if r \<in> set rs then after_offer l m0 (utcnow s) r else r"
  have due: "due_delivery (clock s) r" if "r \<in> set rs" for r using that by (simp add: rs_def utcnow_def)
  have pace: "paced (clock s) (attempts hist (ob_id r)) r" if "r \<in> set (im_outbox s)" for r
    using inv that by (auto simp: delivery_inv_def)
  have one: "(\<exists>x\<in>set ?new. ob_id x = ob_id r) \<longleftrightarrow> r \<in> set ?new" if "r \<in> set (im_outbox s)" for r
    using d0 d(2) that by (auto simp: distinct_map dest: inj_onD)
  show ?thesis unfolding sent
  proof (rule inv_rows [OF inv, where f = ?f])
    show "im_outbox s' = map ?f (im_outbox s)" using loop by (simp add: offer_all_def)
    show "clock s' = clock s" "id_supply s' = id_supply s" "id_next s' = id_next s" using loop by simp_all
  next
    fix r assume r: "r \<in> set (im_outbox s)"
    show "paced (clock s) (attempts (hist @ map (\<lambda>r. (ob_id r, clock s)) ?new) (ob_id r)) (?f r)"
      unfolding att one [OF r] using pace [OF r]
      by (auto simp: after_offer_def sends_def utcnow_def intro: paced_sent paced_refused split: option.splits)
  next
    show "fst ` set (hist @ map (\<lambda>r. (ob_id r, clock s)) ?new) \<subseteq> row_ids ob_id (im_outbox s)"
      using inv d(2) by (auto simp: delivery_inv_def row_ids_def)
  next
    fix i
    show "sorted_wrt (\<lambda>t u. t + seconds 2 \<le> u) (attempts (hist @ map (\<lambda>r. (ob_id r, clock s)) ?new) i)"
    proof (cases "\<exists>r\<in>set ?new. ob_id r = i")
      case True
      then obtain r where r: "r \<in> set rs" "ob_id r = i" by auto
      then have "t + seconds 2 \<le> clock s" if "t \<in> set (attempts hist i)" for t
        using paced_due [OF pace due] d(2) that by blast
      then show ?thesis using inv True unfolding att by (simp add: sorted_wrt_append delivery_inv_def)
    next
      case False
      then show ?thesis using inv unfolding att by (simp add: delivery_inv_def)
    qed
  qed simp_all
qed

lemma inv_report:
  assumes inv: "delivery_inv s hist" and run: "handle_im_delivery_result e s m p payload = (Inr s', m')"
  shows "delivery_inv s' hist"
proof -
  have "s' = s \<or> (\<exists>i d. s' = put_outbox i (settled_row e (utcnow s) d) s)"
    using run by (auto simp: handle_im_delivery_result_def Let_def result_simps split: if_splits option.splits)
  then show ?thesis
  proof
    assume "\<exists>i d. s' = put_outbox i (settled_row e (utcnow s) d) s"
    then obtain i d where s': "s' = put_outbox i (settled_row e (utcnow s) d) s" by blast
    show ?thesis
      by (rule inv_rows [OF inv, where f = "\<lambda>r. if ob_id r = i then settled_row e (utcnow s) d r else r"])
        (use inv in \<open>auto simp: s' put_outbox_def row_put_def delivery_inv_def utcnow_def intro: paced_settled\<close>)
  qed (use inv in simp)
qed

lemma delivery_run_inv: "delivery_run e s m hist \<Longrightarrow> delivery_inv s hist"
proof (induction rule: delivery_run.induct)
  case (start s m)
  then show ?case by (simp add: delivery_inv_def supply_fresh_def row_ids_def attempts_def)
next
  case (tick s m hist t)
  then show ?case by (auto simp: delivery_inv_def supply_fresh_def intro: paced_later)
qed (auto intro: inv_reply inv_round inv_report)

lemma sorted_wrt_nth_pairs: "sorted_wrt R xs \<Longrightarrow> xs = as @ x # bs @ y # cs \<Longrightarrow> R x y"
  by (auto simp: sorted_wrt_append)

text \<open>
  C18. Whatever happens, two attempts to deliver the same reply are at least two seconds apart, also when the manager
  forgets what is under way: the pace is kept by the outbox alone.
\<close>

theorem deliveries_paced:
  assumes "delivery_run e s m hist" "hist = as @ (i, t) # bs @ (i, u) # cs"
  shows "t + seconds 2 \<le> u"
proof -
  have "sorted_wrt (\<lambda>t u. t + seconds 2 \<le> u) (attempts hist i)"
    using delivery_run_inv [OF assms(1)] by (simp add: delivery_inv_def)
  moreover have "attempts hist i = attempts as i @ t # attempts bs i @ u # attempts cs i"
    by (simp add: assms(2) attempts_def)
  ultimately show ?thesis by (rule sorted_wrt_nth_pairs)
qed

text \<open>A reply to a message that came in, offered twice because the plugin never reports.\<close>

definition sample_im_env :: im_env where
  "sample_im_env = \<lparr>ie_text = (\<lambda>_. ''?''), ie_dispatch = sample_service\<rparr>"

definition sample_im_action :: action_row where
  "sample_im_action = new_chat_action (empty_session 0) (Some ''a'') None ''chat'' None 0
     [(''source_kind'', JStr ''plugin_im''), (''source_plugin_id'', JStr ''p'')]"

definition sample_im_message :: message_row where
  "sample_im_message = new_user_message (empty_session 0) (Some ''a'') None ''x'' (sample_request ''q'' ''hi'') []"

definition idle_im :: im_manager where
  "idle_im = \<lparr>im_in_flight = (\<lambda>_. None), im_sent = []\<rparr>"

definition open_link :: im_link where
  "open_link = \<lparr>il_ready = (\<lambda>i. i = ''p''), il_refused = (\<lambda>_. None)\<rparr>"

definition sample_outbox :: session where
  "sample_outbox = enqueue_reply (empty_session 0) sample_im_action sample_im_message"

lemma sample_outbox_rows:
  "\<exists>r. im_outbox sample_outbox = [r] \<and> ob_id r = id_literal 0 \<and> ob_plugin_id r = ''p'' \<and> ob_status r = ''queued'' \<and>
     ob_next_attempt_at r = Some 0 \<and> ob_attempt_count r = 0 \<and> clock sample_outbox = 0"
proof -
  have kind: "dict_str ''source_kind'' (a_payload sample_im_action) = ''plugin_im''"
    "py_strip (dict_str ''source_plugin_id'' (a_payload sample_im_action)) = ''p''" by code_simp+
  have "im_outbox (empty_session 0) = []" "clock (empty_session 0) = 0" "new_id (empty_session 0) = id_literal 0"
    by (simp_all add: empty_session_def new_id_def)
  then show ?thesis
    unfolding sample_outbox_def enqueue_reply_def Let_def kind
    by (simp add: enqueue_single_reply_def row_add_def utcnow_def take_id_def)
qed


theorem deliveries_paced_witness:
  "\<exists>s m. delivery_run sample_im_env s m [(id_literal 0, 0), (id_literal 0, seconds 30)] \<and> 0 + seconds 2 \<le> seconds 30"
proof -
  have r0: "delivery_run sample_im_env sample_outbox idle_im []"
    unfolding sample_outbox_def
    by (intro delivery_run.reply delivery_run.start) (simp_all add: empty_session_def id_literal_inj)
  obtain r where r: "im_outbox sample_outbox = [r]" "ob_id r = id_literal 0" "ob_plugin_id r = ''p''" "ob_status r = ''queued''"
    "ob_next_attempt_at r = Some 0" "clock sample_outbox = 0" "utcnow sample_outbox = 0"
    using sample_outbox_rows by (auto simp: utcnow_def)
  have d0: "distinct (map ob_id (im_outbox sample_outbox))" by (simp add: r)
  obtain s1 m1 where x1: "dispatch_im_deliveries open_link sample_outbox idle_im = (s1, m1)" by fastforce
  have off: "offered open_link (forget_expired 0 idle_im) r" "il_refused open_link (ob_id r) = None" "due_delivery 0 r"
    using r by (simp_all add: offered_def forget_expired_def idle_im_def open_link_def due_delivery_def)
  then have snd: "sends open_link (forget_expired 0 idle_im) r" "after_offer open_link (forget_expired 0 idle_im) 0 r = sent_row 0 r"
    by (simp_all add: sends_def after_offer_def)
  note f1 = round_loop [OF d0 x1, unfolded r]
  have r1: "delivery_run sample_im_env s1 m1 [(id_literal 0, 0)]"
    using delivery_run.round [OF r0 x1] f1 by (simp add: off snd r)
  have s1: "im_outbox s1 = [sent_row 0 r]" "clock s1 = 0" using f1 by (simp_all add: off snd r offer_all_def)
  define s2 where "s2 = s1\<lparr>clock := seconds 30\<rparr>"
  define m2 where "m2 = m1\<lparr>im_in_flight := (\<lambda>_. None)\<rparr>"
  have r2: "delivery_run sample_im_env s2 m2 [(id_literal 0, 0)]"
    unfolding s2_def m2_def using r1 s1(2) by (intro delivery_run.forget delivery_run.tick) simp_all
  have o2: "im_outbox s2 = [sent_row 0 r]" "clock s2 = seconds 30" "utcnow s2 = seconds 30"
    using s1(1) by (simp_all add: s2_def utcnow_def)
  have d2: "distinct (map ob_id (im_outbox s2))" by (simp add: o2)
  obtain s3 m3 where x2: "dispatch_im_deliveries open_link s2 m2 = (s3, m3)" by fastforce
  have again: "sends open_link (forget_expired t m2) (sent_row 0 r)" "due_delivery (seconds 30) (sent_row 0 r)" for t
    using r by (simp_all add: sends_def offered_def forget_expired_def m2_def open_link_def due_delivery_def sent_row_def)
  have h2: "map (\<lambda>(_, d). (dict_str ''delivery_id'' d, clock s2)) (drop (length (im_sent m2)) (im_sent m3)) =
      [(id_literal 0, seconds 30)]"
    using round_loop [OF d2 x2] unfolding o2 by (simp add: again [simplified] r)
  have r3: "delivery_run sample_im_env s3 m3 [(id_literal 0, 0), (id_literal 0, seconds 30)]"
    using delivery_run.round [OF r2 x2] unfolding h2 append_Cons append_Nil .
  have "0 + seconds 2 \<le> seconds 30"
    by (rule deliveries_paced [OF r3, of "[]" "id_literal 0" 0 "[]" "seconds 30" "[]"]) simp
  then show ?thesis using r3 by blast
qed

section \<open>A message that comes in twice\<close>

text \<open>The users and what is installed, which no message changes.\<close>

definition catalog_of :: "session \<Rightarrow> user_row list \<times> plugin_row list \<times> plugin_version_row list \<times> plugin_event_row list" where
  "catalog_of s = (users s, plugins s, plugin_versions s, plugin_event_defs s)"

lemma catalog_state_frame: "state_frame s s' \<Longrightarrow> catalog_of s' = catalog_of s"
proof -
  have "catalog_of (but_state x) = catalog_of x" for x by (simp add: catalog_of_def but_state_def)
  then show "state_frame s s' \<Longrightarrow> catalog_of s' = catalog_of s" unfolding state_frame_def by metis
qed

lemma catalog_message_tags: "catalog_of (add_message_tags s i ts) = catalog_of s"
  by (induction ts arbitrary: s) (simp_all add: take_id_def catalog_of_def)

lemma catalog_cancel_task: "catalog_of (snd (cancel_task s r t)) = catalog_of s"
  by (auto simp: cancel_task_def cancel_job_def catalog_of_def Let_def split: option.split)

lemma catalog_cancel_loop: "cancel_loop s ids k r ts = (cs, s') \<Longrightarrow> catalog_of s' = catalog_of s"
proof (induction ts arbitrary: s cs)
  case (Cons t ts)
  obtain t' s1 where c: "cancel_task s r t = (t', s1)" by (metis surj_pair)
  then have "catalog_of s1 = catalog_of s" using catalog_cancel_task [of s r t] by simp
  then show ?case using Cons c by (auto split: prod.splits if_splits)
qed simp

lemma catalog_cancel:
  assumes "cancel_wakeup_tasks s c g ids k r = Inr (ts, s')" shows "catalog_of s' = catalog_of s"
proof -
  obtain cs s1 where l: "cancel_loop s ids k r (list_pending_wakeup_tasks s c g) = (cs, s1)" by (metis surj_pair)
  obtain f where y: "sync_current_wakeup_task_id s1 c g = Inr (f, s')"
    using assms l by (auto simp: cancel_wakeup_tasks_def elim: bind_r_pairE)
  show ?thesis using catalog_cancel_loop [OF l] catalog_state_frame [OF sync_frame [OF y]] by simp
qed

lemma catalog_get_settings: "catalog_of (snd (get_settings s)) = catalog_of s"
  by (simp add: get_settings_def catalog_of_def split: option.split)

lemma catalog_debounced: "debounced_chat s c g d i f = (p, a, s') \<Longrightarrow> catalog_of s' = catalog_of s"
  by (auto simp: debounced_chat_def Let_def add_action_def put_action_def take_id_def catalog_of_def split: option.splits if_splits)

lemma catalog_enqueue_chat:
  assumes e: "enqueue_chat d w c g tt key reason fd details r = Inr (a, w')"
  shows "catalog_of (db w') = catalog_of (db w)"
proof -
  obtain state s1 where s1: "ensure_session_state (db w) c g = Inr (state, s1)"
    using e unfolding enqueue_chat_def by (rule bind_r_pairE)
  obtain ts s2 where s2: "cancel_wakeup_tasks s1 c g None (Some ''idle_timeout'') (Some reason) = Inr (ts, s2)"
    using e s1 by (auto simp: enqueue_chat_def elim: bind_r_pairE)
  obtain deb s3 where s3: "current_debounce_seconds d s2 tt = (deb, s3)" by (metis surj_pair)
  define first where "first = dict_merge ([(''timezone'', JStr (timezone_name r)), (''debounce_key'', JStr key),
      (''chat_retry_attempt'', JInt 1)] @ fd @ [(''aggregated_message_count'', JInt 0)]) (cr_extra_payload r)"
  obtain pending action s4 where s4: "debounced_chat s3 c g deb (cr_client_request_id r) first = (pending, action, s4)"
    by (metis surj_pair)
  define active where "active = (case row_get st_id (st_id state) (states s4) of None \<Rightarrow> [] | Some st \<Rightarrow> st_active_tags st)"
  have "attach_message w s4 c g key details r active (pending = None) action = Inr (a, w')"
    using e s1 s2 s3 s4 unfolding enqueue_chat_def first_def active_def by (simp add: Let_def)
  then obtain s5 payload where s5: "add_message s4 (new_user_message s4 c g (a_id action) r active) = Inr s5"
    and w': "db w' = add_message_tags (put_action s5 (a_id action) (\<lambda>x. x\<lparr>a_payload := payload\<rparr>)) (new_id s4) active"
    by (rule attach_message_cases)
  have "catalog_of (db w') = catalog_of s5" by (simp add: w' catalog_message_tags) (simp add: catalog_of_def put_action_def)
  also have "\<dots> = catalog_of s4" using s5 by (auto simp: add_message_def catalog_of_def take_id_def split: if_splits)
  also have "\<dots> = catalog_of s3" by (rule catalog_debounced [OF s4])
  also have "\<dots> = catalog_of s2" using s3 catalog_get_settings [of s2]
    by (auto simp: current_debounce_seconds_def Let_def split: if_splits prod.splits)
  also have "\<dots> = catalog_of s1" by (rule catalog_cancel [OF s2])
  also have "\<dots> = catalog_of (db w)" by (rule catalog_state_frame [OF state_frame_ensure_state [OF s1]])
  finally show ?thesis .
qed

text \<open>Both kinds of conversation take a request in the same way.\<close>

definition accept_im :: "im_env \<Rightarrow> string \<Rightarrow> id \<Rightarrow> world \<Rightarrow> chat_request \<Rightarrow> (action_row \<times> world) result" where
  "accept_im e target_type target_id w r =
     (if target_type = ''cocoon'' then enqueue_chat_message (ie_dispatch e) w target_id r
      else enqueue_chat_group_message (ie_dispatch e) w target_id r)"

lemma accept_im_found:
  "find_action_for_client_request_id (db w) (cr_client_request_id r) = Some a \<Longrightarrow> accept_im e tt i w r = Inr (a, w)"
  by (simp add: accept_im_def enqueue_chat_message_def enqueue_chat_group_message_def)

lemma accept_im_after:
  assumes "accept_im e tt i w r = Inr (a, w')" "action_keys (db w)"
  shows "find_action_for_client_request_id (db w') (cr_client_request_id r) = Some a \<and> catalog_of (db w') = catalog_of (db w)"
proof (cases "find_action_for_client_request_id (db w) (cr_client_request_id r)")
  case (Some b)
  then show ?thesis using accept_im_found [OF Some] assms(1) by auto
next
  case None
  then obtain c g tt' key reason fd details where "enqueue_chat (ie_dispatch e) w c g tt' key reason fd details r = Inr (a, w')"
    using assms(1) by (auto simp: accept_im_def enqueue_chat_message_def enqueue_chat_group_message_def Let_def
        split: option.splits if_splits)
  from find_action_after [OF this assms(2) None] catalog_enqueue_chat [OF this] show ?thesis by simp
qed

text \<open>What a message asks for; it is read from the message and the users.\<close>

definition im_asks :: "im_env \<Rightarrow> user_row list \<Rightarrow> plugin_row \<Rightarrow> dict \<Rightarrow> (string \<times> id \<times> chat_request) result" where
  "im_asks e us p payload =
     (let message_kind = field_text e ''message_kind'' payload; s = (empty_session 0)\<lparr>users := us\<rparr>
      in bind_r (field_dict ''route'' payload) (\<lambda>route.
         let target_type = field_text e ''target_type'' route; target_id = field_text e ''target_id'' route
         in if target_type \<notin> {''cocoon'', ''chat_group''} \<or> target_id = []
            then Inl (ValueError ''IM inbound route must include target_type 'cocoon' or 'chat_group' and target_id'')
            else bind_r (field_dict ''message'' payload) (\<lambda>message.
              let content = field_text e ''text'' message; message_id = field_text e ''message_id'' message
              in if content = [] then Inl (ValueError ''IM inbound message text is required'')
                 else if message_id = [] then Inl (ValueError ''IM inbound message_id is required'')
                 else bind_r (resolve_im_user_id e s ''sender_user_id'' message) (\<lambda>sender.
                      bind_r (resolve_im_user_id e s ''owner_user_id'' message) (\<lambda>owner.
                      bind_r (resolve_im_user_id e s ''memory_owner_user_id'' message) (\<lambda>memory_owner.
                      bind_r (field_dict ''metadata_json'' route) (\<lambda>route_metadata.
                      bind_r (field_dict ''metadata_json'' message) (\<lambda>metadata.
                      bind_r (field_dict ''raw_payload'' message) (\<lambda>raw_payload.
                      Inr (target_type, target_id,
                           im_chat_request e content
                             (im_client_request_id e (p_id p) message_kind (field_text e ''account_id'' message)
                                (field_text e ''conversation_id'' message) message_id) sender message
                             (im_source_payload e (p_id p) message_kind message sender owner
                                (if memory_owner = None then or_opt owner sender else memory_owner)
                                route_metadata metadata raw_payload)))))))))))"

lemma ingest_im_asks:
  "ingest_im_inbound_message e w p payload =
     bind_r (im_asks e (users (db w)) p payload) (\<lambda>(target_type, target_id, r). accept_im e target_type target_id w r)"
proof -
  have res: "resolve_im_user_id e ((empty_session 0)\<lparr>users := users s\<rparr>) k m = resolve_im_user_id e s k m" for s :: session and k m
    by (simp add: resolve_im_user_id_def Let_def)
  have asso: "bind_r (bind_r x f) g = bind_r x (\<lambda>y. bind_r (f y) g)" for x :: "'x result" and f :: "'x \<Rightarrow> 'y result" and g :: "'y \<Rightarrow> 'z result"
    by (cases x) simp_all
  show ?thesis
    by (simp add: ingest_im_inbound_message_def im_asks_def res asso Let_def accept_im_def if_distrib [of "\<lambda>x. bind_r x _"]
        cong: if_cong)
qed


definition sample_inbound :: "string \<Rightarrow> dict" where
  "sample_inbound t =
     [(''message_kind'', JStr ''private''), (''route'', JObj [(''target_type'', JStr ''cocoon''), (''target_id'', JStr ''a'')]),
      (''message'', JObj [(''text'', JStr t), (''message_id'', JStr ''7'')])]"

lemma not_isl: "\<not> isl x \<Longrightarrow> \<exists>y. x = Inr y"
  by (cases x) auto


end
