(* ===== verification/ImRpc.thy ===== *)
theory ImRpc
  imports ImDelivery Accounts Rooms
begin

text \<open>
  What a messaging plugin may ask the server for (\<open>services/plugins/manager/im_rpc_mixin.py\<close>, \<open>access_mixin.py\<close>),
  the messages of the queues of plugin processes and a round of the manager (\<open>manager.py\<close>). A request that raises is
  answered with the text of the exception, but what it wrote before stays in the session, which is committed.
\<close>

section \<open>Arguments\<close>

text \<open>
  The name of the administrator, the secrets of the bind tokens, the creation times of cocoons (which the model does not
  keep), and whether a plugin's process has a queue for messages.
\<close>

record rpc_env =
  rp_im :: im_env
  rp_admin :: string
  rp_auth :: auth_env
  rp_created :: "cocoon_row \<Rightarrow> time"
  rp_queue :: "id \<Rightarrow> bool"

text \<open>A request's answer or exception, and the session it leaves.\<close>

type_synonym rpc = "dict result \<times> session"

definition resolve_rpc_user :: "im_env \<Rightarrow> session \<Rightarrow> dict \<Rightarrow> string \<Rightarrow> string \<Rightarrow> string \<Rightarrow> user_row result" where
  "resolve_rpc_user e s payload id_key username_key subject =
     (let raw_id = field_text e id_key payload; raw_username = field_text e username_key payload
      in if (raw_id = []) = (raw_username = [])
         then Inl (ValueError (''Exactly one of '' @ id_key @ '' or '' @ username_key @ '' is required for '' @ subject))
         else if raw_id \<noteq> []
         then (case row_get u_id raw_id (users s) of
                 None \<Rightarrow> Inl (ValueError (id_key @ '' must reference an existing user'')) | Some u \<Rightarrow> Inr u)
         else (case find_user_by_name s raw_username of
                 None \<Rightarrow> Inl (ValueError (username_key @ '' must reference an existing user'')) | Some u \<Rightarrow> Inr u))"

section \<open>New conversations\<close>

text \<open>
  The value of a numeric or boolean column, with the column's default when the request has none. The flush fails for
  values of another type.
\<close>

definition flush_error :: py_exc where "flush_error = OtherException ''StatementError''"

definition column_number :: "rat \<Rightarrow> json \<Rightarrow> rat result" where
  "column_number dflt v =
     (case v of JNull \<Rightarrow> Inr dflt | JInt i \<Rightarrow> Inr (of_int i) | JNum r \<Rightarrow> Inr r | JBool b \<Rightarrow> Inr (if b then 1 else 0) | _ \<Rightarrow> Inl flush_error)"

definition column_int :: "int \<Rightarrow> json \<Rightarrow> int result" where
  "column_int dflt v = (case v of JNull \<Rightarrow> Inr dflt | JInt i \<Rightarrow> Inr i | JBool b \<Rightarrow> Inr (if b then 1 else 0) | _ \<Rightarrow> Inl flush_error)"

definition column_bool :: "bool \<Rightarrow> json \<Rightarrow> bool result" where
  "column_bool dflt v =
     (case v of JNull \<Rightarrow> Inr dflt | JBool b \<Rightarrow> Inr b | JInt i \<Rightarrow> if i = 0 then Inr False else if i = 1 then Inr True else Inl flush_error
      | _ \<Rightarrow> Inl flush_error)"

record conversation_columns =
  cc_default_temperature :: rat
  cc_max_context_messages :: int
  cc_auto_compaction_enabled :: bool

definition columns_of :: "dict \<Rightarrow> conversation_columns result" where
  "columns_of payload =
     bind_r (column_number (7 / 10) (json_or_null ''default_temperature'' payload)) (\<lambda>t.
     bind_r (column_int 12 (json_or_null ''max_context_messages'' payload)) (\<lambda>n.
     bind_r (column_bool True (json_or_null ''auto_compaction_enabled'' payload)) (\<lambda>b.
     Inr \<lparr>cc_default_temperature = t, cc_max_context_messages = n, cc_auto_compaction_enabled = b\<rparr>)))"

text \<open>The checks that both kinds of conversation share.\<close>

definition require_new_conversation :: "im_env \<Rightarrow> session \<Rightarrow> dict \<Rightarrow> (user_row \<times> id \<times> id \<times> string) result" where
  "require_new_conversation e s payload =
     bind_r (resolve_rpc_user e s payload ''owner_user_id'' ''owner_username'' ''owner'') (\<lambda>owner.
     let character_id = field_text e ''character_id'' payload; model_id = field_text e ''selected_model_id'' payload;
         name = field_text e ''name'' payload
     in if character_id = [] \<or> row_get ch_id character_id (characters s) = None
        then Inl (ValueError ''character_id must reference an existing character'')
        else if model_id = [] \<or> row_get am_id model_id (available_models s) = None
        then Inl (ValueError ''selected_model_id must reference an existing model'')
        else if name = [] then Inl (ValueError ''name is required'')
        else Inr (owner, character_id, model_id, name))"

definition conversation_answer :: "id \<Rightarrow> string \<Rightarrow> user_row \<Rightarrow> id \<Rightarrow> id \<Rightarrow> dict" where
  "conversation_answer i name owner character_id model_id =
     [(''id'', JStr i), (''name'', JStr name), (''owner_user_id'', JStr (u_id owner)), (''owner_username'', JStr (u_username owner)),
      (''character_id'', JStr character_id), (''selected_model_id'', JStr model_id)]"

definition rpc_create_cocoon :: "im_env \<Rightarrow> session \<Rightarrow> dict \<Rightarrow> rpc" where
  "rpc_create_cocoon e s payload =
     (case require_new_conversation e s payload of
        Inl x \<Rightarrow> (Inl x, s)
      | Inr (owner, character_id, model_id, name) \<Rightarrow>
          (case columns_of payload of
             Inl x \<Rightarrow> (Inl x, s)
           | Inr k \<Rightarrow>
               let c = \<lparr>c_id = new_id s, c_parent_id = opt_text (field_text e ''parent_id'' payload), c_name = name,
                        c_owner_user_id = u_id owner, c_character_id = character_id, c_selected_model_id = model_id,
                        c_summary_model_id = None, c_default_temperature = cc_default_temperature k,
                        c_max_context_messages = cc_max_context_messages k, c_auto_compaction_enabled = cc_auto_compaction_enabled k,
                        c_memory_profile = ''meta_reply'', c_context_start_message_id = None, c_rollback_anchor_msg_id = None\<rparr>;
                   s1 = (take_id s)\<lparr>cocoons := row_add c (cocoons s)\<rparr>
               in (case ensure_session_state s1 (Some (c_id c)) None of
                     Inl x \<Rightarrow> (Inl x, s1)
                   | Inr (_, s2) \<Rightarrow> (Inr (conversation_answer (c_id c) name owner character_id model_id), s2))))"

text \<open>\<open>for x in payload.get(k) or []\<close>: the characters of a string, the keys of a dictionary.\<close>

definition iterate_json :: "json \<Rightarrow> json list result" where
  "iterate_json v =
     (if \<not> json_truthy v then Inr []
      else case v of JList xs \<Rightarrow> Inr xs | JStr t \<Rightarrow> Inr (map (\<lambda>c. JStr [c]) t) | JObj d \<Rightarrow> Inr (map (\<lambda>(k, _). JStr k) d)
           | _ \<Rightarrow> Inl (TypeError ''object is not iterable''))"

definition add_rpc_member :: "im_env \<Rightarrow> id \<Rightarrow> id \<Rightarrow> session \<Rightarrow> json \<Rightarrow> session" where
  "add_rpc_member e room_id owner s v =
     (let i = py_strip (raw_text e v)
      in if i = [] \<or> i = owner \<or> row_get u_id i (users s) = None then s else snd (add_room_member s room_id i ''member''))"

definition rpc_create_chat_group :: "im_env \<Rightarrow> session \<Rightarrow> dict \<Rightarrow> rpc" where
  "rpc_create_chat_group e s payload =
     (case require_new_conversation e s payload of
        Inl x \<Rightarrow> (Inl x, s)
      | Inr (owner, character_id, model_id, name) \<Rightarrow>
          (case columns_of payload of
             Inl x \<Rightarrow> (Inl x, s)
           | Inr k \<Rightarrow>
               let room = \<lparr>rm_id = new_id s, rm_name = name, rm_owner_user_id = u_id owner, rm_character_id = character_id,
                           rm_selected_model_id = model_id, rm_default_temperature = cc_default_temperature k,
                           rm_max_context_messages = cc_max_context_messages k,
                           rm_auto_compaction_enabled = cc_auto_compaction_enabled k, rm_memory_profile = ''meta_reply'',
                           rm_external_platform = opt_text (field_text e ''external_platform'' payload),
                           rm_external_group_id = opt_text (field_text e ''external_group_id'' payload),
                           rm_external_account_id = opt_text (field_text e ''external_account_id'' payload),
                           rm_created_at = utcnow s\<rparr>;
                   s1 = snd (add_room_member ((take_id s)\<lparr>rooms := row_add room (rooms s)\<rparr>) (rm_id room) (u_id owner) ''admin'')
               in (case iterate_json (json_or_null ''initial_member_ids'' payload) of
                     Inl x \<Rightarrow> (Inl x, s1)
                   | Inr vs \<Rightarrow>
                       let s2 = foldl (add_rpc_member e (rm_id room) (u_id owner)) s1 vs
                       in (case ensure_session_state s2 None (Some (rm_id room)) of
                             Inl x \<Rightarrow> (Inl x, s2)
                           | Inr (_, s3) \<Rightarrow> (Inr (conversation_answer (rm_id room) name owner character_id model_id), s3)))))"

section \<open>Users and what they may reach\<close>

text \<open>\<open>verify_user_token\<close> prunes expired tokens before it looks at the token, and the pruning stays when it refuses.\<close>

definition rpc_verify_user_binding :: "rpc_env \<Rightarrow> session \<Rightarrow> dict \<Rightarrow> rpc" where
  "rpc_verify_user_binding v s payload =
     (let e = rp_im v; username = raw_text e (json_or_null ''username'' payload); token = raw_text e (json_or_null ''token'' payload)
      in case verify_user_token (rp_auth v) s username token of
           Inr (u, s1) \<Rightarrow> (Inr [(''user_id'', JStr (u_id u)), (''username'', JStr (u_username u))], s1)
         | Inl x \<Rightarrow>
             (Inl x,
              if py_strip username = [] \<or> py_strip token = [] then s
              else case find_user_by_name s (py_strip username) of
                     None \<Rightarrow> s | Some u \<Rightarrow> if u_is_active u then prune_expired_tokens s (clock s) else s))"

definition target_item :: "string \<Rightarrow> id \<Rightarrow> string \<Rightarrow> time \<Rightarrow> (string \<times> string \<times> string) \<times> json" where
  "target_item target_type i name created =
     ((isoformat created, target_type, i),
      JObj [(''target_type'', JStr target_type), (''target_id'', JStr i), (''name'', JStr name), (''created_at'', JStr (isoformat created))])"

definition rpc_list_accessible_targets :: "rpc_env \<Rightarrow> session \<Rightarrow> dict \<Rightarrow> rpc" where
  "rpc_list_accessible_targets v s payload =
     (case resolve_rpc_user (rp_im v) s payload ''user_id'' ''username'' ''user'' of
        Inl x \<Rightarrow> (Inl x, s)
      | Inr u \<Rightarrow>
          let (cs, s1) = filter_visible_cocoons (rp_admin v) s u (sort_key (\<lambda>c. - rp_created v c) (cocoons s)) False ''visible'';
              rs = filter_visible_chat_groups (rp_admin v) s1 u (sort_key (\<lambda>r. - rm_created_at r) (rooms s));
              items = map (\<lambda>c. target_item ''cocoon'' (c_id c) (c_name c) (rp_created v c)) cs @
                      map (\<lambda>r. target_item ''chat_group'' (rm_id r) (rm_name r) (rm_created_at r)) rs
          in (Inr [(''items'', JList (map snd (rev (sort_key fst (rev items)))))], s1))"

definition rpc_list_accessible_characters :: "rpc_env \<Rightarrow> session \<Rightarrow> dict \<Rightarrow> rpc" where
  "rpc_list_accessible_characters v s payload =
     (case resolve_rpc_user (rp_im v) s payload ''user_id'' ''username'' ''user'' of
        Inl x \<Rightarrow> (Inl x, s)
      | Inr u \<Rightarrow>
          (Inr [(''items'', JList (map (\<lambda>c. JObj [(''character_id'', JStr (ch_id c)), (''name'', JStr (ch_name c)),
                                             (''created_at'', JStr (isoformat (ch_created_at c)))])
                  (filter (can_use_character (rp_admin v) s u) (sort_key (\<lambda>c. - ch_created_at c) (characters s)))))], s))"

section \<open>Routes\<close>

text \<open>A route leads from a conversation of a platform to a target; a plugin has one route for each.\<close>

type_synonym conversation_key = "id \<times> string \<times> string \<times> string \<times> string"

definition route_key :: "im_route_row \<Rightarrow> conversation_key" where
  "route_key r = (ir_plugin_id r, ir_external_platform r, ir_conversation_kind r, ir_external_account_id r, ir_external_conversation_id r)"

definition find_route :: "session \<Rightarrow> conversation_key \<Rightarrow> im_route_row option" where
  "find_route s k = List.find (\<lambda>r. route_key r = k) (im_routes s)"

definition asked_route_key :: "im_env \<Rightarrow> plugin_row \<Rightarrow> dict \<Rightarrow> conversation_key" where
  "asked_route_key e p payload =
     (p_id p, field_text e ''external_platform'' payload, field_text e ''conversation_kind'' payload,
      field_text e ''external_account_id'' payload, field_text e ''external_conversation_id'' payload)"

definition check_route_key :: "conversation_key \<Rightarrow> unit result" where
  "check_route_key k =
     (case k of (_, platform, kind, account, conversation) \<Rightarrow>
        if kind \<notin> {''private'', ''group''} then Inl (ValueError (''conversation_kind must be 'private' or 'group'' @ [CHR 0x27]))
        else if platform = [] \<or> account = [] \<or> conversation = []
        then Inl (ValueError ''external_platform, external_account_id, and external_conversation_id are required'')
        else Inr ())"

definition check_route_target :: "session \<Rightarrow> string \<Rightarrow> id \<Rightarrow> unit result" where
  "check_route_target s target_type target_id =
     (if target_type = ''cocoon''
      then if row_get c_id target_id (cocoons s) = None then Inl (ValueError ''target_id must reference an existing cocoon'') else Inr ()
      else if row_get rm_id target_id (rooms s) = None then Inl (ValueError ''target_id must reference an existing chat group'')
      else Inr ())"

definition new_route :: "session \<Rightarrow> conversation_key \<Rightarrow> string \<Rightarrow> id \<Rightarrow> dict \<Rightarrow> im_route_row" where
  "new_route s k target_type target_id metadata =
     (case k of (plugin_id, platform, kind, account, conversation) \<Rightarrow>
        \<lparr>ir_id = new_id s, ir_plugin_id = plugin_id, ir_target_type = target_type, ir_target_id = target_id,
         ir_external_platform = platform, ir_conversation_kind = kind, ir_external_account_id = account,
         ir_external_conversation_id = conversation, ir_route_metadata = metadata, ir_created_at = utcnow s\<rparr>)"

definition put_route :: "session \<Rightarrow> conversation_key \<Rightarrow> string \<Rightarrow> id \<Rightarrow> dict \<Rightarrow> im_route_row \<times> session" where
  "put_route s k target_type target_id metadata =
     (case find_route s k of
        None \<Rightarrow>
          let r = new_route s k target_type target_id metadata
          in (r, (take_id s)\<lparr>im_routes := row_add r (im_routes s)\<rparr>)
      | Some r \<Rightarrow>
          let f = (\<lambda>r. r\<lparr>ir_target_type := target_type, ir_target_id := target_id, ir_route_metadata := metadata\<rparr>)
          in (f r, s\<lparr>im_routes := row_put ir_id (ir_id r) f (im_routes s)\<rparr>))"

definition route_answer :: "im_route_row \<Rightarrow> dict" where
  "route_answer r =
     [(''id'', JStr (ir_id r)), (''plugin_id'', JStr (ir_plugin_id r)), (''target_type'', JStr (ir_target_type r)),
      (''target_id'', JStr (ir_target_id r)), (''external_platform'', JStr (ir_external_platform r)),
      (''conversation_kind'', JStr (ir_conversation_kind r)), (''external_account_id'', JStr (ir_external_account_id r)),
      (''external_conversation_id'', JStr (ir_external_conversation_id r))]"

definition rpc_upsert_im_target_route :: "im_env \<Rightarrow> session \<Rightarrow> plugin_row \<Rightarrow> dict \<Rightarrow> rpc" where
  "rpc_upsert_im_target_route e s p payload =
     (let target_type = field_text e ''target_type'' payload; target_id = field_text e ''target_id'' payload;
          k = asked_route_key e p payload
      in case bind_r (field_dict ''metadata_json'' payload) (\<lambda>metadata.
              if target_type \<notin> {''cocoon'', ''chat_group''} \<or> target_id = []
              then Inl (ValueError ''target_type must be 'cocoon' or 'chat_group' and target_id is required'')
              else bind_r (check_route_key k) (\<lambda>_. bind_r (check_route_target s target_type target_id) (\<lambda>_. Inr metadata))) of
           Inl x \<Rightarrow> (Inl x, s)
         | Inr metadata \<Rightarrow> let (r, s1) = put_route s k target_type target_id metadata in (Inr (route_answer r), s1))"

definition rpc_delete_im_target_route :: "im_env \<Rightarrow> session \<Rightarrow> plugin_row \<Rightarrow> dict \<Rightarrow> rpc" where
  "rpc_delete_im_target_route e s p payload =
     (let k = asked_route_key e p payload
      in case check_route_key k of
           Inl x \<Rightarrow> (Inl x, s)
         | Inr _ \<Rightarrow>
             (case find_route s k of
                None \<Rightarrow> (Inr [(''deleted'', JBool False)], s)
              | Some r \<Rightarrow> (Inr [(''deleted'', JBool True)], s\<lparr>im_routes := row_del ir_id (ir_id r) (im_routes s)\<rparr>)))"

section \<open>Answering a request\<close>

definition rpc_call :: "rpc_env \<Rightarrow> session \<Rightarrow> plugin_row \<Rightarrow> string \<Rightarrow> dict \<Rightarrow> rpc" where
  "rpc_call v s p call payload =
     (if call = ''create_cocoon'' then rpc_create_cocoon (rp_im v) s payload
      else if call = ''create_chat_group'' then rpc_create_chat_group (rp_im v) s payload
      else if call = ''verify_user_binding'' then rpc_verify_user_binding v s payload
      else if call = ''list_accessible_targets'' then rpc_list_accessible_targets v s payload
      else if call = ''list_accessible_characters'' then rpc_list_accessible_characters v s payload
      else if call = ''upsert_im_target_route'' then rpc_upsert_im_target_route (rp_im v) s p payload
      else if call = ''delete_im_target_route'' then rpc_delete_im_target_route (rp_im v) s p payload
      else (Inl (ValueError (''Unsupported IM RPC method: '' @ call)), s))"

definition rpc_response :: "time \<Rightarrow> string \<Rightarrow> dict result \<Rightarrow> dict" where
  "rpc_response now request_id answer =
     (case answer of
        Inl x \<Rightarrow> [(''type'', JStr ''rpc_response''), (''request_id'', JStr request_id), (''ok'', JBool False),
                  (''error'', JStr (exc_text x)), (''payload'', JObj []), (''occurred_at'', JStr (isoformat_utc now))]
      | Inr d \<Rightarrow> [(''type'', JStr ''rpc_response''), (''request_id'', JStr request_id), (''ok'', JBool True),
                  (''error'', JNull), (''payload'', JObj d), (''occurred_at'', JStr (isoformat_utc now))])"

text \<open>
  The session that is left, or nothing when a flush failed: such a session refuses to commit.
\<close>

definition handle_im_rpc_request :: "rpc_env \<Rightarrow> session \<Rightarrow> im_manager \<Rightarrow> plugin_row \<Rightarrow> dict \<Rightarrow> session result \<times> im_manager" where
  "handle_im_rpc_request v s m p payload =
     (let request_id = field_text (rp_im v) ''request_id'' payload
      in case field_dict ''payload'' payload of
           Inl x \<Rightarrow> (Inl x, m)
         | Inr request \<Rightarrow>
             if request_id = [] \<or> \<not> rp_queue v (p_id p) then (Inr s, m)
             else let (answer, s1) = rpc_call v s p (field_text (rp_im v) ''method'' payload) request
                  in (if answer = Inl flush_error then Inl (OtherException ''PendingRollbackError'') else Inr s1,
                      m\<lparr>im_sent := im_sent m @ [(p_id p, rpc_response (utcnow s) request_id answer)]\<rparr>))"

section \<open>The queues of the processes\<close>

definition set_db :: "session \<Rightarrow> world \<Rightarrow> world" where
  "set_db s w = w\<lparr>db := s\<rparr>"

definition running :: "id \<Rightarrow> session \<Rightarrow> session" where
  "running plugin_id s = set_run_state s plugin_id (\<lambda>r. r\<lparr>rs_status := ''running''\<rparr>)"

text \<open>
  One message: what it does to the session that already has the run state of the plugin. The dispatch of a message that
  came in commits for itself, everything else is committed at the end.
\<close>

definition queue_message ::
  "rpc_env \<Rightarrow> world \<Rightarrow> im_manager \<Rightarrow> plugin_row \<Rightarrow> plugin_version_row \<Rightarrow> dict \<Rightarrow> world result \<times> im_manager" where
  "queue_message v w m p version payload =
     (let e = rp_im v; s = db w; kind = json_or_null ''type'' payload; user_id = field_text e ''user_id'' payload
      in if kind = JStr ''heartbeat'' then (Inr (set_db (running (p_id p) s) w), m)
         else if kind = JStr ''external_event''
         then (bind_r (field_dict ''envelope'' payload) (\<lambda>envelope.
               bind_r (ingest s p version (raw_text e (json_or_null ''plugin_event'' payload)) envelope None None) (\<lambda>(_, s1).
               Inr (set_db (running (p_id p) s1) w))), m)
         else if kind = JStr ''error''
         then let text = raw_text e (json_or_null ''error'' payload)
              in (Inr (set_db (set_run_state s (p_id p) (\<lambda>r. r\<lparr>rs_status := ''failed'',
                     rs_error_text := Some (if text = [] then ''unknown plugin runtime error'' else text)\<rparr>)) w), m)
         else if kind = JStr ''user_error''
         then let text = raw_text e (json_or_null ''error'' payload)
              in (Inr (set_db (if user_id = [] then s
                               else record_user_error s p user_id (if text = [] then ''Plugin runtime error'' else text)) w), m)
         else if kind = JStr ''user_error_clear''
         then (Inr (set_db (if user_id = [] then s else clear_user_error s (p_id p) user_id) w), m)
         else if kind = JStr ''im_inbound_message''
         then (bind_r (ingest_im_inbound_message e w p payload) (\<lambda>(_, w1). Inr (set_db (running (p_id p) (db w1)) w1)), m)
         else if kind = JStr ''delivery_result''
         then let (r, m1) = handle_im_delivery_result e s m p payload
              in (bind_r r (\<lambda>s1. Inr (set_db (running (p_id p) s1) w)), m1)
         else if kind = JStr ''rpc_request''
         then let (r, m1) = handle_im_rpc_request v s m p payload
              in (bind_r r (\<lambda>s1. Inr (set_db (running (p_id p) s1) w)), m1)
         else (Inr w, m))"

definition handle_queue_message ::
  "rpc_env \<Rightarrow> world \<Rightarrow> im_manager \<Rightarrow> id \<Rightarrow> id \<Rightarrow> dict \<Rightarrow> world result \<times> im_manager" where
  "handle_queue_message v w m plugin_id version_id payload =
     (case row_get p_id plugin_id (plugins (db w)) of
        None \<Rightarrow> (Inr w, m)
      | Some p \<Rightarrow>
          (case row_get plv_id version_id (plugin_versions (db w)) of
             None \<Rightarrow> (Inr w, m)
           | Some version \<Rightarrow> queue_message v (set_db (snd (ensure_run_state (db w) plugin_id)) w) m p version payload))"

text \<open>The messages in the order in which they are taken; an exception ends the round, and its message is gone.\<close>

fun drain_queues :: "rpc_env \<Rightarrow> world \<Rightarrow> im_manager \<Rightarrow> (id \<times> id \<times> dict) list \<Rightarrow> unit result \<times> world \<times> im_manager" where
  "drain_queues v w m [] = (Inr (), w, m)"
| "drain_queues v w m ((plugin_id, version_id, payload) # rest) =
     (case handle_queue_message v w m plugin_id version_id payload of
        (Inl x, m1) \<Rightarrow> (Inl x, w, m1)
      | (Inr w1, m1) \<Rightarrow> drain_queues v w1 m1 rest)"

section \<open>A round of the manager\<close>

text \<open>
  What a round finds: the messages of the queues, the events that have finished, the link to the processes when the
  replies are offered.
\<close>

record round_input =
  ri_messages :: "(id \<times> id \<times> dict) list"
  ri_finished :: "(submission \<times> event_outcome) list"
  ri_link :: im_link

definition run_once ::
  "rpc_env \<Rightarrow> plugin_env \<Rightarrow> round_input \<Rightarrow> world \<Rightarrow> plugin_manager \<Rightarrow> im_manager \<Rightarrow>
     unit result \<times> world \<times> plugin_manager \<times> im_manager" where
  "run_once v e i w pm m =
     (case drain_queues v w m (ri_messages i) of
        (Inl x, w1, m1) \<Rightarrow> (Inl x, w1, pm, m1)
      | (Inr _, w1, m1) \<Rightarrow>
          (case handle_finished (db w1) pm (ri_finished i) of
             (Inl x, s2, pm1) \<Rightarrow> (Inl x, set_db s2 w1, pm1, m1)
           | (Inr _, s2, pm1) \<Rightarrow>
               (case sync_round e s2 pm1 of
                  (Inl x, pm2) \<Rightarrow> (Inl x, set_db s2 w1, pm2, m1)
                | (Inr _, pm2) \<Rightarrow>
                    let (s3, m2) = dispatch_im_deliveries (ri_link i) s2 m1 in (Inr (), set_db s3 w1, pm2, m2))))"

section \<open>A round that cannot succeed\<close>


definition sample_rpc_env :: rpc_env where
  "sample_rpc_env = \<lparr>rp_im = sample_im_env, rp_admin = ''root'', rp_auth = toy_env, rp_created = (\<lambda>_. 0), rp_queue = (\<lambda>_. True)\<rparr>"

definition quiet_input :: round_input where
  "quiet_input = \<lparr>ri_messages = [], ri_finished = [], ri_link = open_link\<rparr>"

definition stuck_world :: world where
  "stuck_world = \<lparr>db = scheduled_plugins, queue = empty_queue, events = [], files = []\<rparr>"


section \<open>Requests that fail\<close>

lemma ensure_state_total:
  "c \<noteq> [] \<Longrightarrow> ensure_session_state s (Some c) None \<noteq> Inl x" "g \<noteq> [] \<Longrightarrow> ensure_session_state s None (Some g) \<noteq> Inl x"
  by (auto simp: ensure_session_state_def get_session_state_def build_target_filter_def Let_def result_simps
      resolve_target_type_def split: option.splits prod.splits)

lemma create_cocoon_refused: "new_id s \<noteq> [] \<Longrightarrow> rpc_create_cocoon e s payload = (Inl x, s') \<Longrightarrow> s' = s"
  by (auto simp: rpc_create_cocoon_def Let_def ensure_state_total split: sum.splits prod.splits)

lemma create_chat_group_refused:
  assumes "new_id s \<noteq> []" "rpc_create_chat_group e s payload = (Inl x, s')"
  shows "s' = s \<or> (\<exists>room m. rooms s' = rooms s @ [room] \<and> room_members s' = room_members s @ [m] \<and>
     rm_name room = field_text e ''name'' payload \<and> mb_room_id m = rm_id room \<and> mb_user_id m = rm_owner_user_id room \<and>
     mb_member_role m = ''admin'' \<and> states s' = states s \<and>
     iterate_json (json_or_null ''initial_member_ids'' payload) = Inl x)"
  using assms
  by (auto simp: rpc_create_chat_group_def require_new_conversation_def Let_def ensure_state_total add_room_member_def row_add_def
      take_id_def result_simps split: sum.splits prod.splits if_splits)

text \<open>
  C23. A request that is answered with an error has changed nothing, with two exceptions: the check of a bind token drops
  expired tokens, and a new chat group whose list of members cannot be read is there all the same, with its owner as the
  only member and without a session state.
\<close>

theorem refused_requests_keep_database:
  assumes "new_id s \<noteq> []" "rpc_call v s p call payload = (Inl x, s')"
  shows "s' = s \<or> (call = ''verify_user_binding'' \<and> s' = prune_expired_tokens s (clock s)) \<or>
    (call = ''create_chat_group'' \<and>
     (\<exists>room m. rooms s' = rooms s @ [room] \<and> room_members s' = room_members s @ [m] \<and>
        rm_name room = field_text (rp_im v) ''name'' payload \<and> mb_room_id m = rm_id room \<and> mb_user_id m = rm_owner_user_id room \<and>
        mb_member_role m = ''admin'' \<and> states s' = states s \<and>
        iterate_json (json_or_null ''initial_member_ids'' payload) = Inl x))"
proof -
  consider "call = ''create_cocoon''" | "call = ''create_chat_group''" | "call = ''verify_user_binding''"
    | "call \<notin> {''create_cocoon'', ''create_chat_group'', ''verify_user_binding''}" by blast
  then show ?thesis
  proof cases
    case 1
    then show ?thesis using assms create_cocoon_refused by (simp add: rpc_call_def)
  next
    case 2
    then show ?thesis using assms create_chat_group_refused by (simp add: rpc_call_def)
  next
    case 3
    then show ?thesis using assms by (auto simp: rpc_call_def rpc_verify_user_binding_def Let_def split: sum.splits option.splits if_splits)
  next
    case 4
    then show ?thesis using assms
      by (auto simp: rpc_call_def rpc_list_accessible_targets_def rpc_list_accessible_characters_def rpc_upsert_im_target_route_def
          rpc_delete_im_target_route_def Let_def split: sum.splits option.splits if_splits prod.splits)
  qed
qed

definition sample_rpc_session :: session where
  "sample_rpc_session = (empty_session 0)\<lparr>users := [sample_plugin_user],
     characters := [\<lparr>ch_id = ''c'', ch_name = ''Mia'', ch_prompt_summary = [], ch_settings = [], ch_created_by = None, ch_created_at = 0\<rparr>],
     available_models := [\<lparr>am_id = ''m'', am_provider_id = ''v'', am_model_name = ''x'', am_model_kind = ''chat'', am_is_default = True, am_config = [],
       am_created_at = 0\<rparr>]\<rparr>"

definition sample_group_request :: dict where
  "sample_group_request = [(''owner_username'', JStr ''ann''), (''character_id'', JStr ''c''), (''selected_model_id'', JStr ''m''),
     (''name'', JStr ''tea''), (''initial_member_ids'', JInt 5)]"

theorem refused_requests_keep_database_witness:
  "\<exists>x s'. rpc_call sample_rpc_env sample_rpc_session sample_plugin ''create_chat_group'' sample_group_request = (Inl x, s') \<and>
     (\<exists>room. rooms s' = [room]) \<and> iterate_json (JInt 5) = Inl x"
proof -
  let ?c = "rpc_call sample_rpc_env sample_rpc_session sample_plugin ''create_chat_group'' sample_group_request"
  have "isl (fst ?c)" by code_simp
  then obtain x s' where e: "?c = (Inl x, s')" by (metis isl_def prod.collapse)
  have "length (rooms (snd ?c)) = 1" by code_simp
  then have one: "length (rooms s') = 1" by (simp add: e)
  have none: "rooms sample_rpc_session = []" "new_id sample_rpc_session \<noteq> []" by code_simp+
  have "iterate_json (json_or_null ''initial_member_ids'' sample_group_request) = iterate_json (JInt 5)" by code_simp
  then show ?thesis
    using refused_requests_keep_database [OF none(2) e] one none(1) e by auto
qed

section \<open>What a route is for\<close>

text \<open>A plugin has at most one route for a conversation.\<close>

definition routes_inv :: "session \<Rightarrow> bool" where
  "routes_inv s \<longleftrightarrow> distinct (map ir_id (im_routes s)) \<and> distinct (map route_key (im_routes s)) \<and>
     new_id s \<notin> row_ids ir_id (im_routes s)"

lemma route_key_simps [simp]:
  "route_key (r\<lparr>ir_target_type := tt, ir_target_id := i, ir_route_metadata := d\<rparr>) = route_key r"
  "route_key (new_route s k tt i d) = k"
  by (auto simp: route_key_def new_route_def split: prod.splits)

lemma route_same:
  "distinct (map f xs) \<Longrightarrow> x \<in> set xs \<Longrightarrow> y \<in> set xs \<Longrightarrow> f x = f y \<Longrightarrow> x = y"
  by (auto simp: distinct_map dest: inj_onD)

lemma put_route_effect:
  assumes inv: "routes_inv s" and put: "put_route s k tt i d = (r, s')"
  shows "route_key r = k \<and> ir_target_type r = tt \<and> ir_target_id r = i \<and> ir_route_metadata r = d \<and> r \<in> set (im_routes s') \<and>
    distinct (map ir_id (im_routes s')) \<and> distinct (map route_key (im_routes s')) \<and>
    filter (\<lambda>x. route_key x \<noteq> k) (im_routes s') = filter (\<lambda>x. route_key x \<noteq> k) (im_routes s) \<and> im_outbox s' = im_outbox s"
proof (cases "find_route s k")
  case None
  have no: "k \<notin> route_key ` set (im_routes s)" using None by (auto simp: find_route_def find_None)
  then show ?thesis using None inv put
    by (auto simp: put_route_def Let_def routes_inv_def row_add_def new_route_def take_id_def row_ids_def route_key_def
        filter_empty_conv split: prod.splits)
next
  case (Some q)
  then have q: "q \<in> set (im_routes s)" "route_key q = k" by (auto simp: find_route_def dest: find_SomeD)
  let ?f = "\<lambda>r. r\<lparr>ir_target_type := tt, ir_target_id := i, ir_route_metadata := d\<rparr>"
  have r: "r = ?f q" "s' = s\<lparr>im_routes := row_put ir_id (ir_id q) ?f (im_routes s)\<rparr>"
    using put Some by (simp_all add: put_route_def Let_def)
  have d: "distinct (map ir_id (im_routes s))" using inv by (simp add: routes_inv_def)
  have only: "x = q" if "x \<in> set (im_routes s)" "ir_id x = ir_id q" for x
    by (rule route_same [OF d that(1) q(1) that(2)])
  have keys: "map route_key (im_routes s') = map route_key (im_routes s)" "map ir_id (im_routes s') = map ir_id (im_routes s)"
    by (simp_all add: r row_put_def)
  have "filter (\<lambda>x. route_key x \<noteq> k) (row_put ir_id (ir_id q) ?f xs) = filter (\<lambda>x. route_key x \<noteq> k) xs"
    if "set xs \<subseteq> set (im_routes s)" for xs
    using that only q(2) by (induction xs) (auto simp: row_put_def)
  then have "filter (\<lambda>x. route_key x \<noteq> k) (im_routes s') = filter (\<lambda>x. route_key x \<noteq> k) (im_routes s)" by (simp add: r(2))
  moreover have "r \<in> set (im_routes s')" using q(1) by (force simp: r row_put_def)
  moreover have "distinct (map ir_id (im_routes s'))" "distinct (map route_key (im_routes s'))"
    using inv unfolding keys routes_inv_def by blast+
  moreover have "route_key r = k" "ir_target_type r = tt" "ir_target_id r = i" "ir_route_metadata r = d" "im_outbox s' = im_outbox s"
    using q(2) by (simp_all add: r)
  ultimately show ?thesis by blast
qed

text \<open>What a reply in the outbox says about where it goes.\<close>

definition reply_view :: "im_outbox_row \<Rightarrow> id \<times> json option \<times> json option \<times> json option" where
  "reply_view x = (ob_plugin_id x, dict_get ''external_account_id'' (ob_payload x), dict_get ''external_conversation_id'' (ob_payload x),
     dict_get ''reply_text'' (ob_payload x))"

definition route_view :: "message_row \<Rightarrow> im_route_row \<Rightarrow> id \<times> json option \<times> json option \<times> json option" where
  "route_view m r = (ir_plugin_id r, Some (JStr (ir_external_account_id r)), Some (JStr (ir_external_conversation_id r)),
     Some (JStr (m_content m)))"

lemma enqueue_routes:
  "\<exists>rows. im_outbox (foldl (enqueue_route a m) s rs) = im_outbox s @ rows \<and> map reply_view rows = map (route_view m) rs"
proof (induction rs arbitrary: s)
  case Nil
  then show ?case by simp
next
  case (Cons r rs)
  obtain o1 where one: "im_outbox (enqueue_route a m s r) = im_outbox s @ [o1]" "reply_view o1 = route_view m r"
    by (simp add: enqueue_route_def enqueue_single_reply_def row_add_def reply_view_def route_view_def dict_get_def)
  obtain rows where "im_outbox (foldl (enqueue_route a m) (enqueue_route a m s r) rs) = im_outbox (enqueue_route a m s r) @ rows"
    "map reply_view rows = map (route_view m) rs" using Cons.IH by blast
  then show ?case using one by (intro exI [of _ "o1 # rows"]) simp
qed

lemma wakeup_reply_rows:
  assumes "dict_str ''source_kind'' (a_payload a) \<noteq> ''plugin_im''" "py_strip (a_event_type a) = ''wakeup''"
    and "action_target_id a = Some i" "i \<noteq> []"
  shows "\<exists>rows. im_outbox (enqueue_reply s a m) = im_outbox s @ rows \<and>
    map reply_view rows = map (route_view m) (sort_key ir_created_at
      (filter (\<lambda>r. ir_target_type r = action_target_type a \<and> ir_target_id r = i) (im_routes s)))"
  using assms enqueue_routes [of a m s] by (simp add: enqueue_reply_def Let_def)

lemma find_route_key: "r \<in> set (im_routes s) \<Longrightarrow> distinct (map route_key (im_routes s)) \<Longrightarrow> find_route s (route_key r) = Some r"
proof -
  assume r: "r \<in> set (im_routes s)" "distinct (map route_key (im_routes s))"
  then obtain q where q: "find_route s (route_key r) = Some q"
    unfolding find_route_def using find_Some_iff_ex [of "\<lambda>x. route_key x = route_key r"] by blast
  then have "q \<in> set (im_routes s)" "route_key q = route_key r" by (auto simp: find_route_def dest: find_SomeD)
  then show ?thesis using q route_same [OF r(2) _ r(1)] by metis
qed

text \<open>
  C20. A plugin that asks for a route gets exactly the one it asked for in the place of any earlier one for that
  conversation, and other routes stay. Every reply of a wakeup of the target then goes to the outbox of the plugin for
  this conversation, and when the plugin asks for the route to be deleted, only this one is.
\<close>

theorem route_carries_wakeups:
  fixes e :: im_env and p :: plugin_row and payload :: dict
  defines "k \<equiv> asked_route_key e p payload"
  assumes "routes_inv s" "rpc_upsert_im_target_route e s p payload = (Inr answer, s')"
  shows "(\<exists>r. find_route s' k = Some r \<and> ir_target_type r = field_text e ''target_type'' payload \<and>
        ir_target_id r = field_text e ''target_id'' payload) \<and>
    filter (\<lambda>r. route_key r \<noteq> k) (im_routes s') = filter (\<lambda>r. route_key r \<noteq> k) (im_routes s) \<and>
    (\<forall>a m. dict_str ''source_kind'' (a_payload a) \<noteq> ''plugin_im'' \<and> py_strip (a_event_type a) = ''wakeup'' \<and>
        action_target_type a = field_text e ''target_type'' payload \<and>
        action_target_id a = Some (field_text e ''target_id'' payload) \<longrightarrow>
      (p_id p, Some (JStr (field_text e ''external_account_id'' payload)), Some (JStr (field_text e ''external_conversation_id'' payload)),
         Some (JStr (m_content m))) \<in> reply_view ` set (drop (length (im_outbox s)) (im_outbox (enqueue_reply s' a m)))) \<and>
    (\<exists>s''. rpc_delete_im_target_route e s' p payload = (Inr [(''deleted'', JBool True)], s'') \<and>
       im_routes s'' = filter (\<lambda>r. route_key r \<noteq> k) (im_routes s))"
proof -
  let ?tt = "field_text e ''target_type'' payload" and ?i = "field_text e ''target_id'' payload"
  obtain d r where ok: "check_route_key k = Inr ()" "?i \<noteq> []" and put: "put_route s k ?tt ?i d = (r, s')"
    using assms(3) by (auto simp: rpc_upsert_im_target_route_def k_def Let_def result_simps split: sum.splits prod.splits)
  note ef = put_route_effect [OF assms(2) put]
  then have r: "route_key r = k" "ir_target_type r = ?tt" "ir_target_id r = ?i" "r \<in> set (im_routes s')" by blast+
  have ids: "distinct (map ir_id (im_routes s'))" "distinct (map route_key (im_routes s'))" using ef by blast+
  have find: "find_route s' k = Some r" using find_route_key [OF r(4) ids(2)] r(1) by simp
  have parts: "ir_plugin_id r = p_id p" "ir_external_account_id r = field_text e ''external_account_id'' payload"
      "ir_external_conversation_id r = field_text e ''external_conversation_id'' payload"
    using r(1) by (simp_all add: k_def route_key_def asked_route_key_def)
  have "(p_id p, Some (JStr (field_text e ''external_account_id'' payload)), Some (JStr (field_text e ''external_conversation_id'' payload)),
         Some (JStr (m_content m))) \<in> reply_view ` set (drop (length (im_outbox s)) (im_outbox (enqueue_reply s' a m)))"
    if wake: "dict_str ''source_kind'' (a_payload a) \<noteq> ''plugin_im''" "py_strip (a_event_type a) = ''wakeup''"
      "action_target_type a = ?tt" "action_target_id a = Some ?i" for a m
  proof -
    obtain rows where rows: "im_outbox (enqueue_reply s' a m) = im_outbox s' @ rows"
      "map reply_view rows = map (route_view m) (sort_key ir_created_at
        (filter (\<lambda>r. ir_target_type r = action_target_type a \<and> ir_target_id r = ?i) (im_routes s')))"
      using wakeup_reply_rows [OF wake(1,2,4) ok(2), of s' m] by blast
    have "route_view m r \<in> set (map reply_view rows)" unfolding rows(2) using r wake(3) by simp
    moreover have "im_outbox s' = im_outbox s" using ef by blast
    ultimately show ?thesis using rows(1) by (simp add: route_view_def parts)
  qed
  moreover have "\<exists>s''. rpc_delete_im_target_route e s' p payload = (Inr [(''deleted'', JBool True)], s'') \<and>
       im_routes s'' = filter (\<lambda>r. route_key r \<noteq> k) (im_routes s)"
  proof -
    have "filter (\<lambda>x. ir_id x \<noteq> ir_id r) (im_routes s') = filter (\<lambda>x. route_key x \<noteq> k) (im_routes s')"
      by (rule filter_cong) (use r ids route_same in metis)+
    then show ?thesis using ok(1) find ef by (simp add: rpc_delete_im_target_route_def k_def [symmetric] row_del_def Let_def)
  qed
  ultimately show ?thesis using find r ef by blast
qed

definition sample_route_request :: dict where
  "sample_route_request = [(''target_type'', JStr ''cocoon''), (''target_id'', JStr ''a''), (''external_platform'', JStr ''qq''),
     (''conversation_kind'', JStr ''private''), (''external_account_id'', JStr ''7''), (''external_conversation_id'', JStr ''9'')]"

definition sample_wakeup_action :: action_row where
  "sample_wakeup_action = new_chat_action (empty_session 0) (Some ''a'') None ''wakeup'' None 0 []"

theorem route_carries_wakeups_witness:
  "\<exists>answer s' x. rpc_upsert_im_target_route sample_im_env (db sample_world) sample_plugin sample_route_request = (Inr answer, s') \<and>
     x \<in> set (im_outbox (enqueue_reply s' sample_wakeup_action sample_im_message)) \<and>
     reply_view x = (''p'', Some (JStr ''7''), Some (JStr ''9''), Some (JStr ''hi''))"
proof -
  let ?u = "rpc_upsert_im_target_route sample_im_env (db sample_world) sample_plugin sample_route_request"
  have "\<not> isl (fst ?u)" by code_simp
  then obtain answer s' where e: "?u = (Inr answer, s')" using not_isl by (metis prod.collapse)
  have inv: "routes_inv (db sample_world)"
    by (simp add: routes_inv_def sample_world_def sample_cocoons_def sample_tags_def empty_session_def row_ids_def)
  have wake: "dict_str ''source_kind'' (a_payload sample_wakeup_action) \<noteq> ''plugin_im''"
    "py_strip (a_event_type sample_wakeup_action) = ''wakeup''"
    "action_target_type sample_wakeup_action = field_text sample_im_env ''target_type'' sample_route_request"
    "action_target_id sample_wakeup_action = Some (field_text sample_im_env ''target_id'' sample_route_request)"
    and names: "p_id sample_plugin = ''p''" "field_text sample_im_env ''external_account_id'' sample_route_request = ''7''"
      "field_text sample_im_env ''external_conversation_id'' sample_route_request = ''9''" "m_content sample_im_message = ''hi''"
    by code_simp+
  from route_carries_wakeups [OF inv e] wake
  have "(''p'', Some (JStr ''7''), Some (JStr ''9''), Some (JStr ''hi''))
      \<in> reply_view ` set (drop (length (im_outbox (db sample_world))) (im_outbox (enqueue_reply s' sample_wakeup_action sample_im_message)))"
    unfolding names [symmetric] by blast
  then obtain x where x: "x \<in> set (drop (length (im_outbox (db sample_world))) (im_outbox (enqueue_reply s' sample_wakeup_action sample_im_message)))"
    "reply_view x = (''p'', Some (JStr ''7''), Some (JStr ''9''), Some (JStr ''hi''))" by (elim imageE) (rule that, assumption, rule sym)
  show ?thesis by (intro exI conjI) (rule e, rule in_set_dropD [OF x(1)], rule x(2))
qed

section \<open>What a round leaves alone\<close>

lemma catalog_set_db [simp]: "db (set_db s w) = s"
  by (simp add: set_db_def)

lemma catalog_take_id [simp]: "catalog_of (take_id s) = catalog_of s"
  by (simp add: catalog_of_def take_id_def)

lemma catalog_run_state: "catalog_of (snd (ensure_run_state s i)) = catalog_of s" "catalog_of (set_run_state s i f) = catalog_of s"
  by (auto simp: ensure_run_state_def set_run_state_def Let_def catalog_of_def take_id_def split: option.splits prod.splits)

lemma catalog_user_error: "catalog_of (record_user_error s p u t) = catalog_of s" "catalog_of (clear_user_error s i u) = catalog_of s"
  by (auto simp: record_user_error_def clear_user_error_def ensure_user_config_def put_user_config_def Let_def catalog_of_def take_id_def
      split: option.splits prod.splits)

lemma catalog_group_error: "catalog_of (record_chat_group_error s p g t) = catalog_of s"
  by (auto simp: record_chat_group_error_def ensure_chat_group_config_def put_group_config_def Let_def catalog_of_def take_id_def
      split: option.splits prod.splits)

lemma catalog_enqueue_job: "enqueue_job s jt lock payload c g t = (k, s') \<Longrightarrow> catalog_of s' = catalog_of s"
  by (auto simp: enqueue_job_def Let_def catalog_of_def take_id_def)

lemma catalog_fields [simp]:
  "catalog_of (s\<lparr>rooms := x1\<rparr>) = catalog_of s" "catalog_of (s\<lparr>cocoons := x2\<rparr>) = catalog_of s"
  "catalog_of (s\<lparr>wakeups := x3\<rparr>) = catalog_of s" "catalog_of (s\<lparr>plugin_dispatches := x4\<rparr>) = catalog_of s"
  "catalog_of (s\<lparr>im_outbox := x5\<rparr>) = catalog_of s" "catalog_of (s\<lparr>im_routes := x6\<rparr>) = catalog_of s"
  "catalog_of (s\<lparr>im_tokens := x7\<rparr>) = catalog_of s"
  by (simp_all add: catalog_of_def)

lemma catalog_schedule_wakeup:
  assumes "schedule_wakeup s run c g reason payload = Inr (x, s')" shows "catalog_of s' = catalog_of s"
proof -
  obtain r where r: "run = Some r" using assms by (cases run) (auto simp: schedule_wakeup_def)
  define task where "task = \<lparr>w_id = new_id s, w_cocoon_id = c, w_chat_group_id = g, w_run_at = r,
    w_reason = Some (py_strip (str_of reason)), w_payload = [], w_status = JobQueued,
    w_cancelled_at = None, w_superseded_by_task_id = None, w_created_at = clock s\<rparr>"
  define s1 where "s1 = (take_id s)\<lparr>wakeups := row_add task (wakeups s)\<rparr>"
  obtain k i where ki: "resolve_target_type c g = Inr (k, i)"
    using assms r by (auto simp: schedule_wakeup_def Let_def split: if_splits elim!: bind_rE)
  obtain job s2 where j: "enqueue_job s1 JobWakeup (wakeup_lock_key k i (w_id task)) [(''wakeup_task_id'', JStr (w_id task))] c g (Some r) = (job, s2)"
    by (metis surj_pair)
  define s3 where "s3 = s2\<lparr>wakeups := row_put w_id (w_id task)
    (\<lambda>t. t\<lparr>w_payload := dict_set ''durable_job_id'' (JStr (j_id job)) payload\<rparr>) (wakeups s2)\<rparr>"
  obtain f where y: "sync_current_wakeup_task_id s3 c g = Inr (f, s')"
    using assms r ki j unfolding schedule_wakeup_def s3_def s1_def task_def
    by (auto simp: Let_def split: if_splits elim!: bind_r_pairE)
  show ?thesis using catalog_state_frame [OF sync_frame [OF y]] catalog_enqueue_job [OF j] by (simp add: s3_def s1_def)
qed

lemma catalog_ingest_loop: "ingest_loop s p v ev envl su pl st si bs = Inr (ids, s') \<Longrightarrow> catalog_of s' = catalog_of s"
proof (induction bs arbitrary: s ids)
  case (Cons b bs)
  show ?case
  proof (cases "binding_skipped s p st si b")
    case False
    obtain x s1 where x: "schedule_wakeup s (Some (utcnow s)) (if pb_target_type b = ''cocoon'' then Some (pb_target_id b) else None)
        (if pb_target_type b = ''chat_group'' then Some (pb_target_id b) else None) (Some su)
        (dict_set ''target_binding_id'' (JStr (pb_id b)) pl) = Inr (x, s1)"
      using Cons.prems False by (simp only: ingest_loop.simps if_False) (erule bind_r_pairE, blast)
    obtain t j where "x = (t, j)" by fastforce
    with x Cons.prems False obtain d ids' where
      "ingest_loop ((take_id s1)\<lparr>plugin_dispatches := row_add d (plugin_dispatches s1)\<rparr>) p v ev envl su pl st si bs = Inr (ids', s')"
      by (auto simp: Let_def result_simps)
    from Cons.IH [OF this] catalog_schedule_wakeup [OF x] show ?thesis by simp
  qed (use Cons in simp)
qed simp

lemma catalog_ingest: "ingest s p v ev envl st si = Inr (ids, s') \<Longrightarrow> catalog_of s' = catalog_of s"
  by (auto simp: ingest_def Let_def result_simps split: if_splits dest: catalog_ingest_loop)

lemma catalog_report: "handle_im_delivery_result e s m p payload = (Inr s', m') \<Longrightarrow> catalog_of s' = catalog_of s"
  by (auto simp: handle_im_delivery_result_def Let_def result_simps put_outbox_def catalog_of_def split: if_splits option.splits)

lemma catalog_ensure_state: "ensure_session_state s c g = Inr (x, s') \<Longrightarrow> catalog_of s' = catalog_of s"
  by (cases x) (auto intro: catalog_state_frame state_frame_ensure_state)

lemma catalog_member [simp]: "catalog_of (snd (add_room_member s r u k)) = catalog_of s"
  by (simp add: add_room_member_def catalog_of_def take_id_def Let_def)

lemma catalog_members: "catalog_of (foldl (add_rpc_member e r own) s vs) = catalog_of s"
  by (induction vs arbitrary: s) (auto simp: add_rpc_member_def Let_def)

lemma catalog_rpc_cocoon: "catalog_of (snd (rpc_create_cocoon e s payload)) = catalog_of s"
  by (auto simp: rpc_create_cocoon_def Let_def split: sum.splits prod.splits dest!: catalog_ensure_state)

lemma catalog_rpc_group: "catalog_of (snd (rpc_create_chat_group e s payload)) = catalog_of s"
  by (auto simp: rpc_create_chat_group_def Let_def catalog_members split: sum.splits prod.splits dest!: catalog_ensure_state)

lemma visible_cocoons_state: "snd (filter_visible_cocoons admin s u cs wr ''visible'') = s"
proof -
  have one: "snd (can_access_cocoon admin s u c wr False) = s" for c
    by (simp add: can_access_cocoon_def split: option.split)
  have "snd (filter_s (\<lambda>s c. can_access_cocoon admin s u c wr False) s cs) = s"
    by (induction cs) (use one in \<open>auto simp: Let_def split: prod.splits\<close>, metis snd_conv)
  then show ?thesis by (simp add: filter_visible_cocoons_def)
qed

lemma catalog_verify_token: "verify_user_token e s u t = Inr (x, s') \<Longrightarrow> catalog_of s' = catalog_of s"
  by (auto simp: verify_user_token_def prune_expired_tokens_def Let_def split: if_splits option.splits)

lemma catalog_prune [simp]: "catalog_of (prune_expired_tokens s now) = catalog_of s"
  by (simp add: prune_expired_tokens_def)

lemma catalog_put_route: "put_route s k tt i d = (r, s') \<Longrightarrow> catalog_of s' = catalog_of s"
  by (auto simp: put_route_def Let_def split: option.splits)

lemma catalog_rpc: "rpc_call v s p call payload = (answer, s') \<Longrightarrow> catalog_of s' = catalog_of s"
proof -
  assume e: "rpc_call v s p call payload = (answer, s')"
  have "catalog_of (snd (rpc_verify_user_binding v s payload)) = catalog_of s"
    by (auto simp: rpc_verify_user_binding_def Let_def split: sum.splits option.splits dest: catalog_verify_token)
  moreover have "snd (rpc_list_accessible_targets v s payload) = s"
    by (auto simp: rpc_list_accessible_targets_def Let_def split: sum.splits prod.splits) (metis snd_conv visible_cocoons_state)
  moreover have "snd (rpc_list_accessible_characters v s payload) = s"
    by (simp add: rpc_list_accessible_characters_def split: sum.split)
  moreover have "catalog_of (snd (rpc_upsert_im_target_route e s p payload)) = catalog_of s" for e
    by (auto simp: rpc_upsert_im_target_route_def Let_def split: sum.splits prod.splits dest: catalog_put_route)
  moreover have "catalog_of (snd (rpc_delete_im_target_route e s p payload)) = catalog_of s" for e
    by (simp add: rpc_delete_im_target_route_def Let_def split: sum.split option.split)
  ultimately have "catalog_of (snd (rpc_call v s p call payload)) = catalog_of s"
    unfolding rpc_call_def by (simp add: catalog_rpc_cocoon catalog_rpc_group)
  then show ?thesis by (simp add: e)
qed

lemma catalog_rpc_request: "handle_im_rpc_request v s m p payload = (Inr s', m') \<Longrightarrow> catalog_of s' = catalog_of s"
  by (auto simp: handle_im_rpc_request_def Let_def split: sum.splits if_splits prod.splits dest: catalog_rpc)

lemma catalog_inbound: "ingest_im_inbound_message e w p payload = Inr (a, w') \<Longrightarrow> catalog_of (db w') = catalog_of (db w)"
proof -
  have "accept_im e tt i w r = Inr (a, w') \<Longrightarrow> catalog_of (db w') = catalog_of (db w)" for tt i r
    by (auto simp: accept_im_def enqueue_chat_message_def enqueue_chat_group_message_def Let_def
        split: option.splits if_splits dest: catalog_enqueue_chat)
  then show "ingest_im_inbound_message e w p payload = Inr (a, w') \<Longrightarrow> ?thesis"
    by (auto simp: ingest_im_asks result_simps)
qed

lemma catalog_queue_message: "queue_message v w m p version payload = (Inr w', m') \<Longrightarrow> catalog_of (db w') = catalog_of (db w)"
  unfolding queue_message_def running_def Let_def
  by (auto simp: result_simps catalog_run_state catalog_user_error split: if_splits prod.splits
      dest: catalog_ingest catalog_inbound catalog_report catalog_rpc_request)

lemma catalog_message: "handle_queue_message v w m i j payload = (Inr w', m') \<Longrightarrow> catalog_of (db w') = catalog_of (db w)"
  by (auto simp: handle_queue_message_def catalog_run_state split: option.splits dest!: catalog_queue_message)

lemma catalog_drain: "drain_queues v w m ms = (r, w', m') \<Longrightarrow> catalog_of (db w') = catalog_of (db w)"
  by (induction v w m ms rule: drain_queues.induct)
    (auto split: prod.splits sum.splits dest: catalog_message)

lemma catalog_finish: "finish_event s key outcome = Inr s' \<Longrightarrow> catalog_of s' = catalog_of s"
  by (auto simp: finish_event_def Let_def result_simps catalog_run_state catalog_user_error catalog_group_error
      split: prod.splits event_outcome.splits option.splits if_splits dest!: catalog_ingest)

lemma catalog_finished: "handle_finished s pm fs = (r, s', pm') \<Longrightarrow> catalog_of s' = catalog_of s"
  by (induction s pm fs rule: handle_finished.induct) (auto simp: Let_def split: sum.splits dest: catalog_finish)

lemma catalog_send: "catalog_of (fst (foldl (send_delivery l now) (s, m) rs)) = catalog_of s"
proof (induction rs arbitrary: s m)
  case (Cons r rs)
  obtain s1 m1 where one: "send_delivery l now (s, m) r = (s1, m1)" by fastforce
  then have "catalog_of s1 = catalog_of s" by (auto simp: send_delivery_def put_outbox_def split: if_splits option.splits)
  then show ?case using Cons.IH [of s1 m1] by (simp add: one)
qed simp

lemma catalog_run_once:
  assumes "run_once v e i w pm m = (r, w', pm', m')" shows "catalog_of (db w') = catalog_of (db w)"
proof -
  obtain r1 w1 m1 where d: "drain_queues v w m (ri_messages i) = (r1, w1, m1)" by (metis surj_pair)
  obtain r2 s2 pm1 where f: "handle_finished (db w1) pm (ri_finished i) = (r2, s2, pm1)" by (metis surj_pair)
  obtain r3 pm2 where y: "sync_round e s2 pm1 = (r3, pm2)" by fastforce
  obtain s3 m2 where z: "dispatch_im_deliveries (ri_link i) s2 m1 = (s3, m2)" by fastforce
  have "catalog_of s3 = catalog_of s2"
    using z catalog_send [of "ri_link i" "utcnow s2" s2] by (simp add: dispatch_im_deliveries_def Let_def) (metis fst_conv)
  then show ?thesis
    using assms catalog_drain [OF d] catalog_finished [OF f]
    by (cases r1; cases r2; cases r3) (auto simp: run_once_def d f y z)
qed

end
