(* ===== verification/PluginAdmin.thy ===== *)
theory PluginAdmin
  imports ImRpc
begin

text \<open>
  The administration of plugins (\<open>services/plugins/service/admin_mixin.py\<close>, \<open>event_mixin.py\<close>, \<open>install_mixin.py\<close>):
  installing, replacing, enabling, configuring and deleting them. What a package holds, its dependencies and the check
  of its functions are arguments; files are not modelled.
\<close>

section \<open>Arguments\<close>

record plugin_runtime =
  prt_world :: world
  prt_plugins :: plugin_manager
  prt_im :: im_manager

text \<open>What the round finds that a request starts, and what the round finds that follows a failed replacement.\<close>

record admin_env =
  ax_rpc :: rpc_env
  ax_plugins :: plugin_env
  ax_round :: round_input
  ax_later :: round_input

type_synonym 'a admin = "'a result \<times> plugin_runtime"

definition rt_session :: "plugin_runtime \<Rightarrow> session" where
  "rt_session rt = db (prt_world rt)"

definition rt_commit :: "session \<Rightarrow> plugin_runtime \<Rightarrow> plugin_runtime" where
  "rt_commit s rt = rt\<lparr>prt_world := set_db s (prt_world rt)\<rparr>"

definition rt_round :: "admin_env \<Rightarrow> round_input \<Rightarrow> plugin_runtime \<Rightarrow> unit admin" where
  "rt_round x i rt =
     (let (r, w, pm, m) = run_once (ax_rpc x) (ax_plugins x) i (prt_world rt) (prt_plugins rt) (prt_im rt)
      in (r, \<lparr>prt_world = w, prt_plugins = pm, prt_im = m\<rparr>))"

text \<open>\<open>reload_plugin\<close> forgets the planned runs of a plugin and its deliveries under way.\<close>

definition rt_reload :: "id \<Rightarrow> plugin_runtime \<Rightarrow> plugin_runtime" where
  "rt_reload plugin_id rt =
     rt\<lparr>prt_plugins := reload_plugin plugin_id (prt_plugins rt),
        prt_im := (prt_im rt)\<lparr>im_in_flight := (\<lambda>i. case im_in_flight (prt_im rt) i of
          None \<Rightarrow> None | Some (p, deadline) \<Rightarrow> if p = plugin_id then None else Some (p, deadline))\<rparr>\<rparr>"

definition put_plugin :: "id \<Rightarrow> (plugin_row \<Rightarrow> plugin_row) \<Rightarrow> session \<Rightarrow> session" where
  "put_plugin i f s = s\<lparr>plugins := row_put p_id i f (plugins s)\<rparr>"

section \<open>What an administrator sees\<close>

record plugin_event_out =
  po_name :: string
  po_mode :: string
  po_function_name :: string
  po_title :: string
  po_description :: string
  po_config_schema :: dict
  po_default_config :: dict
  po_config :: dict
  po_is_enabled :: bool

record plugin_detail_out =
  pl_plugin :: plugin_row
  pl_active_version :: "plugin_version_row option"
  pl_versions :: "plugin_version_row list"
  pl_events :: "plugin_event_out list"
  pl_run_state :: "plugin_run_state_row option"

definition list_plugins :: "session \<Rightarrow> plugin_row list" where
  "list_plugins s = sort_key p_created_at (plugins s)"

definition admin_event_out :: "session \<Rightarrow> plugin_event_row \<Rightarrow> plugin_event_out" where
  "admin_event_out s ev =
     (let cfg = last_such (\<lambda>c. pe_plugin_id c = pev_plugin_id ev \<and> pe_event_name c = pev_name ev) (plugin_event_configs s)
      in \<lparr>po_name = pev_name ev, po_mode = pev_mode ev, po_function_name = pev_function_name ev, po_title = pev_title ev,
          po_description = pev_description ev, po_config_schema = pev_config_schema ev, po_default_config = pev_default_config ev,
          po_config = (case cfg of None \<Rightarrow> pev_default_config ev | Some c \<Rightarrow> pe_config c),
          po_is_enabled = (case cfg of None \<Rightarrow> True | Some c \<Rightarrow> pe_is_enabled c)\<rparr>)"

definition get_plugin_detail :: "session \<Rightarrow> id \<Rightarrow> plugin_detail_out result" where
  "get_plugin_detail s plugin_id =
     bind_r (require_plugin s plugin_id) (\<lambda>p.
     let active = (if truthy (p_active_version_id p) then row_get plv_id (str_of (p_active_version_id p)) (plugin_versions s) else None)
     in Inr \<lparr>pl_plugin = p, pl_active_version = active,
             pl_versions = sort_key (\<lambda>v. - plv_created_at v) (filter (\<lambda>v. plv_plugin_id v = plugin_id) (plugin_versions s)),
             pl_events = (case active of
                None \<Rightarrow> []
              | Some v \<Rightarrow> map (admin_event_out s)
                  (filter (\<lambda>ev. pev_plugin_id ev = plugin_id \<and> pev_plugin_version_id ev = plv_id v) (plugin_event_defs s))),
             pl_run_state = List.find (\<lambda>r. rs_plugin_id r = plugin_id) (plugin_run_states s)\<rparr>)"

section \<open>Changes\<close>

text \<open>A change is committed before the manager starts a round; when the round raises, so does the request.\<close>

definition commit_and_run :: "admin_env \<Rightarrow> id \<Rightarrow> session \<Rightarrow> plugin_runtime \<Rightarrow> plugin_detail_out admin" where
  "commit_and_run x plugin_id s rt =
     (case rt_round x (ax_round x) (rt_reload plugin_id (rt_commit s rt)) of
        (Inl err, rt1) \<Rightarrow> (Inl err, rt1)
      | (Inr _, rt1) \<Rightarrow> (get_plugin_detail (rt_session rt1) plugin_id, rt1))"

definition enable_plugin :: "admin_env \<Rightarrow> plugin_runtime \<Rightarrow> id \<Rightarrow> plugin_detail_out admin" where
  "enable_plugin x rt plugin_id =
     (let s = rt_session rt
      in case require_plugin s plugin_id of
           Inl err \<Rightarrow> (Inl err, rt)
         | Inr p \<Rightarrow>
             if \<not> truthy (p_active_version_id p) then (Inl (HTTPException 400 ''Plugin has no active version''), rt)
             else commit_and_run x plugin_id (put_plugin plugin_id (\<lambda>p. p\<lparr>p_status := ''enabled''\<rparr>) s) rt)"

definition disable_plugin :: "plugin_runtime \<Rightarrow> id \<Rightarrow> plugin_detail_out admin" where
  "disable_plugin rt plugin_id =
     (let s = rt_session rt
      in case require_plugin s plugin_id of
           Inl err \<Rightarrow> (Inl err, rt)
         | Inr p \<Rightarrow>
             let rt1 = rt_reload plugin_id (rt_commit (put_plugin plugin_id (\<lambda>p. p\<lparr>p_status := ''disabled''\<rparr>) s) rt)
             in (get_plugin_detail (rt_session rt1) plugin_id, rt1))"

text \<open>The rows that \<open>delete_plugin\<close> deletes; the schedules of users are not among them.\<close>

definition wipe_plugin :: "id \<Rightarrow> session \<Rightarrow> session" where
  "wipe_plugin i s =
     s\<lparr>plugin_dispatches := row_del_where (\<lambda>r. pd_plugin_id r = i) (plugin_dispatches s),
       plugin_group_configs := row_del_where (\<lambda>r. pg_plugin_id r = i) (plugin_group_configs s),
       plugin_group_visibilities := row_del_where (\<lambda>r. gv_plugin_id r = i) (plugin_group_visibilities s),
       im_outbox := row_del_where (\<lambda>r. ob_plugin_id r = i) (im_outbox s),
       im_routes := row_del_where (\<lambda>r. ir_plugin_id r = i) (im_routes s),
       plugin_bindings := row_del_where (\<lambda>r. pb_plugin_id r = i) (plugin_bindings s),
       plugin_user_configs := row_del_where (\<lambda>r. pu_plugin_id r = i) (plugin_user_configs s),
       plugin_event_configs := row_del_where (\<lambda>r. pe_plugin_id r = i) (plugin_event_configs s),
       plugin_event_defs := row_del_where (\<lambda>r. pev_plugin_id r = i) (plugin_event_defs s),
       plugin_run_states := row_del_where (\<lambda>r. rs_plugin_id r = i) (plugin_run_states s),
       plugin_versions := row_del_where (\<lambda>r. plv_plugin_id r = i) (plugin_versions s),
       plugins := row_del p_id i (plugins s)\<rparr>"

definition delete_plugin :: "plugin_runtime \<Rightarrow> id \<Rightarrow> unit admin" where
  "delete_plugin rt plugin_id =
     (let s = rt_session rt
      in case require_plugin s plugin_id of
           Inl err \<Rightarrow> (Inl err, rt)
         | Inr p \<Rightarrow> (Inr (), rt_commit (wipe_plugin plugin_id s) (rt_reload plugin_id rt)))"

definition update_plugin_config :: "admin_env \<Rightarrow> plugin_runtime \<Rightarrow> id \<Rightarrow> dict \<Rightarrow> plugin_detail_out admin" where
  "update_plugin_config x rt plugin_id config =
     (let s = rt_session rt
      in case bind_r (require_plugin s plugin_id) (\<lambda>p.
              validate_config_payload (ax_plugins x) (p_config_schema p) config ''plugin_config'') of
           Inl err \<Rightarrow> (Inl err, rt)
         | Inr _ \<Rightarrow> commit_and_run x plugin_id (put_plugin plugin_id (\<lambda>p. p\<lparr>p_config := config\<rparr>) s) rt)"

text \<open>Whether there is anything to configure.\<close>

definition has_admin_plugin_config_surface :: "plugin_row \<Rightarrow> dict \<Rightarrow> bool" where
  "has_admin_plugin_config_surface p config =
     (let schema = p_config_schema p
      in if config \<noteq> [] \<or> p_config p \<noteq> [] \<or> p_default_config p \<noteq> [] then True
         else if schema = [] then False
         else if set (dict_keys schema) - {''type'', ''title'', ''description'', ''additionalProperties''} \<noteq> {} then True
         else dict_truthy ''properties'' schema \<or> dict_truthy ''required'' schema)"

definition validate_admin_plugin_settings :: "plugin_env \<Rightarrow> session \<Rightarrow> plugin_row \<Rightarrow> dict \<Rightarrow> unit result" where
  "validate_admin_plugin_settings e s p config =
     (if \<not> truthy (p_settings_validation_function_name p) \<or> \<not> truthy (p_active_version_id p) then Inr ()
      else if \<not> has_admin_plugin_config_surface p config then Inr ()
      else case row_get plv_id (str_of (p_active_version_id p)) (plugin_versions s) of
        None \<Rightarrow> Inr ()
      | Some v \<Rightarrow>
          (case px_settings_check e p v config [] None None of
             Inl t \<Rightarrow> Inl (HTTPException 400 t)
           | Inr message \<Rightarrow> if truthy message then Inl (HTTPException 400 (str_of message)) else Inr ()))"

definition validate_admin_plugin_config :: "plugin_env \<Rightarrow> session \<Rightarrow> id \<Rightarrow> dict \<Rightarrow> plugin_detail_out result" where
  "validate_admin_plugin_config e s plugin_id config =
     bind_r (require_plugin s plugin_id) (\<lambda>p.
     bind_r (validate_config_payload e (p_config_schema p) config ''plugin_config'') (\<lambda>_.
     bind_r (validate_admin_plugin_settings e s p config) (\<lambda>_.
     get_plugin_detail s plugin_id)))"

section \<open>Events\<close>

definition new_event_config :: "session \<Rightarrow> id \<Rightarrow> string \<Rightarrow> dict \<Rightarrow> bool \<Rightarrow> plugin_event_config_row" where
  "new_event_config s plugin_id event_name config enabled =
     \<lparr>pe_id = new_id s, pe_plugin_id = plugin_id, pe_event_name = event_name, pe_is_enabled = enabled, pe_config = config\<rparr>"

text \<open>Changing the configuration of an event, which is created when there is none.\<close>

definition change_event_config ::
  "session \<Rightarrow> id \<Rightarrow> plugin_event_row \<Rightarrow> (plugin_event_config_row \<Rightarrow> plugin_event_config_row) \<Rightarrow> session" where
  "change_event_config s plugin_id ev f =
     (case find_event_config s plugin_id (pev_name ev) of
        None \<Rightarrow> (take_id s)\<lparr>plugin_event_configs :=
                  row_add (f (new_event_config s plugin_id (pev_name ev) (pev_default_config ev) True)) (plugin_event_configs s)\<rparr>
      | Some c \<Rightarrow> s\<lparr>plugin_event_configs := row_put pe_id (pe_id c) f (plugin_event_configs s)\<rparr>)"

definition update_event_config :: "admin_env \<Rightarrow> plugin_runtime \<Rightarrow> id \<Rightarrow> string \<Rightarrow> dict \<Rightarrow> plugin_detail_out admin" where
  "update_event_config x rt plugin_id event_name config =
     (let s = rt_session rt
      in case bind_r (require_plugin s plugin_id) (\<lambda>p.
              bind_r (get_active_event_definition s p event_name) (\<lambda>ev.
              bind_r (validate_config_payload (ax_plugins x) (pev_config_schema ev) config (''event_config.'' @ event_name)) (\<lambda>_.
              Inr ev))) of
           Inl err \<Rightarrow> (Inl err, rt)
         | Inr ev \<Rightarrow> commit_and_run x plugin_id (change_event_config s plugin_id ev (\<lambda>c. c\<lparr>pe_config := config\<rparr>)) rt)"

definition set_event_enabled :: "admin_env \<Rightarrow> plugin_runtime \<Rightarrow> id \<Rightarrow> string \<Rightarrow> bool \<Rightarrow> plugin_detail_out admin" where
  "set_event_enabled x rt plugin_id event_name enabled =
     (let s = rt_session rt
      in case bind_r (require_plugin s plugin_id) (\<lambda>p. get_active_event_definition s p event_name) of
           Inl err \<Rightarrow> (Inl err, rt)
         | Inr ev \<Rightarrow> commit_and_run x plugin_id (change_event_config s plugin_id ev (\<lambda>c. c\<lparr>pe_is_enabled := enabled\<rparr>)) rt)"

definition run_short_lived_event_now :: "plugin_runtime \<Rightarrow> id \<Rightarrow> string \<Rightarrow> plugin_detail_out admin" where
  "run_short_lived_event_now rt plugin_id event_name =
     (let s = rt_session rt
      in case bind_r (require_plugin s plugin_id) (\<lambda>p. get_active_event_definition s p event_name) of
           Inl err \<Rightarrow> (Inl err, rt)
         | Inr ev \<Rightarrow>
             if pev_mode ev \<noteq> ''short_lived'' then (Inl (HTTPException 400 ''Only short-lived events can be manually run''), rt)
             else let (submitted, pm) = trigger_short_lived_event s (prt_plugins rt) plugin_id event_name;
                      rt1 = rt\<lparr>prt_plugins := pm\<rparr>
                  in (if submitted then get_plugin_detail s plugin_id
                      else Inl (HTTPException 409 ''No eligible plugin target bindings were submitted for this event''), rt1))"

section \<open>Packages\<close>

record event_manifest =
  em_name :: string
  em_mode :: string
  em_function_name :: string
  em_title :: string
  em_description :: string
  em_config_schema :: dict
  em_default_config :: dict

record plugin_manifest =
  mf_name :: string
  mf_version :: string
  mf_display_name :: string
  mf_plugin_type :: string
  mf_entry_module :: string
  mf_config_schema :: dict
  mf_default_config :: dict
  mf_user_config_schema :: dict
  mf_user_default_config :: dict
  mf_events :: "event_manifest list"
  mf_service_function :: "string option"
  mf_settings_validation_function :: "string option"

text \<open>
  An upload: the manifest in it (or why it cannot be read), whether the directory of its version exists, the path of the
  manifest that the dependency builder writes, the check of the functions, and the directory for the plugin's data.
\<close>

record package =
  pk_manifest :: "plugin_manifest result"
  pk_root_exists :: bool
  pk_dependencies :: "string result"
  pk_functions :: "unit result"
  pk_data_dir :: string

definition check_manifest :: "plugin_manifest \<Rightarrow> unit result" where
  "check_manifest f =
     (if mf_plugin_type f = ''external'' \<and> mf_events f = []
      then Inl (ValueError ''External plugins must define at least one event in plugin.json'')
      else if mf_plugin_type f = ''im'' \<and> \<not> truthy (mf_service_function f)
      then Inl (ValueError ''IM plugins must define service_function in plugin.json'')
      else Inr ())"

text \<open>Everything that is checked before the database is touched: the manifest and the path of the built one.\<close>

definition check_package :: "plugin_env \<Rightarrow> package \<Rightarrow> plugin_row option \<Rightarrow> (plugin_manifest \<times> string) result" where
  "check_package e k existing =
     bind_r (pk_manifest k) (\<lambda>f.
     bind_r (case check_manifest f of Inl (ValueError t) \<Rightarrow> Inl (HTTPException 400 t) | r \<Rightarrow> r) (\<lambda>_.
     if existing \<noteq> None \<and> map_option p_name existing \<noteq> Some (mf_name f)
     then Inl (HTTPException 400 ''Updated plugin zip must keep the same plugin name'')
     else if pk_root_exists k then Inl (HTTPException 400 ''Plugin version already installed'')
     else bind_r (pk_dependencies k) (\<lambda>path.
          bind_r (pk_functions k) (\<lambda>_.
          bind_r (validate_config_payload e (mf_config_schema f) (mf_default_config f) ''plugin_default_config'') (\<lambda>_.
          bind_r (validate_config_payload e (mf_user_config_schema f) (mf_user_default_config f) ''plugin_user_default_config'') (\<lambda>_.
          Inr (f, path)))))))"

definition new_plugin :: "session \<Rightarrow> package \<Rightarrow> plugin_manifest \<Rightarrow> plugin_row" where
  "new_plugin s k f =
     \<lparr>p_id = new_id s, p_name = mf_name f, p_display_name = mf_display_name f, p_plugin_type = mf_plugin_type f,
      p_entry_module = mf_entry_module f, p_status = ''disabled'', p_data_dir = pk_data_dir k,
      p_config_schema = mf_config_schema f, p_default_config = mf_default_config f, p_config = mf_default_config f,
      p_user_config_schema = mf_user_config_schema f, p_user_default_config = mf_user_default_config f,
      p_settings_validation_function_name = mf_settings_validation_function f, p_is_globally_visible = True,
      p_active_version_id = None, p_created_at = utcnow s\<rparr>"

definition refit_plugin :: "plugin_manifest \<Rightarrow> plugin_row \<Rightarrow> plugin_row" where
  "refit_plugin f p =
     p\<lparr>p_display_name := mf_display_name f, p_plugin_type := mf_plugin_type f, p_entry_module := mf_entry_module f,
       p_config_schema := mf_config_schema f, p_default_config := mf_default_config f,
       p_user_config_schema := mf_user_config_schema f, p_user_default_config := mf_user_default_config f,
       p_settings_validation_function_name := mf_settings_validation_function f\<rparr>"

definition place_plugin :: "session \<Rightarrow> package \<Rightarrow> plugin_manifest \<Rightarrow> plugin_row option \<Rightarrow> (id \<times> session) result" where
  "place_plugin s k f existing =
     (case existing of
        Some p \<Rightarrow> Inr (p_id p, put_plugin (p_id p) (refit_plugin f) s)
      | None \<Rightarrow>
          if list_ex (\<lambda>q. p_name q = mf_name f) (plugins s) then Inl (IntegrityError ''plugin_definitions.name'')
          else let p = new_plugin s k f in Inr (p_id p, (take_id s)\<lparr>plugins := row_add p (plugins s)\<rparr>))"

definition mentions_interval :: "event_manifest \<Rightarrow> bool" where
  "mentions_interval ev \<longleftrightarrow>
     dict_get ''interval_seconds'' (em_default_config ev) \<noteq> None \<or>
     (case dict_get ''properties'' (em_config_schema ev) of
        Some (JObj props) \<Rightarrow> dict_get ''interval_seconds'' props \<noteq> None | _ \<Rightarrow> False)"

definition check_event :: "plugin_env \<Rightarrow> event_manifest \<Rightarrow> unit result" where
  "check_event e ev =
     (if mentions_interval ev
      then Inl (HTTPException 400 ''event config must not define interval_seconds; use plugin event schedule settings'')
      else validate_config_payload e (em_config_schema ev) (em_default_config ev) (''event_default_config.'' @ em_name ev))"

definition new_event_def :: "session \<Rightarrow> id \<Rightarrow> id \<Rightarrow> event_manifest \<Rightarrow> plugin_event_row" where
  "new_event_def s plugin_id version_id ev =
     \<lparr>pev_id = new_id s, pev_plugin_id = plugin_id, pev_plugin_version_id = version_id, pev_name = em_name ev, pev_mode = em_mode ev,
      pev_function_name = em_function_name ev, pev_title = em_title ev, pev_description = em_description ev,
      pev_config_schema = em_config_schema ev, pev_default_config = em_default_config ev\<rparr>"

text \<open>
  The events of the manifest. The queries of the loop see only what was flushed before it; the unique constraints on
  names refuse an event that occurs twice when the loop is over.
\<close>

fun add_events ::
  "plugin_env \<Rightarrow> plugin_event_config_row list \<Rightarrow> session \<Rightarrow> id \<Rightarrow> id \<Rightarrow> event_manifest list \<Rightarrow> session result" where
  "add_events e flushed s plugin_id version_id [] = Inr s"
| "add_events e flushed s plugin_id version_id (ev # evs) =
     bind_r (check_event e ev) (\<lambda>_.
     let s1 = (take_id s)\<lparr>plugin_event_defs := row_add (new_event_def s plugin_id version_id ev) (plugin_event_defs s)\<rparr>;
         s2 = (if list_ex (\<lambda>c. pe_plugin_id c = plugin_id \<and> pe_event_name c = em_name ev) flushed then s1
               else (take_id s1)\<lparr>plugin_event_configs :=
                      row_add (new_event_config s1 plugin_id (em_name ev) (em_default_config ev) True) (plugin_event_configs s1)\<rparr>)
     in add_events e flushed s2 plugin_id version_id evs)"

definition place_version :: "session \<Rightarrow> id \<Rightarrow> plugin_manifest \<Rightarrow> string \<Rightarrow> (id \<times> session) result" where
  "place_version s plugin_id f path =
     (if list_ex (\<lambda>v. plv_plugin_id v = plugin_id \<and> plv_version v = mf_version f) (plugin_versions s)
      then Inl (IntegrityError ''uq_plugin_versions_plugin_id_version'')
      else let v = \<lparr>plv_id = new_id s, plv_plugin_id = plugin_id, plv_version = mf_version f, plv_manifest_path = path,
                    plv_created_at = utcnow s\<rparr>
           in Inr (plv_id v, (take_id s)\<lparr>plugin_versions := row_add v (plugin_versions s)\<rparr>))"

text \<open>The session to be committed and the plugin; any exception rolls it back.\<close>

definition install_rows :: "plugin_env \<Rightarrow> session \<Rightarrow> package \<Rightarrow> plugin_row option \<Rightarrow> (id \<times> session) result" where
  "install_rows e s k existing =
     bind_r (check_package e k existing) (\<lambda>(f, path).
     bind_r (place_plugin s k f existing) (\<lambda>(plugin_id, s1).
     bind_r (place_version s1 plugin_id f path) (\<lambda>(version_id, s2).
     bind_r (add_events e (plugin_event_configs s2) s2 plugin_id version_id (mf_events f)) (\<lambda>s3.
     if \<not> distinct (map em_name (mf_events f)) then Inl (IntegrityError ''uq_plugin_event_definitions_version_name'')
     else Inr (plugin_id, put_plugin plugin_id (\<lambda>p. p\<lparr>p_active_version_id := Some version_id\<rparr>) s3)))))"

definition install_or_update :: "plugin_env \<Rightarrow> plugin_runtime \<Rightarrow> package \<Rightarrow> plugin_row option \<Rightarrow> plugin_detail_out admin" where
  "install_or_update e rt k existing =
     (case install_rows e (rt_session rt) k existing of
        Inl err \<Rightarrow> (Inl err, rt)
      | Inr (plugin_id, s) \<Rightarrow>
          let rt1 = rt_reload plugin_id (rt_commit s rt) in (get_plugin_detail s plugin_id, rt1))"

definition install_plugin :: "admin_env \<Rightarrow> plugin_runtime \<Rightarrow> package \<Rightarrow> plugin_detail_out admin" where
  "install_plugin x rt k = install_or_update (ax_plugins x) rt k None"

text \<open>
  The replacement of a plugin: it is disabled, installed and enabled again. After an exception its status and active
  version are what they were, and a round follows if it was enabled; an exception of that round is the one that counts.
\<close>

definition restore_plugin :: "admin_env \<Rightarrow> plugin_row \<Rightarrow> py_exc \<Rightarrow> plugin_runtime \<Rightarrow> plugin_detail_out admin" where
  "restore_plugin x p err rt =
     (let s = put_plugin (p_id p) (\<lambda>q. q\<lparr>p_active_version_id := p_active_version_id p, p_status := p_status p\<rparr>) (rt_session rt);
          rt1 = rt_commit s rt
      in if p_status p \<noteq> ''enabled'' then (Inl err, rt1)
         else case rt_round x (ax_later x) (rt_reload (p_id p) rt1) of
                (Inl err1, rt2) \<Rightarrow> (Inl err1, rt2) | (Inr _, rt2) \<Rightarrow> (Inl err, rt2))"

definition update_plugin :: "admin_env \<Rightarrow> plugin_runtime \<Rightarrow> id \<Rightarrow> package \<Rightarrow> plugin_detail_out admin" where
  "update_plugin x rt plugin_id k =
     (case require_plugin (rt_session rt) plugin_id of
        Inl err \<Rightarrow> (Inl err, rt)
      | Inr p \<Rightarrow>
          let rt1 = snd (disable_plugin rt plugin_id)
          in (case install_or_update (ax_plugins x) rt1 k (Some p) of
                (Inl err, rt2) \<Rightarrow> restore_plugin x p err rt2
              | (Inr detail, rt2) \<Rightarrow>
                  if p_status p \<noteq> ''enabled'' then (Inr detail, rt2)
                  else (case enable_plugin x rt2 plugin_id of
                          (Inl err, rt3) \<Rightarrow> restore_plugin x p err rt3
                        | (Inr _, rt3) \<Rightarrow>
                            (case get_plugin_detail (rt_session rt3) plugin_id of
                               Inl err \<Rightarrow> restore_plugin x p err rt3 | Inr detail1 \<Rightarrow> (Inr detail1, rt3)))))"

section \<open>Defaults are well typed\<close>

text \<open>The default configurations of plugins and events have the types that their schemas give.\<close>

definition plugin_typed :: "plugin_env \<Rightarrow> plugin_row \<Rightarrow> bool" where
  "plugin_typed e p \<longleftrightarrow>
     of_schema (px_text e) (p_config_schema p) (JObj (p_default_config p)) \<and>
     of_schema (px_text e) (p_user_config_schema p) (JObj (p_user_default_config p))"

definition event_typed :: "plugin_env \<Rightarrow> plugin_event_row \<Rightarrow> bool" where
  "event_typed e ev \<longleftrightarrow>
     of_schema (px_text e) (pev_config_schema ev) (JObj (pev_default_config ev)) \<and>
     dict_get ''interval_seconds'' (pev_default_config ev) = None"

definition defaults_typed :: "plugin_env \<Rightarrow> session \<Rightarrow> bool" where
  "defaults_typed e s \<longleftrightarrow> (\<forall>p\<in>set (plugins s). plugin_typed e p) \<and> (\<forall>ev\<in>set (plugin_event_defs s). event_typed e ev)"

lemma payload_ok: "validate_config_payload e schema payload loc = Inr () \<longleftrightarrow> of_schema (px_text e) schema (JObj payload)"
  using schema_typing [of "px_text e" schema "JObj payload" loc]
  by (auto simp: validate_config_payload_def split: sum.splits py_exc.splits)

lemma typed_catalog: "catalog_of s' = catalog_of s \<Longrightarrow> defaults_typed e s' = defaults_typed e s"
  by (simp add: defaults_typed_def catalog_of_def)

lemma typed_put: "defaults_typed e s \<Longrightarrow> (\<And>p. plugin_typed e p \<Longrightarrow> plugin_typed e (f p)) \<Longrightarrow> defaults_typed e (put_plugin i f s)"
  by (auto simp: defaults_typed_def put_plugin_def row_put_def)

lemma typed_commit_run:
  assumes "commit_and_run x i s rt = (r, rt')" "defaults_typed e s" shows "defaults_typed e (rt_session rt')"
proof -
  obtain r1 w1 pm m where run: "run_once (ax_rpc x) (ax_plugins x) (ax_round x) (prt_world (rt_reload i (rt_commit s rt)))
      (prt_plugins (rt_reload i (rt_commit s rt))) (prt_im (rt_reload i (rt_commit s rt))) = (r1, w1, pm, m)" by (metis surj_pair)
  have "rt_session rt' = db w1"
    using assms(1) run by (auto simp: commit_and_run_def rt_round_def rt_session_def split: sum.splits prod.splits)
  moreover have "db (prt_world (rt_reload i (rt_commit s rt))) = s" by (simp add: rt_reload_def rt_commit_def)
  ultimately show ?thesis using typed_catalog [OF catalog_run_once [OF run]] assms(2) by simp
qed

lemma typed_round: "rt_round x i rt = (r, rt') \<Longrightarrow> defaults_typed e (rt_session rt) \<Longrightarrow> defaults_typed e (rt_session rt')"
  by (auto simp: rt_round_def rt_session_def Let_def split: prod.splits dest!: catalog_run_once typed_catalog)

lemma typed_event_config: "defaults_typed e (change_event_config s i ev f) = defaults_typed e s"
  by (rule typed_catalog) (simp add: change_event_config_def catalog_of_def take_id_def split: option.split)

lemma typed_add_events:
  "add_events e fl s i v evs = Inr s' \<Longrightarrow> defaults_typed e s \<Longrightarrow> defaults_typed e s'"
proof (induction evs arbitrary: s)
  case (Cons ev evs)
  have ok: "check_event e ev = Inr ()" using Cons.prems(1) by (cases "check_event e ev") auto
  let ?s1 = "(take_id s)\<lparr>plugin_event_defs := row_add (new_event_def s i v ev) (plugin_event_defs s)\<rparr>"
  let ?s2 = "if list_ex (\<lambda>c. pe_plugin_id c = i \<and> pe_event_name c = em_name ev) fl then ?s1
    else (take_id ?s1)\<lparr>plugin_event_configs := row_add (new_event_config ?s1 i (em_name ev) (em_default_config ev) True) (plugin_event_configs ?s1)\<rparr>"
  have "event_typed e (new_event_def s i v ev)"
    using ok by (auto simp: check_event_def payload_ok event_typed_def new_event_def_def mentions_interval_def split: if_splits)
  then have "defaults_typed e ?s1" using Cons.prems(2) by (auto simp: defaults_typed_def take_id_def row_add_def)
  moreover have "catalog_of ?s2 = catalog_of ?s1" by (simp add: catalog_of_def take_id_def)
  ultimately have "defaults_typed e ?s2" using typed_catalog by blast
  moreover have "add_events e fl ?s2 i v evs = Inr s'" using Cons.prems(1) ok by (simp add: Let_def)
  ultimately show ?case by (rule Cons.IH [rotated])
qed simp

lemma typed_install:
  assumes "install_rows e s k existing = Inr (i, s')" "defaults_typed e s" shows "defaults_typed e s'"
proof -
  obtain f path where chk: "check_package e k existing = Inr (f, path)"
    using assms(1) unfolding install_rows_def by (rule bind_r_pairE)
  obtain s1 where pl: "place_plugin s k f existing = Inr (i, s1)"
    using assms(1) chk by (auto simp: install_rows_def result_simps split: if_splits)
  obtain v s2 s3 where ver: "place_version s1 i f path = Inr (v, s2)" and ev: "add_events e (plugin_event_configs s2) s2 i v (mf_events f) = Inr s3"
    and s': "s' = put_plugin i (\<lambda>p. p\<lparr>p_active_version_id := Some v\<rparr>) s3"
    using assms(1) chk pl by (auto simp: install_rows_def result_simps split: if_splits)
  have "of_schema (px_text e) (mf_config_schema f) (JObj (mf_default_config f))"
    "of_schema (px_text e) (mf_user_config_schema f) (JObj (mf_user_default_config f))"
    using chk by (auto simp: check_package_def result_simps payload_ok split: if_splits sum.splits)
  then have "plugin_typed e (new_plugin s k f)" "plugin_typed e (refit_plugin f p)" for p
    by (simp_all add: plugin_typed_def new_plugin_def refit_plugin_def)
  then have "defaults_typed e s1"
    using pl assms(2) by (auto simp: place_plugin_def Let_def defaults_typed_def take_id_def row_add_def put_plugin_def row_put_def
        split: option.splits if_splits)
  moreover have "defaults_typed e s2 = defaults_typed e s1"
    using ver by (auto simp: place_version_def Let_def defaults_typed_def take_id_def split: if_splits)
  ultimately have "defaults_typed e s3" using typed_add_events [OF ev] by simp
  then show ?thesis unfolding s' by (rule typed_put) (simp add: plugin_typed_def)
qed

text \<open>The requests of administrators, and rounds of the manager.\<close>

inductive admin_step :: "plugin_env \<Rightarrow> plugin_runtime \<Rightarrow> plugin_runtime \<Rightarrow> bool" for e where
  install: "ax_plugins x = e \<Longrightarrow> install_plugin x rt k = (r, rt') \<Longrightarrow> admin_step e rt rt'"
| update: "ax_plugins x = e \<Longrightarrow> update_plugin x rt i k = (r, rt') \<Longrightarrow> admin_step e rt rt'"
| enable: "ax_plugins x = e \<Longrightarrow> enable_plugin x rt i = (r, rt') \<Longrightarrow> admin_step e rt rt'"
| disable: "disable_plugin rt i = (r, rt') \<Longrightarrow> admin_step e rt rt'"
| delete: "delete_plugin rt i = (r', rt') \<Longrightarrow> admin_step e rt rt'"
| config: "ax_plugins x = e \<Longrightarrow> update_plugin_config x rt i d = (r, rt') \<Longrightarrow> admin_step e rt rt'"
| event_config: "ax_plugins x = e \<Longrightarrow> update_event_config x rt i n d = (r, rt') \<Longrightarrow> admin_step e rt rt'"
| event_enabled: "ax_plugins x = e \<Longrightarrow> set_event_enabled x rt i n b = (r, rt') \<Longrightarrow> admin_step e rt rt'"
| event_run: "run_short_lived_event_now rt i n = (r, rt') \<Longrightarrow> admin_step e rt rt'"
| round: "ax_plugins x = e \<Longrightarrow> rt_round x inp rt = (r', rt') \<Longrightarrow> admin_step e rt rt'"

lemma typed_enable:
  assumes "enable_plugin x rt i = (r, rt')" "defaults_typed e (rt_session rt)" shows "defaults_typed e (rt_session rt')"
proof -
  have "defaults_typed e (put_plugin i (\<lambda>p. p\<lparr>p_status := ''enabled''\<rparr>) (rt_session rt))"
    by (rule typed_put [OF assms(2)]) (simp add: plugin_typed_def)
  then show ?thesis using assms by (auto simp: enable_plugin_def Let_def split: sum.splits if_splits dest: typed_commit_run)
qed

lemma rt_commit_session [simp]: "rt_session (rt_commit s rt) = s" "rt_session (rt_reload i rt) = rt_session rt"
  by (simp_all add: rt_session_def rt_commit_def rt_reload_def)

lemma typed_disable:
  assumes "defaults_typed e (rt_session rt)" shows "defaults_typed e (rt_session (snd (disable_plugin rt i)))"
proof -
  have "defaults_typed e (put_plugin i (\<lambda>p. p\<lparr>p_status := ''disabled''\<rparr>) (rt_session rt))"
    by (rule typed_put [OF assms]) (simp add: plugin_typed_def)
  then show ?thesis using assms by (simp add: disable_plugin_def Let_def split: sum.split)
qed

lemma typed_restore:
  assumes "restore_plugin x p err rt = (r, rt')" "defaults_typed e (rt_session rt)" shows "defaults_typed e (rt_session rt')"
proof -
  let ?s = "put_plugin (p_id p) (\<lambda>q. q\<lparr>p_active_version_id := p_active_version_id p, p_status := p_status p\<rparr>) (rt_session rt)"
  have "defaults_typed e ?s" by (rule typed_put [OF assms(2)]) (simp add: plugin_typed_def)
  then show ?thesis using assms(1) typed_round [of x "ax_later x" "rt_reload (p_id p) (rt_commit ?s rt)"]
    by (auto simp: restore_plugin_def Let_def split: if_splits sum.splits prod.splits)
qed

lemma typed_install_or_update:
  "install_or_update e rt k existing = (r, rt') \<Longrightarrow> defaults_typed e (rt_session rt) \<Longrightarrow> defaults_typed e (rt_session rt')"
  by (auto simp: install_or_update_def Let_def split: sum.splits prod.splits dest: typed_install)

lemma typed_update:
  assumes "update_plugin x rt i k = (r, rt')" "defaults_typed (ax_plugins x) (rt_session rt)"
  shows "defaults_typed (ax_plugins x) (rt_session rt')"
proof (cases "require_plugin (rt_session rt) i")
  case (Inr p)
  let ?e = "ax_plugins x"
  obtain r1 rt2 where ins: "install_or_update ?e (snd (disable_plugin rt i)) k (Some p) = (r1, rt2)" by fastforce
  have t2: "defaults_typed ?e (rt_session rt2)" using typed_install_or_update [OF ins] typed_disable assms(2) by blast
  obtain r3 rt3 where en: "enable_plugin x rt2 i = (r3, rt3)" by fastforce
  have t3: "defaults_typed ?e (rt_session rt3)" by (rule typed_enable [OF en t2])
  show ?thesis using assms(1) Inr ins en t2 t3 typed_restore [OF _ t2] typed_restore [OF _ t3]
    by (auto simp: update_plugin_def Let_def split: sum.splits if_splits)
qed (use assms in \<open>auto simp: update_plugin_def\<close>)

lemma typed_step: "admin_step e rt rt' \<Longrightarrow> defaults_typed e (rt_session rt) \<Longrightarrow> defaults_typed e (rt_session rt')"
proof (induction rule: admin_step.induct)
  case (install x rt k r rt')
  then show ?case by (auto simp: install_plugin_def intro: typed_install_or_update)
next
  case (disable rt i r rt')
  then show ?case using typed_disable [of e rt i] by simp
next
  case (delete rt i r' rt')
  then show ?case
    by (auto simp: delete_plugin_def Let_def wipe_plugin_def defaults_typed_def row_del_where_def row_del_def split: sum.splits)
next
  case (config x rt i d r rt')
  have "defaults_typed e (put_plugin i (\<lambda>p. p\<lparr>p_config := d\<rparr>) (rt_session rt))"
    by (rule typed_put [OF config.prems]) (simp add: plugin_typed_def)
  then show ?case using config by (auto simp: update_plugin_config_def Let_def split: sum.splits dest: typed_commit_run)
next
  case (event_run rt i n r rt')
  then show ?case
    by (auto simp: run_short_lived_event_now_def Let_def rt_session_def split: sum.splits if_splits prod.splits)
qed (auto simp: update_event_config_def set_event_enabled_def Let_def typed_event_config split: sum.splits
      dest: typed_commit_run typed_update typed_enable typed_round)

text \<open>
  C21. From an empty catalogue on, whatever administrators ask for and the manager does, the default configurations of
  plugins and events have the types that their schemas give and no event sets its own interval; so a configuration that
  is created on the way, for a user who has none, passes the check of the plugin's schema.
\<close>

theorem plugin_defaults_typed:
  assumes "plugins (rt_session rt) = []" "plugin_event_defs (rt_session rt) = []" "rtranclp (admin_step e) rt rt'"
  shows "defaults_typed e (rt_session rt') \<and>
    (\<forall>p\<in>set (plugins (rt_session rt')). \<forall>u location. find_user_config (rt_session rt') (p_id p) u = None \<longrightarrow>
       validate_config_payload e (p_user_config_schema p) (pu_config (fst (ensure_user_config (rt_session rt') p u))) location = Inr ())"
proof -
  have "defaults_typed e (rt_session rt)" using assms(1,2) by (simp add: defaults_typed_def)
  with assms(3) have "defaults_typed e (rt_session rt')" by (induction rule: rtranclp_induct) (auto intro: typed_step)
  then show ?thesis by (auto simp: payload_ok ensure_user_config_def Let_def defaults_typed_def plugin_typed_def)
qed

definition sample_manifest :: plugin_manifest where
  "sample_manifest =
     \<lparr>mf_name = ''news'', mf_version = ''1'', mf_display_name = ''News'', mf_plugin_type = ''external'', mf_entry_module = ''main'',
      mf_config_schema = [], mf_default_config = [],
      mf_user_config_schema = [(''type'', JStr ''object''), (''required'', JList [JStr ''city''])],
      mf_user_default_config = [(''city'', JStr ''Bonn'')],
      mf_events = [\<lparr>em_name = ''tick'', em_mode = ''short_lived'', em_function_name = ''tick'', em_title = [], em_description = [],
                    em_config_schema = [], em_default_config = []\<rparr>],
      mf_service_function = None, mf_settings_validation_function = None\<rparr>"

definition sample_package :: package where
  "sample_package = \<lparr>pk_manifest = Inr sample_manifest, pk_root_exists = False, pk_dependencies = Inr ''deps'',
     pk_functions = Inr (), pk_data_dir = ''data''\<rparr>"

definition sample_admin_env :: admin_env where
  "sample_admin_env = \<lparr>ax_rpc = sample_rpc_env, ax_plugins = sample_plugin_env, ax_round = quiet_input, ax_later = quiet_input\<rparr>"

definition empty_runtime :: plugin_runtime where
  "empty_runtime = \<lparr>prt_world = \<lparr>db = empty_session 0, queue = empty_queue, events = [], files = []\<rparr>,
     prt_plugins = idle_manager, prt_im = idle_im\<rparr>"

theorem plugin_defaults_typed_witness:
  "\<exists>rt p. admin_step sample_plugin_env empty_runtime rt \<and> plugins (rt_session rt) = [p] \<and> p_name p = ''news'' \<and>
     validate_config_payload sample_plugin_env (p_user_config_schema p)
       (pu_config (fst (ensure_user_config (rt_session rt) p ''u''))) ''x'' = Inr ()"
proof -
  obtain r rt where i: "install_plugin sample_admin_env empty_runtime sample_package = (r, rt)" by fastforce
  have env: "ax_plugins sample_admin_env = sample_plugin_env" by (simp add: sample_admin_env_def)
  have step: "admin_step sample_plugin_env empty_runtime rt" by (rule admin_step.install [OF env i])
  have star: "rtranclp (admin_step sample_plugin_env) empty_runtime rt" using step by blast
  have "map p_name (plugins (rt_session (snd (install_plugin sample_admin_env empty_runtime sample_package)))) = [''news'']"
    "plugin_user_configs (rt_session (snd (install_plugin sample_admin_env empty_runtime sample_package))) = []"
    by code_simp+
  then obtain p where p: "plugins (rt_session rt) = [p]" "p_name p = ''news''"
    and none: "find_user_config (rt_session rt) (p_id p) ''u'' = None"
    by (auto simp: i find_user_config_def map_eq_Cons_conv)
  have "plugins (rt_session empty_runtime) = []" "plugin_event_defs (rt_session empty_runtime) = []" by code_simp+
  from plugin_defaults_typed [OF this star] none p(1) show ?thesis using step p by auto
qed

section \<open>A replacement that fails\<close>


definition news_runtime :: plugin_runtime where
  "news_runtime = snd (install_plugin sample_admin_env empty_runtime sample_package)"


end
