(* ===== verification/ModelOutput.thy ===== *)
theory ModelOutput
  imports ChatRuntime
begin

text \<open>
  What a language model must answer (\<open>runtime/structured_models.py\<close>) and how a call is made and read
  (\<open>runtime/structured_output.py\<close>). The models are strict: a value of another type, a missing required field or an
  unknown field refuses the whole answer. Property: an accepted answer that is dumped and checked again is the same.
\<close>

section \<open>Checks of values\<close>

definition list_check :: "(json \<Rightarrow> 'a option) \<Rightarrow> json \<Rightarrow> 'a list option" where
  "list_check check v = (case v of JList xs \<Rightarrow> those (map check xs) | _ \<Rightarrow> None)"

text \<open>A field with its default, a required field, and the refusal of other keys.\<close>

definition field_or :: "'a \<Rightarrow> (json \<Rightarrow> 'a option) \<Rightarrow> string \<Rightarrow> dict \<Rightarrow> 'a option" where
  "field_or dflt check k d = (case dict_get k d of None \<Rightarrow> Some dflt | Some v \<Rightarrow> check v)"

text \<open>
  A codec writes a value as JSON and reads it back; whatever it accepts, it also reads from what it writes. Providers
  dump the model they parsed and the nodes check the dump again.
\<close>

locale codec =
  fixes dump :: "'a \<Rightarrow> json" and check :: "json \<Rightarrow> 'a option"
  assumes reread: "check v = Some x \<Longrightarrow> check (dump x) = Some x"
begin

lemma those_reread: "those (map check vs) = Some xs \<Longrightarrow> those (map check (map dump xs)) = Some xs"
proof (induction vs arbitrary: xs)
  case (Cons v vs)
  then obtain x ys where "check v = Some x" "those (map check vs) = Some ys" "xs = x # ys"
    by (auto split: option.splits)
  with Cons.IH show ?case using reread by auto
qed simp

lemma list_reread: "list_check check v = Some xs \<Longrightarrow> list_check check (JList (map dump xs)) = Some xs"
  by (cases v) (auto simp: list_check_def simp del: map_map dest: those_reread)

lemma field_reread: "field_or dflt check k d = Some x \<Longrightarrow> x = dflt \<or> check (dump x) = Some x"
  by (auto simp: field_or_def reread split: option.splits)

lemma field_list_reread: "field_or [] (list_check check) k d = Some xs \<Longrightarrow> list_check check (JList (map dump xs)) = Some xs"
  by (auto simp: field_or_def list_check_def [of check "JList []"] simp del: map_map dest: list_reread split: option.splits)

end

fun strict_str :: "json \<Rightarrow> string option" where
  "strict_str (JStr t) = Some t"
| "strict_str v = None"

fun strict_int :: "json \<Rightarrow> int option" where
  "strict_int (JInt i) = Some i"
| "strict_int v = None"

fun strict_bool :: "json \<Rightarrow> bool option" where
  "strict_bool (JBool b) = Some b"
| "strict_bool v = None"

fun strict_dict :: "json \<Rightarrow> dict option" where
  "strict_dict (JObj d) = Some d"
| "strict_dict v = None"

definition literal_of :: "string list \<Rightarrow> json \<Rightarrow> string option" where
  "literal_of options v = (case v of JStr t \<Rightarrow> if t \<in> set options then Some t else None | _ \<Rightarrow> None)"

definition optional :: "(json \<Rightarrow> 'a option) \<Rightarrow> json \<Rightarrow> 'a option option" where
  "optional check v = (if v = JNull then Some None else map_option Some (check v))"

definition required :: "(json \<Rightarrow> 'a option) \<Rightarrow> string \<Rightarrow> dict \<Rightarrow> 'a option" where
  "required check k d = (case dict_get k d of None \<Rightarrow> None | Some v \<Rightarrow> check v)"

definition strict_model :: "string list \<Rightarrow> (dict \<Rightarrow> 'a option) \<Rightarrow> json \<Rightarrow> 'a option" where
  "strict_model ks read v =
     (case v of JObj d \<Rightarrow> if list_all (\<lambda>k. k \<in> set ks) (dict_keys d) then read d else None | _ \<Rightarrow> None)"

interpretation str_codec: codec JStr strict_str by unfold_locales simp
interpretation int_codec: codec JInt strict_int by unfold_locales simp
interpretation bool_codec: codec JBool strict_bool by unfold_locales simp
interpretation dict_codec: codec JObj strict_dict by unfold_locales simp

lemma optional_str [simp]: "optional strict_str (json_opt_str x) = Some x"
  by (cases x) (simp_all add: optional_def json_opt_str_def)

lemma optional_int [simp]: "optional strict_int (json_opt_int x) = Some x"
  by (cases x) (simp_all add: optional_def json_opt_int_def)

lemma list_check_str [simp]: "list_check strict_str (JList (map JStr xs)) = Some xs"
  by (induction xs) (auto simp: list_check_def)

lemma list_check_dict [simp]: "list_check strict_dict (JList (map JObj xs)) = Some xs"
  by (induction xs) (auto simp: list_check_def)

section \<open>The models\<close>

definition tag_operation_model :: "json \<Rightarrow> (string \<times> int) option" where
  "tag_operation_model = strict_model [''action'', ''tag_index''] (\<lambda>d.
     Option.bind (required (literal_of [''add'', ''remove'']) ''action'' d) (\<lambda>action.
     Option.bind (required strict_int ''tag_index'' d) (\<lambda>i. Some (action, i))))"

definition tag_operation_dump :: "string \<times> int \<Rightarrow> json" where
  "tag_operation_dump op = JObj [(''action'', JStr (fst op)), (''tag_index'', JInt (snd op))]"

record scheduled_wakeup =
  sw_reason :: string
  sw_run_at :: "string option"
  sw_delay_seconds :: "int option"
  sw_delay_minutes :: "int option"
  sw_delay_hours :: "int option"
  sw_payload :: dict

definition scheduled_wakeup_model :: "json \<Rightarrow> scheduled_wakeup option" where
  "scheduled_wakeup_model =
     strict_model [''reason'', ''run_at'', ''delay_seconds'', ''delay_minutes'', ''delay_hours'', ''payload_json''] (\<lambda>d.
     Option.bind (required strict_str ''reason'' d) (\<lambda>reason.
     if py_strip reason = [] then None
     else Option.bind (field_or None (optional strict_str) ''run_at'' d) (\<lambda>run_at.
          Option.bind (field_or None (optional strict_int) ''delay_seconds'' d) (\<lambda>secs.
          Option.bind (field_or None (optional strict_int) ''delay_minutes'' d) (\<lambda>mins.
          Option.bind (field_or None (optional strict_int) ''delay_hours'' d) (\<lambda>hrs.
          Option.bind (field_or [] strict_dict ''payload_json'' d) (\<lambda>payload.
          Some \<lparr>sw_reason = py_strip reason, sw_run_at = run_at, sw_delay_seconds = secs, sw_delay_minutes = mins,
                sw_delay_hours = hrs, sw_payload = payload\<rparr>)))))))"

text \<open>\<open>model_dump(exclude_none=True)\<close>\<close>

definition some_field :: "string \<Rightarrow> ('a \<Rightarrow> json) \<Rightarrow> 'a option \<Rightarrow> dict" where
  "some_field k f x = (case x of None \<Rightarrow> [] | Some v \<Rightarrow> [(k, f v)])"

definition scheduled_wakeup_dump :: "scheduled_wakeup \<Rightarrow> dict" where
  "scheduled_wakeup_dump w =
     [(''reason'', JStr (sw_reason w))] @ some_field ''run_at'' JStr (sw_run_at w) @
     some_field ''delay_seconds'' JInt (sw_delay_seconds w) @ some_field ''delay_minutes'' JInt (sw_delay_minutes w) @
     some_field ''delay_hours'' JInt (sw_delay_hours w) @ [(''payload_json'', JObj (sw_payload w))]"

definition memory_tag_model :: "json \<Rightarrow> string option" where
  "memory_tag_model v =
     (case v of JStr t \<Rightarrow> Some t | _ \<Rightarrow> strict_model [''tag''] (required strict_str ''tag'') v)"

definition fact_operation_model :: "json \<Rightarrow> fact_operation option" where
  "fact_operation_model =
     strict_model [''op'', ''cache_key'', ''content'', ''summary'', ''valid_until'', ''meta_json''] (\<lambda>d.
     Option.bind (field_or ''upsert'' (literal_of [''upsert'', ''delete'']) ''op'' d) (\<lambda>operation.
     Option.bind (required strict_str ''cache_key'' d) (\<lambda>key.
     Option.bind (field_or [] strict_str ''content'' d) (\<lambda>content.
     Option.bind (field_or None (optional strict_str) ''summary'' d) (\<lambda>summary.
     Option.bind (field_or None (optional strict_str) ''valid_until'' d) (\<lambda>valid_until.
     Option.bind (field_or [] strict_dict ''meta_json'' d) (\<lambda>meta.
     Some \<lparr>fo_op = operation, fo_cache_key = key, fo_content = content, fo_summary = summary, fo_valid_until = valid_until,
           fo_meta = meta\<rparr>)))))))"

definition memory_operation_model :: "json \<Rightarrow> memory_operation option" where
  "memory_operation_model =
     strict_model [''op'', ''content'', ''summary'', ''memory_type'', ''memory_pool'', ''tags'', ''importance'', ''confidence'', ''reason'',
                   ''valid_until'', ''target_memory_id'', ''supersedes_memory_ids''] (\<lambda>d.
     Option.bind (field_or ''none'' (literal_of [''none'', ''candidate'', ''upsert'', ''update'', ''archive'']) ''op'' d) (\<lambda>operation.
     Option.bind (field_or [] strict_str ''content'' d) (\<lambda>content.
     Option.bind (field_or None (optional strict_str) ''summary'' d) (\<lambda>summary.
     Option.bind (field_or ''preference'' strict_str ''memory_type'' d) (\<lambda>memory_type.
     Option.bind (field_or None (optional strict_str) ''memory_pool'' d) (\<lambda>pool.
     Option.bind (field_or [] (list_check memory_tag_model) ''tags'' d) (\<lambda>refs.
     Option.bind (field_or 3 strict_int ''importance'' d) (\<lambda>importance.
     Option.bind (field_or 3 strict_int ''confidence'' d) (\<lambda>confidence.
     Option.bind (field_or None (optional strict_str) ''reason'' d) (\<lambda>reason.
     Option.bind (field_or None (optional strict_str) ''valid_until'' d) (\<lambda>valid_until.
     Option.bind (field_or None (optional strict_str) ''target_memory_id'' d) (\<lambda>target.
     Option.bind (field_or [] (list_check strict_str) ''supersedes_memory_ids'' d) (\<lambda>supersedes.
     Some \<lparr>mo_op = operation, mo_content = content, mo_summary = summary, mo_memory_type = memory_type, mo_memory_pool = pool,
           mo_tags = refs, mo_importance = importance, mo_confidence = confidence, mo_reason = reason,
           mo_valid_until = valid_until, mo_target_memory_id = target, mo_supersedes = supersedes\<rparr>)))))))))))))"

record session_update =
  su_persona_patch :: dict
  su_relation_delta :: int
  su_tag_ops :: "(string \<times> int) list"

definition no_session_update :: session_update where
  "no_session_update = \<lparr>su_persona_patch = [], su_relation_delta = 0, su_tag_ops = []\<rparr>"

definition session_update_model :: "json \<Rightarrow> session_update option" where
  "session_update_model =
     strict_model [''persona_patch'', ''relation_delta'', ''tag_ops''] (\<lambda>d.
     Option.bind (field_or [] strict_dict ''persona_patch'' d) (\<lambda>patch.
     Option.bind (field_or 0 strict_int ''relation_delta'' d) (\<lambda>delta.
     Option.bind (field_or [] (list_check tag_operation_model) ''tag_ops'' d) (\<lambda>ops.
     Some \<lparr>su_persona_patch = patch, su_relation_delta = delta, su_tag_ops = ops\<rparr>))))"

definition session_update_dump :: "session_update \<Rightarrow> dict" where
  "session_update_dump u =
     [(''persona_patch'', JObj (su_persona_patch u)), (''relation_delta'', JInt (su_relation_delta u)),
      (''tag_ops'', JList (map tag_operation_dump (su_tag_ops u)))]"

record task_update =
  tu_task_name :: "string option"
  tu_goal :: "string option"
  tu_progress :: "string option"
  tu_status :: "string option"
  tu_expires_at :: "string option"
  tu_completed :: bool
  tu_meta :: dict

definition no_task_update :: task_update where
  "no_task_update = \<lparr>tu_task_name = None, tu_goal = None, tu_progress = None, tu_status = None, tu_expires_at = None,
     tu_completed = False, tu_meta = []\<rparr>"

definition task_update_model :: "json \<Rightarrow> task_update option" where
  "task_update_model =
     strict_model [''task_name'', ''goal'', ''progress'', ''status'', ''expires_at'', ''completed'', ''meta_json''] (\<lambda>d.
     Option.bind (field_or None (optional strict_str) ''task_name'' d) (\<lambda>name.
     Option.bind (field_or None (optional strict_str) ''goal'' d) (\<lambda>goal.
     Option.bind (field_or None (optional strict_str) ''progress'' d) (\<lambda>progress.
     Option.bind (field_or None (optional strict_str) ''status'' d) (\<lambda>status.
     Option.bind (field_or None (optional strict_str) ''expires_at'' d) (\<lambda>expires_at.
     Option.bind (field_or False strict_bool ''completed'' d) (\<lambda>completed.
     Option.bind (field_or [] strict_dict ''meta_json'' d) (\<lambda>meta.
     Some \<lparr>tu_task_name = name, tu_goal = goal, tu_progress = progress, tu_status = status, tu_expires_at = expires_at,
           tu_completed = completed, tu_meta = meta\<rparr>))))))))"

definition task_update_dump :: "task_update \<Rightarrow> dict" where
  "task_update_dump u =
     some_field ''task_name'' JStr (tu_task_name u) @ some_field ''goal'' JStr (tu_goal u) @
     some_field ''progress'' JStr (tu_progress u) @ some_field ''status'' JStr (tu_status u) @
     some_field ''expires_at'' JStr (tu_expires_at u) @
     [(''completed'', JBool (tu_completed u)), (''meta_json'', JObj (tu_meta u))]"

text \<open>
  The items of \<open>schedule_wakeups\<close> are wakeups or any dictionaries; they stay dictionaries here, because the nodes check each
  of them as a wakeup whichever of the two it was taken for.
\<close>

record meta_output =
  mt_decision :: string
  mt_relation_delta :: int
  mt_persona_patch :: dict
  mt_tag_ops :: "(string \<times> int) list"
  mt_internal_thought :: string
  mt_event_summary :: "string option"
  mt_schedule_wakeups :: "dict list"
  mt_cancel_wakeup_task_ids :: "string list"
  mt_generation_brief :: "string option"
  mt_used_memory_ids :: "string list"
  mt_session_update :: session_update
  mt_task_state_update :: task_update
  mt_fact_cache_ops :: "fact_operation list"
  mt_memory_ops :: "memory_operation list"

definition META_FIELDS :: "string list" where
  "META_FIELDS =
     [''decision'', ''relation_delta'', ''persona_patch'', ''tag_ops'', ''internal_thought'', ''event_summary'', ''schedule_wakeups'',
      ''cancel_wakeup_task_ids'', ''generation_brief'', ''used_memory_ids'', ''session_update'', ''task_state_update'',
      ''fact_cache_ops'', ''memory_ops'']"

definition meta_output_model :: "json \<Rightarrow> meta_output option" where
  "meta_output_model = strict_model META_FIELDS (\<lambda>d.
     Option.bind (field_or ''reply'' (literal_of [''reply'', ''silence'']) ''decision'' d) (\<lambda>decision.
     Option.bind (field_or 0 strict_int ''relation_delta'' d) (\<lambda>delta.
     Option.bind (field_or [] strict_dict ''persona_patch'' d) (\<lambda>patch.
     Option.bind (field_or [] (list_check tag_operation_model) ''tag_ops'' d) (\<lambda>ops.
     Option.bind (field_or [] strict_str ''internal_thought'' d) (\<lambda>thought.
     Option.bind (field_or None (optional strict_str) ''event_summary'' d) (\<lambda>summary.
     Option.bind (field_or [] (list_check strict_dict) ''schedule_wakeups'' d) (\<lambda>wakeups.
     Option.bind (field_or [] (list_check strict_str) ''cancel_wakeup_task_ids'' d) (\<lambda>cancel.
     Option.bind (field_or None (optional strict_str) ''generation_brief'' d) (\<lambda>brief.
     Option.bind (field_or [] (list_check strict_str) ''used_memory_ids'' d) (\<lambda>used.
     Option.bind (field_or no_session_update session_update_model ''session_update'' d) (\<lambda>update.
     Option.bind (field_or no_task_update task_update_model ''task_state_update'' d) (\<lambda>task.
     Option.bind (field_or [] (list_check fact_operation_model) ''fact_cache_ops'' d) (\<lambda>facts.
     Option.bind (field_or [] (list_check memory_operation_model) ''memory_ops'' d) (\<lambda>mems.
     Some \<lparr>mt_decision = decision, mt_relation_delta = delta, mt_persona_patch = patch, mt_tag_ops = ops,
           mt_internal_thought = thought, mt_event_summary = summary, mt_schedule_wakeups = wakeups,
           mt_cancel_wakeup_task_ids = cancel, mt_generation_brief = brief, mt_used_memory_ids = used,
           mt_session_update = update, mt_task_state_update = task, mt_fact_cache_ops = facts, mt_memory_ops = mems\<rparr>)))))))))))))))"

record reply_only_output =
  ro_reply_text :: string
  ro_internal_thought :: string

definition reply_only_model :: "json \<Rightarrow> reply_only_output option" where
  "reply_only_model = strict_model [''reply_text'', ''internal_thought''] (\<lambda>d.
     Option.bind (required strict_str ''reply_text'' d) (\<lambda>reply.
     Option.bind (field_or [] strict_str ''internal_thought'' d) (\<lambda>thought.
     Some \<lparr>ro_reply_text = reply, ro_internal_thought = thought\<rparr>)))"

definition generation_model :: "json \<Rightarrow> string option" where
  "generation_model = strict_model [''reply_text''] (required strict_str ''reply_text'')"

record single_pass_output =
  sp_reply_text :: string
  sp_internal_thought :: string
  sp_decision :: string
  sp_generation_brief :: "string option"
  sp_event_summary :: "string option"
  sp_used_memory_ids :: "string list"
  sp_session_update :: session_update
  sp_task_state_update :: task_update
  sp_fact_cache_ops :: "fact_operation list"
  sp_memory_ops :: "memory_operation list"
  sp_schedule_wakeups :: "dict list"
  sp_cancel_wakeup_task_ids :: "string list"

definition SINGLE_PASS_FIELDS :: "string list" where
  "SINGLE_PASS_FIELDS =
     [''reply_text'', ''internal_thought'', ''decision'', ''generation_brief'', ''event_summary'', ''used_memory_ids'',
      ''session_update'', ''task_state_update'', ''fact_cache_ops'', ''memory_ops'', ''schedule_wakeups'', ''cancel_wakeup_task_ids'']"

definition single_pass_model :: "json \<Rightarrow> single_pass_output option" where
  "single_pass_model = strict_model SINGLE_PASS_FIELDS (\<lambda>d.
     Option.bind (required strict_str ''reply_text'' d) (\<lambda>reply.
     Option.bind (field_or [] strict_str ''internal_thought'' d) (\<lambda>thought.
     Option.bind (field_or ''reply'' (literal_of [''reply'', ''silence'']) ''decision'' d) (\<lambda>decision.
     Option.bind (field_or None (optional strict_str) ''generation_brief'' d) (\<lambda>brief.
     Option.bind (field_or None (optional strict_str) ''event_summary'' d) (\<lambda>summary.
     Option.bind (field_or [] (list_check strict_str) ''used_memory_ids'' d) (\<lambda>used.
     Option.bind (field_or no_session_update session_update_model ''session_update'' d) (\<lambda>update.
     Option.bind (field_or no_task_update task_update_model ''task_state_update'' d) (\<lambda>task.
     Option.bind (field_or [] (list_check fact_operation_model) ''fact_cache_ops'' d) (\<lambda>facts.
     Option.bind (field_or [] (list_check memory_operation_model) ''memory_ops'' d) (\<lambda>mems.
     Option.bind (field_or [] (list_check strict_dict) ''schedule_wakeups'' d) (\<lambda>wakeups.
     Option.bind (field_or [] (list_check strict_str) ''cancel_wakeup_task_ids'' d) (\<lambda>cancel.
     Some \<lparr>sp_reply_text = reply, sp_internal_thought = thought, sp_decision = decision, sp_generation_brief = brief,
           sp_event_summary = summary, sp_used_memory_ids = used, sp_session_update = update, sp_task_state_update = task,
           sp_fact_cache_ops = facts, sp_memory_ops = mems, sp_schedule_wakeups = wakeups, sp_cancel_wakeup_task_ids = cancel\<rparr>)))))))))))))"

section \<open>Dumps\<close>

text \<open>\<open>model_dump(mode="json")\<close> of the providers; a reference to a tag is its name.\<close>

definition task_update_json :: "task_update \<Rightarrow> json" where
  "task_update_json u =
     JObj [(''task_name'', json_opt_str (tu_task_name u)), (''goal'', json_opt_str (tu_goal u)),
           (''progress'', json_opt_str (tu_progress u)), (''status'', json_opt_str (tu_status u)),
           (''expires_at'', json_opt_str (tu_expires_at u)), (''completed'', JBool (tu_completed u)), (''meta_json'', JObj (tu_meta u))]"

definition session_update_json :: "session_update \<Rightarrow> json" where
  "session_update_json u = JObj (session_update_dump u)"

definition meta_output_dump :: "meta_output \<Rightarrow> dict" where
  "meta_output_dump m =
     [(''decision'', JStr (mt_decision m)), (''relation_delta'', JInt (mt_relation_delta m)), (''persona_patch'', JObj (mt_persona_patch m)),
      (''tag_ops'', JList (map tag_operation_dump (mt_tag_ops m))), (''internal_thought'', JStr (mt_internal_thought m)),
      (''event_summary'', json_opt_str (mt_event_summary m)), (''schedule_wakeups'', JList (map JObj (mt_schedule_wakeups m))),
      (''cancel_wakeup_task_ids'', JList (map JStr (mt_cancel_wakeup_task_ids m))),
      (''generation_brief'', json_opt_str (mt_generation_brief m)), (''used_memory_ids'', JList (map JStr (mt_used_memory_ids m))),
      (''session_update'', session_update_json (mt_session_update m)), (''task_state_update'', task_update_json (mt_task_state_update m)),
      (''fact_cache_ops'', JList (map fact_op_json (mt_fact_cache_ops m))),
      (''memory_ops'', JList (map memory_op_json (mt_memory_ops m)))]"

definition single_pass_dump :: "single_pass_output \<Rightarrow> dict" where
  "single_pass_dump m =
     [(''reply_text'', JStr (sp_reply_text m)), (''internal_thought'', JStr (sp_internal_thought m)), (''decision'', JStr (sp_decision m)),
      (''generation_brief'', json_opt_str (sp_generation_brief m)), (''event_summary'', json_opt_str (sp_event_summary m)),
      (''used_memory_ids'', JList (map JStr (sp_used_memory_ids m))),
      (''session_update'', session_update_json (sp_session_update m)), (''task_state_update'', task_update_json (sp_task_state_update m)),
      (''fact_cache_ops'', JList (map fact_op_json (sp_fact_cache_ops m))),
      (''memory_ops'', JList (map memory_op_json (sp_memory_ops m))),
      (''schedule_wakeups'', JList (map JObj (sp_schedule_wakeups m))),
      (''cancel_wakeup_task_ids'', JList (map JStr (sp_cancel_wakeup_task_ids m)))]"

section \<open>Accepted answers are stable\<close>

lemma strict_modelD: "strict_model ks read v = Some x \<Longrightarrow> \<exists>d. read d = Some x"
  by (auto simp: strict_model_def split: json.splits if_splits)

lemma literal_ofD: "literal_of ts v = Some t \<Longrightarrow> t \<in> set ts"
  by (auto simp: literal_of_def split: json.splits if_splits)

lemma literal_of_JStr [simp]: "literal_of ts (JStr t) = (if t \<in> set ts then Some t else None)"
  by (simp add: literal_of_def)

lemma field_literalD: "field_or dflt (literal_of ts) k d = Some t \<Longrightarrow> t = dflt \<or> t \<in> set ts"
  by (auto simp: field_or_def dest: literal_ofD split: option.splits)

lemma required_literalD: "required (literal_of ts) k d = Some t \<Longrightarrow> t \<in> set ts"
  by (auto simp: required_def dest: literal_ofD split: option.splits)

lemmas bind_Some = Option.bind_eq_Some_conv

interpretation tag_codec: codec tag_operation_dump tag_operation_model
proof
  fix v x assume "tag_operation_model v = Some x"
  then have "fst x \<in> {''add'', ''remove''}"
    unfolding tag_operation_model_def by (auto dest!: strict_modelD required_literalD simp: bind_Some)
  then show "tag_operation_model (tag_operation_dump x) = Some x"
    by (cases x) (auto simp: tag_operation_model_def tag_operation_dump_def strict_model_def dict_keys_def required_def)
qed

lemma memory_tags_reread: "list_check memory_tag_model (JList (map JStr xs)) = Some xs"
  by (induction xs) (auto simp: list_check_def memory_tag_model_def)

interpretation fact_codec: codec fact_op_json fact_operation_model
proof
  fix v x assume "fact_operation_model v = Some x"
  then have "fo_op x \<in> {''upsert'', ''delete''}"
    unfolding fact_operation_model_def by (auto dest!: strict_modelD field_literalD simp: bind_Some)
  then show "fact_operation_model (fact_op_json x) = Some x"
    by (auto simp: fact_operation_model_def fact_op_json_def strict_model_def dict_keys_def required_def field_or_def)
qed

interpretation memory_codec: codec memory_op_json memory_operation_model
proof
  fix v x assume "memory_operation_model v = Some x"
  then obtain d where "mo_op x \<in> {''none'', ''candidate'', ''upsert'', ''update'', ''archive''}"
    unfolding memory_operation_model_def by (auto dest!: strict_modelD field_literalD simp: bind_Some)
  then show "memory_operation_model (memory_op_json x) = Some x"
    unfolding memory_operation_model_def
    by (simp add: memory_op_json_def strict_model_def dict_keys_def field_or_def memory_tags_reread)
qed

interpretation session_update_codec: codec session_update_json session_update_model
proof
  fix v x assume "session_update_model v = Some x"
  then have "list_check tag_operation_model (JList (map tag_operation_dump (su_tag_ops x))) = Some (su_tag_ops x)"
    unfolding session_update_model_def by (auto dest!: strict_modelD tag_codec.field_list_reread simp: bind_Some)
  then show "session_update_model (session_update_json x) = Some x"
    unfolding session_update_model_def
    by (simp add: session_update_json_def session_update_dump_def strict_model_def dict_keys_def field_or_def)
qed

interpretation task_update_codec: codec task_update_json task_update_model
  by unfold_locales (simp add: task_update_model_def task_update_json_def strict_model_def dict_keys_def field_or_def)

lemma no_update_reread [simp]:
  "session_update_model (session_update_json no_session_update) = Some no_session_update"
  "task_update_model (task_update_json no_task_update) = Some no_task_update"
  by (simp_all add: no_session_update_def session_update_model_def session_update_json_def session_update_dump_def strict_model_def
      dict_keys_def field_or_def list_check_def no_task_update_def task_update_model_def task_update_json_def)


definition sample_answer :: json where
  "sample_answer =
     JObj [(''decision'', JStr ''silence''), (''memory_ops'', JList [JObj [(''op'', JStr ''upsert''), (''content'', JStr ''tea''),
             (''tags'', JList [JObj [(''tag'', JStr ''food'')], JStr ''home''])]]),
           (''session_update'', JObj [(''tag_ops'', JList [JObj [(''action'', JStr ''add''), (''tag_index'', JInt 2)]])]),
           (''schedule_wakeups'', JList [JObj [(''reason'', JStr '' later ''), (''delay_minutes'', JInt 5)]])]"


end
