(* ===== verification/PromptValues.thy ===== *)
theory PromptValues
  imports Context Prompts
begin

text \<open>
  What a prompt may show (\<open>runtime/prompting/helpers.py\<close>): values without identifiers and provider data, the names of tags,
  the clock of a conversation and the compact forms of events and wakeups. Lemmas: a sanitised value has no hidden key
  and no identifier at any depth, and a value without them is shown as it is.
\<close>

section \<open>Text\<close>

text \<open>
  What the code reads from its surroundings: \<open>str(v)\<close> of values that are no text, integer or truth value; \<open>ZoneInfo\<close>, which
  knows a name, does not know it, or raises something else; and the local time in a zone.
\<close>

record view_env =
  vw_text :: "json \<Rightarrow> string"
  vw_zone :: "string \<Rightarrow> bool result"
  vw_local :: "string \<Rightarrow> time \<Rightarrow> time"

fun shown :: "view_env \<Rightarrow> json \<Rightarrow> string" where
  "shown e (JStr t) = t"
| "shown e JNull = ''None''"
| "shown e (JInt i) = int_str i"
| "shown e (JBool b) = (if b then ''True'' else ''False'')"
| "shown e v = vw_text e v"

text \<open>\<open>str(v or "").strip()\<close>\<close>

definition text_in :: "view_env \<Rightarrow> string \<Rightarrow> dict \<Rightarrow> string" where
  "text_in e k d = (let v = json_or_null k d in if json_truthy v then py_strip (shown e v) else [])"

text \<open>\<open>casefold\<close> on the letters of the first 256 code points; the micro sign folds to a letter beyond them.\<close>

definition py_casefold :: "string \<Rightarrow> string" where
  "py_casefold s = concat (map (\<lambda>c. let n = (of_char c :: nat) in
     if n = 223 then ''ss'' else if 65 \<le> n \<and> n \<le> 90 \<or> 192 \<le> n \<and> n \<le> 222 \<and> n \<noteq> 215 then [char_of (n + 32)] else [c]) s)"

definition ends_with :: "string \<Rightarrow> string \<Rightarrow> bool" where
  "ends_with x s \<longleftrightarrow> length x \<le> length s \<and> drop (length s - length x) s = x"

text \<open>\<open>s.find(x)\<close>\<close>

fun find_text :: "string \<Rightarrow> string \<Rightarrow> nat option" where
  "find_text x [] = (if x = [] then Some 0 else None)"
| "find_text x (c # cs) = (if take (length x) (c # cs) = x then Some 0 else map_option Suc (find_text x cs))"

definition has_text :: "string \<Rightarrow> string \<Rightarrow> bool" where
  "has_text x s \<longleftrightarrow> find_text x s \<noteq> None"

section \<open>Hidden keys and identifiers\<close>

definition PROMPT_HIDDEN_KEYS :: "string list" where
  "PROMPT_HIDDEN_KEYS =
     [''id'', ''action_id'', ''api_key'', ''base_url'', ''character_id'', ''client_request_id'', ''debounce_key'',
      ''embedding_provider_id'', ''memory_chunk_id'', ''message_id'', ''memory_owner_user_id'', ''model_name'', ''output_name'',
      ''owner_user_id'', ''provider_id'', ''provider_kind'', ''sender_display_name'', ''sender_user_id'', ''source_cocoon_id'',
      ''source_message_id'', ''source_target_id'', ''superseded_by_task_id'', ''target_id'']"

definition PROMPT_PROVIDER_KEYWORDS :: "string list" where
  "PROMPT_PROVIDER_KEYWORDS = [''provider'', ''model'', ''key'', ''secret'', ''token'', ''url'', ''endpoint'']"

definition hidden_key :: "string \<Rightarrow> bool" where
  "hidden_key k \<longleftrightarrow>
     (let n = py_casefold k
      in k \<in> set PROMPT_HIDDEN_KEYS \<or> ends_with ''_id'' n \<or> ends_with ''_ids'' n \<or>
         list_ex (\<lambda>t. has_text t n) PROMPT_PROVIDER_KEYWORDS)"

definition looks_like_uuid :: "string \<Rightarrow> bool" where
  "looks_like_uuid v = hex_groups [8, 4, 4, 4, 12] (py_strip v)"

text \<open>A value that becomes \<open>None\<close> is left out of the list or dictionary it is in.\<close>

fun sanitize_prompt_value :: "json \<Rightarrow> json" where
  "sanitize_prompt_value (JObj kvs) =
     JObj (filter (\<lambda>(_, v). v \<noteq> JNull) (map (\<lambda>(k, v). (k, if hidden_key k then JNull else sanitize_prompt_value v)) kvs))"
| "sanitize_prompt_value (JList xs) = JList (filter (\<lambda>v. v \<noteq> JNull) (map sanitize_prompt_value xs))"
| "sanitize_prompt_value (JStr t) = (if looks_like_uuid t then JNull else JStr t)"
| "sanitize_prompt_value v = v"

definition sanitize_prompt_dict :: "dict \<Rightarrow> dict" where
  "sanitize_prompt_dict d =
     filter (\<lambda>(_, v). v \<noteq> JNull) (map (\<lambda>(k, v). (k, if hidden_key k then JNull else sanitize_prompt_value v)) d)"

fun harmless :: "json \<Rightarrow> bool" where
  "harmless (JObj kvs) = list_all (\<lambda>(k, v). \<not> hidden_key k \<and> v \<noteq> JNull \<and> harmless v) kvs"
| "harmless (JList xs) = list_all (\<lambda>v. v \<noteq> JNull \<and> harmless v) xs"
| "harmless (JStr t) = (\<not> looks_like_uuid t)"
| "harmless v = True"

lemma sanitize_obj: "sanitize_prompt_value (JObj d) = JObj (sanitize_prompt_dict d)"
  by (simp add: sanitize_prompt_dict_def)

lemma harmless_sanitized: "harmless (sanitize_prompt_value v)"
  by (induction v rule: sanitize_prompt_value.induct) (auto simp: list_all_iff)

lemma sanitize_harmless: "harmless v \<Longrightarrow> sanitize_prompt_value v = v"
proof (induction v rule: sanitize_prompt_value.induct)
  case (1 kvs)
  have "map (\<lambda>(k, v). (k, if hidden_key k then JNull else sanitize_prompt_value v)) kvs = kvs"
    by (rule map_idI) (use 1 in \<open>auto simp: list_all_iff\<close>)
  moreover have "filter (\<lambda>(_, v). v \<noteq> JNull) kvs = kvs" using 1(2) by (auto simp: filter_id_conv list_all_iff)
  ultimately show ?case by simp
next
  case (2 xs)
  have "map sanitize_prompt_value xs = xs" by (rule map_idI) (use 2 in \<open>auto simp: list_all_iff\<close>)
  moreover have "filter (\<lambda>v. v \<noteq> JNull) xs = xs" using 2(2) by (auto simp: filter_id_conv list_all_iff)
  ultimately show ?case by simp
qed simp_all

lemma harmless_dict: "harmless (JObj (sanitize_prompt_dict d))"
  by (metis harmless_sanitized sanitize_obj)

lemma harmless_entry: "kv \<in> set (sanitize_prompt_dict d) \<Longrightarrow> \<not> hidden_key (fst kv) \<and> harmless (snd kv)"
  using harmless_sanitized by (auto simp: sanitize_prompt_dict_def split: if_splits)

lemmas [simp] = harmless_sanitized harmless_dict

declare sanitize_prompt_value.simps [simp del] harmless.simps(1,2) [simp del]

lemma sanitized_keys: "set (dict_keys (sanitize_prompt_dict d)) \<subseteq> {k \<in> set (dict_keys d). \<not> hidden_key k}"
  by (force simp: sanitize_prompt_dict_def dict_keys_def split: if_splits)

section \<open>Tags\<close>

text \<open>\<open>catalog.get(ref) or {}\<close>\<close>

definition catalog_entry :: "(string \<times> dict) list \<Rightarrow> string \<Rightarrow> dict" where
  "catalog_entry catalog tag_ref = (case dict_get tag_ref catalog of None \<Rightarrow> [] | Some d \<Rightarrow> d)"

text \<open>A text that is not blank, without the space around it.\<close>

fun text_value :: "json \<Rightarrow> string option" where
  "text_value (JStr t) = (if py_strip t = [] then None else Some (py_strip t))"
| "text_value v = None"

definition text_at :: "dict \<Rightarrow> string \<Rightarrow> string option" where
  "text_at d k = text_value (json_or_null k d)"

definition resolve_tag_name :: "dict \<Rightarrow> string \<Rightarrow> string" where
  "resolve_tag_name payload tag_ref =
     (let named = (case json_or_null ''meta_json'' payload of
                     JObj d \<Rightarrow> List.find (\<lambda>x. x \<noteq> None) (map (text_at d) [''name'', ''title'', ''display_name'', ''label''])
                   | _ \<Rightarrow> None)
      in case named of
           Some (Some name) \<Rightarrow> name
         | _ \<Rightarrow> (case text_at payload ''tag_id'' of Some i \<Rightarrow> i | None \<Rightarrow> tag_ref))"

definition visibility_description :: "string \<Rightarrow> string" where
  "visibility_description v =
     (if v = ''public''
      then ''Visible across both private cocoons and group conversations, so it is generally safe to mention.''
      else if v = ''group_acl''
      then ''Visible in cocoons, and only visible in explicitly allowed chat-group conversations.''
      else if v = ''private''
      then ''Strictly private to its originating scope and should not be exposed or relied on outside that private boundary.''
      else ''Visibility is custom; treat it as a scoped tag and avoid mentioning it unless the current context clearly allows it.'')"

definition mentionable_for_target :: "string list \<Rightarrow> (string \<times> dict) list \<Rightarrow> bool" where
  "mentionable_for_target tag_refs catalog =
     list_all (\<lambda>r. json_or_null ''visible_in_target'' (catalog_entry catalog r) \<noteq> JBool False) tag_refs"

definition serialize_prompt_tag :: "view_env \<Rightarrow> (string \<times> dict) list \<Rightarrow> string \<Rightarrow> dict" where
  "serialize_prompt_tag e catalog tag_ref =
     (let payload = catalog_entry catalog tag_ref;
          v = json_or_null ''visibility'' payload; visibility = (if json_truthy v then shown e v else ''private'');
          brief = json_or_null ''brief'' payload
      in [(''name'', JStr (resolve_tag_name payload tag_ref)), (''brief'', if json_truthy brief then brief else JStr []),
          (''visibility'', JObj [(''label'', JStr (map (\<lambda>c. if c = CHR ''_'' then CHR '' '' else c) visibility)),
                                 (''description'', JStr (visibility_description visibility))]),
          (''is_isolated'', JBool (case dict_get ''is_isolated'' payload of
             None \<Rightarrow> visibility = ''private'' | Some b \<Rightarrow> json_truthy b)),
          (''mentionable_in_current_target'', JBool (mentionable_for_target [tag_ref] catalog))])"

definition serialize_tags :: "view_env \<Rightarrow> (string \<times> dict) list \<Rightarrow> string list \<Rightarrow> dict list" where
  "serialize_tags e catalog tag_refs = map (serialize_prompt_tag e catalog) tag_refs"

definition add_tag_name :: "(string \<times> dict) list \<Rightarrow> string list \<Rightarrow> string \<Rightarrow> string list" where
  "add_tag_name catalog names tag_ref =
     (let name = py_strip (resolve_tag_name (catalog_entry catalog tag_ref) tag_ref)
      in if name = [] \<or> name \<in> set names then names else names @ [name])"

definition serialize_tag_names :: "(string \<times> dict) list \<Rightarrow> string list \<Rightarrow> string list" where
  "serialize_tag_names catalog tag_refs = foldl (add_tag_name catalog) [] tag_refs"

text \<open>The names in the list of active tags of a snapshot.\<close>

fun tag_name_of :: "json \<Rightarrow> string option" where
  "tag_name_of (JObj d) = text_at d ''name''"
| "tag_name_of v = text_value v"

definition tag_names :: "json \<Rightarrow> string list" where
  "tag_names v = (case v of JList xs \<Rightarrow> List.map_filter tag_name_of xs | _ \<Rightarrow> [])"

section \<open>The clock\<close>

definition normalize_timezone_name :: "view_env \<Rightarrow> json \<Rightarrow> string option result" where
  "normalize_timezone_name e v =
     (case text_value v of
        None \<Rightarrow> Inr None
      | Some name \<Rightarrow> bind_r (vw_zone e name) (\<lambda>known. Inr (if known then Some name else None)))"

fun first_timezone :: "view_env \<Rightarrow> json list \<Rightarrow> string result" where
  "first_timezone e [] = Inr ''UTC''"
| "first_timezone e (v # vs) =
     bind_r (normalize_timezone_name e v) (\<lambda>z. case z of Some name \<Rightarrow> Inr name | None \<Rightarrow> first_timezone e vs)"

definition resolve_runtime_timezone :: "view_env \<Rightarrow> context_package \<Rightarrow> string result" where
  "resolve_runtime_timezone e cx =
     first_timezone e
       ([json_or_null ''timezone'' (re_payload (cx_event cx))] @
        (case cx_wakeup_context cx of None \<Rightarrow> [] | Some d \<Rightarrow> [json_or_null ''timezone'' d]) @
        [json_opt_str (cx_timezone_fallback cx)])"

text \<open>Local time to the second, and its offset as \<open>isoformat\<close> prints it.\<close>

definition offset_text :: "time \<Rightarrow> string" where
  "offset_text d =
     (let s = \<bar>d\<bar> div 1000000
      in (if d < 0 then ''-'' else ''+'') @ pad 2 (s div 3600) @ '':'' @ pad 2 (s div 60 mod 60) @
         (if s mod 60 = 0 then [] else '':'' @ pad 2 (s mod 60)))"

definition build_runtime_clock_payload :: "view_env \<Rightarrow> session \<Rightarrow> context_package \<Rightarrow> dict result" where
  "build_runtime_clock_payload e s cx =
     bind_r (resolve_runtime_timezone e cx) (\<lambda>zone.
     let local = vw_local e zone (utcnow s); iso = isoformat (local - local mod 1000000)
     in Inr [(''timezone'', JStr zone), (''local_time'', JStr (take 10 iso @ '' '' @ drop 11 iso)),
             (''local_time_iso'', JStr (iso @ offset_text (local - utcnow s)))])"

section \<open>Compact forms\<close>

text \<open>\<open>value in (None, "", [], {})\<close>, and the entries under some keys that are not.\<close>

definition blank_value :: "json \<Rightarrow> bool" where
  "blank_value v \<longleftrightarrow> v \<in> {JNull, JStr [], JList [], JObj []}"

definition pick_fields :: "string list \<Rightarrow> dict \<Rightarrow> dict" where
  "pick_fields ks d = filter (\<lambda>(_, v). \<not> blank_value v) (map (\<lambda>k. (k, json_or_null k d)) ks)"

fun dict_or_empty :: "json \<Rightarrow> dict" where
  "dict_or_empty (JObj d) = d"
| "dict_or_empty v = []"

definition compact_runtime_event_payload :: "json \<Rightarrow> dict" where
  "compact_runtime_event_payload v =
     pick_fields [''event_type'', ''target_type'', ''reason'', ''trigger_kind'', ''scheduled_by'', ''source_event_type'', ''timezone'']
       (dict_or_empty v)"

definition compact_wakeup_context_payload :: "json \<Rightarrow> dict" where
  "compact_wakeup_context_payload v =
     pick_fields [''reason'', ''trigger_kind'', ''scheduled_by'', ''source_event_type'', ''idle_summary'', ''silence_started_at'',
                  ''silence_deadline_at'', ''timezone''] (dict_or_empty v)"

definition compact_pending_wakeup_payload :: "json \<Rightarrow> dict list" where
  "compact_pending_wakeup_payload v =
     (case v of
        JList tasks \<Rightarrow>
          List.map_filter (\<lambda>t. case t of
            JObj d \<Rightarrow> Some (pick_fields [''id'', ''run_at'', ''reason'', ''status''] d) | _ \<Rightarrow> None) tasks
      | _ \<Rightarrow> [])"

end
