(* ===== verification/PromptContext.thy ===== *)
theory PromptContext
  imports PromptValues ChatRuntime
begin

text \<open>
  What a call of the language model is told (\<open>runtime/prompting/context.py\<close>): the variables of the templates, the summary of
  the situation, the messages with their speakers. The rows of character, session state and task are those of the
  session. Properties: what never reaches the templates, and how speakers are told apart.
\<close>

section \<open>Rows of the context\<close>

definition context_character :: "session \<Rightarrow> context_package \<Rightarrow> character_row option" where
  "context_character s cx = row_get ch_id (cx_character_id cx) (characters s)"

definition context_task :: "session \<Rightarrow> context_package \<Rightarrow> task_state_row option" where
  "context_task s cx = row_get_opt ts_id (cx_task_state_id cx) (task_states s)"

fun conversation_name :: "conversation \<Rightarrow> string" where
  "conversation_name (InCocoon c) = c_name c"
| "conversation_name (InRoom r) = rm_name r"

definition context_memories :: "context_package \<Rightarrow> memory_row list" where
  "context_memories cx = map h_memory (cx_memory_hits cx)"

definition job_status_text :: "job_status \<Rightarrow> string" where
  "job_status_text st =
     (case st of JobQueued \<Rightarrow> ''queued'' | JobRunning \<Rightarrow> ''running'' | JobCompleted \<Rightarrow> ''completed'' | JobFailed \<Rightarrow> ''failed''
      | JobCancelled \<Rightarrow> ''cancelled'')"

section \<open>The summary of the situation\<close>

text \<open>A line for an entry that is there, with its value.\<close>

definition line_for :: "view_env \<Rightarrow> string \<Rightarrow> string \<Rightarrow> dict \<Rightarrow> string list" where
  "line_for e label k d = (if dict_truthy k d then [label @ shown e (json_or_null k d)] else [])"

definition shown_or :: "view_env \<Rightarrow> string \<Rightarrow> string \<Rightarrow> dict \<Rightarrow> string" where
  "shown_or e dflt k d = (case dict_get k d of None \<Rightarrow> dflt | Some v \<Rightarrow> shown e v)"

definition wakeup_line :: "view_env \<Rightarrow> dict \<Rightarrow> string" where
  "wakeup_line e item =
     shown_or e ''unknown'' ''id'' item @ '' at '' @ shown_or e ''unknown'' ''run_at'' item @ '' ('' @ shown_or e ''no reason'' ''reason'' item @ '')''"

text \<open>The parts of the payload, each with its lines.\<close>

definition event_part :: "view_env \<Rightarrow> context_package \<Rightarrow> dict \<Rightarrow> dict \<Rightarrow> dict \<times> string list" where
  "event_part e cx clock_payload snapshot =
     (let ev0 = compact_runtime_event_payload (json_or_null ''runtime_event'' snapshot);
          ev = (if dict_get ''timezone'' ev0 = None then dict_set ''timezone'' (json_or_null ''timezone'' clock_payload) ev0 else ev0)
      in ([(''runtime_event'', JObj ev), (''current_time'', JObj clock_payload)],
          [''RUNTIME_CONTEXT_START'',
           ''Current local time: '' @ dict_str ''local_time'' clock_payload @ '' ('' @ dict_str ''timezone'' clock_payload @ '')'',
           ''Event: '' @ shown_or e ''unknown'' ''event_type'' ev @ '' -> '' @ shown_or e (event_target_type (cx_event cx)) ''target_type'' ev] @
          line_for e ''Event reason: '' ''reason'' ev @ line_for e ''Trigger kind: '' ''trigger_kind'' ev @
          line_for e ''Scheduled by: '' ''scheduled_by'' ev @ line_for e ''Source event type: '' ''source_event_type'' ev))"

definition wakeup_part :: "view_env \<Rightarrow> bool \<Rightarrow> dict \<Rightarrow> dict \<times> string list" where
  "wakeup_part e include snapshot =
     (let d = compact_wakeup_context_payload (json_or_null ''wakeup_context'' snapshot)
      in if \<not> include \<or> d = [] then ([], [])
         else ([(''wakeup_context'', JObj d)], line_for e ''Wakeup reason: '' ''reason'' d @ line_for e ''Wakeup summary: '' ''idle_summary'' d))"

definition pending_part :: "view_env \<Rightarrow> dict \<Rightarrow> dict \<times> string list" where
  "pending_part e snapshot =
     (let items = compact_pending_wakeup_payload (json_or_null ''pending_wakeups'' snapshot)
      in ([(''pending_wakeups'', JList (map JObj items))],
          [''Pending wakeups: '' @ (if items = [] then ''none'' else py_join ''; '' (map (wakeup_line e) items))]))"

definition facts_part :: "dict \<Rightarrow> dict \<times> string list" where
  "facts_part snapshot =
     (case json_or_null ''fact_cache'' snapshot of
        JList xs \<Rightarrow> ([(''fact_cache'', sanitize_prompt_value (JList xs))], [''Fact cache entries: '' @ int_str (int (length xs))])
      | _ \<Rightarrow> ([], []))"

definition or_shown :: "view_env \<Rightarrow> dict \<Rightarrow> string list \<Rightarrow> string \<Rightarrow> string" where
  "or_shown e d ks dflt = (case filter (\<lambda>k. dict_truthy k d) ks of [] \<Rightarrow> dflt | k # _ \<Rightarrow> shown e (json_or_null k d))"

definition task_part :: "view_env \<Rightarrow> dict \<Rightarrow> dict \<times> string list" where
  "task_part e snapshot =
     (let d = dict_or_empty (json_or_null ''task_state'' snapshot)
      in if d = [] then ([], [])
         else ([(''task_state'', sanitize_prompt_value (JObj d))],
               [''Task state: '' @ or_shown e d [''task_name''] ''active_task'' @ '' -> '' @ or_shown e d [''progress'', ''status''] ''active'']))"

definition profile_part :: "view_env \<Rightarrow> dict \<Rightarrow> dict \<times> string list" where
  "profile_part e snapshot =
     (let d = dict_or_empty (json_or_null ''memory_profile'' snapshot)
      in if d = [] then ([], [])
         else ([(''memory_profile'', sanitize_prompt_value (JObj d))], line_for e ''Memory mode: '' ''request_mode'' d))"

definition tag_index_text :: "view_env \<Rightarrow> json \<Rightarrow> string option" where
  "tag_index_text e v =
     (case v of JObj d \<Rightarrow> Some (shown e (json_or_null ''index'' d) @ ''='' @ shown e (json_or_null ''tag_id'' d)) | _ \<Rightarrow> None)"

definition state_part :: "view_env \<Rightarrow> bool \<Rightarrow> dict \<Rightarrow> dict \<times> string list" where
  "state_part e include snapshot =
     (if \<not> include then ([], [])
      else let d = dict_or_empty (json_or_null ''session_state'' snapshot);
               score = json_or_null ''relation_score'' d; persona = json_or_null ''persona'' d;
               names = tag_names (json_or_null ''active_tags'' d);
               catalog = (case json_or_null ''tag_catalog'' snapshot of JList xs \<Rightarrow> xs | _ \<Rightarrow> [])
           in ([(''session_state'',
                 JObj (filter (\<lambda>(_, v). \<not> blank_value v)
                   [(''relation_score'', score), (''persona'', persona), (''active_tags'', JList (map JStr names))]))],
               (if score \<noteq> JNull then [''Relation score: '' @ shown e score] else []) @
               (if json_truthy persona
                then [''Persona state: '' @ (case persona of JStr t \<Rightarrow> t | _ \<Rightarrow> shown e (sanitize_prompt_value persona))] else []) @
               [''Active tags: '' @ (if names = [] then ''none'' else py_join '', '' names)] @
               (if catalog = [] then [] else [''Allowed tag indexes: '' @ py_join ''; '' (List.map_filter (tag_index_text e) catalog)])))"

definition brief_part :: "string option \<Rightarrow> dict \<times> string list" where
  "brief_part brief =
     (if truthy brief then ([(''generation_brief'', JStr (str_of brief))], [''Generation focus: '' @ str_of brief]) else ([], []))"

definition build_structured_prompt_context ::
  "view_env \<Rightarrow> session \<Rightarrow> context_package \<Rightarrow> dict \<Rightarrow> bool \<Rightarrow> string option \<Rightarrow> bool \<Rightarrow> (dict \<times> string) result" where
  "build_structured_prompt_context e s cx snapshot include_state brief include_wakeup =
     bind_r (build_runtime_clock_payload e s cx) (\<lambda>clock_payload.
     let parts = [event_part e cx clock_payload snapshot, wakeup_part e include_wakeup snapshot, pending_part e snapshot,
                  facts_part snapshot, task_part e snapshot, profile_part e snapshot, state_part e include_state snapshot,
                  brief_part brief]
     in Inr (concat (map fst parts), py_join newline (concat (map snd parts) @ [''RUNTIME_CONTEXT_END''])))"

section \<open>The character and what came in from a platform\<close>

definition character_settings_payload :: "view_env \<Rightarrow> session \<Rightarrow> context_package \<Rightarrow> dict" where
  "character_settings_payload e s cx =
     (case context_character s cx of
        None \<Rightarrow> []
      | Some c \<Rightarrow>
          let d = ch_settings c; summary = py_strip (ch_prompt_summary c); personality = text_in e ''personality_prompt'' d
          in if summary \<noteq> [] \<and> summary \<noteq> personality then dict_set ''prompt_summary'' (JStr summary) d
             else if dict_get ''prompt_summary'' d \<noteq> None \<and> text_in e ''prompt_summary'' d = personality
             then AList.delete ''prompt_summary'' d
             else d)"

definition im_context_of :: "dict \<Rightarrow> dict" where
  "im_context_of metadata =
     pick_fields [''platform'', ''conversation_kind'', ''occurred_at''] metadata @
     (let nickname = json_or_null ''nickname''
            (dict_or_empty (json_or_null ''sender'' (dict_or_empty (json_or_null ''raw_payload'' metadata))))
      in if nickname \<in> {JNull, JStr []} then [] else [(''sender_nickname'', nickname)])"

definition im_route_context_of :: "view_env \<Rightarrow> dict \<Rightarrow> dict" where
  "im_route_context_of e metadata =
     pick_fields [''platform'', ''conversation_kind''] metadata @
     (case json_or_null ''tags'' metadata of
        JList xs \<Rightarrow>
          let names = filter (\<lambda>t. t \<noteq> []) (map (\<lambda>v. py_strip (shown e v)) xs)
          in if names = [] then [] else [(''tags'', JList (map JStr names))]
      | _ \<Rightarrow> [])"

definition compact_im_runtime_payload :: "view_env \<Rightarrow> dict \<Rightarrow> dict" where
  "compact_im_runtime_payload e payload =
     (let im = im_context_of (dict_or_empty (json_or_null ''im_metadata_json'' payload));
          route = im_route_context_of e (dict_or_empty (json_or_null ''im_route_metadata_json'' payload))
      in (if im = [] then [] else [(''im_context'', JObj im)]) @ (if route = [] then [] else [(''im_route_context'', JObj route)]))"

definition runtime_event_payload :: "view_env \<Rightarrow> context_package \<Rightarrow> dict" where
  "runtime_event_payload e cx =
     (let ev = cx_event cx;
          payload = AList.delete ''im_route_metadata_json'' (AList.delete ''im_metadata_json'' (sanitize_prompt_dict (re_payload ev)))
      in dict_merge (dict_merge [(''event_type'', JStr (re_event_type ev)), (''target_type'', JStr (event_target_type ev))] payload)
           (compact_im_runtime_payload e (re_payload ev)))"

section \<open>Speakers\<close>

definition participant_key :: "message_row \<Rightarrow> string option" where
  "participant_key m =
     (if truthy (m_sender_user_id m) then Some (''user:'' @ str_of (m_sender_user_id m))
      else if truthy (m_external_sender_id m) then Some (''external:'' @ str_of (m_external_sender_id m))
      else if truthy (m_external_sender_display_name m) then Some (''display:'' @ str_of (m_external_sender_display_name m))
      else None)"

text \<open>The labels so far, how often each display name occurred, and the number of the next participant without one.\<close>

type_synonym speakers = "(string \<times> string) list \<times> (string \<times> nat) list \<times> nat"

definition name_count :: "string \<Rightarrow> (string \<times> nat) list \<Rightarrow> nat" where
  "name_count name used = (case dict_get name used of None \<Rightarrow> 0 | Some n \<Rightarrow> n)"

definition speaker_label :: "string \<Rightarrow> nat \<Rightarrow> string" where
  "speaker_label name n = (if n > 1 then name @ '' ('' @ int_str (int n) @ '')'' else name)"

definition note_speaker :: "speakers \<Rightarrow> message_row \<Rightarrow> speakers" where
  "note_speaker st m =
     (case st of (participants, used, next_index) \<Rightarrow>
        case participant_key m of
          None \<Rightarrow> st
        | Some key \<Rightarrow>
            if m_role m \<noteq> ''user'' \<or> dict_get key participants \<noteq> None then st
            else let name = py_strip (or_else (m_external_sender_display_name m) [])
                 in if name \<noteq> []
                    then let n = name_count name used + 1
                         in (participants @ [(key, speaker_label name n)], dict_set name n used, next_index)
                    else (participants @ [(key, ''participant_'' @ int_str (int next_index))], used, next_index + 1))"

definition speakers_of :: "message_row list \<Rightarrow> speakers" where
  "speakers_of ms = foldl note_speaker ([], [], 1) ms"

definition participant_alias :: "context_package \<Rightarrow> message_row \<Rightarrow> string option" where
  "participant_alias cx m =
     (case participant_key m of
        None \<Rightarrow> None
      | Some key \<Rightarrow>
          if event_target_type (cx_event cx) = ''cocoon'' then Some ''you''
          else case dict_get key (fst (speakers_of (cx_visible_messages cx))) of
                 Some label \<Rightarrow> Some label | None \<Rightarrow> Some ''participant'')"

section \<open>Messages and memories\<close>

definition thought_event_summary :: "message_row \<Rightarrow> string option" where
  "thought_event_summary m =
     (if \<not> m_is_thought m then None
      else let t = py_strip (str_of (m_retraction_note m)) in if t = [] then None else Some t)"

definition message_prompt_content :: "message_row \<Rightarrow> string" where
  "message_prompt_content m = (case thought_event_summary m of Some t \<Rightarrow> t | None \<Rightarrow> m_content m)"

definition retracted_suffix :: string where
  "retracted_suffix = newline @ newline @ ''[system note: this message was later retracted]''"

definition runtime_message_payload :: "context_package \<Rightarrow> message_row \<Rightarrow> dict" where
  "runtime_message_payload cx m =
     (let catalog = cx_tag_catalog_by_ref cx; alias = participant_alias cx m
      in [(''role'', JStr (m_role m)),
          (''content'', JStr (message_prompt_content m @ (if m_is_retracted m then retracted_suffix else []))),
          (''is_thought'', JBool (m_is_thought m)), (''is_retracted'', JBool (m_is_retracted m)),
          (''tags'', JList (map JStr (serialize_tag_names catalog (m_tags m)))),
          (''mentionable_in_current_target'', JBool (mentionable_for_target (m_tags m) catalog))] @
         (case thought_event_summary m of Some t \<Rightarrow> [(''event_summary'', JStr t)] | None \<Rightarrow> []) @
         (if truthy alias then [(''speaker'', JStr (str_of alias))] else []))"

definition runtime_memory_payload :: "context_package \<Rightarrow> memory_row \<Rightarrow> dict" where
  "runtime_memory_payload cx m =
     (let catalog = cx_tag_catalog_by_ref cx
      in [(''id'', JStr (mem_id m)), (''memory_pool'', JStr (mem_memory_pool m)), (''memory_type'', JStr (mem_memory_type m)),
          (''scope'', JStr (mem_scope m)), (''summary'', json_opt_str (mem_summary m)), (''content'', JStr (mem_content m)),
          (''importance'', JInt (mem_importance m)), (''confidence'', JInt (mem_confidence m)), (''status'', JStr (mem_status m)),
          (''tags'', JList (map JStr (serialize_tag_names catalog (mem_tags m)))),
          (''mentionable_in_current_target'', JBool (mentionable_for_target (mem_tags m) catalog)),
          (''source'', JStr (if truthy (mem_chat_group_id m) then ''chat_group'' else ''cocoon''))])"

definition merge_context_payload :: "context_package \<Rightarrow> json" where
  "merge_context_payload cx =
     (case cx_source cx of
        None \<Rightarrow> JNull
      | Some x \<Rightarrow>
          if re_event_type (cx_event cx) \<noteq> ''merge'' then JNull
          else let refs = (case xs_state x of None \<Rightarrow> [] | Some st \<Rightarrow> st_active_tags st)
               in JObj (dict_set ''source_state''
                    (JObj [(''relation_score'', JInt (case xs_state x of None \<Rightarrow> 0 | Some st \<Rightarrow> st_relation_score st)),
                           (''persona_json'', sanitize_prompt_value (JObj (case xs_state x of None \<Rightarrow> [] | Some st \<Rightarrow> st_persona st))),
                           (''active_tags'', JList (map JStr (serialize_tag_names (cx_tag_catalog_by_ref cx) refs)))])
                    (sanitize_prompt_dict (merge_context x))))"

definition prompt_tag_catalog :: "context_package \<Rightarrow> dict list" where
  "prompt_tag_catalog cx =
     map (\<lambda>c. [(''index'', JInt (int (ci_index c))), (''tag_id'', JStr (ci_tag_id c)), (''brief'', JStr (ci_brief c))])
       (cx_prompt_tag_catalog cx)"

definition pending_wakeup_payload :: "wakeup_row \<Rightarrow> dict" where
  "pending_wakeup_payload w =
     [(''id'', JStr (w_id w)), (''run_at'', JStr (isoformat (w_run_at w))), (''reason'', json_opt_str (w_reason w)),
      (''status'', JStr (job_status_text (w_status w))), (''has_payload'', JBool (w_payload w \<noteq> []))] @
     (case w_cancelled_at w of None \<Rightarrow> [] | Some t \<Rightarrow> [(''cancelled_at'', JStr (isoformat t))])"

definition build_provider_message_payload :: "context_package \<Rightarrow> message_row \<Rightarrow> string \<times> string" where
  "build_provider_message_payload cx m =
     (let role = (if m_is_thought m then ''system'' else m_role m);
          content = (if \<not> m_is_thought m then message_prompt_content m
                     else case thought_event_summary m of
                            Some t \<Rightarrow> ''[assistant_event_summary] '' @ t
                          | None \<Rightarrow> ''[assistant_thought] '' @ message_prompt_content m);
          alias = participant_alias cx m;
          spoken = (if m_role m = ''user'' \<and> truthy alias then ''[speaker:'' @ str_of alias @ ''] '' @ content else content)
      in (role, if m_is_retracted m then spoken @ retracted_suffix else spoken))"

section \<open>The variables of the templates\<close>

definition session_state_payload :: "session \<Rightarrow> context_package \<Rightarrow> dict" where
  "session_state_payload s cx =
     (case state_of s cx of
        None \<Rightarrow> []
      | Some st \<Rightarrow>
          [(''relation_score'', JInt (st_relation_score st)), (''persona'', JObj (st_persona st)),
           (''active_tags'', JList (map JStr (serialize_tag_names (cx_tag_catalog_by_ref cx) (st_active_tags st))))])"

definition fact_payload :: "fact_row \<Rightarrow> dict" where
  "fact_payload f =
     [(''cache_key'', JStr (f_cache_key f)), (''summary'', json_opt_str (f_summary f)), (''content'', JStr (f_content f)),
      (''valid_until'', json_opt_str (map_option isoformat (f_valid_until f)))]"

definition task_state_payload :: "session \<Rightarrow> context_package \<Rightarrow> json" where
  "task_state_payload s cx =
     (case context_task s cx of
        None \<Rightarrow> JNull
      | Some t \<Rightarrow>
          JObj [(''task_name'', json_opt_str (ts_task_name t)), (''goal'', json_opt_str (ts_goal t)),
                (''progress'', json_opt_str (ts_progress t)), (''status'', JStr (ts_status t)),
                (''meta_json'', sanitize_prompt_value (JObj (ts_meta t)))])"

definition build_runtime_prompt_variables ::
  "view_env \<Rightarrow> session \<Rightarrow> context_package \<Rightarrow> dict \<Rightarrow> bool \<Rightarrow> dict result" where
  "build_runtime_prompt_variables e s cx capabilities include_wakeup =
     bind_r (build_runtime_clock_payload e s cx) (\<lambda>clock_payload. Inr
      [(''character_settings'', JObj (character_settings_payload e s cx)),
       (''conversation_target'', JObj [(''type'', JStr (event_target_type (cx_event cx))), (''name'', JStr (conversation_name (cx_conversation cx)))]),
       (''session_state'', JObj (session_state_payload s cx)),
       (''tag_catalog'', JList (map JObj (prompt_tag_catalog cx))),
       (''visible_messages'', JList (map (\<lambda>m. JObj (runtime_message_payload cx m)) (cx_visible_messages cx))),
       (''memory_context'', JList (map (\<lambda>m. JObj (runtime_memory_payload cx m)) (context_memories cx))),
       (''fact_cache'', JList (map (\<lambda>f. JObj (fact_payload f)) (cx_fact_entries cx))),
       (''task_state'', task_state_payload s cx),
       (''memory_profile'', sanitize_prompt_value (JObj (cx_memory_profile cx))),
       (''runtime_event'', JObj (runtime_event_payload e cx)),
       (''current_time'', JObj clock_payload),
       (''wakeup_context'',
          case cx_wakeup_context cx of Some d \<Rightarrow> if include_wakeup then sanitize_prompt_value (JObj d) else JNull | None \<Rightarrow> JNull),
       (''pending_wakeups'', JList (map (\<lambda>w. JObj (pending_wakeup_payload w)) (cx_pending_wakeups cx))),
       (''merge_context'', merge_context_payload cx),
       (''provider_capabilities'', JObj (sanitize_prompt_dict capabilities))])"

section \<open>What reaches the templates\<close>

lemma set_dict_set_subset: "set (dict_set k v d) \<subseteq> insert (k, v) (set d)"
  unfolding dict_set_def by (induction d) auto

lemma set_dict_merge_subset: "set (dict_merge a b) \<subseteq> set a \<union> set b"
proof (induction a b rule: dict_merge.induct)
  case (2 a k v b)
  then show ?case using set_dict_set_subset [of k v a] by auto
qed simp

lemma set_delete_subset: "set (AList.delete k d) \<subseteq> set d"
  by (auto simp: AList.delete_eq)

definition event_entry_ok :: "string \<times> json \<Rightarrow> bool" where
  "event_entry_ok kv \<longleftrightarrow>
     fst kv \<in> {''event_type'', ''target_type'', ''im_context'', ''im_route_context''} \<or> \<not> hidden_key (fst kv) \<and> harmless (snd kv)"

lemma im_payload_keys: "kv \<in> set (compact_im_runtime_payload e d) \<Longrightarrow> fst kv \<in> {''im_context'', ''im_route_context''}"
  unfolding compact_im_runtime_payload_def Let_def by (cases kv) (simp split: if_splits; blast)

lemma set_dict_merge2: "set (dict_merge (dict_merge a b) c) \<subseteq> set a \<union> set b \<union> set c"
  using set_dict_merge_subset [of "dict_merge a b" c] set_dict_merge_subset [of a b] by blast

lemma runtime_event_entries: "list_all event_entry_ok (runtime_event_payload e cx)"
proof -
  let ?p = "sanitize_prompt_dict (re_payload (cx_event cx))"
  have "event_entry_ok kv" if "kv \<in> set (AList.delete ''im_route_metadata_json'' (AList.delete ''im_metadata_json'' ?p))" for kv
  proof -
    have "kv \<in> set ?p" using that set_delete_subset [THEN subsetD] by metis
    from harmless_entry [OF this] show ?thesis by (simp add: event_entry_ok_def)
  qed
  moreover have "event_entry_ok kv" if "kv \<in> set (compact_im_runtime_payload e (re_payload (cx_event cx)))" for kv
    using im_payload_keys [OF that] by (auto simp: event_entry_ok_def)
  moreover have "event_entry_ok kv" if "kv \<in> set [(''event_type'', x), (''target_type'', y)]" for kv x y
    using that by (auto simp: event_entry_ok_def)
  ultimately show ?thesis
    unfolding runtime_event_payload_def Let_def list_all_iff by (blast dest: subsetD [OF set_dict_merge2])
qed

lemma part_keys:
  "kv \<in> set (fst (event_part e cx c snapshot)) \<Longrightarrow> fst kv \<in> {''runtime_event'', ''current_time''}"
  "kv \<in> set (fst (wakeup_part e wk snapshot)) \<Longrightarrow> fst kv = ''wakeup_context''"
  "kv \<in> set (fst (pending_part e snapshot)) \<Longrightarrow> fst kv = ''pending_wakeups''"
  "kv \<in> set (fst (state_part e st snapshot)) \<Longrightarrow> fst kv = ''session_state''"
  "kv \<in> set (fst (brief_part brief)) \<Longrightarrow> fst kv = ''generation_brief''"
  "kv \<in> set (fst (facts_part snapshot)) \<Longrightarrow> harmless (snd kv)"
  "kv \<in> set (fst (task_part e snapshot)) \<Longrightarrow> harmless (snd kv)"
  "kv \<in> set (fst (profile_part e snapshot)) \<Longrightarrow> harmless (snd kv)"
  unfolding event_part_def wakeup_part_def pending_part_def state_part_def brief_part_def facts_part_def task_part_def profile_part_def Let_def
  by (auto split: if_splits json.splits)

lemma parts_harmless:
  assumes "build_structured_prompt_context e s cx snapshot st brief wk = Inr (payload, t)"
    and "fst kv \<in> {''fact_cache'', ''task_state'', ''memory_profile''}" "kv \<in> set payload"
  shows "harmless (snd kv)"
proof -
  obtain c where "payload = fst (event_part e cx c snapshot) @ fst (wakeup_part e wk snapshot) @ fst (pending_part e snapshot) @
      fst (facts_part snapshot) @ fst (task_part e snapshot) @ fst (profile_part e snapshot) @ fst (state_part e st snapshot) @
      fst (brief_part brief)"
    using assms(1) unfolding build_structured_prompt_context_def Let_def by (auto elim!: bind_rE)
  with assms(3) show ?thesis using part_keys [of kv] assms(2) by fastforce
qed


definition sample_view :: view_env where
  "sample_view = \<lparr>vw_text = (\<lambda>_. ''?''), vw_zone = (\<lambda>z. Inr (z = ''UTC'')), vw_local = (\<lambda>_ t. t)\<rparr>"

definition sample_context :: "id option \<Rightarrow> message_row list \<Rightarrow> context_package" where
  "sample_context room ms =
     \<lparr>cx_event = \<lparr>re_event_type = ''chat'', re_cocoon_id = Some ''a'', re_chat_group_id = room, re_action_id = ''e'',
        re_payload = [(''timezone'', JStr ''Mars''), (''message_id'', JStr ''m''), (''reason'', JStr ''hello'')]\<rparr>,
      cx_conversation = InCocoon (sample_cocoon ''a'' None ''u1''), cx_character_id = ''ch'', cx_state_id = ''st'', cx_task_state_id = None,
      cx_visible_messages = ms, cx_memory_hits = [],
      cx_memory_profile = [(''api_key'', JStr ''s''), (''request_mode'', JStr ''meta_reply''), (''refs'', JList [JStr ''12345678-1234-1234-1234-123456789012''])],
      cx_memory_owner_user_id = None, cx_fact_entries = [], cx_wakeup_context = None, cx_source = None,
      cx_timezone_fallback = Some ''UTC'', cx_pending_wakeups = [], cx_tag_catalog_by_ref = [], cx_prompt_tag_catalog = [],
      cx_prompt_catalog = []\<rparr>"

lemma sample_profile: "sanitize_prompt_dict (cx_memory_profile (sample_context None [])) = [(''request_mode'', JStr ''meta_reply''), (''refs'', JList [])]"
  by code_simp


section \<open>Telling speakers apart\<close>

text \<open>A display name that does not look like a label that the code makes up.\<close>

definition plain_name :: "string \<Rightarrow> bool" where
  "plain_name t \<longleftrightarrow> t = [] \<or> last t \<noteq> CHR '')'' \<and> take 12 t \<noteq> ''participant_''"

lemma nat_digits_digits: "list_all is_digit (nat_digits n)"
proof (induction n rule: nat_digits.induct)
  case (1 n)
  have "is_digit (char_of (48 + m))" if "m < 10" for m :: nat using that by (simp add: is_digit_def)
  with 1 show ?case by (subst nat_digits.simps) simp
qed

lemma nat_digits_value: "foldl (\<lambda>a c. a * 10 + (of_char c - 48)) 0 (nat_digits n) = n"
proof (induction n rule: nat_digits.induct)
  case (1 n)
  then show ?case by (subst nat_digits.simps) simp
qed

lemma nat_digits_inj: "nat_digits m = nat_digits n \<Longrightarrow> m = n"
  by (metis nat_digits_value)

lemma nat_digits_nonempty: "nat_digits n \<noteq> []"
  by (subst nat_digits.simps) simp

lemma int_str_nat [simp]: "int_str (int n) = nat_digits n"
  by (simp add: int_str_def)

lemma speaker_label_last: "1 < n \<Longrightarrow> last (speaker_label a n) = CHR '')''"
  by (simp add: speaker_label_def)

lemma speaker_label_inj:
  assumes "plain_name a" "plain_name b" "a \<noteq> []" "b \<noteq> []" "1 \<le> m" "1 \<le> n" "speaker_label a m = speaker_label b n"
  shows "a = b \<and> m = n"
proof (cases "m = 1 \<or> n = 1")
  case True
  then show ?thesis
    using assms speaker_label_last [of n b] speaker_label_last [of m a] by (auto simp: speaker_label_def plain_name_def split: if_splits)
next
  case False
  let ?w = "\<lambda>x k. rev (nat_digits k) @ CHR ''('' # CHR '' '' # rev x"
  have "?w a m = ?w b n"
    using assms(5-7) False by (simp add: speaker_label_def flip: rev_append) (metis rev_append rev_rev_ident append.assoc append_Cons append_Nil rev.simps)
  moreover have "takeWhile is_digit (?w x k) = rev (nat_digits k)" for x k
    using nat_digits_digits [of k] by (subst takeWhile_append2) (auto simp: list_all_iff is_digit_def)
  ultimately have "nat_digits m = nat_digits n" by (metis rev_is_rev_conv)
  with \<open>?w a m = ?w b n\<close> show ?thesis using nat_digits_inj by simp
qed

lemma participant_not_speaker:
  assumes "plain_name a" "a \<noteq> []" shows "speaker_label a n \<noteq> ''participant_'' @ nat_digits j"
proof (cases "1 < n")
  case True
  have "is_digit (last (nat_digits j))" using nat_digits_digits [of j] nat_digits_nonempty [of j] by (simp add: list_all_iff)
  then have "last (''participant_'' @ nat_digits j) \<noteq> CHR '')''" using nat_digits_nonempty by (auto simp: is_digit_def)
  with speaker_label_last [OF True] show ?thesis by metis
next
  case False
  then show ?thesis using assms by (auto simp: speaker_label_def plain_name_def)
qed

text \<open>What is known of the labels given so far.\<close>

definition label_given :: "(string \<times> nat) list \<Rightarrow> nat \<Rightarrow> string \<Rightarrow> bool" where
  "label_given used i l \<longleftrightarrow>
     (\<exists>name n. plain_name name \<and> name \<noteq> [] \<and> 1 \<le> n \<and> n \<le> name_count name used \<and> l = speaker_label name n) \<or>
     (\<exists>j<i. l = ''participant_'' @ nat_digits j)"

definition speakers_inv :: "speakers \<Rightarrow> bool" where
  "speakers_inv st \<longleftrightarrow>
     (case st of (ps, used, i) \<Rightarrow> distinct (map fst ps) \<and> distinct (map snd ps) \<and> (\<forall>l\<in>set (map snd ps). label_given used i l))"

lemma name_count_set [simp]: "name_count x (dict_set y n used) = (if x = y then n else name_count x used)"
  by (simp add: name_count_def)

lemma label_given_mono:
  assumes "label_given used i l" "\<And>x. name_count x used \<le> name_count x used'" "i \<le> i'" shows "label_given used' i' l"
  using assms(1) unfolding label_given_def
proof (elim disjE exE conjE)
  fix name n assume "plain_name name" "name \<noteq> []" "1 \<le> n" "n \<le> name_count name used" "l = speaker_label name n"
  moreover have "n \<le> name_count name used'" using calculation(4) assms(2) by (rule order.trans)
  ultimately show "(\<exists>name n. plain_name name \<and> name \<noteq> [] \<and> 1 \<le> n \<and> n \<le> name_count name used' \<and> l = speaker_label name n) \<or>
      (\<exists>j<i'. l = ''participant_'' @ nat_digits j)" by blast
next
  fix j assume "j < i" "l = ''participant_'' @ nat_digits j"
  with assms(3) show "(\<exists>name n. plain_name name \<and> name \<noteq> [] \<and> 1 \<le> n \<and> n \<le> name_count name used' \<and> l = speaker_label name n) \<or>
      (\<exists>j<i'. l = ''participant_'' @ nat_digits j)" by (intro disjI2 exI [of _ j]) simp
qed

lemma label_fresh_name:
  assumes "label_given used i l" "plain_name name" "name \<noteq> []"
  shows "l \<noteq> speaker_label name (name_count name used + 1)"
proof
  assume l: "l = speaker_label name (name_count name used + 1)"
  from assms(1) show False unfolding label_given_def
  proof
    assume "\<exists>name n. plain_name name \<and> name \<noteq> [] \<and> 1 \<le> n \<and> n \<le> name_count name used \<and> l = speaker_label name n"
    then obtain x n where x: "plain_name x" "x \<noteq> []" "1 \<le> n" "n \<le> name_count x used" "l = speaker_label x n" by blast
    have "x = name \<and> n = name_count name used + 1"
      by (rule speaker_label_inj [OF x(1) assms(2) x(2) assms(3) x(3)]) (use l x(5) in simp_all)
    with x(4) show False by simp
  next
    assume "\<exists>j<i. l = ''participant_'' @ nat_digits j"
    with l participant_not_speaker [OF assms(2,3)] show False by blast
  qed
qed

lemma label_fresh_index:
  assumes "label_given used i l" shows "l \<noteq> ''participant_'' @ nat_digits i"
  using assms unfolding label_given_def by (metis participant_not_speaker nat_digits_inj same_append_eq less_irrefl)

lemma note_speaker_inv:
  assumes "speakers_inv st" "plain_name (py_strip (or_else (m_external_sender_display_name m) []))"
  shows "speakers_inv (note_speaker st m)"
proof -
  obtain ps used i where st: "st = (ps, used, i)" by (metis surj_pair)
  have inv: "distinct (map fst ps)" "distinct (map snd ps)" "\<And>l. l \<in> set (map snd ps) \<Longrightarrow> label_given used i l"
    using assms(1) by (auto simp: speakers_inv_def st)
  let ?name = "py_strip (or_else (m_external_sender_display_name m) [])"
  show ?thesis
  proof (cases "\<exists>key. participant_key m = Some key \<and> m_role m = ''user'' \<and> dict_get key ps = None")
    case False
    then have "note_speaker st m = st" by (auto simp: note_speaker_def st split: option.split)
    with assms(1) show ?thesis by simp
  next
    case True
    then obtain key where k: "participant_key m = Some key" "m_role m = ''user''" "dict_get key ps = None" by blast
    have new: "key \<notin> set (map fst ps)" using k(3) by (simp add: dict_get_def map_of_eq_None_iff)
    show ?thesis
    proof (cases "?name = []")
      case True
      then have s: "note_speaker st m = (ps @ [(key, ''participant_'' @ nat_digits i)], used, i + 1)"
        using k by (simp add: note_speaker_def st)
      have "''participant_'' @ nat_digits i \<notin> set (map snd ps)" using inv(3) label_fresh_index by blast
      moreover have "label_given used (i + 1) l" if "l \<in> set (map snd ps)" for l
        by (rule label_given_mono [OF inv(3) [OF that]]) simp_all
      moreover have "label_given used (i + 1) (''participant_'' @ nat_digits i)" by (auto simp: label_given_def)
      ultimately show ?thesis using inv(1,2) new unfolding s speakers_inv_def by auto
    next
      case False
      let ?n = "name_count ?name used + 1"
      have s: "note_speaker st m = (ps @ [(key, speaker_label ?name ?n)], dict_set ?name ?n used, i)"
        using k False by (simp add: note_speaker_def st Let_def)
      have "speaker_label ?name ?n \<notin> set (map snd ps)" using inv(3) label_fresh_name [OF _ assms(2) False] by blast
      moreover have "label_given (dict_set ?name ?n used) i l" if "l \<in> set (map snd ps)" for l
        by (rule label_given_mono [OF inv(3) [OF that]]) simp_all
      moreover have "label_given (dict_set ?name ?n used) i (speaker_label ?name ?n)"
        unfolding label_given_def using assms(2) False by (intro disjI1 exI [of _ ?name] exI [of _ ?n]) simp
      ultimately show ?thesis using inv(1,2) new unfolding s speakers_inv_def by auto
    qed
  qed
qed

lemma speakers_fold:
  "speakers_inv st \<Longrightarrow> list_all (\<lambda>m. plain_name (py_strip (or_else (m_external_sender_display_name m) []))) ms \<Longrightarrow>
   speakers_inv (foldl note_speaker st ms)"
  by (induction ms arbitrary: st) (simp_all add: note_speaker_inv del: split_paired_All)

lemma note_speaker_keys: "set (map fst (fst st)) \<subseteq> set (map fst (fst (note_speaker st m)))"
  by (cases st) (auto simp: note_speaker_def Let_def split: option.split)

lemma note_speaker_has:
  "participant_key m = Some key \<Longrightarrow> m_role m = ''user'' \<Longrightarrow> key \<in> set (map fst (fst (note_speaker st m)))"
  by (cases st) (auto simp: note_speaker_def Let_def dict_get_def map_of_eq_None_iff split: option.split dest: map_of_SomeD)

lemma speakers_fold_keys: "set (map fst (fst st)) \<subseteq> set (map fst (fst (foldl note_speaker st ms)))"
proof (induction ms arbitrary: st)
  case (Cons m ms)
  show ?case using Cons.IH [of "note_speaker st m"] note_speaker_keys [of st m] by auto
qed simp

lemma speakers_have:
  assumes "m \<in> set ms" "m_role m = ''user''" "participant_key m = Some key"
  shows "key \<in> set (map fst (fst (foldl note_speaker st ms)))"
  using assms(1)
proof (induction ms arbitrary: st)
  case (Cons x ms)
  show ?case
  proof (cases "m = x")
    case True
    have "key \<in> set (map fst (fst (note_speaker st m)))" by (rule note_speaker_has [OF assms(3,2)])
    then show ?thesis using speakers_fold_keys [of "note_speaker st m" ms] unfolding True by (simp add: subset_iff)
  qed (use Cons in auto)
qed simp

text \<open>
  C28. In a chat group the model can tell the speakers apart: as long as no display name looks like a label that the code
  makes up, two messages of users carry the same speaker exactly when they come from the same participant.
\<close>

theorem speakers_told_apart:
  assumes "event_target_type (cx_event cx) = ''chat_group''"
    and "list_all (\<lambda>m. plain_name (py_strip (or_else (m_external_sender_display_name m) []))) (cx_visible_messages cx)"
    and "m1 \<in> set (cx_visible_messages cx)" "m_role m1 = ''user''" "participant_key m1 \<noteq> None"
    and "m2 \<in> set (cx_visible_messages cx)" "m_role m2 = ''user''" "participant_key m2 \<noteq> None"
  shows "participant_alias cx m1 = participant_alias cx m2 \<longleftrightarrow> participant_key m1 = participant_key m2"
proof -
  let ?ps = "fst (speakers_of (cx_visible_messages cx))"
  obtain k1 k2 where k: "participant_key m1 = Some k1" "participant_key m2 = Some k2" using assms(5,8) by blast
  have "speakers_inv (speakers_of (cx_visible_messages cx))"
    unfolding speakers_of_def by (rule speakers_fold [OF _ assms(2)]) (simp add: speakers_inv_def)
  then have inv: "distinct (map fst ?ps)" "distinct (map snd ?ps)"
    by (auto simp: speakers_inv_def split: prod.splits)
  have "k1 \<in> set (map fst ?ps)" "k2 \<in> set (map fst ?ps)"
    unfolding speakers_of_def using speakers_have assms k by blast+
  then obtain l1 l2 where l: "(k1, l1) \<in> set ?ps" "(k2, l2) \<in> set ?ps" by auto
  then have a: "participant_alias cx m1 = Some l1" "participant_alias cx m2 = Some l2"
    using k assms(1) inv(1) by (simp_all add: participant_alias_def dict_get_def map_of_is_SomeI)
  have "k1 = k2" if "l1 = l2" using l that inv(2) by (metis distinct_map inj_on_eq_iff fst_conv snd_conv)
  moreover have "l1 = l2" if "k1 = k2" using l that inv(1) by (metis map_of_is_SomeI option.inject)
  ultimately show ?thesis using a k by auto
qed

definition sample_speech :: "id \<Rightarrow> string \<Rightarrow> string \<Rightarrow> message_row" where
  "sample_speech i sender name =
     (sample_message i ''user'' 1)\<lparr>m_sender_user_id := None, m_external_sender_id := Some sender, m_external_sender_display_name := Some name\<rparr>"

lemma sample_speakers:
  "fst (speakers_of [sample_speech ''1'' ''7'' ''Ann'', sample_speech ''2'' ''8'' '' Ann'', sample_speech ''3'' ''9'' '' '', sample_speech ''4'' ''7'' ''Bob'']) =
     [(''external:7'', ''Ann''), (''external:8'', ''Ann (2)''), (''external:9'', ''participant_1'')]"
  by code_simp

theorem speakers_told_apart_witness:
  "participant_alias (sample_context (Some ''g'') [sample_speech ''1'' ''7'' ''Ann'', sample_speech ''2'' ''8'' ''Ann'']) (sample_speech ''1'' ''7'' ''Ann'') \<noteq>
   participant_alias (sample_context (Some ''g'') [sample_speech ''1'' ''7'' ''Ann'', sample_speech ''2'' ''8'' ''Ann'']) (sample_speech ''2'' ''8'' ''Ann'')"
  by (subst speakers_told_apart)
     (simp_all add: sample_context_def sample_speech_def sample_message_def event_target_type_def plain_name_def py_strip_def py_isspace_def
       participant_key_def)

text \<open>A display name that looks like a label is mistaken for it: three participants share two labels.\<close>

lemma made_up_labels_collide:
  "map snd (fst (speakers_of [sample_speech ''1'' ''7'' ''Ann'', sample_speech ''2'' ''8'' ''Ann'', sample_speech ''3'' ''9'' ''Ann (2)''])) =
     [''Ann'', ''Ann (2)'', ''Ann (2)'']"
  by code_simp

end
