(* ===== verification/ModelCall.thy ===== *)
theory ModelCall
  imports ModelOutput PromptContext Providers
begin

text \<open>
  A call of the language model: the prompt stack (\<open>runtime/generation/prompt_assembly_service.py\<close>), the record of what was
  rendered (\<open>runtime/prompting/artifacts.py\<close>), and the structured call (\<open>runtime/structured_output.py\<close>,
  \<open>providers/openai_compatible.py\<close>). LangChain and the mock provider are arguments.
\<close>

section \<open>The structured call\<close>

record llm_request =
  lq_prompt :: string
  lq_messages :: "(string \<times> string) list"
  lq_model_name :: string
  lq_config :: dict
  lq_output_name :: string

record llm_response =
  lr_text :: string
  lr_parsed :: dict
  lr_raw :: dict
  lr_prompt_tokens :: int
  lr_completion_tokens :: int
  lr_total_tokens :: int

text \<open>
  What LangChain is given and what it answers: an instance of the model (as its dump), a dictionary or nothing, the raw
  message, and the text of a parsing error. A message is a class and a content.
\<close>

datatype parsed_answer = ParsedModel dict | ParsedDict dict | NotParsed

record raw_message =
  ra_content :: json
  ra_additional_kwargs :: json
  ra_response_metadata :: json
  ra_usage_metadata :: json

record chain_call =
  cl_model :: string
  cl_api_key :: json
  cl_base_url :: string
  cl_timeout :: rat
  cl_kwargs :: dict
  cl_method :: string
  cl_output_name :: string
  cl_messages :: "(string \<times> string) list"

record chain_answer =
  cw_parsed :: parsed_answer
  cw_raw :: "raw_message option"
  cw_error :: "string option"

record chain_env =
  cn_float :: "json \<Rightarrow> rat result"
  cn_invoke :: "chain_call \<Rightarrow> chain_answer result"
  cn_json :: "json \<Rightarrow> string"

definition ALLOWED_STRUCTURED_OUTPUT_METHODS :: "string list" where
  "ALLOWED_STRUCTURED_OUTPUT_METHODS = [''json_schema'', ''tool_calling'']"

definition resolve_structured_output_method :: "view_env \<Rightarrow> dict \<Rightarrow> string result" where
  "resolve_structured_output_method e config =
     (let way = py_strip (shown e (or_json (dict_get ''structured_output_method'' config) (JStr ''tool_calling'')))
      in if way \<in> set ALLOWED_STRUCTURED_OUTPUT_METHODS then Inr way
         else Inl (ValueError (''structured_output_method must be one of: '' @ py_join '', '' ALLOWED_STRUCTURED_OUTPUT_METHODS)))"

definition resolve_langchain_structured_output_method :: "string \<Rightarrow> string" where
  "resolve_langchain_structured_output_method way = (if way = ''tool_calling'' then ''function_calling'' else ''json_mode'')"

definition DIRECT_KEYS :: "string list" where
  "DIRECT_KEYS = [''temperature'', ''max_tokens'', ''top_p'', ''frequency_penalty'', ''presence_penalty'']"

definition chat_openai_kwargs :: "dict \<Rightarrow> dict" where
  "chat_openai_kwargs config =
     (let direct = List.map_filter (\<lambda>k. map_option (Pair k) (dict_get k config)) DIRECT_KEYS;
          others = filter (\<lambda>(k, _). k \<notin> set ([''base_url'', ''api_key'', ''timeout'', ''structured_output_method''] @ DIRECT_KEYS)) config
      in direct @ (if others = [] then [] else [(''model_kwargs'', JObj others)]))"

definition build_langchain_messages :: "string \<Rightarrow> (string \<times> string) list \<Rightarrow> (string \<times> string) list" where
  "build_langchain_messages prompt history =
     (''SystemMessage'', prompt) #
     map (\<lambda>(role, content).
       (if role = ''assistant'' then ''AIMessage'' else if role = ''system'' then ''SystemMessage'' else ''HumanMessage'', content)) history"

definition dump_parsed_model :: "parsed_answer \<Rightarrow> dict" where
  "dump_parsed_model p = (case p of ParsedModel d \<Rightarrow> d | ParsedDict d \<Rightarrow> d | NotParsed \<Rightarrow> [])"

definition raw_text_of :: "view_env \<Rightarrow> raw_message option \<Rightarrow> string" where
  "raw_text_of e raw =
     (case raw of
        None \<Rightarrow> []
      | Some m \<Rightarrow> (case ra_content m of JList xs \<Rightarrow> py_strip (concat (map (shown e) xs)) | v \<Rightarrow> py_strip (shown e v)))"

definition structured_text :: "view_env \<Rightarrow> chain_env \<Rightarrow> parsed_answer \<Rightarrow> raw_message option \<Rightarrow> string" where
  "structured_text e n p raw =
     (case p of
        ParsedModel d \<Rightarrow> (case dict_get ''reply_text'' d of Some (JStr t) \<Rightarrow> t | _ \<Rightarrow> cn_json n (JObj d))
      | _ \<Rightarrow> raw_text_of e raw)"

definition serialize_raw_message :: "raw_message option \<Rightarrow> dict" where
  "serialize_raw_message raw =
     (case raw of
        None \<Rightarrow> []
      | Some m \<Rightarrow> [(''content'', ra_content m), (''additional_kwargs'', ra_additional_kwargs m),
                  (''response_metadata'', ra_response_metadata m), (''usage_metadata'', ra_usage_metadata m)])"

text \<open>\<open>int(a or b or c)\<close> for each count.\<close>

definition extract_usage :: "raw_message option \<Rightarrow> (int \<times> int \<times> int) result" where
  "extract_usage raw =
     (let usage = (case raw of None \<Rightarrow> [] | Some m \<Rightarrow> dict_or_empty (ra_usage_metadata m));
          token_usage = (case raw of None \<Rightarrow> []
                         | Some m \<Rightarrow> dict_or_empty (json_or_null ''token_usage'' (dict_or_empty (ra_response_metadata m))))
      in bind_r (json_int (or_json (dict_get ''input_tokens'' usage) (or_json (dict_get ''prompt_tokens'' token_usage) (JInt 0)))) (\<lambda>p.
         bind_r (json_int (or_json (dict_get ''output_tokens'' usage) (or_json (dict_get ''completion_tokens'' token_usage) (JInt 0)))) (\<lambda>c.
         bind_r (json_int (or_json (dict_get ''total_tokens'' usage) (or_json (dict_get ''total_tokens'' token_usage) (JInt (p + c))))) (\<lambda>t.
         Inr (p, c, t)))))"

definition invoke_with_structured_output :: "view_env \<Rightarrow> chain_env \<Rightarrow> llm_request \<Rightarrow> llm_response result" where
  "invoke_with_structured_output e n q =
     (let config = lq_config q; base_url = json_or_null ''base_url'' config; api_key = json_or_null ''api_key'' config
      in if \<not> json_truthy base_url then Inl (ValueError ''Provider base_url is required for structured output'')
         else if \<not> json_truthy api_key then Inl (ValueError ''Provider API key is required for structured output'')
         else bind_r (cn_float n (case dict_get ''timeout'' config of None \<Rightarrow> JInt 60 | Some v \<Rightarrow> v)) (\<lambda>timeout.
              bind_r (resolve_structured_output_method e config) (\<lambda>way.
              bind_r (cn_invoke n \<lparr>cl_model = lq_model_name q, cl_api_key = api_key, cl_base_url = rstrip_slash (shown e base_url),
                  cl_timeout = timeout, cl_kwargs = chat_openai_kwargs config,
                  cl_method = resolve_langchain_structured_output_method way, cl_output_name = lq_output_name q,
                  cl_messages = build_langchain_messages (lq_prompt q) (lq_messages q)\<rparr>) (\<lambda>answer.
              bind_r (extract_usage (cw_raw answer)) (\<lambda>(p, c, t).
              Inr \<lparr>lr_text = structured_text e n (cw_parsed answer) (cw_raw answer),
                   lr_parsed = dump_parsed_model (cw_parsed answer),
                   lr_raw = [(''structured_output_name'', JStr (lq_output_name q)),
                             (''parsed'', JObj (dump_parsed_model (cw_parsed answer))),
                             (''parsing_error'', if truthy (cw_error answer) then JStr (str_of (cw_error answer)) else JNull),
                             (''raw'', JObj (serialize_raw_message (cw_raw answer)))],
                   lr_prompt_tokens = p, lr_completion_tokens = c, lr_total_tokens = t\<rparr>)))))"

section \<open>Surroundings of the nodes\<close>

text \<open>
  The headings of the system prompt, which are written in Chinese, are arguments like the texts of the default templates.
\<close>

record node_env =
  nv_view :: view_env
  nv_prompts :: prompt_env
  nv_cipher :: cipher
  nv_audit :: audit_settings
  nv_chain :: chain_env
  nv_mock :: "llm_request \<Rightarrow> llm_response result"
  nv_headings :: "string list"
  nv_rules :: string

definition generate_structured :: "node_env \<Rightarrow> string \<Rightarrow> llm_request \<Rightarrow> llm_response result" where
  "generate_structured e kind q =
     (if kind = ''mock'' then nv_mock e q else invoke_with_structured_output (nv_view e) (nv_chain e) q)"

definition usage_metadata :: "string \<Rightarrow> string \<Rightarrow> llm_response \<Rightarrow> dict" where
  "usage_metadata kind model_name r =
     [(''provider_kind'', JStr kind), (''model_name'', JStr model_name), (''prompt_tokens'', JInt (lr_prompt_tokens r)),
      (''completion_tokens'', JInt (lr_completion_tokens r)), (''total_tokens'', JInt (lr_total_tokens r))]"

text \<open>Writing an artifact of a step, and the two artifacts with their link for a rendered prompt.\<close>

definition put_artifact :: "node_env \<Rightarrow> id \<Rightarrow> id \<Rightarrow> string \<Rightarrow> dict \<Rightarrow> string \<Rightarrow> dict \<Rightarrow> id act" where
  "put_artifact e run_id step kind payload summary metadata w =
     (let (a, w') = record_json_artifact (nv_audit e) w run_id (Some step) kind payload (Some summary) metadata in (Inr (aa_id a), w'))"

type_synonym rendered = "prompt_template_row \<times> prompt_revision_row \<times> dict \<times> string"

definition rendered_from :: "id \<Rightarrow> id \<Rightarrow> id \<Rightarrow> session \<Rightarrow> session result" where
  "rendered_from run_id source target s =
     Inr (snd (record_link s run_id ''rendered_from'' (Some source) None (Some target) None))"

definition record_prompt_render_artifacts :: "node_env \<Rightarrow> id \<Rightarrow> id \<Rightarrow> rendered \<Rightarrow> string \<Rightarrow> unit act" where
  "record_prompt_render_artifacts e run_id step p label w =
     (case p of (t, r, snapshot, text) \<Rightarrow>
        let origin = [(''template_id'', JStr (pt_id t)), (''template_type'', JStr (pt_template_type t)), (''revision_id'', JStr (pr_id r))]
        in act_bind (put_artifact e run_id step ''prompt_variables'' (origin @ [(''variables'', JObj snapshot)])
                      (label @ '' prompt variables snapshot'') []) (\<lambda>source.
           act_bind (put_artifact e run_id step ''prompt_snapshot'' (origin @ [(''rendered_prompt'', JStr text)])
                      (label @ '' prompt snapshot'') []) (\<lambda>target.
           act_do (rendered_from run_id source target))) w)"

fun selected_model_id :: "conversation \<Rightarrow> id" where
  "selected_model_id (InCocoon c) = c_selected_model_id c"
| "selected_model_id (InRoom r) = rm_selected_model_id r"

definition chat_provider_for :: "node_env \<Rightarrow> context_package \<Rightarrow> session \<Rightarrow> (string \<times> available_model_row \<times> model_provider_row \<times> dict) result" where
  "chat_provider_for e cx s = resolve_chat_provider (nv_cipher e) s (selected_model_id (cx_conversation cx))"

section \<open>The prompt stack\<close>

definition has_headings :: "node_env \<Rightarrow> string \<Rightarrow> bool" where
  "has_headings e t \<longleftrightarrow> list_all (\<lambda>h. has_text h t) (nv_headings e)"

text \<open>When both prompts show the context, the system prompt keeps what comes before it and the global rules.\<close>

definition trim_overlapping_system_context :: "node_env \<Rightarrow> string \<Rightarrow> string \<Rightarrow> string" where
  "trim_overlapping_system_context e system_prompt event_prompt =
     (if \<not> has_headings e event_prompt \<or> \<not> has_headings e system_prompt then system_prompt
      else case find_text (nv_rules e) system_prompt of
        None \<Rightarrow> system_prompt
      | Some rules_index \<Rightarrow>
          let context_index = Min (set (List.map_filter (\<lambda>h. find_text h system_prompt) (nv_headings e)))
          in py_strip (py_strip (take context_index system_prompt) @ newline @ newline @ py_strip (drop rules_index system_prompt)))"

definition combine_prompts :: "node_env \<Rightarrow> string \<Rightarrow> string \<Rightarrow> string" where
  "combine_prompts e system_prompt event_prompt =
     py_strip (trim_overlapping_system_context e system_prompt event_prompt @ newline @ newline @ event_prompt)"

record prompt_assembly =
  py_system :: rendered
  py_event :: rendered
  py_event_prefix :: string
  py_combined :: string
  py_messages :: "(string \<times> string) list"

definition source_memory_json :: "memory_row \<Rightarrow> json" where
  "source_memory_json m = JObj [(''scope'', JStr (mem_scope m)), (''summary'', json_opt_str (mem_summary m)), (''content'', JStr (mem_content m))]"

text \<open>A pull shows the memories of its source, a merge the context of the merge as it is.\<close>

definition event_variables :: "context_package \<Rightarrow> dict \<Rightarrow> string \<times> dict" where
  "event_variables cx variables =
     (let kind = re_event_type (cx_event cx)
      in if kind = ''pull''
         then (''pull'', dict_set ''memory_context'' (JList (map source_memory_json
                 (case cx_source cx of Some x \<Rightarrow> xs_memories x | None \<Rightarrow> context_memories cx))) variables)
         else if kind = ''merge''
         then (''merge'', dict_set ''merge_context'' (JObj (case cx_source cx of Some x \<Rightarrow> merge_context x | None \<Rightarrow> [])) variables)
         else (''generator'', variables))"

definition build_prompts :: "node_env \<Rightarrow> context_package \<Rightarrow> dict \<Rightarrow> session \<Rightarrow> prompt_assembly result" where
  "build_prompts e cx capabilities s =
     bind_r (build_runtime_prompt_variables (nv_view e) s cx capabilities True) (\<lambda>variables.
     bind_r (render (nv_prompts e) s ''system'' variables) (\<lambda>sys.
     let (template_type, variables1) = event_variables cx variables
     in bind_r (render (nv_prompts e) s template_type variables1) (\<lambda>ev.
        Inr \<lparr>py_system = sys, py_event = ev, py_event_prefix = template_type,
             py_combined = combine_prompts e (snd (snd (snd sys))) (snd (snd (snd ev))),
             py_messages = map (build_provider_message_payload cx)
               (case cx_source cx of Some x \<Rightarrow> xs_messages x | None \<Rightarrow> cx_visible_messages cx)\<rparr>)))"

end
