(* ===== verification/LlmNodes.thy ===== *)
theory LlmNodes
  imports ModelCall RoundEffects
begin

text \<open>
  The nodes that ask the language model (\<open>runtime/meta/node.py\<close>, \<open>runtime/generation/generator_node.py\<close>): they fill the
  arguments of the chat runtime. Properties: what every decision looks like whatever the model answers, that a fast reply
  changes no memory, and that a round with these nodes does what a round promises.
\<close>

section \<open>Reading the answer\<close>

definition strip_opt :: "string option \<Rightarrow> string option" where
  "strip_opt x = (let t = py_strip (str_of x) in if t = [] then None else Some t)"

definition not_blank :: "string \<Rightarrow> bool" where
  "not_blank t \<longleftrightarrow> py_strip t \<noteq> []"

definition normalize_wakeup_hints :: "dict list \<Rightarrow> dict list" where
  "normalize_wakeup_hints items = map scheduled_wakeup_dump (List.map_filter (\<lambda>d. scheduled_wakeup_model (JObj d)) items)"

definition normalize_tag_ops :: "(string \<times> int) list \<Rightarrow> tag_operation list" where
  "normalize_tag_ops ops = map (\<lambda>(action, i). \<lparr>to_action = action, to_tag_index = nat i\<rparr>) (filter (\<lambda>(_, i). 0 < i) ops)"

text \<open>The key of a fact is stripped by the meta node and kept as it is by the inline call.\<close>

definition normalize_fact_op :: "(string \<Rightarrow> string) \<Rightarrow> fact_operation \<Rightarrow> fact_operation" where
  "normalize_fact_op key op =
     op\<lparr>fo_cache_key := key (fo_cache_key op), fo_summary := strip_opt (fo_summary op), fo_valid_until := strip_opt (fo_valid_until op)\<rparr>"

definition normalize_fact_cache_ops :: "(string \<Rightarrow> string) \<Rightarrow> fact_operation list \<Rightarrow> fact_operation list" where
  "normalize_fact_cache_ops key ops = map (normalize_fact_op key) (filter (\<lambda>op. not_blank (fo_cache_key op)) ops)"

definition normalize_memory_op :: "memory_operation \<Rightarrow> memory_operation" where
  "normalize_memory_op op =
     \<lparr>mo_op = mo_op op, mo_content = py_strip (mo_content op), mo_summary = strip_opt (mo_summary op),
      mo_memory_type = (if mo_memory_type op = [] then ''preference'' else mo_memory_type op),
      mo_memory_pool = (if truthy (mo_memory_pool op) then Some (py_strip (str_of (mo_memory_pool op))) else None),
      mo_tags = filter (\<lambda>t. t \<noteq> []) (map py_strip (mo_tags op)),
      mo_importance = (if mo_importance op = 0 then 3 else mo_importance op),
      mo_confidence = (if mo_confidence op = 0 then 3 else mo_confidence op),
      mo_reason = strip_opt (mo_reason op), mo_valid_until = strip_opt (mo_valid_until op),
      mo_target_memory_id = strip_opt (mo_target_memory_id op),
      mo_supersedes = filter (\<lambda>t. t \<noteq> []) (map py_strip (mo_supersedes op))\<rparr>"

definition normalize_memory_ops :: "memory_operation list \<Rightarrow> memory_operation list" where
  "normalize_memory_ops ops = map normalize_memory_op (filter (\<lambda>op. mo_op op \<noteq> ''none'') ops)"

text \<open>A round that stays silent after a wakeup leaves a summary of it.\<close>

definition first_text :: "view_env \<Rightarrow> string list \<Rightarrow> dict \<Rightarrow> string option" where
  "first_text e ks d = List.find (\<lambda>t. t \<noteq> []) (map (\<lambda>k. text_in e k d) ks)"

definition normalize_event_summary :: "view_env \<Rightarrow> context_package \<Rightarrow> string \<Rightarrow> string option \<Rightarrow> string option" where
  "normalize_event_summary e cx decision raw_summary =
     (if strip_opt raw_summary \<noteq> None then strip_opt raw_summary
      else if decision \<noteq> ''silence'' \<or> re_event_type (cx_event cx) \<noteq> ''wakeup'' then None
      else case (case cx_wakeup_context cx of None \<Rightarrow> None | Some d \<Rightarrow> first_text e [''idle_summary'', ''summary'', ''reason''] d) of
             Some t \<Rightarrow> Some t
           | None \<Rightarrow> (case first_text e [''summary'', ''reason''] (re_payload (cx_event cx)) of
                        Some t \<Rightarrow> Some t | None \<Rightarrow> Some ''Wakeup event evaluated without a visible reply.''))"

section \<open>The meta node\<close>

definition plain_decision :: "string \<Rightarrow> int \<Rightarrow> dict \<Rightarrow> string \<Rightarrow> string option \<Rightarrow> string \<Rightarrow> meta_decision" where
  "plain_decision decision delta patch thought summary mode =
     \<lparr>md_decision = decision, md_relation_delta = delta, md_persona_patch = patch, md_tag_ops = [], md_internal_thought = thought,
      md_event_summary = summary, md_next_wakeup_hints = [], md_cancel_wakeup_task_ids = [], md_generation_brief = None,
      md_used_memory_ids = [], md_session_update = [], md_task_state_update = [], md_fact_cache_ops = [], md_memory_ops = [],
      md_request_mode = mode\<rparr>"

definition fallback_decision :: "view_env \<Rightarrow> context_package \<Rightarrow> string \<Rightarrow> meta_decision" where
  "fallback_decision e cx latest =
     (let ev = cx_event cx; kind = re_event_type ev; source = json_or_null ''source_cocoon_id'' (re_payload ev);
          reason = shown e (or_json (dict_get ''reason'' (re_payload ev)) (JStr ''scheduled wakeup''))
      in if kind = ''wakeup''
         then plain_decision ''reply'' 0 [(''last_wakeup_reason'', JStr (take 120 reason))] ''Fallback wakeup meta decision.''
                (Some (take 240 reason)) ''meta_reply''
         else if kind = ''pull''
         then plain_decision ''reply'' 0 [(''last_pull_source'', source)] ''Fallback pull meta decision.'' None ''meta_reply''
         else if kind = ''merge''
         then plain_decision ''reply'' 0 [(''last_merge_source'', source)] ''Fallback merge meta decision.'' None ''meta_reply''
         else plain_decision (if take 7 (py_strip latest) = ''/silent'' then ''silence'' else ''reply'') (if latest = [] then 0 else 1)
                [(''last_seen_intent'', JStr (take 120 latest))] ''Fallback chat meta decision.'' None ''meta_reply'')"

definition latest_user_content :: "context_package \<Rightarrow> string" where
  "latest_user_content cx =
     (case List.find (\<lambda>m. m_role m = ''user'' \<and> \<not> m_is_retracted m) (rev (cx_visible_messages cx)) of
        None \<Rightarrow> [] | Some m \<Rightarrow> m_content m)"

definition parsed_decision :: "view_env \<Rightarrow> context_package \<Rightarrow> string \<Rightarrow> meta_output \<Rightarrow> meta_decision" where
  "parsed_decision e cx latest m =
     \<lparr>md_decision = mt_decision m,
      md_relation_delta = mt_relation_delta m + su_relation_delta (mt_session_update m),
      md_persona_patch = dict_merge
        (if mt_persona_patch m = [] then [(''last_seen_intent'', JStr (take 120 latest))] else mt_persona_patch m)
        (su_persona_patch (mt_session_update m)),
      md_tag_ops = normalize_tag_ops (mt_tag_ops m @ su_tag_ops (mt_session_update m)),
      md_internal_thought =
        (if mt_internal_thought m = [] then ''Structured meta decision completed.'' else mt_internal_thought m),
      md_event_summary = normalize_event_summary e cx (mt_decision m) (mt_event_summary m),
      md_next_wakeup_hints = normalize_wakeup_hints (mt_schedule_wakeups m),
      md_cancel_wakeup_task_ids = filter not_blank (mt_cancel_wakeup_task_ids m),
      md_generation_brief = mt_generation_brief m,
      md_used_memory_ids = filter not_blank (mt_used_memory_ids m),
      md_session_update = session_update_dump (mt_session_update m),
      md_task_state_update = task_update_dump (mt_task_state_update m),
      md_fact_cache_ops = normalize_fact_cache_ops py_strip (mt_fact_cache_ops m),
      md_memory_ops = normalize_memory_ops (mt_memory_ops m), md_request_mode = ''meta_reply''\<rparr>"

definition meta_decision_of :: "view_env \<Rightarrow> context_package \<Rightarrow> llm_response \<Rightarrow> meta_decision" where
  "meta_decision_of e cx r =
     (let latest = latest_user_content cx
      in if lr_parsed r = [] then fallback_decision e cx latest
         else case meta_output_model (JObj (lr_parsed r)) of
                None \<Rightarrow> fallback_decision e cx latest | Some m \<Rightarrow> parsed_decision e cx latest m)"

definition prompt_frame :: "string \<Rightarrow> string \<Rightarrow> string \<Rightarrow> string \<Rightarrow> string \<Rightarrow> string" where
  "prompt_frame instructions summary context_json guidance prompt =
     instructions @ newline @ summary @ newline @ ''CONTEXT_JSON_START'' @ newline @ context_json @ newline @ ''CONTEXT_JSON_END'' @ newline @
     guidance @ ''PROMPT_TEXT_START'' @ newline @ prompt @ newline @ ''PROMPT_TEXT_END''"

definition META_INSTRUCTIONS :: string where
  "META_INSTRUCTIONS = py_join newline
     [''You are producing the runtime analysis result for the host application.'',
      ''Decide whether the assistant should reply now or stay silent.'',
      ''If the current event is an idle wakeup and re-engagement feels appropriate, you may choose to reply proactively.'',
      ''Only propose wakeups that have a concrete reason.'',
      ''When editing tags, you may only use tag indexes from the allowed tag catalog shown in the context, including system tags when they are present.'',
      ''Never invent new tag names or output free-text tags.'',
      ''If the current event is a plugin or other wakeup, distill the useful wakeup details into event_summary for continuity.'',
      ''Do not assume future rounds will still receive the raw wakeup payload.'',
      ''If the current event is a wakeup and you choose silence, you must still provide a concise event_summary so future rounds do not lose the wakeup context.'',
      ''Use memory_ops to manage long-term memory carefully. importance below 3 should remain candidate-level rather than durable memory.'',
      ''Use fact_cache_ops for time-sensitive facts with TTL rather than durable user preferences.'']"

definition build_meta_prompt :: "node_env \<Rightarrow> context_package \<Rightarrow> string \<Rightarrow> dict \<Rightarrow> session \<Rightarrow> string result" where
  "build_meta_prompt e cx prompt snapshot s =
     bind_r (build_structured_prompt_context (nv_view e) s cx snapshot True None True) (\<lambda>(payload, summary).
     Inr (prompt_frame META_INSTRUCTIONS summary (cn_json (nv_chain e) (JObj payload)) [] prompt))"

definition render_meta :: "node_env \<Rightarrow> context_package \<Rightarrow> dict \<Rightarrow> session \<Rightarrow> rendered result" where
  "render_meta e cx capabilities s =
     bind_r (build_runtime_prompt_variables (nv_view e) s cx capabilities True) (\<lambda>variables.
     render (nv_prompts e) s ''meta'' variables)"

text \<open>One call: the prompt is built from the database, and the provider is asked.\<close>

definition ask_model ::
  "node_env \<Rightarrow> string \<Rightarrow> available_model_row \<Rightarrow> dict \<Rightarrow> string \<Rightarrow> (string \<times> string) list \<Rightarrow> (session \<Rightarrow> string result) \<Rightarrow> session \<Rightarrow>
     llm_response result" where
  "ask_model e kind model config output_name history prompt s =
     bind_r (prompt s) (\<lambda>text.
     generate_structured e kind \<lparr>lq_prompt = text, lq_messages = history, lq_model_name = am_model_name model, lq_config = config,
       lq_output_name = output_name\<rparr>)"

definition evaluate :: "node_env \<Rightarrow> context_package \<Rightarrow> id \<Rightarrow> id \<Rightarrow> meta_decision act" where
  "evaluate e cx run_id step w =
     act_bind (act_get (chat_provider_for e cx)) (\<lambda>(kind, model, provider, config).
     act_bind (act_get (render_meta e cx (mp_capabilities provider))) (\<lambda>p.
     act_bind (record_prompt_render_artifacts e run_id step p ''meta'') (\<lambda>_.
     act_bind (act_get (ask_model e kind model config ''cocoon_meta_output''
         (map (build_provider_message_payload cx) (cx_visible_messages cx))
         (build_meta_prompt e cx (snd (snd (snd p))) (fst (snd (snd p)))))) (\<lambda>r.
     act_bind (put_artifact e run_id step ''provider_raw_output'' (lr_raw r) ''Provider raw meta output''
         (usage_metadata (mp_kind provider) (am_model_name model) r)) (\<lambda>_.
     act_return (meta_decision_of (nv_view e) cx r)))))) w"

section \<open>The generator node\<close>

fun split_on :: "char \<Rightarrow> string \<Rightarrow> string list" where
  "split_on x [] = [[]]"
| "split_on x (c # cs) =
     (if c = x then [] # split_on x cs else case split_on x cs of [] \<Rightarrow> [[c]] | t # ts \<Rightarrow> (c # t) # ts)"

definition build_chunks :: "string \<Rightarrow> string list" where
  "build_chunks reply = map (\<lambda>t. t @ '' '') (filter (\<lambda>t. t \<noteq> []) (split_on (CHR '' '') reply))"

definition usage_json :: "llm_response \<Rightarrow> dict" where
  "usage_json r =
     [(''prompt_tokens'', JInt (lr_prompt_tokens r)), (''completion_tokens'', JInt (lr_completion_tokens r)),
      (''total_tokens'', JInt (lr_total_tokens r))]"

definition generation_output_of :: "string \<Rightarrow> string \<Rightarrow> string \<Rightarrow> dict \<Rightarrow> llm_response \<Rightarrow> generation_output" where
  "generation_output_of kind model_name reply structured r =
     \<lparr>go_chunks = build_chunks reply, go_reply_text = reply, go_structured_output = structured, go_usage = usage_json r,
      go_provider_kind = kind, go_model_name = model_name\<rparr>"

definition validation_error :: py_exc where "validation_error = OtherException ''ValidationError''"

definition reply_or :: "string \<Rightarrow> llm_response \<Rightarrow> string" where
  "reply_or reply r = (if py_strip reply = [] then py_strip (lr_text r) else py_strip reply)"

definition parsed_or :: "dict \<Rightarrow> llm_response \<Rightarrow> json" where
  "parsed_or dflt r = JObj (if lr_parsed r = [] then dflt else lr_parsed r)"

definition read_generation :: "string \<Rightarrow> string \<Rightarrow> llm_response \<Rightarrow> generation_output result" where
  "read_generation kind model_name r =
     (case generation_model (parsed_or [(''reply_text'', JStr (py_strip (lr_text r)))] r) of
        None \<Rightarrow> Inl validation_error
      | Some reply \<Rightarrow>
          Inr (generation_output_of kind model_name (reply_or reply r) [(''reply_text'', JStr (reply_or reply r))] r))"

definition read_reply_only :: "string \<Rightarrow> string \<Rightarrow> string \<Rightarrow> llm_response \<Rightarrow> (meta_decision \<times> generation_output) result" where
  "read_reply_only mode kind model_name r =
     (case reply_only_model (parsed_or [(''reply_text'', JStr (py_strip (lr_text r))), (''internal_thought'', JStr [])] r) of
        None \<Rightarrow> Inl validation_error
      | Some m \<Rightarrow>
          let reply = reply_or (ro_reply_text m) r;
              thought = (if not_blank (ro_internal_thought m) then py_strip (ro_internal_thought m) else ''Inline reply generated.'')
          in Inr (plain_decision (if reply = [] then ''silence'' else ''reply'') 0 [] thought None mode,
                  generation_output_of kind model_name reply
                    [(''reply_text'', JStr reply), (''internal_thought'', JStr thought)] r))"

definition single_pass_decision :: "string \<Rightarrow> single_pass_output \<Rightarrow> meta_decision" where
  "single_pass_decision mode m =
     \<lparr>md_decision = sp_decision m, md_relation_delta = su_relation_delta (sp_session_update m),
      md_persona_patch = su_persona_patch (sp_session_update m), md_tag_ops = normalize_tag_ops (su_tag_ops (sp_session_update m)),
      md_internal_thought =
        (if not_blank (sp_internal_thought m) then py_strip (sp_internal_thought m) else ''Inline response generated.''),
      md_event_summary = strip_opt (sp_event_summary m), md_next_wakeup_hints = normalize_wakeup_hints (sp_schedule_wakeups m),
      md_cancel_wakeup_task_ids = filter not_blank (sp_cancel_wakeup_task_ids m), md_generation_brief = sp_generation_brief m,
      md_used_memory_ids = filter not_blank (sp_used_memory_ids m), md_session_update = session_update_dump (sp_session_update m),
      md_task_state_update = task_update_dump (sp_task_state_update m),
      md_fact_cache_ops = normalize_fact_cache_ops id (sp_fact_cache_ops m),
      md_memory_ops = normalize_memory_ops (sp_memory_ops m), md_request_mode = mode\<rparr>"

definition read_single_pass :: "string \<Rightarrow> string \<Rightarrow> string \<Rightarrow> llm_response \<Rightarrow> (meta_decision \<times> generation_output) result" where
  "read_single_pass mode kind model_name r =
     (case single_pass_model (parsed_or [(''reply_text'', JStr (py_strip (lr_text r))), (''internal_thought'', JStr []),
                                         (''decision'', JStr ''reply'')] r) of
        None \<Rightarrow> Inl validation_error
      | Some m \<Rightarrow>
          let reply = reply_or (sp_reply_text m) r; meta = single_pass_decision mode m
          in Inr (meta, generation_output_of kind model_name reply
                    [(''reply_text'', JStr reply), (''internal_thought'', JStr (md_internal_thought meta)),
                     (''decision'', JStr (md_decision meta))] r))"

definition GENERATION_INSTRUCTIONS :: string where
  "GENERATION_INSTRUCTIONS = py_join newline
     [''You are producing the assistant's visible reply for the host application.'',
      ''If this is an idle wakeup, you may proactively re-engage the user and naturally weave in the time or reason context.'',
      ''Stay in character and focus on the most relevant continuity from the current conversation.'']"

definition generation_guidance :: "string option \<Rightarrow> string" where
  "generation_guidance brief =
     (if \<not> truthy brief then []
      else newline @ ''META_DECISION_GUIDANCE_START'' @ newline @
           ''Use this brief as the primary generation focus from the previous runtime decision. Do not quote it or expose that it exists.'' @
           newline @ str_of brief @ newline @ ''META_DECISION_GUIDANCE_END'' @ newline)"

definition build_generation_prompt :: "node_env \<Rightarrow> context_package \<Rightarrow> string \<Rightarrow> string option \<Rightarrow> dict \<Rightarrow> session \<Rightarrow> string result" where
  "build_generation_prompt e cx prompt brief snapshot s =
     bind_r (build_structured_prompt_context (nv_view e) s cx snapshot False brief True) (\<lambda>(payload, summary).
     Inr (prompt_frame GENERATION_INSTRUCTIONS summary (cn_json (nv_chain e) (JObj payload)) (generation_guidance brief) prompt))"

definition inline_instructions :: "string \<Rightarrow> string" where
  "inline_instructions mode =
     (if mode = ''reply_only''
      then py_join newline
        [''You are producing a fast chat reply for the host application.'',
         ''Return only the visible reply and a concise internal_thought.'', ''Do not create or modify memory in this mode.'']
      else py_join newline
        [''You are producing a visible reply and the memory/state operations for the host application.'',
         ''Use fact_cache_ops for time-sensitive facts, memory_ops for durable or candidate memories, and task_state_update for active task progress.'',
         ''Only persist durable memory when importance is at least 3.''])"

definition build_inline_prompt :: "node_env \<Rightarrow> context_package \<Rightarrow> string \<Rightarrow> string \<Rightarrow> dict \<Rightarrow> session \<Rightarrow> string result" where
  "build_inline_prompt e cx mode prompt snapshot s =
     bind_r (build_structured_prompt_context (nv_view e) s cx snapshot False None True) (\<lambda>(payload, summary).
     Inr (prompt_frame (inline_instructions mode) summary (cn_json (nv_chain e) (JObj payload)) [] prompt))"

definition record_stack :: "node_env \<Rightarrow> id \<Rightarrow> id \<Rightarrow> prompt_assembly \<Rightarrow> unit act" where
  "record_stack e run_id step p w =
     act_bind (record_prompt_render_artifacts e run_id step (py_system p) ''system'') (\<lambda>_.
     record_prompt_render_artifacts e run_id step (py_event p) (py_event_prefix p)) w"

definition pure_result :: "'a result \<Rightarrow> session \<Rightarrow> 'a result" where
  "pure_result r s = r"

definition generate :: "node_env \<Rightarrow> context_package \<Rightarrow> meta_decision \<Rightarrow> id \<Rightarrow> id \<Rightarrow> generation_output act" where
  "generate e cx meta run_id step w =
     act_bind (act_get (chat_provider_for e cx)) (\<lambda>(kind, model, provider, config).
     act_bind (act_get (build_prompts e cx (mp_capabilities provider))) (\<lambda>p.
     act_bind (record_stack e run_id step p) (\<lambda>_.
     act_bind (act_get (ask_model e kind model config ''cocoon_generation_output'' (py_messages p)
         (build_generation_prompt e cx (py_combined p) (md_generation_brief meta) (fst (snd (snd (py_event p))))))) (\<lambda>r.
     act_bind (act_get (pure_result (read_generation (mp_kind provider) (am_model_name model) r))) (\<lambda>g.
     act_bind (put_artifact e run_id step ''provider_raw_output'' (lr_raw r) ''Provider raw generation output''
         (usage_metadata (mp_kind provider) (am_model_name model) r)) (\<lambda>_.
     act_return g)))))) w"

definition read_inline :: "string \<Rightarrow> string \<Rightarrow> string \<Rightarrow> llm_response \<Rightarrow> (meta_decision \<times> generation_output) result" where
  "read_inline mode kind model_name r =
     (if mode = ''reply_only'' then read_reply_only mode kind model_name r else read_single_pass mode kind model_name r)"

definition generate_inline :: "node_env \<Rightarrow> context_package \<Rightarrow> id \<Rightarrow> id \<Rightarrow> string \<Rightarrow> (meta_decision \<times> generation_output) act" where
  "generate_inline e cx run_id step mode w =
     act_bind (act_get (chat_provider_for e cx)) (\<lambda>(kind, model, provider, config).
     act_bind (act_get (build_prompts e cx (mp_capabilities provider))) (\<lambda>p.
     act_bind (record_stack e run_id step p) (\<lambda>_.
     act_bind (act_get (ask_model e kind model config (''cocoon_'' @ mode @ ''_output'') (py_messages p)
         (build_inline_prompt e cx mode (py_combined p) (fst (snd (snd (py_event p))))))) (\<lambda>r.
     act_bind (put_artifact e run_id step ''provider_raw_output'' (lr_raw r) ''Provider raw inline output''
         (usage_metadata (mp_kind provider) (am_model_name model) r @ [(''request_mode'', JStr mode)])) (\<lambda>_.
     act_get (pure_result (read_inline mode (mp_kind provider) (am_model_name model) r))))))) w"

definition model_nodes :: "node_env \<Rightarrow> llm_nodes" where
  "model_nodes e = \<lparr>ln_generate_inline = generate_inline e, ln_evaluate = evaluate e, ln_generate = generate e\<rparr>"

section \<open>The nodes only record\<close>

lemma keeps_put_artifact: "keeps_by core (put_artifact e r i k p sm md)"
  unfolding keeps_by_def put_artifact_def Let_def using core_artifact
  by (simp add: case_prod_beta) 

lemma keeps_rendered_from: "keeps_by core (act_do (rendered_from r i j))"
  by (rule core_acts.keeps_do) (auto simp: rendered_from_def core_link)

lemma keeps_prompt_record: "keeps_by core (record_prompt_render_artifacts e r i p label)"
  unfolding record_prompt_render_artifacts_def [abs_def] Let_def
  by (cases p) (simp add: core_acts.keeps_bind keeps_put_artifact keeps_rendered_from)

lemma keeps_record_stack: "keeps_by core (record_stack e r i p)"
  unfolding record_stack_def [abs_def] by (intro core_acts.keeps_bind keeps_prompt_record)

lemmas node_keeps = core_acts.keeps_bind core_acts.keeps_get core_acts.keeps_return keeps_put_artifact keeps_prompt_record
  keeps_record_stack

lemma keeps_evaluate: "keeps_by core (evaluate e cx r i)"
  unfolding evaluate_def [abs_def] by (intro node_keeps) (auto intro!: node_keeps)

lemma keeps_generate: "keeps_by core (generate e cx meta r i)"
  unfolding generate_def [abs_def] by (intro node_keeps) (auto intro!: node_keeps)

lemma keeps_generate_inline: "keeps_by core (generate_inline e cx r i mode)"
  unfolding generate_inline_def [abs_def] by (intro node_keeps) (auto intro!: node_keeps)

lemma model_nodes_record: "nodes_only_record (model_nodes e)"
  by (simp add: nodes_only_record_def model_nodes_def keeps_evaluate keeps_generate keeps_generate_inline)

section \<open>Every decision is well formed\<close>

interpretation wakeup_codec: codec "\<lambda>x. JObj (scheduled_wakeup_dump x)" scheduled_wakeup_model
proof
  fix v x assume "scheduled_wakeup_model v = Some x"
  then have "py_strip (sw_reason x) = sw_reason x" "sw_reason x \<noteq> []"
    unfolding scheduled_wakeup_model_def by (auto dest!: strict_modelD simp: bind_Some split: if_splits)
  then show "scheduled_wakeup_model (JObj (scheduled_wakeup_dump x)) = Some x"
    unfolding scheduled_wakeup_model_def scheduled_wakeup_dump_def some_field_def
    by (cases "sw_run_at x"; cases "sw_delay_seconds x"; cases "sw_delay_minutes x"; cases "sw_delay_hours x")
       (simp_all add: strict_model_def dict_keys_def required_def field_or_def optional_def)
qed

definition clean_text :: "string \<Rightarrow> bool" where
  "clean_text t \<longleftrightarrow> t \<noteq> [] \<and> py_strip t = t"

definition hint_ok :: "dict \<Rightarrow> bool" where
  "hint_ok h \<longleftrightarrow> map_option scheduled_wakeup_dump (scheduled_wakeup_model (JObj h)) = Some h"

definition memory_op_ok :: "memory_operation \<Rightarrow> bool" where
  "memory_op_ok op \<longleftrightarrow> mo_op op \<in> set [''candidate'', ''upsert'', ''update'', ''archive''] \<and> mo_importance op \<noteq> 0 \<and>
     mo_confidence op \<noteq> 0 \<and> mo_memory_type op \<noteq> [] \<and> list_all clean_text (mo_tags op) \<and> list_all clean_text (mo_supersedes op) \<and>
     pred_option clean_text (mo_target_memory_id op)"

definition fact_op_ok :: "fact_operation \<Rightarrow> bool" where
  "fact_op_ok op \<longleftrightarrow> fo_op op \<in> set [''upsert'', ''delete''] \<and> not_blank (fo_cache_key op)"

definition decision_ok :: "meta_decision \<Rightarrow> bool" where
  "decision_ok d \<longleftrightarrow>
     md_decision d \<in> set [''reply'', ''silence''] \<and> md_internal_thought d \<noteq> [] \<and>
     list_all (\<lambda>op. to_action op \<in> set [''add'', ''remove''] \<and> 0 < to_tag_index op) (md_tag_ops d) \<and>
     list_all hint_ok (md_next_wakeup_hints d) \<and>
     list_all not_blank (md_cancel_wakeup_task_ids d) \<and> list_all not_blank (md_used_memory_ids d) \<and>
     list_all memory_op_ok (md_memory_ops d) \<and> list_all fact_op_ok (md_fact_cache_ops d)"

lemma strip_opt_clean [simp]: "pred_option clean_text (strip_opt x)"
  by (simp add: strip_opt_def clean_text_def Let_def)

lemma hints_ok: "list_all hint_ok (normalize_wakeup_hints ds)"
proof -
  have "hint_ok (scheduled_wakeup_dump x)" if "scheduled_wakeup_model (JObj d) = Some x" for d x
    using wakeup_codec.reread [OF that] by (simp add: hint_ok_def)
  then show ?thesis by (auto simp: normalize_wakeup_hints_def list_all_iff List.map_filter_def)
qed

lemma list_check_all: "list_check check v = Some xs \<Longrightarrow> (\<And>u x. check u = Some x \<Longrightarrow> P x) \<Longrightarrow> list_all P xs"
proof -
  assume P: "\<And>u x. check u = Some x \<Longrightarrow> P x"
  have "those (map check us) = Some xs \<Longrightarrow> list_all P xs" for us
    by (induction us arbitrary: xs) (auto split: option.splits dest: P)
  then show "list_check check v = Some xs \<Longrightarrow> list_all P xs" by (auto simp: list_check_def split: json.splits)
qed

lemma field_list_all: "field_or [] (list_check check) k d = Some xs \<Longrightarrow> (\<And>u x. check u = Some x \<Longrightarrow> P x) \<Longrightarrow> list_all P xs"
  by (auto simp: field_or_def split: option.splits intro: list_check_all)

lemma tag_operation_actions: "tag_operation_model v = Some op \<Longrightarrow> fst op \<in> set [''add'', ''remove'']"
  unfolding tag_operation_model_def by (auto dest!: strict_modelD required_literalD simp: bind_Some)

lemma fact_operation_ops: "fact_operation_model v = Some op \<Longrightarrow> fo_op op \<in> set [''upsert'', ''delete'']"
  unfolding fact_operation_model_def by (auto dest!: strict_modelD field_literalD simp: bind_Some)

lemma memory_operation_ops: "memory_operation_model v = Some op \<Longrightarrow> mo_op op \<in> set [''none'', ''candidate'', ''upsert'', ''update'', ''archive'']"
  unfolding memory_operation_model_def by (auto dest!: strict_modelD field_literalD simp: bind_Some)

lemma update_tag_actions:
  assumes "field_or no_session_update session_update_model k d = Some u"
  shows "list_all (\<lambda>op. fst op \<in> set [''add'', ''remove'']) (su_tag_ops u)"
proof -
  have "list_all (\<lambda>op. fst op \<in> set [''add'', ''remove'']) (su_tag_ops x)" if u: "session_update_model v = Some x" for v x
  proof -
    obtain d' where "field_or [] (list_check tag_operation_model) ''tag_ops'' d' = Some (su_tag_ops x)"
      using u unfolding session_update_model_def by (auto dest!: strict_modelD simp: bind_Some)
    then show ?thesis by (rule field_list_all [OF _ tag_operation_actions])
  qed
  then show ?thesis using assms by (auto simp: field_or_def no_session_update_def split: option.splits)
qed

lemma tag_ops_ok:
  assumes "list_all (\<lambda>op. fst op \<in> set [''add'', ''remove'']) ops"
  shows "list_all (\<lambda>op. to_action op \<in> set [''add'', ''remove''] \<and> 0 < to_tag_index op) (normalize_tag_ops ops)"
  using assms unfolding normalize_tag_ops_def by (induction ops) (auto split: prod.splits)

lemma fact_ops_ok:
  assumes "list_all (\<lambda>op. fo_op op \<in> set [''upsert'', ''delete'']) ops" "\<And>k. py_strip (key k) = py_strip k"
  shows "list_all fact_op_ok (normalize_fact_cache_ops key ops)"
  using assms unfolding normalize_fact_cache_ops_def
  by (induction ops) (auto simp: normalize_fact_op_def fact_op_ok_def not_blank_def)

lemma memory_ops_ok:
  assumes "list_all (\<lambda>op. mo_op op \<in> set [''none'', ''candidate'', ''upsert'', ''update'', ''archive'']) ops"
  shows "list_all memory_op_ok (normalize_memory_ops ops)"
proof -
  have c: "list_all clean_text (filter (\<lambda>t. t \<noteq> []) (map py_strip ts))" for ts
    by (induction ts) (auto simp: clean_text_def)
  show ?thesis using assms unfolding normalize_memory_ops_def
    by (induction ops) (auto simp: normalize_memory_op_def memory_op_ok_def c)
qed

lemma not_blank_filter [simp]: "list_all not_blank (filter not_blank xs)"
  by (simp add: list_all_iff)

lemma plain_decision_ok: "d \<in> set [''reply'', ''silence''] \<Longrightarrow> t \<noteq> [] \<Longrightarrow> decision_ok (plain_decision d n p t x m)"
  by (simp add: decision_ok_def plain_decision_def)

lemma fallback_ok: "decision_ok (fallback_decision e cx latest)"
  by (simp add: fallback_decision_def Let_def plain_decision_ok)

lemma parsed_ok:
  assumes "meta_output_model v = Some m" shows "decision_ok (parsed_decision e cx latest m)"
proof -
  obtain d where
    "field_or ''reply'' (literal_of [''reply'', ''silence'']) ''decision'' d = Some (mt_decision m)"
    "field_or [] (list_check tag_operation_model) ''tag_ops'' d = Some (mt_tag_ops m)"
    "field_or no_session_update session_update_model ''session_update'' d = Some (mt_session_update m)"
    "field_or [] (list_check fact_operation_model) ''fact_cache_ops'' d = Some (mt_fact_cache_ops m)"
    "field_or [] (list_check memory_operation_model) ''memory_ops'' d = Some (mt_memory_ops m)"
    using assms unfolding meta_output_model_def by (auto dest!: strict_modelD simp: bind_Some)
  note fs = this
  have tags: "list_all (\<lambda>op. fst op \<in> set [''add'', ''remove'']) (mt_tag_ops m @ su_tag_ops (mt_session_update m))"
    using field_list_all [OF fs(2) tag_operation_actions] update_tag_actions [OF fs(3)] by simp
  show ?thesis
    unfolding decision_ok_def
    using field_literalD [OF fs(1)] tag_ops_ok [OF tags] hints_ok
      fact_ops_ok [OF field_list_all [OF fs(4) fact_operation_ops], where key = py_strip]
      memory_ops_ok [OF field_list_all [OF fs(5) memory_operation_ops]]
    by (auto simp: parsed_decision_def)
qed

lemma single_pass_ok:
  assumes "single_pass_model v = Some m" shows "decision_ok (single_pass_decision mode m)"
proof -
  obtain d where
    "field_or ''reply'' (literal_of [''reply'', ''silence'']) ''decision'' d = Some (sp_decision m)"
    "field_or no_session_update session_update_model ''session_update'' d = Some (sp_session_update m)"
    "field_or [] (list_check fact_operation_model) ''fact_cache_ops'' d = Some (sp_fact_cache_ops m)"
    "field_or [] (list_check memory_operation_model) ''memory_ops'' d = Some (sp_memory_ops m)"
    using assms unfolding single_pass_model_def by (auto dest!: strict_modelD simp: bind_Some)
  note fs = this
  show ?thesis
    unfolding decision_ok_def
    using field_literalD [OF fs(1)] tag_ops_ok [OF update_tag_actions [OF fs(2)]] hints_ok
      fact_ops_ok [OF field_list_all [OF fs(3) fact_operation_ops], where key = id]
      memory_ops_ok [OF field_list_all [OF fs(4) memory_operation_ops]]
    by (auto simp: single_pass_decision_def not_blank_def)
qed

lemma find_text_nonempty: "first_text e ks d = Some t \<Longrightarrow> t \<noteq> []"
  by (auto simp: first_text_def find_Some_iff)

lemma summary_kept:
  assumes "re_event_type (cx_event cx) = ''wakeup''" shows "\<exists>t. normalize_event_summary e cx ''silence'' raw = Some t \<and> t \<noteq> []"
proof (cases "strip_opt raw")
  case None
  then show ?thesis using assms
    by (auto simp: normalize_event_summary_def dest: find_text_nonempty split: option.splits)
next
  case (Some t)
  then show ?thesis using strip_opt_clean [of raw] by (auto simp: normalize_event_summary_def clean_text_def)
qed

lemma fallback_silence: "re_event_type (cx_event cx) = ''wakeup'' \<Longrightarrow> md_decision (fallback_decision e cx latest) = ''reply''"
  by (simp add: fallback_decision_def Let_def plain_decision_def)

text \<open>
  C11. Whatever the language model answers - nothing, a refused answer, or an accepted one - the meta node returns a decision
  the rest of the round can take: it is to reply or to be silent, with a thought; every tag operation adds or removes and has a
  positive index; every wakeup hint is one the scheduler's model reads as written; identifiers are not blank; every memory
  operation does something, and its tags and targets are stripped and not empty. And a silent answer to a wakeup always
  leaves a summary of the event.
\<close>

theorem meta_decision_well_formed:
  assumes "d = meta_decision_of e cx r"
  shows "decision_ok d \<and>
    (md_decision d = ''silence'' \<and> re_event_type (cx_event cx) = ''wakeup'' \<longrightarrow> (\<exists>t. md_event_summary d = Some t \<and> t \<noteq> []))"
proof (cases "lr_parsed r = [] \<or> meta_output_model (JObj (lr_parsed r)) = None")
  case True
  then have "d = fallback_decision e cx (latest_user_content cx)" unfolding assms by (auto simp: meta_decision_of_def Let_def)
  then show ?thesis using fallback_ok fallback_silence by auto
next
  case False
  then obtain m where m: "meta_output_model (JObj (lr_parsed r)) = Some m" by auto
  have d: "d = parsed_decision e cx (latest_user_content cx) m" unfolding assms using False m by (simp add: meta_decision_of_def Let_def)
  show ?thesis using parsed_ok [OF m] summary_kept [of cx e "mt_event_summary m"] unfolding d by (auto simp: parsed_decision_def)
qed

lemma split_on_nonempty [simp]: "split_on x t \<noteq> []"
  by (induction t) (auto split: list.splits)

lemma split_on_parts: "u \<in> set (split_on x t) \<Longrightarrow> x \<notin> set u"
  by (induction t arbitrary: u) (auto split: list.splits if_splits)

lemma split_on_append: "x \<notin> set t \<Longrightarrow> split_on x (t @ x # u) = t # split_on x u"
  by (induction t) auto

lemma split_on_concat: "list_all (\<lambda>t. x \<notin> set t) ts \<Longrightarrow> split_on x (concat (map (\<lambda>t. t @ [x]) ts)) = ts @ [[]]"
  by (induction ts) (simp_all add: split_on_append)

lemma chunks_spell:
  "split_on (CHR '' '') (concat (build_chunks t)) = filter (\<lambda>u. u \<noteq> []) (split_on (CHR '' '') t) @ [[]]"
  unfolding build_chunks_def by (rule split_on_concat) (auto simp: list_all_iff dest: split_on_parts)

lemma reply_or_strip [simp]: "py_strip (reply_or t r) = reply_or t r"
  by (simp add: reply_or_def)

text \<open>
  C27. The inline call keeps the promise of its mode. A fast reply changes nothing but the conversation: it carries no tag,
  memory, fact, wakeup or state operation, and is silent exactly when there is no text. The single pass returns a
  well-formed decision. In both modes the text that is persisted is stripped, and the chunks that are streamed spell it.
\<close>

theorem inline_answer_contract:
  assumes "read_inline mode kind model_name r = Inr (d, g)"
  shows "decision_ok d \<and> md_request_mode d = mode \<and> py_strip (go_reply_text g) = go_reply_text g \<and>
    split_on (CHR '' '') (concat (go_chunks g)) = filter (\<lambda>t. t \<noteq> []) (split_on (CHR '' '') (go_reply_text g)) @ [[]] \<and>
    (mode = ''reply_only'' \<longrightarrow>
       d = plain_decision (if go_reply_text g = [] then ''silence'' else ''reply'') 0 [] (md_internal_thought d) None mode)"
proof (cases "mode = ''reply_only''")
  case True
  obtain m where
    "reply_only_model (parsed_or [(''reply_text'', JStr (py_strip (lr_text r))), (''internal_thought'', JStr [])] r) = Some m"
    using assms True by (auto simp: read_inline_def read_reply_only_def split: option.splits)
  then have m: "d = plain_decision (if reply_or (ro_reply_text m) r = [] then ''silence'' else ''reply'') 0 []
      (if not_blank (ro_internal_thought m) then py_strip (ro_internal_thought m) else ''Inline reply generated.'') None mode"
    "go_reply_text g = reply_or (ro_reply_text m) r" "go_chunks g = build_chunks (reply_or (ro_reply_text m) r)"
    using assms True by (simp_all add: read_inline_def read_reply_only_def Let_def) (auto simp: generation_output_of_def)
  show ?thesis unfolding m(1) m(2) m(3)
    by (simp add: chunks_spell plain_decision_ok not_blank_def) (simp add: plain_decision_def)
next
  case False
  obtain v m where m: "single_pass_model v = Some m" "d = single_pass_decision mode m"
    "go_reply_text g = reply_or (sp_reply_text m) r" "go_chunks g = build_chunks (reply_or (sp_reply_text m) r)"
    using assms False
    by (auto simp: read_inline_def read_single_pass_def Let_def generation_output_of_def split: option.splits)
  show ?thesis using single_pass_ok [OF m(1), of mode] False unfolding m(2) m(3) m(4)
    by (simp add: chunks_spell) (simp add: single_pass_decision_def)
qed


definition sample_response :: "string \<Rightarrow> dict \<Rightarrow> llm_response" where
  "sample_response text parsed = \<lparr>lr_text = text, lr_parsed = parsed, lr_raw = [], lr_prompt_tokens = 1, lr_completion_tokens = 1, lr_total_tokens = 2\<rparr>"

definition sample_wakeup_context :: context_package where
  "sample_wakeup_context = (sample_context None [])\<lparr>cx_event := (cx_event (sample_context None []))\<lparr>re_event_type := ''wakeup'', re_payload := []\<rparr>\<rparr>"

theorem meta_decision_well_formed_witness:
  "\<exists>d. d = meta_decision_of sample_view sample_wakeup_context (sample_response [] [(''decision'', JStr ''silence'')]) \<and>
     md_decision d = ''silence'' \<and> decision_ok d \<and> (\<exists>t. md_event_summary d = Some t \<and> t \<noteq> [])"
proof -
  let ?d = "meta_decision_of sample_view sample_wakeup_context (sample_response [] [(''decision'', JStr ''silence'')])"
  have "re_event_type (cx_event sample_wakeup_context) = ''wakeup''" by (simp add: sample_wakeup_context_def)
  moreover have "md_decision ?d = ''silence''"
    by (simp add: meta_decision_of_def sample_response_def meta_output_model_def strict_model_def dict_keys_def META_FIELDS_def field_or_def
        parsed_decision_def)
  ultimately show ?thesis using meta_decision_well_formed [OF refl [of ?d]] by blast
qed

theorem inline_answer_contract_witness:
  "\<exists>d g. read_inline ''reply_only'' ''mock'' ''m'' (sample_response '' hi  you '' []) = Inr (d, g) \<and> go_reply_text g = ''hi  you'' \<and>
     d = plain_decision ''reply'' 0 [] (md_internal_thought d) None ''reply_only'' \<and>
     split_on (CHR '' '') (concat (go_chunks g)) = [''hi'', ''you'', []]"
proof -
  let ?r = "read_inline ''reply_only'' ''mock'' ''m'' (sample_response '' hi  you '' [])"
  have v: "(case ?r of Inl _ \<Rightarrow> [] | Inr (d, g) \<Rightarrow> go_reply_text g) = ''hi  you''" by code_simp
  then obtain d g where r: "?r = Inr (d, g)" and t: "go_reply_text g = ''hi  you''"
    by (cases ?r) auto
  show ?thesis using inline_answer_contract [OF r] r t by auto
qed

text \<open>
  C3. The chat worker runs the real round: with the nodes of this theory in the place of the language model's calls, a run that
  returns has changed only the action it runs, keeps its place in the queue and never starts it again. No assumption is left
  about what the provider answers.
\<close>

theorem model_runtime_keeps_actions: "runtime_keeps_actions (chat_runtime v (model_nodes e))"
  by (rule chat_runtime_keeps_actions [OF model_nodes_record])

section \<open>When a prompt can be built\<close>

text \<open>Only a time zone that raises stops a prompt.\<close>

lemma clock_payload_total:
  assumes "\<And>z. \<exists>b. vw_zone e z = Inr b" shows "\<exists>d. build_runtime_clock_payload e s cx = Inr d"
proof -
  have zone: "\<exists>z. normalize_timezone_name e v = Inr z" for v
    proof (cases "text_value v")
    case (Some name)
    then show ?thesis using assms [of name] by (auto simp: normalize_timezone_name_def)
  qed (simp add: normalize_timezone_name_def)
  have "\<exists>z. first_timezone e vs = Inr z" for vs
  proof (induction vs)
    case (Cons v vs)
    then show ?case using zone [of v] by (auto split: option.split)
  qed simp
  then obtain z where "resolve_runtime_timezone e cx = Inr z" unfolding resolve_runtime_timezone_def by blast
  then show ?thesis by (simp add: build_runtime_clock_payload_def Let_def)
qed

lemma prompts_total:
  assumes "\<And>z. \<exists>b. vw_zone (nv_view e) z = Inr b"
  shows "\<exists>d. build_runtime_prompt_variables (nv_view e) s cx capabilities include_wakeup = Inr d"
    and "\<exists>t. build_meta_prompt e cx prompt snapshot s = Inr t"
  using clock_payload_total [OF assms, of s cx]
  by (auto simp: build_runtime_prompt_variables_def build_meta_prompt_def build_structured_prompt_context_def Let_def)

text \<open>A name for which the zone database raises something else than an unknown key stops every round that reads it.\<close>

lemma raising_zone_stops_prompts:
  assumes "text_at (re_payload (cx_event cx)) ''timezone'' = Some name" "vw_zone e name = Inl x"
  shows "build_runtime_prompt_variables e s cx capabilities include_wakeup = Inl x"
  using assms by (simp add: build_runtime_prompt_variables_def build_runtime_clock_payload_def resolve_runtime_timezone_def
      normalize_timezone_name_def text_at_def)

end
