(* ===== verification/Spec2Isabelle.thy ===== *)
theory Spec2Isabelle
  imports Authorization Tags Invites SystemSettings Accounts Wakeups JobEffects CocoonForest Providers PromptStore PluginSchema PluginAdmin LlmNodes
begin

text \<open>
  Verification of the backend of Cocoon-SIT (\<open>src/backend/app\<close>).

  The program is a FastAPI server and a worker process over one SQL database. Users own cocoons, which
  form trees, and are members of chat groups; a message becomes an action on a queue; the worker claims
  actions and runs them through a chat runtime; durable jobs and wakeup tasks run later. The theories model
  the tables, and every operation as a function on them.

  The state. \<open>Models\<close> has one record per mapped class of \<open>app/models\<close> and the record \<open>session\<close> with
  one list per table, in insertion order, the clock, and the supply of fresh identifiers. A query
  with \<open>order_by\<close> is \<open>sort_key\<close>, a scalar is the first row. An operation of the API returns
  either an exception or its value with the new session, so an exception rolls the transaction back. \<open>DispatchQueue\<close>
  adds the record \<open>world\<close> for what lives outside the database: the queue, the published events, and the files.

  Theories and sources.
  \<^item> \<open>Prelude\<close>: exceptions and results, Python's strings, rows and tables with their lemmas; \<open>Json\<close>: JSON
    values and dictionaries; \<open>Chains\<close>: following parent links with a bound.
  \<^item> \<open>Rbac\<close>, \<open>UserGroups\<close>, \<open>Authorization\<close>: \<open>services/security/rbac.py\<close>, \<open>services/access/group_service.py\<close>,
    \<open>services/security/authorization_service.py\<close>. The groups form a forest, group administrators
    reach the whole subtree, and the effective rights are what the roles grant.
  \<^item> \<open>Accounts\<close>, \<open>Invites\<close>, \<open>SystemSettings\<close>: users, roles, sessions and tokens, invites and their quota,
    and the settings row.
  \<^item> \<open>TagPolicy\<close>, \<open>Targets\<close>, \<open>Tags\<close>: \<open>services/catalog/tag_policy.py\<close>, \<open>services/workspace/targets.py\<close>
    and the three tag services. The locale \<open>tag_binding\<close> is the contract that cocoons and chat groups share.
  \<^item> \<open>Frames\<close>: what refreshing a session state leaves alone.
  \<^item> \<open>Wakeups\<close>: \<open>services/jobs/durable_jobs.py\<close> and \<open>services/runtime/scheduling/wakeup_tasks.py\<close>.
  \<^item> \<open>DispatchQueue\<close>, \<open>Dispatch\<close>, \<open>DispatchWorker\<close>: the queue (locale \<open>dispatch_queue\<close>), the
    dispatch of messages and the worker, with the step relation \<open>dispatch_step\<close> in which
    requests, worker turns and late commits interleave.
  \<^item> \<open>AuditTrail\<close>: \<open>services/audit\<close>, the file store, and the cleanup of artifacts.
  \<^item> \<open>Memory\<close>: \<open>services/memory/service.py\<close>; what a conversation may see of the memories of others.
  \<^item> \<open>Rounds\<close>, \<open>SideEffects\<close>, \<open>Scheduler\<close>: \<open>services/runtime/orchestration\<close> and
    \<open>services/runtime/scheduling\<close>: what a round deletes, writes and schedules, and the rollback job.

  What is not modelled. Foreign keys, row locks and isolation levels: one session runs at a time between two
  commits. Log calls. Code outside the repository is an argument of the definitions that use it: PyJWT, scrypt,
  SHA-256 and the random source (\<open>auth_env\<close>, \<open>dispatch_service\<close>). The chat runtime is an argument of the
  worker. Floating point numbers are rationals. The manifest lists the parts left out, with the reason.
\<close>

end
